(* ===== verification/Prelude.thy ===== *)
theory Prelude
  imports Complex_Main "HOL-Library.Sublist"
begin

text \<open>
  Shared vocabulary of the development: text as Python's \<open>str\<close> uses it (ASCII only), decimal
  printing and parsing, tables of rows addressed by a key (the SQL tables of the program),
  a small file system (the \<open>pathlib\<close> and \<open>shutil\<close> calls of the program), and the locales
  for machines that run a list of events.
\<close>

named_theorems row_simps "reading a table after writing it"
named_theorems step_simps "unfolding one step of a component"

section \<open>Results\<close>

text \<open>\<open>Inl\<close> is a raised exception, \<open>Inr\<close> a returned value.\<close>

definition bind_result :: "'e + 'a \<Rightarrow> ('a \<Rightarrow> 'e + 'b) \<Rightarrow> 'e + 'b" where
  "bind_result r f = (case r of Inl e \<Rightarrow> Inl e | Inr a \<Rightarrow> f a)"

lemma bind_result_simps [simp]:
  "bind_result (Inl e) f = Inl e"
  "bind_result (Inr a) f = f a"
  by (simp_all add: bind_result_def)

lemma bind_result_Inr_iff:
  "bind_result r f = Inr b \<longleftrightarrow> (\<exists>a. r = Inr a \<and> f a = Inr b)"
  by (cases r) auto

text \<open>A call that may raise after it has changed the state: the state is kept either way.\<close>

definition bind_state :: "('e + 'a) \<times> 's \<Rightarrow> ('a \<Rightarrow> 's \<Rightarrow> ('e + 'b) \<times> 's) \<Rightarrow> ('e + 'b) \<times> 's" where
  "bind_state r f = (case r of (Inl e, s) \<Rightarrow> (Inl e, s) | (Inr a, s) \<Rightarrow> f a s)"

lemma bind_state_simps [simp]:
  "bind_state (Inl e, s) f = (Inl e, s)"
  "bind_state (Inr a, s) f = f a s"
  by (simp_all add: bind_state_def)

lemma bind_state_Inr_iff:
  "bind_state r f = (Inr b, t) \<longleftrightarrow> (\<exists>a s. r = (Inr a, s) \<and> f a s = (Inr b, t))"
  by (cases r; cases "fst r") (auto simp: bind_state_def)

text \<open>A pure call that may raise, inside code that keeps a state.\<close>

definition lift_result :: "('e \<Rightarrow> 'f) \<Rightarrow> 'e + 'a \<Rightarrow> 's \<Rightarrow> ('f + 'a) \<times> 's" where
  "lift_result w r s = (case r of Inl e \<Rightarrow> (Inl (w e), s) | Inr a \<Rightarrow> (Inr a, s))"

definition lift_update :: "('e \<Rightarrow> 'f) \<Rightarrow> 'e + 's \<Rightarrow> 's \<Rightarrow> ('f + unit) \<times> 's" where
  "lift_update w r s = (case r of Inl e \<Rightarrow> (Inl (w e), s) | Inr s' \<Rightarrow> (Inr (), s'))"

lemma lift_result_simps [simp]:
  "lift_result w (Inl e) s = (Inl (w e), s)"
  "lift_result w (Inr a) s = (Inr a, s)"
  by (simp_all add: lift_result_def)

lemma lift_update_simps [simp]:
  "lift_update w (Inl e) s = (Inl (w e), s)"
  "lift_update w (Inr s') s = (Inr (), s')"
  by (simp_all add: lift_update_def)

lemma lift_Inr_iffs:
  "lift_result w r s = (Inr a, t) \<longleftrightarrow> r = Inr a \<and> t = s"
  "lift_update w r' s = (Inr u, t) \<longleftrightarrow> r' = Inr t"
  by (auto simp: lift_result_def lift_update_def split: sum.splits)

section \<open>Text\<close>

definition py_lower_char :: "char \<Rightarrow> char" where
  "py_lower_char c = (if (65::nat) \<le> of_char c \<and> (of_char c :: nat) \<le> 90
     then char_of ((of_char c :: nat) + 32) else c)"

definition py_upper_char :: "char \<Rightarrow> char" where
  "py_upper_char c = (if (97::nat) \<le> of_char c \<and> (of_char c :: nat) \<le> 122
     then char_of ((of_char c :: nat) - 32) else c)"

definition py_lower :: "string \<Rightarrow> string" where
  "py_lower = map py_lower_char"

definition py_upper :: "string \<Rightarrow> string" where
  "py_upper = map py_upper_char"

definition starts_with :: "string \<Rightarrow> string \<Rightarrow> bool" where
  "starts_with pre s \<longleftrightarrow> take (length pre) s = pre"

definition remove_prefix :: "string \<Rightarrow> string \<Rightarrow> string" where
  "remove_prefix pre s = (if starts_with pre s then drop (length pre) s else s)"

fun is_infix_str :: "string \<Rightarrow> string \<Rightarrow> bool" where
  "is_infix_str pat [] = (pat = [])"
| "is_infix_str pat (c # cs) = (starts_with pat (c # cs) \<or> is_infix_str pat cs)"

text \<open>\<open>str.split\<close> on one character, \<open>str.strip\<close> of one character.\<close>

fun split_on :: "char \<Rightarrow> string \<Rightarrow> string list" where
  "split_on c [] = [[]]"
| "split_on c (x # xs) =
     (if x = c then [] # split_on c xs
      else case split_on c xs of [] \<Rightarrow> [[x]] | p # ps \<Rightarrow> (x # p) # ps)"

definition strip_char :: "char \<Rightarrow> string \<Rightarrow> string" where
  "strip_char c s = rev (dropWhile (\<lambda>x. x = c) (rev (dropWhile (\<lambda>x. x = c) s)))"

definition char_code :: "char \<Rightarrow> nat" where
  "char_code c = of_char c"

text \<open>White space of \<^verbatim>\<open>str.strip\<close> and of a pattern, in ASCII.\<close>

definition is_space :: "char \<Rightarrow> bool" where
  "is_space c \<longleftrightarrow> (9 \<le> char_code c \<and> char_code c \<le> 13) \<or> (28 \<le> char_code c \<and> char_code c \<le> 32)"

definition strip_space :: "string \<Rightarrow> string" where
  "strip_space s = rev (dropWhile is_space (rev (dropWhile is_space s)))"

fun str_join :: "string \<Rightarrow> string list \<Rightarrow> string" where
  "str_join sep [] = []"
| "str_join sep [x] = x"
| "str_join sep (x # y # ys) = x @ sep @ str_join sep (y # ys)"

definition ends_with :: "string \<Rightarrow> string \<Rightarrow> bool" where
  "ends_with suf s \<longleftrightarrow> starts_with (rev suf) (rev s)"

lemma split_on_parts: "p \<in> set (split_on c s) \<Longrightarrow> c \<notin> set p"
  by (induction s arbitrary: p) (auto split: list.splits if_splits)

lemma split_on_nonempty [simp]: "split_on c s \<noteq> []"
  by (cases s) (auto split: list.splits)

lemma starts_with_append [simp]: "starts_with pre (pre @ s)"
  by (simp add: starts_with_def)

lemma remove_prefix_append [simp]: "remove_prefix pre (pre @ s) = s"
  by (simp add: remove_prefix_def)

lemma starts_with_iff: "starts_with pre s \<longleftrightarrow> (\<exists>t. s = pre @ t)"
  by (metis append_take_drop_id starts_with_append starts_with_def)

subsection \<open>Decimal numerals\<close>

definition digit_char :: "nat \<Rightarrow> char" where
  "digit_char d = char_of (48 + d)"

definition is_digit :: "char \<Rightarrow> bool" where
  "is_digit c \<longleftrightarrow> (48::nat) \<le> of_char c \<and> (of_char c :: nat) \<le> 57"

definition digit_val :: "char \<Rightarrow> nat" where
  "digit_val c = (of_char c :: nat) - 48"

fun nat_str :: "nat \<Rightarrow> string" where
  "nat_str n = (if n < 10 then [digit_char n] else nat_str (n div 10) @ [digit_char (n mod 10)])"

declare nat_str.simps [simp del]

definition int_str :: "int \<Rightarrow> string" where
  "int_str i = (if i < 0 then ''-'' @ nat_str (nat (- i)) else nat_str (nat i))"

definition nat_of_digits :: "string \<Rightarrow> nat" where
  "nat_of_digits s = foldl (\<lambda>a c. 10 * a + digit_val c) 0 s"

lemma of_char_digit: "d < 10 \<Longrightarrow> (of_char (digit_char d) :: nat) = 48 + d"
  by (simp add: digit_char_def)

lemma digit_char_ok:
  "d < 10 \<Longrightarrow> is_digit (digit_char d)"
  "d < 10 \<Longrightarrow> digit_val (digit_char d) = d"
  by (simp_all add: is_digit_def digit_val_def of_char_digit)

lemma nat_str_digits: "list_all is_digit (nat_str n)"
proof (induction n rule: nat_str.induct)
  case (1 n)
  then show ?case
    by (subst nat_str.simps) (simp add: digit_char_ok)
qed

lemma nat_str_nonempty: "nat_str n \<noteq> []"
  by (subst nat_str.simps) simp

lemma nat_of_digits_snoc: "nat_of_digits (s @ [c]) = 10 * nat_of_digits s + digit_val c"
  by (simp add: nat_of_digits_def)

lemma nat_of_digits_nat_str: "nat_of_digits (nat_str n) = n"
proof (induction n rule: nat_str.induct)
  case (1 n)
  show ?case
  proof (cases "n < 10")
    case True
    then show ?thesis
      by (subst nat_str.simps) (simp add: nat_of_digits_def digit_char_ok)
  next
    case False
    with 1 have "nat_of_digits (nat_str (n div 10)) = n div 10" by simp
    with False show ?thesis
      by (subst nat_str.simps) (simp add: nat_of_digits_snoc digit_char_ok)
  qed
qed

lemma nat_str_inj: "nat_str m = nat_str n \<longleftrightarrow> m = n"
  by (metis nat_of_digits_nat_str)

section \<open>Tables of rows\<close>

text \<open>
  A table is the list of its rows in insertion order. \<open>sql_update\<close> is
  \<^verbatim>\<open>UPDATE .. SET .. WHERE p\<close>, \<open>sql_delete\<close> is \<^verbatim>\<open>DELETE .. WHERE p\<close>, \<open>row_get\<close> is the
  \<^verbatim>\<open>fetchone\<close> of a select on the primary key.
\<close>

definition sql_update :: "('r \<Rightarrow> bool) \<Rightarrow> ('r \<Rightarrow> 'r) \<Rightarrow> 'r list \<Rightarrow> 'r list" where
  "sql_update p f rows = map (\<lambda>r. if p r then f r else r) rows"

definition sql_delete :: "('r \<Rightarrow> bool) \<Rightarrow> 'r list \<Rightarrow> 'r list" where
  "sql_delete p rows = filter (\<lambda>r. \<not> p r) rows"

definition row_get :: "('r \<Rightarrow> 'k) \<Rightarrow> 'k \<Rightarrow> 'r list \<Rightarrow> 'r option" where
  "row_get key k rows = find (\<lambda>r. key r = k) rows"

lemma row_get_Nil [row_simps, simp]: "row_get key k [] = None"
  by (simp add: row_get_def)

lemma row_get_Cons [row_simps, simp]:
  "row_get key k (r # rows) = (if key r = k then Some r else row_get key k rows)"
  by (simp add: row_get_def)

lemma row_get_append [row_simps]:
  "row_get key k (xs @ ys) = (case row_get key k xs of None \<Rightarrow> row_get key k ys | Some r \<Rightarrow> Some r)"
  by (induction xs) auto

lemma row_get_None_iff: "row_get key k rows = None \<longleftrightarrow> k \<notin> key ` set rows"
  by (induction rows) auto

lemma row_get_SomeD: "row_get key k rows = Some r \<Longrightarrow> r \<in> set rows \<and> key r = k"
  by (induction rows) (auto split: if_splits)

lemma row_get_in_set: "distinct (map key rows) \<Longrightarrow> r \<in> set rows \<Longrightarrow> row_get key (key r) rows = Some r"
  by (induction rows) auto

lemma sql_update_simps [simp]:
  "sql_update p f [] = []"
  "sql_update p f (r # rows) = (if p r then f r else r) # sql_update p f rows"
  by (simp_all add: sql_update_def)

lemma map_sql_update: "(\<And>r. g (f r) = g r) \<Longrightarrow> map g (sql_update p f rows) = map g rows"
  by (simp add: sql_update_def)

lemma set_sql_update: "set (sql_update p f rows) = (\<lambda>r. if p r then f r else r) ` set rows"
  by (simp add: sql_update_def)

lemma row_get_sql_update [row_simps]:
  assumes "\<And>r. key (f r) = key r"
  shows "row_get key k (sql_update p f rows)
    = map_option (\<lambda>r. if p r then f r else r) (row_get key k rows)"
  using assms by (induction rows) auto

lemma row_get_sql_update_sel [row_simps]:
  assumes "\<And>r. p r \<Longrightarrow> key (f r) = key r"
  shows "row_get key k (sql_update p f rows)
    = map_option (\<lambda>r. if p r then f r else r) (row_get key k rows)"
  using assms by (induction rows) auto

lemma map_sql_update_sel: "(\<And>r. p r \<Longrightarrow> g (f r) = g r) \<Longrightarrow> map g (sql_update p f rows) = map g rows"
  by (simp add: sql_update_def)

lemma row_get_sql_delete [row_simps]:
  "row_get key k (sql_delete (\<lambda>r. key r = k') rows) = (if k = k' then None else row_get key k rows)"
  by (induction rows) (auto simp: sql_delete_def)

lemma distinct_sql_delete: "distinct (map key rows) \<Longrightarrow> distinct (map key (sql_delete p rows))"
  by (simp add: sql_delete_def distinct_map_filter)

section \<open>Machines that run a list of events\<close>

text \<open>
  \<open>step_invariant\<close> is the contract of a component whose operations keep an invariant,
  \<open>step_relation\<close> that of one whose operations only move along a preorder (a status that
  never goes back, a log that only grows). A client gets the fact about every run.
\<close>

locale step_invariant =
  fixes step :: "'s \<Rightarrow> 'e \<Rightarrow> 's"
    and inv :: "'s \<Rightarrow> bool"
  assumes step_inv: "inv s \<Longrightarrow> inv (step s e)"
begin

lemma run_inv: "inv s \<Longrightarrow> inv (foldl step s es)"
  by (induction es arbitrary: s) (auto intro: step_inv)

lemma run_inv_take: "inv s \<Longrightarrow> inv (foldl step s (take n es))"
  by (rule run_inv)

end

text \<open>
  \<open>state_preorder\<close> is the contract of code that threads a state through calls that may raise:
  what each call keeps, the composition keeps, on every path.
\<close>

locale state_preorder =
  fixes rel :: "'s \<Rightarrow> 's \<Rightarrow> bool"
  assumes refl_rel [simp]: "rel s s"
    and trans_rel: "rel s t \<Longrightarrow> rel t u \<Longrightarrow> rel s u"
begin

lemma rel_bind:
  assumes "rel s (snd r)" and "\<And>a t. r = (Inr a, t) \<Longrightarrow> rel t (snd (f a t))"
  shows "rel s (snd (bind_state r f))"
  using assms by (cases r; cases "fst r") (auto intro: trans_rel)

lemma rel_lift_update: "(\<And>t. r = Inr t \<Longrightarrow> rel s t) \<Longrightarrow> rel s (snd (lift_update w r s))"
  by (cases r) auto

lemma rel_lift_result: "rel s (snd (lift_result w r s))"
  by (cases r) auto

end

locale step_relation =
  fixes step :: "'s \<Rightarrow> 'e \<Rightarrow> 's"
    and inv :: "'s \<Rightarrow> bool"
    and rel :: "'s \<Rightarrow> 's \<Rightarrow> bool"
  assumes rel_refl: "rel s s"
    and rel_trans: "rel s t \<Longrightarrow> rel t u \<Longrightarrow> rel s u"
    and step_keeps: "inv s \<Longrightarrow> inv (step s e)"
    and step_rel: "inv s \<Longrightarrow> rel s (step s e)"
begin

lemma run_rel: "inv s \<Longrightarrow> rel s (foldl step s es)"
proof (induction es arbitrary: s)
  case Nil
  then show ?case by (simp add: rel_refl)
next
  case (Cons e es)
  then have "rel (step s e) (foldl step (step s e) es)"
    by (blast intro: step_keeps)
  with Cons.prems show ?case
    by (auto intro: rel_trans step_rel)
qed

lemma run_rel_between: "inv s \<Longrightarrow> rel (foldl step s es) (foldl step s (es @ fs))"
proof -
  assume "inv s"
  then have "inv (foldl step s es)"
    by (induction es arbitrary: s) (auto intro: step_keeps)
  then show ?thesis by (simp add: run_rel)
qed

end

end
