(* ===== verification/FileSys.thy ===== *)
theory FileSys
  imports Prelude
begin

text \<open>
  The part of \<open>pathlib\<close> and \<open>shutil\<close> the program uses, over a file system that is a map
  from absolute paths to nodes: \<open>mkdir(parents=True, exist_ok=True)\<close>, \<open>exists\<close>, \<open>is_file\<close>,
  \<open>rmtree\<close>, \<open>move\<close>, \<open>unlink(missing_ok=True)\<close> and a write that replaces a file. Every
  exception the calls raise is an \<open>Inl\<close>.
\<close>

type_synonym path = "string list"

datatype 'c node = FileN 'c | DirN

type_synonym 'c fs = "path \<Rightarrow> 'c node option"

datatype os_error = FileNotFoundError path | FileExistsError path | NotADirectoryError path
  | ShutilError path path

definition path_str :: "path \<Rightarrow> string" where
  "path_str p = concat (map (\<lambda>s. ''/'' @ s) p)"

definition fs_exists :: "path \<Rightarrow> 'c fs \<Rightarrow> bool" where
  "fs_exists p fs \<longleftrightarrow> fs p \<noteq> None"

definition fs_is_file :: "path \<Rightarrow> 'c fs \<Rightarrow> bool" where
  "fs_is_file p fs = (case fs p of Some (FileN c) \<Rightarrow> True | _ \<Rightarrow> False)"

definition fs_is_dir :: "path \<Rightarrow> 'c fs \<Rightarrow> bool" where
  "fs_is_dir p fs = (fs p = Some DirN)"

definition fs_read :: "path \<Rightarrow> 'c fs \<Rightarrow> os_error + 'c" where
  "fs_read p fs = (case fs p of Some (FileN c) \<Rightarrow> Inr c | _ \<Rightarrow> Inl (FileNotFoundError p))"

definition fs_mkdirs :: "path \<Rightarrow> 'c fs \<Rightarrow> os_error + 'c fs" where
  "fs_mkdirs p fs =
     (case find (\<lambda>q. fs_is_file q fs) (prefixes p) of
        Some q \<Rightarrow> Inl (FileExistsError q)
      | None \<Rightarrow> Inr (\<lambda>q. if prefix q p \<and> fs q = None then Some DirN else fs q))"

definition fs_write :: "path \<Rightarrow> 'c \<Rightarrow> 'c fs \<Rightarrow> os_error + 'c fs" where
  "fs_write p c fs =
     (if p = [] \<or> \<not> fs_is_dir (butlast p) fs then Inl (FileNotFoundError p)
      else if fs_is_dir p fs then Inl (FileExistsError p)
      else Inr (fs(p \<mapsto> FileN c)))"

definition fs_unlink :: "path \<Rightarrow> 'c fs \<Rightarrow> 'c fs" where
  "fs_unlink p fs = (if fs_is_file p fs then fs(p := None) else fs)"

definition fs_remove_below :: "path \<Rightarrow> 'c fs \<Rightarrow> 'c fs" where
  "fs_remove_below p fs = (\<lambda>q. if prefix p q then None else fs q)"

definition fs_rmtree :: "path \<Rightarrow> 'c fs \<Rightarrow> os_error + 'c fs" where
  "fs_rmtree p fs =
     (case fs p of
        None \<Rightarrow> Inl (FileNotFoundError p)
      | Some (FileN c) \<Rightarrow> Inl (NotADirectoryError p)
      | Some DirN \<Rightarrow> Inr (fs_remove_below p fs))"

definition fs_rename :: "path \<Rightarrow> path \<Rightarrow> 'c fs \<Rightarrow> 'c fs" where
  "fs_rename src dst fs =
     (\<lambda>q. if prefix dst q then fs (src @ drop (length dst) q)
          else if prefix src q then None else fs q)"

text \<open>
  \<open>shutil.move\<close>: an existing directory as the destination receives the source below it
  (and must not hold its name already); a directory is not moved into itself.
\<close>

definition fs_move :: "path \<Rightarrow> path \<Rightarrow> 'c fs \<Rightarrow> os_error + 'c fs" where
  "fs_move src dst fs =
     (let real_dst = (if fs_is_dir dst fs then dst @ [last src] else dst) in
      if fs_is_dir dst fs \<and> fs_exists real_dst fs then Inl (ShutilError src real_dst)
      else if \<not> fs_exists src fs then Inl (FileNotFoundError src)
      else if prefix src real_dst then Inl (ShutilError src real_dst)
      else if real_dst = [] \<or> \<not> fs_is_dir (butlast real_dst) fs then Inl (FileNotFoundError real_dst)
      else Inr (fs_rename src real_dst fs))"

section \<open>Reading after writing\<close>

lemma fs_write_Inr:
  "fs_write p c fs = Inr fs' \<Longrightarrow> fs' = fs(p \<mapsto> FileN c)"
  by (auto simp: fs_write_def split: if_splits)

lemma fs_mkdirs_Inr:
  "fs_mkdirs p fs = Inr fs' \<Longrightarrow> fs' = (\<lambda>q. if prefix q p \<and> fs q = None then Some DirN else fs q)"
  by (auto simp: fs_mkdirs_def split: option.splits)

lemma fs_mkdirs_keeps:
  "fs_mkdirs p fs = Inr fs' \<Longrightarrow> fs q \<noteq> None \<Longrightarrow> fs' q = fs q"
  "fs_mkdirs p fs = Inr fs' \<Longrightarrow> \<not> prefix q p \<Longrightarrow> fs' q = fs q"
  by (auto dest: fs_mkdirs_Inr)

lemma find_prefixes_None:
  "find P (prefixes p) = None \<Longrightarrow> prefix q p \<Longrightarrow> \<not> P q"
  by (metis find_None_iff in_set_prefixes)

lemma fs_mkdirs_is_dir:
  assumes "fs_mkdirs p fs = Inr fs'" and "prefix q p"
  shows "fs_is_dir q fs'"
proof -
  from assms(1) have n: "find (\<lambda>q. fs_is_file q fs) (prefixes p) = None"
    by (auto simp: fs_mkdirs_def split: option.splits)
  from find_prefixes_None [OF n assms(2)] show ?thesis
    using fs_mkdirs_Inr [OF assms(1)] assms(2)
    by (auto simp: fs_is_dir_def fs_is_file_def split: node.splits option.splits)
qed

lemma fs_mkdirs_total:
  assumes "\<And>q. prefix q p \<Longrightarrow> \<not> fs_is_file q fs"
  shows "\<exists>fs'. fs_mkdirs p fs = Inr fs'"
proof -
  have "find (\<lambda>q. fs_is_file q fs) (prefixes p) = None"
    using assms by (auto simp: find_None_iff)
  then show ?thesis by (simp add: fs_mkdirs_def)
qed

lemma fs_rmtree_Inr: "fs_rmtree p fs = Inr fs' \<Longrightarrow> fs' = fs_remove_below p fs"
  by (auto simp: fs_rmtree_def split: option.splits node.splits)

lemma fs_remove_below_gone: "prefix p q \<Longrightarrow> fs_remove_below p fs q = None"
  by (simp add: fs_remove_below_def)

lemma fs_remove_below_other: "\<not> prefix p q \<Longrightarrow> fs_remove_below p fs q = fs q"
  by (simp add: fs_remove_below_def)

lemma fs_rename_dst: "fs_rename src dst fs (dst @ q) = fs (src @ q)"
  by (simp add: fs_rename_def)

lemma fs_rename_src: "\<not> prefix dst q \<Longrightarrow> prefix src q \<Longrightarrow> fs_rename src dst fs q = None"
  by (simp add: fs_rename_def)

lemma fs_rename_other: "\<not> prefix dst q \<Longrightarrow> \<not> prefix src q \<Longrightarrow> fs_rename src dst fs q = fs q"
  by (simp add: fs_rename_def)

lemma fs_move_fresh:
  assumes "fs_move src dst fs = Inr fs'" and "fs dst = None"
  shows "fs' = fs_rename src dst fs"
  using assms by (auto simp: fs_move_def fs_is_dir_def Let_def split: if_splits)

text \<open>A well-formed tree: whatever exists has all its parents as directories.\<close>

definition fs_wf :: "'c fs \<Rightarrow> bool" where
  "fs_wf fs \<longleftrightarrow> (\<forall>p q. strict_prefix p q \<longrightarrow> fs q \<noteq> None \<longrightarrow> fs p = Some DirN)"

lemma fs_wf_below: "fs_wf fs \<Longrightarrow> \<not> fs_is_dir p fs \<Longrightarrow> prefix p q \<Longrightarrow> q \<noteq> p \<Longrightarrow> fs q = None"
  by (metis fs_is_dir_def fs_wf_def strict_prefix_def)

lemma fs_wf_remove_below: "fs_wf fs \<Longrightarrow> fs_wf (fs_remove_below p fs)"
  by (auto simp: fs_wf_def fs_remove_below_def strict_prefix_def dest: prefix_order.order_trans)

end
