(* ===== verification/TrainingSpec.thy ===== *)
theory TrainingSpec
  imports FileSys
begin

text \<open>
  The training specification of \<^verbatim>\<open>training/job.py\<close>: \<open>TrainingJobSpec\<close> with its field bounds and
  its two validators, the device resolution of \<^verbatim>\<open>training/device.py\<close>, and what \<open>build_policy\<close>
  asks the policy library for. Field and class names are the source's, with the prefix
  \<open>spec_\<close> on fields that other records of the program have too.
\<close>

section \<open>The specification\<close>

record RunOptions =
  resume_from :: "string option"
  hf_token :: "string option"

datatype policy_source = Physicalai | Lerobot

datatype num_workers = Workers int | AutoWorkers

record TrainingJobSpec =
  spec_policy :: string
  spec_policy_source :: policy_source
  spec_max_epochs :: int
  spec_batch_size :: int
  spec_num_workers :: num_workers
  spec_val_split :: real
  spec_precision :: string
  spec_compile_model :: bool
  spec_augment_images :: bool
  spec_auto_scale_batch_size :: bool
  spec_image_key_reorder_map :: "(string \<times> int) list"
  spec_num_cameras :: int
  spec_export_backends :: "string list option"
  spec_snapflow_start_epoch :: "int option"
  spec_device_type :: "string option"
  spec_device_index :: "int option"
  spec_lora_enabled :: bool
  spec_lora_rank :: int
  spec_lora_alpha :: "int option"
  spec_lora_dropout :: real
  spec_lora_use_dora :: bool
  spec_run_options :: RunOptions

definition SNAPFLOW_POLICIES :: "string list" where
  "SNAPFLOW_POLICIES = [''pi05'', ''smolvla'']"

definition PEFT_POLICIES :: "string list" where
  "PEFT_POLICIES = [''pi05'', ''molmoact2'']"

definition PRETRAINED_BASE_CHECKPOINTS :: "(string \<times> string) list" where
  "PRETRAINED_BASE_CHECKPOINTS =
     [(''molmoact2'', ''allenai/MolmoAct2''),
      (''pi05'', ''lerobot/pi05_base''),
      (''rldx1'', ''RLWRLD/RLDX-1-PT''),
      (''smolvla'', ''lerobot/smolvla_base''),
      (''xr0'', ''XiaomiRobotics/Xiaomi-Robotics-0-Pretrain'')]"

definition default_spec :: "string \<Rightarrow> TrainingJobSpec" where
  "default_spec p =
     \<lparr>spec_policy = p, spec_policy_source = Physicalai, spec_max_epochs = 5, spec_batch_size = 8,
      spec_num_workers = AutoWorkers, spec_val_split = 1 / 10, spec_precision = ''bf16-mixed'',
      spec_compile_model = False, spec_augment_images = False, spec_auto_scale_batch_size = False,
      spec_image_key_reorder_map = [], spec_num_cameras = 0, spec_export_backends = None,
      spec_snapflow_start_epoch = None, spec_device_type = None, spec_device_index = None,
      spec_lora_enabled = False, spec_lora_rank = 32, spec_lora_alpha = None,
      spec_lora_dropout = 1 / 20, spec_lora_use_dora = False,
      spec_run_options = \<lparr>resume_from = None, hf_token = None\<rparr>\<rparr>"

datatype spec_error =
    FieldConstraint
  | DoraWithoutLora
  | LoraRequiresPhysicalai
  | LoraPolicyUnavailable string
  | SnapflowUnsupported string
  | SnapflowBoundary int int

text \<open>The \<open>ge\<close>, \<open>le\<close> and \<open>lt\<close> bounds pydantic checks before the validators run.\<close>

definition spec_fields_ok :: "TrainingJobSpec \<Rightarrow> bool" where
  "spec_fields_ok s \<longleftrightarrow>
     1 \<le> spec_max_epochs s \<and> 1 \<le> spec_batch_size s
     \<and> 0 \<le> spec_val_split s \<and> spec_val_split s < 1
     \<and> 0 \<le> spec_num_cameras s
     \<and> pred_option (\<lambda>e. 1 \<le> e) (spec_snapflow_start_epoch s)
     \<and> pred_option (\<lambda>i. 0 \<le> i) (spec_device_index s)
     \<and> 1 \<le> spec_lora_rank s \<and> spec_lora_rank s \<le> 256
     \<and> pred_option (\<lambda>a. 1 \<le> a) (spec_lora_alpha s)
     \<and> 0 \<le> spec_lora_dropout s \<and> spec_lora_dropout s < 1"

definition validate_lora :: "TrainingJobSpec \<Rightarrow> spec_error + TrainingJobSpec" where
  "validate_lora s =
     (if spec_lora_use_dora s \<and> \<not> spec_lora_enabled s then Inl DoraWithoutLora
      else if \<not> spec_lora_enabled s then Inr s
      else if spec_policy_source s \<noteq> Physicalai then Inl LoraRequiresPhysicalai
      else if py_lower (spec_policy s) \<notin> set PEFT_POLICIES
        then Inl (LoraPolicyUnavailable (spec_policy s))
      else Inr s)"

definition validate_snapflow :: "TrainingJobSpec \<Rightarrow> spec_error + TrainingJobSpec" where
  "validate_snapflow s =
     (case spec_snapflow_start_epoch s of
        None \<Rightarrow> Inr s
      | Some e \<Rightarrow>
          if py_lower (spec_policy s) \<notin> set SNAPFLOW_POLICIES
            then Inl (SnapflowUnsupported (spec_policy s))
          else if e \<ge> spec_max_epochs s then Inl (SnapflowBoundary e (spec_max_epochs s))
          else Inr s)"

definition validate_spec :: "TrainingJobSpec \<Rightarrow> spec_error + TrainingJobSpec" where
  "validate_spec s =
     (if spec_fields_ok s then bind_result (validate_lora s) validate_snapflow
      else Inl FieldConstraint)"

lemma validate_lora_same: "validate_lora s = Inr s' \<Longrightarrow> s' = s"
  by (auto simp: validate_lora_def split: if_splits)

lemma validate_snapflow_same: "validate_snapflow s = Inr s' \<Longrightarrow> s' = s"
  by (auto simp: validate_snapflow_def split: if_splits option.splits)

lemma validate_spec_Inr_iff:
  "validate_spec s = Inr s' \<longleftrightarrow>
     s' = s \<and> spec_fields_ok s \<and> validate_lora s = Inr s \<and> validate_snapflow s = Inr s"
  unfolding validate_spec_def
  by (cases "validate_lora s") (auto dest: validate_lora_same validate_snapflow_same)

text \<open>
  The phase split of a run: the epochs spent on flow matching and the epochs spent
  distilling, as \<open>snapflow_start_epoch\<close> cuts the budget.
\<close>

definition teacher_epochs :: "TrainingJobSpec \<Rightarrow> int" where
  "teacher_epochs s = (case spec_snapflow_start_epoch s of None \<Rightarrow> spec_max_epochs s | Some e \<Rightarrow> e)"

definition distill_epochs :: "TrainingJobSpec \<Rightarrow> int" where
  "distill_epochs s = spec_max_epochs s - teacher_epochs s"

section \<open>Device resolution\<close>

text \<open>The three \<open>torch\<close> probes of the machine.\<close>

record torch_probe =
  xpu_available :: bool
  cuda_available :: bool
  mps_available :: bool

definition resolve_accelerator :: "torch_probe \<Rightarrow> string option \<Rightarrow> string" where
  "resolve_accelerator t device_type =
     (case device_type of
        Some d \<Rightarrow> d
      | None \<Rightarrow>
          if xpu_available t then ''xpu''
          else if cuda_available t then ''cuda''
          else if mps_available t then ''mps''
          else ''cpu'')"

definition resolve_strategy :: "torch_probe \<Rightarrow> string option \<Rightarrow> string" where
  "resolve_strategy t device_type =
     (if resolve_accelerator t device_type = ''xpu'' then ''xpu_single'' else ''auto'')"

datatype devices_arg = DeviceList "int list" | DeviceCount int

definition resolve_devices :: "int option \<Rightarrow> devices_arg" where
  "resolve_devices device_index =
     (case device_index of Some i \<Rightarrow> DeviceList [i] | None \<Rightarrow> DeviceCount 1)"

section \<open>Constructing the policy\<close>

text \<open>
  \<open>get_policy\<close> and \<open>load_from_checkpoint\<close> belong to the policy library; the model keeps the
  request \<open>build_policy\<close> makes of it. \<open>ctor_params\<close> is what \<open>inspect.signature\<close> reads off a
  policy class.
\<close>

datatype kwarg = KBool bool | KStr string | KInt int | KReal real | KNone | KMap "(string \<times> int) list"

datatype policy_class = LeRobotClass | PhysicalaiClass string

datatype policy_request =
    GetPolicy string policy_source "(string \<times> kwarg) list"
  | LoadPolicy policy_class string "string option"

definition camera_layout_kwargs ::
  "(string \<Rightarrow> string list) \<Rightarrow> TrainingJobSpec \<Rightarrow> (string \<times> kwarg) list" where
  "camera_layout_kwargs ctor_params s =
     (if spec_image_key_reorder_map s = [] \<and> spec_num_cameras s \<le> 0 then []
      else if spec_policy_source s \<noteq> Physicalai then []
      else if \<exists>n \<in> set [''image_key_reorder_map'', ''num_cameras''].
                n \<notin> set (ctor_params (spec_policy s)) then []
      else [(''image_key_reorder_map'', KMap (spec_image_key_reorder_map s)),
            (''num_cameras'', KInt (spec_num_cameras s))])"

text \<open>\<open>compile_mode\<close> is the restored policy's \<open>config.compile_mode\<close>, if it has one.\<close>

definition load_policy_from_checkpoint ::
  "string option \<Rightarrow> TrainingJobSpec \<Rightarrow> string \<Rightarrow> policy_request" where
  "load_policy_from_checkpoint config_mode s checkpoint =
     (let cls = (if spec_policy_source s = Lerobot then LeRobotClass
                 else PhysicalaiClass (spec_policy s));
          mode = (case config_mode of None \<Rightarrow> ''default'' | Some m \<Rightarrow> m)
      in LoadPolicy cls checkpoint
           (if spec_compile_model s then
              Some (if py_lower (spec_policy s) = ''pi05'' \<and> mode = ''max-autotune''
                    then ''default'' else mode)
            else None))"

definition lora_kwargs :: "TrainingJobSpec \<Rightarrow> (string \<times> kwarg) list" where
  "lora_kwargs s =
     (if spec_lora_enabled s then
        [(''lora_enabled'', KBool True),
         (''lora_rank'', KInt (spec_lora_rank s)),
         (''lora_alpha'', case spec_lora_alpha s of None \<Rightarrow> KNone | Some a \<Rightarrow> KInt a),
         (''lora_dropout'', KReal (spec_lora_dropout s)),
         (''lora_use_dora'', KBool (spec_lora_use_dora s))]
      else [])"

definition build_policy ::
  "(string \<Rightarrow> string list) \<Rightarrow> string option \<Rightarrow> TrainingJobSpec \<Rightarrow> string option \<Rightarrow> policy_request" where
  "build_policy ctor_params config_mode s resume =
     (case resume of
        Some ckpt \<Rightarrow> load_policy_from_checkpoint config_mode s ckpt
      | None \<Rightarrow>
          GetPolicy (spec_policy s) (spec_policy_source s)
            ([(''compile_model'', KBool (spec_compile_model s))]
             @ (if spec_policy_source s = Physicalai then
                  (case map_of PRETRAINED_BASE_CHECKPOINTS (py_lower (spec_policy s)) of
                     Some ckpt \<Rightarrow> [(''pretrained_name_or_path'', KStr ckpt)]
                   | None \<Rightarrow> [])
                else [])
             @ camera_layout_kwargs ctor_params s
             @ lora_kwargs s))"

definition SNAPFLOW_CHECKPOINT_PREFIX :: string where
  "SNAPFLOW_CHECKPOINT_PREFIX = ''snapflow-''"

definition build_snapflow_callback :: "TrainingJobSpec \<Rightarrow> (int \<times> string) option" where
  "build_snapflow_callback s =
     map_option (\<lambda>e. (e, SNAPFLOW_CHECKPOINT_PREFIX)) (spec_snapflow_start_epoch s)"

text \<open>The keyword names are pairwise distinct: no \<open>kwargs.update\<close> overwrites another.\<close>

lemma build_policy_kwargs_distinct:
  "build_policy cp cm s None = GetPolicy n src kw \<Longrightarrow> distinct (map fst kw)"
  by (auto simp: build_policy_def camera_layout_kwargs_def lora_kwargs_def
      split: option.splits if_splits)

text \<open>C1\<close>

end
