(* ===== verification/TrainingJob.thy ===== *)
theory TrainingJob
  imports TrainingSpec
begin

text \<open>
  \<open>run_training_job\<close> of \<^verbatim>\<open>training/job.py\<close>: fit, checkpoint, publish, export, with the scope of
  \<open>HF_TOKEN\<close>. The Lightning trainer and the policy library are the fields of \<open>fit_env\<close>
  (\<open>library_environ\<close> is whatever they do to the process environment); the directories are a \<open>FileSys\<close> file system. Memory release and logging have no effect on
  the modelled state.
\<close>

definition CHECKPOINT_NAME :: string where
  "CHECKPOINT_NAME = ''model.ckpt''"

definition SNAPFLOW_CHECKPOINT_NAME :: string where
  "SNAPFLOW_CHECKPOINT_NAME = SNAPFLOW_CHECKPOINT_PREFIX @ CHECKPOINT_NAME"

definition EXPORTS_DIRNAME :: string where
  "EXPORTS_DIRNAME = ''exports''"

datatype job_error = OsError os_error | LibraryError string

datatype export_outcome = Exported | ExportImportError | ExportFailed

record ('c, 'p) fit_env =
  setup_error :: "string option"
  library_environ :: "(string \<Rightarrow> string option) \<Rightarrow> (string \<Rightarrow> string option)"
  fit :: "'c fs \<Rightarrow> string + 'c fs"
  stop_requested :: bool
  final_weights :: 'c
  snapflow_activated :: bool
  trained_policy :: 'p
  load_policy :: "policy_request \<Rightarrow> 'c \<Rightarrow> 'p option"
  policy_exportable :: "'p \<Rightarrow> bool"
  policy_backends :: "'p \<Rightarrow> string list"
  policy_export :: "'p \<Rightarrow> string \<Rightarrow> path \<Rightarrow> 'c fs \<Rightarrow> export_outcome \<times> 'c fs"

definition lift_os :: "os_error + 'a \<Rightarrow> job_error + 'a" where
  "lift_os r = (case r of Inl e \<Rightarrow> Inl (OsError e) | Inr a \<Rightarrow> Inr a)"

definition lift_lib :: "string + 'a \<Rightarrow> job_error + 'a" where
  "lift_lib r = (case r of Inl e \<Rightarrow> Inl (LibraryError e) | Inr a \<Rightarrow> Inr a)"

lemma lift_simps [simp]:
  "lift_os (Inl e) = Inl (OsError e)" "lift_os (Inr a) = Inr a"
  "lift_lib (Inl m) = Inl (LibraryError m)" "lift_lib (Inr b) = Inr b"
  by (simp_all add: lift_os_def lift_lib_def)

lemma lift_Inr_iff [simp]:
  "lift_os r = Inr a \<longleftrightarrow> r = Inr a" "lift_lib q = Inr b \<longleftrightarrow> q = Inr b"
  by (cases r; simp) (cases q; simp)

section \<open>The token scope\<close>

type_synonym environ = "string \<Rightarrow> string option"

definition hf_token_env ::
  "string option \<Rightarrow> (environ \<Rightarrow> 'r \<times> environ) \<Rightarrow> environ \<Rightarrow> 'r \<times> environ" where
  "hf_token_env token body env =
     (case token of
        None \<Rightarrow> body env
      | Some t \<Rightarrow>
          (let previous = env ''HF_TOKEN'';
               (r, env1) = body (env(''HF_TOKEN'' \<mapsto> t))
           in (r, env1(''HF_TOKEN'' := previous))))"

section \<open>Checkpoints\<close>

definition ensure_checkpoint_exists :: "'c \<Rightarrow> path \<Rightarrow> 'c fs \<Rightarrow> os_error + 'c fs" where
  "ensure_checkpoint_exists w cache_dir fs =
     (let checkpoint = cache_dir @ [CHECKPOINT_NAME] in
      if fs_is_file checkpoint fs then Inr fs else fs_write checkpoint w fs)"

definition finalize_checkpoints :: "'c \<Rightarrow> path \<Rightarrow> bool option \<Rightarrow> 'c fs \<Rightarrow> os_error + 'c fs" where
  "finalize_checkpoints w cache_dir snapflow_callback fs =
     bind_result (ensure_checkpoint_exists w cache_dir fs) (\<lambda>fs1.
       if snapflow_callback = None \<or> snapflow_callback = Some False then Inr fs1
       else
         (let snapflow_checkpoint = cache_dir @ [SNAPFLOW_CHECKPOINT_NAME] in
          if fs_is_file snapflow_checkpoint fs1 then Inr fs1
          else fs_write snapflow_checkpoint w fs1))"

definition publish :: "path \<Rightarrow> path \<Rightarrow> 'c fs \<Rightarrow> os_error + 'c fs" where
  "publish cache_dir output_dir fs =
     bind_result (fs_mkdirs (butlast output_dir) fs) (\<lambda>fs1.
     bind_result (if fs_exists output_dir fs1 then fs_rmtree output_dir fs1 else Inr fs1) (\<lambda>fs2.
       fs_move cache_dir output_dir fs2))"

definition resolve_checkpoint :: "path \<Rightarrow> 'c fs \<Rightarrow> path" where
  "resolve_checkpoint model_dir fs =
     (let snapflow_checkpoint = model_dir @ [SNAPFLOW_CHECKPOINT_NAME] in
      if fs_is_file snapflow_checkpoint fs then snapflow_checkpoint
      else model_dir @ [CHECKPOINT_NAME])"

section \<open>Export\<close>

definition export_policy ::
  "('c, 'p) fit_env \<Rightarrow> TrainingJobSpec \<Rightarrow> path \<Rightarrow> 'c fs \<Rightarrow> 'p" where
  "export_policy env s output_dir fs =
     (let resolved = resolve_checkpoint output_dir fs in
      if last resolved \<noteq> SNAPFLOW_CHECKPOINT_NAME then trained_policy env
      else
        (case fs_read resolved fs of
           Inl e \<Rightarrow> trained_policy env
         | Inr c \<Rightarrow>
             (case load_policy env
                     (load_policy_from_checkpoint None (s\<lparr>spec_compile_model := False\<rparr>)
                        (path_str resolved)) c of
                None \<Rightarrow> trained_policy env
              | Some p \<Rightarrow> p)))"

type_synonym report = "int \<times> string"

definition selected_backends :: "string list option \<Rightarrow> string list \<Rightarrow> string list" where
  "selected_backends requested supported =
     (case requested of None \<Rightarrow> supported | Some rs \<Rightarrow> filter (\<lambda>b. b \<in> set rs) supported)"

fun export_loop ::
  "(string \<Rightarrow> path \<Rightarrow> 'c fs \<Rightarrow> export_outcome \<times> 'c fs) \<Rightarrow> path \<Rightarrow> string list \<Rightarrow> 'c fs
     \<Rightarrow> 'c fs \<times> report list \<times> (string \<times> export_outcome) list" where
  "export_loop ex output_dir [] fs = (fs, [], [])"
| "export_loop ex output_dir (name # names) fs =
     (let (out, fs1) = ex name (output_dir @ [EXPORTS_DIRNAME, name]) fs;
          (fs2, reports, outs) = export_loop ex output_dir names fs1
      in (fs2, (99, ''Exporting to '' @ name @ '' format'') # reports, (name, out) # outs))"

definition export_all ::
  "('c, 'p) fit_env \<Rightarrow> 'p \<Rightarrow> path \<Rightarrow> string list option \<Rightarrow> 'c fs
     \<Rightarrow> 'c fs \<times> report list \<times> (string \<times> export_outcome) list" where
  "export_all env p output_dir requested fs =
     (if \<not> policy_exportable env p then (fs, [], [])
      else export_loop (policy_export env p) output_dir
             (selected_backends requested (policy_backends env p)) fs)"

section \<open>The run\<close>

record trainer_args =
  ta_accelerator :: string
  ta_strategy :: string
  ta_devices :: devices_arg
  ta_max_epochs :: int
  ta_auto_scale_batch_size :: bool
  ta_precision :: string
  ta_snapflow :: "(int \<times> string) option"

definition make_trainer_args :: "torch_probe \<Rightarrow> TrainingJobSpec \<Rightarrow> trainer_args" where
  "make_trainer_args t s =
     \<lparr>ta_accelerator = resolve_accelerator t (spec_device_type s),
      ta_strategy = resolve_strategy t (spec_device_type s),
      ta_devices = resolve_devices (spec_device_index s),
      ta_max_epochs = spec_max_epochs s,
      ta_auto_scale_batch_size = spec_auto_scale_batch_size s,
      ta_precision = spec_precision s,
      ta_snapflow = build_snapflow_callback s\<rparr>"

datatype run_outcome = RunCanceled | RunFinished "(string \<times> export_outcome) list"

record 'c job_run =
  run_fs :: "'c fs"
  run_reports :: "report list"
  run_outcome :: run_outcome

definition callback_state :: "('c, 'p) fit_env \<Rightarrow> TrainingJobSpec \<Rightarrow> bool option" where
  "callback_state env s = map_option (\<lambda>_. snapflow_activated env) (build_snapflow_callback s)"

definition run_training_body ::
  "('c, 'p) fit_env \<Rightarrow> TrainingJobSpec \<Rightarrow> path \<Rightarrow> path \<Rightarrow> 'c fs \<Rightarrow> job_error + 'c job_run" where
  "run_training_body env s output_dir cache_dir fs =
     bind_result (lift_os (fs_mkdirs cache_dir fs)) (\<lambda>fs1.
     bind_result (case setup_error env of Some m \<Rightarrow> Inl (LibraryError m) | None \<Rightarrow> Inr ()) (\<lambda>_.
     bind_result (lift_lib (fit env fs1)) (\<lambda>fs2.
       if stop_requested env
       then Inr \<lparr>run_fs = fs2, run_reports = [(0, ''Training model'')], run_outcome = RunCanceled\<rparr>
       else
         bind_result (lift_os (finalize_checkpoints (final_weights env) cache_dir
                                 (callback_state env s) fs2)) (\<lambda>fs3.
         bind_result (lift_os (publish cache_dir output_dir fs3)) (\<lambda>fs4.
           let (fs5, reports, outs) =
             export_all env (export_policy env s output_dir fs4) output_dir
               (spec_export_backends s) fs4
           in Inr \<lparr>run_fs = fs5, run_reports = (0, ''Training model'') # reports,
                   run_outcome = RunFinished outs\<rparr>)))))"

definition run_training_job ::
  "('c, 'p) fit_env \<Rightarrow> TrainingJobSpec \<Rightarrow> path \<Rightarrow> path \<Rightarrow> 'c fs \<Rightarrow> environ
     \<Rightarrow> (job_error + 'c job_run) \<times> environ" where
  "run_training_job env s output_dir cache_dir fs =
     hf_token_env (hf_token (spec_run_options s))
       (\<lambda>e. (run_training_body env s output_dir cache_dir fs, library_environ env e))"

section \<open>Facts about the steps\<close>

lemma ckpt_names_differ [simp]: "SNAPFLOW_CHECKPOINT_NAME \<noteq> CHECKPOINT_NAME"
  "CHECKPOINT_NAME \<noteq> SNAPFLOW_CHECKPOINT_NAME" "CHECKPOINT_NAME \<noteq> EXPORTS_DIRNAME"
  "SNAPFLOW_CHECKPOINT_NAME \<noteq> EXPORTS_DIRNAME"
  by (simp_all add: SNAPFLOW_CHECKPOINT_NAME_def CHECKPOINT_NAME_def EXPORTS_DIRNAME_def
      SNAPFLOW_CHECKPOINT_PREFIX_def)

lemma fs_is_file_upd [simp]: "fs_is_file p (fs(p \<mapsto> FileN c))"
  "p \<noteq> q \<Longrightarrow> fs_is_file p (fs(q \<mapsto> n)) = fs_is_file p fs"
  by (simp_all add: fs_is_file_def)

lemma keep_or_write:
  assumes "(if fs_is_file p fs then Inr fs else fs_write p w fs) = Inr fs'"
  shows "fs' p = (if fs_is_file p fs then fs p else Some (FileN w))"
    and "fs_is_file p fs'"
    and "q \<noteq> p \<Longrightarrow> fs' q = fs q"
  using assms by (auto dest!: fs_write_Inr split: if_splits)

lemma finalize_checkpoints_Inr:
  assumes "finalize_checkpoints w d cb fs = Inr fs'"
  shows "fs' (d @ [CHECKPOINT_NAME]) =
           (if fs_is_file (d @ [CHECKPOINT_NAME]) fs then fs (d @ [CHECKPOINT_NAME])
            else Some (FileN w))" (is ?ck)
    and "cb = Some True \<Longrightarrow> fs' (d @ [SNAPFLOW_CHECKPOINT_NAME]) =
           (if fs_is_file (d @ [SNAPFLOW_CHECKPOINT_NAME]) fs then fs (d @ [SNAPFLOW_CHECKPOINT_NAME])
            else Some (FileN w))"
    and "cb \<noteq> Some True \<Longrightarrow> fs' (d @ [SNAPFLOW_CHECKPOINT_NAME]) = fs (d @ [SNAPFLOW_CHECKPOINT_NAME])"
    and "q \<noteq> d @ [CHECKPOINT_NAME] \<Longrightarrow> q \<noteq> d @ [SNAPFLOW_CHECKPOINT_NAME] \<Longrightarrow> fs' q = fs q"
proof -
  from assms obtain fs1 where
    1: "(if fs_is_file (d @ [CHECKPOINT_NAME]) fs then Inr fs
         else fs_write (d @ [CHECKPOINT_NAME]) w fs) = Inr fs1" and
    2: "cb \<noteq> Some True \<and> fs' = fs1 \<or> cb = Some True \<and>
        (if fs_is_file (d @ [SNAPFLOW_CHECKPOINT_NAME]) fs1 then Inr fs1
         else fs_write (d @ [SNAPFLOW_CHECKPOINT_NAME]) w fs1) = Inr fs'"
    by (auto simp: finalize_checkpoints_def bind_result_Inr_iff ensure_checkpoint_exists_def Let_def
        split: if_splits)
  note k1 = keep_or_write [OF 1] and k2 = keep_or_write [where fs = fs1 and fs' = fs' and w = w]
  have same: "fs1 (d @ [SNAPFLOW_CHECKPOINT_NAME]) = fs (d @ [SNAPFLOW_CHECKPOINT_NAME])"
    by (rule k1(3)) simp
  then have samef: "fs_is_file (d @ [SNAPFLOW_CHECKPOINT_NAME]) fs1
      = fs_is_file (d @ [SNAPFLOW_CHECKPOINT_NAME]) fs"
    by (simp add: fs_is_file_def)
  from 2 show ?ck
    using k1(1) k2(3) [of "d @ [SNAPFLOW_CHECKPOINT_NAME]"] by auto
  from 2 k2(1) [of "d @ [SNAPFLOW_CHECKPOINT_NAME]"] show "cb = Some True \<Longrightarrow>
      fs' (d @ [SNAPFLOW_CHECKPOINT_NAME]) =
           (if fs_is_file (d @ [SNAPFLOW_CHECKPOINT_NAME]) fs then fs (d @ [SNAPFLOW_CHECKPOINT_NAME])
            else Some (FileN w))"
    by (auto simp: same samef)
  from 2 same show "cb \<noteq> Some True \<Longrightarrow>
      fs' (d @ [SNAPFLOW_CHECKPOINT_NAME]) = fs (d @ [SNAPFLOW_CHECKPOINT_NAME])"
    by auto
  assume "q \<noteq> d @ [CHECKPOINT_NAME]" and "q \<noteq> d @ [SNAPFLOW_CHECKPOINT_NAME]"
  with 2 k1(3) [of q] k2(3) [of "d @ [SNAPFLOW_CHECKPOINT_NAME]" q] show "fs' q = fs q"
    by auto
qed




lemma export_loop_attempts:
  "map fst (snd (snd (export_loop ex out names fs))) = names"
  "map snd (fst (snd (export_loop ex out names fs))) =
     map (\<lambda>n. ''Exporting to '' @ n @ '' format'') names"
  "list_all (\<lambda>r. fst r = 99) (fst (snd (export_loop ex out names fs)))"
  by (induction names arbitrary: fs) (simp_all add: Let_def case_prod_unfold)



lemma fst_run_training_job:
  "fst (run_training_job env s out cache fs e) = run_training_body env s out cache fs"
  by (simp add: run_training_job_def hf_token_env_def Let_def split: option.splits)

lemma not_prefix_exports: "n \<noteq> EXPORTS_DIRNAME \<Longrightarrow> \<not> prefix (out @ [EXPORTS_DIRNAME]) (out @ [n])"
  by simp

lemma fs_write_total:
  "p \<noteq> [] \<Longrightarrow> fs_is_dir (butlast p) fs \<Longrightarrow> \<not> fs_is_dir p fs \<Longrightarrow> \<exists>fs'. fs_write p c fs = Inr fs'"
  by (simp add: fs_write_def)

lemma finalize_checkpoints_total:
  assumes "fs_is_dir d fs" and "\<not> fs_is_dir (d @ [CHECKPOINT_NAME]) fs"
    and "\<not> fs_is_dir (d @ [SNAPFLOW_CHECKPOINT_NAME]) fs"
  shows "\<exists>fs'. finalize_checkpoints w d cb fs = Inr fs'"
  using assms
  by (auto simp: finalize_checkpoints_def ensure_checkpoint_exists_def Let_def fs_write_def fs_is_dir_def)

lemma publish_total:
  assumes dir: "fs_is_dir c fs" and up: "\<And>q. strict_prefix q out \<Longrightarrow> \<not> fs_is_file q fs"
    and out: "\<not> fs_is_file out fs" "out \<noteq> []" and apart: "\<not> prefix c out" "\<not> prefix out c"
  shows "\<exists>fs'. publish c out fs = Inr fs'"
proof -
  have "prefix q (butlast out) \<Longrightarrow> strict_prefix q out" for q
    using out(2) by (cases out rule: rev_cases) (auto simp: strict_prefix_def dest: append_prefixD prefix_order.antisym)
  then obtain fs1 where 1: "fs_mkdirs (butlast out) fs = Inr fs1"
    using fs_mkdirs_total [of "butlast out" fs] up by blast
  have par: "fs_is_dir (butlast out) fs1"
    by (rule fs_mkdirs_is_dir [OF 1]) simp
  have nb: "\<not> prefix out (butlast out)"
    using out(2) by (cases out rule: rev_cases) (auto dest: append_prefixD simp: prefix_def)
  have c1: "fs1 c = Some DirN"
    using dir fs_mkdirs_keeps(1) [OF 1, of c] by (simp add: fs_is_dir_def)
  have "fs1 out = fs out" using fs_mkdirs_keeps(2) [OF 1 nb] .
  with out(1) obtain fs2 where
    2: "(if fs_exists out fs1 then fs_rmtree out fs1 else Inr fs1) = Inr fs2" and
    keep: "\<And>q. \<not> prefix out q \<Longrightarrow> fs2 q = fs1 q" "fs2 out = None"
    by (auto simp: fs_exists_def fs_is_file_def fs_rmtree_def fs_remove_below_def
        split: option.splits node.splits)
  have "\<exists>fs'. fs_move c out fs2 = Inr fs'"
    using keep(2) keep(1) [OF nb] keep(1) [OF apart(2)] par c1 apart(1) out(2)
    by (simp add: fs_move_def fs_is_dir_def fs_exists_def Let_def)
  then show ?thesis using 1 2 by (simp add: publish_def)
qed

lemma run_training_body_returns:
  assumes "setup_error env = None" and "\<not> stop_requested env"
    and cache: "\<And>q. prefix q cache \<Longrightarrow> \<not> fs_is_file q fs"
    and fit: "\<And>fs1. fs_mkdirs cache fs = Inr fs1 \<Longrightarrow> fit env fs1 = Inr fs2"
    and dir: "fs_is_dir cache fs2" "\<not> fs_is_dir (cache @ [CHECKPOINT_NAME]) fs2"
      "\<not> fs_is_dir (cache @ [SNAPFLOW_CHECKPOINT_NAME]) fs2"
    and out: "\<And>q. prefix q out \<Longrightarrow> \<not> fs_is_file q fs2" "out \<noteq> []"
    and apart: "\<not> prefix cache out" "\<not> prefix out cache"
  shows "\<exists>r outs. run_training_body env s out cache fs = Inr r \<and> run_outcome r = RunFinished outs"
proof -
  obtain fs1 where 1: "fs_mkdirs cache fs = Inr fs1"
    using fs_mkdirs_total cache by blast
  obtain fs3 where 3: "finalize_checkpoints (final_weights env) cache (callback_state env s) fs2 = Inr fs3"
    using finalize_checkpoints_total [OF dir] by blast
  have ck: "q \<noteq> cache @ [CHECKPOINT_NAME]" "q \<noteq> cache @ [SNAPFLOW_CHECKPOINT_NAME]"
    if "prefix q out \<or> q = cache" for q
    using that apart by (auto simp: append_prefixD dest: append_prefixD)
  have "fs_is_dir cache fs3" "\<And>q. prefix q out \<Longrightarrow> \<not> fs_is_file q fs3"
    using dir(1) out(1) finalize_checkpoints_Inr(4) [OF 3] ck by (auto simp: fs_is_dir_def fs_is_file_def)
  then obtain fs4 where "publish cache out fs3 = Inr fs4"
    using publish_total [of cache fs3 out] out(2) apart by auto
  then show ?thesis
    using assms(1,2) 1 fit [OF 1] 3 by (simp add: run_training_body_def case_prod_unfold Let_def)
qed

section \<open>Properties\<close>

text \<open>A validated specification is exactly one whose fields are in bounds, whose LoRA
  request names a policy that supports it (and DoRA only with LoRA), and whose SnapFlow
  boundary leaves at least one epoch to each phase of a policy that can be distilled.\<close>

lemma validate_spec_exact:
  "validate_spec s = Inr s \<longleftrightarrow>
     spec_fields_ok s
     \<and> \<not> (spec_lora_use_dora s \<and> \<not> spec_lora_enabled s)
     \<and> \<not> (spec_lora_enabled s \<and> \<not> (spec_policy_source s = Physicalai
            \<and> py_lower (spec_policy s) \<in> {''pi05'', ''molmoact2''}))
     \<and> \<not> (spec_snapflow_start_epoch s \<noteq> None \<and> \<not> (py_lower (spec_policy s) \<in> {''pi05'', ''smolvla''}
            \<and> 1 \<le> teacher_epochs s \<and> 1 \<le> distill_epochs s))"
proof -
  have lora: "validate_lora s = Inr s \<longleftrightarrow>
      \<not> (spec_lora_use_dora s \<and> \<not> spec_lora_enabled s)
      \<and> \<not> (spec_lora_enabled s \<and> \<not> (spec_policy_source s = Physicalai
            \<and> py_lower (spec_policy s) \<in> {''pi05'', ''molmoact2''}))"
    by (simp add: validate_lora_def PEFT_POLICIES_def)
  have snap: "validate_snapflow s = Inr s \<longleftrightarrow>
      \<not> (spec_snapflow_start_epoch s \<noteq> None \<and> \<not> (py_lower (spec_policy s) \<in> {''pi05'', ''smolvla''}
            \<and> 1 \<le> teacher_epochs s \<and> 1 \<le> distill_epochs s))" if "spec_fields_ok s"
    using that
    by (cases "spec_snapflow_start_epoch s")
       (simp_all add: validate_snapflow_def SNAPFLOW_POLICIES_def spec_fields_ok_def
          teacher_epochs_def distill_epochs_def linorder_not_le)
  show ?thesis
    unfolding validate_spec_Inr_iff lora using snap by blast
qed


text \<open>A canceled run publishes nothing: the file system is the one the fit left, no
  checkpoint is written and no backend is exported, and only the start was reported.\<close>

lemma run_training_canceled:
  assumes "fst (run_training_job env s out cache fs e) = Inr r" and "stop_requested env"
  shows "run_outcome r = RunCanceled \<and> run_reports r = [(0, ''Training model'')]
     \<and> (\<exists>fs1. fs_mkdirs cache fs = Inr fs1 \<and> fit env fs1 = Inr (run_fs r))"
  using assms by (auto simp: fst_run_training_job run_training_body_def bind_result_Inr_iff)

text \<open>Whatever the run does and however it ends, a job that carries a Hugging Face token
  leaves \<open>HF_TOKEN\<close> as it found it.\<close>

lemma run_training_restores_token:
  assumes "hf_token (spec_run_options s) = Some t"
  shows "snd (run_training_job env s out cache fs e) ''HF_TOKEN'' = e ''HF_TOKEN''"
  using assms by (simp add: run_training_job_def hf_token_env_def)

text \<open>Every requested backend the policy supports is attempted once, in the policy's
  order, and reported at 99 percent, whatever the outcomes of the other exports are.\<close>

lemma export_is_best_effort:
  assumes "policy_exportable env p"
  shows "map fst (snd (snd (export_all env p out requested fs)))
           = selected_backends requested (policy_backends env p)
     \<and> map fst (fst (snd (export_all env p out requested fs)))
           = replicate (length (selected_backends requested (policy_backends env p))) 99"
proof -
  have "list_all (\<lambda>r. fst r = 99) rs \<Longrightarrow> map fst rs = replicate (length rs) 99" for rs :: "report list"
    by (induction rs) auto
  moreover have "length (fst (snd (export_loop ex out ns fs))) = length ns" for ex ns
    using export_loop_attempts(2) [of ex out ns fs] by (metis length_map)
  ultimately show ?thesis
    using assms by (simp add: export_all_def export_loop_attempts)
qed

text \<open>C40: a run returns: when the fit succeeds, was not asked to stop, and the directories are
  usable, the job finishes with a result and raises nothing, whatever the exports do.\<close>

theorem run_training_returns:
  assumes "setup_error env = None" and "\<not> stop_requested env"
    and "\<And>q. prefix q cache \<Longrightarrow> \<not> fs_is_file q fs"
    and "\<And>fs1. fs_mkdirs cache fs = Inr fs1 \<Longrightarrow> fit env fs1 = Inr fs2"
    and "fs_is_dir cache fs2" "\<not> fs_is_dir (cache @ [CHECKPOINT_NAME]) fs2"
      "\<not> fs_is_dir (cache @ [SNAPFLOW_CHECKPOINT_NAME]) fs2"
    and "\<And>q. prefix q out \<Longrightarrow> \<not> fs_is_file q fs2" "out \<noteq> []"
    and "\<not> prefix cache out" "\<not> prefix out cache"
  shows "\<exists>r outs. fst (run_training_job env s out cache fs e) = Inr r \<and> run_outcome r = RunFinished outs"
  unfolding fst_run_training_job by (rule run_training_body_returns) (use assms in auto)

section \<open>Witnesses\<close>

definition demo_fs :: "string fs" where
  "demo_fs = Map.empty([] \<mapsto> DirN)"

definition demo_env :: "bool \<Rightarrow> (string, nat) fit_env" where
  "demo_env stop =
     \<lparr>setup_error = None, library_environ = (\<lambda>e. e), fit = Inr, stop_requested = stop,
      final_weights = ''final'', snapflow_activated = True, trained_policy = 0,
      load_policy = (\<lambda>_ _. Some 1), policy_exportable = (\<lambda>_. True),
      policy_backends = (\<lambda>_. [''onnx'', ''torch'']),
      policy_export = (\<lambda>_ n _ fs. (if n = ''onnx'' then ExportFailed else Exported, fs))\<rparr>"

definition demo_spec :: TrainingJobSpec where
  "demo_spec = (default_spec ''pi05'')\<lparr>spec_snapflow_start_epoch := Some 3,
     spec_run_options := \<lparr>resume_from = None, hf_token = Some ''t''\<rparr>\<rparr>"

lemma demo_mkdirs: "fs_mkdirs [''c''] demo_fs = Inr (demo_fs([''c''] \<mapsto> DirN))"
  by (auto simp: fs_mkdirs_def demo_fs_def fs_is_file_def prefix_Cons fun_eq_iff)


lemma validate_spec_exact_witness: "validate_spec demo_spec = Inr demo_spec"
  by (subst validate_spec_exact)
     (simp add: demo_spec_def default_spec_def spec_fields_ok_def teacher_epochs_def distill_epochs_def
        py_lower_def py_lower_char_def)


lemma run_training_canceled_witness:
  "\<exists>r. fst (run_training_job (demo_env True) demo_spec [''m''] [''c''] demo_fs Map.empty) = Inr r
     \<and> run_outcome r = RunCanceled"
proof -
  obtain r where r: "fst (run_training_job (demo_env True) demo_spec [''m''] [''c''] demo_fs Map.empty) = Inr r"
    by (auto simp: fst_run_training_job run_training_body_def demo_mkdirs demo_env_def)
  show ?thesis
    using run_training_canceled [OF r] r by (simp add: demo_env_def)
qed

lemma run_training_restores_token_witness:
  "snd (run_training_job (demo_env True) demo_spec [''m''] [''c''] demo_fs
     (Map.empty(''HF_TOKEN'' \<mapsto> ''mine''))) ''HF_TOKEN'' = Some ''mine''"
  by (subst run_training_restores_token [where t = "''t''"]) (simp_all add: demo_spec_def)

lemma export_is_best_effort_witness:
  "map fst (snd (snd (export_all (demo_env False) 0 [''m''] (Some [''torch'', ''onnx'']) demo_fs)))
     = [''onnx'', ''torch'']"
  by (subst export_is_best_effort [THEN conjunct1])
     (simp_all add: demo_env_def selected_backends_def)

theorem run_training_returns_witness:
  "\<exists>r outs. fst (run_training_job (demo_env False) demo_spec [''m''] [''c''] demo_fs Map.empty) = Inr r
     \<and> run_outcome r = RunFinished outs"
  by (rule run_training_returns [where ?fs2.0 = "demo_fs([''c''] \<mapsto> DirN)"])
     (auto simp: demo_env_def demo_mkdirs [unfolded demo_fs_def] demo_fs_def fs_is_file_def fs_is_dir_def prefix_Cons)

end
