(* ===== verification/TrainerStore.thy ===== *)
theory TrainerStore
  imports TrainingSpec
begin

text \<open>
  The trainer service's job table, \<^verbatim>\<open>trainer/store.py\<close>, with the request and state models of
  \<^verbatim>\<open>trainer/schemas.py\<close>. A row keeps the columns of the SQLite table; \<open>model_dump_json\<close> is what
  it stores of a request (secrets left out), \<open>json.dumps\<close> and \<open>json.loads\<close> are inverse, so
  \<open>extra_info\<close> is kept as the value. The random job id and the clock are arguments.
\<close>

datatype TrainerJobStatus = T_AWAITING_DATASET | T_QUEUED | T_RUNNING | T_COMPLETED | T_FAILED | T_CANCELED

datatype DatasetTransfer = HTTP

datatype json = JNull | JBool bool | JInt int | JReal real | JStr string
  | JList "json list" | JDict "(string \<times> json) list"

type_synonym extra_info = "(string \<times> json) list"

record SubmitJobRequest =
  req_spec :: TrainingJobSpec
  req_dataset_transfer :: DatasetTransfer
  req_hf_token :: "string option"

record job_row =
  row_id :: string
  row_status :: TrainerJobStatus
  row_progress :: int
  row_message :: "string option"
  row_extra_info :: "extra_info option"
  row_request :: SubmitJobRequest
  row_artifact :: "string option"
  row_created_at :: int

record JobState =
  remote_job_id :: string
  state_status :: TrainerJobStatus
  state_progress :: int
  state_message :: "string option"
  state_extra_info :: "extra_info option"

record JobStore =
  store_rows :: "job_row list"
  store_secrets :: "string \<Rightarrow> string option"

datatype store_error = IntegrityError string

section \<open>Secrets\<close>

definition stash_secret :: "string \<Rightarrow> string option \<Rightarrow> JobStore \<Rightarrow> JobStore" where
  "stash_secret job_id token st =
     (case token of None \<Rightarrow> st
      | Some t \<Rightarrow> st\<lparr>store_secrets := (store_secrets st)(job_id \<mapsto> t)\<rparr>)"

definition take_secret :: "string \<Rightarrow> JobStore \<Rightarrow> string option \<times> JobStore" where
  "take_secret job_id st =
     (store_secrets st job_id, st\<lparr>store_secrets := (store_secrets st)(job_id := None)\<rparr>)"

definition discard_secret :: "string \<Rightarrow> JobStore \<Rightarrow> JobStore" where
  "discard_secret job_id st = st\<lparr>store_secrets := (store_secrets st)(job_id := None)\<rparr>"

text \<open>
  \<open>model_dump_json\<close>: \<open>hf_token\<close> is declared with \<open>exclude=True\<close>; the \<open>SecretStr\<close> of the run
  options is dumped as its mask.
\<close>

definition dump_request :: "SubmitJobRequest \<Rightarrow> SubmitJobRequest" where
  "dump_request r =
     r\<lparr>req_hf_token := None,
       req_spec := (req_spec r)\<lparr>spec_run_options := (spec_run_options (req_spec r))
         \<lparr>hf_token := map_option (\<lambda>_. ''**********'') (hf_token (spec_run_options (req_spec r)))\<rparr>\<rparr>\<rparr>"

section \<open>Rows\<close>

definition create ::
  "string \<Rightarrow> int \<Rightarrow> SubmitJobRequest \<Rightarrow> JobStore \<Rightarrow> store_error + JobStore" where
  "create job_id now request st =
     (if row_get row_id job_id (store_rows st) \<noteq> None then Inl (IntegrityError job_id)
      else Inr (st\<lparr>store_rows := store_rows st @
        [\<lparr>row_id = job_id, row_status = T_AWAITING_DATASET, row_progress = 0,
          row_message = Some ''Awaiting dataset upload'', row_extra_info = None,
          row_request = dump_request request, row_artifact = None, row_created_at = now\<rparr>]\<rparr>))"

definition mark_dataset_ready :: "string \<Rightarrow> JobStore \<Rightarrow> JobStore" where
  "mark_dataset_ready job_id st =
     st\<lparr>store_rows := sql_update (\<lambda>r. row_id r = job_id \<and> row_status r = T_AWAITING_DATASET)
          (\<lambda>r. r\<lparr>row_status := T_QUEUED, row_message := Some ''Queued''\<rparr>) (store_rows st)\<rparr>"

definition row_to_state :: "job_row \<Rightarrow> JobState" where
  "row_to_state r =
     \<lparr>remote_job_id = row_id r, state_status = row_status r, state_progress = row_progress r,
      state_message = row_message r, state_extra_info = row_extra_info r\<rparr>"

definition get :: "string \<Rightarrow> JobStore \<Rightarrow> JobState option" where
  "get job_id st = map_option row_to_state (row_get row_id job_id (store_rows st))"

definition get_request :: "string \<Rightarrow> JobStore \<Rightarrow> SubmitJobRequest option" where
  "get_request job_id st = map_option row_request (row_get row_id job_id (store_rows st))"

definition get_artifact :: "string \<Rightarrow> JobStore \<Rightarrow> string option" where
  "get_artifact job_id st =
     (case row_get row_id job_id (store_rows st) of
        None \<Rightarrow> None
      | Some r \<Rightarrow> (case row_artifact r of None \<Rightarrow> None | Some a \<Rightarrow> if a = '''' then None else Some a))"

definition queued :: "JobStore \<Rightarrow> string list" where
  "queued st = map row_id (sort_key row_created_at
     (filter (\<lambda>r. row_status r = T_QUEUED) (store_rows st)))"

record job_update =
  upd_status :: "TrainerJobStatus option"
  upd_progress :: "int option"
  upd_message :: "string option"
  upd_extra_info :: "extra_info option"
  upd_artifact :: "string option"

definition no_update :: job_update where
  "no_update = \<lparr>upd_status = None, upd_progress = None, upd_message = None,
     upd_extra_info = None, upd_artifact = None\<rparr>"

definition apply_update :: "job_update \<Rightarrow> job_row \<Rightarrow> job_row" where
  "apply_update u r =
     r\<lparr>row_status := (case upd_status u of None \<Rightarrow> row_status r | Some s \<Rightarrow> s),
       row_progress := (case upd_progress u of None \<Rightarrow> row_progress r | Some p \<Rightarrow> max 0 (min 100 p)),
       row_message := (case upd_message u of None \<Rightarrow> row_message r | Some m \<Rightarrow> Some m),
       row_extra_info := (case upd_extra_info u of None \<Rightarrow> row_extra_info r | Some e \<Rightarrow> Some e),
       row_artifact := (case upd_artifact u of None \<Rightarrow> row_artifact r | Some a \<Rightarrow> Some a)\<rparr>"

definition update :: "string \<Rightarrow> job_update \<Rightarrow> JobStore \<Rightarrow> JobStore" where
  "update job_id u st =
     st\<lparr>store_rows := sql_update (\<lambda>r. row_id r = job_id) (apply_update u) (store_rows st)\<rparr>"

definition delete :: "string \<Rightarrow> JobStore \<Rightarrow> JobStore" where
  "delete job_id st =
     discard_secret job_id (st\<lparr>store_rows := sql_delete (\<lambda>r. row_id r = job_id) (store_rows st)\<rparr>)"

definition reset_orphans :: "JobStore \<Rightarrow> JobStore" where
  "reset_orphans st =
     st\<lparr>store_rows :=
       sql_update (\<lambda>r. row_status r = T_AWAITING_DATASET)
         (\<lambda>r. r\<lparr>row_status := T_FAILED, row_message := Some ''Dataset upload never completed''\<rparr>)
       (sql_update (\<lambda>r. row_status r = T_RUNNING)
         (\<lambda>r. r\<lparr>row_status := T_FAILED, row_message := Some ''Aborted on trainer restart''\<rparr>)
         (store_rows st))\<rparr>"

text \<open>A restart opens the database again: rows stay, the in-memory secrets do not.\<close>

definition reopen :: "JobStore \<Rightarrow> JobStore" where
  "reopen st = reset_orphans (st\<lparr>store_secrets := Map.empty\<rparr>)"

section \<open>The store as an interface\<close>

text \<open>
  What the clients of a job table rely on: a keyed modification changes the record of that
  key by a known function and no other record.
\<close>

locale job_table =
  fixes lookup :: "'k \<Rightarrow> 's \<Rightarrow> 'j option"
    and modify :: "'k \<Rightarrow> 'u \<Rightarrow> 's \<Rightarrow> 's"
    and effect :: "'u \<Rightarrow> 'j \<Rightarrow> 'j"
  assumes lookup_modify:
    "lookup k (modify k' u s) = (if k = k' then map_option (effect u) (lookup k s) else lookup k s)"
begin

lemma lookup_modify_same: "lookup k (modify k u s) = map_option (effect u) (lookup k s)"
  by (simp add: lookup_modify)

lemma lookup_modify_other: "k \<noteq> k' \<Longrightarrow> lookup k (modify k' u s) = lookup k s"
  by (simp add: lookup_modify)

lemma lookup_modify_commute:
  "k \<noteq> k' \<Longrightarrow> lookup q (modify k u (modify k' v s)) = lookup q (modify k' v (modify k u s))"
  by (simp add: lookup_modify)

lemma present_modify: "lookup q (modify k u s) = None \<longleftrightarrow> lookup q s = None"
  by (simp add: lookup_modify)

text \<open>A run of modifications of other keys is invisible at a key.\<close>

lemma lookup_run_other:
  "k \<notin> fst ` set us \<Longrightarrow> lookup k (foldl (\<lambda>s (k', u). modify k' u s) s us) = lookup k s"
  by (induction us arbitrary: s) (auto simp: lookup_modify split: prod.splits)

end

locale job_table_delete = job_table lookup modify effect
  for lookup :: "'k \<Rightarrow> 's \<Rightarrow> 'j option" and modify :: "'k \<Rightarrow> 'u \<Rightarrow> 's \<Rightarrow> 's"
    and effect :: "'u \<Rightarrow> 'j \<Rightarrow> 'j" +
  fixes remove :: "'k \<Rightarrow> 's \<Rightarrow> 's"
  assumes lookup_remove: "lookup k (remove k' s) = (if k = k' then None else lookup k s)"
begin

lemma modify_after_remove: "lookup k (modify k u (remove k s)) = None"
  by (simp add: lookup_modify lookup_remove)

lemma remove_idem: "lookup q (remove k (remove k s)) = lookup q (remove k s)"
  by (simp add: lookup_remove)

end

definition find_row :: "string \<Rightarrow> JobStore \<Rightarrow> job_row option" where
  "find_row job_id st = row_get row_id job_id (store_rows st)"

lemma row_id_apply_update [simp]: "row_id (apply_update u r) = row_id r"
  by (simp add: apply_update_def)

lemma map_option_if_key:
  "row_get key k rows = Some r \<Longrightarrow> (if key r = k then f r else r) = f r"
  by (auto dest: row_get_SomeD)

interpretation trainer_store: job_table_delete find_row update apply_update delete
proof
  fix k k' :: string and u and s :: JobStore
  show "find_row k (update k' u s) = (if k = k' then map_option (apply_update u) (find_row k s) else find_row k s)"
    by (cases "row_get row_id k (store_rows s)")
       (auto simp: find_row_def update_def row_get_sql_update dest: row_get_SomeD)
  show "find_row k (delete k' s) = (if k = k' then None else find_row k s)"
    by (simp add: find_row_def delete_def discard_secret_def row_get_sql_delete)
qed

lemmas store_defs = update_def delete_def mark_dataset_ready_def stash_secret_def take_secret_def
  discard_secret_def reset_orphans_def

lemma get_find_row: "get k st = map_option row_to_state (find_row k st)"
  by (simp add: get_def find_row_def)

lemma row_to_state_simps [simp]:
  "remote_job_id (row_to_state r) = row_id r" "state_status (row_to_state r) = row_status r"
  "state_progress (row_to_state r) = row_progress r" "state_message (row_to_state r) = row_message r"
  "state_extra_info (row_to_state r) = row_extra_info r"
  by (simp_all add: row_to_state_def)

lemma find_row_secrets [simp]:
  "find_row k (st\<lparr>store_secrets := m\<rparr>) = find_row k st"
  "find_row k (stash_secret j t st) = find_row k st"
  "find_row k (snd (take_secret j st)) = find_row k st"
  "find_row k (discard_secret j st) = find_row k st"
  by (simp_all add: find_row_def store_defs split: option.splits)

lemma store_secrets_simps [simp]:
  "store_secrets (update k u st) = store_secrets st"
  "store_secrets (mark_dataset_ready k st) = store_secrets st"
  "store_secrets (delete k st) = (store_secrets st)(k := None)"
  "store_secrets (discard_secret k st) = (store_secrets st)(k := None)"
  "store_secrets (snd (take_secret k st)) = (store_secrets st)(k := None)"
  by (simp_all add: store_defs)

lemma find_row_mark_ready [row_simps]:
  "find_row k (mark_dataset_ready j st) =
     map_option (\<lambda>r. if k = j \<and> row_status r = T_AWAITING_DATASET
       then r\<lparr>row_status := T_QUEUED, row_message := Some ''Queued''\<rparr> else r) (find_row k st)"
  by (cases "row_get row_id k (store_rows st)")
     (auto simp: find_row_def store_defs row_get_sql_update dest: row_get_SomeD)

lemma find_row_create [row_simps]:
  "create j now rq st = Inr st' \<Longrightarrow> find_row k st' =
     (if k = j then Some \<lparr>row_id = j, row_status = T_AWAITING_DATASET, row_progress = 0,
          row_message = Some ''Awaiting dataset upload'', row_extra_info = None,
          row_request = dump_request rq, row_artifact = None, row_created_at = now\<rparr>
      else find_row k st)"
  by (auto simp: create_def find_row_def row_get_append split: if_splits option.splits)

lemma find_row_reset [row_simps]:
  "find_row k (reset_orphans st) = map_option (\<lambda>r.
     if row_status r = T_RUNNING
       then r\<lparr>row_status := T_FAILED, row_message := Some ''Aborted on trainer restart''\<rparr>
     else if row_status r = T_AWAITING_DATASET
       then r\<lparr>row_status := T_FAILED, row_message := Some ''Dataset upload never completed''\<rparr>
     else r) (find_row k st)"
  by (cases "row_get row_id k (store_rows st)") (auto simp: find_row_def store_defs row_get_sql_update)

section \<open>Queue order\<close>

definition ids_distinct :: "JobStore \<Rightarrow> bool" where
  "ids_distinct st \<longleftrightarrow> distinct (map row_id (store_rows st))"

lemma ids_distinct_update [simp]: "ids_distinct (update k u st) = ids_distinct st"
  by (simp add: ids_distinct_def update_def map_sql_update)

lemma ids_distinct_mark_ready [simp]: "ids_distinct (mark_dataset_ready k st) = ids_distinct st"
  by (simp add: ids_distinct_def mark_dataset_ready_def map_sql_update)

lemma ids_distinct_secrets [simp]:
  "ids_distinct (stash_secret j t st) = ids_distinct st"
  "ids_distinct (snd (take_secret j st)) = ids_distinct st"
  "ids_distinct (discard_secret j st) = ids_distinct st"
  by (simp_all add: ids_distinct_def store_defs split: option.splits)

lemma ids_distinct_delete: "ids_distinct st \<Longrightarrow> ids_distinct (delete k st)"
  by (simp add: ids_distinct_def delete_def discard_secret_def distinct_sql_delete)

lemma ids_distinct_create: "ids_distinct st \<Longrightarrow> create j now rq st = Inr st' \<Longrightarrow> ids_distinct st'"
  by (auto simp: ids_distinct_def create_def row_get_None_iff split: if_splits)

lemma set_queued: "set (queued st) = {row_id r | r. r \<in> set (store_rows st) \<and> row_status r = T_QUEUED}"
  by (auto simp: queued_def)

lemma in_queued_iff:
  "ids_distinct st \<Longrightarrow> j \<in> set (queued st) \<longleftrightarrow> (\<exists>r. find_row j st = Some r \<and> row_status r = T_QUEUED)"
  by (auto simp: set_queued find_row_def ids_distinct_def row_get_in_set dest: row_get_SomeD)

lemma sorted_queued_rows:
  "sorted (map row_created_at (sort_key row_created_at (filter (\<lambda>r. row_status r = T_QUEUED) rows)))"
  by simp

end
