(* ===== verification/TrainerQueue.thy ===== *)
theory TrainerQueue
  imports TrainerStore
begin

text \<open>
  The trainer's queue manager, \<^verbatim>\<open>trainer/queue_worker.py\<close>, with the GPU probes of
  \<^verbatim>\<open>trainer/devices.py\<close> and the per-job directories of \<^verbatim>\<open>trainer/runner.py\<close>. The asyncio tasks
  are the steps of \<open>qm_step\<close>: between two awaits a coroutine runs alone, so each step is one
  stretch of code between awaits. What a training run returns is an argument of its last
  step.
\<close>

section \<open>GPU probes\<close>

text \<open>
  What torch reports: per backend the properties of each device (\<open>None\<close> where the call
  raises) and, per device, free, total and reserved bytes.
\<close>

record trainer_machine =
  has_torch :: bool
  xpu_props :: "(string \<times> int) option list"
  cuda_props :: "(string \<times> int) option list"
  mem_info :: "string \<Rightarrow> int \<Rightarrow> (int \<times> int \<times> int) option"
  gpu_busy_memory_mb :: int

record DeviceInfo =
  dev_type :: string
  dev_name :: string
  dev_memory :: int
  dev_index :: int
  dev_busy :: "bool option"

definition gpu_busy :: "trainer_machine \<Rightarrow> string \<Rightarrow> int \<Rightarrow> bool option" where
  "gpu_busy m device_type index =
     (if \<not> has_torch m \<or> device_type \<notin> {''cuda'', ''xpu''} then None
      else case mem_info m device_type index of
          None \<Rightarrow> None
        | Some (free, total_b, reserved) \<Rightarrow>
            Some (total_b - free - reserved \<ge> gpu_busy_memory_mb m * 1024 * 1024))"

fun enumerate_devices ::
  "trainer_machine \<Rightarrow> string \<Rightarrow> int \<Rightarrow> (string \<times> int) option list \<Rightarrow> DeviceInfo list" where
  "enumerate_devices m ty i [] = []"
| "enumerate_devices m ty i (None # ps) = []"
| "enumerate_devices m ty i (Some (name, mem) # ps) =
     \<lparr>dev_type = ty, dev_name = name, dev_memory = mem, dev_index = i, dev_busy = gpu_busy m ty i\<rparr>
       # enumerate_devices m ty (i + 1) ps"

definition get_training_devices :: "trainer_machine \<Rightarrow> DeviceInfo list" where
  "get_training_devices m =
     (if \<not> has_torch m then []
      else enumerate_devices m ''xpu'' 0 (xpu_props m) @ enumerate_devices m ''cuda'' 0 (cuda_props m))"

definition truthy :: "bool option \<Rightarrow> bool" where
  "truthy b \<longleftrightarrow> b = Some True"

section \<open>Directories of a job\<close>

record trainer_dirs =
  datasets_dir :: path
  models_dir :: path
  storage_dir :: path
  archives_dir :: path

definition model_path :: "trainer_dirs \<Rightarrow> string \<Rightarrow> path" where
  "model_path d j = models_dir d @ [j]"

definition cache_path :: "trainer_dirs \<Rightarrow> string \<Rightarrow> path" where
  "cache_path d j = storage_dir d @ [''cache'', j]"

text \<open>\<open>shutil.rmtree(path, ignore_errors=True)\<close> under \<open>if path.exists()\<close>: a plain file stays.\<close>

definition rmtree_quiet :: "path \<Rightarrow> 'c fs \<Rightarrow> 'c fs" where
  "rmtree_quiet p fs = (if fs_is_dir p fs then fs_remove_below p fs else fs)"

definition cleanup_job_outputs :: "trainer_dirs \<Rightarrow> string \<Rightarrow> 'c fs \<Rightarrow> 'c fs" where
  "cleanup_job_outputs d job_id fs =
     rmtree_quiet (cache_path d job_id) (rmtree_quiet (model_path d job_id) fs)"

section \<open>The manager\<close>

type_synonym device = "(string \<times> int) option"

text \<open>The coroutine of a dispatched job: created, or past \<open>take_secret\<close> and training.\<close>

datatype task = TaskCreated | TaskTraining

record QueueManager =
  qm_store :: JobStore
  qm_max :: nat
  qm_cancel :: "string set"
  qm_active :: "(string \<times> task) list"
  qm_devices :: "(string \<times> device) list"
  qm_stopped :: bool

definition qm_update :: "string \<Rightarrow> job_update \<Rightarrow> QueueManager \<Rightarrow> QueueManager" where
  "qm_update j u q = q\<lparr>qm_store := update j u (qm_store q)\<rparr>"

definition request_cancel :: "string \<Rightarrow> QueueManager \<Rightarrow> QueueManager" where
  "request_cancel job_id q =
     (let q1 = q\<lparr>qm_cancel := insert job_id (qm_cancel q)\<rparr> in
      case get job_id (qm_store q) of
        None \<Rightarrow> q1
      | Some st \<Rightarrow>
          if state_status st \<in> {T_QUEUED, T_AWAITING_DATASET} then
            q1\<lparr>qm_store := discard_secret job_id (update job_id
                 (no_update\<lparr>upd_status := Some T_CANCELED, upd_message := Some ''Canceled before start''\<rparr>)
                 (qm_store q))\<rparr>
          else q1)"

definition wanted_device :: "SubmitJobRequest option \<Rightarrow> device" where
  "wanted_device request =
     (case request of
        None \<Rightarrow> None
      | Some r \<Rightarrow>
          (case spec_device_type (req_spec r) of
             None \<Rightarrow> None
           | Some t \<Rightarrow>
               if t \<in> {''cuda'', ''xpu''}
               then Some (t, case spec_device_index (req_spec r) of None \<Rightarrow> 0 | Some i \<Rightarrow> i)
               else None))"

definition reserved_device :: "QueueManager \<Rightarrow> device \<Rightarrow> bool" where
  "reserved_device q device \<longleftrightarrow>
     (device = None \<and> qm_active q \<noteq> [])
     \<or> list_ex (\<lambda>(j, active). active = None \<or> active = device) (qm_devices q)"

definition busy_device :: "trainer_machine \<Rightarrow> QueueManager \<Rightarrow> device \<Rightarrow> bool" where
  "busy_device m q device \<longleftrightarrow>
     reserved_device q device
     \<or> (case device of
          Some (t, i) \<Rightarrow> truthy (gpu_busy m t i)
        | None \<Rightarrow> list_ex (\<lambda>g. truthy (dev_busy g)) (get_training_devices m))"

definition wait_message :: "bool \<Rightarrow> bool \<Rightarrow> device \<Rightarrow> string" where
  "wait_message busy reserved device =
     (case device of
        Some (t, i) \<Rightarrow>
          if busy then ''Waiting for '' @ py_upper t @ '' '' @ int_str i @ '' to become available''
          else ''Queued''
      | None \<Rightarrow>
          if busy \<and> reserved then ''Waiting for a training slot to become available''
          else if busy then ''Waiting for a GPU to become available''
          else ''Queued'')"

definition set_wait_message :: "string \<Rightarrow> string \<Rightarrow> QueueManager \<Rightarrow> QueueManager" where
  "set_wait_message job_id message q =
     (case get job_id (qm_store q) of
        None \<Rightarrow> q
      | Some st \<Rightarrow>
          if state_status st = T_QUEUED \<and> state_message st \<noteq> Some message
          then qm_update job_id (no_update\<lparr>upd_message := Some message\<rparr>) q else q)"

fun scan_queue ::
  "trainer_machine \<Rightarrow> string list \<Rightarrow> (string \<times> device) option \<Rightarrow> QueueManager
     \<Rightarrow> (string \<times> device) option \<times> QueueManager" where
  "scan_queue m [] next q = (next, q)"
| "scan_queue m (job_id # ids) next q =
     (let device = wanted_device (get_request job_id (qm_store q));
          reserved = reserved_device q device;
          busy = busy_device m q device;
          q1 = set_wait_message job_id (wait_message busy reserved device) q
      in scan_queue m ids (if \<not> busy \<and> next = None then Some (job_id, device) else next) q1)"

definition next_runnable ::
  "trainer_machine \<Rightarrow> QueueManager \<Rightarrow> (string \<times> device) option \<times> QueueManager" where
  "next_runnable m q = scan_queue m (queued (qm_store q)) None q"

definition start_job :: "string \<Rightarrow> device \<Rightarrow> QueueManager \<Rightarrow> QueueManager" where
  "start_job job_id device q =
     q\<lparr>qm_store := update job_id
          (no_update\<lparr>upd_status := Some T_RUNNING, upd_progress := Some 0, upd_message := Some ''Starting''\<rparr>)
          (qm_store q),
       qm_active := qm_active q @ [(job_id, TaskCreated)],
       qm_devices := qm_devices q @ [(job_id, device)]\<rparr>"

text \<open>
  The inner loop of \<open>_dispatch_loop\<close>. It has no await, so it is one step; the fuel counts its
  turns (\<open>m\<close> may answer differently at each), \<open>None\<close> is a loop still running.
\<close>

fun dispatch_fill :: "(nat \<Rightarrow> trainer_machine) \<Rightarrow> nat \<Rightarrow> QueueManager \<Rightarrow> QueueManager option" where
  "dispatch_fill m 0 q = None"
| "dispatch_fill m (Suc n) q =
     (if length (qm_active q) < qm_max q then
        (case next_runnable (m n) q of
           (None, q1) \<Rightarrow> Some q1
         | (Some (job_id, device), q1) \<Rightarrow>
             (case get job_id (qm_store q1) of
                None \<Rightarrow> dispatch_fill m n q1
              | Some st \<Rightarrow>
                  if state_status st \<noteq> T_QUEUED then dispatch_fill m n q1
                  else dispatch_fill m n (start_job job_id device q1)))
      else Some q)"

definition dispatch_tick :: "(nat \<Rightarrow> trainer_machine) \<Rightarrow> nat \<Rightarrow> QueueManager \<Rightarrow> QueueManager option" where
  "dispatch_tick m fuel q =
     map_option (\<lambda>q1. if length (qm_active q1) \<ge> qm_max q1 then snd (next_runnable (m 0) q1) else q1)
       (dispatch_fill m fuel q)"

text \<open>\<open>_run_job\<close> up to its first await: the request is read and the secret attached.\<close>

datatype run_result = RunArchive string | RunJobCanceled | RunRaised string

definition should_stop :: "QueueManager \<Rightarrow> string \<Rightarrow> bool" where
  "should_stop q job_id \<longleftrightarrow> job_id \<in> qm_cancel q \<or> qm_stopped q"

definition end_task :: "string \<Rightarrow> QueueManager \<Rightarrow> QueueManager" where
  "end_task job_id q =
     q\<lparr>qm_cancel := qm_cancel q - {job_id},
       qm_active := filter (\<lambda>a. fst a \<noteq> job_id) (qm_active q),
       qm_devices := filter (\<lambda>a. fst a \<noteq> job_id) (qm_devices q)\<rparr>"

definition run_job_start :: "string \<Rightarrow> QueueManager \<Rightarrow> SubmitJobRequest option \<times> QueueManager" where
  "run_job_start job_id q =
     (case get_request job_id (qm_store q) of
        None \<Rightarrow> (None, end_task job_id (qm_update job_id
                   (no_update\<lparr>upd_status := Some T_FAILED, upd_message := Some ''Missing job request''\<rparr>) q))
      | Some request \<Rightarrow>
          (let (token, st) = take_secret job_id (qm_store q) in
           (Some (request\<lparr>req_spec := (req_spec request)\<lparr>spec_run_options :=
                    (spec_run_options (req_spec request))\<lparr>hf_token := token\<rparr>\<rparr>\<rparr>),
            q\<lparr>qm_store := st,
              qm_active := map (\<lambda>a. if fst a = job_id then (job_id, TaskTraining) else a) (qm_active q)\<rparr>)))"

definition run_job_report ::
  "string \<Rightarrow> int \<Rightarrow> string option \<Rightarrow> extra_info option \<Rightarrow> QueueManager \<Rightarrow> QueueManager" where
  "run_job_report job_id p msg ex q =
     qm_update job_id (no_update\<lparr>upd_progress := Some p, upd_message := msg, upd_extra_info := ex\<rparr>) q"

definition run_job_outcome :: "string \<Rightarrow> run_result \<Rightarrow> QueueManager \<Rightarrow> job_update" where
  "run_job_outcome job_id res q =
     (case res of
        RunArchive archive \<Rightarrow>
          if job_id \<in> qm_cancel q
          then no_update\<lparr>upd_status := Some T_CANCELED, upd_message := Some ''Canceled''\<rparr>
          else no_update\<lparr>upd_status := Some T_COMPLETED, upd_progress := Some 100,
                 upd_message := Some ''Training finished'', upd_artifact := Some archive\<rparr>
      | RunJobCanceled \<Rightarrow> no_update\<lparr>upd_status := Some T_CANCELED, upd_message := Some ''Canceled''\<rparr>
      | RunRaised e \<Rightarrow>
          no_update\<lparr>upd_status := Some (if job_id \<in> qm_cancel q then T_CANCELED else T_FAILED),
                    upd_message := Some (''Training failed: '' @ e)\<rparr>)"

definition run_job_finish :: "string \<Rightarrow> run_result \<Rightarrow> QueueManager \<Rightarrow> QueueManager" where
  "run_job_finish job_id res q = end_task job_id (qm_update job_id (run_job_outcome job_id res q) q)"

definition cleanup_if_not_completed ::
  "trainer_dirs \<Rightarrow> string \<Rightarrow> QueueManager \<Rightarrow> 'c fs \<Rightarrow> 'c fs" where
  "cleanup_if_not_completed d job_id q fs =
     (case get job_id (qm_store q) of
        None \<Rightarrow> fs
      | Some st \<Rightarrow> if state_status st \<noteq> T_COMPLETED then cleanup_job_outputs d job_id fs else fs)"

definition qm_start :: "JobStore \<Rightarrow> nat \<Rightarrow> QueueManager" where
  "qm_start st n = \<lparr>qm_store = reopen st, qm_max = n, qm_cancel = {}, qm_active = [],
     qm_devices = [], qm_stopped = False\<rparr>"

definition qm_shutdown :: "QueueManager \<Rightarrow> QueueManager" where
  "qm_shutdown q = q\<lparr>qm_stopped := True, qm_cancel := qm_cancel q \<union> fst ` set (qm_active q)\<rparr>"

section \<open>The isolated run\<close>

text \<open>
  \<open>_run_isolated\<close> polls the child's update queue. A poll yields a message, or times out with
  the child alive or dead; \<open>cancel\<close> is what \<open>should_stop\<close> answers before that poll. The result
  is \<open>None\<close> while the loop is still polling; the last component says whether the child was
  told to stop.
\<close>

datatype child_message = Progress int "string option" "extra_info option" | Completed string
  | Canceled | Failed string

datatype poll = Message child_message | TimedOut bool

fun isolated_loop ::
  "(bool \<times> poll) list \<Rightarrow> bool
     \<Rightarrow> (int \<times> string option \<times> extra_info option) list \<times> run_result option \<times> bool" where
  "isolated_loop [] stop = ([], None, stop)"
| "isolated_loop ((cancel, p) # ps) stop =
     (let stop' = stop \<or> cancel in
      case p of
        TimedOut alive \<Rightarrow>
          if alive then isolated_loop ps stop'
          else ([], Some (RunRaised ''Trainer process exited unexpectedly''), True)
      | Message (Progress n msg ex) \<Rightarrow>
          (let (rs, res, st) = isolated_loop ps stop' in ((n, msg, ex) # rs, res, st))
      | Message (Completed a) \<Rightarrow> ([], Some (RunArchive a), True)
      | Message Canceled \<Rightarrow> ([], Some RunJobCanceled, True)
      | Message (Failed e) \<Rightarrow> ([], Some (RunRaised e), True))"

section \<open>Steps of the manager\<close>

datatype qm_event =
    Submit string int SubmitJobRequest
  | DatasetReady string
  | Cancel string
  | Dispatch "nat \<Rightarrow> trainer_machine"
  | JobStart string
  | JobReport string int "string option" "extra_info option"
  | JobDone string run_result
  | DeleteJob string
  | Shutdown

definition t_terminal :: "TrainerJobStatus \<Rightarrow> bool" where
  "t_terminal s \<longleftrightarrow> s \<in> {T_COMPLETED, T_FAILED, T_CANCELED}"

text \<open>
  An event that is not enabled leaves the manager alone: a coroutine step of a job that has
  no such coroutine, a dispatch after the loop was stopped, a submission whose random id is
  taken, a deletion the API refuses (job not in a terminal state).
\<close>

fun qm_step :: "QueueManager \<Rightarrow> qm_event \<Rightarrow> QueueManager" where
  "qm_step q (Submit j now rq) =
     (case create j now rq (qm_store q) of
        Inl e \<Rightarrow> q
      | Inr st \<Rightarrow> q\<lparr>qm_store := stash_secret j (req_hf_token rq) st\<rparr>)"
| "qm_step q (DatasetReady j) = q\<lparr>qm_store := mark_dataset_ready j (qm_store q)\<rparr>"
| "qm_step q (Cancel j) = request_cancel j q"
| "qm_step q (Dispatch m) =
     (if qm_stopped q then q
      else case dispatch_tick m (Suc (length (queued (qm_store q)))) q of None \<Rightarrow> q | Some q1 \<Rightarrow> q1)"
| "qm_step q (JobStart j) =
     (if map_of (qm_active q) j = Some TaskCreated then snd (run_job_start j q) else q)"
| "qm_step q (JobReport j p msg ex) =
     (if map_of (qm_active q) j = Some TaskTraining then run_job_report j p msg ex q else q)"
| "qm_step q (JobDone j res) =
     (if map_of (qm_active q) j = Some TaskTraining then run_job_finish j res q else q)"
| "qm_step q (DeleteJob j) =
     (case get j (qm_store q) of
        None \<Rightarrow> q
      | Some st \<Rightarrow> if t_terminal (state_status st) then q\<lparr>qm_store := delete j (qm_store q)\<rparr> else q)"
| "qm_step q Shutdown = qm_shutdown q"

end
