(* ===== verification/TrainerQueueInv.thy ===== *)
theory TrainerQueueInv
  imports TrainerQueue
begin

text \<open>
  What the trainer's queue manager keeps: at most the configured number of jobs run, no two
  on the same device, exactly the RUNNING rows have a task, a token lives in memory only
  until its job starts, statuses only move forward, and the dispatch loop ends with every
  slot used that can be.
\<close>

section \<open>The status view\<close>

definition job_status :: "QueueManager \<Rightarrow> string \<Rightarrow> TrainerJobStatus option" where
  "job_status q j = map_option row_status (find_row j (qm_store q))"

definition new_status :: "job_update \<Rightarrow> TrainerJobStatus \<Rightarrow> TrainerJobStatus" where
  "new_status u s = (case upd_status u of None \<Rightarrow> s | Some s' \<Rightarrow> s')"

lemma row_status_apply [simp]: "row_status (apply_update u r) = new_status u (row_status r)"
  by (simp add: apply_update_def new_status_def)

lemma row_request_apply [simp]: "row_request (apply_update u r) = row_request r"
  by (simp add: apply_update_def)

lemma row_created_apply [simp]: "row_created_at (apply_update u r) = row_created_at r"
  by (simp add: apply_update_def)

lemma new_status_simps [simp]:
  "new_status (no_update\<lparr>upd_message := m\<rparr>) s = s"
  "new_status (u\<lparr>upd_message := m\<rparr>) s = new_status u s"
  "new_status (u\<lparr>upd_progress := p\<rparr>) s = new_status u s"
  "new_status (u\<lparr>upd_extra_info := e\<rparr>) s = new_status u s"
  "new_status (u\<lparr>upd_artifact := a\<rparr>) s = new_status u s"
  "new_status (u\<lparr>upd_status := Some s'\<rparr>) s = s'"
  "new_status no_update s = s"
  by (simp_all add: new_status_def no_update_def)

lemma qm_update_simps [simp]:
  "qm_max (qm_update j u q) = qm_max q" "qm_cancel (qm_update j u q) = qm_cancel q"
  "qm_active (qm_update j u q) = qm_active q" "qm_devices (qm_update j u q) = qm_devices q"
  "qm_stopped (qm_update j u q) = qm_stopped q" "qm_store (qm_update j u q) = update j u (qm_store q)"
  by (simp_all add: qm_update_def)

lemma find_row_update:
  "find_row k (update j u st) = (if k = j then map_option (apply_update u) (find_row k st) else find_row k st)"
  by (rule trainer_store.lookup_modify)

lemma job_status_update [simp]:
  "job_status (qm_update j u q) k = (if k = j then map_option (new_status u) (job_status q k) else job_status q k)"
  by (cases "find_row k (qm_store q)") (auto simp: job_status_def find_row_update)

lemma get_status: "map_option state_status (get j (qm_store q)) = job_status q j"
  by (simp add: job_status_def get_find_row option.map_comp comp_def)

lemma get_Some_status: "get j (qm_store q) = Some st \<Longrightarrow> job_status q j = Some (state_status st)"
  by (metis get_status option.map(2))

lemma get_None_status: "get j (qm_store q) = None \<longleftrightarrow> job_status q j = None"
  by (metis get_status map_option_is_None)

definition progress_ok :: "JobStore \<Rightarrow> bool" where
  "progress_ok st \<longleftrightarrow> (\<forall>j r. find_row j st = Some r \<longrightarrow> 0 \<le> row_progress r \<and> row_progress r \<le> 100)"

lemma progress_apply:
  "0 \<le> row_progress r \<Longrightarrow> row_progress r \<le> 100
    \<Longrightarrow> 0 \<le> row_progress (apply_update u r) \<and> row_progress (apply_update u r) \<le> 100"
  by (simp add: apply_update_def split: option.splits)

lemma progress_ok_update [simp]: "progress_ok st \<Longrightarrow> progress_ok (update j u st)"
  unfolding progress_ok_def by (auto simp: find_row_update progress_apply split: if_splits)

lemma progress_ok_secrets [simp]:
  "progress_ok (stash_secret j t st) = progress_ok st" "progress_ok (discard_secret j st) = progress_ok st"
  "progress_ok (snd (take_secret j st)) = progress_ok st"
  by (simp_all add: progress_ok_def)

section \<open>The invariant\<close>

definition devices_exclusive :: "(string \<times> device) list \<Rightarrow> bool" where
  "devices_exclusive = sorted_wrt (\<lambda>a b. snd a \<noteq> None \<and> snd b \<noteq> None \<and> snd a \<noteq> snd b)"

definition secrets_pending :: "QueueManager \<Rightarrow> bool" where
  "secrets_pending q \<longleftrightarrow>
     (\<forall>j. store_secrets (qm_store q) j \<noteq> None \<longrightarrow>
        job_status q j \<in> {Some T_AWAITING_DATASET, Some T_QUEUED}
        \<or> map_of (qm_active q) j = Some TaskCreated)"

definition qm_inv :: "QueueManager \<Rightarrow> bool" where
  "qm_inv q \<longleftrightarrow>
     ids_distinct (qm_store q) \<and> progress_ok (qm_store q)
     \<and> distinct (map fst (qm_active q)) \<and> map fst (qm_devices q) = map fst (qm_active q)
     \<and> length (qm_active q) \<le> qm_max q
     \<and> (\<forall>j. j \<in> fst ` set (qm_active q) \<longleftrightarrow> job_status q j = Some T_RUNNING)
     \<and> devices_exclusive (qm_devices q)
     \<and> secrets_pending q"

lemma qm_invD:
  assumes "qm_inv q"
  shows "ids_distinct (qm_store q)" "progress_ok (qm_store q)" "distinct (map fst (qm_active q))"
    "map fst (qm_devices q) = map fst (qm_active q)" "length (qm_active q) \<le> qm_max q"
    "j \<in> fst ` set (qm_active q) \<longleftrightarrow> job_status q j = Some T_RUNNING"
    "devices_exclusive (qm_devices q)" "secrets_pending q"
  using assms by (auto simp: qm_inv_def)

subsection \<open>Updates that leave the status alone\<close>

lemma qm_inv_update_keep:
  assumes "qm_inv q" and "\<And>s. new_status u s = s"
  shows "qm_inv (qm_update j u q)"
  using assms by (auto simp: qm_inv_def secrets_pending_def option.map_ident)

lemma qm_inv_set_wait: "qm_inv q \<Longrightarrow> qm_inv (set_wait_message j m q)"
  by (auto simp: set_wait_message_def intro: qm_inv_update_keep split: option.splits)

subsection \<open>The scan of the queue\<close>

text \<open>What a scan cannot touch.\<close>

definition same_but_messages :: "QueueManager \<Rightarrow> QueueManager \<Rightarrow> bool" where
  "same_but_messages q q' \<longleftrightarrow>
     qm_max q' = qm_max q \<and> qm_cancel q' = qm_cancel q \<and> qm_active q' = qm_active q
     \<and> qm_devices q' = qm_devices q \<and> qm_stopped q' = qm_stopped q
     \<and> store_secrets (qm_store q') = store_secrets (qm_store q)
     \<and> map (row_message_update (\<lambda>_. None)) (store_rows (qm_store q'))
         = map (row_message_update (\<lambda>_. None)) (store_rows (qm_store q))"

lemma same_but_messages_refl: "same_but_messages q q"
  by (simp add: same_but_messages_def)

lemma same_but_messages_trans:
  "same_but_messages q q' \<Longrightarrow> same_but_messages q' q'' \<Longrightarrow> same_but_messages q q''"
  by (simp add: same_but_messages_def)

lemma same_but_messages_wait: "same_but_messages q (set_wait_message j m q)"
  by (auto simp: same_but_messages_def set_wait_message_def update_def sql_update_def apply_update_def
      no_update_def split: option.splits)

lemma same_but_messages_find:
  assumes "same_but_messages q q'"
  shows "map_option (row_message_update (\<lambda>_. None)) (find_row j (qm_store q'))
       = map_option (row_message_update (\<lambda>_. None)) (find_row j (qm_store q))"
proof -
  have conv: "map_option (row_message_update (\<lambda>_. None)) (row_get row_id j rows)
      = row_get row_id j (map (row_message_update (\<lambda>_. None)) rows)" for rows
    by (induction rows) auto
  show ?thesis
    using assms by (simp add: same_but_messages_def find_row_def conv)
qed

lemma map_option_via:
  assumes "map_option f x = map_option f y" and "\<And>a. g (f a) = g a"
  shows "map_option g x = map_option g y"
proof -
  have "map_option g x = map_option g (map_option f x)" using assms(2) by (simp add: option.map_comp comp_def)
  also have "\<dots> = map_option g (map_option f y)" by (simp add: assms(1))
  also have "\<dots> = map_option g y" using assms(2) by (simp add: option.map_comp comp_def)
  finally show ?thesis .
qed

lemma same_but_messages_views:
  assumes "same_but_messages q q'"
  shows "job_status q' j = job_status q j"
    and "get_request j (qm_store q') = get_request j (qm_store q)"
    and "ids_distinct (qm_store q') = ids_distinct (qm_store q)"
    and "length (queued (qm_store q')) = length (queued (qm_store q))"
proof -
  note f = same_but_messages_find [OF assms, of j]
  show "job_status q' j = job_status q j"
    unfolding job_status_def by (rule map_option_via [OF f]) simp
  show "get_request j (qm_store q') = get_request j (qm_store q)"
    unfolding get_request_def find_row_def [symmetric] by (rule map_option_via [OF f]) simp
  have rows: "map (row_message_update (\<lambda>_. None)) (store_rows (qm_store q'))
         = map (row_message_update (\<lambda>_. None)) (store_rows (qm_store q))"
    using assms by (simp add: same_but_messages_def)
  have ids: "map row_id rs = map row_id (map (row_message_update (\<lambda>_. None)) rs)" for rs
    by simp
  show "ids_distinct (qm_store q') = ids_distinct (qm_store q)"
    unfolding ids_distinct_def by (subst (1 2) ids) (simp only: rows)
  have len: "length (filter (\<lambda>r. row_status r = T_QUEUED) rs)
      = length (filter (\<lambda>r. row_status r = T_QUEUED) (map (row_message_update (\<lambda>_. None)) rs))" for rs
    by (induction rs) auto
  show "length (queued (qm_store q')) = length (queued (qm_store q))"
    unfolding queued_def length_map length_sort by (subst (1 2) len) (simp only: rows)
qed

lemma busy_device_same: "same_but_messages q q' \<Longrightarrow> busy_device m q' d = busy_device m q d"
  by (simp add: busy_device_def reserved_device_def same_but_messages_def)

lemma scan_queue_same: "same_but_messages q (snd (scan_queue m ids nx q))"
proof (induction ids arbitrary: nx q)
  case Nil
  then show ?case by (simp add: same_but_messages_refl)
next
  case (Cons j ids)
  show ?case
    unfolding scan_queue.simps Let_def
    by (rule same_but_messages_trans [OF same_but_messages_wait Cons.IH])
qed

lemma scan_queue_inv: "qm_inv q \<Longrightarrow> qm_inv (snd (scan_queue m ids nx q))"
  by (induction ids arbitrary: nx q) (simp_all add: Let_def qm_inv_set_wait)

text \<open>The scan answers the first job, in queue order, whose device is free.\<close>

lemma scan_queue_first:
  "fst (scan_queue m ids nx q) =
     (case nx of
        Some x \<Rightarrow> Some x
      | None \<Rightarrow> find (\<lambda>(j, d). \<not> busy_device m q d)
                  (map (\<lambda>j. (j, wanted_device (get_request j (qm_store q)))) ids))"
proof (induction ids arbitrary: nx q)
  case Nil
  then show ?case by (simp split: option.split)
next
  case (Cons j ids)
  define q1 where "q1 = set_wait_message j
      (wait_message (busy_device m q (wanted_device (get_request j (qm_store q))))
        (reserved_device q (wanted_device (get_request j (qm_store q))))
        (wanted_device (get_request j (qm_store q)))) q"
  have same: "same_but_messages q q1"
    by (simp add: q1_def same_but_messages_wait)
  have "(\<lambda>j. (j, wanted_device (get_request j (qm_store q1))))
      = (\<lambda>j. (j, wanted_device (get_request j (qm_store q))))"
    by (simp add: same_but_messages_views(2) [OF same])
  moreover have "busy_device m q1 = busy_device m q"
    by (simp add: busy_device_same [OF same] fun_eq_iff)
  ultimately show ?case
    using Cons.IH [of _ q1] by (simp add: Let_def q1_def [symmetric] split: option.split)
qed

lemma next_runnable_Some:
  assumes "next_runnable m q = (Some (j, d), q1)"
  shows "j \<in> set (queued (qm_store q))" and "\<not> busy_device m q d"
    and "d = wanted_device (get_request j (qm_store q))" and "same_but_messages q q1"
proof -
  from assms have f: "find (\<lambda>(j, d). \<not> busy_device m q d)
      (map (\<lambda>j. (j, wanted_device (get_request j (qm_store q)))) (queued (qm_store q))) = Some (j, d)"
    using scan_queue_first [of m "queued (qm_store q)" None q] by (simp add: next_runnable_def)
  then show "j \<in> set (queued (qm_store q))" "\<not> busy_device m q d"
    "d = wanted_device (get_request j (qm_store q))"
    by (auto simp: find_Some_iff set_conv_nth)
  show "same_but_messages q q1"
    using assms scan_queue_same [of q m "queued (qm_store q)" None] by (simp add: next_runnable_def)
qed

subsection \<open>Dispatching\<close>

lemma find_row_same_store:
  "qm_store q' = qm_store q \<Longrightarrow> job_status q' j = job_status q j"
  by (simp add: job_status_def)

lemma job_status_start_job [simp]:
  "job_status (start_job j d q) k =
     (if k = j then map_option (\<lambda>_. T_RUNNING) (job_status q k) else job_status q k)"
  by (cases "find_row k (qm_store q)")
     (auto simp: job_status_def start_job_def find_row_update)

lemma start_job_simps [simp]:
  "qm_max (start_job j d q) = qm_max q"
  "qm_active (start_job j d q) = qm_active q @ [(j, TaskCreated)]"
  "qm_devices (start_job j d q) = qm_devices q @ [(j, d)]"
  "qm_stopped (start_job j d q) = qm_stopped q" "qm_cancel (start_job j d q) = qm_cancel q"
  "store_secrets (qm_store (start_job j d q)) = store_secrets (qm_store q)"
  by (simp_all add: start_job_def)

lemma in_queued_status:
  "ids_distinct (qm_store q) \<Longrightarrow> j \<in> set (queued (qm_store q)) \<longleftrightarrow> job_status q j = Some T_QUEUED"
  by (auto simp: in_queued_iff job_status_def)

lemma devices_exclusive_append:
  assumes "devices_exclusive ds" and "\<not> reserved_device q d" and "qm_devices q = ds"
    and "map fst ds = map fst (qm_active q)"
  shows "devices_exclusive (ds @ [(j, d)])"
proof (cases "ds = []")
  case True
  then show ?thesis by (simp add: devices_exclusive_def)
next
  case False
  with assms(4) have "qm_active q \<noteq> []" by auto
  with assms(2) have "d \<noteq> None" by (auto simp: reserved_device_def)
  with assms show ?thesis
    by (auto simp: devices_exclusive_def sorted_wrt_append reserved_device_def list_ex_iff
        case_prod_unfold)
qed

lemma qm_inv_start_job:
  assumes inv: "qm_inv q" and st: "job_status q j = Some T_QUEUED" and free: "\<not> reserved_device q d"
    and room: "length (qm_active q) < qm_max q"
  shows "qm_inv (start_job j d q)"
proof -
  have nin: "j \<notin> fst ` set (qm_active q)"
    using qm_invD(6) [OF inv, of j] st by auto
  have "devices_exclusive (qm_devices q @ [(j, d)])"
    using devices_exclusive_append [OF qm_invD(7) [OF inv] free refl qm_invD(4) [OF inv]] .
  moreover have "secrets_pending (start_job j d q)"
    using qm_invD(8) [OF inv] nin [folded map_of_eq_None_iff]
    by (auto simp: secrets_pending_def map_add_def split: option.splits)
  ultimately show ?thesis
    using inv nin room st qm_invD(6) [OF inv]
    by (auto simp: qm_inv_def start_job_def [of j d q, THEN arg_cong [where f = qm_store]] image_Un)
qed

lemma busy_imp_reserved: "\<not> busy_device m q d \<Longrightarrow> \<not> reserved_device q d"
  by (simp add: busy_device_def)

lemma reserved_same: "same_but_messages q q' \<Longrightarrow> reserved_device q' d = reserved_device q d"
  by (simp add: reserved_device_def same_but_messages_def)

lemma next_runnable_inv: "qm_inv q \<Longrightarrow> next_runnable m q = (x, q1) \<Longrightarrow> qm_inv q1"
  using scan_queue_inv [of q m "queued (qm_store q)" None] by (simp add: next_runnable_def)

lemma next_runnable_same: "next_runnable m q = (x, q1) \<Longrightarrow> same_but_messages q q1"
  using scan_queue_same [of q m "queued (qm_store q)" None] by (simp add: next_runnable_def)

lemma length_queued_start_job:
  assumes "ids_distinct (qm_store q)" and "job_status q j = Some T_QUEUED"
  shows "length (queued (qm_store (start_job j d q))) < length (queued (qm_store q))"
proof -
  define P where "P = (\<lambda>r::job_row. row_status r = T_QUEUED)"
  define u where "u = no_update\<lparr>upd_status := Some T_RUNNING, upd_progress := Some 0,
      upd_message := Some ''Starting''\<rparr>"
  obtain r where r: "r \<in> set (store_rows (qm_store q))" "row_id r = j" "P r"
    using assms(2) by (auto simp: job_status_def find_row_def P_def dest: row_get_SomeD)
  have "filter P (sql_update (\<lambda>r. row_id r = j) (apply_update u) rs)
      = filter (\<lambda>r. row_id r \<noteq> j \<and> P r) rs" for rs
    by (induction rs) (simp_all add: P_def u_def)
  then have "length (queued (qm_store (start_job j d q)))
      = length (filter (\<lambda>r. row_id r \<noteq> j) (filter P (store_rows (qm_store q))))"
    by (simp add: queued_def start_job_def update_def u_def P_def conj_commute)
  also have "\<dots> < length (filter P (store_rows (qm_store q)))"
    by (rule length_filter_less [where x = r]) (use r in auto)
  finally show ?thesis by (simp add: queued_def P_def)
qed

lemma next_runnable_None_iff:
  assumes "ids_distinct (qm_store q)"
  shows "fst (next_runnable m q) = None \<longleftrightarrow>
     (\<forall>j. job_status q j = Some T_QUEUED \<longrightarrow> busy_device m q (wanted_device (get_request j (qm_store q))))"
  using in_queued_status [OF assms]
  by (auto simp: next_runnable_def scan_queue_first find_None_iff)

lemma next_runnable_None_same:
  assumes "qm_inv q1" and "same_but_messages q q1"
  shows "fst (next_runnable m q1) = None \<longleftrightarrow> fst (next_runnable m q) = None"
  using assms same_but_messages_views [OF assms(2)] qm_invD(1) [OF assms(1)]
  by (simp add: next_runnable_None_iff busy_device_same [OF assms(2)])

text \<open>
  The inner dispatch loop: every turn that continues starts a queued job, so a turn per
  queued job and one more are enough; it keeps the invariant and stops only with all slots
  taken or no job whose device is free.
\<close>

lemma dispatch_fill_total:
  assumes "qm_inv q" and "length (queued (qm_store q)) < n"
  shows "\<exists>q1 k. dispatch_fill m n q = Some q1 \<and> qm_inv q1
     \<and> (length (qm_active q1) = qm_max q1 \<or> fst (next_runnable (m k) q1) = None)
     \<and> qm_stopped q1 = qm_stopped q \<and> qm_max q1 = qm_max q"
  using assms
proof (induction n arbitrary: q)
  case 0
  then show ?case by simp
next
  case (Suc n)
  show ?case
  proof (cases "length (qm_active q) < qm_max q")
    case False
    then show ?thesis using Suc.prems(1) qm_invD(5) [OF Suc.prems(1)] by auto
  next
    case True
    obtain x q1 where nr: "next_runnable (m n) q = (x, q1)" by fastforce
    note inv1 = next_runnable_inv [OF Suc.prems(1) nr] and same = next_runnable_same [OF nr]
    show ?thesis
    proof (cases x)
      case None
      have "fst (next_runnable (m n) q1) = None"
        using next_runnable_None_same [OF inv1 same, of "m n"] nr None by simp
      then show ?thesis using True nr None inv1 same by (auto simp: same_but_messages_def)
    next
      case (Some jd)
      obtain j d where jd: "jd = (j, d)" by fastforce
      note pick = next_runnable_Some [OF nr [unfolded Some jd]]
      have st: "job_status q1 j = Some T_QUEUED"
        using pick(1) in_queued_status [OF qm_invD(1) [OF Suc.prems(1)]] same_but_messages_views(1) [OF same]
        by simp
      then obtain s where s: "get j (qm_store q1) = Some s" "state_status s = T_QUEUED"
        by (metis get_Some_status get_None_status option.exhaust option.inject option.distinct(1))
      have free: "\<not> reserved_device q1 d"
        using busy_imp_reserved [OF pick(2)] reserved_same [OF same] by simp
      have "qm_inv (start_job j d q1)"
        using qm_inv_start_job [OF inv1 st free] True same by (simp add: same_but_messages_def)
      moreover have "length (queued (qm_store (start_job j d q1))) < n"
        using length_queued_start_job [OF qm_invD(1) [OF inv1] st, of d]
          same_but_messages_views(4) [OF same] Suc.prems(2) by simp
      ultimately obtain q2 k where "dispatch_fill m n (start_job j d q1) = Some q2" "qm_inv q2"
        "length (qm_active q2) = qm_max q2 \<or> fst (next_runnable (m k) q2) = None"
        "qm_stopped q2 = qm_stopped (start_job j d q1)" "qm_max q2 = qm_max (start_job j d q1)"
        using Suc.IH by blast
      then show ?thesis
        using True nr Some jd s same by (auto simp: same_but_messages_def)
    qed
  qed
qed

lemma dispatch_tick_total:
  assumes "qm_inv q"
  shows "\<exists>q1 k. dispatch_tick m (Suc (length (queued (qm_store q)))) q = Some q1 \<and> qm_inv q1
     \<and> (length (qm_active q1) = qm_max q1 \<or> fst (next_runnable (m k) q1) = None)
     \<and> qm_stopped q1 = qm_stopped q \<and> qm_max q1 = qm_max q"
proof -
  obtain q1 k where q1: "dispatch_fill m (Suc (length (queued (qm_store q)))) q = Some q1" "qm_inv q1"
    "length (qm_active q1) = qm_max q1 \<or> fst (next_runnable (m k) q1) = None"
    "qm_stopped q1 = qm_stopped q" "qm_max q1 = qm_max q"
    using dispatch_fill_total [OF assms, of "Suc (length (queued (qm_store q)))" m] by auto
  obtain x q2 where q2: "next_runnable (m 0) q1 = (x, q2)" by fastforce
  show ?thesis
  proof (cases "length (qm_active q1) \<ge> qm_max q1")
    case True
    then show ?thesis
      using q1 q2 next_runnable_inv [OF q1(2) q2] next_runnable_same [OF q2] qm_invD(5) [OF q1(2)]
      by (auto simp: dispatch_tick_def same_but_messages_def)
  next
    case False
    then show ?thesis using q1 by (auto simp: dispatch_tick_def)
  qed
qed

subsection \<open>The other steps\<close>

lemma qm_inv_submit:
  assumes inv: "qm_inv q" and cr: "create j now rq (qm_store q) = Inr st"
  shows "qm_inv (q\<lparr>qm_store := stash_secret j t st\<rparr>)"
proof -
  note f = find_row_create [OF cr]
  have new: "job_status q j = None"
    using cr by (auto simp: create_def job_status_def find_row_def split: if_splits)
  have st: "job_status (q\<lparr>qm_store := stash_secret j t st\<rparr>) k
      = (if k = j then Some T_AWAITING_DATASET else job_status q k)" for k
    by (simp add: job_status_def f)
  have sec: "store_secrets (stash_secret j t st) k = (if k = j \<and> t \<noteq> None then t else store_secrets (qm_store q) k)" for k
    using cr by (auto simp: create_def stash_secret_def split: if_splits option.splits)
  have "progress_ok st"
    using qm_invD(2) [OF inv] by (simp add: progress_ok_def f)
  moreover have "ids_distinct st"
    using ids_distinct_create [OF qm_invD(1) [OF inv] cr] .
  moreover have "secrets_pending (q\<lparr>qm_store := stash_secret j t st\<rparr>)"
    using qm_invD(8) [OF inv]
    by (auto simp: secrets_pending_def st sec split: if_splits)
  ultimately show ?thesis
    using inv new by (auto simp: qm_inv_def st)
qed

lemma mark_ready_status:
  "job_status (q\<lparr>qm_store := mark_dataset_ready j (qm_store q)\<rparr>) k =
     (if k = j \<and> job_status q k = Some T_AWAITING_DATASET then Some T_QUEUED else job_status q k)"
  by (cases "find_row k (qm_store q)") (auto simp: job_status_def find_row_mark_ready)

lemma qm_inv_dataset_ready:
  assumes inv: "qm_inv q"
  shows "qm_inv (q\<lparr>qm_store := mark_dataset_ready j (qm_store q)\<rparr>)" (is "qm_inv ?q")
proof -
  note st = mark_ready_status [of j q]
  have "progress_ok (mark_dataset_ready j (qm_store q))"
    using qm_invD(2) [OF inv] unfolding progress_ok_def
    by (auto simp: find_row_mark_ready split: if_splits)
  moreover have "secrets_pending ?q"
    using qm_invD(8) [OF inv] by (auto simp: secrets_pending_def st)
  ultimately show ?thesis using inv by (auto simp: qm_inv_def st)
qed

lemma request_cancel_status:
  "job_status (request_cancel j q) k =
     (if k = j \<and> job_status q j \<in> {Some T_QUEUED, Some T_AWAITING_DATASET} then Some T_CANCELED
      else job_status q k)"
proof (cases "find_row j (qm_store q)")
  case None
  then show ?thesis by (simp add: request_cancel_def get_find_row job_status_def)
next
  case (Some r)
  then show ?thesis
    by (auto simp: request_cancel_def get_find_row job_status_def find_row_update Let_def)
qed

lemma request_cancel_simps [simp]:
  "qm_max (request_cancel j q) = qm_max q" "qm_active (request_cancel j q) = qm_active q"
  "qm_devices (request_cancel j q) = qm_devices q" "qm_stopped (request_cancel j q) = qm_stopped q"
  "qm_cancel (request_cancel j q) = insert j (qm_cancel q)"
  by (auto simp: request_cancel_def Let_def split: option.splits)

lemma request_cancel_secrets:
  "store_secrets (qm_store (request_cancel j q)) =
     (if job_status q j \<in> {Some T_QUEUED, Some T_AWAITING_DATASET}
      then (store_secrets (qm_store q))(j := None) else store_secrets (qm_store q))"
  by (cases "find_row j (qm_store q)")
     (auto simp: request_cancel_def get_find_row job_status_def Let_def)

lemma request_cancel_store_ok:
  "ids_distinct (qm_store (request_cancel j q)) = ids_distinct (qm_store q)"
  "progress_ok (qm_store q) \<Longrightarrow> progress_ok (qm_store (request_cancel j q))"
  by (auto simp: request_cancel_def Let_def split: option.splits)

lemma qm_inv_cancel: "qm_inv q \<Longrightarrow> qm_inv (request_cancel j q)"
proof -
  assume inv: "qm_inv q"
  have "secrets_pending (request_cancel j q)"
    using qm_invD(8) [OF inv]
    by (auto simp: secrets_pending_def request_cancel_status request_cancel_secrets split: if_splits)
  then show ?thesis
    using inv request_cancel_store_ok
    by (auto simp: qm_inv_def request_cancel_status)
qed

lemma active_row:
  assumes "qm_inv q" and "map_of (qm_active q) j = Some t"
  shows "j \<in> fst ` set (qm_active q)" and "job_status q j = Some T_RUNNING"
    and "\<exists>rq. get_request j (qm_store q) = Some rq"
proof -
  show a: "j \<in> fst ` set (qm_active q)" using assms(2) by (force dest: map_of_SomeD)
  then show s: "job_status q j = Some T_RUNNING" using qm_invD(6) [OF assms(1)] by blast
  then show "\<exists>rq. get_request j (qm_store q) = Some rq"
    by (auto simp: job_status_def get_request_def find_row_def)
qed

lemma map_of_mark_training:
  "map_of (map (\<lambda>a. if fst a = j then (j, TaskTraining) else a) xs) k =
     (if k = j then map_option (\<lambda>_. TaskTraining) (map_of xs k) else map_of xs k)"
  by (induction xs) auto

lemma map_fst_mark_training:
  "map fst (map (\<lambda>a. if fst a = j then (j, TaskTraining) else a) xs) = map fst xs"
  by (induction xs) auto

lemma qm_inv_job_start:
  assumes inv: "qm_inv q" and act: "map_of (qm_active q) j = Some TaskCreated"
  shows "qm_inv (snd (run_job_start j q))"
proof -
  obtain rq where rq: "get_request j (qm_store q) = Some rq" using active_row(3) [OF inv act] by blast
  define q1 where "q1 = snd (run_job_start j q)"
  have q1: "q1 = q\<lparr>qm_store := snd (take_secret j (qm_store q)),
      qm_active := map (\<lambda>a. if fst a = j then (j, TaskTraining) else a) (qm_active q)\<rparr>"
    by (simp add: q1_def run_job_start_def rq case_prod_unfold Let_def)
  have st: "job_status q1 k = job_status q k" for k by (simp add: q1 job_status_def)
  have ids: "map fst (qm_active q1) = map fst (qm_active q)"
    by (simp add: q1 comp_def if_distrib cong: if_cong)
  have "fst ` set (qm_active q1) = fst ` set (qm_active q)"
    by (metis ids list.set_map)
  moreover have "length (qm_active q1) = length (qm_active q)" by (simp add: q1)
  moreover have "secrets_pending q1"
    unfolding secrets_pending_def st
    using qm_invD(8) [OF inv] by (auto simp: q1 secrets_pending_def map_of_mark_training)
  ultimately show ?thesis
    unfolding q1_def [symmetric] using inv ids
    by (simp add: qm_inv_def st) (simp add: q1)
qed

lemma map_of_filter_other: "map_of (filter (\<lambda>a. fst a \<noteq> j) xs) k = (if k = j then None else map_of xs k)"
  by (induction xs) auto

lemma devices_exclusive_filter: "devices_exclusive ds \<Longrightarrow> devices_exclusive (filter P ds)"
  by (simp add: devices_exclusive_def sorted_wrt_filter)

lemma map_fst_filter: "map fst (filter (\<lambda>a. fst a \<noteq> j) xs) = filter (\<lambda>k. k \<noteq> j) (map fst xs)"
  by (induction xs) auto

lemma qm_inv_end_task:
  assumes inv: "qm_inv q" and act: "map_of (qm_active q) j = Some TaskTraining"
    and u: "\<And>s. new_status u s \<noteq> T_RUNNING"
  shows "qm_inv (end_task j (qm_update j u q))"
proof -
  define q1 where "q1 = end_task j (qm_update j u q)"
  have st: "job_status q1 k = (if k = j then map_option (new_status u) (job_status q k) else job_status q k)" for k
    using job_status_update [of j u q k] by (simp add: q1_def end_task_def job_status_def)
  have parts: "qm_active q1 = filter (\<lambda>a. fst a \<noteq> j) (qm_active q)"
    "qm_devices q1 = filter (\<lambda>a. fst a \<noteq> j) (qm_devices q)" "qm_max q1 = qm_max q"
    "qm_store q1 = update j u (qm_store q)"
    by (simp_all add: q1_def end_task_def)
  have "k \<in> fst ` set (qm_active q1) \<longleftrightarrow> job_status q1 k = Some T_RUNNING" for k
    using qm_invD(6) [OF inv, of k] u by (auto simp: parts st)
  moreover have "secrets_pending q1"
    using qm_invD(8) [OF inv] active_row(2) [OF inv act] act
    by (auto simp: secrets_pending_def parts(1) st map_of_filter_other, auto simp: parts)
  moreover have "length (qm_active q1) \<le> qm_max q1"
    using qm_invD(5) [OF inv] by (simp add: parts le_trans [OF length_filter_le])
  moreover have "distinct (map fst (qm_active q1))" "map fst (qm_devices q1) = map fst (qm_active q1)"
    using qm_invD(3,4) [OF inv] by (simp_all add: parts map_fst_filter)
  moreover have "devices_exclusive (qm_devices q1)"
    using qm_invD(7) [OF inv] by (simp add: parts devices_exclusive_filter)
  ultimately show ?thesis
    using qm_invD(1,2) [OF inv] by (simp add: qm_inv_def q1_def [symmetric]) (simp add: parts)
qed

lemma run_job_outcome_terminal: "t_terminal (new_status (run_job_outcome j res q) s)"
  by (simp add: run_job_outcome_def t_terminal_def split: run_result.splits)

lemma terminal_not_running: "t_terminal s \<Longrightarrow> s \<noteq> T_RUNNING"
  by (auto simp: t_terminal_def)

lemma qm_inv_job_done:
  "qm_inv q \<Longrightarrow> map_of (qm_active q) j = Some TaskTraining \<Longrightarrow> qm_inv (run_job_finish j res q)"
  unfolding run_job_finish_def
  by (rule qm_inv_end_task) (auto simp: terminal_not_running run_job_outcome_terminal)

lemma qm_inv_delete:
  assumes inv: "qm_inv q" and t: "job_status q j = Some s" "t_terminal s"
  shows "qm_inv (q\<lparr>qm_store := delete j (qm_store q)\<rparr>)" (is "qm_inv ?q")
proof -
  have st: "job_status ?q k = (if k = j then None else job_status q k)" for k
    by (simp add: job_status_def trainer_store.lookup_remove)
  have "progress_ok (delete j (qm_store q))"
    using qm_invD(2) [OF inv] unfolding progress_ok_def
    by (simp add: trainer_store.lookup_remove)
  moreover have "secrets_pending ?q"
    using qm_invD(8) [OF inv] by (auto simp: secrets_pending_def st)
  ultimately show ?thesis
    using inv t terminal_not_running [OF t(2)] ids_distinct_delete [OF qm_invD(1) [OF inv], of j]
    by (auto simp: qm_inv_def st)
qed

lemma qm_step_inv: "qm_inv q \<Longrightarrow> qm_inv (qm_step q e)"
proof (cases e)
  case (Submit j now rq)
  then show "qm_inv q \<Longrightarrow> ?thesis" by (auto simp: qm_inv_submit split: sum.splits)
next
  case (Dispatch m)
  then show "qm_inv q \<Longrightarrow> ?thesis" using dispatch_tick_total [of q m] by auto
next
  case (JobReport j p msg ex)
  then show "qm_inv q \<Longrightarrow> ?thesis" by (auto simp: run_job_report_def intro: qm_inv_update_keep)
next
  case (DeleteJob j)
  then show "qm_inv q \<Longrightarrow> ?thesis"
    by (auto dest: get_Some_status intro: qm_inv_delete split: option.splits)
next
  case Shutdown
  then show "qm_inv q \<Longrightarrow> ?thesis"
    by (auto simp: qm_shutdown_def qm_inv_def secrets_pending_def job_status_def)
qed (simp_all add: qm_inv_dataset_ready qm_inv_cancel qm_inv_job_start qm_inv_job_done)

interpretation queue_machine: step_invariant qm_step qm_inv
  by unfold_locales (rule qm_step_inv)

section \<open>Statuses move forward\<close>

fun t_rank :: "TrainerJobStatus \<Rightarrow> nat" where
  "t_rank T_AWAITING_DATASET = 0"
| "t_rank T_QUEUED = 1"
| "t_rank T_RUNNING = 2"
| "t_rank _ = 3"

definition t_le :: "TrainerJobStatus \<Rightarrow> TrainerJobStatus \<Rightarrow> bool" where
  "t_le s s' \<longleftrightarrow> s = s' \<or> t_rank s < t_rank s'"

lemma t_le_refl [simp]: "t_le s s"
  by (simp add: t_le_def)

lemma t_le_trans: "t_le s t \<Longrightarrow> t_le t u \<Longrightarrow> t_le s u"
  by (auto simp: t_le_def)

lemma t_le_terminal: "t_terminal s \<Longrightarrow> t_le s s' \<Longrightarrow> s' = s"
  by (cases s; cases s') (simp_all add: t_le_def t_terminal_def)

lemma running_le_terminal: "t_terminal s \<Longrightarrow> t_le T_RUNNING s"
  by (auto simp: t_terminal_def t_le_def)

definition forward :: "string \<Rightarrow> QueueManager \<Rightarrow> QueueManager \<Rightarrow> bool" where
  "forward j q q' \<longleftrightarrow> qm_max q' = qm_max q
     \<and> (\<forall>s. job_status q j = Some s \<longrightarrow> (\<exists>s'. job_status q' j = Some s' \<and> t_le s s'))"

lemma forward_refl: "forward j q q"
  by (simp add: forward_def)

lemma forward_trans: "forward j q q' \<Longrightarrow> forward j q' q'' \<Longrightarrow> forward j q q''"
  unfolding forward_def by (metis t_le_trans)

lemma forward_same_messages: "same_but_messages q q' \<Longrightarrow> forward j q q'"
  using same_but_messages_views(1) [of q q' j] by (simp add: forward_def same_but_messages_def)

lemma forward_start_job:
  "job_status q i = Some T_QUEUED \<Longrightarrow> forward j q (start_job i d q)"
  by (auto simp: forward_def t_le_def)

lemma dispatch_fill_forward: "dispatch_fill m n q = Some q' \<Longrightarrow> forward j q q'"
proof (induction n arbitrary: q)
  case 0
  then show ?case by simp
next
  case (Suc n)
  obtain x q1 where nr: "next_runnable (m n) q = (x, q1)" by fastforce
  have f1: "forward j q q1"
    by (rule forward_same_messages [OF next_runnable_same [OF nr]])
  have f2: "forward j q1 (start_job i d q1)" if "get i (qm_store q1) = Some st" "state_status st = T_QUEUED" for i d st
    using forward_start_job get_Some_status that by metis
  show ?case
    using Suc.prems Suc.IH nr f1 f2
    by (auto simp: forward_refl split: if_splits option.splits prod.splits) (meson forward_trans)+
qed

lemma dispatch_tick_forward: "dispatch_tick m n q = Some q' \<Longrightarrow> forward j q q'"
proof -
  have "forward j z (snd (next_runnable (m 0) z))" for z
    by (metis forward_same_messages next_runnable_same prod.collapse)
  then show "dispatch_tick m n q = Some q' \<Longrightarrow> forward j q q'"
    by (auto simp: dispatch_tick_def dest!: dispatch_fill_forward [where j = j] split: if_splits)
       (meson forward_trans)
qed

text \<open>The steps of a run in which the job is not deleted.\<close>

definition step_keeping :: "string \<Rightarrow> QueueManager \<Rightarrow> qm_event \<Rightarrow> QueueManager" where
  "step_keeping j q e = (if e = DeleteJob j then q else qm_step q e)"

lemma foldl_step_keeping: "DeleteJob j \<notin> set es \<Longrightarrow> foldl (step_keeping j) q es = foldl qm_step q es"
  by (induction es arbitrary: q) (auto simp: step_keeping_def)

lemma end_task_status [simp]: "job_status (end_task j q) k = job_status q k"
  by (simp add: job_status_def end_task_def)

lemma qm_max_simps [simp]: "qm_max (end_task j q) = qm_max q" "qm_max (snd (run_job_start j q)) = qm_max q"
  "qm_max (run_job_finish j res q) = qm_max q" "qm_max (qm_shutdown q) = qm_max q"
  by (simp_all add: end_task_def run_job_start_def run_job_finish_def qm_shutdown_def Let_def
      case_prod_unfold split: option.splits)

lemma submit_forward:
  assumes "create i now rq (qm_store q) = Inr st"
  shows "forward j q (q\<lparr>qm_store := stash_secret i t st\<rparr>)"
proof -
  have "find_row i (qm_store q) = None"
    using assms by (auto simp: create_def find_row_def split: if_splits)
  then show ?thesis
    by (auto simp: forward_def job_status_def find_row_create [OF assms])
qed

lemma forward_step:
  assumes inv: "qm_inv q"
  shows "forward j q (step_keeping j q e)"
proof (cases e)
  case (Submit i now rq)
  then show ?thesis
    using submit_forward by (auto simp: step_keeping_def forward_refl split: sum.splits)
next
  case (DatasetReady i)
  then show ?thesis
    by (auto simp: step_keeping_def forward_def mark_ready_status t_le_def)
next
  case (Cancel i)
  then show ?thesis
    by (auto simp: step_keeping_def forward_def request_cancel_status t_le_def)
next
  case (Dispatch m)
  then show ?thesis
    by (auto simp: step_keeping_def forward_refl dest: dispatch_tick_forward split: option.splits)
next
  case (JobStart i)
  then show ?thesis
    using active_row(3) [OF inv, of i TaskCreated]
    by (auto simp: step_keeping_def forward_def run_job_start_def job_status_def case_prod_unfold Let_def)
next
  case (JobReport i p msg ex)
  then show ?thesis
    by (auto simp: step_keeping_def forward_def run_job_report_def)
next
  case (JobDone i res)
  then show ?thesis
    using active_row(2) [OF inv, of i TaskTraining]
    by (auto simp: step_keeping_def forward_def run_job_finish_def running_le_terminal
        run_job_outcome_terminal)
next
  case (DeleteJob i)
  then show ?thesis
    by (auto simp: step_keeping_def forward_def job_status_def trainer_store.lookup_remove split: option.splits)
next
  case Shutdown
  then show ?thesis
    by (auto simp: step_keeping_def forward_def qm_shutdown_def job_status_def)
qed

interpretation status_order: step_relation "step_keeping j" qm_inv "forward j" for j
proof
  show "qm_inv q \<Longrightarrow> qm_inv (step_keeping j q e)" for q e
    by (simp add: step_keeping_def qm_step_inv)
qed (auto simp: forward_refl intro: forward_step forward_trans)

section \<open>Tokens stay out of the database\<close>

definition request_masked :: "SubmitJobRequest \<Rightarrow> bool" where
  "request_masked rq \<longleftrightarrow> req_hf_token rq = None
     \<and> hf_token (spec_run_options (req_spec rq)) \<in> {None, Some ''**********''}"

definition rows_masked :: "QueueManager \<Rightarrow> bool" where
  "rows_masked q \<longleftrightarrow> list_all request_masked (map row_request (store_rows (qm_store q)))"

lemma request_masked_dump: "request_masked (dump_request rq)"
  by (cases "hf_token (spec_run_options (req_spec rq))") (simp_all add: request_masked_def dump_request_def)

lemma requests_update [simp]:
  "map row_request (store_rows (update j u st)) = map row_request (store_rows st)"
  "map row_request (store_rows (mark_dataset_ready j st)) = map row_request (store_rows st)"
  by (simp_all add: update_def mark_dataset_ready_def map_sql_update)

lemma rows_masked_update [simp]: "qm_store q' = update j u (qm_store q) \<Longrightarrow> rows_masked q' = rows_masked q"
  by (simp add: rows_masked_def)

lemma rows_masked_store: "qm_store q' = qm_store q \<Longrightarrow> rows_masked q' = rows_masked q"
  by (simp add: rows_masked_def)

lemma rows_masked_scan: "rows_masked (snd (scan_queue m ids nx q)) = rows_masked q"
proof -
  have "rows_masked (set_wait_message j msg q) = rows_masked q" for j msg q
    by (auto simp: set_wait_message_def split: option.splits)
  then show ?thesis by (induction ids arbitrary: nx q) (simp_all add: Let_def)
qed

lemma rows_masked_next: "next_runnable m q = (x, q1) \<Longrightarrow> rows_masked q1 = rows_masked q"
  using rows_masked_scan [of m "queued (qm_store q)" None q] by (simp add: next_runnable_def)

lemma rows_masked_fill: "dispatch_fill m n q = Some q' \<Longrightarrow> rows_masked q' = rows_masked q"
proof (induction n arbitrary: q)
  case 0
  then show ?case by simp
next
  case (Suc n)
  obtain x q1 where nr: "next_runnable (m n) q = (x, q1)" by fastforce
  have "rows_masked (start_job i d q1) = rows_masked q1" for i d
    by (rule rows_masked_update) (simp add: start_job_def)
  then show ?case
    using Suc.prems Suc.IH nr rows_masked_next [OF nr]
    by (auto split: if_splits option.splits prod.splits)
qed

lemma rows_masked_step: "rows_masked q \<Longrightarrow> rows_masked (qm_step q e)"
proof (cases e)
  case (Submit j now rq)
  then show "rows_masked q \<Longrightarrow> ?thesis"
    by (auto simp: rows_masked_def create_def stash_secret_def request_masked_dump
        split: sum.splits option.splits if_splits)
next
  case (Cancel j)
  then show "rows_masked q \<Longrightarrow> ?thesis"
    by (simp add: rows_masked_def request_cancel_def discard_secret_def Let_def split: option.splits)
next
  case (Dispatch m)
  have "rows_masked (snd (next_runnable (m 0) z)) = rows_masked z" for z
    by (metis prod.collapse rows_masked_next)
  then show "rows_masked q \<Longrightarrow> ?thesis"
    using Dispatch rows_masked_fill
    by (auto simp: dispatch_tick_def simp del: dispatch_fill.simps split: option.splits)
next
  case (JobStart j)
  then show "rows_masked q \<Longrightarrow> ?thesis"
    by (simp add: run_job_start_def take_secret_def end_task_def rows_masked_def Let_def split: option.splits)
next
  case (DeleteJob j)
  then show "rows_masked q \<Longrightarrow> ?thesis"
    by (auto simp: rows_masked_def delete_def discard_secret_def sql_delete_def list_all_iff split: option.splits)
qed (simp_all add: run_job_report_def run_job_finish_def end_task_def qm_shutdown_def rows_masked_def)

interpretation masked_machine: step_invariant qm_step rows_masked
  by unfold_locales (rule rows_masked_step)

section \<open>A started manager\<close>

lemma qm_inv_start:
  assumes "ids_distinct st" and "progress_ok st"
  shows "qm_inv (qm_start st n)"
proof -
  have no: "job_status (qm_start st n) j \<noteq> Some T_RUNNING" for j
    by (cases "find_row j st") (auto simp: job_status_def qm_start_def reopen_def find_row_reset)
  have "progress_ok (reopen st)"
    using assms(2) unfolding progress_ok_def
    by (auto simp: reopen_def find_row_reset split: if_splits)
  moreover have "ids_distinct (reopen st)"
    using assms(1) by (simp add: reopen_def reset_orphans_def ids_distinct_def map_sql_update)
  ultimately show ?thesis
    using no by (simp add: qm_inv_def qm_start_def devices_exclusive_def secrets_pending_def
        reopen_def reset_orphans_def)
qed



lemma isolated_prefix:
  assumes "list_all (\<lambda>(c, p). case p of Message (Progress n m e) \<Rightarrow> True | TimedOut alive \<Rightarrow> alive | _ \<Rightarrow> False) ps"
  shows "isolated_loop (ps @ qs) stop =
     (let (rs, res, st) = isolated_loop qs (stop \<or> (\<exists>cp \<in> set ps. fst cp)) in
      (concat (map (\<lambda>(c, p). case p of Message (Progress n m e) \<Rightarrow> [(n, m, e)] | _ \<Rightarrow> []) ps) @ rs, res, st))"
  using assms
proof (induction ps arbitrary: stop)
  case Nil
  then show ?case by (simp add: case_prod_unfold)
next
  case (Cons cp ps)
  obtain c p where cp: "cp = (c, p)" by fastforce
  show ?case
    using Cons.prems Cons.IH [of "stop \<or> c"]
    by (auto simp: cp case_prod_unfold Let_def disj_assoc split: poll.splits child_message.splits)
qed

lemma rmtree_quiet_gone:
  assumes "fs_wf g" and "\<not> fs_is_file p g" and "prefix p x"
  shows "rmtree_quiet p g x = None"
  using assms fs_wf_below [of g p x]
  by (cases "x = p") (auto simp: rmtree_quiet_def fs_remove_below_def fs_is_dir_def fs_is_file_def
      split: option.splits node.splits)

lemma rmtree_quiet_other: "\<not> prefix p x \<Longrightarrow> rmtree_quiet p g x = g x"
  by (simp add: rmtree_quiet_def fs_remove_below_def)

lemma rmtree_quiet_none: "g x = None \<Longrightarrow> rmtree_quiet p g x = None"
  by (simp add: rmtree_quiet_def fs_remove_below_def)

section \<open>Properties\<close>


text \<open>A job's status only moves forward (upload, queue, run, end) and an ended job keeps
  its status for good, until the job is deleted.\<close>

lemma status_moves_forward:
  assumes "ids_distinct st" and "progress_ok st" and "DeleteJob j \<notin> set es'"
    and "job_status (foldl qm_step (qm_start st n) es) j = Some s"
  shows "\<exists>s'. job_status (foldl qm_step (qm_start st n) (es @ es')) j = Some s'
     \<and> t_le s s' \<and> (\<not> t_terminal s \<or> s' = s)"
proof -
  have "qm_inv (foldl qm_step (qm_start st n) es)"
    by (rule queue_machine.run_inv [OF qm_inv_start [OF assms(1,2)]])
  from status_order.run_rel [OF this, of j es'] foldl_step_keeping [OF assms(3)] assms(4)
  show ?thesis by (auto simp: forward_def dest: t_le_terminal)
qed

text \<open>C31: the dispatch loop ends, after one turn more than jobs are queued at most, and it is
  work conserving: when it ends every slot is taken or every queued job waits for a device.\<close>

theorem dispatch_ends_work_conserving:
  assumes "qm_inv q"
  shows "\<exists>q1 k. dispatch_tick m (Suc (length (queued (qm_store q)))) q = Some q1
     \<and> (length (qm_active q1) = qm_max q1
        \<or> (\<forall>j. job_status q1 j = Some T_QUEUED
             \<longrightarrow> busy_device (m k) q1 (wanted_device (get_request j (qm_store q1)))))"
proof -
  obtain q1 k where q1: "dispatch_tick m (Suc (length (queued (qm_store q)))) q = Some q1" "qm_inv q1"
    "length (qm_active q1) = qm_max q1 \<or> fst (next_runnable (m k) q1) = None"
    using dispatch_tick_total [OF assms, of m] by blast
  then show ?thesis
    using next_runnable_None_iff [OF qm_invD(1) [OF q1(2)], of "m k"] by blast
qed

text \<open>The next job is the first in submission order whose device is free; a busy GPU does
  not hold back a job that wants another one, and scanning changes nothing but messages.\<close>

lemma next_runnable_is_first_free:
  "fst (next_runnable m q) =
     find (\<lambda>(j, d). \<not> busy_device m q d)
       (map (\<lambda>j. (j, wanted_device (get_request j (qm_store q)))) (queued (qm_store q)))
   \<and> same_but_messages q (snd (next_runnable m q))"
  by (simp add: next_runnable_def scan_queue_first scan_queue_same)

text \<open>A job canceled before it was dispatched is CANCELED at once, its token is dropped,
  and no later event runs it.\<close>

lemma cancel_before_dispatch:
  assumes "qm_inv q" and "job_status q j \<in> {Some T_QUEUED, Some T_AWAITING_DATASET}"
    and "DeleteJob j \<notin> set es"
  shows "job_status (foldl qm_step (qm_step q (Cancel j)) es) j = Some T_CANCELED
     \<and> j \<notin> fst ` set (qm_active (foldl qm_step (qm_step q (Cancel j)) es))
     \<and> store_secrets (qm_store (foldl qm_step (qm_step q (Cancel j)) es)) j = None"
proof -
  define q1 where "q1 = qm_step q (Cancel j)"
  have inv1: "qm_inv q1" and st1: "job_status q1 j = Some T_CANCELED"
    using assms by (auto simp: q1_def request_cancel_status qm_inv_cancel)
  have inv2: "qm_inv (foldl qm_step q1 es)" by (rule queue_machine.run_inv [OF inv1])
  have st2: "job_status (foldl qm_step q1 es) j = Some T_CANCELED"
    using status_order.run_rel [OF inv1, of j es] foldl_step_keeping [OF assms(3)] st1
    by (auto simp: forward_def dest: t_le_terminal [rotated] simp: t_terminal_def)
  moreover have na: "j \<notin> fst ` set (qm_active (foldl qm_step q1 es))"
    using qm_invD(6) [OF inv2, of j] st2 by simp
  moreover have "store_secrets (qm_store (foldl qm_step q1 es)) j = None"
    using qm_invD(8) [OF inv2] st2 na [folded map_of_eq_None_iff]
    by (auto simp: secrets_pending_def)
  ultimately show ?thesis by (simp add: q1_def)
qed

text \<open>How a training job ends. A requested cancellation wins over every outcome of the
  run; otherwise an archive completes the job, is recorded as its artifact at 100 percent,
  and an exception fails it. The slot, the device and the cancellation flag are released.\<close>

lemma job_end_outcome:
  assumes "qm_inv q" and "map_of (qm_active q) j = Some TaskTraining"
  shows "job_status (qm_step q (JobDone j res)) j =
       Some (if j \<in> qm_cancel q \<or> res = RunJobCanceled then T_CANCELED
             else case res of RunArchive a \<Rightarrow> T_COMPLETED | _ \<Rightarrow> T_FAILED)
     \<and> (\<forall>a. res = RunArchive a \<and> a \<noteq> '''' \<and> j \<notin> qm_cancel q \<longrightarrow>
          get_artifact j (qm_store (qm_step q (JobDone j res))) = Some a
          \<and> map_option state_progress (get j (qm_store (qm_step q (JobDone j res)))) = Some 100)
     \<and> j \<notin> fst ` set (qm_active (qm_step q (JobDone j res)))
     \<and> j \<notin> fst ` set (qm_devices (qm_step q (JobDone j res)))
     \<and> j \<notin> qm_cancel (qm_step q (JobDone j res))"
proof -
  obtain r where r: "find_row j (qm_store q) = Some r"
    using active_row(2) [OF assms] by (auto simp: job_status_def)
  have row: "find_row j (qm_store (qm_step q (JobDone j res)))
      = Some (apply_update (run_job_outcome j res q) r)"
    using assms(2) r by (simp add: run_job_finish_def end_task_def find_row_update)
  have "get_artifact j (qm_store (qm_step q (JobDone j res))) = Some a
      \<and> map_option state_progress (get j (qm_store (qm_step q (JobDone j res)))) = Some 100"
    if "res = RunArchive a" "a \<noteq> ''''" "j \<notin> qm_cancel q" for a
    using row that
    by (simp add: get_artifact_def get_find_row find_row_def [symmetric] run_job_outcome_def
        apply_update_def)
  moreover have "job_status (qm_step q (JobDone j res)) j =
       Some (if j \<in> qm_cancel q \<or> res = RunJobCanceled then T_CANCELED
             else case res of RunArchive a \<Rightarrow> T_COMPLETED | _ \<Rightarrow> T_FAILED)"
    unfolding job_status_def row by (simp add: run_job_outcome_def split: run_result.splits)
  ultimately show ?thesis
    using assms(2) by (auto simp: run_job_finish_def end_task_def)
qed

text \<open>A Hugging Face token is never in the database, and is held in memory only for a job
  that has not started training.\<close>

lemma tokens_not_persisted:
  assumes "ids_distinct st" and "progress_ok st" and "rows_masked (qm_start st n)"
  shows "rows_masked (foldl qm_step (qm_start st n) es)
     \<and> (\<forall>j t. store_secrets (qm_store (foldl qm_step (qm_start st n) es)) j = Some t \<longrightarrow>
          job_status (foldl qm_step (qm_start st n) es) j \<in> {Some T_AWAITING_DATASET, Some T_QUEUED}
          \<or> map_of (qm_active (foldl qm_step (qm_start st n) es)) j = Some TaskCreated)"
proof -
  have "qm_inv (foldl qm_step (qm_start st n) es)"
    by (rule queue_machine.run_inv [OF qm_inv_start [OF assms(1,2)]])
  then have "secrets_pending (foldl qm_step (qm_start st n) es)" by (rule qm_invD(8))
  then show ?thesis
    using masked_machine.run_inv [OF assms(3), of es] by (simp add: secrets_pending_def)
qed

text \<open>A run in its own process reports what the child reported, in order, and ends as the
  child's last message says; once a cancellation was seen the child has been told to stop.\<close>

lemma isolated_run_mirrors_child:
  assumes "list_all (\<lambda>(c, p). case p of Message (Progress n m e) \<Rightarrow> True | TimedOut alive \<Rightarrow> alive | _ \<Rightarrow> False) ps"
  shows "isolated_loop (ps @ (c, Message (Completed a)) # rest) stop =
      (concat (map (\<lambda>(c, p). case p of Message (Progress n m e) \<Rightarrow> [(n, m, e)] | _ \<Rightarrow> []) ps),
       Some (RunArchive a), True)
    \<and> snd (snd (isolated_loop ps stop)) = (stop \<or> (\<exists>cp \<in> set ps. fst cp))"
  using isolated_prefix [OF assms, of "(c, Message (Completed a)) # rest" stop]
    isolated_prefix [OF assms, of "[]" stop] by simp

text \<open>When a job ends without completing, nothing is left below its model directory or its
  checkpoint cache, and nothing else of the disk is touched.\<close>

lemma cleanup_leaves_nothing:
  assumes "job_status q j = Some s" and "s \<noteq> T_COMPLETED" and "fs_wf fs"
    and "\<not> fs_is_file (model_path d j) fs" and "\<not> fs_is_file (cache_path d j) fs"
  shows "(\<forall>p. prefix (model_path d j) p \<or> prefix (cache_path d j) p
            \<longrightarrow> cleanup_if_not_completed d j q fs p = None)
     \<and> (\<forall>p. \<not> prefix (model_path d j) p \<and> \<not> prefix (cache_path d j) p
            \<longrightarrow> cleanup_if_not_completed d j q fs p = fs p)"
proof -
  obtain st where st: "get j (qm_store q) = Some st" "state_status st = s"
    using assms(1) get_Some_status get_None_status by (metis option.exhaust option.inject option.distinct(1))
  have wf: "fs_wf (rmtree_quiet (model_path d j) fs)"
    using assms(3) by (simp add: rmtree_quiet_def fs_wf_remove_below)
  have nf: "\<not> fs_is_file (cache_path d j) (rmtree_quiet (model_path d j) fs)"
    using assms(5) by (auto simp: rmtree_quiet_def fs_remove_below_def fs_is_file_def split: option.splits)
  have "cleanup_if_not_completed d j q fs = cleanup_job_outputs d j fs"
    using st assms(2) by (simp add: cleanup_if_not_completed_def)
  then show ?thesis
    using rmtree_quiet_gone [OF assms(3,4)] rmtree_quiet_gone [OF wf nf]
    by (auto simp: cleanup_job_outputs_def rmtree_quiet_other rmtree_quiet_none)
qed

section \<open>Witnesses\<close>

definition demo_store :: JobStore where
  "demo_store = \<lparr>store_rows = [], store_secrets = Map.empty\<rparr>"

definition demo_request :: SubmitJobRequest where
  "demo_request = \<lparr>req_spec = (default_spec ''act'')\<lparr>spec_device_type := Some ''cuda''\<rparr>,
     req_dataset_transfer = HTTP, req_hf_token = Some ''secret''\<rparr>"

definition demo_machine :: trainer_machine where
  "demo_machine = \<lparr>has_torch = True, xpu_props = [], cuda_props = [], mem_info = (\<lambda>_ _. None),
     gpu_busy_memory_mb = 500\<rparr>"

text \<open>Two jobs for the same GPU; the one submitted first is dispatched and starts training.\<close>

definition demo_events :: "qm_event list" where
  "demo_events = [Submit ''a'' 1 demo_request, Submit ''b'' 2 demo_request, DatasetReady ''b'',
     DatasetReady ''a'', Dispatch (\<lambda>_. demo_machine), JobStart ''a'']"

definition demo_queue :: QueueManager where
  "demo_queue = foldl qm_step (qm_start demo_store 2) demo_events"

lemma demo_store_ok: "ids_distinct demo_store" "progress_ok demo_store"
  "rows_masked (qm_start demo_store n)"
  by (simp_all add: demo_store_def ids_distinct_def progress_ok_def find_row_def rows_masked_def
      qm_start_def reopen_def reset_orphans_def)

lemma demo_queue_inv: "qm_inv demo_queue"
  unfolding demo_queue_def by (rule queue_machine.run_inv [OF qm_inv_start [OF demo_store_ok(1,2)]])

lemma demo_queue_state:
  "job_status demo_queue ''a'' = Some T_RUNNING" "job_status demo_queue ''b'' = Some T_QUEUED"
  "map_of (qm_active demo_queue) ''a'' = Some TaskTraining" "qm_cancel demo_queue = {}"
  by code_simp+


lemma status_moves_forward_witness:
  "\<exists>s'. job_status (qm_step demo_queue (JobDone ''a'' RunJobCanceled)) ''a'' = Some s' \<and> t_le T_RUNNING s'"
  using status_moves_forward [OF demo_store_ok(1,2), where n = 2 and es = demo_events
      and es' = "[JobDone ''a'' RunJobCanceled]" and j = "''a''"] demo_queue_state(1)
  by (auto simp: demo_queue_def)

theorem dispatch_ends_work_conserving_witness:
  "dispatch_tick (\<lambda>_. demo_machine) (Suc (length (queued (qm_store demo_queue)))) demo_queue \<noteq> None"
  using dispatch_ends_work_conserving [OF demo_queue_inv, of "\<lambda>_. demo_machine"] by auto

lemma cancel_before_dispatch_witness:
  "job_status (foldl qm_step (qm_step demo_queue (Cancel ''b'')) [Dispatch (\<lambda>_. demo_machine)]) ''b''
     = Some T_CANCELED"
  using cancel_before_dispatch [OF demo_queue_inv, of "''b''" "[Dispatch (\<lambda>_. demo_machine)]"]
    demo_queue_state(2) by simp

lemma job_end_outcome_witness:
  "job_status (qm_step demo_queue (JobDone ''a'' (RunArchive ''/x''))) ''a'' = Some T_COMPLETED
     \<and> get_artifact ''a'' (qm_store (qm_step demo_queue (JobDone ''a'' (RunArchive ''/x'')))) = Some ''/x''"
  using job_end_outcome [OF demo_queue_inv demo_queue_state(3), of "RunArchive ''/x''"]
    demo_queue_state(4) by simp

lemma tokens_not_persisted_witness:
  "rows_masked demo_queue \<and> store_secrets (qm_store demo_queue) ''a'' = None"
  using tokens_not_persisted [OF demo_store_ok, of 2 demo_events] demo_queue_state(1,3)
  unfolding demo_queue_def
  by (cases "store_secrets (qm_store (foldl qm_step (qm_start demo_store 2) demo_events)) ''a''")
     fastforce+

lemma isolated_run_mirrors_child_witness:
  "isolated_loop [(False, Message (Progress 3 None None)), (True, TimedOut True),
      (False, Message (Completed ''/x''))] False = ([(3, None, None)], Some (RunArchive ''/x''), True)"
  using isolated_run_mirrors_child [of "[(False, Message (Progress 3 None None)), (True, TimedOut True)]"
      False "''/x''" "[]" False] by simp

definition demo_dirs :: trainer_dirs where
  "demo_dirs = \<lparr>datasets_dir = [''d''], models_dir = [''m''], storage_dir = [''s''], archives_dir = [''z'']\<rparr>"

definition demo_disk :: "string fs" where
  "demo_disk = Map.empty([] \<mapsto> DirN, [''m''] \<mapsto> DirN, [''m'', ''b''] \<mapsto> DirN,
     [''m'', ''b'', ''x''] \<mapsto> FileN ''weights'')"

lemma demo_disk_wf: "fs_wf demo_disk"
  by (auto simp: fs_wf_def demo_disk_def strict_prefix_def prefix_Cons split: if_splits)

lemma cleanup_leaves_nothing_witness:
  "cleanup_if_not_completed demo_dirs ''b'' demo_queue demo_disk [''m'', ''b'', ''x''] = None"
  using cleanup_leaves_nothing [OF demo_queue_state(2) _ demo_disk_wf, of demo_dirs]
  by (simp add: model_path_def cache_path_def demo_dirs_def fs_is_file_def demo_disk_def)

end
