(* ===== verification/ArchiveSafety.thy ===== *)
theory ArchiveSafety
  imports FileSys "HOL-Library.Word" "HOL-Library.List_Lexorder" "HOL-Library.Char_ord"
begin

text \<open>
  Validation and extraction of uploaded archives, \<^verbatim>\<open>physicalai/data/archive_safety.py\<close>. A file's
  content is the string of its bytes. Decoding the ZIP format is the argument \<open>unzip\<close>: the
  directory of a content (\<open>None\<close> where \<^verbatim>\<open>ZipFile\<close> raises \<open>BadZipFile\<close>), each entry with
  what reading it delivers and whether its checksum holds at the end. Directory listings come
  in the order of the argument \<open>listing\<close>.
\<close>

unbundle bit_operations_syntax

record zip_info =
  zi_filename :: string
  zi_file_size :: nat
  zi_external_attr :: "32 word"
  zi_data :: string
  zi_crc_ok :: bool

type_synonym unzip = "string \<Rightarrow> zip_info list option"

datatype archive_error = InvalidArchiveError string | ZipBombDetectedError string
  | InsufficientDiskSpaceError string | ArchiveOsError os_error

section \<open>Names\<close>

definition normalize_zip_member_name :: "string \<Rightarrow> string" where
  "normalize_zip_member_name name =
     remove_prefix ''./'' (strip_char CHR ''/'' (map (\<lambda>c. if c = CHR 0x5C then CHR ''/'' else c) name))"

text \<open>\<open>PurePosixPath\<close>: parts without empty and dot components, the absolute flag, the suffix.\<close>

definition path_parts :: "string \<Rightarrow> string list" where
  "path_parts s = filter (\<lambda>p. p \<noteq> '''' \<and> p \<noteq> ''.'') (split_on CHR ''/'' s)"

definition path_is_absolute :: "string \<Rightarrow> bool" where
  "path_is_absolute s \<longleftrightarrow> starts_with ''/'' s"

definition path_suffix :: "string \<Rightarrow> string" where
  "path_suffix s =
     (if path_parts s = [] then ''''
      else let name = last (path_parts s);
               ext = takeWhile (\<lambda>c. c \<noteq> CHR ''.'') (rev name);
               stem = dropWhile (\<lambda>c. c \<noteq> CHR ''.'') (rev name)
           in if ext = [] \<or> length stem < 2 then '''' else CHR ''.'' # rev ext)"

definition S_IFLNK :: "32 word" where
  "S_IFLNK = 0xA000"

definition is_symlink :: "32 word \<Rightarrow> bool" where
  "is_symlink member_external_attr \<longleftrightarrow> drop_bit 16 member_external_attr AND S_IFLNK = S_IFLNK"

section \<open>Validation\<close>

definition DEFAULT_MAX_FILE_COUNT :: nat where
  "DEFAULT_MAX_FILE_COUNT = 200000"

definition NOT_A_ZIP_MSG :: string where
  "NOT_A_ZIP_MSG = ''Uploaded file is not a valid ZIP archive''"

definition collect_total_uncompressed :: "zip_info list \<Rightarrow> nat" where
  "collect_total_uncompressed members = sum_list (map zi_file_size members)"

fun check_members :: "zip_info list \<Rightarrow> archive_error + unit" where
  "check_members [] = Inr ()"
| "check_members (m # ms) =
     (let name = normalize_zip_member_name (zi_filename m) in
      if is_symlink (zi_external_attr m) then
        Inl (ZipBombDetectedError (''Archive contains symlink entry '' @ name @ '', which is not allowed''))
      else if path_is_absolute name \<or> ''..'' \<in> set (path_parts name) then
        Inl (ZipBombDetectedError (''Archive contains unsafe entry path '' @ zi_filename m))
      else if py_lower (path_suffix name) = ''.zip'' then
        Inl (ZipBombDetectedError (''Archive contains nested zip entry '' @ zi_filename m
          @ '', which is not allowed''))
      else check_members ms)"

definition validate_zip_entries :: "zip_info list \<Rightarrow> nat option \<Rightarrow> nat \<Rightarrow> archive_error + nat" where
  "validate_zip_entries members max_file_count max_uncompressed_bytes =
     (let max_count = (case max_file_count of None \<Rightarrow> DEFAULT_MAX_FILE_COUNT | Some n \<Rightarrow> n);
          total_uncompressed = collect_total_uncompressed members in
      if length members > max_count then
        Inl (ZipBombDetectedError (''Archive contains too many entries ('' @ nat_str (length members)
          @ '' > '' @ nat_str max_count @ '')''))
      else if total_uncompressed > max_uncompressed_bytes then
        Inl (ZipBombDetectedError (''Archive uncompressed size exceeds allowed limit (''
          @ nat_str total_uncompressed @ '' > '' @ nat_str max_uncompressed_bytes @ '' bytes)''))
      else bind_result (check_members members) (\<lambda>_. Inr total_uncompressed))"

definition check_disk_headroom ::
  "nat \<Rightarrow> path \<Rightarrow> nat \<Rightarrow> nat \<Rightarrow> 'c fs \<Rightarrow> (archive_error + unit) \<times> 'c fs" where
  "check_disk_headroom free directory required_bytes min_free_bytes fs =
     bind_state (lift_update ArchiveOsError (fs_mkdirs directory fs) fs) (\<lambda>_ fs1.
       let needed = required_bytes + min_free_bytes in
       if free < needed then
         (Inl (InsufficientDiskSpaceError (''Insufficient disk space on '' @ path_str directory @ '': ''
            @ nat_str free @ '' bytes free, need '' @ nat_str needed @ '' bytes ('' @ nat_str required_bytes
            @ '' for data + '' @ nat_str min_free_bytes @ '' headroom)'')), fs1)
       else (Inr (), fs1))"

definition get_validated_members ::
  "unzip \<Rightarrow> nat option \<Rightarrow> nat \<Rightarrow> string \<Rightarrow> archive_error + zip_info list" where
  "get_validated_members unzip max_file_count max_bytes content =
     (case unzip content of
        None \<Rightarrow> Inl (InvalidArchiveError NOT_A_ZIP_MSG)
      | Some members \<Rightarrow>
          bind_result (validate_zip_entries members max_file_count max_bytes) (\<lambda>_. Inr members))"

definition resolve_member_name :: "zip_info list \<Rightarrow> string \<Rightarrow> string option" where
  "resolve_member_name members target_name =
     (let target = normalize_zip_member_name target_name in
      map_option zi_filename (find (\<lambda>m.
        let n = normalize_zip_member_name (zi_filename m)
        in n = target \<or> ends_with (''/'' @ target) n) members))"

section \<open>Extraction\<close>

text \<open>\<open>Path.resolve\<close> on a path without symbolic links, \<open>ZipFile.extract\<close> as it names its target.\<close>

fun resolve_parts :: "path \<Rightarrow> string list \<Rightarrow> path" where
  "resolve_parts acc [] = acc"
| "resolve_parts acc (p # ps) =
     resolve_parts (if p = ''..'' then butlast acc else acc @ [p]) ps"

definition extract_parts :: "string \<Rightarrow> path" where
  "extract_parts filename = filter (\<lambda>p. p \<notin> {'''', ''.'', ''..''}) (split_on CHR ''/'' filename)"

definition zi_is_dir :: "zip_info \<Rightarrow> bool" where
  "zi_is_dir m \<longleftrightarrow> ends_with ''/'' (zi_filename m)"

definition extract_member :: "zip_info \<Rightarrow> path \<Rightarrow> string fs \<Rightarrow> (archive_error + unit) \<times> string fs" where
  "extract_member m destination fs =
     (let target = destination @ extract_parts (zi_filename m) in
      bind_state (lift_update ArchiveOsError (fs_mkdirs (butlast target) fs) fs) (\<lambda>_ fs1.
        if zi_is_dir m then lift_update ArchiveOsError (fs_mkdirs target fs1) fs1
        else bind_state (lift_update ArchiveOsError (fs_write target (zi_data m) fs1) fs1) (\<lambda>_ fs2.
          if zi_crc_ok m then (Inr (), fs2)
          else (Inl (InvalidArchiveError NOT_A_ZIP_MSG), fs2))))"

fun extract_members ::
  "zip_info list \<Rightarrow> path \<Rightarrow> nat \<Rightarrow> string fs \<Rightarrow> (archive_error + nat) \<times> string fs" where
  "extract_members [] destination extracted fs = (Inr extracted, fs)"
| "extract_members (m # ms) destination extracted fs =
     (let name = normalize_zip_member_name (zi_filename m);
          target = (if path_is_absolute name then resolve_parts [] (path_parts name)
                    else resolve_parts destination (path_parts name)) in
      if \<not> prefix destination target then
        (Inl (ZipBombDetectedError (''Archive contains unsafe entry path '' @ zi_filename m)), fs)
      else bind_state (extract_member m destination fs) (\<lambda>_ fs1.
        extract_members ms destination (if zi_is_dir m then extracted else Suc extracted) fs1))"

definition extract_to ::
  "nat \<Rightarrow> zip_info list \<Rightarrow> path \<Rightarrow> nat \<Rightarrow> string fs \<Rightarrow> (archive_error + nat) \<times> string fs" where
  "extract_to free members destination min_free_bytes fs =
     bind_state
       (if min_free_bytes > 0
        then check_disk_headroom free destination (collect_total_uncompressed members) min_free_bytes fs
        else (Inr (), fs))
       (\<lambda>_ fs1. extract_members members destination 0 fs1)"

section \<open>Flattening\<close>

definition is_ignorable_extraction_entry :: "string \<Rightarrow> bool" where
  "is_ignorable_extraction_entry name \<longleftrightarrow>
     name \<in> {''__MACOSX'', ''.DS_Store''} \<or> starts_with ''._'' name"

fun flatten_scan :: "path \<Rightarrow> string list \<Rightarrow> 'c fs \<Rightarrow> string list \<times> 'c fs" where
  "flatten_scan base [] fs = ([], fs)"
| "flatten_scan base (n # ns) fs =
     (if is_ignorable_extraction_entry n then
        flatten_scan base ns
          (if fs_is_dir (base @ [n]) fs then fs_remove_below (base @ [n]) fs
           else fs_unlink (base @ [n]) fs)
      else let (meaningful, fs1) = flatten_scan base ns fs in (n # meaningful, fs1))"

fun flatten_moves :: "path \<Rightarrow> string \<Rightarrow> string list \<Rightarrow> 'c fs \<Rightarrow> (os_error + unit) \<times> 'c fs" where
  "flatten_moves base d [] fs = (Inr (), fs)"
| "flatten_moves base d (c # cs) fs =
     bind_state (lift_update id (fs_move (base @ [d, c]) (base @ [c]) fs) fs)
       (\<lambda>_ fs1. flatten_moves base d cs fs1)"

type_synonym 'c listing = "'c fs \<Rightarrow> path \<Rightarrow> string list"

definition fs_rmdir :: "'c listing \<Rightarrow> path \<Rightarrow> 'c fs \<Rightarrow> os_error + 'c fs" where
  "fs_rmdir listing p fs =
     (if \<not> fs_is_dir p fs then Inl (NotADirectoryError p)
      else if listing fs p \<noteq> [] then Inl (FileExistsError p)
      else Inr (fs(p := None)))"

definition flatten_single_root_directory ::
  "'c listing \<Rightarrow> path \<Rightarrow> 'c fs \<Rightarrow> (os_error + unit) \<times> 'c fs" where
  "flatten_single_root_directory listing base fs =
     (case flatten_scan base (listing fs base) fs of
        (meaningful, fs1) \<Rightarrow>
          (case meaningful of
             [d] \<Rightarrow>
               if fs_is_dir (base @ [d]) fs1 then
                 bind_state (flatten_moves base d (listing fs1 (base @ [d])) fs1)
                   (\<lambda>_ fs2. lift_update id (fs_rmdir listing (base @ [d]) fs2) fs2)
               else (Inr (), fs1)
           | _ \<Rightarrow> (Inr (), fs1)))"

definition lift_os_state :: "(os_error + 'a) \<times> 's \<Rightarrow> (archive_error + 'a) \<times> 's" where
  "lift_os_state r = (case r of (x, s) \<Rightarrow> lift_result ArchiveOsError x s)"

text \<open>\<^verbatim>\<open>trainer/archive.py\<close>: the settings are the two limits, \<open>free\<close> the free bytes of the disk.\<close>

definition validate_and_extract ::
  "unzip \<Rightarrow> string listing \<Rightarrow> nat \<Rightarrow> nat \<Rightarrow> nat \<Rightarrow> path \<Rightarrow> path \<Rightarrow> string fs
     \<Rightarrow> (archive_error + unit) \<times> string fs" where
  "validate_and_extract unzip listing free max_uncompressed_bytes min_free_bytes archive_path target_dir fs =
     bind_state (lift_result ArchiveOsError (fs_read archive_path fs) fs) (\<lambda>content fs0.
     bind_state (lift_result id (get_validated_members unzip None max_uncompressed_bytes content) fs0)
       (\<lambda>members fs1.
     bind_state (lift_update ArchiveOsError (fs_mkdirs target_dir fs1) fs1) (\<lambda>_ fs2.
     bind_state (extract_to free members target_dir min_free_bytes fs2) (\<lambda>_ fs3.
     lift_os_state (flatten_single_root_directory listing target_dir fs3)))))"

section \<open>What extraction changes\<close>

text \<open>Outside \<open>base\<close> only missing parent directories of \<open>base\<close> are created.\<close>

definition fs_frame :: "path \<Rightarrow> 'c fs \<Rightarrow> 'c fs \<Rightarrow> bool" where
  "fs_frame base fs fs' \<longleftrightarrow>
     (\<forall>q. \<not> prefix base q \<longrightarrow>
        fs' q = fs q \<or> prefix q base \<and> fs q = None \<and> fs' q = Some DirN)"

interpretation archive_frame: state_preorder "fs_frame base" for base
proof
  show "fs_frame base s s" for s :: "'a fs" by (simp add: fs_frame_def)
  fix s t u :: "'a fs"
  assume "fs_frame base s t" and "fs_frame base t u"
  then show "fs_frame base s u" unfolding fs_frame_def by (metis option.distinct(1))
qed

lemma fs_frame_mkdirs: "prefix base p \<or> prefix p base \<Longrightarrow> fs_mkdirs p fs = Inr fs' \<Longrightarrow> fs_frame base fs fs'"
  by (auto simp: fs_frame_def dest!: fs_mkdirs_Inr)
     (metis prefix_order.order_trans prefix_same_cases)+

lemma fs_frame_upd: "prefix base p \<Longrightarrow> fs_frame base fs (fs(p := v))"
  unfolding fs_frame_def by (metis fun_upd_other)

lemma fs_frame_write: "prefix base p \<Longrightarrow> fs_write p c fs = Inr fs' \<Longrightarrow> fs_frame base fs fs'"
  by (auto dest!: fs_write_Inr intro: fs_frame_upd)

lemma fs_frame_remove_below: "prefix base p \<Longrightarrow> fs_frame base fs (fs_remove_below p fs)"
  by (auto simp: fs_frame_def fs_remove_below_def dest: prefix_order.order_trans)

lemma fs_frame_unlink: "prefix base p \<Longrightarrow> fs_frame base fs (fs_unlink p fs)"
  by (simp add: fs_unlink_def fs_frame_upd)

lemma fs_frame_rename: "prefix base src \<Longrightarrow> prefix base dst \<Longrightarrow> fs_frame base fs (fs_rename src dst fs)"
  by (auto simp: fs_frame_def fs_rename_def dest: prefix_order.order_trans)

lemma fs_frame_move:
  "prefix base src \<Longrightarrow> prefix base dst \<Longrightarrow> fs_move src dst fs = Inr fs' \<Longrightarrow> fs_frame base fs fs'"
  by (auto simp: fs_move_def Let_def intro!: fs_frame_rename split: if_splits)

lemma prefix_butlast_append: "prefix base (butlast (base @ xs)) \<or> prefix (butlast (base @ xs)) base"
  by (cases xs rule: rev_cases) (auto simp: prefixeq_butlast butlast_append)

lemma fs_frame_mkdirs_append:
  "fs_mkdirs (base @ xs) fs = Inr fs' \<Longrightarrow> fs_frame base fs fs'"
  "fs_mkdirs (butlast (base @ xs)) fs = Inr fs' \<Longrightarrow> fs_frame base fs fs'"
  by (rule fs_frame_mkdirs, simp_all add: prefix_butlast_append)
     (rule fs_frame_mkdirs [OF prefix_butlast_append])

lemma fs_frame_write_append: "fs_write (base @ xs) c fs = Inr fs' \<Longrightarrow> fs_frame base fs fs'"
  by (rule fs_frame_write) simp_all

lemma fs_frame_extract_member: "fs_frame base fs (snd (extract_member m base fs))"
  unfolding extract_member_def Let_def
  by (auto intro!: archive_frame.rel_bind archive_frame.rel_lift_update
      intro: fs_frame_mkdirs_append fs_frame_write_append)

lemma fs_frame_extract_members: "fs_frame base fs (snd (extract_members ms base n fs))"
proof (induction ms arbitrary: n fs)
  case Nil
  then show ?case by simp
next
  case (Cons m ms)
  then show ?case
    by (auto simp: Let_def intro!: archive_frame.rel_bind fs_frame_extract_member)
qed

lemma fs_frame_headroom: "fs_frame base fs (snd (check_disk_headroom free base r m fs))"
  unfolding check_disk_headroom_def
  by (auto simp: Let_def intro!: archive_frame.rel_bind archive_frame.rel_lift_update
      intro: fs_frame_mkdirs)

lemma fs_frame_extract_to: "fs_frame base fs (snd (extract_to free ms base m fs))"
  unfolding extract_to_def
  by (rule archive_frame.rel_bind) (auto simp: fs_frame_headroom fs_frame_extract_members)

lemma fs_frame_flatten_scan: "fs_frame base fs (snd (flatten_scan base ns fs))"
proof (induction ns arbitrary: fs)
  case Nil
  then show ?case by simp
next
  case (Cons n ns)
  let ?fs1 = "if fs_is_dir (base @ [n]) fs then fs_remove_below (base @ [n]) fs
           else fs_unlink (base @ [n]) fs"
  have "fs_frame base fs ?fs1"
    by (simp add: fs_frame_remove_below fs_frame_unlink)
  from archive_frame.trans_rel [OF this Cons.IH]
  have 1: "fs_frame base fs (snd (flatten_scan base ns ?fs1))" .
  from Cons.IH [of fs] have 2: "fs_frame base fs (snd (flatten_scan base ns fs))" .
  have "snd (flatten_scan base (n # ns) fs) = snd (flatten_scan base ns
      (if is_ignorable_extraction_entry n then ?fs1 else fs))"
    by (simp split: prod.splits)
  with 1 2 show ?case by (cases "is_ignorable_extraction_entry n") (simp_all only: if_True if_False)
qed

lemma fs_frame_flatten_moves: "fs_frame base fs (snd (flatten_moves base d cs fs))"
proof (induction cs arbitrary: fs)
  case Nil
  then show ?case by simp
next
  case (Cons c cs)
  then show ?case
    by (auto intro!: archive_frame.rel_bind archive_frame.rel_lift_update intro: fs_frame_move [rotated 2])
qed

lemma fs_frame_rmdir: "fs_rmdir listing (base @ [d]) fs = Inr fs' \<Longrightarrow> fs_frame base fs fs'"
  by (auto simp: fs_rmdir_def fs_frame_def split: if_splits)

lemma fs_frame_flatten: "fs_frame base fs (snd (flatten_single_root_directory listing base fs))"
proof -
  obtain ns fs1 where s: "flatten_scan base (listing fs base) fs = (ns, fs1)" by fastforce
  then have 1: "fs_frame base fs fs1"
    using fs_frame_flatten_scan [of base fs "listing fs base"] by simp
  have "fs_frame base fs1 (snd (bind_state (flatten_moves base d cs fs1)
      (\<lambda>_ fs2. lift_update id (fs_rmdir listing (base @ [d]) fs2) fs2)))" for d cs
    by (auto intro!: archive_frame.rel_bind archive_frame.rel_lift_update
        intro: fs_frame_flatten_moves fs_frame_rmdir)
  with 1 show ?thesis
    unfolding flatten_single_root_directory_def s
    by (auto split: list.splits intro: archive_frame.trans_rel)
qed

lemma snd_lift_os_state [simp]: "snd (lift_os_state r) = snd r"
  by (cases r; cases "fst r") (auto simp: lift_os_state_def)

lemma fs_frame_validate_and_extract:
  "fs_frame target fs (snd (validate_and_extract unzip listing free mb mf archive target fs))"
  unfolding validate_and_extract_def
  by (intro archive_frame.rel_bind archive_frame.rel_lift_result archive_frame.rel_lift_update)
     (auto simp: lift_Inr_iffs fs_frame_flatten fs_frame_extract_to intro: fs_frame_mkdirs)

section \<open>What validation guarantees\<close>

definition member_ok :: "zip_info \<Rightarrow> bool" where
  "member_ok m \<longleftrightarrow>
     (let name = normalize_zip_member_name (zi_filename m) in
      \<not> is_symlink (zi_external_attr m) \<and> \<not> path_is_absolute name
        \<and> ''..'' \<notin> set (path_parts name) \<and> py_lower (path_suffix name) \<noteq> ''.zip'')"

lemma check_members_iff: "check_members ms = Inr u \<longleftrightarrow> (\<forall>m\<in>set ms. member_ok m)"
  by (induction ms) (auto simp: member_ok_def Let_def)

lemma validate_zip_entries_iff:
  "validate_zip_entries ms mc mb = Inr n \<longleftrightarrow>
     length ms \<le> (case mc of None \<Rightarrow> DEFAULT_MAX_FILE_COUNT | Some k \<Rightarrow> k)
     \<and> collect_total_uncompressed ms \<le> mb \<and> (\<forall>m\<in>set ms. member_ok m)
     \<and> n = collect_total_uncompressed ms"
  by (auto simp: validate_zip_entries_def Let_def bind_result_Inr_iff check_members_iff)

lemma get_validated_members_iff:
  "get_validated_members unzip mc mb content = Inr ms \<longleftrightarrow>
     unzip content = Some ms \<and> validate_zip_entries ms mc mb = Inr (collect_total_uncompressed ms)"
  by (auto simp: get_validated_members_def bind_result_Inr_iff validate_zip_entries_iff split: option.splits)

lemma is_symlink_iff:
  "is_symlink a \<longleftrightarrow> bit a 31 \<and> bit a 29"
proof -
  have s: "bit S_IFLNK n \<longleftrightarrow> n = 15 \<or> n = 13" for n
    by (simp add: S_IFLNK_def) (auto simp: bit_numeral_rec bit_1_iff split: nat.splits)
  have "is_symlink a \<longleftrightarrow> (\<forall>n<32. bit S_IFLNK n \<longrightarrow> bit (drop_bit 16 a) n)"
    unfolding is_symlink_def bit_eq_iff [where 'a = "32 word"] bit_and_iff by auto
  also have "\<dots> \<longleftrightarrow> bit (drop_bit 16 a) 15 \<and> bit (drop_bit 16 a) 13"
    unfolding s by (auto dest: spec [of _ "15 :: nat"] spec [of _ "13 :: nat"])
  finally show ?thesis by (simp add: bit_drop_bit_eq)
qed

section \<open>What a finished extraction holds\<close>

lemma resolve_parts_no_up: "''..'' \<notin> set ps \<Longrightarrow> resolve_parts acc ps = acc @ ps"
  by (induction ps arbitrary: acc) auto

lemma extract_member_Inr:
  assumes "extract_member m base fs = (Inr u, fs')"
  shows "if zi_is_dir m then fs_is_dir (base @ extract_parts (zi_filename m)) fs'
         else fs' (base @ extract_parts (zi_filename m)) = Some (FileN (zi_data m))"
    and "\<And>q. q \<noteq> base @ extract_parts (zi_filename m) \<or> zi_is_dir m \<Longrightarrow> fs q \<noteq> None \<Longrightarrow> fs' q = fs q"
    and "\<And>q c. fs' q = Some (FileN c) \<Longrightarrow> fs q = Some (FileN c) \<or>
           \<not> zi_is_dir m \<and> q = base @ extract_parts (zi_filename m) \<and> c = zi_data m"
proof -
  let ?t = "base @ extract_parts (zi_filename m)"
  from assms obtain fs1 where 1: "fs_mkdirs (butlast ?t) fs = Inr fs1"
    and 2: "zi_is_dir m \<Longrightarrow> fs_mkdirs ?t fs1 = Inr fs'"
    and 3: "\<not> zi_is_dir m \<Longrightarrow> fs_write ?t (zi_data m) fs1 = Inr fs'"
    by (auto simp: extract_member_def Let_def bind_state_Inr_iff lift_Inr_iffs split: if_splits)
  show "if zi_is_dir m then fs_is_dir ?t fs' else fs' ?t = Some (FileN (zi_data m))"
    using 2 3 by (auto simp: fs_write_Inr [OF 3] intro: fs_mkdirs_is_dir)
  show "fs' q = fs q" if "q \<noteq> ?t \<or> zi_is_dir m" and "fs q \<noteq> None" for q
    using that 2 3 fs_mkdirs_keeps(1) [OF 1, of q]
      fs_mkdirs_keeps(1) [OF 2, of q] fs_write_Inr [OF 3]
    by (cases "zi_is_dir m") auto
  show "fs q = Some (FileN c) \<or> \<not> zi_is_dir m \<and> q = ?t \<and> c = zi_data m"
    if "fs' q = Some (FileN c)" for q c
    using that 2 3 fs_mkdirs_Inr [OF 1]
    by (cases "zi_is_dir m") (auto dest!: fs_write_Inr fs_mkdirs_Inr split: if_splits)
qed

text \<open>The entry that decides what a path holds is the last one that writes it.\<close>

fun extracted_content :: "path \<Rightarrow> zip_info list \<Rightarrow> string option" where
  "extracted_content q [] = None"
| "extracted_content q (m # ms) =
     (case extracted_content q ms of
        Some c \<Rightarrow> Some c
      | None \<Rightarrow> if \<not> zi_is_dir m \<and> extract_parts (zi_filename m) = q then Some (zi_data m) else None)"

lemma extracted_content_None:
  "extracted_content q ms = None \<longleftrightarrow> (\<forall>m\<in>set ms. zi_is_dir m \<or> extract_parts (zi_filename m) \<noteq> q)"
  by (induction ms) (auto split: option.splits)

lemma extract_members_ConsE:
  assumes "extract_members (m # ms) base n fs = (Inr k, fs')"
  obtains u fs1 where "extract_member m base fs = (Inr u, fs1)"
    and "extract_members ms base (if zi_is_dir m then n else Suc n) fs1 = (Inr k, fs')"
  using assms by (auto simp: Let_def bind_state_Inr_iff split: if_splits)

lemma extract_member_dirs_stay:
  assumes "extract_member m base fs = (Inr u, fs')" and "fs_is_dir q fs"
  shows "fs_is_dir q fs'"
proof (cases "q = base @ extract_parts (zi_filename m) \<and> \<not> zi_is_dir m")
  case True
  with assms(1) obtain fs0 where "fs_mkdirs (butlast q) fs = Inr fs0" "fs_write q (zi_data m) fs0 = Inr fs'"
    by (auto simp: extract_member_def Let_def bind_state_Inr_iff lift_Inr_iffs split: if_splits)
  with assms(2) have False
    by (auto simp: fs_write_def fs_is_dir_def dest: fs_mkdirs_keeps(1) split: if_splits)
  then show ?thesis ..
next
  case False
  with assms(2) extract_member_Inr(2) [OF assms(1), of q] show ?thesis
    by (auto simp: fs_is_dir_def)
qed

lemma extract_members_dirs_stay:
  "extract_members ms base n fs = (Inr k, fs') \<Longrightarrow> fs_is_dir q fs \<Longrightarrow> fs_is_dir q fs'"
proof (induction ms arbitrary: n fs)
  case (Cons m ms)
  from Cons.prems(1) show ?case
    by (rule extract_members_ConsE) (blast intro: Cons.IH extract_member_dirs_stay Cons.prems(2))
qed simp

lemma extract_members_count:
  "extract_members ms base n fs = (Inr k, fs') \<Longrightarrow> k = n + length (filter (\<lambda>m. \<not> zi_is_dir m) ms)"
proof (induction ms arbitrary: n fs)
  case (Cons m ms)
  from Cons.prems show ?case
    by (rule extract_members_ConsE) (auto dest: Cons.IH split: if_splits)
qed simp

lemma extract_members_keep:
  "extract_members ms base n fs = (Inr k, fs') \<Longrightarrow> fs q \<noteq> None \<Longrightarrow>
     \<forall>m\<in>set ms. zi_is_dir m \<or> q \<noteq> base @ extract_parts (zi_filename m) \<Longrightarrow> fs' q = fs q"
proof (induction ms arbitrary: n fs)
  case (Cons m ms)
  from Cons.prems(1) obtain u fs1 where 1: "extract_member m base fs = (Inr u, fs1)"
    and 2: "extract_members ms base (if zi_is_dir m then n else Suc n) fs1 = (Inr k, fs')"
    by (rule extract_members_ConsE)
  have "fs1 q = fs q" using extract_member_Inr(2) [OF 1, of q] Cons.prems by auto
  with Cons.IH [OF 2] Cons.prems show ?case by auto
qed simp

lemma extract_members_content:
  "extract_members ms base n fs = (Inr k, fs') \<Longrightarrow> extracted_content q ms = Some c \<Longrightarrow>
     fs' (base @ q) = Some (FileN c)"
proof (induction ms arbitrary: n fs)
  case (Cons m ms)
  from Cons.prems(1) obtain u fs1 where 1: "extract_member m base fs = (Inr u, fs1)"
    and 2: "extract_members ms base (if zi_is_dir m then n else Suc n) fs1 = (Inr k, fs')"
    by (rule extract_members_ConsE)
  show ?case
  proof (cases "extracted_content q ms")
    case None
    with Cons.prems(2) have m: "\<not> zi_is_dir m" "extract_parts (zi_filename m) = q" "c = zi_data m"
      by (auto split: if_splits)
    then have f: "fs1 (base @ q) = Some (FileN c)" using extract_member_Inr(1) [OF 1] by auto
    moreover from None have "\<forall>m\<in>set ms. zi_is_dir m \<or> base @ q \<noteq> base @ extract_parts (zi_filename m)"
      by (auto simp: extracted_content_None)
    ultimately show ?thesis using extract_members_keep [OF 2, of "base @ q"] by auto
  next
    case (Some c')
    with Cons.prems(2) Cons.IH [OF 2] show ?thesis by auto
  qed
qed simp

lemma extract_members_dirs:
  "extract_members ms base n fs = (Inr k, fs') \<Longrightarrow> m \<in> set ms \<Longrightarrow> zi_is_dir m \<Longrightarrow>
     fs_is_dir (base @ extract_parts (zi_filename m)) fs'"
proof (induction ms arbitrary: n fs)
  case (Cons m' ms)
  from Cons.prems(1) obtain u fs1 where 1: "extract_member m' base fs = (Inr u, fs1)"
    and 2: "extract_members ms base (if zi_is_dir m' then n else Suc n) fs1 = (Inr k, fs')"
    by (rule extract_members_ConsE)
  from Cons.prems(2) show ?case
    using extract_member_Inr(1) [OF 1] extract_members_dirs_stay [OF 2] Cons.IH [OF 2] Cons.prems(3)
    by (cases "m = m'") auto
qed simp

lemma extract_members_origin:
  "extract_members ms base n fs = (Inr k, fs') \<Longrightarrow> fs' q = Some (FileN c) \<Longrightarrow> fs q = Some (FileN c) \<or>
     (\<exists>m\<in>set ms. \<not> zi_is_dir m \<and> q = base @ extract_parts (zi_filename m) \<and> c = zi_data m)"
proof (induction ms arbitrary: n fs)
  case (Cons m ms)
  from Cons.prems(1) obtain u fs1 where 1: "extract_member m base fs = (Inr u, fs1)"
    and 2: "extract_members ms base (if zi_is_dir m then n else Suc n) fs1 = (Inr k, fs')"
    by (rule extract_members_ConsE)
  from Cons.IH [OF 2 Cons.prems(2)] extract_member_Inr(3) [OF 1, of q c] show ?case
    by (meson list.set_intros)
qed simp

section \<open>What flattening does\<close>

text \<open>The contract of a directory listing: each child once, whatever the order.\<close>

definition listing_lists :: "'c listing \<Rightarrow> bool" where
  "listing_lists listing \<longleftrightarrow>
     (\<forall>fs p. finite (dom fs) \<longrightarrow>
        distinct (listing fs p) \<and> set (listing fs p) = {n. fs (p @ [n]) \<noteq> None})"

lemma remove_entry:
  assumes "fs_wf fs"
  shows "(if fs_is_dir p fs then fs_remove_below p fs else fs_unlink p fs) = fs_remove_below p fs"
proof (cases "fs_is_dir p fs")
  case False
  then have "fs q = None" if "prefix p q" "q \<noteq> p" for q
    using fs_wf_below [OF assms False] that by blast
  with False show ?thesis
    by (auto simp: fs_unlink_def fs_remove_below_def fs_is_file_def fs_is_dir_def fun_eq_iff
        split: option.splits node.splits)
qed simp

lemma flatten_scan_eq:
  "fs_wf fs \<Longrightarrow> flatten_scan base ns fs =
     (filter (\<lambda>n. \<not> is_ignorable_extraction_entry n) ns,
      \<lambda>q. if \<exists>n\<in>set ns. is_ignorable_extraction_entry n \<and> prefix (base @ [n]) q then None else fs q)"
proof (induction ns arbitrary: fs)
  case Nil
  then show ?case by simp
next
  case (Cons n ns)
  show ?case
  proof (cases "is_ignorable_extraction_entry n")
    case True
    then have "flatten_scan base (n # ns) fs = flatten_scan base ns (fs_remove_below (base @ [n]) fs)"
      by (simp only: flatten_scan.simps if_True remove_entry [OF Cons.prems])
    with True Cons.IH [OF fs_wf_remove_below [OF Cons.prems, of "base @ [n]"]]
    show ?thesis by (auto simp: fs_remove_below_def fun_eq_iff)
  next
    case False
    with Cons.IH [OF Cons.prems] show ?thesis by (auto simp: fun_eq_iff)
  qed
qed

lemma fs_move_into_fresh:
  assumes "fs (base @ [d, c]) \<noteq> None" and "fs (base @ [c]) = None" and "fs_is_dir base fs"
  shows "fs_move (base @ [d, c]) (base @ [c]) fs = Inr (fs_rename (base @ [d, c]) (base @ [c]) fs)"
proof -
  have "butlast (base @ [c]) = base" by simp
  with assms show ?thesis
    by (simp add: fs_move_def fs_is_dir_def fs_exists_def)
qed

definition lifted :: "path \<Rightarrow> string \<Rightarrow> string list \<Rightarrow> 'c fs \<Rightarrow> 'c fs" where
  "lifted base d cs fs = (\<lambda>q.
     if \<exists>c\<in>set cs. prefix (base @ [c]) q then fs (base @ [d] @ drop (length base) q)
     else if \<exists>c\<in>set cs. prefix (base @ [d, c]) q then None else fs q)"

lemma prefix_child_iff: "prefix (base @ [c]) q \<longleftrightarrow> (\<exists>r. q = base @ c # r)"
  by (auto simp: prefix_def)

lemma prefix_grandchild_iff: "prefix (base @ [d, c]) q \<longleftrightarrow> (\<exists>r. q = base @ d # c # r)"
  by (auto simp: prefix_def)

lemma lifted_Cons:
  assumes "c \<notin> set cs" and "c \<noteq> d" and "d \<notin> set cs"
  shows "lifted base d cs (fs_rename (base @ [d, c]) (base @ [c]) fs) = lifted base d (c # cs) fs"
  using assms by (auto simp: lifted_def fs_rename_def prefix_child_iff prefix_grandchild_iff fun_eq_iff)

lemma flatten_moves_eq:
  "distinct cs \<Longrightarrow> d \<notin> set cs \<Longrightarrow> fs_is_dir base fs \<Longrightarrow>
     \<forall>c\<in>set cs. fs (base @ [d, c]) \<noteq> None \<and> fs (base @ [c]) = None \<Longrightarrow>
     flatten_moves base d cs fs = (Inr (), lifted base d cs fs)"
proof (induction cs arbitrary: fs)
  case Nil
  then show ?case by (simp add: lifted_def)
next
  case (Cons c cs)
  let ?fs1 = "fs_rename (base @ [d, c]) (base @ [c]) fs"
  have 1: "fs_move (base @ [d, c]) (base @ [c]) fs = Inr ?fs1"
    using Cons.prems by (intro fs_move_into_fresh) auto
  have "fs_is_dir base ?fs1"
    using Cons.prems(3) by (simp add: fs_is_dir_def fs_rename_def)
  moreover have "\<forall>c'\<in>set cs. ?fs1 (base @ [d, c']) \<noteq> None \<and> ?fs1 (base @ [c']) = None"
    using Cons.prems by (auto simp: fs_rename_def)
  ultimately have "flatten_moves base d cs ?fs1 = (Inr (), lifted base d cs ?fs1)"
    using Cons.IH Cons.prems by simp
  moreover have "lifted base d cs ?fs1 = lifted base d (c # cs) fs"
    using Cons.prems by (intro lifted_Cons) auto
  ultimately show ?case using 1 by simp
qed

text \<open>The name clash: the single root holds a child of its own name.\<close>

lemma flatten_moves_clash:
  "d \<in> set cs \<Longrightarrow> distinct cs \<Longrightarrow> fs_is_dir base fs \<Longrightarrow> fs_is_dir (base @ [d]) fs \<Longrightarrow>
     \<forall>c\<in>set cs. fs (base @ [d, c]) \<noteq> None \<and> (c \<noteq> d \<longrightarrow> fs (base @ [c]) = None) \<Longrightarrow>
     \<exists>e fs'. flatten_moves base d cs fs = (Inl (ShutilError e (base @ [d, d])), fs')"
proof (induction cs arbitrary: fs)
  case (Cons c cs)
  show ?case
  proof (cases "c = d")
    case True
    with Cons.prems have "fs_move (base @ [d, d]) (base @ [d]) fs = Inl (ShutilError (base @ [d, d]) (base @ [d, d]))"
      by (simp add: fs_move_def fs_exists_def fs_is_dir_def Let_def)
    with True show ?thesis by simp
  next
    case False
    let ?fs1 = "fs_rename (base @ [d, c]) (base @ [c]) fs"
    have 1: "fs_move (base @ [d, c]) (base @ [c]) fs = Inr ?fs1"
      using Cons.prems False by (intro fs_move_into_fresh) auto
    have "\<exists>e fs'. flatten_moves base d cs ?fs1 = (Inl (ShutilError e (base @ [d, d])), fs')"
    proof (rule Cons.IH)
      show "d \<in> set cs" "distinct cs" using Cons.prems False by auto
      show "fs_is_dir base ?fs1" "fs_is_dir (base @ [d]) ?fs1"
        using Cons.prems False by (auto simp: fs_is_dir_def fs_rename_def)
      show "\<forall>c'\<in>set cs. ?fs1 (base @ [d, c']) \<noteq> None \<and> (c' \<noteq> d \<longrightarrow> ?fs1 (base @ [c']) = None)"
        using Cons.prems False by (auto simp: fs_rename_def)
    qed
    with 1 show ?thesis by auto
  qed
qed simp

lemma fs_wf_none_below: "fs_wf fs \<Longrightarrow> fs p = None \<Longrightarrow> prefix p q \<Longrightarrow> fs q = None"
  by (metis fs_is_dir_def fs_wf_below option.distinct(1))

lemma finite_dom_lifted: "finite (dom fs) \<Longrightarrow> finite (dom (lifted base d cs fs))"
proof -
  assume f: "finite (dom fs)"
  have "dom (lifted base d cs fs) \<subseteq> dom fs \<union> (\<lambda>q. base @ drop (Suc (length base)) q) ` dom fs"
  proof
    fix q assume "q \<in> dom (lifted base d cs fs)"
    then consider "fs q \<noteq> None" | c r where "q = base @ c # r" "fs (base @ d # c # r) \<noteq> None"
      by (auto simp: lifted_def prefix_child_iff split: if_splits)
    then show "q \<in> dom fs \<union> (\<lambda>q. base @ drop (Suc (length base)) q) ` dom fs"
      by cases (auto simp: image_iff intro!: bexI [of _ "base @ d # c # r" for c r])
  qed
  with f show ?thesis by (meson finite_Un finite_imageI finite_subset)
qed

text \<open>The state between the scan and the moves.\<close>

definition without_metadata :: "path \<Rightarrow> 'c fs \<Rightarrow> 'c fs" where
  "without_metadata base fs = (\<lambda>q.
     if \<exists>n. is_ignorable_extraction_entry n \<and> prefix (base @ [n]) q then None else fs q)"

lemma without_metadata_simps:
  "without_metadata base fs (base @ n # r) =
     (if is_ignorable_extraction_entry n then None else fs (base @ n # r))"
  "without_metadata base fs base = fs base"
  "\<not> prefix base q \<Longrightarrow> without_metadata base fs q = fs q"
  by (auto simp: without_metadata_def prefix_def)

lemma flatten_scan_root:
  assumes wf: "fs_wf fs" and fin: "finite (dom fs)" and L: "listing_lists listing"
  shows "flatten_scan base (listing fs base) fs =
    (filter (\<lambda>n. \<not> is_ignorable_extraction_entry n) (listing fs base), without_metadata base fs)"
proof -
  have "set (listing fs base) = {n. fs (base @ [n]) \<noteq> None}"
    using L fin by (simp add: listing_lists_def)
  then have "(if \<exists>n\<in>set (listing fs base). is_ignorable_extraction_entry n \<and> prefix (base @ [n]) q
      then None else fs q) = without_metadata base fs q" for q
    using fs_wf_none_below [OF wf] by (auto simp: without_metadata_def)
  then show ?thesis using flatten_scan_eq [OF wf, of base "listing fs base"] by simp
qed

lemma distinct_set_singleton: "distinct xs \<Longrightarrow> set xs = {d} \<Longrightarrow> xs = [d]"
  by (metis distinct_card card.empty card_insert_disjoint empty_iff finite.emptyI length_0_conv
      length_Suc_conv list.set(2) list.simps(15) numeral_nat(7) singleton_insert_inj_eq)

text \<open>One meaningful entry, a directory \<open>d\<close>: what the two scans list and the moves leave.\<close>

definition single_root :: "'c listing \<Rightarrow> path \<Rightarrow> string \<Rightarrow> 'c fs \<Rightarrow> bool" where
  "single_root listing base d fs \<longleftrightarrow>
     listing_lists listing \<and> fs_wf fs \<and> finite (dom fs) \<and> fs_is_dir base fs \<and> fs_is_dir (base @ [d]) fs
     \<and> (\<forall>n. fs (base @ [n]) \<noteq> None \<longrightarrow> n = d \<or> is_ignorable_extraction_entry n)
     \<and> \<not> is_ignorable_extraction_entry d"

lemma single_rootD:
  assumes "single_root listing base d fs"
  shows "listing_lists listing" "fs_wf fs" "finite (dom fs)" "fs_is_dir base fs" "fs_is_dir (base @ [d]) fs"
    "\<And>n. fs (base @ [n]) \<noteq> None \<Longrightarrow> n = d \<or> is_ignorable_extraction_entry n"
    "\<not> is_ignorable_extraction_entry d"
  using assms by (auto simp: single_root_def)

lemma single_root_scan:
  assumes S: "single_root listing base d fs"
  shows "flatten_scan base (listing fs base) fs = ([d], without_metadata base fs)"
proof -
  note D = single_rootD [OF S]
  have l: "distinct (listing fs base)" "set (listing fs base) = {n. fs (base @ [n]) \<noteq> None}"
    using D(1,3) by (simp_all add: listing_lists_def)
  have "filter (\<lambda>n. \<not> is_ignorable_extraction_entry n) (listing fs base) = [d]"
    using l D(5-7) by (intro distinct_set_singleton) (auto simp: fs_is_dir_def)
  then show ?thesis by (simp add: flatten_scan_root [OF D(2,3,1)])
qed

lemma scanned_below:
  "single_root listing base d fs \<Longrightarrow> without_metadata base fs (base @ d # r) = fs (base @ d # r)"
  by (simp add: without_metadata_simps single_root_def)

lemma scanned_other:
  assumes S: "single_root listing base d fs" and "c \<noteq> d"
  shows "without_metadata base fs (base @ c # r) = None"
proof (cases "is_ignorable_extraction_entry c")
  case False
  with assms have "fs (base @ [c]) = None" by (auto simp: single_root_def)
  then have "fs (base @ c # r) = None"
    by (rule fs_wf_none_below [OF single_rootD(2) [OF S]]) (simp add: prefix_def)
  with False show ?thesis by (simp add: without_metadata_simps)
qed (simp add: without_metadata_simps)

lemma scanned_dirs:
  assumes S: "single_root listing base d fs"
  shows "fs_is_dir base (without_metadata base fs)" "fs_is_dir (base @ [d]) (without_metadata base fs)"
  using single_rootD(4,5) [OF S] scanned_below [OF S, of "[]"]
  by (simp_all add: fs_is_dir_def without_metadata_simps)

lemma finite_scanned: "finite (dom fs) \<Longrightarrow> finite (dom (without_metadata base fs))"
  by (erule finite_subset [rotated]) (auto simp: without_metadata_def split: if_splits)

lemma scanned_children:
  assumes S: "single_root listing base d fs"
  shows "distinct (listing (without_metadata base fs) (base @ [d]))"
    "set (listing (without_metadata base fs) (base @ [d])) = {c. fs (base @ [d, c]) \<noteq> None}"
  using single_rootD(1) [OF S] finite_scanned [OF single_rootD(3) [OF S]] scanned_below [OF S, of "[c]" for c]
  by (simp_all add: listing_lists_def)

lemma single_root_unfold:
  "single_root listing base d fs \<Longrightarrow> flatten_single_root_directory listing base fs =
     bind_state (flatten_moves base d (listing (without_metadata base fs) (base @ [d])) (without_metadata base fs))
       (\<lambda>_ fs2. lift_update id (fs_rmdir listing (base @ [d]) fs2) fs2)"
  by (simp add: flatten_single_root_directory_def single_root_scan scanned_dirs)

lemma flatten_clash:
  assumes S: "single_root listing base d fs" and "fs (base @ [d, d]) \<noteq> None"
  shows "\<exists>src dst fs'. flatten_single_root_directory listing base fs = (Inl (ShutilError src dst), fs')"
proof -
  have "\<exists>e fs'. flatten_moves base d (listing (without_metadata base fs) (base @ [d])) (without_metadata base fs)
      = (Inl (ShutilError e (base @ [d, d])), fs')"
    using assms(2) scanned_children [OF S] scanned_dirs [OF S] scanned_below [OF S] scanned_other [OF S]
    by (intro flatten_moves_clash) auto
  then show ?thesis by (auto simp: single_root_unfold [OF S])
qed

definition moved :: "'c listing \<Rightarrow> path \<Rightarrow> string \<Rightarrow> 'c fs \<Rightarrow> 'c fs" where
  "moved listing base d fs =
     lifted base d (listing (without_metadata base fs) (base @ [d])) (without_metadata base fs)"

lemma moved_root:
  assumes S: "single_root listing base d fs" and "fs (base @ [d, d]) = None"
  shows "moved listing base d fs (base @ [d]) = Some DirN"
  using assms(2) scanned_children [OF S] scanned_dirs(2) [OF S]
  by (auto simp: moved_def lifted_def prefix_child_iff prefix_grandchild_iff fs_is_dir_def)

lemma below_grandchild: "fs_wf fs \<Longrightarrow> fs (base @ [d, c]) = None \<Longrightarrow> fs (base @ d # c # r) = None"
  by (rule fs_wf_none_below [of _ "base @ [d, c]"]) (auto simp: prefix_def)

lemma moved_below_root:
  assumes S: "single_root listing base d fs" and "fs (base @ [d, d]) = None"
  shows "moved listing base d fs (base @ d # c # r) = None"
  using assms(2) scanned_children [OF S] scanned_below [OF S, of "c # r"]
    below_grandchild [OF single_rootD(2) [OF S], of base d c r]
  by (auto simp: moved_def lifted_def prefix_child_iff prefix_grandchild_iff)

lemma moved_other:
  assumes S: "single_root listing base d fs" and "c \<noteq> d"
  shows "moved listing base d fs (base @ c # r) = fs (base @ d # c # r)"
  using assms(2) scanned_children [OF S] scanned_below [OF S, of "c # r"] scanned_other [OF assms, of r]
    below_grandchild [OF single_rootD(2) [OF S], of base d c r]
  by (auto simp: moved_def lifted_def prefix_child_iff prefix_grandchild_iff)

lemma moved_outside: "\<not> prefix base q \<or> q = base \<Longrightarrow> moved listing base d fs q = fs q"
  by (auto simp: moved_def lifted_def prefix_def without_metadata_def)

lemma flatten_lifts:
  assumes S: "single_root listing base d fs" and free: "fs (base @ [d, d]) = None"
  shows "flatten_single_root_directory listing base fs
    = (Inr (), (moved listing base d fs)(base @ [d] := None))"
proof -
  let ?m = "moved listing base d fs"
  have "without_metadata base fs (base @ [d, c]) \<noteq> None \<and> without_metadata base fs (base @ [c]) = None"
    if "c \<in> set (listing (without_metadata base fs) (base @ [d]))" for c
  proof -
    from that have "fs (base @ [d, c]) \<noteq> None" using scanned_children(2) [OF S] by blast
    moreover from this free have "c \<noteq> d" by metis
    ultimately show ?thesis
      using scanned_below [OF S, of "[c]"] scanned_other [OF S, of c "[]"] by simp
  qed
  then have "flatten_moves base d (listing (without_metadata base fs) (base @ [d])) (without_metadata base fs)
      = (Inr (), ?m)"
    unfolding moved_def using free scanned_children [OF S] scanned_dirs(1) [OF S]
    by (intro flatten_moves_eq) simp_all
  moreover have "listing ?m (base @ [d]) = []"
  proof -
    have "finite (dom ?m)"
      by (simp add: moved_def finite_dom_lifted finite_scanned single_rootD(3) [OF S])
    then have "set (listing ?m (base @ [d])) = {}"
      using single_rootD(1) [OF S] moved_below_root [OF assms, of _ "[]"] by (simp add: listing_lists_def)
    then show ?thesis by simp
  qed
  ultimately show ?thesis
    using moved_root [OF assms] by (simp add: single_root_unfold [OF S] fs_rmdir_def fs_is_dir_def)
qed

lemma flattened_below:
  assumes S: "single_root listing base d fs" and free: "fs (base @ [d, d]) = None" and "q \<noteq> []"
  shows "((moved listing base d fs)(base @ [d] := None)) (base @ q) = fs (base @ d # q)"
proof -
  from assms(3) obtain c r where q: "q = c # r" by (cases q) auto
  have "fs (base @ d # d # r) = None"
    by (rule below_grandchild [OF single_rootD(2) [OF S] free])
  then show ?thesis
    using q moved_below_root [OF S free] moved_other [OF S, of c r] by (cases "c = d"; cases r) auto
qed

section \<open>Properties\<close>


text \<open>C12: whatever the uploaded bytes are, and however validation, extraction and flattening end,
  nothing outside the target directory changes, missing parents of the target apart.\<close>

theorem extraction_stays_in_target:
  assumes "\<not> prefix target q"
    and "validate_and_extract unzip listing free mb mf archive target fs = (r, fs')"
  shows "fs' q = fs q \<or> prefix q target \<and> fs q = None \<and> fs' q = Some DirN"
  using assms fs_frame_validate_and_extract [of target fs unzip listing free mb mf archive]
  by (auto simp: fs_frame_def)

text \<open>An extraction that finishes counted the regular entries; every regular entry is at its
  place with the bytes of the last entry of that name, every directory entry is a directory, and a
  file that was not there before is one of the entries. With a reserve configured it only started
  with room for the declared size and the reserve.\<close>

lemma extraction_holds_entries:
  assumes "extract_to free ms target min_free fs = (Inr k, fs')"
  shows "k = length (filter (\<lambda>m. \<not> zi_is_dir m) ms)
    \<and> (\<forall>q c. extracted_content q ms = Some c \<longrightarrow> fs' (target @ q) = Some (FileN c))
    \<and> (\<forall>m\<in>set ms. zi_is_dir m \<longrightarrow> fs_is_dir (target @ extract_parts (zi_filename m)) fs')
    \<and> (\<forall>p c. fs' p = Some (FileN c) \<longrightarrow> fs p = Some (FileN c) \<or>
           (\<exists>m\<in>set ms. \<not> zi_is_dir m \<and> p = target @ extract_parts (zi_filename m) \<and> c = zi_data m))
    \<and> (min_free > 0 \<longrightarrow> collect_total_uncompressed ms + min_free \<le> free)"
proof -
  from assms obtain fs1 where 1: "extract_members ms target 0 fs1 = (Inr k, fs')"
    and 2: "min_free = 0 \<Longrightarrow> fs1 = fs"
    and 3: "min_free > 0 \<Longrightarrow> fs_mkdirs target fs = Inr fs1 \<and> collect_total_uncompressed ms + min_free \<le> free"
    by (auto simp: extract_to_def check_disk_headroom_def Let_def bind_state_Inr_iff lift_Inr_iffs
        split: if_splits)
  have "fs1 p = Some (FileN c) \<Longrightarrow> fs p = Some (FileN c)" for p c
    using 2 3 by (cases "min_free = 0") (auto dest!: fs_mkdirs_Inr split: if_splits)
  then show ?thesis
    using extract_members_origin [OF 1] extract_members_count [OF 1] 3
    by (intro conjI allI impI ballI extract_members_content [OF 1] extract_members_dirs [OF 1]) auto
qed

text \<open>With one meaningful entry, a directory \<open>d\<close>, at the top, flattening lifts all that \<open>d\<close>
  holds one level up, whatever the order of the listings, and changes nothing outside; but when
  \<open>d\<close> holds a child called \<open>d\<close> it raises instead.\<close>

lemma flatten_lifts_single_root:
  assumes "single_root listing base d fs"
  shows "if fs (base @ [d, d]) = None
    then \<exists>fs'. flatten_single_root_directory listing base fs = (Inr (), fs')
        \<and> (\<forall>q. q \<noteq> [] \<longrightarrow> fs' (base @ q) = fs (base @ d # q))
        \<and> (\<forall>q. \<not> prefix base q \<or> q = base \<longrightarrow> fs' q = fs q)
    else \<exists>src dst fs'. flatten_single_root_directory listing base fs = (Inl (ShutilError src dst), fs')"
proof (cases "fs (base @ [d, d]) = None")
  case True
  let ?fs' = "(moved listing base d fs)(base @ [d] := None)"
  have "\<forall>q. \<not> prefix base q \<or> q = base \<longrightarrow> ?fs' q = fs q"
    by (auto simp: moved_outside)
  with flatten_lifts [OF assms True] flattened_below [OF assms True] True show ?thesis by auto
next
  case False
  with flatten_clash [OF assms False] show ?thesis by auto
qed

section \<open>The properties at work\<close>

definition demo_zip :: "zip_info list" where
  "demo_zip =
     [\<lparr>zi_filename = ''data/'', zi_file_size = 0, zi_external_attr = 0x41ED0010, zi_data = '''', zi_crc_ok = True\<rparr>,
      \<lparr>zi_filename = ''data/a.txt'', zi_file_size = 2, zi_external_attr = 0x81A40000, zi_data = ''hi'', zi_crc_ok = True\<rparr>]"

definition demo_unzip :: unzip where
  "demo_unzip content = (if content = ''PK'' then Some demo_zip else None)"

definition demo_listing :: "string listing" where
  "demo_listing fs p = filter (\<lambda>n. fs_exists (p @ [n]) fs) [''a.txt'', ''data'']"

definition demo_staged :: "string fs" where
  "demo_staged = [[] \<mapsto> DirN, [''up''] \<mapsto> FileN ''PK'']"

lemma demo_zip_members:
  "\<forall>m\<in>set demo_zip. let name = normalize_zip_member_name (zi_filename m) in
      \<not> (bit (zi_external_attr m) 31 \<and> bit (zi_external_attr m) 29)
      \<and> \<not> path_is_absolute name \<and> ''..'' \<notin> set (path_parts name)
      \<and> py_lower (path_suffix name) \<noteq> ''.zip''"
  by code_simp

lemma demo_zip_facts:
  "demo_unzip ''PK'' = Some demo_zip" "length demo_zip = 2" "sum_list (map zi_file_size demo_zip) = 2"
  by (simp_all add: demo_unzip_def demo_zip_def)

lemma demo_zip_accepted: "get_validated_members demo_unzip None 10 ''PK'' = Inr demo_zip"
  using demo_zip_members
  by (simp add: get_validated_members_iff validate_zip_entries_iff demo_zip_facts collect_total_uncompressed_def
      DEFAULT_MAX_FILE_COUNT_def member_ok_def is_symlink_iff Let_def)

lemma validate_and_extract_accepted:
  assumes "fs archive_path = Some (FileN content)"
    and "get_validated_members unzip None mb content = Inr members"
  shows "validate_and_extract unzip listing free mb mf archive_path target_dir fs =
     bind_state (lift_update ArchiveOsError (fs_mkdirs target_dir fs) fs) (\<lambda>_ fs2.
     bind_state (extract_to free members target_dir mf fs2) (\<lambda>_ fs3.
     lift_os_state (flatten_single_root_directory listing target_dir fs3)))"
  using assms by (simp add: validate_and_extract_def fs_read_def)


definition demo_extracted :: "(archive_error + unit) \<times> string fs" where
  "demo_extracted = validate_and_extract demo_unzip demo_listing 100 10 5 [''up''] [''ds''] demo_staged"

theorem extraction_stays_in_target_witness:
  "snd demo_extracted [''up''] = Some (FileN ''PK'')"
  using extraction_stays_in_target [of "[''ds'']" "[''up'']" demo_unzip demo_listing 100 10 5 "[''up'']"
      demo_staged "fst demo_extracted" "snd demo_extracted"]
  by (simp add: demo_extracted_def demo_staged_def)

lemma demo_extract_to:
  "fst (extract_to 100 demo_zip [''ds''] 5 demo_staged) = Inr 1"
  by code_simp

lemma extraction_holds_entries_witness:
  "snd (extract_to 100 demo_zip [''ds''] 5 demo_staged) [''ds'', ''data'', ''a.txt''] = Some (FileN ''hi'')"
proof -
  have e: "extract_to 100 demo_zip [''ds''] 5 demo_staged = (Inr 1, snd (extract_to 100 demo_zip [''ds''] 5 demo_staged))"
    using demo_extract_to by (metis prod.collapse)
  have c: "extracted_content [''data'', ''a.txt''] demo_zip = Some ''hi''" by code_simp
  from extraction_holds_entries [OF e] c show ?thesis by (metis append_Cons append_Nil)
qed

definition sorted_listing :: "string listing" where
  "sorted_listing fs p =
     (if finite (dom fs) then sorted_list_of_set {n. fs (p @ [n]) \<noteq> None} else [])"

lemma listing_lists_sorted: "listing_lists sorted_listing"
proof -
  have "finite {n. fs (p @ [n]) \<noteq> None}" if "finite (dom fs)" for fs :: "string fs" and p
  proof -
    have "(\<lambda>n. p @ [n]) ` {n. fs (p @ [n]) \<noteq> None} \<subseteq> dom fs" by auto
    with that have "finite ((\<lambda>n. p @ [n]) ` {n. fs (p @ [n]) \<noteq> None})" by (rule rev_finite_subset)
    then show ?thesis by (rule finite_imageD) (simp add: inj_on_def)
  qed
  then show ?thesis by (simp add: listing_lists_def sorted_listing_def)
qed

definition demo_wrapped :: "string fs" where
  "demo_wrapped = [[] \<mapsto> DirN, [''ds''] \<mapsto> DirN, [''ds'', ''data''] \<mapsto> DirN,
     [''ds'', ''data'', ''a.txt''] \<mapsto> FileN ''hi'', [''ds'', ''.DS_Store''] \<mapsto> FileN '''']"

lemma demo_wrapped_single: "single_root sorted_listing [''ds''] ''data'' demo_wrapped"
proof -
  have "fs_wf demo_wrapped"
    by (auto simp: fs_wf_def demo_wrapped_def strict_prefix_def prefix_Cons split: if_splits)
  moreover have "\<forall>n. demo_wrapped ([''ds''] @ [n]) \<noteq> None \<longrightarrow> n = ''data'' \<or> is_ignorable_extraction_entry n"
    by (simp add: demo_wrapped_def is_ignorable_extraction_entry_def)
  moreover have "\<not> is_ignorable_extraction_entry ''data''" by code_simp
  ultimately show ?thesis
    by (simp add: single_root_def listing_lists_sorted demo_wrapped_def fs_is_dir_def)
qed

lemma flatten_lifts_single_root_witness:
  "\<exists>fs'. flatten_single_root_directory sorted_listing [''ds''] demo_wrapped = (Inr (), fs')
     \<and> fs' [''ds'', ''a.txt''] = Some (FileN ''hi'')"
proof -
  have "demo_wrapped ([''ds''] @ [''data'', ''data'']) = None" by (simp add: demo_wrapped_def)
  with flatten_lifts_single_root [OF demo_wrapped_single] obtain fs'
    where "flatten_single_root_directory sorted_listing [''ds''] demo_wrapped = (Inr (), fs')"
      and "\<forall>q. q \<noteq> [] \<longrightarrow> fs' ([''ds''] @ q) = demo_wrapped ([''ds''] @ ''data'' # q)" by auto
  moreover from this(2) have "fs' ([''ds''] @ [''a.txt'']) = Some (FileN ''hi'')"
    by (simp add: demo_wrapped_def)
  ultimately show ?thesis by auto
qed

end
