(* ===== verification/TrainerApi.thy ===== *)
theory TrainerApi
  imports TrainerQueueInv ArchiveSafety
begin

text \<open>
  The trainer's HTTP API, \<^verbatim>\<open>trainer/api.py\<close>, over the queue manager and the disk, and the training
  execution of \<^verbatim>\<open>trainer/runner.py\<close>. A handler returns its reply with the changed state. The body
  of an upload is the list of the chunks that arrive and whether the client stayed connected to
  its end; the free bytes of the disk are an argument, one for the check before the body is
  written and one for the check before extraction.
\<close>

section \<open>Requests and replies\<close>

record trainer_settings =
  ts_dirs :: trainer_dirs
  ts_max_uncompressed :: nat
  ts_min_free :: nat

record http_request =
  hdr_content_type :: string
  hdr_content_range :: "string option"
  hdr_content_length :: "string option"
  body_chunks :: "string list"
  body_complete :: bool

datatype http_error = HTTPException nat string "(string \<times> string) list"
  | ClientDisconnect | Unhandled archive_error | UnhandledStore store_error

datatype reply_body = NoBody | StateBody JobState | SubmitBody string TrainerJobStatus
  | CancelBody string TrainerJobStatus | FileBody path string

record http_reply =
  reply_status :: nat
  reply_headers :: "(string \<times> string) list"
  reply_content :: reply_body

record upload_env =
  up_unzip :: unzip
  up_listing :: "string listing"
  up_free_before :: nat
  up_free_after :: nat

section \<open>Resumable ranges\<close>

text \<open>\<^verbatim>\<open>^bytes (\d+)-(\d+)/(\d+)$\<close> as a full match, on the characters of a header.\<close>

definition match_content_range :: "string \<Rightarrow> (nat \<times> nat \<times> nat) option" where
  "match_content_range s =
     (if \<not> starts_with ''bytes '' s then None
      else
        let r = drop 6 s;
            a = takeWhile is_digit r; r1 = dropWhile is_digit r;
            b = takeWhile is_digit (drop 1 r1); r2 = dropWhile is_digit (drop 1 r1);
            t = drop 1 r2
        in if a \<noteq> [] \<and> take 1 r1 = ''-'' \<and> b \<noteq> [] \<and> take 1 r2 = ''/'' \<and> t \<noteq> [] \<and> list_all is_digit t
           then Some (nat_of_digits a, nat_of_digits b, nat_of_digits t) else None)"

definition dataset_dir :: "trainer_settings \<Rightarrow> string \<Rightarrow> path" where
  "dataset_dir s job_id = datasets_dir (ts_dirs s) @ [job_id]"

definition upload_path :: "trainer_settings \<Rightarrow> string \<Rightarrow> path" where
  "upload_path s job_id = datasets_dir (ts_dirs s) @ [job_id @ ''.zip.part'']"

definition staged :: "path \<Rightarrow> string fs \<Rightarrow> string" where
  "staged p fs = (case fs p of Some (FileN c) \<Rightarrow> c | _ \<Rightarrow> '''')"

definition upload_offset :: "trainer_settings \<Rightarrow> string \<Rightarrow> string fs \<Rightarrow> nat" where
  "upload_offset s job_id fs = length (staged (upload_path s job_id) fs)"

type_synonym upload_range = "nat \<times> nat option \<times> nat option \<times> bool"

definition parse_upload_range ::
  "trainer_settings \<Rightarrow> http_request \<Rightarrow> string \<Rightarrow> string fs \<Rightarrow> http_error + upload_range" where
  "parse_upload_range s request job_id fs =
     (case hdr_content_range request of
        None \<Rightarrow> Inr (0, None, None, False)
      | Some content_range \<Rightarrow>
          if content_range = '''' then Inr (0, None, None, False)
          else case match_content_range content_range of
              None \<Rightarrow> Inl (HTTPException 400 ''Invalid Content-Range header'' [])
            | Some (start, end_b, total_b) \<Rightarrow>
                if total_b = 0 \<or> start > end_b \<or> end_b \<ge> total_b
                then Inl (HTTPException 400 ''Invalid Content-Range bounds'' [])
                else let offset = upload_offset s job_id fs in
                  if start \<noteq> offset
                  then Inl (HTTPException 409 ''Upload offset does not match staged dataset''
                              [(''Upload-Offset'', nat_str offset)])
                  else Inr (start, Some end_b, Some total_b, start > 0))"

definition validate_range_body_size :: "nat \<Rightarrow> nat \<Rightarrow> nat option \<Rightarrow> nat option \<Rightarrow> http_error + unit" where
  "validate_range_body_size written start end_b total_b =
     (case (end_b, total_b) of
        (Some e, Some t) \<Rightarrow>
          if int written \<noteq> int e - int start + 1
          then Inl (HTTPException 400 ''Content-Range length does not match body'' []) else Inr ()
      | _ \<Rightarrow> Inl (HTTPException 400 ''Content-Range length does not match body'' []))"

definition remaining_upload_bytes :: "http_request \<Rightarrow> nat \<Rightarrow> nat option \<Rightarrow> nat option" where
  "remaining_upload_bytes request start total_b =
     (case total_b of
        Some t \<Rightarrow> Some (t - start)
      | None \<Rightarrow>
          (case hdr_content_length request of
             None \<Rightarrow> None
           | Some l \<Rightarrow> if l \<noteq> '''' \<and> list_all is_digit l then Some (nat_of_digits l) else None))"

definition check_upload_disk_headroom ::
  "upload_env \<Rightarrow> trainer_settings \<Rightarrow> http_request \<Rightarrow> nat \<Rightarrow> nat option \<Rightarrow> string fs
     \<Rightarrow> (archive_error + unit) \<times> string fs" where
  "check_upload_disk_headroom env s request start total_b fs =
     (case remaining_upload_bytes request start total_b of
        None \<Rightarrow> (Inr (), fs)
      | Some remaining_bytes \<Rightarrow>
          check_disk_headroom (up_free_before env) (datasets_dir (ts_dirs s)) remaining_bytes (ts_min_free s) fs)"

definition stream_body_to_disk ::
  "http_request \<Rightarrow> path \<Rightarrow> bool \<Rightarrow> string fs \<Rightarrow> (http_error + nat) \<times> string fs" where
  "stream_body_to_disk request destination append_mode fs =
     (let received = concat (body_chunks request);
          content = (if append_mode then staged destination fs else '''') @ received in
      bind_state (lift_update (\<lambda>e. Unhandled (ArchiveOsError e)) (fs_write destination content fs) fs)
        (\<lambda>_ fs1. if body_complete request then (Inr (length received), fs1) else (Inl ClientDisconnect, fs1)))"

section \<open>Jobs named by a request\<close>

definition get_job :: "string \<Rightarrow> QueueManager \<Rightarrow> http_error + JobState" where
  "get_job job_id q =
     (case get job_id (qm_store q) of
        None \<Rightarrow> Inl (HTTPException 404 ''Job not found'' [])
      | Some st \<Rightarrow> Inr st)"

definition get_http_dataset_job :: "string \<Rightarrow> QueueManager \<Rightarrow> http_error + JobState" where
  "get_http_dataset_job job_id q =
     bind_result (get_job job_id q) (\<lambda>st.
       if state_status st \<noteq> T_AWAITING_DATASET
       then Inl (HTTPException 409 ''Job is not awaiting a dataset upload'' [])
       else case get_request job_id (qm_store q) of
           None \<Rightarrow> Inl (HTTPException 409 ''Job does not use http dataset transfer'' [])
         | Some r \<Rightarrow> if req_dataset_transfer r \<noteq> HTTP
             then Inl (HTTPException 409 ''Job does not use http dataset transfer'' []) else Inr st)"

section \<open>Handlers\<close>

definition submit_job ::
  "string list \<Rightarrow> (string \<Rightarrow> string list) \<Rightarrow> string \<Rightarrow> int \<Rightarrow> SubmitJobRequest \<Rightarrow> QueueManager
     \<Rightarrow> (http_error + http_reply) \<times> QueueManager" where
  "submit_job available missing_dependencies job_id now request q =
     (let policy = spec_policy (req_spec request) in
      if policy \<notin> set available then
        (let missing = missing_dependencies policy in
         (Inl (HTTPException 422
            (if missing \<noteq> []
             then ''Policy '' @ CHR 0x27 # policy @ CHR 0x27 # '' is missing: ''
                    @ str_join '', '' missing
             else ''Policy '' @ CHR 0x27 # policy @ CHR 0x27 # '' is unavailable on this trainer'') []), q))
      else case create job_id now request (qm_store q) of
          Inl e \<Rightarrow> (Inl (UnhandledStore e), q)
        | Inr st \<Rightarrow>
            (let q1 = q\<lparr>qm_store := stash_secret job_id (req_hf_token request) st\<rparr>;
                 job_status = (case get job_id (qm_store q1) of None \<Rightarrow> T_QUEUED | Some x \<Rightarrow> state_status x)
             in (Inr \<lparr>reply_status = 202, reply_headers = [],
                      reply_content = SubmitBody job_id job_status\<rparr>, q1)))"

definition cleanup_upload :: "path \<Rightarrow> path \<Rightarrow> string fs \<Rightarrow> string fs" where
  "cleanup_upload archive_path target_dir fs = rmtree_quiet target_dir (fs_unlink archive_path fs)"

text \<open>The body of the \<open>try\<close>: \<open>Some\<close> is the early return of an unfinished upload.\<close>

definition receive_dataset ::
  "upload_env \<Rightarrow> trainer_settings \<Rightarrow> http_request \<Rightarrow> string \<Rightarrow> upload_range \<Rightarrow> string fs
     \<Rightarrow> (http_error + (nat option \<times> bool)) \<times> string fs" where
  "receive_dataset env s request job_id rng fs =
     (case rng of (start, end_b, total_b, append_mode) \<Rightarrow>
      bind_state (case check_upload_disk_headroom env s request start total_b fs of
                    (r, fs1) \<Rightarrow> lift_result Unhandled r fs1) (\<lambda>_ fs1.
      bind_state (stream_body_to_disk request (upload_path s job_id) append_mode fs1) (\<lambda>written fs2.
      bind_state
        (case total_b of
           None \<Rightarrow> (Inr (None, True), fs2)
         | Some t \<Rightarrow>
             (case end_b of
                None \<Rightarrow> (Inl (HTTPException 400 ''Invalid Content-Range header'' []), fs2)
              | Some e \<Rightarrow>
                  bind_state (lift_result id (validate_range_body_size written start end_b total_b) fs2)
                    (\<lambda>_ fs3. (Inr (Some (e + 1), \<not> e + 1 < t), fs3))))
        (\<lambda>(next_offset, finished) fs3.
           if \<not> finished then (Inr (next_offset, False), fs3)
           else case validate_and_extract (up_unzip env) (up_listing env) (up_free_after env)
                       (ts_max_uncompressed s) (ts_min_free s) (upload_path s job_id)
                       (dataset_dir s job_id) fs3 of
               (Inl e, fs4) \<Rightarrow> (Inl (Unhandled e), fs4)
             | (Inr _, fs4) \<Rightarrow> (Inr (next_offset, True), fs4)))))"

definition offset_header :: "nat option \<Rightarrow> (string \<times> string) list" where
  "offset_header n = (case n of None \<Rightarrow> [] | Some k \<Rightarrow> [(''Upload-Offset'', nat_str k)])"

text \<open>The handler up to its end of the \<open>try\<close> statement, which reads the job once, before.\<close>

definition upload_stage ::
  "upload_env \<Rightarrow> trainer_settings \<Rightarrow> http_request \<Rightarrow> string \<Rightarrow> string fs
     \<Rightarrow> (http_error + (nat option \<times> bool)) \<times> string fs" where
  "upload_stage env s request job_id fs =
     (if \<not> is_infix_str ''zip'' (py_lower (hdr_content_type request))
      then (Inl (HTTPException 415 ''Dataset must be uploaded as application/zip'' []), fs)
      else
        bind_state (lift_update (\<lambda>e. Unhandled (ArchiveOsError e)) (fs_mkdirs (datasets_dir (ts_dirs s)) fs) fs)
          (\<lambda>_ fs1.
        bind_state (lift_result id (parse_upload_range s request job_id fs1) fs1) (\<lambda>rng fs2.
          (case receive_dataset env s request job_id rng fs2 of
             (Inl (Unhandled (ZipBombDetectedError m)), fs3) \<Rightarrow>
               (Inl (HTTPException 400 m []), cleanup_upload (upload_path s job_id) (dataset_dir s job_id) fs3)
           | (Inl (Unhandled (InvalidArchiveError m)), fs3) \<Rightarrow>
               (Inl (HTTPException 400 m []), cleanup_upload (upload_path s job_id) (dataset_dir s job_id) fs3)
           | (Inl (Unhandled (InsufficientDiskSpaceError m)), fs3) \<Rightarrow>
               (Inl (HTTPException 507 m []), cleanup_upload (upload_path s job_id) (dataset_dir s job_id) fs3)
           | (Inl e, fs3) \<Rightarrow> (Inl e, fs3)
           | (Inr (next_offset, False), fs3) \<Rightarrow> (Inr (next_offset, False), fs3)
           | (Inr (next_offset, True), fs3) \<Rightarrow>
               (Inr (next_offset, True), fs_unlink (upload_path s job_id) fs3)))))"

text \<open>The rest, after other requests and the dispatch loop may have run.\<close>

definition upload_commit ::
  "trainer_settings \<Rightarrow> string \<Rightarrow> nat option \<Rightarrow> QueueManager \<Rightarrow> string fs
     \<Rightarrow> (http_error + http_reply) \<times> QueueManager \<times> string fs" where
  "upload_commit s job_id next_offset q fs =
     (let q1 = q\<lparr>qm_store := mark_dataset_ready job_id (qm_store q)\<rparr> in
      case get job_id (qm_store q1) of
        None \<Rightarrow> (Inl (HTTPException 404 ''Job not found'' []), q1, fs)
      | Some updated \<Rightarrow>
          (Inr \<lparr>reply_status = 202, reply_headers = offset_header next_offset, reply_content = StateBody updated\<rparr>,
           q1,
           if state_status updated \<noteq> T_QUEUED
           then cleanup_upload (upload_path s job_id) (dataset_dir s job_id) fs else fs))"

definition upload_dataset ::
  "upload_env \<Rightarrow> trainer_settings \<Rightarrow> string \<Rightarrow> http_request \<Rightarrow> qm_event list \<Rightarrow> QueueManager \<Rightarrow> string fs
     \<Rightarrow> (http_error + http_reply) \<times> QueueManager \<times> string fs" where
  "upload_dataset env s job_id request meanwhile q fs =
     (case get_http_dataset_job job_id q of
        Inl e \<Rightarrow> (Inl e, q, fs)
      | Inr state \<Rightarrow>
          (case upload_stage env s request job_id fs of
             (Inl e, fs1) \<Rightarrow> (Inl e, foldl qm_step q meanwhile, fs1)
           | (Inr (next_offset, finished), fs1) \<Rightarrow>
               let q1 = foldl qm_step q meanwhile in
               if \<not> finished
               then (Inr \<lparr>reply_status = 202, reply_headers = offset_header next_offset,
                          reply_content = StateBody state\<rparr>, q1, fs1)
               else upload_commit s job_id next_offset q1 fs1))"

definition get_dataset_upload_offset ::
  "trainer_settings \<Rightarrow> string \<Rightarrow> QueueManager \<Rightarrow> string fs \<Rightarrow> http_error + http_reply" where
  "get_dataset_upload_offset s job_id q fs =
     bind_result (get_http_dataset_job job_id q) (\<lambda>_.
       Inr \<lparr>reply_status = 204, reply_headers = [(''Upload-Offset'', nat_str (upload_offset s job_id fs))],
            reply_content = NoBody\<rparr>)"

text \<open>The server-sent events: one observation of the loop is whether the client left and the job.\<close>

fun job_events :: "(bool \<times> JobState option) list \<Rightarrow> JobState option \<Rightarrow> JobState list" where
  "job_events [] last_sent = []"
| "job_events ((disconnected, st) # obs) last_sent =
     (if disconnected then []
      else case st of
          None \<Rightarrow> []
        | Some s \<Rightarrow>
            (if last_sent = Some s then [] else [s])
            @ (if t_terminal (state_status s) then [] else job_events obs (Some s)))"

definition get_artifact_file ::
  "string \<Rightarrow> QueueManager \<Rightarrow> string fs \<Rightarrow> http_error + http_reply" where
  "get_artifact_file job_id q fs =
     bind_result (get_job job_id q) (\<lambda>st.
       if state_status st \<noteq> T_COMPLETED then Inl (HTTPException 409 ''Artifact not ready'' [])
       else case get_artifact job_id (qm_store q) of
           None \<Rightarrow> Inl (HTTPException 404 ''Artifact missing'' [])
         | Some artifact \<Rightarrow>
             if \<not> fs_is_file (path_parts artifact) fs then Inl (HTTPException 404 ''Artifact missing'' [])
             else Inr \<lparr>reply_status = 200, reply_headers = [],
                       reply_content = FileBody (path_parts artifact) (job_id @ ''.zip'')\<rparr>)"

definition cancel_job :: "string \<Rightarrow> QueueManager \<Rightarrow> (http_error + http_reply) \<times> QueueManager" where
  "cancel_job job_id q =
     (case get_job job_id q of
        Inl e \<Rightarrow> (Inl e, q)
      | Inr st \<Rightarrow>
          (let q1 = (if \<not> t_terminal (state_status st) then request_cancel job_id q else q) in
           case get job_id (qm_store q1) of
             None \<Rightarrow> (Inl (HTTPException 404 ''Job not found'' []), q1)
           | Some final \<Rightarrow>
               (Inr \<lparr>reply_status = 200, reply_headers = [],
                     reply_content = CancelBody (remote_job_id final) (state_status final)\<rparr>, q1)))"

definition remove_path :: "path \<Rightarrow> 'c fs \<Rightarrow> 'c fs" where
  "remove_path p fs = (if fs_is_dir p fs then fs_remove_below p fs else fs_unlink p fs)"

definition job_paths :: "trainer_dirs \<Rightarrow> string \<Rightarrow> path list" where
  "job_paths d job_id =
     [model_path d job_id, cache_path d job_id, datasets_dir d @ [job_id], archives_dir d @ [job_id @ ''.zip'']]"

definition delete_job ::
  "trainer_settings \<Rightarrow> string \<Rightarrow> QueueManager \<Rightarrow> string fs
     \<Rightarrow> (http_error + http_reply) \<times> QueueManager \<times> string fs" where
  "delete_job s job_id q fs =
     (case get_job job_id q of
        Inl e \<Rightarrow> (Inl e, q, fs)
      | Inr st \<Rightarrow>
          if \<not> t_terminal (state_status st)
          then (Inl (HTTPException 409 ''Job is still in progress'' []), q, fs)
          else (Inr \<lparr>reply_status = 204, reply_headers = [], reply_content = NoBody\<rparr>,
                q\<lparr>qm_store := delete job_id (qm_store q)\<rparr>,
                foldl (\<lambda>fs p. remove_path p fs) fs (job_paths (ts_dirs s) job_id)))"

section \<open>The training run on disk\<close>

text \<open>
  \<open>TrainerRunner.run\<close>: \<open>train\<close> is the call of \<open>run_training_job\<close>, \<open>stopped\<close> what \<open>should_stop\<close> answers
  after it, \<open>walk\<close> the order of \<open>rglob\<close> and \<open>zip_bytes\<close> the archive that \<^verbatim>\<open>zipfile\<close> writes.
\<close>

datatype runner_error = JobCanceledError | TrainRaised string | RunnerOsError os_error

definition archive_model ::
  "trainer_dirs \<Rightarrow> (string fs \<Rightarrow> path \<Rightarrow> path list) \<Rightarrow> ((path \<times> string) list \<Rightarrow> string) \<Rightarrow> string \<Rightarrow> path
     \<Rightarrow> string fs \<Rightarrow> (runner_error + path \<times> (int \<times> string) list) \<times> string fs" where
  "archive_model d walk zip_bytes job_id model_dir fs =
     bind_state (lift_update RunnerOsError (fs_mkdirs (archives_dir d) fs) fs) (\<lambda>_ fs1.
       let archive_path = archives_dir d @ [job_id @ ''.zip''];
           files = filter (\<lambda>p. fs_is_file (model_dir @ p) fs1) (walk fs1 model_dir);
           count = (if length files = 0 then 1 else length files);
           reports = map (\<lambda>i. (100, ''Archiving model ('' @ nat_str i @ ''/'' @ nat_str count @ '')''))
             [1..<Suc (length files)]
       in bind_state (lift_update RunnerOsError
            (fs_write archive_path (zip_bytes (map (\<lambda>p. (p, staged (model_dir @ p) fs1)) files)) fs1) fs1)
            (\<lambda>_ fs2. (Inr (archive_path, reports), fs2)))"

definition cleanup_uploaded_dataset :: "trainer_dirs \<Rightarrow> string \<Rightarrow> 'c fs \<Rightarrow> 'c fs" where
  "cleanup_uploaded_dataset d job_id fs = rmtree_quiet (datasets_dir d @ [job_id]) fs"

definition runner_train ::
  "(path \<Rightarrow> path \<Rightarrow> path \<Rightarrow> string fs \<Rightarrow> (string + unit) \<times> string fs) \<Rightarrow> bool \<Rightarrow> path \<Rightarrow> path \<Rightarrow> path
     \<Rightarrow> string fs \<Rightarrow> (runner_error + unit) \<times> string fs" where
  "runner_train train stopped snapshot_dir model_dir cache_dir fs =
     bind_state (case train snapshot_dir model_dir cache_dir fs of (r, fs1) \<Rightarrow> lift_result TrainRaised r fs1)
       (\<lambda>_ fs1. if stopped then (Inl JobCanceledError, fs1) else (Inr (), fs1))"

definition runner_run ::
  "trainer_dirs \<Rightarrow> (path \<Rightarrow> path \<Rightarrow> path \<Rightarrow> string fs \<Rightarrow> (string + unit) \<times> string fs) \<Rightarrow> bool
     \<Rightarrow> (string fs \<Rightarrow> path \<Rightarrow> path list) \<Rightarrow> ((path \<times> string) list \<Rightarrow> string) \<Rightarrow> string \<Rightarrow> string fs
     \<Rightarrow> (runner_error + path \<times> (int \<times> string) list) \<times> string fs" where
  "runner_run d train stopped walk zip_bytes job_id fs =
     (let snapshot_dir = datasets_dir d @ [job_id];
          model_dir = model_path d job_id;
          cache_dir = cache_path d job_id in
      bind_state (lift_update RunnerOsError (fs_mkdirs cache_dir fs) fs) (\<lambda>_ fs1.
        case runner_train train stopped snapshot_dir model_dir cache_dir fs1 of
          (Inl e, fs2) \<Rightarrow> (Inl e, cleanup_uploaded_dataset d job_id fs2)
        | (Inr _, fs2) \<Rightarrow>
            bind_state (archive_model d walk zip_bytes job_id model_dir (cleanup_uploaded_dataset d job_id fs2))
              (\<lambda>(archive_path, reports) fs3. (Inr (archive_path, (0, ''Dataset ready'') # reports), fs3))))"

end
