(* ===== verification/TrainerUpload.thy ===== *)
theory TrainerUpload
  imports TrainerApi
begin

text \<open>
  The resumable upload of \<^verbatim>\<open>trainer/api.py\<close> as a protocol: a client that asks for the staged
  offset and sends the bytes from there on, over a connection that may break at any byte.
\<close>

section \<open>Headers\<close>

definition range_header :: "nat \<Rightarrow> nat \<Rightarrow> nat \<Rightarrow> string" where
  "range_header a b t = ''bytes '' @ nat_str a @ ''-'' @ nat_str b @ ''/'' @ nat_str t"

lemma span_digits:
  assumes "list_all is_digit xs" and "\<not> is_digit c"
  shows "takeWhile is_digit (xs @ c # ys) = xs" "dropWhile is_digit (xs @ c # ys) = c # ys"
  using assms by (induction xs) auto

lemma separators_not_digits [simp]: "\<not> is_digit CHR ''-''" "\<not> is_digit CHR ''/''"
  by (simp_all add: is_digit_def)

lemma match_after_unit:
  "match_content_range (''bytes '' @ r) =
     (let a = takeWhile is_digit r; r1 = dropWhile is_digit r;
          b = takeWhile is_digit (drop 1 r1); r2 = dropWhile is_digit (drop 1 r1);
          t = drop 1 r2
      in if a \<noteq> [] \<and> take 1 r1 = ''-'' \<and> b \<noteq> [] \<and> take 1 r2 = ''/'' \<and> t \<noteq> [] \<and> list_all is_digit t
         then Some (nat_of_digits a, nat_of_digits b, nat_of_digits t) else None)"
proof -
  have "drop 6 (''bytes '' @ r) = r" by simp
  then show ?thesis
    by (simp only: match_content_range_def starts_with_append not_True_eq_False if_False Let_def)
qed

lemma match_range_header: "match_content_range (range_header a b t) = Some (a, b, t)"
  unfolding range_header_def match_after_unit
  by (simp add: span_digits nat_str_digits nat_str_nonempty nat_of_digits_nat_str)

lemma range_header_nonempty: "range_header a b t \<noteq> ''''"
  by (simp add: range_header_def)

section \<open>The disk during an upload\<close>

definition disk_ready :: "trainer_settings \<Rightarrow> string \<Rightarrow> string fs \<Rightarrow> bool" where
  "disk_ready s job_id fs \<longleftrightarrow>
     fs_is_dir (datasets_dir (ts_dirs s)) fs \<and> (\<forall>p. prefix p (datasets_dir (ts_dirs s)) \<longrightarrow> fs_is_dir p fs)
     \<and> \<not> fs_is_dir (upload_path s job_id) fs"

lemma fs_mkdirs_present:
  assumes "\<And>q. prefix q p \<Longrightarrow> fs_is_dir q fs"
  shows "fs_mkdirs p fs = Inr fs"
proof -
  have "\<And>q. prefix q p \<Longrightarrow> \<not> fs_is_file q fs"
    using assms by (fastforce simp: fs_is_dir_def fs_is_file_def)
  then obtain fs' where "fs_mkdirs p fs = Inr fs'" using fs_mkdirs_total by blast
  moreover from this assms have "fs' = fs"
    by (auto dest!: fs_mkdirs_Inr simp: fs_is_dir_def fun_eq_iff)
  ultimately show ?thesis by simp
qed

lemma disk_readyD:
  assumes "disk_ready s job_id fs"
  shows "fs_mkdirs (datasets_dir (ts_dirs s)) fs = Inr fs"
    and "fs_write (upload_path s job_id) c fs = Inr (fs(upload_path s job_id \<mapsto> FileN c))"
    and "disk_ready s job_id (fs(upload_path s job_id \<mapsto> FileN c))"
proof -
  show "fs_mkdirs (datasets_dir (ts_dirs s)) fs = Inr fs"
    using assms by (intro fs_mkdirs_present) (simp add: disk_ready_def)
  show "fs_write (upload_path s job_id) c fs = Inr (fs(upload_path s job_id \<mapsto> FileN c))"
    using assms by (simp add: disk_ready_def fs_write_def upload_path_def butlast_append)
  have "\<not> prefix (upload_path s job_id) (datasets_dir (ts_dirs s))"
    by (auto simp: upload_path_def dest!: prefix_length_le)
  then have "p \<noteq> upload_path s job_id" if "prefix p (datasets_dir (ts_dirs s))" for p
    using that by blast
  with assms show "disk_ready s job_id (fs(upload_path s job_id \<mapsto> FileN c))"
    by (auto simp: disk_ready_def fs_is_dir_def)
qed

lemma headroom_ok:
  assumes "disk_ready s job_id fs" and "n + m \<le> free"
  shows "check_disk_headroom free (datasets_dir (ts_dirs s)) n m fs = (Inr (), fs)"
  using assms by (simp add: check_disk_headroom_def disk_readyD(1))

lemma staged_upd [simp]: "staged p (fs(p \<mapsto> FileN c)) = c"
  by (simp add: staged_def)

section \<open>One request\<close>

text \<open>
  The client sends the \<open>k\<close> bytes of the archive \<open>a\<close> from \<open>start\<close> on; \<open>m\<close> of them arrive.
\<close>

definition range_request :: "string \<Rightarrow> nat \<Rightarrow> nat \<Rightarrow> nat \<Rightarrow> http_request" where
  "range_request a start k m =
     \<lparr>hdr_content_type = ''application/zip'',
      hdr_content_range = Some (range_header start (start + k - 1) (length a)),
      hdr_content_length = None,
      body_chunks = [take m (take k (drop start a))],
      body_complete = (k \<le> m)\<rparr>"

lemma zip_content_type: "is_infix_str ''zip'' (py_lower ''application/zip'')"
  by code_simp

lemma parse_range_request:
  assumes "0 < k" and "start + k \<le> length a"
  shows "parse_upload_range s (range_request a start k m) job_id fs =
    (if upload_offset s job_id fs = start
     then Inr (start, Some (start + k - 1), Some (length a), start > 0)
     else Inl (HTTPException 409 ''Upload offset does not match staged dataset''
            [(''Upload-Offset'', nat_str (upload_offset s job_id fs))]))"
  using assms by (auto simp: parse_upload_range_def range_request_def match_range_header range_header_nonempty Let_def)

text \<open>What the request leaves staged.\<close>

definition staged_after :: "trainer_settings \<Rightarrow> string \<Rightarrow> string \<Rightarrow> nat \<Rightarrow> string fs \<Rightarrow> string fs" where
  "staged_after s job_id a n fs = fs(upload_path s job_id \<mapsto> FileN (take n a))"

lemma take_split: "take (start + min k m) a = take start a @ take m (take k (drop start a))"
  by (simp add: take_add take_take min.commute)

lemma stream_range:
  assumes "disk_ready s job_id fs" and "staged (upload_path s job_id) fs = take start a"
    and "start \<le> length a"
  shows "stream_body_to_disk (range_request a start k m) (upload_path s job_id) (start > 0) fs =
    (if k \<le> m then Inr (length (take m (take k (drop start a)))) else Inl ClientDisconnect,
     staged_after s job_id a (start + min k m) fs)"
proof -
  have "(if start > 0 then staged (upload_path s job_id) fs else '''') = take start a"
    using assms(2) by simp
  then show ?thesis
    by (auto simp: stream_body_to_disk_def Let_def range_request_def disk_readyD(2) [OF assms(1)]
        staged_after_def take_add min_def)
qed

lemma receive_range:
  assumes R: "disk_ready s job_id fs" and S: "staged (upload_path s job_id) fs = take start a"
    and k: "0 < k" "start + k \<le> length a"
    and free: "length a - start + ts_min_free s \<le> up_free_before env"
  shows "receive_dataset env s (range_request a start k m) job_id
      (start, Some (start + k - 1), Some (length a), start > 0) fs =
    (if \<not> k \<le> m then (Inl ClientDisconnect, staged_after s job_id a (start + min k m) fs)
     else if start + k < length a then (Inr (Some (start + k), False), staged_after s job_id a (start + k) fs)
     else case validate_and_extract (up_unzip env) (up_listing env) (up_free_after env)
                 (ts_max_uncompressed s) (ts_min_free s) (upload_path s job_id) (dataset_dir s job_id)
                 (staged_after s job_id a (length a) fs) of
            (Inl e, fs4) \<Rightarrow> (Inl (Unhandled e), fs4)
          | (Inr _, fs4) \<Rightarrow> (Inr (Some (start + k), True), fs4))"
proof -
  have h: "check_upload_disk_headroom env s (range_request a start k m) start (Some (length a)) fs = (Inr (), fs)"
    using headroom_ok [OF R free] by (simp add: check_upload_disk_headroom_def remaining_upload_bytes_def)
  have st: "stream_body_to_disk (range_request a start k m) (upload_path s job_id) (start > 0) fs =
    (if k \<le> m then Inr (length (take m (take k (drop start a)))) else Inl ClientDisconnect,
     staged_after s job_id a (start + min k m) fs)"
    using stream_range [OF R S] k by simp
  have len: "k \<le> m \<Longrightarrow> length (take m (take k (drop start a))) = k"
    using k by simp
  show ?thesis
  proof (cases "k \<le> m")
    case False
    then show ?thesis by (simp add: receive_dataset_def h st)
  next
    case True
    with k have "start + k = length a \<or> start + k < length a" by auto
    then show ?thesis
      using True len [OF True] k
      by (auto simp: receive_dataset_def h st validate_range_body_size_def of_nat_diff min_def
          split: prod.splits sum.splits)
  qed
qed

lemma fs_after_stage_start:
  "disk_ready s job_id fs \<Longrightarrow> is_infix_str ''zip'' (py_lower (hdr_content_type request)) \<Longrightarrow>
   upload_stage env s request job_id fs =
     bind_state (lift_result id (parse_upload_range s request job_id fs) fs) (\<lambda>rng fs2.
          (case receive_dataset env s request job_id rng fs2 of
             (Inl (Unhandled (ZipBombDetectedError m)), fs3) \<Rightarrow>
               (Inl (HTTPException 400 m []), cleanup_upload (upload_path s job_id) (dataset_dir s job_id) fs3)
           | (Inl (Unhandled (InvalidArchiveError m)), fs3) \<Rightarrow>
               (Inl (HTTPException 400 m []), cleanup_upload (upload_path s job_id) (dataset_dir s job_id) fs3)
           | (Inl (Unhandled (InsufficientDiskSpaceError m)), fs3) \<Rightarrow>
               (Inl (HTTPException 507 m []), cleanup_upload (upload_path s job_id) (dataset_dir s job_id) fs3)
           | (Inl e, fs3) \<Rightarrow> (Inl e, fs3)
           | (Inr (next_offset, False), fs3) \<Rightarrow> (Inr (next_offset, False), fs3)
           | (Inr (next_offset, True), fs3) \<Rightarrow>
               (Inr (next_offset, True), fs_unlink (upload_path s job_id) fs3)))"
  unfolding upload_stage_def by (simp only: disk_readyD(1) lift_update_simps bind_state_simps not_True_eq_False if_False)

lemma stage_range:
  assumes R: "disk_ready s job_id fs" and S: "staged (upload_path s job_id) fs = take start a"
    and k: "0 < k" "start + k \<le> length a"
    and free: "length a - start + ts_min_free s \<le> up_free_before env"
  shows "upload_stage env s (range_request a start k m) job_id fs =
    (if \<not> k \<le> m then (Inl ClientDisconnect, staged_after s job_id a (start + min k m) fs)
     else if start + k < length a then (Inr (Some (start + k), False), staged_after s job_id a (start + k) fs)
     else case validate_and_extract (up_unzip env) (up_listing env) (up_free_after env)
                 (ts_max_uncompressed s) (ts_min_free s) (upload_path s job_id) (dataset_dir s job_id)
                 (staged_after s job_id a (length a) fs) of
            (Inl (ArchiveOsError e), fs4) \<Rightarrow> (Inl (Unhandled (ArchiveOsError e)), fs4)
          | (Inl (InsufficientDiskSpaceError msg), fs4) \<Rightarrow>
              (Inl (HTTPException 507 msg []), cleanup_upload (upload_path s job_id) (dataset_dir s job_id) fs4)
          | (Inl (InvalidArchiveError msg), fs4) \<Rightarrow>
              (Inl (HTTPException 400 msg []), cleanup_upload (upload_path s job_id) (dataset_dir s job_id) fs4)
          | (Inl (ZipBombDetectedError msg), fs4) \<Rightarrow>
              (Inl (HTTPException 400 msg []), cleanup_upload (upload_path s job_id) (dataset_dir s job_id) fs4)
          | (Inr _, fs4) \<Rightarrow> (Inr (Some (start + k), True), fs_unlink (upload_path s job_id) fs4))"
proof -
  have z: "is_infix_str ''zip'' (py_lower (hdr_content_type (range_request a start k m)))"
    by (simp add: range_request_def zip_content_type)
  have "upload_offset s job_id fs = start"
    using S k by (simp add: upload_offset_def)
  then have p: "parse_upload_range s (range_request a start k m) job_id fs
      = Inr (start, Some (start + k - 1), Some (length a), start > 0)"
    using parse_range_request [OF k] by simp
  show ?thesis
    unfolding fs_after_stage_start [OF R z] p lift_result_simps bind_state_simps receive_range [OF R S k free]
    by (auto split: prod.splits sum.splits archive_error.splits)
qed

text \<open>A range that does not start at the staged offset changes nothing and tells the offset.\<close>

lemma stage_wrong_offset:
  assumes R: "disk_ready s job_id fs" and k: "0 < k" "start + k \<le> length a"
    and "upload_offset s job_id fs \<noteq> start"
  shows "upload_stage env s (range_request a start k m) job_id fs =
    (Inl (HTTPException 409 ''Upload offset does not match staged dataset''
            [(''Upload-Offset'', nat_str (upload_offset s job_id fs))]), fs)"
proof -
  have z: "is_infix_str ''zip'' (py_lower (hdr_content_type (range_request a start k m)))"
    by (simp add: range_request_def zip_content_type)
  show ?thesis
    unfolding fs_after_stage_start [OF R z] using parse_range_request [OF k] assms(4) by simp
qed

section \<open>Resuming\<close>

text \<open>
  A plan is a list of attempts \<open>(k, m)\<close>: \<open>k\<close> bytes sent from the offset the server reports, \<open>m\<close>
  of them delivered. In \<open>plan_ok\<close> no attempt brings the last byte.
\<close>

fun plan_ok :: "nat \<Rightarrow> nat \<Rightarrow> (nat \<times> nat) list \<Rightarrow> bool" where
  "plan_ok len n [] = (n \<le> len)"
| "plan_ok len n ((k, m) # ps) =
     (0 < k \<and> n + k \<le> len \<and> (m < k \<or> n + k < len) \<and> plan_ok len (n + min k m) ps)"

definition resume_step ::
  "upload_env \<Rightarrow> trainer_settings \<Rightarrow> string \<Rightarrow> string \<Rightarrow> string fs \<Rightarrow> nat \<times> nat \<Rightarrow> string fs" where
  "resume_step env s job_id a fs km =
     snd (upload_stage env s (range_request a (upload_offset s job_id fs) (fst km) (snd km)) job_id fs)"

definition delivered :: "(nat \<times> nat) list \<Rightarrow> nat" where
  "delivered ps = sum_list (map (\<lambda>(k, m). min k m) ps)"

lemma delivered_simps [simp]:
  "delivered [] = 0" "delivered ((k, m) # ps) = min k m + delivered ps"
  by (simp_all add: delivered_def)

lemma resume_step_staged:
  assumes R: "disk_ready s job_id fs" and S: "staged (upload_path s job_id) fs = take n a"
    and "0 < k" "n + k \<le> length a" "m < k \<or> n + k < length a"
    and "length a + ts_min_free s \<le> up_free_before env"
  shows "resume_step env s job_id a fs (k, m) = staged_after s job_id a (n + min k m) fs"
proof -
  have "upload_offset s job_id fs = n" using S assms(4) by (simp add: upload_offset_def)
  with assms show ?thesis
    by (auto simp: resume_step_def stage_range [OF R S assms(3,4)] min_def)
qed

lemma resume_run:
  assumes "disk_ready s job_id fs" and "staged (upload_path s job_id) fs = take n a"
    and "plan_ok (length a) n ps" and "length a + ts_min_free s \<le> up_free_before env"
  shows "let fs' = foldl (resume_step env s job_id a) fs ps in
     disk_ready s job_id fs' \<and> staged (upload_path s job_id) fs' = take (n + delivered ps) a
     \<and> n + delivered ps \<le> length a \<and> (\<forall>p. p \<noteq> upload_path s job_id \<longrightarrow> fs' p = fs p)"
  using assms
proof (induction ps arbitrary: fs n)
  case Nil
  then show ?case by simp
next
  case (Cons km ps)
  obtain k m where km: "km = (k, m)" by (cases km)
  let ?fs1 = "staged_after s job_id a (n + min k m) fs"
  have step: "resume_step env s job_id a fs km = ?fs1"
    using Cons.prems by (simp add: km resume_step_staged)
  have "disk_ready s job_id ?fs1" "staged (upload_path s job_id) ?fs1 = take (n + min k m) a"
    using disk_readyD(3) [OF Cons.prems(1)] by (simp_all add: staged_after_def)
  moreover have "p \<noteq> upload_path s job_id \<Longrightarrow> ?fs1 p = fs p" for p
    by (simp add: staged_after_def)
  ultimately show ?case
    using Cons.IH [of ?fs1 "n + min k m"] Cons.prems step by (simp add: km Let_def add.assoc)
qed



section \<open>Properties\<close>

text \<open>C6: an upload can be resumed after any interruption. Whatever requests a client sends from
  the offset the server reports, each cut off after any number of its bytes, the staged file is
  the beginning of the archive, as long as all the bytes that ever arrived; the offset request
  tells its length, and no other file has changed.\<close>

theorem upload_resumes:
  assumes "disk_ready s j fs" and "staged (upload_path s j) fs = ''''"
    and "plan_ok (length a) 0 ps" and "length a + ts_min_free s \<le> up_free_before env"
    and "get_http_dataset_job j q = Inr st"
  shows "let fs' = foldl (resume_step env s j a) fs ps in
     staged (upload_path s j) fs' = take (delivered ps) a
     \<and> map_sum id reply_headers (get_dataset_upload_offset s j q fs')
         = Inr [(''Upload-Offset'', nat_str (delivered ps))]
     \<and> (\<forall>p. p \<noteq> upload_path s j \<longrightarrow> fs' p = fs p)"
  using resume_run [OF assms(1) _ assms(3,4)] assms(2,5)
  by (simp add: Let_def get_dataset_upload_offset_def upload_offset_def)

text \<open>A range that does not continue the staged file is refused with 409 and the right
  offset; neither the disk nor the job changes.\<close>

lemma upload_wrong_offset:
  assumes "disk_ready s j fs" and "0 < k" and "start + k \<le> length a"
    and "upload_offset s j fs \<noteq> start" and "get_http_dataset_job j q = Inr st"
  shows "upload_dataset env s j (range_request a start k m) [] q fs =
    (Inl (HTTPException 409 ''Upload offset does not match staged dataset''
            [(''Upload-Offset'', nat_str (upload_offset s j fs))]), q, fs)"
  using assms by (simp add: upload_dataset_def stage_wrong_offset)


section \<open>Deleting a job\<close>

lemma remove_path_wf: "fs_wf fs \<Longrightarrow> remove_path p fs = fs_remove_below p fs"
  by (simp add: remove_path_def remove_entry)

lemma remove_paths:
  "fs_wf fs \<Longrightarrow> foldl (\<lambda>fs p. remove_path p fs) fs ps = (\<lambda>q. if \<exists>p\<in>set ps. prefix p q then None else fs q)"
proof (induction ps arbitrary: fs)
  case (Cons p ps)
  from Cons.IH [OF fs_wf_remove_below [OF Cons.prems, of p]] Cons.prems show ?case
    by (auto simp: remove_path_wf fs_remove_below_def fun_eq_iff)
qed simp

lemma get_job_Inr: "job_status q j = Some s \<Longrightarrow> \<exists>st. get_job j q = Inr st \<and> state_status st = s"
  using get_Some_status [of j q] get_None_status [of j q]
  by (cases "get j (qm_store q)") (auto simp: get_job_def)

text \<open>Deleting an ended job removes its row, its token and everything below its model,
  cache and dataset directories and its archive, and nothing else on the disk; a job that has not
  ended is refused with 409 and nothing changes.\<close>

lemma delete_removes_outputs:
  assumes "job_status q j = Some st" and "fs_wf fs" and "delete_job s j q fs = (reply, q', fs')"
  shows "if t_terminal st
    then map_sum id reply_status reply = Inr 204 \<and> job_status q' j = None
      \<and> store_secrets (qm_store q') j = None
      \<and> (\<forall>i. i \<noteq> j \<longrightarrow> job_status q' i = job_status q i)
      \<and> (\<forall>p. fs' p = (if \<exists>d\<in>set (job_paths (ts_dirs s) j). prefix d p then None else fs p))
    else reply = Inl (HTTPException 409 ''Job is still in progress'' []) \<and> q' = q \<and> fs' = fs"
proof -
  obtain x where x: "get_job j q = Inr x" "state_status x = st"
    using get_job_Inr [OF assms(1)] by blast
  show ?thesis
  proof (cases "t_terminal st")
    case True
    with assms(3) x have "q' = q\<lparr>qm_store := delete j (qm_store q)\<rparr>"
      and "fs' = (\<lambda>q. if \<exists>d\<in>set (job_paths (ts_dirs s) j). prefix d q then None else fs q)"
      and "map_sum id reply_status reply = Inr 204"
      using remove_paths [OF assms(2)] by (auto simp: delete_job_def)
    then show ?thesis
      using True by (simp add: job_status_def trainer_store.lookup_remove)
  next
    case False
    with assms(3) x show ?thesis by (auto simp: delete_job_def)
  qed
qed

section \<open>The event stream\<close>

text \<open>What a watching client may see: the observed states up to the end of the job.\<close>

fun seen_states :: "(bool \<times> JobState option) list \<Rightarrow> JobState list" where
  "seen_states [] = []"
| "seen_states ((disconnected, st) # obs) =
     (if disconnected then [] else case st of None \<Rightarrow> []
      | Some s \<Rightarrow> s # (if t_terminal (state_status s) then [] else seen_states obs))"

lemma job_events_after: "s # job_events obs (Some s) = remdups_adj (s # seen_states obs)"
proof (induction obs arbitrary: s)
  case (Cons ob obs)
  obtain d st where ob: "ob = (d, st)" by (cases ob)
  show ?case
  proof (cases "\<not> d \<and> st \<noteq> None")
    case True
    then obtain s' where st: "st = Some s'" by blast
    with True ob Cons.IH [of s'] show ?thesis by (auto simp: remdups_adj_Cons')
  qed (auto simp: ob)
qed simp

lemma job_events_first: "job_events obs None = remdups_adj (seen_states obs)"
proof (cases obs)
  case (Cons ob obs')
  obtain d st where ob: "ob = (d, st)" by (cases ob)
  with Cons show ?thesis
    using job_events_after [of _ obs'] by (cases st) auto
qed simp

text \<open>The event stream sends each change of the job's state once, in order, and after the state
  that ends the job it sends nothing more.\<close>

lemma events_send_changes:
  "job_events obs None = remdups_adj (seen_states obs)
   \<and> (\<forall>s \<in> set (butlast (job_events obs None)). \<not> t_terminal (state_status s))"
proof
  show e: "job_events obs None = remdups_adj (seen_states obs)" by (rule job_events_first)
  have "\<forall>s \<in> set (butlast (seen_states obs)). \<not> t_terminal (state_status s)"
    by (induction obs rule: seen_states.induct) (auto split: option.splits)
  moreover have "set (butlast (remdups_adj xs)) \<subseteq> set (butlast xs)" for xs :: "JobState list"
    by (induction xs rule: remdups_adj.induct) auto
  ultimately show "\<forall>s \<in> set (butlast (job_events obs None)). \<not> t_terminal (state_status s)"
    unfolding e by blast
qed

section \<open>Running a job on disk\<close>

lemma frame_dataset: "fs_mkdirs p fs = Inr fs' \<Longrightarrow> \<not> prefix d p \<Longrightarrow> prefix d q \<Longrightarrow> fs' q = fs q"
  by (metis fs_mkdirs_keeps(2) prefix_order.order_trans)

lemma archive_model_frame:
  assumes "\<not> prefix ds (archives_dir d)" and "\<not> prefix ds (archives_dir d @ [j @ ''.zip''])" and "prefix ds p"
  shows "snd (archive_model d walk zip_bytes j model fs) p = fs p"
proof -
  have m: "fs1 p = fs p" if "fs_mkdirs (archives_dir d) fs = Inr fs1" for fs1
    using frame_dataset [OF that assms(1,3)] .
  have "p \<noteq> archives_dir d @ [j @ ''.zip'']" using assms(2,3) by blast
  then show ?thesis
    using m by (cases "fs_mkdirs (archives_dir d) fs")
      (auto simp: archive_model_def Let_def lift_update_def dest!: fs_write_Inr split: sum.splits)
qed

definition model_files :: "(string fs \<Rightarrow> path \<Rightarrow> path list) \<Rightarrow> path \<Rightarrow> string fs \<Rightarrow> (path \<times> string) list" where
  "model_files walk model fs =
     map (\<lambda>p. (p, staged (model @ p) fs)) (filter (\<lambda>p. fs_is_file (model @ p) fs) (walk fs model))"

lemma archive_model_Inr:
  assumes "archive_model d walk zip_bytes j model fs = (Inr (archive, reports), fs')"
  shows "archive = archives_dir d @ [j @ ''.zip'']
    \<and> (\<exists>fs1. fs_mkdirs (archives_dir d) fs = Inr fs1
         \<and> fs' archive = Some (FileN (zip_bytes (model_files walk model fs1)))
         \<and> length reports = length (model_files walk model fs1))"
proof -
  from assms obtain fs1 where 1: "fs_mkdirs (archives_dir d) fs = Inr fs1"
    and 2: "fs_write (archives_dir d @ [j @ ''.zip'']) (zip_bytes (model_files walk model fs1)) fs1 = Inr fs'"
    and 3: "archive = archives_dir d @ [j @ ''.zip'']"
    and 4: "length reports = length [1..<Suc (length (model_files walk model fs1))]"
    by (auto simp: archive_model_def Let_def bind_state_Inr_iff lift_Inr_iffs model_files_def)
  from 1 3 4 fs_write_Inr [OF 2] show ?thesis by (simp del: upt_Suc)
qed

text \<open>However training ends, by an exception, canceled or with a result, the uploaded dataset is
  gone from the disk; a result is the archive of exactly the files of the model directory, with
  one report for each.\<close>

lemma run_removes_dataset:
  assumes cache: "fs_mkdirs (cache_path d j) fs = Inr fs0"
    and train: "train (datasets_dir d @ [j]) (model_path d j) (cache_path d j) fs0 = (tr, fs2)"
    and ds: "fs_is_dir (datasets_dir d @ [j]) fs2"
    and apart: "\<not> prefix (datasets_dir d @ [j]) (archives_dir d @ [j @ ''.zip''])"
    and run: "runner_run d train stopped walk zip_bytes j fs = (r, fs')"
  shows "(\<forall>p. prefix (datasets_dir d @ [j]) p \<longrightarrow> fs' p = None)
    \<and> (case tr of
         Inl e \<Rightarrow> r = Inl (TrainRaised e)
       | Inr _ \<Rightarrow> (stopped \<longrightarrow> r = Inl JobCanceledError)
           \<and> (\<forall>archive reports. r = Inr (archive, reports) \<longrightarrow> \<not> stopped
                \<and> archive = archives_dir d @ [j @ ''.zip'']
                \<and> (\<exists>fs3. fs_mkdirs (archives_dir d) (cleanup_uploaded_dataset d j fs2) = Inr fs3
                     \<and> fs' archive = Some (FileN (zip_bytes (model_files walk (model_path d j) fs3)))
                     \<and> length reports = Suc (length (model_files walk (model_path d j) fs3)))))"
proof -
  let ?ds = "datasets_dir d @ [j]"
  let ?clean = "cleanup_uploaded_dataset d j fs2"
  let ?ar = "archive_model d walk zip_bytes j (model_path d j) ?clean"
  have clean: "?clean p = None" if "prefix ?ds p" for p
    using ds that by (simp add: cleanup_uploaded_dataset_def rmtree_quiet_def fs_remove_below_def)
  have np: "\<not> prefix ?ds (archives_dir d)" using apart by auto
  show ?thesis
  proof (cases "stopped \<or> (\<exists>e. tr = Inl e)")
    case True
    with run cache train clean show ?thesis
      by (cases tr) (auto simp: runner_run_def runner_train_def Let_def)
  next
    case False
    then obtain u where tr: "tr = Inr u" "\<not> stopped" by (cases tr) auto
    have R: "bind_state ?ar (\<lambda>(archive_path, reports) fs3. (Inr (archive_path, (0, ''Dataset ready'') # reports), fs3))
        = (r, fs')"
      using run cache train tr by (simp add: runner_run_def runner_train_def Let_def)
    then have fs': "fs' = snd ?ar"
      by (cases ?ar; cases "fst ?ar") (auto simp: bind_state_def)
    have ok: "\<exists>fs3. fs_mkdirs (archives_dir d) ?clean = Inr fs3
        \<and> archive = archives_dir d @ [j @ ''.zip'']
        \<and> fs' archive = Some (FileN (zip_bytes (model_files walk (model_path d j) fs3)))
        \<and> length reports = Suc (length (model_files walk (model_path d j) fs3))"
      if "r = Inr (archive, reports)" for archive reports
    proof -
      from R that obtain rs where "?ar = (Inr (archive, rs), fs')" "reports = (0, ''Dataset ready'') # rs"
        by (auto simp: bind_state_Inr_iff)
      with archive_model_Inr [OF this(1)] show ?thesis by auto
    qed
    show ?thesis
      using tr ok archive_model_frame [OF np apart] clean fs' by auto
  qed
qed

section \<open>The properties at work\<close>

definition demo_settings :: trainer_settings where
  "demo_settings = \<lparr>ts_dirs = demo_dirs, ts_max_uncompressed = 10, ts_min_free = 5\<rparr>"

definition demo_upload_env :: upload_env where
  "demo_upload_env = \<lparr>up_unzip = demo_unzip, up_listing = demo_listing, up_free_before = 50, up_free_after = 50\<rparr>"

definition demo_upload_disk :: "string fs" where
  "demo_upload_disk = Map.empty([] \<mapsto> DirN, [''d''] \<mapsto> DirN)"

definition demo_waiting :: QueueManager where
  "demo_waiting = qm_step (qm_start demo_store 2) (Submit ''j'' 1 demo_request)"

lemma demo_upload_ready: "disk_ready demo_settings ''j'' demo_upload_disk"
  by (auto simp: disk_ready_def demo_settings_def demo_dirs_def demo_upload_disk_def fs_is_dir_def
      upload_path_def prefix_Cons)

lemma demo_upload_staged:
  "staged (upload_path demo_settings ''j'') demo_upload_disk = ''''"
  "upload_offset demo_settings ''j'' demo_upload_disk = 0"
  by (simp_all add: staged_def upload_offset_def upload_path_def demo_settings_def demo_dirs_def demo_upload_disk_def)

lemma demo_waiting_job: "\<exists>st. get_http_dataset_job ''j'' demo_waiting = Inr st"
proof -
  have "\<not> isl (get_http_dataset_job ''j'' demo_waiting)" by code_simp
  then show ?thesis by (cases "get_http_dataset_job ''j'' demo_waiting") auto
qed

theorem upload_resumes_witness:
  "staged (upload_path demo_settings ''j'')
     (foldl (resume_step demo_upload_env demo_settings ''j'' ''PK'') demo_upload_disk [(2, 0), (2, 1)]) = ''P''"
proof -
  obtain st where st: "get_http_dataset_job ''j'' demo_waiting = Inr st" using demo_waiting_job by blast
  show ?thesis
    using upload_resumes [OF demo_upload_ready demo_upload_staged(1) _ _ st, of "''PK''" "[(2, 0), (2, 1)]" demo_upload_env]
    by (simp add: demo_settings_def demo_upload_env_def Let_def)
qed

lemma upload_wrong_offset_witness:
  "\<exists>h. fst (upload_dataset demo_upload_env demo_settings ''j'' (range_request ''PK'' 1 1 1) [] demo_waiting demo_upload_disk)
     = Inl (HTTPException 409 ''Upload offset does not match staged dataset'' h)"
proof -
  obtain st where st: "get_http_dataset_job ''j'' demo_waiting = Inr st" using demo_waiting_job by blast
  show ?thesis
    using upload_wrong_offset [OF demo_upload_ready _ _ _ st, of 1 1 "''PK''" demo_upload_env 1]
    by (simp add: demo_upload_staged)
qed





lemma delete_removes_outputs_witness:
  "snd (snd (delete_job demo_settings ''b'' (qm_step demo_queue (Cancel ''b'')) demo_disk)) [''m'', ''b'', ''x''] = None"
proof -
  have c: "job_status (qm_step demo_queue (Cancel ''b'')) ''b'' = Some T_CANCELED" by code_simp
  obtain r q fs where d: "delete_job demo_settings ''b'' (qm_step demo_queue (Cancel ''b'')) demo_disk = (r, q, fs)"
    by (metis prod.exhaust)
  from delete_removes_outputs [OF c demo_disk_wf d] d show ?thesis
    by (simp add: t_terminal_def job_paths_def model_path_def demo_settings_def demo_dirs_def)
qed

text \<open>A canceled job whose upload was partial: deleting the job leaves the staged part behind.\<close>

definition demo_partial :: "string fs" where
  "demo_partial = demo_upload_disk(upload_path demo_settings ''j'' \<mapsto> FileN ''P'')"

lemma canceled_upload_stays_on_disk:
  "job_status (fst (snd (delete_job demo_settings ''j'' (qm_step demo_waiting (Cancel ''j'')) demo_partial))) ''j'' = None
   \<and> fs_is_file (upload_path demo_settings ''j'')
       (snd (snd (delete_job demo_settings ''j'' (qm_step demo_waiting (Cancel ''j'')) demo_partial)))"
  by code_simp

text \<open>A second upload of the same job that finishes once the job runs removes the dataset it reads.\<close>

lemma late_upload_removes_dataset:
  assumes "job_status q j = Some T_RUNNING" and "fs_is_dir (dataset_dir s j) fs"
  shows "snd (snd (upload_commit s j n q fs)) (dataset_dir s j) = None"
proof -
  have r: "job_status (q\<lparr>qm_store := mark_dataset_ready j (qm_store q)\<rparr>) j = Some T_RUNNING"
    using assms(1) by (simp add: mark_ready_status)
  have "fs_is_dir (dataset_dir s j) (fs_unlink (upload_path s j) fs)"
    using assms(2) by (auto simp: fs_unlink_def fs_is_dir_def fs_is_file_def dataset_dir_def upload_path_def)
  with r show ?thesis
    by (auto simp: upload_commit_def Let_def get_status [symmetric] cleanup_upload_def rmtree_quiet_def
        fs_remove_below_def split: option.splits)
qed

lemma run_removes_dataset_witness:
  "snd (runner_run demo_dirs (\<lambda>_ _ _ fs. (Inl ''boom'', fs)) False (\<lambda>_ _. []) (\<lambda>_. '''') ''j''
     (demo_upload_disk([''d'', ''j''] \<mapsto> DirN, [''d'', ''j'', ''x''] \<mapsto> FileN ''y''))) [''d'', ''j'', ''x''] = None"
proof -
  let ?fs = "demo_upload_disk([''d'', ''j''] \<mapsto> DirN, [''d'', ''j'', ''x''] \<mapsto> FileN ''y'')"
  let ?run = "runner_run demo_dirs (\<lambda>_ _ _ fs. (Inl ''boom'', fs)) False (\<lambda>_ _. []) (\<lambda>_. '''') ''j'' ?fs"
  have "\<not> fs_is_file p ?fs" if "prefix p (cache_path demo_dirs ''j'')" for p
    using that by (auto simp: cache_path_def demo_dirs_def fs_is_file_def demo_upload_disk_def prefix_Cons)
  then obtain fs0 where c: "fs_mkdirs (cache_path demo_dirs ''j'') ?fs = Inr fs0"
    using fs_mkdirs_total by blast
  have ds: "fs_is_dir (datasets_dir demo_dirs @ [''j'']) fs0"
    using fs_mkdirs_keeps(1) [OF c, of "[''d'', ''j'']"] by (simp add: fs_is_dir_def demo_dirs_def)
  have "snd ?run [''d'', ''j'', ''x''] = None"
    using run_removes_dataset [where d = demo_dirs and j = "''j''" and fs = ?fs and ?fs0.0 = fs0 and ?fs2.0 = fs0
        and train = "\<lambda>_ _ _ fs. (Inl ''boom'', fs)" and tr = "Inl ''boom''" and stopped = False
        and walk = "\<lambda>_ _. []" and zip_bytes = "\<lambda>_. ''''" and r = "fst ?run" and fs' = "snd ?run"] c ds
    by (simp add: demo_dirs_def)
  then show ?thesis .
qed

definition demo_state :: "TrainerJobStatus \<Rightarrow> int \<Rightarrow> JobState" where
  "demo_state st p = \<lparr>remote_job_id = ''j'', state_status = st, state_progress = p,
     state_message = None, state_extra_info = None\<rparr>"

lemma events_send_changes_witness:
  "job_events [(False, Some (demo_state T_QUEUED 0)), (False, Some (demo_state T_QUEUED 0)),
      (False, Some (demo_state T_FAILED 0)), (False, Some (demo_state T_FAILED 0))] None
    = [demo_state T_QUEUED 0, demo_state T_FAILED 0]"
  using events_send_changes [of "[(False, Some (demo_state T_QUEUED 0)), (False, Some (demo_state T_QUEUED 0)),
      (False, Some (demo_state T_FAILED 0)), (False, Some (demo_state T_FAILED 0))]"]
  by (simp add: demo_state_def t_terminal_def)

end
