(* ===== verification/StudioPayload.thy ===== *)
theory StudioPayload
  imports TrainingSpec "HOL-Library.AList"
begin

text \<open>
  A studio training job's payload, \<^verbatim>\<open>schemas/job.py\<close>, with its validators, the translation to the
  shared specification of \<^verbatim>\<open>services/training_backends/local.py\<close> and the scheduling keys of
  \<^verbatim>\<open>services/training_targets\<close>. UUIDs are strings; a validated payload is the record after
  pydantic has run the validators in the order they are declared.
\<close>

datatype DeviceType = CPU | XPU | CUDA | NPU

definition device_str :: "DeviceType \<Rightarrow> string" where
  "device_str d = (case d of CPU \<Rightarrow> ''cpu'' | XPU \<Rightarrow> ''xpu'' | CUDA \<Rightarrow> ''cuda'' | NPU \<Rightarrow> ''npu'')"

record TrainingDevice =
  device_type :: DeviceType
  device_index :: "int option"

datatype ExportBackend = ONNX | OPENVINO | TORCH | EXECUTORCH

definition backend_str :: "ExportBackend \<Rightarrow> string" where
  "backend_str b = (case b of ONNX \<Rightarrow> ''onnx'' | OPENVINO \<Rightarrow> ''openvino'' | TORCH \<Rightarrow> ''torch''
     | EXECUTORCH \<Rightarrow> ''executorch'')"

datatype TrainingPrecision = FP32 | BF16_MIXED | BF16_TRUE

definition precision_str :: "TrainingPrecision \<Rightarrow> string" where
  "precision_str p = (case p of FP32 \<Rightarrow> ''32-true'' | BF16_MIXED \<Rightarrow> ''bf16-mixed'' | BF16_TRUE \<Rightarrow> ''bf16-true'')"

record RemoteFields =
  remote_trainer_id :: string
  remote_trainer_url :: "string option"
  remote_trainer_name :: "string option"
  authentication_issue :: "string option"
  cancel_requested :: "bool option"

text \<open>\<open>Local\<close> and \<open>Remote\<close> are the two variants of the discriminated union.\<close>

datatype training_target = Local | Remote RemoteFields

record TrainJobPayload =
  pl_target :: training_target
  pl_project_id :: string
  pl_dataset_id :: string
  pl_policy :: string
  pl_model_name :: string
  pl_max_epochs :: "int option"
  pl_max_steps :: "int option"
  pl_batch_size :: int
  pl_num_workers :: num_workers
  pl_auto_scale_batch_size :: bool
  pl_base_model_id :: "string option"
  pl_val_split :: real
  pl_device :: "TrainingDevice option"
  pl_precision :: TrainingPrecision
  pl_compile_model :: bool
  pl_image_key_reorder_map :: "(string \<times> int) list"
  pl_num_cameras :: int
  pl_export_backends :: "ExportBackend list option"
  pl_augment_images :: bool
  pl_lora_enabled :: bool
  pl_lora_rank :: int
  pl_lora_alpha :: "int option"
  pl_lora_dropout :: real
  pl_lora_use_dora :: bool
  pl_snapflow_enabled :: bool
  pl_snapflow_distill_epochs :: int
  pl_remote_job_id :: "string option"
  pl_snapshot_id :: "string option"

datatype payload_error = PayloadConstraint | PayloadDoraWithoutLora | PayloadLoraUnavailable string
  | PayloadSnapflowUnavailable string

definition DEFAULT_MAX_EPOCHS :: int where
  "DEFAULT_MAX_EPOCHS = 5"

section \<open>Validation\<close>

definition validate_index_for_device_type :: "TrainingDevice \<Rightarrow> TrainingDevice" where
  "validate_index_for_device_type d =
     (if device_str (device_type d) \<in> {''cpu'', ''npu''}
      then (if device_index d \<noteq> None then d\<lparr>device_index := None\<rparr> else d)
      else if device_str (device_type d) \<in> {''cuda'', ''xpu''} \<and> device_index d = None
      then d\<lparr>device_index := Some 0\<rparr> else d)"

definition payload_fields_ok :: "TrainJobPayload \<Rightarrow> bool" where
  "payload_fields_ok p \<longleftrightarrow>
     pred_option (\<lambda>e. 1 \<le> e \<and> e \<le> 10000) (pl_max_epochs p)
     \<and> pred_option (\<lambda>e. 1 \<le> e \<and> e \<le> 100000) (pl_max_steps p)
     \<and> 1 \<le> pl_batch_size p \<and> pl_batch_size p \<le> 256
     \<and> 0 \<le> pl_val_split p \<and> pl_val_split p < 1
     \<and> pred_option (\<lambda>d. pred_option (\<lambda>i. 0 \<le> i) (device_index d)) (pl_device p)
     \<and> 0 \<le> pl_num_cameras p \<and> pl_num_cameras p \<le> 8
     \<and> 1 \<le> pl_lora_rank p \<and> pl_lora_rank p \<le> 256
     \<and> pred_option (\<lambda>a. 1 \<le> a) (pl_lora_alpha p)
     \<and> 0 \<le> pl_lora_dropout p \<and> pl_lora_dropout p < 1
     \<and> 1 \<le> pl_snapflow_distill_epochs p \<and> pl_snapflow_distill_epochs p \<le> 10000"

text \<open>A dict comprehension: a key that comes twice keeps its place and takes the later value.\<close>

definition strip_observation_prefix :: "(string \<times> int) list \<Rightarrow> (string \<times> int) list" where
  "strip_observation_prefix m =
     foldl (\<lambda>d (key, slot). AList.update (remove_prefix ''observation.'' key) slot d) [] m"

definition resolve_training_limit :: "TrainJobPayload \<Rightarrow> TrainJobPayload" where
  "resolve_training_limit p =
     (if pl_max_epochs p \<noteq> None then p\<lparr>pl_max_steps := None\<rparr>
      else p\<lparr>pl_max_epochs := Some DEFAULT_MAX_EPOCHS\<rparr>)"

definition payload_validate_lora :: "TrainJobPayload \<Rightarrow> payload_error + TrainJobPayload" where
  "payload_validate_lora p =
     (if pl_lora_use_dora p \<and> \<not> pl_lora_enabled p then Inl PayloadDoraWithoutLora
      else if \<not> pl_lora_enabled p then Inr p
      else if py_lower (pl_policy p) \<notin> set PEFT_POLICIES then Inl (PayloadLoraUnavailable (pl_policy p))
      else Inr p)"

definition payload_validate_snapflow :: "TrainJobPayload \<Rightarrow> payload_error + TrainJobPayload" where
  "payload_validate_snapflow p =
     (if \<not> pl_snapflow_enabled p then Inr p
      else if py_lower (pl_policy p) \<notin> set SNAPFLOW_POLICIES then Inl (PayloadSnapflowUnavailable (pl_policy p))
      else Inr p)"

definition validate_payload :: "TrainJobPayload \<Rightarrow> payload_error + TrainJobPayload" where
  "validate_payload p =
     (if \<not> payload_fields_ok p then Inl PayloadConstraint
      else
        let p1 = p\<lparr>pl_device := map_option validate_index_for_device_type (pl_device p),
                   pl_image_key_reorder_map := strip_observation_prefix (pl_image_key_reorder_map p)\<rparr>
        in bind_result (payload_validate_lora (resolve_training_limit p1)) payload_validate_snapflow)"

section \<open>What a payload asks to train\<close>

definition or_default :: "int option \<Rightarrow> int \<Rightarrow> int" where
  "or_default v d = (case v of None \<Rightarrow> d | Some x \<Rightarrow> if x = 0 then d else x)"

definition snapflow_start_epoch :: "TrainJobPayload \<Rightarrow> int option" where
  "snapflow_start_epoch p =
     (if \<not> pl_snapflow_enabled p then None else Some (or_default (pl_max_epochs p) DEFAULT_MAX_EPOCHS))"

definition total_epochs :: "TrainJobPayload \<Rightarrow> int" where
  "total_epochs p =
     (let max_epochs = or_default (pl_max_epochs p) DEFAULT_MAX_EPOCHS in
      if \<not> pl_snapflow_enabled p then max_epochs else max_epochs + pl_snapflow_distill_epochs p)"

text \<open>\<open>build_spec\<close>: the model's policy is the payload's, a base model's policy replaces it.\<close>

definition build_spec :: "TrainJobPayload \<Rightarrow> string option \<Rightarrow> TrainingJobSpec" where
  "build_spec p base_policy =
     \<lparr>spec_policy = (case base_policy of Some b \<Rightarrow> b | None \<Rightarrow> pl_policy p),
      spec_policy_source = Physicalai,
      spec_max_epochs = total_epochs p, spec_batch_size = pl_batch_size p,
      spec_num_workers = pl_num_workers p, spec_val_split = pl_val_split p,
      spec_precision = precision_str (pl_precision p), spec_compile_model = pl_compile_model p,
      spec_augment_images = pl_augment_images p, spec_auto_scale_batch_size = pl_auto_scale_batch_size p,
      spec_image_key_reorder_map = pl_image_key_reorder_map p, spec_num_cameras = pl_num_cameras p,
      spec_export_backends = map_option (map backend_str) (pl_export_backends p),
      spec_snapflow_start_epoch = snapflow_start_epoch p,
      spec_device_type = map_option (\<lambda>d. device_str (device_type d)) (pl_device p),
      spec_device_index = (case pl_device p of None \<Rightarrow> None | Some d \<Rightarrow> device_index d),
      spec_lora_enabled = pl_lora_enabled p, spec_lora_rank = pl_lora_rank p,
      spec_lora_alpha = pl_lora_alpha p, spec_lora_dropout = pl_lora_dropout p,
      spec_lora_use_dora = pl_lora_use_dora p,
      spec_run_options = \<lparr>resume_from = None, hf_token = None\<rparr>\<rparr>"

definition resume_checkpoint :: "path option \<Rightarrow> string option" where
  "resume_checkpoint base_model_path = map_option (\<lambda>p. path_str (p @ [''model.ckpt''])) base_model_path"

definition resolve_hf_token :: "string option \<Rightarrow> string option \<Rightarrow> string option" where
  "resolve_hf_token configured legacy =
     (if (configured = None \<or> configured = Some '''') \<and> legacy \<noteq> None \<and> legacy \<noteq> Some ''''
      then legacy else configured)"

text \<open>The specification the local backend runs: the built one, validated, with its run options.\<close>

definition local_backend_spec ::
  "TrainJobPayload \<Rightarrow> (string \<times> path) option \<Rightarrow> string option \<Rightarrow> string option
     \<Rightarrow> spec_error + TrainingJobSpec" where
  "local_backend_spec p base_model configured_token legacy_token =
     bind_result (validate_spec (build_spec p (map_option fst base_model))) (\<lambda>s.
       Inr (s\<lparr>spec_run_options :=
         \<lparr>resume_from = resume_checkpoint (map_option snd base_model),
          hf_token = resolve_hf_token configured_token legacy_token\<rparr>\<rparr>))"

section \<open>Scheduling keys\<close>

definition remote_target_key :: "TrainJobPayload \<Rightarrow> RemoteFields \<Rightarrow> string" where
  "remote_target_key p r =
     (if (case remote_trainer_url r of None \<Rightarrow> False | Some u \<Rightarrow> starts_with ''aws-batch://'' u)
      then ''batch:'' @ remote_trainer_id r @ '':'' @ pl_policy p
      else case pl_device p of
          None \<Rightarrow> ''remote:'' @ remote_trainer_id r
        | Some d \<Rightarrow> ''remote:'' @ remote_trainer_id r @ '':'' @ device_str (device_type d) @ '':''
            @ (case device_index d of None \<Rightarrow> ''None'' | Some i \<Rightarrow> int_str i))"

definition target_key :: "TrainJobPayload \<Rightarrow> string" where
  "target_key p = (case pl_target p of Local \<Rightarrow> ''local'' | Remote r \<Rightarrow> remote_target_key p r)"

section \<open>Lemmas\<close>

lemma payload_validate_lora_same: "payload_validate_lora p = Inr p' \<Longrightarrow> p' = p"
  by (auto simp: payload_validate_lora_def split: if_splits)

lemma payload_validate_snapflow_same: "payload_validate_snapflow p = Inr p' \<Longrightarrow> p' = p"
  by (auto simp: payload_validate_snapflow_def split: if_splits)

lemma resolve_training_limit_simps [simp]:
  "pl_max_epochs (resolve_training_limit p) = Some (case pl_max_epochs p of None \<Rightarrow> 5 | Some e \<Rightarrow> e)"
  "pl_policy (resolve_training_limit p) = pl_policy p"
  "pl_lora_enabled (resolve_training_limit p) = pl_lora_enabled p"
  "pl_lora_use_dora (resolve_training_limit p) = pl_lora_use_dora p"
  "pl_snapflow_enabled (resolve_training_limit p) = pl_snapflow_enabled p"
  "pl_snapflow_distill_epochs (resolve_training_limit p) = pl_snapflow_distill_epochs p"
  by (simp_all add: resolve_training_limit_def DEFAULT_MAX_EPOCHS_def split: option.split)

lemma resolve_training_limit_fields [simp]:
  "pl_batch_size (resolve_training_limit p) = pl_batch_size p"
  "pl_val_split (resolve_training_limit p) = pl_val_split p"
  "pl_num_cameras (resolve_training_limit p) = pl_num_cameras p"
  "pl_device (resolve_training_limit p) = pl_device p"
  "pl_lora_rank (resolve_training_limit p) = pl_lora_rank p"
  "pl_lora_alpha (resolve_training_limit p) = pl_lora_alpha p"
  "pl_lora_dropout (resolve_training_limit p) = pl_lora_dropout p"
  by (simp_all add: resolve_training_limit_def)

lemma validate_payload_Inr:
  assumes "validate_payload p = Inr v"
  shows "payload_fields_ok p"
    and "v = resolve_training_limit (p\<lparr>pl_device := map_option validate_index_for_device_type (pl_device p),
                   pl_image_key_reorder_map := strip_observation_prefix (pl_image_key_reorder_map p)\<rparr>)"
    and "payload_validate_lora v = Inr v" and "payload_validate_snapflow v = Inr v"
  using assms
  by (auto simp: validate_payload_def Let_def bind_result_Inr_iff split: if_splits
      dest: payload_validate_lora_same payload_validate_snapflow_same)

lemma device_index_validated:
  "pred_option (\<lambda>i. 0 \<le> i) (device_index d) \<Longrightarrow>
   pred_option (\<lambda>i. 0 \<le> i) (device_index (validate_index_for_device_type d))"
  by (simp add: validate_index_for_device_type_def)

lemma build_spec_fields_ok:
  assumes "validate_payload p = Inr v"
  shows "spec_fields_ok (build_spec v b)"
proof -
  note V = validate_payload_Inr [OF assms]
  have f: "payload_fields_ok p" by (rule V(1))
  have e: "\<exists>n. pl_max_epochs v = Some n \<and> 1 \<le> n"
    using f by (cases "pl_max_epochs p") (auto simp: V(2) payload_fields_ok_def)
  then obtain n where n: "pl_max_epochs v = Some n" "1 \<le> n" by blast
  have d: "1 \<le> pl_snapflow_distill_epochs v"
    using f by (simp add: V(2) payload_fields_ok_def)
  have dev: "pred_option (\<lambda>i. 0 \<le> i) (case pl_device v of None \<Rightarrow> None | Some d \<Rightarrow> device_index d)"
    using f by (cases "pl_device p") (auto simp: V(2) payload_fields_ok_def device_index_validated)
  have r: "1 \<le> pl_batch_size v" "0 \<le> pl_val_split v" "pl_val_split v < 1" "0 \<le> pl_num_cameras v"
    "1 \<le> pl_lora_rank v" "pl_lora_rank v \<le> 256" "pred_option (\<lambda>a. 1 \<le> a) (pl_lora_alpha v)"
    "0 \<le> pl_lora_dropout v" "pl_lora_dropout v < 1"
    using f by (simp_all add: V(2) payload_fields_ok_def)
  show ?thesis
    using n d dev r
    by (simp add: spec_fields_ok_def build_spec_def total_epochs_def snapflow_start_epoch_def or_default_def)
qed

section \<open>Properties\<close>

text \<open>C39: every payload the studio accepts gives a specification that the shared runner accepts, or
  the base model it resumes from has a policy that cannot do what the payload asks; the teacher
  runs the payload's epochs in full and distillation comes on top.\<close>

theorem accepted_payload_trains:
  assumes "validate_payload p = Inr v"
  shows "(validate_spec (build_spec v b) = Inr (build_spec v b) \<longleftrightarrow>
       (pl_lora_enabled v \<longrightarrow> (case b of None \<Rightarrow> True | Some c \<Rightarrow> py_lower c \<in> set PEFT_POLICIES))
       \<and> (pl_snapflow_enabled v \<longrightarrow> (case b of None \<Rightarrow> True | Some c \<Rightarrow> py_lower c \<in> set SNAPFLOW_POLICIES)))
     \<and> Some (teacher_epochs (build_spec v b)) = pl_max_epochs v
     \<and> distill_epochs (build_spec v b) = (if pl_snapflow_enabled v then pl_snapflow_distill_epochs v else 0)
     \<and> pl_max_epochs v = Some (case pl_max_epochs p of None \<Rightarrow> 5 | Some n \<Rightarrow> n)"
proof -
  note V = validate_payload_Inr [OF assms]
  have m: "pl_max_epochs v = Some (case pl_max_epochs p of None \<Rightarrow> 5 | Some n \<Rightarrow> n)"
    by (simp add: V(2))
  moreover have "1 \<le> (case pl_max_epochs p of None \<Rightarrow> 5 | Some n \<Rightarrow> n)"
    using V(1) by (auto simp: payload_fields_ok_def split: option.split)
  moreover have "1 \<le> pl_snapflow_distill_epochs v"
    using V(1) by (simp add: V(2) payload_fields_ok_def)
  moreover note build_spec_fields_ok [OF assms, of b]
  ultimately show ?thesis
    using V(3,4)
    by (auto simp: validate_spec_Inr_iff validate_lora_def validate_snapflow_def build_spec_def
        payload_validate_lora_def payload_validate_snapflow_def total_epochs_def snapflow_start_epoch_def
        or_default_def teacher_epochs_def distill_epochs_def split: option.splits if_splits)
qed

definition demo_payload :: TrainJobPayload where
  "demo_payload =
     \<lparr>pl_target = Local, pl_project_id = ''p'', pl_dataset_id = ''d'', pl_policy = ''pi05'',
      pl_model_name = ''m'', pl_max_epochs = Some 8, pl_max_steps = Some 100, pl_batch_size = 8,
      pl_num_workers = AutoWorkers, pl_auto_scale_batch_size = False, pl_base_model_id = None,
      pl_val_split = 0, pl_device = Some \<lparr>device_type = CUDA, device_index = None\<rparr>,
      pl_precision = BF16_MIXED, pl_compile_model = False,
      pl_image_key_reorder_map = [(''observation.gripper'', 0)], pl_num_cameras = 0,
      pl_export_backends = None, pl_augment_images = False, pl_lora_enabled = False, pl_lora_rank = 32,
      pl_lora_alpha = None, pl_lora_dropout = 0, pl_lora_use_dora = False, pl_snapflow_enabled = True,
      pl_snapflow_distill_epochs = 3, pl_remote_job_id = None, pl_snapshot_id = None\<rparr>"

definition demo_valid_payload :: TrainJobPayload where
  "demo_valid_payload = demo_payload\<lparr>pl_max_steps := None,
     pl_device := Some \<lparr>device_type = CUDA, device_index = Some 0\<rparr>,
     pl_image_key_reorder_map := [(''gripper'', 0)]\<rparr>"

lemma demo_payload_valid: "validate_payload demo_payload = Inr demo_valid_payload"
proof -
  have "strip_observation_prefix [(''observation.gripper'', 0)] = [(''gripper'', 0)]" by code_simp
  moreover have "py_lower ''pi05'' \<in> set SNAPFLOW_POLICIES" by code_simp
  ultimately show ?thesis
    by (simp add: validate_payload_def demo_payload_def demo_valid_payload_def payload_fields_ok_def
        validate_index_for_device_type_def device_str_def resolve_training_limit_def
        payload_validate_lora_def payload_validate_snapflow_def)
qed

theorem accepted_payload_trains_witness:
  "validate_spec (build_spec demo_valid_payload None) = Inr (build_spec demo_valid_payload None)
   \<and> teacher_epochs (build_spec demo_valid_payload None) = 8
   \<and> distill_epochs (build_spec demo_valid_payload None) = 3"
  using accepted_payload_trains [OF demo_payload_valid, of None]
  by (simp add: demo_payload_def demo_valid_payload_def)

end
