(* ===== verification/ImportSchema.thy ===== *)
theory ImportSchema
  imports Prelude
begin

text \<open>
  The data of a dataset import, \<^verbatim>\<open>schemas/dataset_import_job.py\<close>: the steps of a job, validation reports, the
  manifest that is shown to the user, the answer of the user, and the payload of the job that holds them.
\<close>

datatype ImportStep = AWAITING_ARCHIVE_UPLOAD | QUEUED_FOR_DETECTION | DETECTING_FORMAT
  | BUILDING_MANIFEST_DRAFT | AWAITING_USER_REVIEW | QUEUED_FOR_IMPORT | IMPORTING_DATASET
  | IMPORT_COMPLETED

record ManifestCameraEntry =
  mce_name :: string
  mce_width :: "int option"
  mce_height :: "int option"
  mce_fps :: "int option"

record ManifestRobotEntry =
  mre_type :: "string option"
  mre_joints :: "string list"

record DatasetManifestRecordingSchema =
  rs_cameras :: "ManifestCameraEntry list"
  rs_robots :: "ManifestRobotEntry list"
  rs_tasks :: "string list"

definition empty_schema :: DatasetManifestRecordingSchema where
  "empty_schema = \<lparr>rs_cameras = [], rs_robots = [], rs_tasks = []\<rparr>"

datatype DatasetImportSource = LEROBOT_V3 | UNKNOWN_SOURCE

definition source_value :: "DatasetImportSource \<Rightarrow> string" where
  "source_value s = (case s of LEROBOT_V3 \<Rightarrow> ''lerobot_v3'' | UNKNOWN_SOURCE \<Rightarrow> ''unknown'')"

datatype ImportValidationSeverity = WARNING_SEVERITY | ERROR_SEVERITY

record ImportValidationMessage =
  ivm_severity :: ImportValidationSeverity
  ivm_message :: string

type_synonym ImportValidationReport = "ImportValidationMessage list"

definition add_error :: "string \<Rightarrow> ImportValidationReport \<Rightarrow> ImportValidationReport" where
  "add_error message r = r @ [\<lparr>ivm_severity = ERROR_SEVERITY, ivm_message = message\<rparr>]"

definition add_warning :: "string \<Rightarrow> ImportValidationReport \<Rightarrow> ImportValidationReport" where
  "add_warning message r = r @ [\<lparr>ivm_severity = WARNING_SEVERITY, ivm_message = message\<rparr>]"

definition report_is_valid :: "ImportValidationReport \<Rightarrow> bool" where
  "report_is_valid r \<longleftrightarrow> \<not> list_ex (\<lambda>m. ivm_severity m = ERROR_SEVERITY) r"

record DatasetManifestStatistics =
  ms_episode_count :: int
  ms_frame_count :: int

text \<open>\<open>Field(ge=0)\<close>: a negative count is a validation error.\<close>

definition make_statistics :: "int \<Rightarrow> int \<Rightarrow> DatasetManifestStatistics option" where
  "make_statistics episodes frames =
     (if episodes < 0 \<or> frames < 0 then None else Some \<lparr>ms_episode_count = episodes, ms_frame_count = frames\<rparr>)"

record DatasetManifest =
  dm_source_type :: DatasetImportSource
  dm_statistics :: DatasetManifestStatistics
  dm_dataset_schema :: DatasetManifestRecordingSchema

record DatasetImportFinalizeInput =
  fin_environment_id :: string
  fin_default_task :: string

record ImportPayload =
  imp_step :: ImportStep
  imp_result_dataset_id :: "string option"
  imp_archive_staging_id :: string
  imp_uploaded_archive_name :: "string option"
  imp_format_hint :: string
  imp_dataset_name :: "string option"
  imp_manifest_draft :: "DatasetManifest option"
  imp_validation_report :: "ImportValidationReport option"
  imp_finalize_input :: "DatasetImportFinalizeInput option"

end
