(* ===== verification/StudioJobs.thy ===== *)
theory StudioJobs
  imports StudioPayload TrainerStore ImportSchema
begin

text \<open>
  The studio's job table and its service: \<^verbatim>\<open>schemas/base_job.py\<close>, \<^verbatim>\<open>repositories/job_repo.py\<close> and
  \<^verbatim>\<open>services/job_service.py\<close>, with the submission checks of \<^verbatim>\<open>services/training_targets\<close> and the
  orphan recovery of \<^verbatim>\<open>services/training_service.py\<close>. One definition is one database transaction.
  The clock and new ids are arguments; what the machine, the trainers and the projects answer is
  the record \<open>studio_env\<close>.
\<close>

datatype JobType = TRAINING | DATASET_IMPORT

datatype JobStatus = J_PENDING | J_RUNNING | J_COMPLETED | J_FAILED | J_CANCELED

datatype job_payload = TrainP TrainJobPayload | ImportP ImportPayload

record Job =
  sj_id :: string
  sj_project_id :: string
  sj_payload :: job_payload
  sj_progress :: int
  sj_status :: JobStatus
  sj_extra_info :: "extra_info option"
  sj_message :: string
  sj_start_time :: "int option"
  sj_end_time :: "int option"
  sj_created_at :: int

definition job_type :: "Job \<Rightarrow> JobType" where
  "job_type j = (case sj_payload j of TrainP p \<Rightarrow> TRAINING | ImportP p \<Rightarrow> DATASET_IMPORT)"

definition j_terminal :: "JobStatus \<Rightarrow> bool" where
  "j_terminal s \<longleftrightarrow> s \<in> {J_COMPLETED, J_FAILED, J_CANCELED}"

type_synonym jobs = "Job list"

datatype service_error = ResourceNotFound string | DuplicateJob | ResourceInUse string
  | UnsupportedDevice DeviceType | InvalidResource string | RemoteResumeUnsupported
  | AwsAuthenticationRequired string | BotoError string | ValueError string | InvalidJobState string

definition find_job :: "string \<Rightarrow> jobs \<Rightarrow> Job option" where
  "find_job job_id rows = row_get sj_id job_id rows"

section \<open>Repository\<close>

definition is_job_duplicate :: "string \<Rightarrow> TrainJobPayload \<Rightarrow> jobs \<Rightarrow> bool" where
  "is_job_duplicate project_id payload rows \<longleftrightarrow>
     list_ex (\<lambda>j. sj_project_id j = project_id \<and> sj_payload j = TrainP payload
       \<and> sj_status j \<noteq> J_COMPLETED \<and> sj_status j \<noteq> J_FAILED \<and> sj_status j \<noteq> J_CANCELED) rows"

definition get_pending_jobs_by_type :: "JobType \<Rightarrow> jobs \<Rightarrow> Job list" where
  "get_pending_jobs_by_type ty rows =
     sort_key sj_created_at (filter (\<lambda>j. job_type j = ty \<and> sj_status j = J_PENDING) rows)"

text \<open>\<open>json_extract\<close> of the remote job id is SQL null, or the target is not remote.\<close>

definition not_reattaching :: "Job \<Rightarrow> bool" where
  "not_reattaching j =
     (case sj_payload j of
        TrainP p \<Rightarrow> (case pl_target p of Local \<Rightarrow> True | Remote r \<Rightarrow> pl_remote_job_id p = None)
      | ImportP p \<Rightarrow> True)"

definition transition_pending_train_job ::
  "string \<Rightarrow> JobStatus \<Rightarrow> int \<Rightarrow> jobs \<Rightarrow> (service_error + Job option) \<times> jobs" where
  "transition_pending_train_job job_id status now rows =
     (if status \<notin> {J_RUNNING, J_CANCELED}
      then (Inl (ValueError ''Queued training jobs can only be claimed or canceled''), rows)
      else
        let selects = (\<lambda>j. sj_id j = job_id \<and> job_type j = TRAINING \<and> sj_status j = J_PENDING
              \<and> (status = J_CANCELED \<longrightarrow> not_reattaching j));
            change = (\<lambda>j. if status = J_RUNNING
              then j\<lparr>sj_status := J_RUNNING,
                     sj_start_time := (case sj_start_time j of None \<Rightarrow> Some now | Some t \<Rightarrow> Some t),
                     sj_message := ''Preparing training''\<rparr>
              else j\<lparr>sj_status := J_CANCELED, sj_end_time := Some now, sj_message := ''Training canceled''\<rparr>);
            rows1 = sql_update selects change rows
        in (Inr (if list_ex selects rows then find_job job_id rows1 else None), rows1))"

definition import_step_of :: "Job \<Rightarrow> ImportStep option" where
  "import_step_of j = (case sj_payload j of TrainP p \<Rightarrow> None | ImportP p \<Rightarrow> Some (imp_step p))"

definition claim_pending_dataset_import_job :: "int \<Rightarrow> jobs \<Rightarrow> Job option \<times> jobs" where
  "claim_pending_dataset_import_job now rows =
     (let claimable = (\<lambda>j. job_type j = DATASET_IMPORT \<and> sj_status j = J_PENDING
            \<and> import_step_of j \<in> {Some QUEUED_FOR_DETECTION, Some QUEUED_FOR_IMPORT})
      in case sort_key sj_created_at (filter claimable rows) of
           [] \<Rightarrow> (None, rows)
         | j # _ \<Rightarrow>
             (let rows1 = sql_update (\<lambda>k. sj_id k = sj_id j \<and> sj_status k = J_PENDING
                    \<and> import_step_of k \<in> {Some QUEUED_FOR_DETECTION, Some QUEUED_FOR_IMPORT})
                    (\<lambda>k. k\<lparr>sj_status := J_RUNNING, sj_start_time := Some now\<rparr>) rows
              in (find_job (sj_id j) rows1, rows1)))"

section \<open>Submission\<close>

record RemoteTrainer =
  rtr_name :: string
  rtr_url :: "string option"
  rtr_batch_url :: "string option"
  rtr_batch_session :: "service_error + unit"
  rtr_catalog :: "service_error + string list"

record studio_env =
  env_supported_device :: "DeviceType \<Rightarrow> bool"
  env_available_policies :: "string list"
  env_trainer :: "string \<Rightarrow> RemoteTrainer option"
  env_setup_blocked :: "string \<Rightarrow> bool"
  env_projects :: "string list"

definition quoted :: "string \<Rightarrow> string" where
  "quoted s = CHR 0x27 # s @ [CHR 0x27]"

definition prepare_local :: "studio_env \<Rightarrow> TrainJobPayload \<Rightarrow> service_error + TrainJobPayload" where
  "prepare_local env payload =
     (case pl_device payload of
        Some d \<Rightarrow>
          if \<not> env_supported_device env (device_type d) then Inl (UnsupportedDevice (device_type d))
          else if pl_policy payload \<notin> set (env_available_policies env)
          then Inl (InvalidResource (quoted (pl_policy payload) @ '' is not available on this machine''))
          else Inr payload
      | None \<Rightarrow>
          if pl_policy payload \<notin> set (env_available_policies env)
          then Inl (InvalidResource (quoted (pl_policy payload) @ '' is not available on this machine''))
          else Inr payload)"

text \<open>A batch trainer has a batch URL (and no device); another trainer needs a URL of its own.\<close>

definition prepare_remote ::
  "studio_env \<Rightarrow> TrainJobPayload \<Rightarrow> RemoteFields \<Rightarrow> service_error + TrainJobPayload" where
  "prepare_remote env payload r =
     (if pl_base_model_id payload \<noteq> None then Inl RemoteResumeUnsupported
      else case env_trainer env (remote_trainer_id r) of
          None \<Rightarrow> Inl (ResourceNotFound (remote_trainer_id r))
        | Some trainer \<Rightarrow>
            bind_result (if rtr_batch_url trainer \<noteq> None then rtr_batch_session trainer else Inr ()) (\<lambda>_.
            if rtr_url trainer = None \<and> rtr_batch_url trainer = None
            then Inl (ValueError ''Training on this trainer is not available yet'')
            else bind_result (rtr_catalog trainer) (\<lambda>available.
              if pl_policy payload \<notin> set available
              then Inl (InvalidResource (quoted (pl_policy payload) @ '' is not available on the selected trainer''))
              else Inr (payload\<lparr>
                pl_target := Remote (r\<lparr>
                  remote_trainer_url := (if rtr_batch_url trainer \<noteq> None then rtr_batch_url trainer else rtr_url trainer),
                  remote_trainer_name := Some (rtr_name trainer),
                  authentication_issue := None, cancel_requested := Some False\<rparr>),
                pl_device := (if rtr_batch_url trainer \<noteq> None then None else pl_device payload)\<rparr>))))"

definition prepare :: "studio_env \<Rightarrow> TrainJobPayload \<Rightarrow> service_error + TrainJobPayload" where
  "prepare env payload =
     (case pl_target payload of Local \<Rightarrow> prepare_local env payload | Remote r \<Rightarrow> prepare_remote env payload r)"

definition allow_job_submission :: "studio_env \<Rightarrow> TrainJobPayload \<Rightarrow> service_error + unit" where
  "allow_job_submission env payload =
     (case pl_target payload of
        Local \<Rightarrow> Inr ()
      | Remote r \<Rightarrow>
          if env_setup_blocked env (remote_trainer_id r) then Inl (ResourceInUse (remote_trainer_id r)) else Inr ())"

definition new_train_job :: "string \<Rightarrow> int \<Rightarrow> TrainJobPayload \<Rightarrow> Job" where
  "new_train_job job_id now payload =
     \<lparr>sj_id = job_id, sj_project_id = pl_project_id payload, sj_payload = TrainP payload,
      sj_progress = 0, sj_status = J_PENDING, sj_extra_info = None,
      sj_message = ''Training job submitted'', sj_start_time = None, sj_end_time = None,
      sj_created_at = now\<rparr>"

definition submit_train_job ::
  "studio_env \<Rightarrow> string \<Rightarrow> int \<Rightarrow> TrainJobPayload \<Rightarrow> jobs \<Rightarrow> (service_error + Job) \<times> jobs" where
  "submit_train_job env job_id now payload rows =
     (case bind_result (allow_job_submission env payload) (\<lambda>_. prepare env payload) of
        Inl e \<Rightarrow> (Inl e, rows)
      | Inr prepared \<Rightarrow>
          if is_job_duplicate (pl_project_id prepared) prepared rows then (Inl DuplicateJob, rows)
          else if pl_project_id prepared \<notin> set (env_projects env) \<or> find_job job_id rows \<noteq> None
          then (Inl (ResourceNotFound (pl_project_id prepared)), rows)
          else (Inr (new_train_job job_id now prepared), rows @ [new_train_job job_id now prepared]))"

section \<open>Updates\<close>

definition map_train_payload :: "(TrainJobPayload \<Rightarrow> TrainJobPayload) \<Rightarrow> Job \<Rightarrow> Job" where
  "map_train_payload f j = (case sj_payload j of TrainP p \<Rightarrow> j\<lparr>sj_payload := TrainP (f p)\<rparr> | ImportP p \<Rightarrow> j)"

definition set_remote :: "(RemoteFields \<Rightarrow> RemoteFields) \<Rightarrow> TrainJobPayload \<Rightarrow> TrainJobPayload" where
  "set_remote f p = (case pl_target p of Local \<Rightarrow> p | Remote r \<Rightarrow> p\<lparr>pl_target := Remote (f r)\<rparr>)"

definition keep_or_set :: "'a option \<Rightarrow> 'a option \<Rightarrow> 'a option" where
  "keep_or_set new old = (case new of None \<Rightarrow> old | Some x \<Rightarrow> Some x)"

text \<open>\<open>json_set\<close> of the named paths: the fields that are not named keep what the row holds.\<close>

definition set_remote_state ::
  "string option option \<Rightarrow> bool option \<Rightarrow> string option \<Rightarrow> string option \<Rightarrow> TrainJobPayload \<Rightarrow> TrainJobPayload" where
  "set_remote_state issue cancel remote_id snapshot p =
     (set_remote (\<lambda>r. r\<lparr>
        authentication_issue := (case issue of None \<Rightarrow> authentication_issue r | Some i \<Rightarrow> i),
        cancel_requested := keep_or_set cancel (cancel_requested r)\<rparr>) p)
     \<lparr>pl_remote_job_id := keep_or_set remote_id (pl_remote_job_id p),
      pl_snapshot_id := keep_or_set snapshot (pl_snapshot_id p)\<rparr>"

definition update_remote_job_state ::
  "string \<Rightarrow> string option option \<Rightarrow> bool option \<Rightarrow> string option \<Rightarrow> string option \<Rightarrow> jobs
     \<Rightarrow> (service_error + Job option) \<times> jobs" where
  "update_remote_job_state job_id issue cancel remote_id snapshot rows =
     (case find_job job_id rows of
        None \<Rightarrow> (Inl (ResourceNotFound job_id), rows)
      | Some j \<Rightarrow>
          (case sj_payload j of
             ImportP p \<Rightarrow> (Inl (ValueError ''Remote state requires a remote training job''), rows)
           | TrainP p \<Rightarrow>
               if pl_target p = Local then (Inl (ValueError ''Remote state requires a remote training job''), rows)
               else let rows1 = sql_update (\<lambda>j. sj_id j = job_id)
                      (map_train_payload (set_remote_state issue cancel remote_id snapshot)) rows
                    in (Inr (find_job job_id rows1), rows1)))"

record job_change =
  chg_status :: "JobStatus option"
  chg_message :: "string option"
  chg_progress :: "int option"
  chg_extra_info :: "extra_info option"
  chg_payload :: "job_payload option"
  chg_start_time :: "int option"
  chg_end_time :: "int option"

definition no_change :: job_change where
  "no_change = \<lparr>chg_status = None, chg_message = None, chg_progress = None, chg_extra_info = None,
     chg_payload = None, chg_start_time = None, chg_end_time = None\<rparr>"

definition apply_change :: "job_change \<Rightarrow> Job \<Rightarrow> Job" where
  "apply_change c j =
     j\<lparr>sj_status := (case chg_status c of None \<Rightarrow> sj_status j | Some s \<Rightarrow> s),
       sj_message := (case chg_message c of None \<Rightarrow> sj_message j | Some m \<Rightarrow> m),
       sj_progress := (case chg_progress c of None \<Rightarrow> sj_progress j | Some p \<Rightarrow> p),
       sj_extra_info := keep_or_set (chg_extra_info c) (sj_extra_info j),
       sj_payload := (case chg_payload c of None \<Rightarrow> sj_payload j | Some p \<Rightarrow> p),
       sj_start_time := keep_or_set (chg_start_time c) (sj_start_time j),
       sj_end_time := keep_or_set (chg_end_time c) (sj_end_time j)\<rparr>"

definition modify_job :: "string \<Rightarrow> job_change \<Rightarrow> jobs \<Rightarrow> jobs" where
  "modify_job job_id c rows = sql_update (\<lambda>j. sj_id j = job_id) (apply_change c) rows"

definition end_time_of :: "JobStatus option \<Rightarrow> int \<Rightarrow> int option" where
  "end_time_of status now = (case status of None \<Rightarrow> None | Some s \<Rightarrow> if j_terminal s then Some now else None)"

definition update_job_payload ::
  "string \<Rightarrow> job_payload \<Rightarrow> JobStatus option \<Rightarrow> string option \<Rightarrow> int option \<Rightarrow> extra_info option \<Rightarrow> int
     \<Rightarrow> jobs \<Rightarrow> (service_error + Job option) \<times> jobs" where
  "update_job_payload job_id payload status message progress extra now rows =
     (case find_job job_id rows of
        None \<Rightarrow> (Inl (ResourceNotFound job_id), rows)
      | Some j \<Rightarrow>
          let rows1 = modify_job job_id \<lparr>chg_status = status, chg_message = message, chg_progress = progress,
                chg_extra_info = extra, chg_payload = Some payload, chg_start_time = None,
                chg_end_time = end_time_of status now\<rparr> rows
          in (Inr (find_job job_id rows1), rows1))"

definition status_change :: "JobStatus \<Rightarrow> string option \<Rightarrow> int option \<Rightarrow> extra_info option \<Rightarrow> int \<Rightarrow> job_change" where
  "status_change status message progress extra now =
     \<lparr>chg_status = Some status, chg_message = message,
      chg_progress = (if status = J_COMPLETED then Some 100 else progress),
      chg_extra_info = extra, chg_payload = None, chg_start_time = None,
      chg_end_time = end_time_of (Some status) now\<rparr>"

definition update_job_status ::
  "string \<Rightarrow> JobStatus \<Rightarrow> string option \<Rightarrow> int option \<Rightarrow> extra_info option \<Rightarrow> int \<Rightarrow> jobs
     \<Rightarrow> (service_error + Job option) \<times> jobs" where
  "update_job_status job_id status message progress extra now rows =
     (case find_job job_id rows of
        None \<Rightarrow> (Inl (ResourceNotFound job_id), rows)
      | Some j \<Rightarrow>
          let rows1 = modify_job job_id (status_change status message progress extra now) rows
          in (Inr (find_job job_id rows1), rows1))"

text \<open>\<open>BaseRepository.update\<close>: the caller's copy of the job, changed, replaces the row.\<close>

definition update_job :: "Job \<Rightarrow> job_change \<Rightarrow> jobs \<Rightarrow> jobs" where
  "update_job job c rows = sql_update (\<lambda>j. sj_id j = sj_id job) (\<lambda>_. apply_change c job) rows"

definition delete_by_id :: "string \<Rightarrow> jobs \<Rightarrow> jobs" where
  "delete_by_id job_id rows = sql_delete (\<lambda>j. sj_id j = job_id) rows"

definition delete_studio_job :: "string \<Rightarrow> jobs \<Rightarrow> (service_error + unit) \<times> jobs" where
  "delete_studio_job job_id rows =
     (case find_job job_id rows of
        None \<Rightarrow> (Inl (ResourceNotFound job_id), rows)
      | Some j \<Rightarrow>
          if sj_status j \<notin> {J_FAILED, J_CANCELED} then (Inl (ResourceInUse job_id), rows)
          else (Inr (), delete_by_id job_id rows))"

section \<open>Recovery\<close>

definition reattachable_remote_job_id :: "Job \<Rightarrow> string option" where
  "reattachable_remote_job_id j =
     (case sj_payload j of
        TrainP p \<Rightarrow> (case pl_target p of Local \<Rightarrow> None | Remote r \<Rightarrow> pl_remote_job_id p)
      | ImportP p \<Rightarrow> None)"

fun abort_orphans :: "int \<Rightarrow> string list \<Rightarrow> Job list \<Rightarrow> jobs \<Rightarrow> jobs" where
  "abort_orphans now excluded [] rows = rows"
| "abort_orphans now excluded (j # js) rows =
     abort_orphans now excluded js
       (if sj_id j \<in> set excluded then rows
        else if reattachable_remote_job_id j \<noteq> None
        then snd (update_job_status (sj_id j) J_PENDING
               (Some ''Reconnecting to remote training job after restart'') None None now rows)
        else snd (update_job_status (sj_id j) J_FAILED
               (Some ''Job aborted due to application shutdown'') None None now rows))"

definition abort_orphan_jobs :: "int \<Rightarrow> string list \<Rightarrow> jobs \<Rightarrow> jobs" where
  "abort_orphan_jobs now excluded rows =
     abort_orphans now excluded
       (filter (\<lambda>j. sj_status j = J_RUNNING \<and> job_type j = TRAINING) rows) rows"

section \<open>The table as an interface\<close>

lemma sj_id_apply_change [simp]: "sj_id (apply_change c j) = sj_id j"
  by (simp add: apply_change_def)

interpretation studio_table: job_table_delete find_job modify_job apply_change delete_by_id
proof
  fix k k' :: string and c and rows :: jobs
  show "find_job k (modify_job k' c rows) = (if k = k' then map_option (apply_change c) (find_job k rows) else find_job k rows)"
    by (cases "row_get sj_id k rows")
       (auto simp: find_job_def modify_job_def row_get_sql_update dest: row_get_SomeD)
  show "find_job k (delete_by_id k' rows) = (if k = k' then None else find_job k rows)"
    by (simp add: find_job_def delete_by_id_def row_get_sql_delete)
qed

lemma find_job_id: "find_job k rows = Some j \<Longrightarrow> sj_id j = k"
  by (auto simp: find_job_def dest: row_get_SomeD)

lemma snd_update_job_status:
  "snd (update_job_status k st m p e now rows) = modify_job k (status_change st m p e now) rows"
proof (cases "find_job k rows")
  case None
  then have "sql_update (\<lambda>j. sj_id j = k) f rows = rows" for f :: "Job \<Rightarrow> Job"
    by (induction rows) (auto simp: find_job_def split: if_splits)
  with None show ?thesis by (simp add: update_job_status_def modify_job_def)
qed (simp add: update_job_status_def Let_def)

lemma find_job_update_status:
  "find_job k (snd (update_job_status i st m p e now rows)) =
     (if k = i then map_option (apply_change (status_change st m p e now)) (find_job k rows) else find_job k rows)"
  by (simp add: snd_update_job_status studio_table.lookup_modify)

definition studio_ids_distinct :: "jobs \<Rightarrow> bool" where
  "studio_ids_distinct rows \<longleftrightarrow> distinct (map sj_id rows)"

lemma ids_modify [simp]: "studio_ids_distinct (modify_job k c rows) = studio_ids_distinct rows"
  by (simp add: studio_ids_distinct_def modify_job_def map_sql_update)

lemma find_job_in: "studio_ids_distinct rows \<Longrightarrow> j \<in> set rows \<Longrightarrow> find_job (sj_id j) rows = Some j"
  by (simp add: studio_ids_distinct_def find_job_def row_get_in_set)

section \<open>Claiming and canceling\<close>

text \<open>What the atomic transition selects and writes.\<close>

definition transition_selects :: "JobStatus \<Rightarrow> Job \<Rightarrow> bool" where
  "transition_selects status j \<longleftrightarrow>
     job_type j = TRAINING \<and> sj_status j = J_PENDING \<and> (status = J_CANCELED \<longrightarrow> not_reattaching j)"

definition transition_change :: "JobStatus \<Rightarrow> int \<Rightarrow> Job \<Rightarrow> Job" where
  "transition_change status now j =
     (if status = J_RUNNING
      then j\<lparr>sj_status := J_RUNNING,
             sj_start_time := (case sj_start_time j of None \<Rightarrow> Some now | Some t \<Rightarrow> Some t),
             sj_message := ''Preparing training''\<rparr>
      else j\<lparr>sj_status := J_CANCELED, sj_end_time := Some now, sj_message := ''Training canceled''\<rparr>)"

lemma transition_change_simps [simp]:
  "sj_id (transition_change st now j) = sj_id j" "sj_payload (transition_change st now j) = sj_payload j"
  "job_type (transition_change st now j) = job_type j"
  by (simp_all add: transition_change_def job_type_def)

lemma transition_status:
  "status \<in> {J_RUNNING, J_CANCELED} \<Longrightarrow> sj_status (transition_change status now j) = status"
  by (auto simp: transition_change_def)

lemma transition_unfold:
  assumes "status \<in> {J_RUNNING, J_CANCELED}"
  shows "transition_pending_train_job k status now rows =
    (Inr (if list_ex (\<lambda>j. sj_id j = k \<and> transition_selects status j) rows
          then find_job k (sql_update (\<lambda>j. sj_id j = k \<and> transition_selects status j) (transition_change status now) rows)
          else None),
     sql_update (\<lambda>j. sj_id j = k \<and> transition_selects status j) (transition_change status now) rows)"
proof -
  have sel: "(\<lambda>j. sj_id j = k \<and> job_type j = TRAINING \<and> sj_status j = J_PENDING
      \<and> (status = J_CANCELED \<longrightarrow> not_reattaching j)) = (\<lambda>j. sj_id j = k \<and> transition_selects status j)"
    by (auto simp: transition_selects_def)
  have ch: "(\<lambda>j. if status = J_RUNNING
              then j\<lparr>sj_status := J_RUNNING,
                     sj_start_time := (case sj_start_time j of None \<Rightarrow> Some now | Some t \<Rightarrow> Some t),
                     sj_message := ''Preparing training''\<rparr>
              else j\<lparr>sj_status := J_CANCELED, sj_end_time := Some now, sj_message := ''Training canceled''\<rparr>)
      = transition_change status now"
    by (rule ext) (simp add: transition_change_def)
  show ?thesis
    using assms unfolding transition_pending_train_job_def sel ch Let_def by simp
qed

lemma find_job_transition:
  assumes "status \<in> {J_RUNNING, J_CANCELED}"
  shows "find_job i (snd (transition_pending_train_job k status now rows)) =
    map_option (\<lambda>j. if i = k \<and> transition_selects status j then transition_change status now j else j) (find_job i rows)"
  unfolding transition_unfold [OF assms] find_job_def
  by (cases "row_get sj_id i rows") (auto simp: row_get_sql_update dest: row_get_SomeD)

lemma transition_result:
  assumes "status \<in> {J_RUNNING, J_CANCELED}" and d: "studio_ids_distinct rows"
  shows "fst (transition_pending_train_job k status now rows) =
    Inr (case find_job k rows of None \<Rightarrow> None
         | Some j \<Rightarrow> if transition_selects status j then Some (transition_change status now j) else None)"
proof (cases "find_job k rows")
  case None
  then have "\<not> list_ex (\<lambda>j. sj_id j = k \<and> transition_selects status j) rows"
    by (auto simp: list_ex_iff find_job_def row_get_None_iff)
  with None show ?thesis by (simp add: transition_unfold [OF assms(1)])
next
  case (Some j)
  then have jin: "j \<in> set rows" "sj_id j = k" by (auto simp: find_job_def dest: row_get_SomeD)
  have "list_ex (\<lambda>i. sj_id i = k \<and> transition_selects status i) rows \<longleftrightarrow> transition_selects status j"
    using find_job_in [OF d] Some jin unfolding list_ex_iff by (metis option.inject)
  with Some show ?thesis
    using find_job_transition [OF assms(1), of k k now rows]
    by (simp add: transition_unfold [OF assms(1)])
qed

lemma ids_transition: "studio_ids_distinct (snd (transition_pending_train_job k st now rows)) = studio_ids_distinct rows"
proof (cases "st \<in> {J_RUNNING, J_CANCELED}")
  case True
  then show ?thesis
    by (simp add: transition_unfold studio_ids_distinct_def map_sql_update)
qed (simp add: transition_pending_train_job_def)

end
