(* ===== verification/StudioScheduler.thy ===== *)
theory StudioScheduler
  imports StudioJobs
begin

text \<open>
  The studio's job scheduler, \<^verbatim>\<open>core/scheduler.py\<close>, with the training worker of
  \<^verbatim>\<open>workers/training_worker.py\<close> that runs in each child process and the interrupt endpoint of
  \<^verbatim>\<open>api/job.py\<close>. The state is what the three share: the job table, the scheduler's process table
  and cancellation events, the stop event. A step is one transaction of one of them; what a
  training backend does is the outcome its step names.
\<close>

section \<open>State\<close>

text \<open>
  A child process: launched, past its claim with its copy of the job, training with its copy, or
  exited. The copy is the worker's \<open>job\<close>, whose payload object the worker changes in place.
\<close>

datatype stage = Launched | Preparing Job | Training Job | Importing | Exited

record process =
  pr_job :: string
  pr_type :: JobType
  pr_stage :: stage

record studio =
  st_jobs :: jobs
  st_processes :: "(string \<times> process) list"
  st_cancel :: "string \<Rightarrow> bool option"
  st_stop :: bool
  st_models :: "string list"

definition cancel_is_set :: "studio \<Rightarrow> string \<Rightarrow> bool" where
  "cancel_is_set s job_id \<longleftrightarrow> st_cancel s job_id = Some True"

definition is_alive :: "process \<Rightarrow> bool" where
  "is_alive p \<longleftrightarrow> pr_stage p \<noteq> Exited"

definition set_stage :: "string \<Rightarrow> stage \<Rightarrow> studio \<Rightarrow> studio" where
  "set_stage target stage s =
     s\<lparr>st_processes := map (\<lambda>(t, p). if t = target then (t, p\<lparr>pr_stage := stage\<rparr>) else (t, p)) (st_processes s)\<rparr>"

section \<open>Scheduling\<close>

definition target_is_busy :: "string \<Rightarrow> string list \<Rightarrow> bool" where
  "target_is_busy target active \<longleftrightarrow>
     target \<in> set active
     \<or> (starts_with ''remote:'' target
        \<and> list_ex (\<lambda>key. starts_with (target @ '':'') key \<or> starts_with (key @ '':'') target) active)"

definition request_cancel_event :: "string \<Rightarrow> studio \<Rightarrow> studio" where
  "request_cancel_event job_id s = s\<lparr>st_cancel := (st_cancel s)(job_id \<mapsto> True)\<rparr>"

definition ensure_cancel_event :: "string \<Rightarrow> (string \<Rightarrow> bool option) \<Rightarrow> (string \<Rightarrow> bool option)" where
  "ensure_cancel_event job_id c = (case c job_id of None \<Rightarrow> c(job_id \<mapsto> False) | Some b \<Rightarrow> c)"

text \<open>\<open>_start_job\<close>; \<open>False\<close> where \<^verbatim>\<open>process.start()\<close> raises, with the reservation kept.\<close>

definition scheduler_start_job :: "bool \<Rightarrow> string \<Rightarrow> Job \<Rightarrow> studio \<Rightarrow> bool \<times> studio" where
  "scheduler_start_job start_ok target job s =
     (if st_stop s then (True, s)
      else
        (start_ok,
         s\<lparr>st_cancel := (if job_type job = TRAINING then ensure_cancel_event (sj_id job) (st_cancel s) else st_cancel s),
           st_processes := st_processes s @
             [(target, \<lparr>pr_job = sj_id job, pr_type = job_type job,
                pr_stage = (if \<not> start_ok then Exited else if job_type job = TRAINING then Launched else Importing)\<rparr>)]\<rparr>))"

definition job_target :: "Job \<Rightarrow> string" where
  "job_target j = (case sj_payload j of TrainP p \<Rightarrow> target_key p | ImportP p \<Rightarrow> ''dataset_import'')"

fun start_pending :: "(string \<Rightarrow> bool) \<Rightarrow> Job list \<Rightarrow> studio \<Rightarrow> bool \<times> studio" where
  "start_pending start_ok [] s = (True, s)"
| "start_pending start_ok (job # jobs) s =
     (let target = job_target job in
      if \<not> target_is_busy target (map fst (st_processes s)) then
        (case scheduler_start_job (start_ok (sj_id job)) target job s of
           (True, s1) \<Rightarrow> start_pending start_ok jobs s1
         | (False, s1) \<Rightarrow> (False, s1))
      else start_pending start_ok jobs s)"

definition schedule_jobs :: "(string \<Rightarrow> bool) \<Rightarrow> int \<Rightarrow> studio \<Rightarrow> bool \<times> studio" where
  "schedule_jobs start_ok now s =
     (case start_pending start_ok (get_pending_jobs_by_type TRAINING (st_jobs s)) s of
        (False, s1) \<Rightarrow> (False, s1)
      | (True, s1) \<Rightarrow>
          if ''dataset_import'' \<notin> fst ` set (st_processes s1) \<and> \<not> st_stop s1 then
            (case claim_pending_dataset_import_job now (st_jobs s1) of
               (None, rows) \<Rightarrow> (True, s1\<lparr>st_jobs := rows\<rparr>)
             | (Some job, rows) \<Rightarrow>
                 if job_type job = DATASET_IMPORT
                 then scheduler_start_job (start_ok (sj_id job)) ''dataset_import'' job (s1\<lparr>st_jobs := rows\<rparr>)
                 else (True, s1\<lparr>st_jobs := rows\<rparr>))
          else (True, s1))"

section \<open>Reaping and recovery\<close>

definition active_ids :: "studio \<Rightarrow> string list" where
  "active_ids s = map (\<lambda>(t, p). pr_job p) (st_processes s)"

fun fail_imports :: "int \<Rightarrow> string list \<Rightarrow> Job list \<Rightarrow> jobs \<Rightarrow> jobs" where
  "fail_imports now active [] rows = rows"
| "fail_imports now active (j # js) rows =
     fail_imports now active js
       (if sj_id j \<notin> set active
        then snd (update_job_status (sj_id j) J_FAILED
               (Some ''Dataset import worker stopped before completing the job'') None None now rows)
        else rows)"

definition recover_jobs :: "int \<Rightarrow> studio \<Rightarrow> studio" where
  "recover_jobs now s =
     (let rows1 = abort_orphan_jobs now (active_ids s) (st_jobs s);
          imports = filter (\<lambda>j. sj_status j = J_RUNNING \<and> job_type j = DATASET_IMPORT) rows1
      in s\<lparr>st_jobs := fail_imports now (active_ids s) imports rows1\<rparr>)"

definition is_reattaching :: "Job \<Rightarrow> bool" where
  "is_reattaching j \<longleftrightarrow> sj_status j \<in> {J_PENDING, J_RUNNING} \<and> reattachable_remote_job_id j \<noteq> None"

definition reap_process :: "int \<Rightarrow> string \<Rightarrow> process \<Rightarrow> studio \<Rightarrow> studio" where
  "reap_process now target p s =
     (let current = (if pr_type p = TRAINING then find_job (pr_job p) (st_jobs s) else None);
          reattaching = (case current of None \<Rightarrow> False | Some j \<Rightarrow> is_reattaching j);
          rows = (case current of
              None \<Rightarrow> st_jobs s
            | Some j \<Rightarrow>
                if sj_status j = J_PENDING \<and> \<not> reattaching \<and> \<not> st_stop s
                then snd (update_job_status (pr_job p) J_FAILED
                       (Some ''Training worker exited before completing the job'') None None now (st_jobs s))
                else st_jobs s)
      in recover_jobs now
           (s\<lparr>st_jobs := rows,
              st_cancel := (if reattaching then st_cancel s else (st_cancel s)(pr_job p := None)),
              st_processes := filter (\<lambda>(t, q). t \<noteq> target) (st_processes s)\<rparr>))"

fun reap_all :: "int \<Rightarrow> (string \<times> process) list \<Rightarrow> studio \<Rightarrow> studio" where
  "reap_all now [] s = s"
| "reap_all now ((target, p) # ps) s =
     reap_all now ps (if is_alive p then s else reap_process now target p s)"

text \<open>The events of jobs that no process holds stay only while the job waits.\<close>

definition drop_unassigned :: "studio \<Rightarrow> studio" where
  "drop_unassigned s =
     s\<lparr>st_cancel := (\<lambda>job_id.
         if job_id \<notin> set (active_ids s)
            \<and> (case find_job job_id (st_jobs s) of None \<Rightarrow> True | Some j \<Rightarrow> sj_status j \<notin> {J_PENDING, J_RUNNING})
         then None else st_cancel s job_id)\<rparr>"

definition reap_processes :: "int \<Rightarrow> studio \<Rightarrow> studio" where
  "reap_processes now s = drop_unassigned (reap_all now (st_processes s) s)"

definition shutdown_processes :: "studio \<Rightarrow> studio" where
  "shutdown_processes s = s\<lparr>st_processes := [], st_cancel := Map.empty\<rparr>"

section \<open>The interrupt endpoint\<close>

definition is_batch_url :: "string option \<Rightarrow> bool" where
  "is_batch_url u = (case u of None \<Rightarrow> False | Some x \<Rightarrow> starts_with ''aws-batch://'' x)"

definition batch_fields :: "Job \<Rightarrow> RemoteFields option" where
  "batch_fields j =
     (case sj_payload j of
        ImportP p \<Rightarrow> None
      | TrainP p \<Rightarrow> (case pl_target p of Local \<Rightarrow> None
          | Remote r \<Rightarrow> if is_batch_url (remote_trainer_url r) then Some r else None))"

definition has_remote_job :: "Job \<Rightarrow> bool" where
  "has_remote_job j = (case sj_payload j of TrainP p \<Rightarrow> pl_remote_job_id p \<noteq> None | ImportP p \<Rightarrow> False)"

definition interrupt_rest :: "Job \<Rightarrow> int \<Rightarrow> studio \<Rightarrow> (service_error + unit) \<times> studio" where
  "interrupt_rest job now s =
     (if sj_status job = J_CANCELED then (Inr (), s)
      else if sj_status job \<in> {J_COMPLETED, J_FAILED}
      then (Inl (InvalidJobState ''Cannot stop a finished job''), s)
      else if job_type job = TRAINING then
        (case transition_pending_train_job (sj_id job) J_CANCELED now (st_jobs s) of
           (Inl e, rows) \<Rightarrow> (Inl e, s\<lparr>st_jobs := rows\<rparr>)
         | (Inr None, rows) \<Rightarrow> (Inr (), request_cancel_event (sj_id job) (s\<lparr>st_jobs := rows\<rparr>))
         | (Inr (Some j), rows) \<Rightarrow> (Inr (), s\<lparr>st_jobs := rows\<rparr>))
      else
        (case update_job_status (sj_id job) J_CANCELED None None None now (st_jobs s) of
           (Inl e, rows) \<Rightarrow> (Inl e, s\<lparr>st_jobs := rows\<rparr>)
         | (Inr j, rows) \<Rightarrow> (Inr (), s\<lparr>st_jobs := rows\<rparr>)))"

definition interrupt_job :: "bool \<Rightarrow> string \<Rightarrow> int \<Rightarrow> studio \<Rightarrow> (service_error + unit) \<times> studio" where
  "interrupt_job aws_active job_id now s =
     (case find_job job_id (st_jobs s) of
        None \<Rightarrow> (Inl (ResourceNotFound job_id), s)
      | Some job \<Rightarrow>
          if sj_status job \<in> {J_PENDING, J_RUNNING} \<and> batch_fields job \<noteq> None then
            (if \<not> aws_active then (Inl (InvalidResource ''aws''), s)
             else
               case update_remote_job_state job_id None (Some True) None None (st_jobs s) of
                 (Inl e, rows) \<Rightarrow> (Inl e, s\<lparr>st_jobs := rows\<rparr>)
               | (Inr j, rows) \<Rightarrow>
                   let s1 = s\<lparr>st_jobs := rows\<rparr> in
                   if has_remote_job job \<or> sj_status job = J_RUNNING
                   then (Inr (), request_cancel_event job_id s1)
                   else interrupt_rest job now s1)
          else interrupt_rest job now s)"

section \<open>The training worker\<close>

definition worker_claim :: "string \<Rightarrow> process \<Rightarrow> int \<Rightarrow> studio \<Rightarrow> studio" where
  "worker_claim target p now s =
     (if st_stop s then set_stage target Exited s
      else case transition_pending_train_job (pr_job p) J_RUNNING now (st_jobs s) of
          (Inr (Some job), rows) \<Rightarrow> set_stage target (Preparing job) (s\<lparr>st_jobs := rows\<rparr>)
        | (_, rows) \<Rightarrow> set_stage target Exited (s\<lparr>st_jobs := rows\<rparr>))"

definition is_remote_attached :: "TrainJobPayload \<Rightarrow> bool" where
  "is_remote_attached p \<longleftrightarrow> pl_target p \<noteq> Local \<and> pl_remote_job_id p \<noteq> None"

text \<open>
  The rest of \<open>_run_training_job\<close>: a fresh run takes a snapshot (\<open>None\<close> where that raises, which
  ends the process) and notes it in the payload; then \<open>_train_model\<close> writes its copy of the job.
\<close>

definition started_copy :: "Job \<Rightarrow> TrainJobPayload \<Rightarrow> int \<Rightarrow> Job" where
  "started_copy job payload now =
     apply_change (no_change\<lparr>chg_status := Some J_RUNNING, chg_message := Some ''Training started'',
        chg_start_time := Some (case sj_start_time job of None \<Rightarrow> now | Some t \<Rightarrow> t)\<rparr>)
       (job\<lparr>sj_payload := TrainP payload\<rparr>)"

definition start_training :: "string \<Rightarrow> Job \<Rightarrow> string option \<Rightarrow> int \<Rightarrow> studio \<Rightarrow> studio" where
  "start_training target job snapshot now s =
     (case sj_payload job of
        ImportP p \<Rightarrow> set_stage target Exited s
      | TrainP payload \<Rightarrow>
          if \<not> is_remote_attached payload \<and> snapshot = None then set_stage target Exited s
          else
            let payload1 = (if is_remote_attached payload then payload else payload\<lparr>pl_snapshot_id := snapshot\<rparr>);
                started = started_copy job payload1 now
            in set_stage target (Training started)
                 (s\<lparr>st_jobs := update_job started no_change (st_jobs s)\<rparr>))"

definition training_progress ::
  "Job \<Rightarrow> int \<Rightarrow> string option \<Rightarrow> extra_info option \<Rightarrow> int \<Rightarrow> studio \<Rightarrow> studio" where
  "training_progress job progress message extra now s =
     s\<lparr>st_jobs := snd (update_job_status (sj_id job) J_RUNNING message (Some progress) extra now (st_jobs s))\<rparr>"

definition persist_remote_job_id :: "string \<Rightarrow> Job \<Rightarrow> string \<Rightarrow> int \<Rightarrow> studio \<Rightarrow> studio" where
  "persist_remote_job_id target job remote_id now s =
     (case sj_payload job of
        ImportP p \<Rightarrow> s
      | TrainP payload \<Rightarrow>
          let payload1 = payload\<lparr>pl_remote_job_id := Some remote_id\<rparr>;
              rows = (if batch_fields job \<noteq> None
                then snd (update_remote_job_state (sj_id job) None None (Some remote_id) (pl_snapshot_id payload) (st_jobs s))
                else snd (update_job_payload (sj_id job) (TrainP payload1) None None None None now (st_jobs s)))
          in set_stage target (Training (job\<lparr>sj_payload := TrainP payload1\<rparr>)) (s\<lparr>st_jobs := rows\<rparr>))"

definition report_authentication_issue :: "string \<Rightarrow> Job \<Rightarrow> string option \<Rightarrow> studio \<Rightarrow> studio" where
  "report_authentication_issue target job issue s =
     (case sj_payload job of
        ImportP p \<Rightarrow> s
      | TrainP payload \<Rightarrow>
          if pl_target payload = Local then s
          else set_stage target
                 (Training (job\<lparr>sj_payload := TrainP (set_remote (\<lambda>r. r\<lparr>authentication_issue := issue\<rparr>) payload)\<rparr>))
                 (s\<lparr>st_jobs := snd (update_remote_job_state (sj_id job) (Some issue) None None None (st_jobs s))\<rparr>))"

text \<open>How the backend ended: it returned, or raised one of the three kinds of exceptions.\<close>

datatype training_outcome = Returned | Suspended | CanceledError | TrainingError string

definition should_interrupt :: "studio \<Rightarrow> string \<Rightarrow> bool" where
  "should_interrupt s job_id \<longleftrightarrow> st_stop s \<or> cancel_is_set s job_id"

definition finish_change :: "training_outcome \<Rightarrow> bool \<Rightarrow> int \<Rightarrow> job_change" where
  "finish_change outcome interrupted now =
     (case outcome of
        Suspended \<Rightarrow> status_change J_PENDING (Some ''Reconnecting to remote training job after restart'') None None now
      | TrainingError e \<Rightarrow> status_change J_FAILED (Some (''Training failed: '' @ e)) None None now
      | CanceledError \<Rightarrow> status_change J_CANCELED (Some ''Training canceled'') None None now
      | Returned \<Rightarrow>
          if interrupted then status_change J_CANCELED (Some ''Training canceled'') None None now
          else status_change J_COMPLETED (Some ''Training finished'') None None now)"

text \<open>
  A backend is only asked to train when the job was not canceled during preparation (a remote run
  that is already in flight is: its backend cancels it); \<open>model_ok\<close> is whether the model's row
  could be written.
\<close>

definition effective_outcome :: "studio \<Rightarrow> Job \<Rightarrow> bool \<Rightarrow> training_outcome \<Rightarrow> training_outcome" where
  "effective_outcome s job canceled_before outcome =
     (case sj_payload job of
        ImportP p \<Rightarrow> outcome
      | TrainP p \<Rightarrow> if canceled_before \<and> (pl_target p = Local \<or> pl_remote_job_id p = None) then CanceledError else outcome)"

definition finish_training :: "string \<Rightarrow> Job \<Rightarrow> bool \<Rightarrow> training_outcome \<Rightarrow> bool \<Rightarrow> int \<Rightarrow> studio \<Rightarrow> studio" where
  "finish_training target job canceled_before outcome model_ok now s =
     (let outcome1 = effective_outcome s job canceled_before outcome;
          interrupted = should_interrupt s (sj_id job);
          s1 = s\<lparr>st_jobs := modify_job (sj_id job) (finish_change outcome1 interrupted now) (st_jobs s)\<rparr>;
          s2 = (if outcome1 = Returned \<and> \<not> interrupted \<and> model_ok \<and> find_job (sj_id job) (st_jobs s) \<noteq> None
                then s1\<lparr>st_models := st_models s1 @ [sj_id job]\<rparr> else s1)
      in set_stage target Exited s2)"

section \<open>Steps\<close>

datatype studio_event =
    SubmitTrainJob studio_env string int TrainJobPayload
  | InterruptJob bool string int
  | DeleteStudioJob string
  | Schedule "string \<Rightarrow> bool" int
  | Reap int
  | Recover int
  | WorkerClaim string int
  | WorkerStart string "string option" int
  | WorkerProgress string int "string option" "extra_info option" int
  | WorkerRemoteId string string int
  | WorkerAuth string "string option"
  | WorkerFinish string bool training_outcome bool int
  | WorkerDies string
  | ImportStatus string JobStatus int
  | StopScheduler
  | ShutdownStudio int

definition fresh_id :: "string \<Rightarrow> studio \<Rightarrow> bool" where
  "fresh_id job_id s \<longleftrightarrow> job_id \<notin> set (active_ids s) \<and> st_cancel s job_id = None"

definition stage_of :: "studio \<Rightarrow> string \<Rightarrow> stage option" where
  "stage_of s target = map_option pr_stage (map_of (st_processes s) target)"

text \<open>
  An event that is not enabled does nothing: a step of a process that is not at that stage, a
  submission whose random id was used before, the cancellation seen before training although the
  event is not set.
\<close>

fun studio_step :: "studio \<Rightarrow> studio_event \<Rightarrow> studio" where
  "studio_step s (SubmitTrainJob env job_id now payload) =
     (if fresh_id job_id s then s\<lparr>st_jobs := snd (submit_train_job env job_id now payload (st_jobs s))\<rparr> else s)"
| "studio_step s (InterruptJob aws job_id now) = snd (interrupt_job aws job_id now s)"
| "studio_step s (DeleteStudioJob job_id) = s\<lparr>st_jobs := snd (delete_studio_job job_id (st_jobs s))\<rparr>"
| "studio_step s (Schedule ok now) = snd (schedule_jobs ok now s)"
| "studio_step s (Reap now) = reap_processes now s"
| "studio_step s (Recover now) = recover_jobs now s"
| "studio_step s (WorkerClaim target now) =
     (case map_of (st_processes s) target of
        None \<Rightarrow> s | Some p \<Rightarrow> if pr_stage p = Launched then worker_claim target p now s else s)"
| "studio_step s (WorkerStart target snapshot now) =
     (case stage_of s target of Some (Preparing job) \<Rightarrow> start_training target job snapshot now s | _ \<Rightarrow> s)"
| "studio_step s (WorkerProgress target p m e now) =
     (case stage_of s target of Some (Training job) \<Rightarrow> training_progress job p m e now s | _ \<Rightarrow> s)"
| "studio_step s (WorkerRemoteId target rid now) =
     (case stage_of s target of Some (Training job) \<Rightarrow> persist_remote_job_id target job rid now s | _ \<Rightarrow> s)"
| "studio_step s (WorkerAuth target issue) =
     (case stage_of s target of Some (Training job) \<Rightarrow> report_authentication_issue target job issue s | _ \<Rightarrow> s)"
| "studio_step s (WorkerFinish target canceled_before outcome model_ok now) =
     (case stage_of s target of
        Some (Training job) \<Rightarrow>
          if canceled_before \<and> \<not> cancel_is_set s (sj_id job) then s
          else finish_training target job canceled_before outcome model_ok now s
      | _ \<Rightarrow> s)"
| "studio_step s (WorkerDies target) = set_stage target Exited s"
| "studio_step s (ImportStatus target status now) =
     (case map_of (st_processes s) target of
        None \<Rightarrow> s
      | Some p \<Rightarrow>
          if pr_stage p = Importing
          then s\<lparr>st_jobs := snd (update_job_status (pr_job p) status None None None now (st_jobs s))\<rparr> else s)"
| "studio_step s StopScheduler = s\<lparr>st_stop := True\<rparr>"
| "studio_step s (ShutdownStudio now) =
     (if st_stop s then recover_jobs now (shutdown_processes s) else s)"

end
