(* ===== verification/StudioSchedulerInv.thy ===== *)
theory StudioSchedulerInv
  imports StudioScheduler
begin

text \<open>
  What the studio's scheduler guarantees in every run of submissions, interrupts, scheduler polls
  and worker steps: exclusive targets, one process per job, final states, cancellations that are
  not lost.
\<close>

section \<open>Rows keep their kind\<close>

text \<open>A job's type and scheduling key never change, whatever is written to its row.\<close>

definition kind :: "Job \<Rightarrow> JobType \<times> string" where
  "kind j = (job_type j, job_target j)"

lemma kind_apply_change [simp]: "chg_payload c = None \<Longrightarrow> kind (apply_change c j) = kind j"
  by (simp add: kind_def apply_change_def job_type_def job_target_def)

lemma kind_transition [simp]: "kind (transition_change st now j) = kind j"
  by (simp add: kind_def job_target_def)

lemma status_change_payload [simp]: "chg_payload (status_change st m p e now) = None"
  by (simp add: status_change_def)

lemma target_key_set_remote_state [simp]:
  "target_key (set_remote_state issue cancel rid snap p) = target_key p"
  by (cases "pl_target p"; cases "pl_device p")
     (simp_all add: set_remote_state_def set_remote_def target_key_def remote_target_key_def)

lemma sj_map_train_payload [simp]:
  "sj_id (map_train_payload f j) = sj_id j" "sj_status (map_train_payload f j) = sj_status j"
  "job_type (map_train_payload f j) = job_type j"
  by (simp_all add: map_train_payload_def job_type_def split: job_payload.split)

lemma kind_map_train_payload:
  "(\<And>p. target_key (f p) = target_key p) \<Longrightarrow> kind (map_train_payload f j) = kind j"
  by (simp add: kind_def map_train_payload_def job_type_def job_target_def split: job_payload.split)

lemma target_key_train_fields [simp]:
  "target_key (p\<lparr>pl_snapshot_id := x\<rparr>) = target_key p"
  "target_key (p\<lparr>pl_remote_job_id := y\<rparr>) = target_key p"
  by (simp_all add: target_key_def remote_target_key_def split: training_target.split)

lemma target_key_set_auth [simp]:
  "target_key (set_remote (\<lambda>r. r\<lparr>authentication_issue := i\<rparr>) p) = target_key p"
  by (cases "pl_target p"; cases "pl_device p")
     (simp_all add: set_remote_def target_key_def remote_target_key_def)

lemma kind_train_payload:
  "sj_payload j = TrainP p \<Longrightarrow> target_key q = target_key p \<Longrightarrow> kind (j\<lparr>sj_payload := TrainP q\<rparr>) = kind j"
  by (simp add: kind_def job_type_def job_target_def)

lemma target_key_not_import: "target_key p \<noteq> ''dataset_import''"
  by (auto simp: target_key_def remote_target_key_def split: training_target.split option.split)

section \<open>The invariant\<close>

definition exclusive :: "string list \<Rightarrow> bool" where
  "exclusive = sorted_wrt (\<lambda>a b. \<not> target_is_busy b [a])"

lemma target_is_busy_iff: "target_is_busy t ks \<longleftrightarrow> (\<exists>k\<in>set ks. target_is_busy t [k])"
  by (auto simp: target_is_busy_def list_ex_iff)

lemma exclusive_append: "exclusive ks \<Longrightarrow> \<not> target_is_busy t ks \<Longrightarrow> exclusive (ks @ [t])"
  using target_is_busy_iff [of t ks] by (auto simp: exclusive_def sorted_wrt_append)

lemma exclusive_distinct: "exclusive ks \<Longrightarrow> distinct ks"
  by (induction ks) (auto simp: exclusive_def target_is_busy_def)

definition working_copy :: "stage \<Rightarrow> Job option" where
  "working_copy st = (case st of Preparing j \<Rightarrow> Some j | Training j \<Rightarrow> Some j | _ \<Rightarrow> None)"

definition process_ok :: "jobs \<Rightarrow> string \<times> process \<Rightarrow> bool" where
  "process_ok rows tp \<longleftrightarrow>
     (case tp of (t, p) \<Rightarrow>
        (\<forall>j. find_job (pr_job p) rows = Some j \<longrightarrow> kind j = (pr_type p, t))
        \<and> (pr_stage p = Launched \<longrightarrow> pr_type p = TRAINING)
        \<and> (pr_stage p = Importing \<longrightarrow> pr_type p = DATASET_IMPORT)
        \<and> (\<forall>c. working_copy (pr_stage p) = Some c \<longrightarrow>
              sj_id c = pr_job p \<and> kind c = (pr_type p, t) \<and> pr_type p = TRAINING
              \<and> (\<forall>j. find_job (pr_job p) rows = Some j \<longrightarrow> sj_status j = J_RUNNING)))"

definition studio_inv :: "studio \<Rightarrow> bool" where
  "studio_inv s \<longleftrightarrow>
     studio_ids_distinct (st_jobs s) \<and> exclusive (map fst (st_processes s)) \<and> distinct (active_ids s)
     \<and> (\<forall>tp\<in>set (st_processes s). process_ok (st_jobs s) tp)"

lemma studio_invD:
  assumes "studio_inv s"
  shows "studio_ids_distinct (st_jobs s)" "exclusive (map fst (st_processes s))" "distinct (active_ids s)"
    "\<And>t p. (t, p) \<in> set (st_processes s) \<Longrightarrow> process_ok (st_jobs s) (t, p)"
    "distinct (map fst (st_processes s))"
  using assms by (auto simp: studio_inv_def exclusive_distinct)

text \<open>
  A write to the table that leaves ids, kinds and the state of every job in work alone keeps the
  invariant.
\<close>

definition rows_move :: "string set \<Rightarrow> jobs \<Rightarrow> jobs \<Rightarrow> bool" where
  "rows_move held rows rows' \<longleftrightarrow>
     studio_ids_distinct rows'
     \<and> (\<forall>i j'. find_job i rows' = Some j' \<longrightarrow>
          (\<exists>j. find_job i rows = Some j \<and> kind j' = kind j
             \<and> (i \<in> held \<and> sj_status j = J_RUNNING \<longrightarrow> sj_status j' = J_RUNNING)))"

definition held_jobs :: "studio \<Rightarrow> string set" where
  "held_jobs s = {pr_job p | t p. (t, p) \<in> set (st_processes s) \<and> working_copy (pr_stage p) \<noteq> None}"

lemma process_ok_rows:
  assumes "process_ok rows (t, p)" and "rows_move held rows rows'"
    and "working_copy (pr_stage p) \<noteq> None \<Longrightarrow> pr_job p \<in> held"
  shows "process_ok rows' (t, p)"
  using assms unfolding process_ok_def rows_move_def by (fastforce split: prod.splits)

lemma studio_inv_rows:
  assumes "studio_inv s" and "rows_move (held_jobs s) (st_jobs s) rows'"
  shows "studio_inv (s\<lparr>st_jobs := rows'\<rparr>)"
proof -
  have "process_ok rows' (t, p)" if "(t, p) \<in> set (st_processes s)" for t p
  proof (rule process_ok_rows [OF studio_invD(4) [OF assms(1) that] assms(2)])
    show "working_copy (pr_stage p) \<noteq> None \<Longrightarrow> pr_job p \<in> held_jobs s"
      using that by (auto simp: held_jobs_def)
  qed
  then show ?thesis
    using assms by (auto simp: studio_inv_def rows_move_def active_ids_def)
qed

lemma rows_move_refl: "studio_ids_distinct rows \<Longrightarrow> rows_move held rows rows"
  by (simp add: rows_move_def)

lemma rows_move_trans:
  "rows_move held rows rows' \<Longrightarrow> rows_move held rows' rows'' \<Longrightarrow> rows_move held rows rows''"
  unfolding rows_move_def by (metis (no_types, lifting))

lemma rows_move_subset: "rows_move held rows rows' \<Longrightarrow> held' \<subseteq> held \<Longrightarrow> rows_move held' rows rows'"
  unfolding rows_move_def by blast

lemma rows_move_modify:
  assumes "studio_ids_distinct rows" and "chg_payload c = None"
    and "i \<notin> held \<or> chg_status c = None \<or> chg_status c = Some J_RUNNING"
  shows "rows_move held rows (modify_job i c rows)"
  using assms
  by (auto simp: rows_move_def studio_table.lookup_modify apply_change_def [of c] kind_def job_type_def
      job_target_def split: if_splits option.splits)

section \<open>Every write to the table\<close>

lemma find_job_update_sel:
  assumes "\<And>j. p j \<Longrightarrow> sj_id (f j) = sj_id j"
  shows "find_job i (sql_update p f rows) = map_option (\<lambda>j. if p j then f j else j) (find_job i rows)"
  unfolding find_job_def by (rule row_get_sql_update_sel) (rule assms)

lemma rows_move_update_sel:
  assumes "studio_ids_distinct rows"
    and "\<And>j. j \<in> set rows \<Longrightarrow> p j \<Longrightarrow> kind (f j) = kind j \<and> (sj_id j \<in> held \<and> sj_status j = J_RUNNING \<longrightarrow> sj_status (f j) = J_RUNNING)"
    and id: "\<And>j. p j \<Longrightarrow> sj_id (f j) = sj_id j"
  shows "rows_move held rows (sql_update p f rows)"
  unfolding rows_move_def
proof (intro conjI allI impI)
  show "studio_ids_distinct (sql_update p f rows)"
    using assms(1) by (simp add: studio_ids_distinct_def map_sql_update_sel id)
  fix i j' assume "find_job i (sql_update p f rows) = Some j'"
  then obtain j where j: "find_job i rows = Some j" "j' = (if p j then f j else j)"
    by (auto simp: find_job_update_sel [OF id])
  then have "j \<in> set rows" "sj_id j = i" by (auto simp: find_job_def dest: row_get_SomeD)
  with j assms(2) [of j] show "\<exists>j. find_job i rows = Some j \<and> kind j' = kind j
      \<and> (i \<in> held \<and> sj_status j = J_RUNNING \<longrightarrow> sj_status j' = J_RUNNING)" by auto
qed

lemma rows_move_transition:
  assumes "studio_ids_distinct rows"
  shows "rows_move held rows (snd (transition_pending_train_job k st now rows))"
proof (cases "st \<in> {J_RUNNING, J_CANCELED}")
  case True
  show ?thesis unfolding transition_unfold [OF True] snd_conv
    by (rule rows_move_update_sel [OF assms]) (auto simp: transition_selects_def)
next
  case False
  then show ?thesis by (simp add: transition_pending_train_job_def rows_move_refl assms)
qed

lemma rows_move_remote_state:
  assumes "studio_ids_distinct rows"
  shows "rows_move held rows (snd (update_remote_job_state k issue c rid snap rows))"
proof -
  have "rows_move held rows (sql_update (\<lambda>j. sj_id j = k) (map_train_payload (set_remote_state issue c rid snap)) rows)"
    by (rule rows_move_update_sel [OF assms]) (simp_all add: kind_map_train_payload)
  with rows_move_refl [OF assms] show ?thesis
    by (simp add: update_remote_job_state_def Let_def split: option.split job_payload.split)
qed

lemma rows_move_delete:
  assumes "studio_ids_distinct rows"
  shows "rows_move held rows (snd (delete_studio_job k rows))"
proof -
  have "studio_ids_distinct (delete_by_id k rows)"
    using assms by (simp add: studio_ids_distinct_def delete_by_id_def distinct_sql_delete)
  with rows_move_refl [OF assms] show ?thesis
    by (auto simp: delete_studio_job_def rows_move_def studio_table.lookup_remove split: option.split if_splits)
qed

lemma rows_move_update_status:
  assumes "studio_ids_distinct rows" and "k \<notin> held \<or> st = J_RUNNING"
  shows "rows_move held rows (snd (update_job_status k st m p e now rows))"
  unfolding snd_update_job_status
  by (rule rows_move_modify [OF assms(1)]) (use assms(2) in \<open>auto simp: status_change_def\<close>)

lemma rows_move_claim_import:
  assumes "studio_ids_distinct rows"
  shows "rows_move held rows (snd (claim_pending_dataset_import_job now rows))"
proof -
  have "rows_move held rows (sql_update (\<lambda>k. sj_id k = i \<and> sj_status k = J_PENDING
      \<and> import_step_of k \<in> {Some QUEUED_FOR_DETECTION, Some QUEUED_FOR_IMPORT})
      (\<lambda>k. k\<lparr>sj_status := J_RUNNING, sj_start_time := Some now\<rparr>) rows)" for i
    by (rule rows_move_update_sel [OF assms]) (simp_all add: kind_def job_type_def job_target_def)
  with rows_move_refl [OF assms] show ?thesis
    by (simp add: claim_pending_dataset_import_job_def Let_def split: list.split)
qed

lemma rows_move_abort_orphans:
  "studio_ids_distinct rows \<Longrightarrow> held \<subseteq> set excluded \<Longrightarrow> rows_move held rows (abort_orphans now excluded js rows)"
proof (induction js arbitrary: rows)
  case Nil
  then show ?case by (simp add: rows_move_refl)
next
  case (Cons j js)
  let ?rows1 = "if sj_id j \<in> set excluded then rows
        else if reattachable_remote_job_id j \<noteq> None
        then snd (update_job_status (sj_id j) J_PENDING
               (Some ''Reconnecting to remote training job after restart'') None None now rows)
        else snd (update_job_status (sj_id j) J_FAILED
               (Some ''Job aborted due to application shutdown'') None None now rows)"
  have 1: "rows_move held rows ?rows1"
    using Cons.prems by (auto intro!: rows_move_update_status rows_move_refl)
  then have "studio_ids_distinct ?rows1" by (simp only: rows_move_def)
  from rows_move_trans [OF 1 Cons.IH [OF this Cons.prems(2)]] show ?case by simp
qed

lemma rows_move_fail_imports:
  "studio_ids_distinct rows \<Longrightarrow> held \<subseteq> set active \<Longrightarrow> rows_move held rows (fail_imports now active js rows)"
proof (induction js arbitrary: rows)
  case Nil
  then show ?case by (simp add: rows_move_refl)
next
  case (Cons j js)
  let ?rows1 = "if sj_id j \<notin> set active
        then snd (update_job_status (sj_id j) J_FAILED
               (Some ''Dataset import worker stopped before completing the job'') None None now rows)
        else rows"
  have 1: "rows_move held rows ?rows1"
    using Cons.prems by (auto intro!: rows_move_update_status rows_move_refl)
  then have "studio_ids_distinct ?rows1" by (simp only: rows_move_def)
  from rows_move_trans [OF 1 Cons.IH [OF this Cons.prems(2)]] show ?case by simp
qed

lemma held_active: "held_jobs s \<subseteq> set (active_ids s)"
  by (auto simp: held_jobs_def active_ids_def)

lemma rows_move_recover:
  assumes "studio_ids_distinct (st_jobs s)"
  shows "rows_move (set (active_ids s)) (st_jobs s) (st_jobs (recover_jobs now s))"
proof -
  have 1: "rows_move (set (active_ids s)) (st_jobs s) (abort_orphan_jobs now (active_ids s) (st_jobs s))"
    unfolding abort_orphan_jobs_def by (rule rows_move_abort_orphans [OF assms order_refl])
  then have "studio_ids_distinct (abort_orphan_jobs now (active_ids s) (st_jobs s))"
    by (simp only: rows_move_def)
  from rows_move_trans [OF 1 rows_move_fail_imports [OF this order_refl]] show ?thesis
    by (simp add: recover_jobs_def Let_def)
qed

lemma recover_jobs_frame [simp]:
  "st_processes (recover_jobs now s) = st_processes s" "st_cancel (recover_jobs now s) = st_cancel s"
  "st_stop (recover_jobs now s) = st_stop s" "active_ids (recover_jobs now s) = active_ids s"
  by (simp_all add: recover_jobs_def Let_def active_ids_def)

lemma studio_inv_recover: "studio_inv s \<Longrightarrow> studio_inv (recover_jobs now s)"
proof -
  assume s: "studio_inv s"
  have "rows_move (held_jobs s) (st_jobs s) (st_jobs (recover_jobs now s))"
    using rows_move_subset [OF rows_move_recover [OF studio_invD(1) [OF s]] held_active] .
  from studio_inv_rows [OF s this] show ?thesis
    by (simp add: recover_jobs_def Let_def)
qed

section \<open>Every change of the process table\<close>

lemma set_stage_simps [simp]:
  "st_jobs (set_stage t st s) = st_jobs s" "st_cancel (set_stage t st s) = st_cancel s"
  "st_stop (set_stage t st s) = st_stop s" "st_models (set_stage t st s) = st_models s"
  "map fst (st_processes (set_stage t st s)) = map fst (st_processes s)"
  "active_ids (set_stage t st s) = active_ids s"
  by (auto simp: set_stage_def active_ids_def)

lemma set_stage_rows: "set_stage t st (s\<lparr>st_jobs := r\<rparr>) = (set_stage t st s)\<lparr>st_jobs := r\<rparr>"
  by (simp add: set_stage_def)

lemma studio_inv_set_stage:
  assumes s: "studio_inv s"
    and ok: "\<And>p. (t, p) \<in> set (st_processes s) \<Longrightarrow> process_ok (st_jobs s) (t, p\<lparr>pr_stage := st\<rparr>)"
  shows "studio_inv (set_stage t st s)"
proof -
  have "process_ok (st_jobs s) tp" if "tp \<in> set (st_processes (set_stage t st s))" for tp
    using that ok studio_invD(4) [OF s] by (auto simp: set_stage_def split: if_splits)
  then show ?thesis
    using studio_invD [OF s] by (auto simp: studio_inv_def)
qed

lemma process_ok_exit: "process_ok rows (t, p) \<Longrightarrow> process_ok rows (t, p\<lparr>pr_stage := Exited\<rparr>)"
  by (simp add: process_ok_def working_copy_def)

lemma studio_inv_exit: "studio_inv s \<Longrightarrow> studio_inv (set_stage t Exited s)"
  by (rule studio_inv_set_stage) (auto intro: process_ok_exit dest: studio_invD(4))

lemma studio_inv_fields [simp]:
  "studio_inv (s\<lparr>st_cancel := c\<rparr>) = studio_inv s" "studio_inv (s\<lparr>st_stop := b\<rparr>) = studio_inv s"
  "studio_inv (s\<lparr>st_models := m\<rparr>) = studio_inv s"
  by (simp_all add: studio_inv_def active_ids_def)

lemma studio_inv_filter:
  "studio_inv s \<Longrightarrow> studio_inv (s\<lparr>st_processes := filter P (st_processes s)\<rparr>)"
  by (auto simp: studio_inv_def exclusive_def sorted_wrt_map sorted_wrt_filter active_ids_def
      distinct_map_filter)

section \<open>The invariant at every step\<close>

lemma studio_inv_start_job:
  assumes s: "studio_inv s" and row: "find_job (sj_id job) (st_jobs s) = Some row" "kind row = kind job"
    and target: "target = job_target job" and free: "\<not> target_is_busy target (map fst (st_processes s))"
  shows "studio_inv (snd (scheduler_start_job ok target job s))"
proof (cases "st_stop s")
  case True
  with s show ?thesis by (simp add: scheduler_start_job_def)
next
  case False
  have new: "sj_id job \<notin> set (active_ids s)"
  proof
    assume "sj_id job \<in> set (active_ids s)"
    then obtain t p where tp: "(t, p) \<in> set (st_processes s)" "pr_job p = sj_id job"
      by (auto simp: active_ids_def)
    with studio_invD(4) [OF s tp(1)] row have "t = target"
      by (auto simp: process_ok_def kind_def target)
    with tp free show False by (force simp: target_is_busy_def)
  qed
  have "process_ok (st_jobs s) (target, \<lparr>pr_job = sj_id job, pr_type = job_type job,
      pr_stage = (if \<not> ok then Exited else if job_type job = TRAINING then Launched else Importing)\<rparr>)"
    using row by (cases "job_type job") (auto simp: process_ok_def working_copy_def kind_def target)
  with False s new free show ?thesis
    by (auto simp: studio_inv_def scheduler_start_job_def active_ids_def intro!: exclusive_append)
qed

lemma scheduler_start_job_rows [simp]: "st_jobs (snd (scheduler_start_job ok t j s)) = st_jobs s"
  by (simp add: scheduler_start_job_def)

lemma start_pending_rows [simp]: "st_jobs (snd (start_pending ok js s)) = st_jobs s"
proof (induction js arbitrary: s)
  case (Cons j js)
  obtain b s1 where b: "scheduler_start_job (ok (sj_id j)) (job_target j) j s = (b, s1)" by fastforce
  then have "st_jobs s1 = st_jobs s" using scheduler_start_job_rows by (metis snd_conv)
  with b Cons.IH show ?case by (cases b) (simp_all add: Let_def)
qed simp

lemma studio_inv_start_pending:
  "studio_inv s \<Longrightarrow> set js \<subseteq> set (st_jobs s) \<Longrightarrow> studio_inv (snd (start_pending ok js s))"
proof (induction js arbitrary: s)
  case (Cons j js)
  show ?case
  proof (cases "target_is_busy (job_target j) (map fst (st_processes s))")
    case True
    with Cons show ?thesis by simp
  next
    case False
    obtain b s1 where b: "scheduler_start_job (ok (sj_id j)) (job_target j) j s = (b, s1)" by fastforce
    have "find_job (sj_id j) (st_jobs s) = Some j"
      using find_job_in [OF studio_invD(1) [OF Cons.prems(1)]] Cons.prems(2) by simp
    from studio_inv_start_job [OF Cons.prems(1) this refl refl False, of "ok (sj_id j)"]
    have "studio_inv s1" "st_jobs s1 = st_jobs s"
      using b scheduler_start_job_rows [of "ok (sj_id j)" "job_target j" j s] by simp_all
    with Cons.IH Cons.prems(2) False b show ?thesis by (cases b) simp_all
  qed
qed simp

lemma set_pending: "set (get_pending_jobs_by_type ty rows) = {j \<in> set rows. job_type j = ty \<and> sj_status j = J_PENDING}"
  by (auto simp: get_pending_jobs_by_type_def)

lemma studio_inv_jobs_eq: "studio_inv s \<Longrightarrow> st_jobs s' = st_jobs s \<Longrightarrow> st_processes s' = st_processes s \<Longrightarrow> studio_inv s'"
  by (simp add: studio_inv_def active_ids_def)

lemma import_target: "job_type j = DATASET_IMPORT \<Longrightarrow> job_target j = ''dataset_import''"
  by (auto simp: job_type_def job_target_def split: job_payload.splits)

lemma import_not_remote: "\<not> starts_with ''remote:'' ''dataset_import''"
  by code_simp

lemma claim_import_found:
  assumes "claim_pending_dataset_import_job now rows0 = (Some i, rows)"
  shows "find_job (sj_id i) rows = Some i"
proof -
  from assms obtain k where "find_job k rows = Some i"
    by (auto simp: claim_pending_dataset_import_job_def Let_def split: list.splits)
  with find_job_id show ?thesis by blast
qed

lemma studio_inv_schedule: "studio_inv s \<Longrightarrow> studio_inv (snd (schedule_jobs ok now s))"
proof -
  assume s: "studio_inv s"
  obtain b s1 where b: "start_pending ok (get_pending_jobs_by_type TRAINING (st_jobs s)) s = (b, s1)" by fastforce
  have s1: "studio_inv s1"
    using studio_inv_start_pending [OF s, of "get_pending_jobs_by_type TRAINING (st_jobs s)" ok] b
    by (auto simp: set_pending)
  obtain j rows where c: "claim_pending_dataset_import_job now (st_jobs s1) = (j, rows)" by fastforce
  have s2: "studio_inv (s1\<lparr>st_jobs := rows\<rparr>)"
    using studio_inv_rows [OF s1, of rows] rows_move_claim_import [OF studio_invD(1) [OF s1], of "held_jobs s1" now] c
    by simp
  have "studio_inv (snd (scheduler_start_job (ok (sj_id i)) ''dataset_import'' i (s1\<lparr>st_jobs := rows\<rparr>)))"
    if i: "j = Some i" "job_type i = DATASET_IMPORT" "''dataset_import'' \<notin> fst ` set (st_processes s1)" for i
  proof (rule studio_inv_start_job [OF s2])
    have "find_job (sj_id i) rows = Some i"
      using claim_import_found [of now "st_jobs s1"] c i(1) by simp
    then show "find_job (sj_id i) (st_jobs (s1\<lparr>st_jobs := rows\<rparr>)) = Some i" by simp
    show "\<not> target_is_busy ''dataset_import'' (map fst (st_processes (s1\<lparr>st_jobs := rows\<rparr>)))"
      using i(3) by (simp add: target_is_busy_def import_not_remote)
  qed (simp_all add: import_target i)
  with s1 s2 b c show ?thesis
    by (auto simp: schedule_jobs_def split: option.splits bool.splits)
qed

lemma active_filter: "active_ids (s\<lparr>st_processes := filter P (st_processes s)\<rparr>) = map (\<lambda>(t, p). pr_job p) (filter P (st_processes s))"
  by (simp add: active_ids_def)

lemma one_process:
  assumes "studio_inv s" and "(t, p) \<in> set (st_processes s)" and "(u, q) \<in> set (st_processes s)"
    and "pr_job p = pr_job q"
  shows "t = u \<and> p = q"
proof -
  have "inj_on (\<lambda>(t, p). pr_job p) (set (st_processes s))"
    using studio_invD(3) [OF assms(1)] by (simp add: active_ids_def distinct_map)
  from inj_onD [OF this, of "(t, p)" "(u, q)"] assms show ?thesis by simp
qed

lemma reaped_not_held:
  assumes s: "studio_inv s" and tp: "(t, p) \<in> set (st_processes s)"
  shows "pr_job p \<notin> set (active_ids (s\<lparr>st_processes := filter (\<lambda>(u, q). u \<noteq> t) (st_processes s)\<rparr>))"
proof
  assume "pr_job p \<in> set (active_ids (s\<lparr>st_processes := filter (\<lambda>(u, q). u \<noteq> t) (st_processes s)\<rparr>))"
  then obtain u q where q: "(u, q) \<in> set (st_processes s)" "u \<noteq> t" "pr_job q = pr_job p"
    by (auto simp: active_ids_def)
  have "distinct (map (\<lambda>(t, p). pr_job p) (st_processes s))"
    using studio_invD(3) [OF s] by (simp add: active_ids_def)
  with tp q show False
    by (auto simp: distinct_map inj_on_def)
qed

lemma studio_inv_reap_process:
  assumes s: "studio_inv s" and tp: "(t, p) \<in> set (st_processes s)"
  shows "studio_inv (reap_process now t p s)"
proof -
  let ?s1 = "s\<lparr>st_processes := filter (\<lambda>(u, q). u \<noteq> t) (st_processes s)\<rparr>"
  let ?fail = "snd (update_job_status (pr_job p) J_FAILED
      (Some ''Training worker exited before completing the job'') None None now (st_jobs s))"
  have s1: "studio_inv ?s1" by (rule studio_inv_filter [OF s])
  have "pr_job p \<notin> held_jobs ?s1"
    using reaped_not_held [OF s tp] held_active by blast
  from studio_inv_rows [OF s1, of ?fail] rows_move_update_status [OF _ disjI1 [OF this]]
  have s2: "studio_inv (?s1\<lparr>st_jobs := ?fail\<rparr>)"
    using studio_invD(1) [OF s1] by simp
  have s3: "studio_inv (s\<lparr>st_jobs := rows, st_cancel := c,
      st_processes := filter (\<lambda>(u, q). u \<noteq> t) (st_processes s)\<rparr>)"
    if "rows = st_jobs s \<or> rows = ?fail" for rows c
    using that
  proof
    assume "rows = st_jobs s"
    then show ?thesis by (intro studio_inv_jobs_eq [OF s1]) simp_all
  next
    assume "rows = ?fail"
    then show ?thesis by (intro studio_inv_jobs_eq [OF s2]) simp_all
  qed
  show ?thesis
    unfolding reap_process_def Let_def
    by (rule studio_inv_recover, rule s3) (simp split: option.split)
qed

lemma reap_process_processes:
  "st_processes (reap_process now t p s) = filter (\<lambda>(u, q). u \<noteq> t) (st_processes s)"
  by (simp add: reap_process_def Let_def)

lemma studio_inv_reap_all:
  "studio_inv s \<Longrightarrow> distinct (map fst ps) \<Longrightarrow> set ps \<subseteq> set (st_processes s) \<Longrightarrow> studio_inv (reap_all now ps s)"
proof (induction ps arbitrary: s)
  case (Cons tp ps)
  obtain t p where tp: "tp = (t, p)" by (cases tp)
  have "set ps \<subseteq> set (st_processes (reap_process now t p s))"
    using Cons.prems tp by (force simp: reap_process_processes)
  with Cons show ?case
    by (auto simp: tp intro: studio_inv_reap_process)
qed simp

lemma studio_inv_reap: "studio_inv s \<Longrightarrow> studio_inv (reap_processes now s)"
  using studio_inv_reap_all [of s "st_processes s" now] studio_invD(5) [of s]
  by (simp add: reap_processes_def drop_unassigned_def)

lemma studio_inv_cancel_event [simp]: "studio_inv (request_cancel_event j s) = studio_inv s"
  by (simp add: request_cancel_event_def)

lemma import_not_held:
  assumes s: "studio_inv s" and row: "find_job i (st_jobs s) = Some j" and ty: "job_type j = DATASET_IMPORT"
  shows "i \<notin> held_jobs s"
proof
  assume "i \<in> held_jobs s"
  then obtain t p where "(t, p) \<in> set (st_processes s)" "pr_job p = i" "working_copy (pr_stage p) \<noteq> None"
    by (auto simp: held_jobs_def)
  with studio_invD(4) [OF s this(1)] row ty show False
    by (auto simp: process_ok_def kind_def)
qed

lemma studio_inv_interrupt_rest:
  assumes s: "studio_inv s" and j: "find_job (sj_id j) (st_jobs s) = Some row" "job_type row = job_type j"
  shows "studio_inv (snd (interrupt_rest j now s))"
proof -
  have t: "studio_inv (s\<lparr>st_jobs := snd (transition_pending_train_job (sj_id j) J_CANCELED now (st_jobs s))\<rparr>)"
    by (rule studio_inv_rows [OF s rows_move_transition [OF studio_invD(1) [OF s]]])
  have u: "studio_inv (s\<lparr>st_jobs := snd (update_job_status (sj_id j) J_CANCELED None None None now (st_jobs s))\<rparr>)"
    if "job_type j \<noteq> TRAINING"
  proof (rule studio_inv_rows [OF s rows_move_update_status [OF studio_invD(1) [OF s]]])
    have "job_type row = DATASET_IMPORT" using j(2) that by (cases "job_type j") simp_all
    from import_not_held [OF s j(1) this] show "sj_id j \<notin> held_jobs s \<or> J_CANCELED = J_RUNNING" ..
  qed
  show ?thesis
    using s t u unfolding interrupt_rest_def
    by (auto split: prod.splits sum.splits option.splits)
qed

lemma remote_state_row:
  "find_job i (snd (update_remote_job_state k issue c rid snap rows)) = Some j' \<Longrightarrow>
   \<exists>j. find_job i rows = Some j \<and> job_type j' = job_type j \<and> sj_status j' = sj_status j"
  by (auto simp: update_remote_job_state_def Let_def find_job_update_sel split: option.splits job_payload.splits if_splits)

lemma remote_state_present:
  "find_job i rows = Some j \<Longrightarrow> \<exists>j'. find_job i (snd (update_remote_job_state k issue c rid snap rows)) = Some j'
     \<and> job_type j' = job_type j \<and> sj_status j' = sj_status j"
  by (auto simp: update_remote_job_state_def Let_def find_job_update_sel split: option.splits job_payload.splits)

lemma studio_inv_interrupt:
  assumes s: "studio_inv s"
  shows "studio_inv (snd (interrupt_job aws i now s))"
proof (cases "find_job i (st_jobs s)")
  case None
  with s show ?thesis by (simp add: interrupt_job_def)
next
  case (Some j)
  have id: "sj_id j = i" by (rule find_job_id [OF Some])
  obtain r rows where u: "update_remote_job_state i None (Some True) None None (st_jobs s) = (r, rows)" by fastforce
  have s1: "studio_inv (s\<lparr>st_jobs := rows\<rparr>)"
    using studio_inv_rows [OF s rows_move_remote_state [OF studio_invD(1) [OF s]]] u by (metis snd_conv)
  obtain j' where "find_job i rows = Some j'" "job_type j' = job_type j"
    using remote_state_present [OF Some, of i None "Some True" None None] u by auto
  then have r1: "studio_inv (snd (interrupt_rest j now (s\<lparr>st_jobs := rows\<rparr>)))"
    using studio_inv_interrupt_rest [OF s1, of j] id by simp
  have r0: "studio_inv (snd (interrupt_rest j now s))"
    using studio_inv_interrupt_rest [OF s, of j] Some id by simp
  show ?thesis
    using Some u s s1 r0 r1 by (auto simp: interrupt_job_def Let_def split: sum.splits)
qed

lemma process_target: "studio_inv s \<Longrightarrow> map_of (st_processes s) t = Some p \<Longrightarrow> (t, p) \<in> set (st_processes s)"
  by (rule map_of_SomeD)

lemma unique_process:
  "studio_inv s \<Longrightarrow> map_of (st_processes s) t = Some p \<Longrightarrow> (t, q) \<in> set (st_processes s) \<Longrightarrow> q = p"
  using studio_invD(5) map_of_eq_Some_iff by fastforce

lemma studio_inv_claim:
  assumes s: "studio_inv s" and tp: "map_of (st_processes s) t = Some p" and L: "pr_stage p = Launched"
  shows "studio_inv (worker_claim t p now s)"
proof (cases "st_stop s")
  case True
  with studio_inv_exit [OF s] show ?thesis by (simp add: worker_claim_def)
next
  case False
  have d: "studio_ids_distinct (st_jobs s)" by (rule studio_invD(1) [OF s])
  let ?rows = "snd (transition_pending_train_job (pr_job p) J_RUNNING now (st_jobs s))"
  have s1: "studio_inv (s\<lparr>st_jobs := ?rows\<rparr>)"
    by (rule studio_inv_rows [OF s rows_move_transition [OF d]])
  have run: "J_RUNNING \<in> {J_RUNNING, J_CANCELED}" by simp
  note res = transition_result [OF run d, of "pr_job p" now]
  have ok: "process_ok (st_jobs s) (t, p)" by (rule studio_invD(4) [OF s process_target [OF s tp]])
  show ?thesis
  proof (cases "\<exists>j. find_job (pr_job p) (st_jobs s) = Some j \<and> transition_selects J_RUNNING j")
    case True
    then obtain j where j: "find_job (pr_job p) (st_jobs s) = Some j" "transition_selects J_RUNNING j" by blast
    let ?j = "transition_change J_RUNNING now j"
    have tr: "transition_pending_train_job (pr_job p) J_RUNNING now (st_jobs s) = (Inr (Some ?j), ?rows)"
      using res j by (simp add: prod_eq_iff)
    have row: "find_job (pr_job p) ?rows = Some ?j"
      using find_job_transition [OF run, of "pr_job p" "pr_job p" now "st_jobs s"] j by simp
    have "studio_inv (set_stage t (Preparing ?j) (s\<lparr>st_jobs := ?rows\<rparr>))"
    proof (rule studio_inv_set_stage [OF s1])
      fix q assume "(t, q) \<in> set (st_processes (s\<lparr>st_jobs := ?rows\<rparr>))"
      then have "q = p" using unique_process [OF s tp] by simp
      then show "process_ok (st_jobs (s\<lparr>st_jobs := ?rows\<rparr>)) (t, q\<lparr>pr_stage := Preparing ?j\<rparr>)"
        using ok j row find_job_id [OF j(1)]
        by (auto simp: process_ok_def working_copy_def L transition_status [OF run])
    qed
    then show ?thesis unfolding worker_claim_def by (subst tr) (simp add: False)
  next
    case none: False
    then have tr: "transition_pending_train_job (pr_job p) J_RUNNING now (st_jobs s) = (Inr None, ?rows)"
      using res by (cases "find_job (pr_job p) (st_jobs s)") (auto simp: prod_eq_iff)
    show ?thesis unfolding worker_claim_def by (subst tr) (simp add: False studio_inv_exit [OF s1])
  qed
qed

lemma working_process:
  assumes s: "studio_inv s" and st: "stage_of s t = Some st" and c: "working_copy st = Some j"
  obtains p where "map_of (st_processes s) t = Some p" "pr_stage p = st" "(t, p) \<in> set (st_processes s)"
    "pr_job p = sj_id j" "kind j = (TRAINING, t)" "pr_type p = TRAINING" "sj_id j \<in> held_jobs s"
    "\<And>row. find_job (sj_id j) (st_jobs s) = Some row \<Longrightarrow> kind row = kind j \<and> sj_status row = J_RUNNING"
proof -
  from st obtain p where p: "map_of (st_processes s) t = Some p" "pr_stage p = st"
    by (auto simp: stage_of_def)
  have tp: "(t, p) \<in> set (st_processes s)" by (rule process_target [OF s p(1)])
  with c p have h: "pr_job p \<in> held_jobs s" by (auto simp: held_jobs_def)
  from studio_invD(4) [OF s tp] c p(2) have "pr_job p = sj_id j" "kind j = (TRAINING, t)" "pr_type p = TRAINING"
    "\<And>row. find_job (pr_job p) (st_jobs s) = Some row \<Longrightarrow> kind row = kind j \<and> sj_status row = J_RUNNING"
    by (auto simp: process_ok_def)
  with that p tp h show thesis by simp
qed

lemma studio_inv_set_training:
  assumes s: "studio_inv s" and st: "stage_of s t = Some st" and c: "working_copy st = Some j"
    and j': "sj_id j' = sj_id j" "kind j' = kind j"
  shows "studio_inv (set_stage t (Training j') s)"
proof (rule studio_inv_set_stage [OF s])
  fix q assume q: "(t, q) \<in> set (st_processes s)"
  obtain p where p: "map_of (st_processes s) t = Some p" "pr_job p = sj_id j" "kind j = (TRAINING, t)" "pr_type p = TRAINING"
    "\<And>row. find_job (sj_id j) (st_jobs s) = Some row \<Longrightarrow> kind row = kind j \<and> sj_status row = J_RUNNING"
    using working_process [OF s st c] by metis
  have "q = p" by (rule unique_process [OF s p(1) q])
  then show "process_ok (st_jobs s) (t, q\<lparr>pr_stage := Training j'\<rparr>)"
    using p j' by (auto simp: process_ok_def working_copy_def)
qed

lemma started_copy_simps:
  "sj_payload j = TrainP p \<Longrightarrow> target_key q = target_key p \<Longrightarrow> kind (started_copy j q now) = kind j"
  "sj_id (started_copy j q now) = sj_id j" "sj_status (started_copy j q now) = J_RUNNING"
  by (simp_all add: started_copy_def kind_train_payload no_change_def) (simp add: apply_change_def)

lemma studio_inv_start_training:
  assumes s: "studio_inv s" and st: "stage_of s t = Some (Preparing j)"
  shows "studio_inv (start_training t j snap now s)"
proof (cases "sj_payload j")
  case (ImportP x)
  with studio_inv_exit [OF s] show ?thesis by (simp add: start_training_def)
next
  case (TrainP p)
  show ?thesis
  proof (cases "\<not> is_remote_attached p \<and> snap = None")
    case True
    with TrainP studio_inv_exit [OF s] show ?thesis by (simp add: start_training_def)
  next
    case False
    define started where "started = started_copy j (if is_remote_attached p then p else p\<lparr>pl_snapshot_id := snap\<rparr>) now"
    have k: "kind started = kind j" "sj_id started = sj_id j" "sj_status started = J_RUNNING"
      using started_copy_simps(1) [OF TrainP] by (simp_all add: started_def started_copy_simps(2,3))
    have w: "working_copy (Preparing j) = Some j" by (simp add: working_copy_def)
    obtain q where q: "\<And>row. find_job (sj_id j) (st_jobs s) = Some row \<Longrightarrow> kind row = kind j \<and> sj_status row = J_RUNNING"
      using working_process [OF s st w] by metis
    have same: "apply_change no_change x = x" for x
      by (simp add: apply_change_def no_change_def keep_or_set_def)
    have "rows_move (held_jobs s) (st_jobs s) (update_job started no_change (st_jobs s))"
      unfolding update_job_def same
    proof (rule rows_move_update_sel [OF studio_invD(1) [OF s]])
      fix x assume "x \<in> set (st_jobs s)" "sj_id x = sj_id started"
      then have "find_job (sj_id j) (st_jobs s) = Some x"
        using find_job_in [OF studio_invD(1) [OF s]] k(2) by metis
      then show "kind started = kind x \<and> (sj_id x \<in> held_jobs s \<and> sj_status x = J_RUNNING \<longrightarrow> sj_status started = J_RUNNING)"
        using q k by simp
    qed simp
    from studio_inv_rows [OF s this]
    have s1: "studio_inv (s\<lparr>st_jobs := update_job started no_change (st_jobs s)\<rparr>)" .
    have "studio_inv (set_stage t (Training started) (s\<lparr>st_jobs := update_job started no_change (st_jobs s)\<rparr>))"
      by (rule studio_inv_set_training [OF s1 _ w]) (use st k in \<open>simp_all add: stage_of_def\<close>)
    then show ?thesis
      using False by (simp only: start_training_def TrainP job_payload.case if_False Let_def started_def)
  qed
qed

lemma training_copy: "working_copy (Training j) = Some j"
  by (simp add: working_copy_def)

lemma studio_inv_progress:
  assumes s: "studio_inv s"
  shows "studio_inv (training_progress j p m e now s)"
  unfolding training_progress_def
  by (rule studio_inv_rows [OF s rows_move_update_status [OF studio_invD(1) [OF s]]]) simp

lemma rows_move_payload:
  assumes "studio_ids_distinct rows" and "\<And>row. find_job k rows = Some row \<Longrightarrow> kind (row\<lparr>sj_payload := p\<rparr>) = kind row"
  shows "rows_move held rows (snd (update_job_payload k p None None None None now rows))"
proof (cases "find_job k rows")
  case None
  with rows_move_refl [OF assms(1)] show ?thesis by (simp add: update_job_payload_def)
next
  case (Some row)
  have "rows_move held rows (modify_job k \<lparr>chg_status = None, chg_message = None, chg_progress = None,
      chg_extra_info = None, chg_payload = Some p, chg_start_time = None, chg_end_time = None\<rparr> rows)"
    unfolding modify_job_def
  proof (rule rows_move_update_sel [OF assms(1)])
    fix x assume "x \<in> set rows" "sj_id x = k"
    then have "x = row" using find_job_in [OF assms(1)] Some by (metis option.inject)
    then show "kind (apply_change \<lparr>chg_status = None, chg_message = None, chg_progress = None,
        chg_extra_info = None, chg_payload = Some p, chg_start_time = None, chg_end_time = None\<rparr> x) = kind x
        \<and> (sj_id x \<in> held \<and> sj_status x = J_RUNNING \<longrightarrow> sj_status (apply_change \<lparr>chg_status = None, chg_message = None,
            chg_progress = None, chg_extra_info = None, chg_payload = Some p, chg_start_time = None, chg_end_time = None\<rparr> x) = J_RUNNING)"
      using assms(2) [OF Some] by (simp add: apply_change_def kind_def job_type_def job_target_def)
  qed simp
  with Some show ?thesis by (simp add: update_job_payload_def Let_def end_time_of_def)
qed

lemma studio_inv_remote_id:
  assumes s: "studio_inv s" and st: "stage_of s t = Some (Training j)"
  shows "studio_inv (persist_remote_job_id t j rid now s)"
proof (cases "sj_payload j")
  case (ImportP x)
  with s show ?thesis by (simp add: persist_remote_job_id_def)
next
  case (TrainP p)
  let ?p1 = "p\<lparr>pl_remote_job_id := Some rid\<rparr>"
  let ?rows = "if batch_fields j \<noteq> None
    then snd (update_remote_job_state (sj_id j) None None (Some rid) (pl_snapshot_id p) (st_jobs s))
    else snd (update_job_payload (sj_id j) (TrainP ?p1) None None None None now (st_jobs s))"
  have k: "kind (j\<lparr>sj_payload := TrainP ?p1\<rparr>) = kind j" by (rule kind_train_payload [OF TrainP]) simp
  have q: "kind row = kind j" if "find_job (sj_id j) (st_jobs s) = Some row" for row
    using working_process [OF s st training_copy] that by metis
  have "kind (row\<lparr>sj_payload := TrainP ?p1\<rparr>) = kind row" if "find_job (sj_id j) (st_jobs s) = Some row" for row
    using q [OF that] k by (simp add: kind_def job_type_def job_target_def)
  then have "rows_move (held_jobs s) (st_jobs s) ?rows"
    using rows_move_remote_state [OF studio_invD(1) [OF s]] rows_move_payload [OF studio_invD(1) [OF s]] by simp
  from studio_inv_rows [OF s this] have s1: "studio_inv (s\<lparr>st_jobs := ?rows\<rparr>)" .
  have "studio_inv (set_stage t (Training (j\<lparr>sj_payload := TrainP ?p1\<rparr>)) (s\<lparr>st_jobs := ?rows\<rparr>))"
    by (rule studio_inv_set_training [OF s1 _ training_copy]) (use st k in \<open>simp_all add: stage_of_def\<close>)
  then show ?thesis unfolding persist_remote_job_id_def TrainP Let_def job_payload.case .
qed

lemma studio_inv_auth:
  assumes s: "studio_inv s" and st: "stage_of s t = Some (Training j)"
  shows "studio_inv (report_authentication_issue t j issue s)"
proof (cases "\<exists>p. sj_payload j = TrainP p \<and> pl_target p \<noteq> Local")
  case False
  with s show ?thesis by (auto simp: report_authentication_issue_def split: job_payload.split)
next
  case True
  then obtain p where p: "sj_payload j = TrainP p" "pl_target p \<noteq> Local" by blast
  let ?rows = "snd (update_remote_job_state (sj_id j) (Some issue) None None None (st_jobs s))"
  let ?j = "j\<lparr>sj_payload := TrainP (set_remote (\<lambda>r. r\<lparr>authentication_issue := issue\<rparr>) p)\<rparr>"
  have s1: "studio_inv (s\<lparr>st_jobs := ?rows\<rparr>)"
    by (rule studio_inv_rows [OF s rows_move_remote_state [OF studio_invD(1) [OF s]]])
  have "kind ?j = kind j" by (rule kind_train_payload [OF p(1)]) simp
  then have "studio_inv (set_stage t (Training ?j) (s\<lparr>st_jobs := ?rows\<rparr>))"
    by (intro studio_inv_set_training [OF s1 _ training_copy]) (use st in \<open>simp_all add: stage_of_def\<close>)
  then show ?thesis using p by (simp add: report_authentication_issue_def)
qed

lemma finish_change_payload [simp]: "chg_payload (finish_change out b now) = None"
  by (simp add: finish_change_def split: training_outcome.split)

text \<open>The last write of a worker: its process exits with it, so its job is not in work any more.\<close>

lemma studio_inv_finish:
  assumes s: "studio_inv s" and st: "stage_of s t = Some (Training j)"
  shows "studio_inv (finish_training t j cb out ok now s)"
proof -
  let ?s0 = "set_stage t Exited s"
  have s0: "studio_inv ?s0" by (rule studio_inv_exit [OF s])
  obtain p where p: "(t, p) \<in> set (st_processes s)" "pr_job p = sj_id j"
    using working_process [OF s st training_copy] by metis
  have "sj_id j \<notin> held_jobs ?s0"
  proof
    assume "sj_id j \<in> held_jobs ?s0"
    then obtain u q where q: "(u, q) \<in> set (st_processes s)" "u \<noteq> t" "pr_job q = sj_id j"
      by (auto simp: held_jobs_def set_stage_def working_copy_def split: if_splits)
    with one_process [OF s p(1) q(1)] p(2) show False by simp
  qed
  then have "rows_move (held_jobs ?s0) (st_jobs ?s0) (modify_job (sj_id j) c (st_jobs s))" if "chg_payload c = None" for c
    using rows_move_modify [OF _ that] studio_invD(1) [OF s] by simp
  from studio_inv_rows [OF s0 this]
  have m: "studio_inv (?s0\<lparr>st_jobs := modify_job (sj_id j) c (st_jobs s)\<rparr>)" if "chg_payload c = None" for c
    using that by simp
  show ?thesis
    unfolding finish_training_def Let_def
    by (auto simp: set_stage_def intro: studio_inv_jobs_eq [OF m [OF finish_change_payload]])
qed

lemma studio_inv_submit:
  assumes s: "studio_inv s" and new: "fresh_id i s"
  shows "studio_inv (s\<lparr>st_jobs := snd (submit_train_job env i now p (st_jobs s))\<rparr>)"
proof -
  let ?rows = "snd (submit_train_job env i now p (st_jobs s))"
  have "?rows = st_jobs s \<or> (\<exists>q. ?rows = st_jobs s @ [new_train_job i now q] \<and> find_job i (st_jobs s) = None)"
    by (auto simp: submit_train_job_def split: sum.splits)
  then show ?thesis
  proof
    assume "?rows = st_jobs s"
    with s show ?thesis by (intro studio_inv_jobs_eq [OF s]) simp_all
  next
    assume "\<exists>q. ?rows = st_jobs s @ [new_train_job i now q] \<and> find_job i (st_jobs s) = None"
    then obtain q where q: "?rows = st_jobs s @ [new_train_job i now q]" "find_job i (st_jobs s) = None" by blast
    have id: "sj_id (new_train_job i now q) = i" by (simp add: new_train_job_def)
    have "find_job k ?rows = find_job k (st_jobs s)" if "k \<noteq> i" for k
      using that by (simp add: q(1) find_job_def row_get_append id split: option.split)
    then have "process_ok ?rows (t, r)" if "(t, r) \<in> set (st_processes s)" for t r
    proof -
      have "pr_job r \<noteq> i" using new that by (force simp: fresh_id_def active_ids_def)
      with \<open>\<And>k. k \<noteq> i \<Longrightarrow> find_job k ?rows = find_job k (st_jobs s)\<close> studio_invD(4) [OF s that]
      show ?thesis by (simp add: process_ok_def)
    qed
    moreover have "studio_ids_distinct ?rows"
      using studio_invD(1) [OF s] q(2) by (simp add: q(1) studio_ids_distinct_def id find_job_def row_get_None_iff)
    ultimately show ?thesis using s by (auto simp: studio_inv_def active_ids_def)
  qed
qed

lemma studio_inv_import_status:
  assumes s: "studio_inv s" and p: "map_of (st_processes s) t = Some p" "pr_stage p = Importing"
  shows "studio_inv (s\<lparr>st_jobs := snd (update_job_status (pr_job p) st None None None now (st_jobs s))\<rparr>)"
proof (rule studio_inv_rows [OF s rows_move_update_status [OF studio_invD(1) [OF s]]])
  have tp: "(t, p) \<in> set (st_processes s)" by (rule process_target [OF s p(1)])
  have "pr_job p \<notin> held_jobs s"
  proof
    assume "pr_job p \<in> held_jobs s"
    then obtain u q where "(u, q) \<in> set (st_processes s)" "pr_job p = pr_job q" "working_copy (pr_stage q) \<noteq> None"
      by (auto simp: held_jobs_def)
    with one_process [OF s tp this(1,2)] p(2) show False by (simp add: working_copy_def)
  qed
  then show "pr_job p \<notin> held_jobs s \<or> st = J_RUNNING" ..
qed

lemma studio_inv_shutdown: "studio_inv s \<Longrightarrow> studio_inv (recover_jobs now (shutdown_processes s))"
  by (rule studio_inv_recover) (simp add: shutdown_processes_def studio_inv_def exclusive_def active_ids_def)

lemma studio_inv_step: "studio_inv s \<Longrightarrow> studio_inv (studio_step s e)"
proof (cases e)
  case (DeleteStudioJob k)
  assume s: "studio_inv s"
  with studio_inv_rows [OF s rows_move_delete [OF studio_invD(1) [OF s]]] DeleteStudioJob show ?thesis by simp
next
  case (WorkerStart t snap now)
  assume "studio_inv s"
  with WorkerStart studio_inv_start_training show ?thesis by (auto split: option.split stage.split)
next
  case (WorkerFinish t cb out ok now)
  assume "studio_inv s"
  with WorkerFinish studio_inv_finish show ?thesis by (auto split: option.split stage.split)
qed (auto simp: studio_inv_submit studio_inv_interrupt studio_inv_schedule studio_inv_reap studio_inv_recover
    studio_inv_claim studio_inv_progress studio_inv_remote_id studio_inv_auth studio_inv_exit
    studio_inv_import_status studio_inv_shutdown split: option.splits stage.splits)

interpretation studio_machine: step_invariant studio_step studio_inv
  by unfold_locales (rule studio_inv_step)

section \<open>How the state of a training job may move\<close>

text \<open>An ended job keeps its state; only a worker that may complete its job completes it.\<close>

definition moves :: "bool \<Rightarrow> JobStatus \<Rightarrow> JobStatus \<Rightarrow> bool" where
  "moves may_complete st st' \<longleftrightarrow>
     (j_terminal st \<longrightarrow> st' = st) \<and> (st' = J_COMPLETED \<longrightarrow> st = J_COMPLETED \<or> may_complete)"

definition row_moves :: "bool \<Rightarrow> string \<Rightarrow> jobs \<Rightarrow> jobs \<Rightarrow> bool" where
  "row_moves b i rows rows' \<longleftrightarrow>
     (\<forall>j'. find_job i rows' = Some j' \<longrightarrow>
        (\<exists>j. find_job i rows = Some j \<and> job_type j' = job_type j
           \<and> (job_type j = TRAINING \<longrightarrow> moves b (sj_status j) (sj_status j'))))"

lemma moves_refl [simp]: "moves b st st"
  by (simp add: moves_def)

lemma moves_trans: "moves b st st' \<Longrightarrow> moves b st' st'' \<Longrightarrow> moves b st st''"
  by (auto simp: moves_def)

lemma moves_from_open:
  "\<not> j_terminal st \<Longrightarrow> st' \<noteq> J_COMPLETED \<or> b \<Longrightarrow> moves b st st'"
  by (auto simp: moves_def)

lemma row_moves_refl [simp]: "row_moves b i rows rows"
  by (simp add: row_moves_def)

lemma row_moves_trans: "row_moves b i rows rows' \<Longrightarrow> row_moves b i rows' rows'' \<Longrightarrow> row_moves b i rows rows''"
  unfolding row_moves_def by (metis moves_trans)

lemma row_moves_update_sel:
  assumes "\<And>j. p j \<Longrightarrow> sj_id (f j) = sj_id j"
    and "\<And>j. find_job i rows = Some j \<Longrightarrow> p j \<Longrightarrow>
      job_type (f j) = job_type j \<and> (job_type j = TRAINING \<longrightarrow> moves b (sj_status j) (sj_status (f j)))"
  shows "row_moves b i rows (sql_update p f rows)"
  using assms(2) by (auto simp: row_moves_def find_job_update_sel [OF assms(1)])

lemma row_moves_modify:
  assumes "chg_payload c = None"
    and "\<And>j. find_job i rows = Some j \<Longrightarrow> k = i \<Longrightarrow> job_type j = TRAINING \<Longrightarrow>
      moves b (sj_status j) (case chg_status c of None \<Rightarrow> sj_status j | Some st \<Rightarrow> st)"
  shows "row_moves b i rows (modify_job k c rows)"
  using assms by (auto simp: row_moves_def studio_table.lookup_modify apply_change_def job_type_def)

lemma row_moves_status:
  assumes "\<And>j. find_job i rows = Some j \<Longrightarrow> k = i \<Longrightarrow> job_type j = TRAINING \<Longrightarrow> moves b (sj_status j) st"
  shows "row_moves b i rows (snd (update_job_status k st m p e now rows))"
  unfolding snd_update_job_status
  by (rule row_moves_modify) (use assms in \<open>auto simp: status_change_def\<close>)

lemma row_moves_transition: "row_moves b i rows (snd (transition_pending_train_job k st now rows))"
proof (cases "st \<in> {J_RUNNING, J_CANCELED}")
  case True
  show ?thesis unfolding transition_unfold [OF True] snd_conv
    using True by (intro row_moves_update_sel)
      (auto simp: transition_status [OF True] transition_selects_def j_terminal_def intro!: moves_from_open)
qed (simp add: transition_pending_train_job_def)

lemma row_moves_remote_state: "row_moves b i rows (snd (update_remote_job_state k issue c rid snap rows))"
  by (auto simp: row_moves_def dest!: remote_state_row)

lemma row_moves_delete: "row_moves b i rows (snd (delete_studio_job k rows))"
  by (auto simp: delete_studio_job_def row_moves_def studio_table.lookup_remove split: option.splits if_splits)

lemma row_moves_claim_import: "row_moves b i rows (snd (claim_pending_dataset_import_job now rows))"
proof -
  have "row_moves b i rows (sql_update (\<lambda>k. sj_id k = x \<and> sj_status k = J_PENDING
      \<and> import_step_of k \<in> {Some QUEUED_FOR_DETECTION, Some QUEUED_FOR_IMPORT})
      (\<lambda>k. k\<lparr>sj_status := J_RUNNING, sj_start_time := Some now\<rparr>) rows)" for x
    by (rule row_moves_update_sel) (auto simp: job_type_def import_step_of_def split: job_payload.splits)
  then show ?thesis
    by (simp add: claim_pending_dataset_import_job_def Let_def split: list.split)
qed

lemma find_update_status_other:
  "k \<noteq> i \<Longrightarrow> find_job i (snd (update_job_status k st m p e now rows)) = find_job i rows"
  by (simp add: find_job_update_status)

text \<open>Orphan recovery writes each running job once.\<close>

lemma abort_orphans_other:
  "i \<notin> sj_id ` set js \<Longrightarrow> find_job i (abort_orphans now ex js rows) = find_job i rows"
  by (induction js arbitrary: rows) (auto simp: find_update_status_other)

lemma abort_orphans_at:
  assumes "distinct (map sj_id js)" and "j \<in> set js"
  shows "find_job (sj_id j) (abort_orphans now ex js rows) =
    (if sj_id j \<in> set ex then find_job (sj_id j) rows
     else map_option (apply_change (if reattachable_remote_job_id j \<noteq> None
        then status_change J_PENDING (Some ''Reconnecting to remote training job after restart'') None None now
        else status_change J_FAILED (Some ''Job aborted due to application shutdown'') None None now))
       (find_job (sj_id j) rows))"
  using assms
proof (induction js arbitrary: rows)
  case (Cons k js)
  show ?case
  proof (cases "j = k")
    case True
    with Cons.prems have "sj_id j \<notin> sj_id ` set js" by auto
    with True show ?thesis by (simp add: abort_orphans_other find_job_update_status)
  next
    case False
    with Cons.prems have "j \<in> set js" "distinct (map sj_id js)" "sj_id k \<noteq> sj_id j" by auto
    with Cons.IH show ?thesis by (simp add: find_update_status_other)
  qed
qed simp

lemma fail_imports_other:
  "i \<notin> sj_id ` set js \<Longrightarrow> find_job i (fail_imports now ex js rows) = find_job i rows"
  by (induction js arbitrary: rows) (auto simp: find_update_status_other)

lemma fail_imports_at:
  assumes "distinct (map sj_id js)" and "j \<in> set js"
  shows "find_job (sj_id j) (fail_imports now ex js rows) =
    (if sj_id j \<in> set ex then find_job (sj_id j) rows
     else map_option (apply_change (status_change J_FAILED
        (Some ''Dataset import worker stopped before completing the job'') None None now)) (find_job (sj_id j) rows))"
  using assms
proof (induction js arbitrary: rows)
  case (Cons k js)
  show ?case
  proof (cases "j = k")
    case True
    with Cons.prems have "sj_id j \<notin> sj_id ` set js" by auto
    with True show ?thesis by (simp add: fail_imports_other find_job_update_status)
  next
    case False
    with Cons.prems have "j \<in> set js" "distinct (map sj_id js)" "sj_id k \<noteq> sj_id j" by auto
    with Cons.IH show ?thesis by (simp add: find_update_status_other)
  qed
qed simp

text \<open>What recovery makes of a row.\<close>

definition recovered :: "int \<Rightarrow> string list \<Rightarrow> Job \<Rightarrow> Job" where
  "recovered now active j =
     (if sj_status j \<noteq> J_RUNNING \<or> sj_id j \<in> set active then j
      else if job_type j = DATASET_IMPORT
      then apply_change (status_change J_FAILED
             (Some ''Dataset import worker stopped before completing the job'') None None now) j
      else if reattachable_remote_job_id j \<noteq> None
      then apply_change (status_change J_PENDING
             (Some ''Reconnecting to remote training job after restart'') None None now) j
      else apply_change (status_change J_FAILED (Some ''Job aborted due to application shutdown'') None None now) j)"

lemma job_type_apply_change [simp]: "chg_payload c = None \<Longrightarrow> job_type (apply_change c j) = job_type j"
  by (simp add: job_type_def apply_change_def)

lemma distinct_filtered: "studio_ids_distinct rows \<Longrightarrow> distinct (map sj_id (filter P rows))"
  by (simp add: studio_ids_distinct_def distinct_map_filter)

lemma filtered_id:
  assumes d: "studio_ids_distinct rows" and f: "find_job i rows = Some j"
  shows "i \<in> sj_id ` set (filter P rows) \<longleftrightarrow> P j"
proof
  assume "P j"
  with f show "i \<in> sj_id ` set (filter P rows)"
    by (intro rev_image_eqI [of j]) (auto simp: find_job_def dest: row_get_SomeD)
next
  assume "i \<in> sj_id ` set (filter P rows)"
  then obtain k where k: "k \<in> set rows" "P k" "i = sj_id k" by auto
  from find_job_in [OF d k(1)] f k(3) have "k = j" by simp
  with k(2) show "P j" by simp
qed

lemma abort_orphan_row:
  assumes d: "studio_ids_distinct rows" and j: "find_job i rows = Some j"
  shows "find_job i (abort_orphan_jobs now ex rows) =
    Some (if job_type j = TRAINING then recovered now ex j else j)"
proof (cases "sj_status j = J_RUNNING \<and> job_type j = TRAINING")
  case True
  have m: "j \<in> set (filter (\<lambda>j. sj_status j = J_RUNNING \<and> job_type j = TRAINING) rows)" "sj_id j = i"
    using j True by (auto simp: find_job_def dest: row_get_SomeD)
  from abort_orphans_at [OF distinct_filtered [OF d] m(1), of now ex rows] m(2) j True show ?thesis
    by (simp add: abort_orphan_jobs_def recovered_def)
next
  case False
  then have "i \<notin> sj_id ` set (filter (\<lambda>j. sj_status j = J_RUNNING \<and> job_type j = TRAINING) rows)"
    using filtered_id [OF d j] by simp
  from abort_orphans_other [OF this] j False show ?thesis
    by (auto simp: abort_orphan_jobs_def recovered_def)
qed

lemma recover_row:
  assumes d: "studio_ids_distinct (st_jobs s)" and j: "find_job i (st_jobs s) = Some j"
  shows "find_job i (st_jobs (recover_jobs now s)) = Some (recovered now (active_ids s) j)"
proof -
  let ?rows1 = "abort_orphan_jobs now (active_ids s) (st_jobs s)"
  let ?j1 = "if job_type j = TRAINING then recovered now (active_ids s) j else j"
  have d1: "studio_ids_distinct ?rows1"
    using rows_move_abort_orphans [OF d, of "{}"] by (simp add: abort_orphan_jobs_def rows_move_def)
  have j1: "find_job i ?rows1 = Some ?j1" by (rule abort_orphan_row [OF d j])
  have ty: "job_type ?j1 = job_type j" by (simp add: recovered_def)
  let ?sel = "\<lambda>j. sj_status j = J_RUNNING \<and> job_type j = DATASET_IMPORT"
  show ?thesis
  proof (cases "?sel ?j1")
    case True
    then have imp: "job_type j = DATASET_IMPORT" "?j1 = j" using ty by auto
    have m: "j \<in> set (filter ?sel ?rows1)" "sj_id j = i"
      using True imp j1 find_job_id [OF j] by (auto simp: find_job_def dest: row_get_SomeD)
    from fail_imports_at [OF distinct_filtered [OF d1] m(1), of now "active_ids s" ?rows1] m(2) j1 imp True
    show ?thesis by (simp add: recover_jobs_def Let_def recovered_def)
  next
    case False
    then have "i \<notin> sj_id ` set (filter ?sel ?rows1)"
      using filtered_id [OF d1 j1] by simp
    from fail_imports_other [OF this] j1 False ty show ?thesis
      by (cases "job_type j") (auto simp: recover_jobs_def Let_def recovered_def)
  qed
qed

lemma recovered_type: "job_type (recovered now ex j) = job_type j"
  by (simp add: recovered_def)

lemma recovered_moves: "moves b (sj_status j) (sj_status (recovered now ex j))"
  by (auto simp: recovered_def j_terminal_def apply_change_def status_change_def intro!: moves_from_open)

lemma row_moves_recover:
  assumes d: "studio_ids_distinct (st_jobs s)"
  shows "row_moves b i (st_jobs s) (st_jobs (recover_jobs now s))"
  unfolding row_moves_def
proof (intro allI impI)
  fix j' assume j': "find_job i (st_jobs (recover_jobs now s)) = Some j'"
  then obtain j where j: "find_job i (st_jobs s) = Some j"
    using rows_move_recover [OF d, of now] by (auto simp: rows_move_def)
  with recover_row [OF d j, of now] j' recovered_moves recovered_type
  show "\<exists>j. find_job i (st_jobs s) = Some j \<and> job_type j' = job_type j
      \<and> (job_type j = TRAINING \<longrightarrow> moves b (sj_status j) (sj_status j'))" by auto
qed

definition reaped_rows :: "int \<Rightarrow> process \<Rightarrow> studio \<Rightarrow> jobs" where
  "reaped_rows now p s =
     (case if pr_type p = TRAINING then find_job (pr_job p) (st_jobs s) else None of
        None \<Rightarrow> st_jobs s
      | Some j \<Rightarrow>
          if sj_status j = J_PENDING \<and> \<not> is_reattaching j \<and> \<not> st_stop s
          then snd (update_job_status (pr_job p) J_FAILED
                 (Some ''Training worker exited before completing the job'') None None now (st_jobs s))
          else st_jobs s)"

definition reaped_cancel :: "process \<Rightarrow> studio \<Rightarrow> (string \<Rightarrow> bool option)" where
  "reaped_cancel p s =
     (case if pr_type p = TRAINING then find_job (pr_job p) (st_jobs s) else None of
        None \<Rightarrow> (st_cancel s)(pr_job p := None)
      | Some j \<Rightarrow> if is_reattaching j then st_cancel s else (st_cancel s)(pr_job p := None))"

lemma reap_process_alt:
  "reap_process now t p s = recover_jobs now
     (s\<lparr>st_jobs := reaped_rows now p s, st_cancel := reaped_cancel p s,
        st_processes := filter (\<lambda>(u, q). u \<noteq> t) (st_processes s)\<rparr>)"
  by (simp add: reap_process_def reaped_rows_def reaped_cancel_def Let_def split: option.split)

lemma reaped_rows_distinct: "studio_ids_distinct (st_jobs s) \<Longrightarrow> studio_ids_distinct (reaped_rows now p s)"
  by (auto simp: reaped_rows_def snd_update_job_status split: option.split)

lemma row_moves_reaped: "row_moves b i (st_jobs s) (reaped_rows now p s)"
  by (auto simp: reaped_rows_def j_terminal_def split: option.split if_splits intro!: row_moves_status moves_from_open)

lemma row_moves_reap_process:
  assumes "studio_ids_distinct (st_jobs s)"
  shows "row_moves b i (st_jobs s) (st_jobs (reap_process now t p s))"
proof -
  let ?s1 = "s\<lparr>st_jobs := reaped_rows now p s, st_cancel := reaped_cancel p s,
        st_processes := filter (\<lambda>(u, q). u \<noteq> t) (st_processes s)\<rparr>"
  have "row_moves b i (reaped_rows now p s) (st_jobs (recover_jobs now ?s1))"
    using row_moves_recover [of ?s1] reaped_rows_distinct [OF assms] by simp
  from row_moves_trans [OF row_moves_reaped this] show ?thesis by (simp add: reap_process_alt)
qed

lemma row_moves_reap_all:
  "studio_inv s \<Longrightarrow> distinct (map fst ps) \<Longrightarrow> set ps \<subseteq> set (st_processes s) \<Longrightarrow>
   row_moves b i (st_jobs s) (st_jobs (reap_all now ps s))"
proof (induction ps arbitrary: s)
  case (Cons tp ps)
  obtain t p where tp: "tp = (t, p)" by (cases tp)
  have sub: "set ps \<subseteq> set (st_processes (reap_process now t p s))"
    using Cons.prems tp by (force simp: reap_process_processes)
  have inv: "studio_inv (reap_process now t p s)"
    using Cons.prems tp by (auto intro: studio_inv_reap_process)
  have "row_moves b i (st_jobs s) (st_jobs (reap_process now t p s))"
    by (rule row_moves_reap_process [OF studio_invD(1) [OF Cons.prems(1)]])
  from row_moves_trans [OF this Cons.IH [OF inv _ sub]] Cons.IH [OF Cons.prems(1)] Cons.prems
  show ?case by (auto simp: tp)
qed simp

lemma row_moves_schedule: "row_moves b i (st_jobs s) (st_jobs (snd (schedule_jobs ok now s)))"
proof -
  obtain c s1 where c: "start_pending ok (get_pending_jobs_by_type TRAINING (st_jobs s)) s = (c, s1)" by fastforce
  then have e: "st_jobs s1 = st_jobs s"
    using start_pending_rows [of ok "get_pending_jobs_by_type TRAINING (st_jobs s)" s] by simp
  obtain j rows where r: "claim_pending_dataset_import_job now (st_jobs s) = (j, rows)" by fastforce
  have m: "row_moves b i (st_jobs s) rows"
    using row_moves_claim_import [of b i "st_jobs s" now] r by simp
  have "st_jobs (snd (schedule_jobs ok now s)) \<in> {st_jobs s, rows}"
    using c e r by (auto simp: schedule_jobs_def split: bool.splits option.splits)
  with m show ?thesis by auto
qed

lemma row_moves_interrupt:
  "row_moves b i (st_jobs s) (st_jobs (snd (interrupt_job aws k now s)))"
proof -
  have rest: "row_moves b i rows (st_jobs (snd (interrupt_rest j now (s\<lparr>st_jobs := rows\<rparr>))))"
    if row: "find_job (sj_id j) rows = Some row" "job_type row = job_type j" for j row rows
  proof -
    obtain r1 rows1 where t: "transition_pending_train_job (sj_id j) J_CANCELED now rows = (r1, rows1)" by fastforce
    obtain r2 rows2 where u: "update_job_status (sj_id j) J_CANCELED None None None now rows = (r2, rows2)" by fastforce
    have t1: "row_moves b i rows rows1"
      using row_moves_transition [of b i rows "sj_id j" J_CANCELED now] t by simp
    have u1: "row_moves b i rows rows2" if ty: "job_type j \<noteq> TRAINING"
    proof -
      have "moves b (sj_status x) J_CANCELED" if "find_job i rows = Some x" "sj_id j = i" "job_type x = TRAINING" for x
        using that row ty by simp
      from row_moves_status [where k = "sj_id j" and i = i, OF this] u show ?thesis by (metis snd_conv)
    qed
    show ?thesis
      using t u t1 u1 by (auto simp: interrupt_rest_def request_cancel_event_def split: sum.splits option.splits)
  qed
  show ?thesis
  proof (cases "find_job k (st_jobs s)")
    case None
    then show ?thesis by (simp add: interrupt_job_def)
  next
    case (Some j)
    have id: "sj_id j = k" by (rule find_job_id [OF Some])
    obtain r rows where u: "update_remote_job_state k None (Some True) None None (st_jobs s) = (r, rows)" by fastforce
    have m: "row_moves b i (st_jobs s) rows"
      using row_moves_remote_state [of b i "st_jobs s" k None "Some True" None None] u by simp
    obtain j' where "find_job k rows = Some j'" "job_type j' = job_type j"
      using remote_state_present [OF Some, of k None "Some True" None None] u by auto
    with rest [of j rows j'] id
    have r1: "row_moves b i (st_jobs s) (st_jobs (snd (interrupt_rest j now (s\<lparr>st_jobs := rows\<rparr>))))"
      using row_moves_trans [OF m] by simp
    have r0: "row_moves b i (st_jobs s) (st_jobs (snd (interrupt_rest j now s)))"
      using rest [of j "st_jobs s" j] Some id by simp
    show ?thesis
      using Some u m r0 r1
      by (auto simp: interrupt_job_def Let_def request_cancel_event_def split: sum.splits)
  qed
qed

lemma row_moves_held:
  assumes s: "studio_inv s" and st: "stage_of s t = Some st" and c: "working_copy st = Some j"
    and f: "\<And>x. find_job (sj_id j) (st_jobs s) = Some x \<Longrightarrow> job_type (f x) = job_type x \<and> sj_id (f x) = sj_id x
        \<and> (sj_status (f x) = J_COMPLETED \<longrightarrow> b)"
  shows "i = sj_id j \<Longrightarrow> find_job i rows' = map_option f (find_job i (st_jobs s)) \<Longrightarrow> row_moves b i (st_jobs s) rows'"
proof -
  assume i: "i = sj_id j" and e: "find_job i rows' = map_option f (find_job i (st_jobs s))"
  have "sj_status x = J_RUNNING" if "find_job (sj_id j) (st_jobs s) = Some x" for x
    using working_process [OF s st c] that by metis
  with i e f show ?thesis
    by (auto simp: row_moves_def j_terminal_def intro!: moves_from_open)
qed

lemma find_job_update_job:
  "find_job i (update_job job no_change rows) = (if i = sj_id job then map_option (\<lambda>_. job) (find_job i rows) else find_job i rows)"
proof -
  have e: "apply_change no_change job = job" by (simp add: apply_change_def no_change_def keep_or_set_def)
  have "find_job i (update_job job no_change rows) =
      map_option (\<lambda>j. if sj_id j = sj_id job then job else j) (find_job i rows)"
    unfolding update_job_def e by (rule find_job_update_sel) simp
  then show ?thesis by (cases "find_job i rows") (auto dest: find_job_id)
qed

lemma held_row:
  assumes "studio_inv s" and "stage_of s t = Some st" and "working_copy st = Some j"
    and "find_job (sj_id j) (st_jobs s) = Some x"
  shows "sj_status x = J_RUNNING" "kind x = kind j"
  using working_process [OF assms(1-3)] assms(4) by metis+

lemma kind_type: "kind x = kind y \<Longrightarrow> job_type x = job_type y"
  by (simp add: kind_def)

lemma row_moves_start_training:
  assumes s: "studio_inv s" and st: "stage_of s t = Some (Preparing j)"
  shows "row_moves b i (st_jobs s) (st_jobs (start_training t j snap now s))"
proof -
  have w: "working_copy (Preparing j) = Some j" by (simp add: working_copy_def)
  note run = held_row [OF s st w]
  have "row_moves b i (st_jobs s) (update_job (started_copy j q now) no_change (st_jobs s))"
    if "sj_payload j = TrainP p" "target_key q = target_key p" for p q
    unfolding row_moves_def
  proof (intro allI impI)
    fix x' assume x': "find_job i (update_job (started_copy j q now) no_change (st_jobs s)) = Some x'"
    show "\<exists>x. find_job i (st_jobs s) = Some x \<and> job_type x' = job_type x
        \<and> (job_type x = TRAINING \<longrightarrow> moves b (sj_status x) (sj_status x'))"
    proof (cases "i = sj_id j")
      case True
      with x' obtain x where x: "find_job i (st_jobs s) = Some x" "x' = started_copy j q now"
        by (auto simp: find_job_update_job started_copy_simps(2))
      have "job_type x' = job_type x"
        using kind_type [OF started_copy_simps(1) [OF that]] kind_type [OF run(2)] x True by simp
      with x run(1) True show ?thesis by (simp add: started_copy_simps(3))
    next
      case False
      with x' show ?thesis by (simp add: find_job_update_job started_copy_simps(2))
    qed
  qed
  then show ?thesis
    by (auto simp: start_training_def Let_def split: job_payload.split)
qed

lemma row_moves_payload: 
  assumes "\<And>x. find_job k rows = Some x \<Longrightarrow> k = i \<Longrightarrow> job_type (x\<lparr>sj_payload := p\<rparr>) = job_type x"
  shows "row_moves b i rows (snd (update_job_payload k p None None None None now rows))"
  using assms
  by (auto simp: update_job_payload_def Let_def row_moves_def studio_table.lookup_modify apply_change_def
      end_time_of_def job_type_def split: option.split)

lemma row_moves_remote_id:
  assumes s: "studio_inv s" and st: "stage_of s t = Some (Training j)"
  shows "row_moves b i (st_jobs s) (st_jobs (persist_remote_job_id t j rid now s))"
proof (cases "sj_payload j")
  case (TrainP p)
  have "job_type (x\<lparr>sj_payload := TrainP q\<rparr>) = job_type x" if "find_job (sj_id j) (st_jobs s) = Some x" for x q
    using kind_type [OF held_row(2) [OF s st training_copy that]] TrainP by (simp add: job_type_def)
  then have "row_moves b i (st_jobs s) (snd (update_job_payload (sj_id j) (TrainP q) None None None None now (st_jobs s)))" for q
    by (rule row_moves_payload)
  with TrainP row_moves_remote_state show ?thesis
    by (simp add: persist_remote_job_id_def Let_def)
qed (simp add: persist_remote_job_id_def)

lemma row_moves_auth: "row_moves b i (st_jobs s) (st_jobs (report_authentication_issue t j issue s))"
  by (simp add: report_authentication_issue_def row_moves_remote_state split: job_payload.split)

lemma row_moves_finish:
  assumes s: "studio_inv s" and st: "stage_of s t = Some (Training j)"
    and b: "i = sj_id j \<Longrightarrow> \<not> cancel_is_set s i \<Longrightarrow> b"
  shows "row_moves b i (st_jobs s) (st_jobs (finish_training t j cb out ok now s))"
proof -
  have "st_jobs (finish_training t j cb out ok now s) =
      modify_job (sj_id j) (finish_change (effective_outcome s j cb out) (should_interrupt s (sj_id j)) now) (st_jobs s)"
    by (simp add: finish_training_def Let_def)
  moreover have "row_moves b i (st_jobs s)
      (modify_job (sj_id j) (finish_change (effective_outcome s j cb out) (should_interrupt s (sj_id j)) now) (st_jobs s))"
  proof (rule row_moves_modify [OF finish_change_payload])
    fix x assume x: "find_job i (st_jobs s) = Some x" "sj_id j = i"
    have run: "sj_status x = J_RUNNING" using held_row(1) [OF s st training_copy] x by simp
    then show "moves b (sj_status x) (case chg_status (finish_change (effective_outcome s j cb out)
        (should_interrupt s (sj_id j)) now) of None \<Rightarrow> sj_status x | Some st \<Rightarrow> st)"
      using b x(2) by (cases "effective_outcome s j cb out")
        (auto simp: finish_change_def status_change_def moves_def j_terminal_def should_interrupt_def)
  qed
  ultimately show ?thesis by simp
qed

lemma row_moves_import_status:
  assumes s: "studio_inv s" and p: "map_of (st_processes s) t = Some p" "pr_stage p = Importing"
  shows "row_moves b i (st_jobs s) (snd (update_job_status (pr_job p) st None None None now (st_jobs s)))"
proof (rule row_moves_status)
  fix x assume x: "find_job i (st_jobs s) = Some x" "pr_job p = i" "job_type x = TRAINING"
  from studio_invD(4) [OF s process_target [OF s p(1)]] x p(2) have False
    by (auto simp: process_ok_def kind_def)
  then show "moves b (sj_status x) st" ..
qed

lemma row_moves_submit:
  "i \<noteq> k \<Longrightarrow> row_moves b i rows (snd (submit_train_job env k now p rows))"
  by (auto simp: submit_train_job_def row_moves_def find_job_def row_get_append new_train_job_def
      split: sum.splits option.splits if_splits)

lemma row_moves_progress:
  assumes s: "studio_inv s" and st: "stage_of s t = Some (Training j)"
  shows "row_moves b i (st_jobs s) (st_jobs (training_progress j p m e now s))"
proof -
  have "moves b (sj_status x) J_RUNNING" if "find_job i (st_jobs s) = Some x" "sj_id j = i" for x
    using held_row(1) [OF s st training_copy] that by simp
  then show ?thesis by (simp add: training_progress_def row_moves_status)
qed

lemma row_moves_claim: "row_moves b i (st_jobs s) (st_jobs (worker_claim t p now s))"
proof -
  obtain r rows where t: "transition_pending_train_job (pr_job p) J_RUNNING now (st_jobs s) = (r, rows)" by fastforce
  then show ?thesis
    using row_moves_transition [of b i "st_jobs s" "pr_job p" J_RUNNING now]
    by (auto simp: worker_claim_def split: sum.split option.split)
qed

lemma step_row_moves:
  assumes s: "studio_inv s" and e: "\<And>env now p. e \<noteq> SubmitTrainJob env i now p"
  shows "row_moves (\<not> cancel_is_set s i) i (st_jobs s) (st_jobs (studio_step s e))"
proof (cases e)
  case (SubmitTrainJob env k now p)
  with e have "i \<noteq> k" by blast
  with SubmitTrainJob row_moves_submit show ?thesis by simp
next
  case (Reap now)
  with row_moves_reap_all [OF s studio_invD(5) [OF s] order_refl] show ?thesis
    by (simp add: reap_processes_def drop_unassigned_def)
next
  case (Recover now)
  with row_moves_recover [OF studio_invD(1) [OF s]] show ?thesis by simp
next
  case (ShutdownStudio now)
  have "row_moves (\<not> cancel_is_set s i) i (st_jobs (shutdown_processes s)) (st_jobs (recover_jobs now (shutdown_processes s)))"
    by (rule row_moves_recover) (use studio_invD(1) [OF s] in \<open>simp add: shutdown_processes_def\<close>)
  then have "row_moves (\<not> cancel_is_set s i) i (st_jobs s) (st_jobs (recover_jobs now (shutdown_processes s)))"
    by (simp add: shutdown_processes_def)
  with ShutdownStudio show ?thesis by simp
next
  case (WorkerFinish t cb out ok now)
  with row_moves_finish [OF s] show ?thesis by (auto split: option.split stage.split)
next
  case (WorkerStart t snap now)
  with row_moves_start_training [OF s] show ?thesis by (auto split: option.split stage.split)
next
  case (WorkerProgress t p m e now)
  with row_moves_progress [OF s] show ?thesis by (auto split: option.split stage.split)
next
  case (WorkerRemoteId t rid now)
  with row_moves_remote_id [OF s] show ?thesis by (auto split: option.split stage.split)
next
  case (ImportStatus t st now)
  with row_moves_import_status [OF s] show ?thesis by (auto split: option.split)
qed (auto simp: row_moves_interrupt row_moves_delete row_moves_schedule row_moves_claim row_moves_auth
    split: option.split stage.split)

end
