(* ===== verification/StudioSchedulerProps.thy ===== *)
theory StudioSchedulerProps
  imports StudioSchedulerInv
begin

text \<open>
  The properties of the studio's scheduler over its runs, with a worked run of a machine that has
  a local job and two jobs of a remote trainer.
\<close>

section \<open>A requested cancellation stays requested\<close>
















lemma worker_cancel [simp]:
  "st_cancel (worker_claim t p now s) = st_cancel s" "st_stop (worker_claim t p now s) = st_stop s"
  "st_cancel (start_training t j snap now s) = st_cancel s" "st_stop (start_training t j snap now s) = st_stop s"
  "st_cancel (training_progress j q m e now s) = st_cancel s" "st_stop (training_progress j q m e now s) = st_stop s"
  "st_cancel (persist_remote_job_id t j rid now s) = st_cancel s" "st_stop (persist_remote_job_id t j rid now s) = st_stop s"
  "st_cancel (report_authentication_issue t j iss s) = st_cancel s" "st_stop (report_authentication_issue t j iss s) = st_stop s"
  "st_cancel (finish_training t j cb out mok now s) = st_cancel s" "st_stop (finish_training t j cb out mok now s) = st_stop s"
  by (simp_all add: worker_claim_def start_training_def training_progress_def persist_remote_job_id_def
      report_authentication_issue_def finish_training_def Let_def split: prod.split sum.split option.split job_payload.split)


section \<open>Runs\<close>

text \<open>\<open>JobScheduler.__init__\<close> over the table the process finds.\<close>

definition scheduler_init :: "jobs \<Rightarrow> studio" where
  "scheduler_init rows = \<lparr>st_jobs = rows, st_processes = [], st_cancel = Map.empty, st_stop = False, st_models = []\<rparr>"

lemma studio_inv_init: "studio_ids_distinct rows \<Longrightarrow> studio_inv (scheduler_init rows)"
  by (simp add: studio_inv_def scheduler_init_def exclusive_def active_ids_def)

lemma studio_inv_run: "studio_ids_distinct rows \<Longrightarrow> studio_inv (foldl studio_step (scheduler_init rows) es)"
  by (rule studio_machine.run_inv [OF studio_inv_init])

definition resubmits :: "string \<Rightarrow> studio_event \<Rightarrow> bool" where
  "resubmits i e = (case e of SubmitTrainJob env k now p \<Rightarrow> k = i | _ \<Rightarrow> False)"

lemma resubmits_simps [simp]: "resubmits i (SubmitTrainJob env k now p) = (k = i)"
  by (simp add: resubmits_def)

lemma run_row_moves:
  "studio_inv s \<Longrightarrow> \<not> list_ex (resubmits i) es \<Longrightarrow> row_moves True i (st_jobs s) (st_jobs (foldl studio_step s es))"
proof (induction es arbitrary: s)
  case (Cons e es)
  have e: "e \<noteq> SubmitTrainJob env i now p" for env now p
    using Cons.prems(2) by auto
  from step_row_moves [OF Cons.prems(1) e]
  have "row_moves True i (st_jobs s) (st_jobs (studio_step s e))"
    unfolding row_moves_def moves_def by blast
  from row_moves_trans [OF this Cons.IH] Cons.prems show ?case
    by (simp add: studio_inv_step)
qed simp



text \<open>Targets that exclude each other are those of one trainer, in either order.\<close>

lemma exclusive_trainers:
  assumes ex: "exclusive ks" and "t \<in> set ks" and "u \<in> set ks" and r: "starts_with ''remote:'' t"
  shows "\<not> starts_with (t @ '':'') u"
proof
  assume h: "starts_with (t @ '':'') u"
  then have ne: "t \<noteq> u" by (auto simp: starts_with_iff)
  have ru: "starts_with ''remote:'' u" using h r by (auto simp: starts_with_iff)
  from assms(2,3) obtain i j where ij: "i < length ks" "ks ! i = t" "j < length ks" "ks ! j = u"
    by (metis in_set_conv_nth)
  with ne consider "i < j" | "j < i" by (metis linorder_neqE_nat)
  then show False
  proof cases
    case 1
    then have "\<not> target_is_busy u [t]"
      using sorted_wrt_nth_less [OF ex [unfolded exclusive_def] 1 ij(3)] ij by simp
    with h ru show False by (simp add: target_is_busy_def)
  next
    case 2
    then have "\<not> target_is_busy t [u]"
      using sorted_wrt_nth_less [OF ex [unfolded exclusive_def] 2 ij(1)] ij by simp
    with h r show False by (simp add: target_is_busy_def)
  qed
qed

section \<open>What a poll of the scheduler starts\<close>

lemma busy_mono: "target_is_busy t ks \<Longrightarrow> target_is_busy t (ks @ ls)"
  by (auto simp: target_is_busy_def list_ex_iff)

text \<open>The processes that a list of waiting jobs adds: its first job per free target.\<close>

definition starts :: "Job list \<Rightarrow> studio \<Rightarrow> (string \<times> process) list \<Rightarrow> bool" where
  "starts js s new \<longleftrightarrow>
     (\<forall>j\<in>set js. target_is_busy (job_target j) (map fst (st_processes s @ new)))
     \<and> (\<forall>(t, p)\<in>set new. \<not> target_is_busy t (map fst (st_processes s))
          \<and> (\<exists>pre k post. js = pre @ k # post \<and> pr_job p = sj_id k \<and> t = job_target k
               \<and> (\<forall>x\<in>set pre. job_target x \<noteq> t)))"

lemma starts_busy: "starts js s new \<Longrightarrow> j \<in> set js \<Longrightarrow> target_is_busy (job_target j) (map fst (st_processes s @ new))"
  by (simp add: starts_def)

lemma starts_free: "starts js s new \<Longrightarrow> (t, p) \<in> set new \<Longrightarrow> \<not> target_is_busy t (map fst (st_processes s))"
  unfolding starts_def by blast

lemma starts_first:
  "starts js s new \<Longrightarrow> (t, p) \<in> set new \<Longrightarrow>
   \<exists>pre k post. js = pre @ k # post \<and> pr_job p = sj_id k \<and> t = job_target k \<and> (\<forall>x\<in>set pre. job_target x \<noteq> t)"
  unfolding starts_def by blast

lemma startsI:
  assumes "\<And>j. j \<in> set js \<Longrightarrow> target_is_busy (job_target j) (map fst (st_processes s @ new))"
    and "\<And>t p. (t, p) \<in> set new \<Longrightarrow> \<not> target_is_busy t (map fst (st_processes s))"
    and "\<And>t p. (t, p) \<in> set new \<Longrightarrow>
      \<exists>pre k post. js = pre @ k # post \<and> pr_job p = sj_id k \<and> t = job_target k \<and> (\<forall>x\<in>set pre. job_target x \<noteq> t)"
  shows "starts js s new"
  unfolding starts_def using assms by blast

lemma starts_prefix:
  assumes "starts js s1 new" and "(t, p) \<in> set new" and "job_target j \<noteq> t"
  shows "\<exists>pre k post. j # js = pre @ k # post \<and> pr_job p = sj_id k \<and> t = job_target k \<and> (\<forall>x\<in>set pre. job_target x \<noteq> t)"
proof -
  from starts_first [OF assms(1,2)] obtain pre k post where h: "js = pre @ k # post"
    "pr_job p = sj_id k" "t = job_target k" "\<forall>x\<in>set pre. job_target x \<noteq> t" by blast
  then have "j # js = (j # pre) @ k # post" "\<forall>x\<in>set (j # pre). job_target x \<noteq> t"
    using assms(3) by simp_all
  with h show ?thesis by blast
qed

lemma busy_extend: "\<not> target_is_busy t (ks @ ls) \<Longrightarrow> \<not> target_is_busy t ks"
  using busy_mono by blast

lemma busy_self: "target_is_busy t (ks @ t # ls)"
  by (simp add: target_is_busy_def)

lemma starts_skip:
  assumes busy: "target_is_busy (job_target j) (map fst (st_processes s))" and n: "starts js s new"
  shows "starts (j # js) s new"
proof (rule startsI)
  fix x assume "x \<in> set (j # js)"
  then show "target_is_busy (job_target x) (map fst (st_processes s @ new))"
    using busy_mono [OF busy, of "map fst new"] starts_busy [OF n] by (cases "x = j") simp_all
next
  fix t p assume tp: "(t, p) \<in> set new"
  show "\<not> target_is_busy t (map fst (st_processes s))" by (rule starts_free [OF n tp])
  then have "job_target j \<noteq> t" using busy by blast
  from starts_prefix [OF n tp this] show "\<exists>pre k post. j # js = pre @ k # post \<and> pr_job p = sj_id k \<and> t = job_target k
      \<and> (\<forall>x\<in>set pre. job_target x \<noteq> t)" .
qed

lemma starts_cons:
  assumes s1: "st_processes s1 = st_processes s @ [(job_target j, p)]" and p: "pr_job p = sj_id j"
    and free: "\<not> target_is_busy (job_target j) (map fst (st_processes s))" and n: "starts js s1 new"
  shows "starts (j # js) s ((job_target j, p) # new)"
proof (rule startsI)
  fix x assume "x \<in> set (j # js)"
  then show "target_is_busy (job_target x) (map fst (st_processes s @ (job_target j, p) # new))"
    using starts_busy [OF n, of x] busy_self [of "job_target j" "map fst (st_processes s)"] s1
    by (cases "x = j") simp_all
next
  fix t q assume tq: "(t, q) \<in> set ((job_target j, p) # new)"
  show "\<not> target_is_busy t (map fst (st_processes s))"
  proof (cases "(t, q) \<in> set new")
    case True
    from starts_free [OF n this] s1 busy_extend show ?thesis by simp
  next
    case False
    with tq free show ?thesis by simp
  qed
  show "\<exists>pre k post. j # js = pre @ k # post \<and> pr_job q = sj_id k \<and> t = job_target k \<and> (\<forall>x\<in>set pre. job_target x \<noteq> t)"
  proof (cases "(t, q) \<in> set new")
    case True
    have "job_target j \<noteq> t"
      using starts_free [OF n True] busy_self [of t "map fst (st_processes s)" "[]"] s1 by auto
    from starts_prefix [OF n True this] show ?thesis .
  next
    case False
    with tq p have "j # js = [] @ j # js \<and> pr_job q = sj_id j \<and> t = job_target j \<and> (\<forall>x\<in>set []. job_target x \<noteq> t)"
      by simp
    then show ?thesis by blast
  qed
qed

lemma start_pending_started:
  "\<not> st_stop s \<Longrightarrow> \<exists>s' new. start_pending (\<lambda>_. True) js s = (True, s') \<and> \<not> st_stop s'
     \<and> st_processes s' = st_processes s @ new \<and> starts js s new"
proof (induction js arbitrary: s)
  case (Cons j js)
  show ?case
  proof (cases "target_is_busy (job_target j) (map fst (st_processes s))")
    case True
    from Cons.IH [OF Cons.prems] obtain s' new where new: "start_pending (\<lambda>_. True) js s = (True, s')" "\<not> st_stop s'"
      "st_processes s' = st_processes s @ new" "starts js s new" by blast
    from starts_skip [OF True new(4)] True new show ?thesis by simp
  next
    case False
    obtain s1 p where s1: "scheduler_start_job True (job_target j) j s = (True, s1)" "\<not> st_stop s1"
      "st_processes s1 = st_processes s @ [(job_target j, p)]" "pr_job p = sj_id j"
      using Cons.prems by (simp add: scheduler_start_job_def)
    from Cons.IH [OF s1(2)] obtain s' new where new: "start_pending (\<lambda>_. True) js s1 = (True, s')" "\<not> st_stop s'"
      "st_processes s' = st_processes s1 @ new" "starts js s1 new" by blast
    from starts_cons [OF s1(3,4) False new(4)] new s1 False show ?thesis by simp
  qed
qed (simp add: starts_def)

text \<open>C2: in every run from the table the process finds, whatever workers do and whenever they die, a
  job has at most one process, no two processes use one target, a process that uses a whole remote
  trainer is alone on it, a process stands under the target of its job, and a job that a worker
  holds is RUNNING.\<close>

theorem studio_targets_exclusive:
  assumes "studio_ids_distinct rows"
  shows "let s = foldl studio_step (scheduler_init rows) es in
     distinct (active_ids s) \<and> distinct (map fst (st_processes s))
     \<and> (\<forall>(t, p)\<in>set (st_processes s). \<forall>(u, q)\<in>set (st_processes s).
          starts_with ''remote:'' t \<longrightarrow> \<not> starts_with (t @ '':'') u)
     \<and> (\<forall>(t, p)\<in>set (st_processes s). \<forall>j. find_job (pr_job p) (st_jobs s) = Some j \<longrightarrow>
          job_target j = t \<and> job_type j = pr_type p
          \<and> (working_copy (pr_stage p) \<noteq> None \<longrightarrow> sj_status j = J_RUNNING))"
proof -
  define s where "s = foldl studio_step (scheduler_init rows) es"
  have inv: "studio_inv s" unfolding s_def by (rule studio_inv_run [OF assms])
  have "\<not> starts_with (t @ '':'') u" if "(t, p) \<in> set (st_processes s)" "(u, q) \<in> set (st_processes s)"
    "starts_with ''remote:'' t" for t p u q
    using exclusive_trainers [OF studio_invD(2) [OF inv]] that by force
  moreover have "job_target j = t \<and> job_type j = pr_type p \<and> (working_copy (pr_stage p) \<noteq> None \<longrightarrow> sj_status j = J_RUNNING)"
    if "(t, p) \<in> set (st_processes s)" "find_job (pr_job p) (st_jobs s) = Some j" for t p j
    using studio_invD(4) [OF inv that(1)] that(2) by (auto simp: process_ok_def kind_def)
  ultimately show ?thesis
    unfolding s_def [symmetric] Let_def using studio_invD(3,5) [OF inv] by blast
qed

text \<open>A training job that ended (completed, failed or canceled) keeps its state in every
  continuation of the run, as long as its row is there.\<close>

lemma ended_jobs_final:
  assumes "studio_ids_distinct rows" and "s = foldl studio_step (scheduler_init rows) es"
    and "find_job i (st_jobs s) = Some j" and "job_type j = TRAINING" and "j_terminal (sj_status j)"
    and "\<not> list_ex (resubmits i) es'"
  shows "pred_option (\<lambda>j'. sj_status j' = sj_status j) (find_job i (st_jobs (foldl studio_step s es')))"
proof -
  have "studio_inv s" unfolding assms(2) by (rule studio_inv_run [OF assms(1)])
  from run_row_moves [OF this assms(6)] assms(3-5) show ?thesis
    by (cases "find_job i (st_jobs (foldl studio_step s es'))") (auto simp: row_moves_def moves_def)
qed


text \<open>Of a worker that claims a queued job and a user who cancels it, and of any two workers, one
  wins: after a transition that took the job, the other transition finds nothing to take and
  changes nothing.\<close>

lemma claim_or_cancel_once:
  assumes "studio_ids_distinct rows" and "st \<in> {J_RUNNING, J_CANCELED}" and "st' \<in> {J_RUNNING, J_CANCELED}"
    and "transition_pending_train_job i st now rows = (Inr (Some j), rows')"
  shows "transition_pending_train_job i st' now' rows' = (Inr None, rows')
     \<and> find_job i rows' = Some j \<and> sj_status j = st
     \<and> (\<exists>j0. find_job i rows = Some j0 \<and> sj_status j0 = J_PENDING \<and> sj_payload j0 = sj_payload j)"
proof -
  have d: "studio_ids_distinct rows'" using ids_transition [of i st now rows] assms(1,4) by simp
  obtain j0 where j0: "find_job i rows = Some j0" "transition_selects st j0" "j = transition_change st now j0"
    using transition_result [OF assms(2,1), of i now] assms(4) by (auto split: option.splits if_splits)
  then have row: "find_job i rows' = Some j"
    using find_job_transition [OF assms(2), of i i now rows] assms(4) by simp
  have st: "sj_status j = st" using j0(3) transition_status [OF assms(2)] by simp
  with assms(2) have no: "\<not> transition_selects st' j" by (auto simp: transition_selects_def)
  have "\<not> (sj_id k = i \<and> transition_selects st' k)" if "k \<in> set rows'" for k
    using find_job_in [OF d that] row no by auto
  then have "list_ex (\<lambda>k. sj_id k = i \<and> transition_selects st' k) rows' = False"
    "sql_update (\<lambda>k. sj_id k = i \<and> transition_selects st' k) (transition_change st' now') rows' = rows'"
    by (auto simp: list_ex_iff sql_update_def intro!: map_idI)
  with transition_unfold [OF assms(3), of i now' rows'] row st j0 show ?thesis
    by (simp add: transition_selects_def)
qed

lemma started_first:
  assumes st: "starts (get_pending_jobs_by_type TRAINING rows) s new" and tp: "(t, p) \<in> set new"
  shows "\<exists>k\<in>set rows. job_type k = TRAINING \<and> sj_status k = J_PENDING \<and> pr_job p = sj_id k \<and> t = job_target k
    \<and> (\<forall>x\<in>set rows. job_type x = TRAINING \<and> sj_status x = J_PENDING \<and> job_target x = t \<longrightarrow> sj_created_at k \<le> sj_created_at x)"
proof -
  let ?js = "get_pending_jobs_by_type TRAINING rows"
  have sorted: "sorted (map sj_created_at ?js)"
    by (simp add: get_pending_jobs_by_type_def)
  from starts_first [OF st tp] obtain pre k post where k: "?js = pre @ k # post" "pr_job p = sj_id k" "t = job_target k"
    "\<forall>x\<in>set pre. job_target x \<noteq> t" by blast
  have in_js: "x \<in> set rows \<and> job_type x = TRAINING \<and> sj_status x = J_PENDING \<longleftrightarrow> x \<in> set pre \<or> x = k \<or> x \<in> set post" for x
  proof -
    have "x \<in> set ?js \<longleftrightarrow> x \<in> set rows \<and> job_type x = TRAINING \<and> sj_status x = J_PENDING"
      by (simp add: set_pending)
    then show ?thesis unfolding k(1) by auto
  qed
  have "sj_created_at k \<le> sj_created_at x" if "x \<in> set post" for x
    using sorted that by (simp add: k(1) sorted_append)
  then have "\<forall>x\<in>set rows. job_type x = TRAINING \<and> sj_status x = J_PENDING \<and> job_target x = t \<longrightarrow> sj_created_at k \<le> sj_created_at x"
    using in_js k(4) by blast
  with k in_js [of k] show ?thesis by blast
qed

lemma schedule_jobs_processes:
  assumes "\<not> st_stop s"
  shows "\<exists>new imps. st_processes (snd (schedule_jobs (\<lambda>_. True) now s)) = st_processes s @ new @ imps
     \<and> starts (get_pending_jobs_by_type TRAINING (st_jobs s)) s new
     \<and> (\<forall>(t, p)\<in>set imps. t = ''dataset_import'' \<and> pr_type p = DATASET_IMPORT)"
proof -
  obtain s1 new where s1: "start_pending (\<lambda>_. True) (get_pending_jobs_by_type TRAINING (st_jobs s)) s = (True, s1)"
    "\<not> st_stop s1" "st_processes s1 = st_processes s @ new" "starts (get_pending_jobs_by_type TRAINING (st_jobs s)) s new"
    using start_pending_started [OF assms] by blast
  obtain j rows where c: "claim_pending_dataset_import_job now (st_jobs s1) = (j, rows)" by fastforce
  have "\<exists>imps. st_processes (snd (schedule_jobs (\<lambda>_. True) now s)) = st_processes s @ new @ imps
     \<and> (\<forall>(t, p)\<in>set imps. t = ''dataset_import'' \<and> pr_type p = DATASET_IMPORT)"
    using s1(1-3) c by (cases j) (auto simp: schedule_jobs_def scheduler_start_job_def)
  with s1(4) show ?thesis by blast
qed

text \<open>A poll of the scheduler whose processes start leaves no target idle that a queued job waits
  for, starts on each free target the job that was submitted first, and touches no process that
  runs.\<close>

lemma schedule_starts_oldest:
  assumes "\<not> st_stop s"
  shows "\<exists>new imps. st_processes (snd (schedule_jobs (\<lambda>_. True) now s)) = st_processes s @ new @ imps
     \<and> (\<forall>j\<in>set (st_jobs s). job_type j = TRAINING \<and> sj_status j = J_PENDING \<longrightarrow>
          target_is_busy (job_target j) (map fst (st_processes s @ new)))
     \<and> (\<forall>(t, p)\<in>set new. \<not> target_is_busy t (map fst (st_processes s))
          \<and> (\<exists>k\<in>set (st_jobs s). job_type k = TRAINING \<and> sj_status k = J_PENDING \<and> pr_job p = sj_id k \<and> t = job_target k
               \<and> (\<forall>x\<in>set (st_jobs s). job_type x = TRAINING \<and> sj_status x = J_PENDING \<and> job_target x = t \<longrightarrow>
                    sj_created_at k \<le> sj_created_at x)))
     \<and> (\<forall>(t, p)\<in>set imps. t = ''dataset_import'' \<and> pr_type p = DATASET_IMPORT)"
proof -
  obtain new imps where n: "st_processes (snd (schedule_jobs (\<lambda>_. True) now s)) = st_processes s @ new @ imps"
    "starts (get_pending_jobs_by_type TRAINING (st_jobs s)) s new"
    "\<forall>(t, p)\<in>set imps. t = ''dataset_import'' \<and> pr_type p = DATASET_IMPORT"
    using schedule_jobs_processes [OF assms] by blast
  have "target_is_busy (job_target j) (map fst (st_processes s @ new))"
    if "j \<in> set (st_jobs s)" "job_type j = TRAINING" "sj_status j = J_PENDING" for j
    using starts_busy [OF n(2)] that by (simp add: set_pending)
  moreover note starts_free [OF n(2)] started_first [OF n(2)]
  ultimately show ?thesis using n(1,3) by blast
qed

lemma recovered_running: "sj_status (recovered now act j) = J_RUNNING \<Longrightarrow> sj_id j \<in> set act"
  by (auto simp: recovered_def apply_change_def status_change_def split: if_splits)

lemma recovered_cases:
  "(sj_status j \<noteq> J_RUNNING \<or> sj_id j \<in> set act \<longrightarrow> recovered now act j = j)
   \<and> (sj_status j = J_RUNNING \<and> sj_id j \<notin> set act \<longrightarrow>
        sj_payload (recovered now act j) = sj_payload j \<and> sj_start_time (recovered now act j) = sj_start_time j
        \<and> sj_status (recovered now act j) = (if reattachable_remote_job_id j \<noteq> None then J_PENDING else J_FAILED)
        \<and> sj_end_time (recovered now act j) = (if reattachable_remote_job_id j \<noteq> None then sj_end_time j else Some now))"
proof -
  have "job_type j = DATASET_IMPORT \<Longrightarrow> reattachable_remote_job_id j = None"
    by (auto simp: reattachable_remote_job_id_def job_type_def split: job_payload.splits)
  then show ?thesis
    by (auto simp: recovered_def apply_change_def status_change_def keep_or_set_def end_time_of_def j_terminal_def)
qed

text \<open>C30: recovery reconciles the table with the processes there are: a running job without a process
  is queued again when it is a remote run that can be attached to, with its remote job id, and fails
  otherwise; nothing else changes, and afterwards every running job has a process.\<close>

theorem recovery_reconciles:
  assumes "studio_ids_distinct (st_jobs s)"
  shows "(\<forall>i j. find_job i (st_jobs s) = Some j \<longrightarrow>
       (\<exists>j'. find_job i (st_jobs (recover_jobs now s)) = Some j'
          \<and> (sj_status j \<noteq> J_RUNNING \<or> i \<in> set (active_ids s) \<longrightarrow> j' = j)
          \<and> (sj_status j = J_RUNNING \<and> i \<notin> set (active_ids s) \<longrightarrow>
               sj_payload j' = sj_payload j \<and> sj_start_time j' = sj_start_time j
               \<and> sj_status j' = (if reattachable_remote_job_id j \<noteq> None then J_PENDING else J_FAILED)
               \<and> sj_end_time j' = (if reattachable_remote_job_id j \<noteq> None then sj_end_time j else Some now))))
     \<and> (\<forall>i j'. find_job i (st_jobs (recover_jobs now s)) = Some j' \<and> sj_status j' = J_RUNNING \<longrightarrow> i \<in> set (active_ids s))"
proof -
  have row: "find_job i (st_jobs (recover_jobs now s)) = map_option (recovered now (active_ids s)) (find_job i (st_jobs s))" for i
  proof (cases "find_job i (st_jobs s)")
    case None
    have "find_job i (st_jobs (recover_jobs now s)) \<noteq> Some x" for x
      using rows_move_recover [OF assms, of now] None unfolding rows_move_def by fastforce
    then have "find_job i (st_jobs (recover_jobs now s)) = None" by blast
    with None show ?thesis by simp
  next
    case (Some j)
    then show ?thesis by (simp add: recover_row [OF assms])
  qed
  have held: "i \<in> set (active_ids s)"
    if "find_job i (st_jobs (recover_jobs now s)) = Some j'" "sj_status j' = J_RUNNING" for i j'
  proof -
    from that(1) obtain j where "find_job i (st_jobs s) = Some j" "j' = recovered now (active_ids s) j"
      by (auto simp: row)
    with recovered_running that(2) find_job_id show ?thesis by metis
  qed
  show ?thesis
  proof (intro conjI allI impI, goal_cases)
    case (1 i j)
    with row [of i] recovered_cases [of j "active_ids s" now] find_job_id [OF 1] show ?case by simp
  next
    case (2 i j')
    then show ?case using held by blast
  qed
qed

lemma stage_of_fields [simp]:
  "stage_of (s\<lparr>st_jobs := r\<rparr>) t = stage_of s t" "stage_of (s\<lparr>st_models := ms\<rparr>) t = stage_of s t"
  by (simp_all add: stage_of_def)

lemma stage_of_set_stage: "stage_of s t = Some st0 \<Longrightarrow> stage_of (set_stage t st s) t = Some st"
proof -
  have "map_of ps t = Some p \<Longrightarrow>
      map_of (map (\<lambda>(u, p). if u = t then (u, p\<lparr>pr_stage := st\<rparr>) else (u, p)) ps) t = Some (p\<lparr>pr_stage := st\<rparr>)" for ps p
    by (induction ps) (auto split: if_splits)
  from this [of "st_processes s"] show "stage_of s t = Some st0 \<Longrightarrow> stage_of (set_stage t st s) t = Some st"
    by (cases "map_of (st_processes s) t") (auto simp: stage_of_def set_stage_def)
qed

text \<open>How a worker ends its job. A backend's error fails the job with its message, a canceled run
  cancels it, a suspended remote run is queued again, and a run that returned completes it unless
  the scheduler stops or a cancellation was requested meanwhile; a model is stored exactly for a job
  that completed (and could be stored). The worker exits in every case.\<close>

lemma worker_outcome_recorded:
  assumes "studio_ids_distinct rows" and "s = foldl studio_step (scheduler_init rows) es"
    and "stage_of s t = Some (Training j)" and "find_job (sj_id j) (st_jobs s) = Some row"
    and "s' = finish_training t j False outcome model_ok now s"
  shows "(\<exists>row'. find_job (sj_id j) (st_jobs s') = Some row' \<and> sj_payload row' = sj_payload row
        \<and> sj_status row' = (case outcome of
             TrainingError e \<Rightarrow> J_FAILED | CanceledError \<Rightarrow> J_CANCELED | Suspended \<Rightarrow> J_PENDING
           | Returned \<Rightarrow> if st_stop s \<or> cancel_is_set s (sj_id j) then J_CANCELED else J_COMPLETED)
        \<and> (sj_end_time row' = Some now \<or> outcome = Suspended)
        \<and> (outcome = Returned \<and> sj_status row' = J_COMPLETED \<longrightarrow> sj_progress row' = 100)
        \<and> st_models s' = st_models s @ (if sj_status row' = J_COMPLETED \<and> model_ok then [sj_id j] else []))
     \<and> stage_of s' t = Some Exited
     \<and> (\<forall>i. i \<noteq> sj_id j \<longrightarrow> find_job i (st_jobs s') = find_job i (st_jobs s))"
proof -
  have e: "effective_outcome s j False outcome = outcome"
    by (simp add: effective_outcome_def split: job_payload.split)
  have "stage_of s' t = Some Exited"
    unfolding assms(5) finish_training_def Let_def by (rule stage_of_set_stage [of _ _ "Training j"]) (simp add: assms(3))
  moreover have "find_job i (st_jobs s') = find_job i (st_jobs s)" if "i \<noteq> sj_id j" for i
    using that by (simp add: assms(5) finish_training_def Let_def studio_table.lookup_modify)
  moreover have "find_job (sj_id j) (st_jobs s')
      = Some (apply_change (finish_change outcome (should_interrupt s (sj_id j)) now) row)"
    using assms(4) by (simp add: assms(5) finish_training_def Let_def e studio_table.lookup_modify)
  moreover have "st_models s' = st_models s
      @ (if outcome = Returned \<and> \<not> should_interrupt s (sj_id j) \<and> model_ok then [sj_id j] else [])"
    using assms(4) by (simp add: assms(5) finish_training_def Let_def e)
  ultimately show ?thesis
    by (cases outcome)
       (auto simp: finish_change_def status_change_def apply_change_def end_time_of_def j_terminal_def
         should_interrupt_def keep_or_set_def)
qed

text \<open>An accepted submission adds one queued row with the prepared payload and nothing else, and
  the same submission is refused as a duplicate while the first one waits; a refused submission
  changes nothing.\<close>

lemma submission_queues_once:
  "case submit_train_job env i now p rows of
     (Inl e, rows') \<Rightarrow> rows' = rows
   | (Inr j, rows') \<Rightarrow>
       rows' = rows @ [j] \<and> find_job i rows = None \<and> sj_id j = i \<and> sj_status j = J_PENDING \<and> sj_created_at j = now
       \<and> (\<exists>q. prepare env p = Inr q \<and> sj_payload j = TrainP q)
       \<and> submit_train_job env i' now' p rows' = (Inl DuplicateJob, rows')"
proof (cases "bind_result (allow_job_submission env p) (\<lambda>_. prepare env p)")
  case (Inl e)
  then show ?thesis by (simp add: submit_train_job_def)
next
  case (Inr q)
  then have q: "prepare env p = Inr q" by (simp add: bind_result_Inr_iff)
  have same: "submit_train_job env k n p rs = (if is_job_duplicate (pl_project_id q) q rs then (Inl DuplicateJob, rs)
      else if pl_project_id q \<notin> set (env_projects env) \<or> find_job k rs \<noteq> None
      then (Inl (ResourceNotFound (pl_project_id q)), rs)
      else (Inr (new_train_job k n q), rs @ [new_train_job k n q]))" for k n rs
    unfolding submit_train_job_def Inr by simp
  have dup: "is_job_duplicate (pl_project_id q) q (rows @ [new_train_job i now q])"
    by (simp add: is_job_duplicate_def new_train_job_def)
  show ?thesis
    using dup q unfolding same by (simp add: new_train_job_def)
qed

section \<open>A worked run\<close>

text \<open>A local job, one that takes a whole remote trainer, and one for a device of that trainer.\<close>

definition demo_remote :: "string option \<Rightarrow> TrainJobPayload" where
  "demo_remote remote_job = demo_valid_payload\<lparr>
     pl_target := Remote \<lparr>remote_trainer_id = ''t'', remote_trainer_url = Some ''http://t'', remote_trainer_name = None,
       authentication_issue = None, cancel_requested = Some False\<rparr>,
     pl_device := None, pl_remote_job_id := remote_job\<rparr>"

definition demo_jobs :: jobs where
  "demo_jobs = [new_train_job ''c'' 3 ((demo_remote None)\<lparr>pl_device := Some \<lparr>device_type = CUDA, device_index = Some 0\<rparr>\<rparr>),
     new_train_job ''a'' 1 demo_valid_payload, new_train_job ''b'' 2 (demo_remote (Some ''r''))]"

definition demo_run :: "studio_event list" where
  "demo_run = [Schedule (\<lambda>_. True) 10, WorkerClaim ''local'' 11, WorkerStart ''local'' (Some ''snap'') 12]"

definition demo_studio :: studio where
  "demo_studio = foldl studio_step (scheduler_init demo_jobs) demo_run"

lemma demo_jobs_ids: "studio_ids_distinct demo_jobs"
  by code_simp


lemma demo_studio_stage:
  "case stage_of demo_studio ''local'' of Some (Training j) \<Rightarrow> sj_id j = ''a'' | _ \<Rightarrow> False"
  by code_simp

lemma demo_studio_row:
  "map_option (\<lambda>j. (sj_status j, job_type j)) (find_job ''a'' (st_jobs demo_studio)) = Some (J_RUNNING, TRAINING)"
  by code_simp

lemma demo_reattach:
  "map_option (\<lambda>j. (sj_status j, reattachable_remote_job_id j)) (find_job ''a'' (st_jobs demo_studio)) = Some (J_RUNNING, None)"
  by code_simp

theorem studio_targets_exclusive_witness:
  "distinct (active_ids demo_studio) \<and> distinct (map fst (st_processes demo_studio))"
  using studio_targets_exclusive [OF demo_jobs_ids, of demo_run]
  unfolding demo_studio_def Let_def by (intro conjI) (elim conjE, assumption)+

lemma demo_finished:
  "map_option (\<lambda>j. (sj_status j, job_type j))
     (find_job ''a'' (st_jobs (foldl studio_step (scheduler_init demo_jobs) (demo_run @ [WorkerFinish ''local'' False Returned True 20]))))
   = Some (J_COMPLETED, TRAINING)"
  by code_simp

lemma ended_jobs_final_witness:
  "pred_option (\<lambda>j. sj_status j = J_COMPLETED)
     (find_job ''a'' (st_jobs (foldl studio_step (scheduler_init demo_jobs)
        (demo_run @ [WorkerFinish ''local'' False Returned True 20, InterruptJob True ''a'' 21, Reap 22]))))"
proof -
  obtain j where j: "find_job ''a'' (st_jobs (foldl studio_step (scheduler_init demo_jobs)
      (demo_run @ [WorkerFinish ''local'' False Returned True 20]))) = Some j" "job_type j = TRAINING" "sj_status j = J_COMPLETED"
    using demo_finished by auto
  have t: "j_terminal (sj_status j)" "\<not> list_ex (resubmits ''a'') [InterruptJob True ''a'' 21, Reap 22]"
    by (simp_all add: j(3) j_terminal_def resubmits_def)
  from ended_jobs_final [OF demo_jobs_ids refl j(1,2) t] show ?thesis
    by (simp add: j(3))
qed



lemma demo_claim:
  "fst (transition_pending_train_job ''a'' J_RUNNING 5 demo_jobs) \<noteq> Inr None
   \<and> \<not> isl (fst (transition_pending_train_job ''a'' J_RUNNING 5 demo_jobs))"
  by code_simp

lemma claim_or_cancel_once_witness:
  "fst (transition_pending_train_job ''a'' J_CANCELED 6 (snd (transition_pending_train_job ''a'' J_RUNNING 5 demo_jobs))) = Inr None"
proof -
  obtain j where j: "transition_pending_train_job ''a'' J_RUNNING 5 demo_jobs
      = (Inr (Some j), snd (transition_pending_train_job ''a'' J_RUNNING 5 demo_jobs))"
    using demo_claim by (cases "transition_pending_train_job ''a'' J_RUNNING 5 demo_jobs"; cases "fst (transition_pending_train_job ''a'' J_RUNNING 5 demo_jobs)") auto
  from claim_or_cancel_once [OF demo_jobs_ids _ _ j, of J_CANCELED 6] show ?thesis by simp
qed

lemma schedule_starts_oldest_witness:
  "\<exists>new imps. st_processes (snd (schedule_jobs (\<lambda>_. True) 10 (scheduler_init demo_jobs))) = new @ imps
     \<and> (\<forall>j\<in>set demo_jobs. job_type j = TRAINING \<and> sj_status j = J_PENDING \<longrightarrow> target_is_busy (job_target j) (map fst new))"
proof -
  have "\<not> st_stop (scheduler_init demo_jobs)" by (simp add: scheduler_init_def)
  from schedule_starts_oldest [OF this, of 10] show ?thesis
    by (simp add: scheduler_init_def) blast
qed

theorem recovery_reconciles_witness:
  "\<exists>j. find_job ''a'' (st_jobs (recover_jobs 30 (scheduler_init (st_jobs demo_studio)))) = Some j
     \<and> sj_status j = J_FAILED \<and> sj_end_time j = Some 30"
proof -
  have d: "studio_ids_distinct (st_jobs (scheduler_init (st_jobs demo_studio)))"
    by code_simp
  obtain j where j: "find_job ''a'' (st_jobs demo_studio) = Some j" "sj_status j = J_RUNNING" "reattachable_remote_job_id j = None"
    using demo_reattach by auto
  have s: "st_jobs (scheduler_init (st_jobs demo_studio)) = st_jobs demo_studio"
    "active_ids (scheduler_init (st_jobs demo_studio)) = []"
    by (simp_all add: scheduler_init_def active_ids_def)
  from conjunct1 [OF recovery_reconciles [OF d, of 30], rule_format, of "''a''" j] j s show ?thesis by auto
qed

lemma demo_held:
  obtains j row where "stage_of demo_studio ''local'' = Some (Training j)" "sj_id j = ''a''"
    "find_job (sj_id j) (st_jobs demo_studio) = Some row"
  using demo_studio_stage demo_studio_row by (auto split: option.splits stage.splits)

lemma worker_outcome_recorded_witness:
  "\<exists>j row. stage_of demo_studio ''local'' = Some (Training j)
     \<and> find_job (sj_id j) (st_jobs (finish_training ''local'' j False (TrainingError ''oom'') True 20 demo_studio)) = Some row
     \<and> sj_status row = J_FAILED \<and> sj_end_time row = Some 20"
proof -
  obtain j row where j: "stage_of demo_studio ''local'' = Some (Training j)" "find_job (sj_id j) (st_jobs demo_studio) = Some row"
    using demo_held by metis
  from worker_outcome_recorded [OF demo_jobs_ids demo_studio_def j refl, of "TrainingError ''oom''" True 20] j(1)
  show ?thesis by auto
qed

end
