(* ===== verification/RuntimeContract.thy ===== *)
theory RuntimeContract
  imports Prelude "HOL-Library.AList"
begin

text \<open>
  The contract between a robot session and its clients, \<^verbatim>\<open>runtime/contract.py\<close>: commands,
  events, the command mailbox and the event sink; with the feature names of
  \<^verbatim>\<open>runtime/features.py\<close>. UUIDs are strings; a joint vector is a list of reals.
\<close>

type_synonym joints = "real list"

datatype FollowerSource = Hold | Teleop | Policy

record LoadModelCommand =
  lm_model_id :: string
  lm_backend :: string
  lm_device :: string
  lm_force :: bool

datatype command =
    SetFollowerSource FollowerSource
  | DisconnectCommand
  | LoadModel LoadModelCommand
  | LoadDataset string
  | StartTask string
  | StopTask
  | StartRecording string
  | SaveEpisode string
  | DiscardEpisode string

record StateData =
  connected :: bool
  follower_source :: FollowerSource
  has_leader :: bool
  model_loaded :: "bool option"
  state_task :: "string option"
  state_dataset_loaded :: "bool option"
  state_is_recording :: "bool option"
  state_episodes_recorded :: "int option"

record AckData =
  ack_request_id :: string
  ack_ok :: bool
  ack_error :: "string option"

datatype runtime_event =
    ObservationEvent "(string \<times> real) list" "(string \<times> real) list option"
  | StateEvent StateData
  | ErrorEvent string string
  | LifecycleEvent string "string option"
  | AckEvent AckData

definition is_observation :: "runtime_event \<Rightarrow> bool" where
  "is_observation e = (case e of ObservationEvent d a \<Rightarrow> True | _ \<Rightarrow> False)"

section \<open>Mailbox and event sink\<close>

definition mailbox_apply :: "command \<Rightarrow> command list \<Rightarrow> command list" where
  "mailbox_apply c q = q @ [c]"

text \<open>\<open>drain\<close> takes what is queued until it finds the queue empty.\<close>

definition mailbox_drain :: "command list \<Rightarrow> command list \<times> command list" where
  "mailbox_drain q = (q, [])"

definition sink_emit :: "runtime_event \<Rightarrow> runtime_event list \<Rightarrow> runtime_event list" where
  "sink_emit e q = (if is_observation e then filter (\<lambda>x. \<not> is_observation x) q else q) @ [e]"

definition sink_get_nowait :: "runtime_event list \<Rightarrow> runtime_event option \<times> runtime_event list" where
  "sink_get_nowait q = (case q of [] \<Rightarrow> (None, []) | e # es \<Rightarrow> (Some e, es))"

section \<open>Features\<close>

definition feature_names :: "string list \<Rightarrow> string list" where
  "feature_names joint_names = map (\<lambda>n. n @ ''.pos'') joint_names"

text \<open>\<open>zip(strict=True)\<close> raises where the lengths differ; \<open>dict\<close> keeps the first place and the last value.\<close>

definition named_positions :: "string list \<Rightarrow> joints \<Rightarrow> string + (string \<times> real) list" where
  "named_positions joint_names values =
     (if length joint_names \<noteq> length values then Inl ''zip() argument lengths differ''
      else Inr (foldl (\<lambda>d (k, v). AList.update k v d) [] (zip (feature_names joint_names) values)))"

text \<open>\<open>re.sub(r"[^a-z0-9 _-]+", "_", name.lower())\<close>: each maximal run of other characters becomes one underscore.\<close>

definition camera_char_ok :: "char \<Rightarrow> bool" where
  "camera_char_ok c \<longleftrightarrow> (97 \<le> (of_char c :: nat) \<and> (of_char c :: nat) \<le> 122)
     \<or> (48 \<le> (of_char c :: nat) \<and> (of_char c :: nat) \<le> 57) \<or> c \<in> {CHR '' '', CHR ''_'', CHR ''-''}"

function squash_runs :: "string \<Rightarrow> string" where
  "squash_runs [] = []"
| "squash_runs (c # cs) =
     (if camera_char_ok c then c # squash_runs cs
      else CHR ''_'' # squash_runs (dropWhile (\<lambda>x. \<not> camera_char_ok x) cs))"
  by pat_completeness auto
termination
  by (relation "measure length") (auto simp: le_imp_less_Suc length_dropWhile_le)

definition sanitize_camera_name :: "string \<Rightarrow> string" where
  "sanitize_camera_name name = squash_runs (py_lower name)"

section \<open>What a client reads\<close>

text \<open>The reference: of the events sent so far, every one that is not an observation, and the newest observation.\<close>

fun newest_observation_only :: "runtime_event list \<Rightarrow> runtime_event list" where
  "newest_observation_only [] = []"
| "newest_observation_only (e # es) =
     (if is_observation e \<and> list_ex is_observation es then newest_observation_only es
      else e # newest_observation_only es)"

lemma newest_append_other:
  "\<not> is_observation e \<Longrightarrow> newest_observation_only (es @ [e]) = newest_observation_only es @ [e]"
  by (induction es) auto

lemma newest_append_observation:
  "is_observation e \<Longrightarrow> newest_observation_only (es @ [e]) = filter (\<lambda>x. \<not> is_observation x) es @ [e]"
  by (induction es) auto

lemma filter_newest: "filter (\<lambda>x. \<not> is_observation x) (newest_observation_only es) = filter (\<lambda>x. \<not> is_observation x) es"
  by (induction es) auto

text \<open>The sink is a queue in which observations overtake nothing and only the newest is kept: what a
  client that has read nothing finds is the reference, and one more event acts on it like on the queue.\<close>

lemma sink_keeps_newest_observation:
  "foldl (\<lambda>q e. sink_emit e q) [] es = newest_observation_only es"
proof (induction es rule: rev_induct)
  case (snoc e es)
  then show ?case
    by (cases "is_observation e")
       (simp_all add: sink_emit_def newest_append_other newest_append_observation filter_newest)
qed simp

end
