(* ===== verification/RuntimeRecording.thy ===== *)
theory RuntimeRecording
  imports RuntimeContract
begin

text \<open>
  Recording in a robot session: \<^verbatim>\<open>runtime/callbacks/recording.py\<close> (flags, mutation, frames),
  \<^verbatim>\<open>runtime/command_thread.py\<close> (the worker that runs blocking commands one at a time),
  \<^verbatim>\<open>internal_datasets/mutations/recording_mutation.py\<close> and the recording half of
  \<^verbatim>\<open>runtime/session.py\<close>. Three threads meet here: the control thread (ticks, starting an
  episode), the command worker (loading, saving, discarding, finalizing) and the thread that submits,
  waits and tears down. A worker job is split at each access to shared state, so that ticks and
  commands may come between; an encoder, a copy or a device that fails is the outcome of its step.
\<close>

section \<open>The recording state\<close>

record frame =
  fr_observation :: "(string \<times> real) list"
  fr_images :: "(string \<times> string) list"
  fr_action :: "(string \<times> real) list"
  fr_task :: string

type_synonym episode = "frame list"

text \<open>A cache copy of a dataset with its open buffer; \<open>mut_dataset\<close> names the dataset it came from.\<close>

record RecordingMutation =
  mut_dataset :: string
  mut_episodes :: "episode list"
  mut_buffer :: "frame list"
  has_mutation :: bool

record RecordingState =
  dataset_loaded :: bool
  is_recording :: bool
  episodes_recorded :: int
  rec_task :: "string option"
  rec_mutation :: "RecordingMutation option"
  rec_closed :: bool

definition recording_init :: RecordingState where
  "recording_init = \<lparr>dataset_loaded = False, is_recording = False, episodes_recorded = 0, rec_task = None,
     rec_mutation = None, rec_closed = False\<rparr>"

definition rec_start :: "string \<Rightarrow> RecordingState \<Rightarrow> bool \<times> RecordingState" where
  "rec_start task r =
     (if rec_mutation r = None \<or> rec_closed r then (False, r)
      else (True, r\<lparr>rec_task := Some task, is_recording := True\<rparr>))"

definition attach_mutation :: "RecordingMutation \<Rightarrow> RecordingState \<Rightarrow> RecordingState" where
  "attach_mutation m r = r\<lparr>rec_mutation := Some m, dataset_loaded := True, is_recording := False\<rparr>"

definition mark_saved :: "RecordingState \<Rightarrow> RecordingState" where
  "mark_saved r = r\<lparr>is_recording := False, episodes_recorded := episodes_recorded r + 1\<rparr>"

definition mark_discarded :: "RecordingState \<Rightarrow> RecordingState" where
  "mark_discarded r = r\<lparr>is_recording := False\<rparr>"

text \<open>\<open>left\<close> is the buffer that a failing \<^verbatim>\<open>add_frame\<close> of the dataset leaves, \<open>None\<close> where it returns.\<close>

definition rec_add_frame ::
  "(string \<times> real) list \<Rightarrow> (string \<times> string) list \<Rightarrow> (string \<times> real) list \<Rightarrow> frame list option
     \<Rightarrow> RecordingState \<Rightarrow> RecordingState" where
  "rec_add_frame obs images act left r =
     (if rec_closed r \<or> \<not> is_recording r then r
      else case (rec_mutation r, rec_task r) of
          (Some m, Some task) \<Rightarrow>
            r\<lparr>rec_mutation := Some (m\<lparr>mut_buffer :=
               (case left of
                  Some b \<Rightarrow> b
                | None \<Rightarrow> mut_buffer m @ [\<lparr>fr_observation = obs, fr_images = images, fr_action = act, fr_task = task\<rparr>])\<rparr>)\<rparr>
        | _ \<Rightarrow> r)"

definition stop_episode :: "RecordingState \<Rightarrow> (string + RecordingMutation) \<times> RecordingState" where
  "stop_episode r =
     (case (is_recording r, rec_mutation r) of
        (True, Some m) \<Rightarrow> (Inr m, r\<lparr>is_recording := False\<rparr>)
      | _ \<Rightarrow> (Inl ''No episode is being recorded.'', r))"

definition current_mutation :: "RecordingState \<Rightarrow> RecordingMutation option \<times> RecordingState" where
  "current_mutation r = (rec_mutation r, r\<lparr>is_recording := False\<rparr>)"

definition take_mutation :: "RecordingState \<Rightarrow> RecordingMutation option \<times> RecordingState" where
  "take_mutation r = (rec_mutation r,
     r\<lparr>rec_mutation := None, is_recording := False, dataset_loaded := False, rec_task := None, episodes_recorded := 0\<rparr>)"

definition rec_close :: "RecordingState \<Rightarrow> RecordingState" where
  "rec_close r = r\<lparr>rec_closed := True\<rparr>"

text \<open>\<open>RecordingCallback.on_tick\<close>: building the dictionaries may raise, adding the frame may not.\<close>

definition recording_on_tick ::
  "FollowerSource \<Rightarrow> string list \<Rightarrow> joints \<Rightarrow> (string \<times> string) list \<Rightarrow> joints option \<Rightarrow> frame list option
     \<Rightarrow> RecordingState \<Rightarrow> (string + unit) \<times> RecordingState" where
  "recording_on_tick src joint_names positions images action left r =
     (if src = Hold then (Inr (), r)
      else case action of
          None \<Rightarrow> (Inr (), r)
        | Some a \<Rightarrow>
            if joint_names = [] then (Inr (), r)
            else case named_positions joint_names positions of
                Inl e \<Rightarrow> (Inl e, r)
              | Inr obs \<Rightarrow>
                  (case named_positions joint_names a of
                     Inl e \<Rightarrow> (Inl e, r)
                   | Inr act \<Rightarrow> (Inr (), rec_add_frame obs images act left r)))"

section \<open>The command worker\<close>

datatype work = DoLoad string | DoSave | DoDiscard | DoFinalize

record job =
  job_work :: work
  job_request :: "string option"

text \<open>\<open>None\<close> in the queue is the shutdown mark; \<open>wk_thread\<close> and \<open>wk_exited\<close> are the thread's life.\<close>

record CommandWorker =
  wk_queue :: "job option list"
  wk_results :: "string \<Rightarrow> AckData option"
  wk_events :: "string \<Rightarrow> bool option"
  wk_closed :: bool
  wk_thread :: bool
  wk_exited :: bool

definition worker_init :: CommandWorker where
  "worker_init = \<lparr>wk_queue = [], wk_results = Map.empty, wk_events = Map.empty, wk_closed = False,
     wk_thread = False, wk_exited = False\<rparr>"

definition worker_submit :: "job \<Rightarrow> CommandWorker \<Rightarrow> (string + unit) \<times> CommandWorker" where
  "worker_submit j w =
     (if wk_closed w then (Inl ''Cannot submit after the command worker has shut down'', w)
      else (Inr (), w\<lparr>
        wk_events := (case job_request j of None \<Rightarrow> wk_events w | Some rid \<Rightarrow> (wk_events w)(rid \<mapsto> False)),
        wk_thread := True, wk_queue := wk_queue w @ [Some j]\<rparr>))"

text \<open>The outcome of \<open>wait\<close>: the event is not set when the timeout elapses, or it is.\<close>

definition worker_wait :: "string \<Rightarrow> CommandWorker \<Rightarrow> (string + AckData) \<times> CommandWorker" where
  "worker_wait rid w =
     (case wk_events w rid of
        None \<Rightarrow> (Inl ''No command worker job with this request_id'', w)
      | Some False \<Rightarrow>
          (Inr \<lparr>ack_request_id = rid, ack_ok = False, ack_error = Some ''Command timed out after 60s''\<rparr>, w)
      | Some True \<Rightarrow>
          let w1 = w\<lparr>wk_events := (wk_events w)(rid := None)\<rparr> in
          (case wk_results w rid of
             None \<Rightarrow> (Inl ''KeyError'', w1)
           | Some ack \<Rightarrow> (Inr ack, w1\<lparr>wk_results := (wk_results w)(rid := None)\<rparr>)))"

definition worker_close :: "CommandWorker \<Rightarrow> CommandWorker" where
  "worker_close w = w\<lparr>wk_closed := True,
     wk_queue := (if wk_thread w \<and> \<not> wk_closed w then wk_queue w @ [None] else wk_queue w)\<rparr>"

text \<open>The end of an iteration of \<open>_run\<close>: \<open>None\<close> for a job that returned, its error otherwise.\<close>

definition job_name :: "work \<Rightarrow> string" where
  "job_name w = (case w of DoLoad d \<Rightarrow> ''load_dataset'' | DoSave \<Rightarrow> ''save_episode''
     | DoDiscard \<Rightarrow> ''discard_episode'' | DoFinalize \<Rightarrow> ''finalize_recording'')"

definition worker_finish :: "job \<Rightarrow> string option \<Rightarrow> CommandWorker \<Rightarrow> CommandWorker" where
  "worker_finish j err w =
     (case job_request j of
        None \<Rightarrow> w
      | Some rid \<Rightarrow>
          w\<lparr>wk_results := (wk_results w)(rid \<mapsto>
               (case err of
                  None \<Rightarrow> \<lparr>ack_request_id = rid, ack_ok = True, ack_error = None\<rparr>
                | Some e \<Rightarrow> \<lparr>ack_request_id = rid, ack_ok = False,
                    ack_error = Some (if e = '''' then job_name (job_work j) @ '' failed'' else e)\<rparr>)),
             wk_events := (if wk_events w rid = None then wk_events w else (wk_events w)(rid \<mapsto> True))\<rparr>)"

section \<open>The session's recording jobs\<close>

text \<open>Where a job stands; the mutation that a job has taken out of the recording state is its own.\<close>

datatype pc =
    SaveStop | SaveWrite | SaveMark
  | DiscardTake | DiscardBuffer | DiscardMark
  | LoadTake string | LoadTeardown string RecordingMutation | LoadOpen string | LoadAttach RecordingMutation
  | FinCheck | FinBuffer | FinMark | FinTake | FinTeardown RecordingMutation

definition start_pc :: "work \<Rightarrow> pc" where
  "start_pc w = (case w of DoLoad d \<Rightarrow> LoadTake d | DoSave \<Rightarrow> SaveStop | DoDiscard \<Rightarrow> DiscardTake | DoFinalize \<Rightarrow> FinCheck)"

text \<open>
  How the call of a step ended: it returned, or it raised an error and left the cache with these
  episodes and this buffer, or the dataset on disk like this.
\<close>

datatype outcome = Succeeds | Raises string "episode list" "frame list" "episode list option"

datatype published = PubState bool bool int | PubError string string

datatype 'a progress = Continue 'a | Done | Failed string

record recorder =
  rc_recording :: RecordingState
  rc_datasets :: "string \<Rightarrow> episode list option"
  rc_worker :: CommandWorker
  rc_running :: "(job \<times> pc) option"
  rc_published :: "published list"

definition rc_set :: "RecordingState \<Rightarrow> recorder \<Rightarrow> recorder" where
  "rc_set r s = s\<lparr>rc_recording := r\<rparr>"

definition emit_state :: "recorder \<Rightarrow> recorder" where
  "emit_state s = s\<lparr>rc_published := rc_published s @
     [PubState (dataset_loaded (rc_recording s)) (is_recording (rc_recording s)) (episodes_recorded (rc_recording s))]\<rparr>"

definition emit_error :: "string \<Rightarrow> string \<Rightarrow> recorder \<Rightarrow> recorder" where
  "emit_error msg code s = s\<lparr>rc_published := rc_published s @ [PubError msg code]\<rparr>"

definition on_mutation :: "(RecordingMutation \<Rightarrow> RecordingMutation) \<Rightarrow> recorder \<Rightarrow> recorder" where
  "on_mutation f s = s\<lparr>rc_recording := (rc_recording s)\<lparr>rec_mutation := map_option f (rec_mutation (rc_recording s))\<rparr>\<rparr>"

definition mutation_teardown ::
  "RecordingMutation \<Rightarrow> outcome \<Rightarrow> recorder \<Rightarrow> string option \<times> recorder" where
  "mutation_teardown m out s =
     (case out of
        Succeeds \<Rightarrow> (None,
          if has_mutation m then s\<lparr>rc_datasets := (rc_datasets s)(mut_dataset m \<mapsto> mut_episodes m)\<rparr> else s)
      | Raises e eps buf ds \<Rightarrow> (Some e, s\<lparr>rc_datasets := (rc_datasets s)(mut_dataset m := ds)\<rparr>))"

definition save_write :: "outcome \<Rightarrow> recorder \<Rightarrow> pc progress \<times> recorder" where
  "save_write out s =
     (case out of
        Succeeds \<Rightarrow> (Continue SaveMark, on_mutation (\<lambda>m. m\<lparr>has_mutation := True,
             mut_episodes := mut_episodes m @ [mut_buffer m], mut_buffer := []\<rparr>) s)
      | Raises e eps buf ds \<Rightarrow>
          (Failed e, emit_state (on_mutation (\<lambda>m. m\<lparr>has_mutation := True, mut_episodes := eps, mut_buffer := buf\<rparr>) s)))"

definition load_failed :: "string \<Rightarrow> recorder \<Rightarrow> pc progress \<times> recorder" where
  "load_failed e s = (Failed e, emit_error e ''dataset_load_failed'' s)"

definition open_mutation :: "string \<Rightarrow> recorder \<Rightarrow> RecordingMutation" where
  "open_mutation d s = \<lparr>mut_dataset = d, mut_episodes = (case rc_datasets s d of None \<Rightarrow> [] | Some es \<Rightarrow> es),
     mut_buffer = [], has_mutation = False\<rparr>"

definition work_step :: "outcome \<Rightarrow> pc \<Rightarrow> recorder \<Rightarrow> pc progress \<times> recorder" where
  "work_step out p s =
     (case p of
        SaveStop \<Rightarrow>
          (case stop_episode (rc_recording s) of
             (Inl e, r) \<Rightarrow> (Failed e, rc_set r s) | (Inr m, r) \<Rightarrow> (Continue SaveWrite, rc_set r s))
      | SaveWrite \<Rightarrow> save_write out s
      | SaveMark \<Rightarrow> (Done, emit_state (rc_set (mark_saved (rc_recording s)) s))
      | DiscardTake \<Rightarrow>
          (case current_mutation (rc_recording s) of
             (None, r) \<Rightarrow> (Failed ''No dataset is loaded.'', rc_set r s)
           | (Some m, r) \<Rightarrow> (Continue DiscardBuffer, rc_set r s))
      | DiscardBuffer \<Rightarrow>
          (case out of
             Succeeds \<Rightarrow> (Continue DiscardMark, on_mutation (\<lambda>m. m\<lparr>mut_buffer := []\<rparr>) s)
           | Raises e eps buf ds \<Rightarrow> (Failed e, on_mutation (\<lambda>m. m\<lparr>mut_buffer := buf\<rparr>) s))
      | DiscardMark \<Rightarrow> (Done, emit_state (rc_set (mark_discarded (rc_recording s)) s))
      | LoadTake d \<Rightarrow>
          (case out of
             Raises e eps buf ds \<Rightarrow> load_failed e s
           | Succeeds \<Rightarrow>
               (case take_mutation (rc_recording s) of
                  (None, r) \<Rightarrow> (Continue (LoadOpen d), rc_set r s)
                | (Some m, r) \<Rightarrow> (Continue (LoadTeardown d m), rc_set r s)))
      | LoadTeardown d m \<Rightarrow>
          (case mutation_teardown m out s of
             (None, s1) \<Rightarrow> (Continue (LoadOpen d), s1) | (Some e, s1) \<Rightarrow> load_failed e s1)
      | LoadOpen d \<Rightarrow>
          (case out of
             Raises e eps buf ds \<Rightarrow> load_failed e s
           | Succeeds \<Rightarrow> (Continue (LoadAttach (open_mutation d s)), s))
      | LoadAttach m \<Rightarrow> (Done, emit_state (rc_set (attach_mutation m (rc_recording s)) s))
      | FinCheck \<Rightarrow>
          (if \<not> is_recording (rc_recording s) then (Continue FinTake, s)
           else case stop_episode (rc_recording s) of
               (Inl e, r) \<Rightarrow> (Failed e, rc_set r s) | (Inr m, r) \<Rightarrow> (Continue FinBuffer, rc_set r s))
      | FinBuffer \<Rightarrow>
          (Continue FinMark, on_mutation (\<lambda>m. m\<lparr>mut_buffer :=
             (case out of Succeeds \<Rightarrow> [] | Raises e eps buf ds \<Rightarrow> buf)\<rparr>) s)
      | FinMark \<Rightarrow> (Continue FinTake, emit_state (rc_set (mark_discarded (rc_recording s)) s))
      | FinTake \<Rightarrow>
          (case take_mutation (rc_recording s) of
             (None, r) \<Rightarrow> (Done, rc_set r s) | (Some m, r) \<Rightarrow> (Continue (FinTeardown m), rc_set r s))
      | FinTeardown m \<Rightarrow> (Done, emit_state (snd (mutation_teardown m out s))))"

text \<open>\<open>_finalize_recording\<close> off the worker: its five steps in one go.\<close>

fun run_work :: "nat \<Rightarrow> (pc \<Rightarrow> outcome) \<Rightarrow> pc \<Rightarrow> recorder \<Rightarrow> recorder" where
  "run_work 0 outs p s = s"
| "run_work (Suc n) outs p s =
     (case work_step (outs p) p s of (Continue p1, s1) \<Rightarrow> run_work n outs p1 s1 | (_, s1) \<Rightarrow> s1)"

definition finalize_recording_now :: "(pc \<Rightarrow> outcome) \<Rightarrow> recorder \<Rightarrow> recorder" where
  "finalize_recording_now outs s = run_work 5 outs FinCheck s"

section \<open>Steps\<close>

datatype recorder_event =
    StartRecordingCmd string
  | RecordTick FollowerSource "string list" joints "(string \<times> string) list" "joints option" "frame list option"
  | Submit work "string option"
  | Abandon
  | WorkerStep outcome
  | WaitAck string
  | CloseWorker
  | TeardownSession outcome outcome

definition recorder_init :: "(string \<Rightarrow> episode list option) \<Rightarrow> recorder" where
  "recorder_init ds = \<lparr>rc_recording = recording_init, rc_datasets = ds, rc_worker = worker_init,
     rc_running = None, rc_published = []\<rparr>"

definition submit_work :: "work \<Rightarrow> string option \<Rightarrow> recorder \<Rightarrow> recorder" where
  "submit_work w rid s = s\<lparr>rc_worker := snd (worker_submit \<lparr>job_work = w, job_request = rid\<rparr> (rc_worker s))\<rparr>"

definition end_job :: "job \<Rightarrow> string option \<Rightarrow> recorder \<Rightarrow> recorder" where
  "end_job j err s = s\<lparr>rc_worker := worker_finish j err (rc_worker s), rc_running := None\<rparr>"

text \<open>One turn of the worker thread: it takes the next job or moves the one it runs.\<close>

definition worker_step :: "outcome \<Rightarrow> recorder \<Rightarrow> recorder" where
  "worker_step out s =
     (case rc_running s of
        Some (j, p) \<Rightarrow>
          (case work_step out p s of
             (Continue p1, s1) \<Rightarrow> s1\<lparr>rc_running := Some (j, p1)\<rparr>
           | (Done, s1) \<Rightarrow> end_job j None s1
           | (Failed e, s1) \<Rightarrow> end_job j (Some e) s1)
      | None \<Rightarrow>
          if \<not> wk_thread (rc_worker s) \<or> wk_exited (rc_worker s) then s
          else case wk_queue (rc_worker s) of
              [] \<Rightarrow> s
            | None # q \<Rightarrow> s\<lparr>rc_worker := (rc_worker s)\<lparr>wk_queue := q, wk_exited := True\<rparr>\<rparr>
            | Some j # q \<Rightarrow>
                s\<lparr>rc_worker := (rc_worker s)\<lparr>wk_queue := q\<rparr>, rc_running := Some (j, start_pc (job_work j))\<rparr>)"

text \<open>
  \<open>teardown\<close> after the worker was asked to stop: where it drained the recording is finalized, where
  the join timed out it is left to the job in flight; then the callback is closed.
\<close>

definition teardown_session :: "(pc \<Rightarrow> outcome) \<Rightarrow> recorder \<Rightarrow> recorder" where
  "teardown_session outs s =
     (let s1 = (if \<not> wk_thread (rc_worker s) \<or> wk_exited (rc_worker s) then finalize_recording_now outs s else s)
      in rc_set (rec_close (rc_recording s1)) s1)"

fun recorder_step :: "recorder \<Rightarrow> recorder_event \<Rightarrow> recorder" where
  "recorder_step s (StartRecordingCmd task) = rc_set (snd (rec_start task (rc_recording s))) s"
| "recorder_step s (RecordTick src names pos images act left) =
     rc_set (snd (recording_on_tick src names pos images act left (rc_recording s))) s"
| "recorder_step s (Submit w rid) = submit_work w rid s"
| "recorder_step s Abandon = (if dataset_loaded (rc_recording s) then submit_work DoFinalize None s else s)"
| "recorder_step s (WorkerStep out) = worker_step out s"
| "recorder_step s (WaitAck rid) = s\<lparr>rc_worker := snd (worker_wait rid (rc_worker s))\<rparr>"
| "recorder_step s CloseWorker = s\<lparr>rc_worker := worker_close (rc_worker s)\<rparr>"
| "recorder_step s (TeardownSession discarding tearing) =
     (if wk_closed (rc_worker s)
      then teardown_session (\<lambda>p. case p of FinBuffer \<Rightarrow> discarding | FinTeardown m \<Rightarrow> tearing | _ \<Rightarrow> Succeeds) s
      else s)"

end
