(* ===== verification/RuntimeRecordingProps.thy ===== *)
theory RuntimeRecordingProps
  imports RuntimeRecording
begin

text \<open>
  What a recording session keeps: the flags a client sees agree with the mutation there is, and no
  interleaving of ticks, commands and worker steps loses an episode that was saved.
\<close>

section \<open>The invariant\<close>

definition committed :: "recorder \<Rightarrow> string \<Rightarrow> episode list" where
  "committed s d = (case rc_datasets s d of None \<Rightarrow> [] | Some es \<Rightarrow> es)"

text \<open>A job that has taken the mutation, or has opened one that is not attached yet, holds it.\<close>

definition held_mutation :: "pc option \<Rightarrow> RecordingMutation option" where
  "held_mutation p = (case p of Some (LoadTeardown d m) \<Rightarrow> Some m | Some (LoadAttach m) \<Rightarrow> Some m
     | Some (FinTeardown m) \<Rightarrow> Some m | _ \<Rightarrow> None)"

definition needs_attached :: "pc option \<Rightarrow> bool" where
  "needs_attached p \<longleftrightarrow> p \<in> {Some SaveWrite, Some SaveMark, Some DiscardBuffer, Some DiscardMark, Some FinBuffer, Some FinMark}"

definition detached :: "pc option \<Rightarrow> bool" where
  "detached p = (case p of Some (LoadTeardown d m) \<Rightarrow> True | Some (LoadOpen d) \<Rightarrow> True | Some (LoadAttach m) \<Rightarrow> True
     | Some (FinTeardown m) \<Rightarrow> True | _ \<Rightarrow> False)"

abbreviation attached :: "recorder \<Rightarrow> RecordingMutation option" where
  "attached s \<equiv> rec_mutation (rc_recording s)"

definition cache_at :: "pc option \<Rightarrow> recorder \<Rightarrow> RecordingMutation option" where
  "cache_at p s = (case attached s of Some m \<Rightarrow> Some m | None \<Rightarrow> held_mutation p)"

definition unsaved_mark :: "pc option \<Rightarrow> int" where
  "unsaved_mark p = (if p = Some SaveMark then 1 else 0)"

definition recorder_inv_at :: "pc option \<Rightarrow> recorder \<Rightarrow> bool" where
  "recorder_inv_at p s \<longleftrightarrow>
     dataset_loaded (rc_recording s) = (attached s \<noteq> None)
     \<and> (is_recording (rc_recording s) \<longrightarrow> attached s \<noteq> None)
     \<and> (needs_attached p \<longrightarrow> attached s \<noteq> None)
     \<and> (detached p \<longrightarrow> attached s = None)
     \<and> (case cache_at p s of None \<Rightarrow> True
        | Some m \<Rightarrow> has_mutation m \<or> mut_episodes m = committed s (mut_dataset m))
     \<and> (case attached s of None \<Rightarrow> episodes_recorded (rc_recording s) = 0
        | Some m \<Rightarrow> int (length (mut_episodes m)) =
            int (length (committed s (mut_dataset m))) + episodes_recorded (rc_recording s) + unsaved_mark p)
     \<and> (case p of Some (LoadAttach m) \<Rightarrow> \<not> has_mutation m | _ \<Rightarrow> True)"

text \<open>The episodes of a dataset as the session will leave them: the cache's, where one is open.\<close>

definition view_at :: "pc option \<Rightarrow> recorder \<Rightarrow> string \<Rightarrow> episode list" where
  "view_at p s d =
     (case cache_at p s of Some m \<Rightarrow> if mut_dataset m = d then mut_episodes m else committed s d
      | None \<Rightarrow> committed s d)"

text \<open>
  A step that loses nothing: a save that raises leaves the episodes there were, the copy back
  succeeds.
\<close>

definition lossless_at :: "outcome \<Rightarrow> pc \<Rightarrow> recorder \<Rightarrow> bool" where
  "lossless_at out p s =
     (case out of Succeeds \<Rightarrow> True
      | Raises e eps buf ds \<Rightarrow>
          (case p of SaveWrite \<Rightarrow> (case attached s of None \<Rightarrow> True | Some m \<Rightarrow> eps = mut_episodes m)
           | LoadTeardown d m \<Rightarrow> False | FinTeardown m \<Rightarrow> False | _ \<Rightarrow> True))"

definition saved_at :: "outcome \<Rightarrow> pc \<Rightarrow> recorder \<Rightarrow> (string \<times> episode) list" where
  "saved_at out p s =
     (case (out, p, attached s) of (Succeeds, SaveWrite, Some m) \<Rightarrow> [(mut_dataset m, mut_buffer m)] | _ \<Rightarrow> [])"

definition next_pc :: "pc progress \<Rightarrow> pc option" where
  "next_pc q = (case q of Continue p \<Rightarrow> Some p | _ \<Rightarrow> None)"

definition episodes_of :: "string \<Rightarrow> (string \<times> episode) list \<Rightarrow> episode list" where
  "episodes_of d xs = map snd (filter (\<lambda>(x, e). x = d) xs)"

lemmas pc_state_defs = recorder_inv_at_def view_at_def cache_at_def held_mutation_def needs_attached_def detached_def
  unsaved_mark_def committed_def

lemmas step_defs = work_step_def next_pc_def saved_at_def episodes_of_def lossless_at_def rc_set_def emit_state_def
  emit_error_def on_mutation_def load_failed_def

lemma committed_fields [simp]:
  "committed (s\<lparr>rc_published := x\<rparr>) = committed s" "committed (s\<lparr>rc_worker := w\<rparr>) = committed s"
  "committed (s\<lparr>rc_running := r\<rparr>) = committed s" "committed (s\<lparr>rc_recording := y\<rparr>) = committed s"
  by (simp_all add: committed_def fun_eq_iff)

lemma inv_at_published [simp]:
  "recorder_inv_at p (s\<lparr>rc_published := x\<rparr>) = recorder_inv_at p s" "view_at p (s\<lparr>rc_published := x\<rparr>) = view_at p s"
  "recorder_inv_at p (s\<lparr>rc_worker := w\<rparr>) = recorder_inv_at p s" "view_at p (s\<lparr>rc_worker := w\<rparr>) = view_at p s"
  "recorder_inv_at p (s\<lparr>rc_running := r\<rparr>) = recorder_inv_at p s" "view_at p (s\<lparr>rc_running := r\<rparr>) = view_at p s"
  by (simp_all add: recorder_inv_at_def view_at_def cache_at_def fun_eq_iff split: option.split)

lemma work_step_keeps:
  assumes "recorder_inv_at (Some p) s" and "lossless_at out p s" and "work_step out p s = (q, s')"
  shows "recorder_inv_at (next_pc q) s'
    \<and> (\<forall>d. view_at (next_pc q) s' d = view_at (Some p) s d @ episodes_of d (saved_at out p s))"
proof (cases p)
  case SaveStop
  with assms show ?thesis
    by (cases out; cases "is_recording (rc_recording s)"; cases "attached s")
       (auto simp: step_defs pc_state_defs stop_episode_def)
next
  case SaveWrite
  with assms show ?thesis
    by (cases out; cases "attached s") (auto simp: step_defs pc_state_defs save_write_def)
next
  case SaveMark
  with assms show ?thesis
    by (cases out; cases "attached s") (auto simp: step_defs pc_state_defs mark_saved_def)
next
  case DiscardTake
  with assms show ?thesis
    by (cases out; cases "attached s") (auto simp: step_defs pc_state_defs current_mutation_def)
next
  case DiscardBuffer
  with assms show ?thesis
    by (cases out; cases "attached s") (auto simp: step_defs pc_state_defs)
next
  case DiscardMark
  with assms show ?thesis
    by (cases out; cases "attached s") (auto simp: step_defs pc_state_defs mark_discarded_def)
next
  case (LoadTake d)
  with assms show ?thesis
    by (cases out; cases "attached s") (auto simp: step_defs pc_state_defs take_mutation_def)
next
  case (LoadTeardown d m)
  with assms show ?thesis
    by (cases out; cases "attached s") (auto simp: step_defs pc_state_defs mutation_teardown_def split: if_splits)
next
  case (LoadOpen d)
  with assms show ?thesis
    by (cases out; cases "attached s") (auto simp: step_defs pc_state_defs open_mutation_def)
next
  case (LoadAttach m)
  with assms show ?thesis
    by (cases out; cases "attached s") (auto simp: step_defs pc_state_defs attach_mutation_def)
next
  case FinCheck
  with assms show ?thesis
    by (cases out; cases "is_recording (rc_recording s)"; cases "attached s")
       (auto simp: step_defs pc_state_defs stop_episode_def)
next
  case FinBuffer
  with assms show ?thesis
    by (cases out; cases "attached s") (auto simp: step_defs pc_state_defs)
next
  case FinMark
  with assms show ?thesis
    by (cases out; cases "attached s") (auto simp: step_defs pc_state_defs mark_discarded_def)
next
  case FinTake
  with assms show ?thesis
    by (cases out; cases "attached s") (auto simp: step_defs pc_state_defs take_mutation_def)
next
  case (FinTeardown m)
  with assms show ?thesis
    by (cases out; cases "attached s") (auto simp: step_defs pc_state_defs mutation_teardown_def split: if_splits)
qed

section \<open>Every step of the session\<close>

definition recorder_pc :: "recorder \<Rightarrow> pc option" where
  "recorder_pc s = map_option snd (rc_running s)"

definition recorder_inv :: "recorder \<Rightarrow> bool" where
  "recorder_inv s \<longleftrightarrow> recorder_inv_at (recorder_pc s) s
     \<and> (rc_running s \<noteq> None \<longrightarrow> wk_thread (rc_worker s) \<and> \<not> wk_exited (rc_worker s))"

definition session_view :: "recorder \<Rightarrow> string \<Rightarrow> episode list" where
  "session_view s = view_at (recorder_pc s) s"

definition lossless :: "recorder \<Rightarrow> recorder_event \<Rightarrow> bool" where
  "lossless s e =
     (case e of
        WorkerStep out \<Rightarrow> (case recorder_pc s of None \<Rightarrow> True | Some p \<Rightarrow> lossless_at out p s)
      | TeardownSession discarding tearing \<Rightarrow> tearing = Succeeds
      | _ \<Rightarrow> True)"

definition saved_by :: "recorder \<Rightarrow> recorder_event \<Rightarrow> (string \<times> episode) list" where
  "saved_by s e =
     (case e of WorkerStep out \<Rightarrow> (case recorder_pc s of None \<Rightarrow> [] | Some p \<Rightarrow> saved_at out p s) | _ \<Rightarrow> [])"

lemma episodes_of_Nil [simp]: "episodes_of d [] = []"
  by (simp add: episodes_of_def)

lemma episodes_of_append [simp]: "episodes_of d (xs @ ys) = episodes_of d xs @ episodes_of d ys"
  by (simp add: episodes_of_def)

lemma start_pc_keeps:
  "recorder_inv_at None s \<Longrightarrow> recorder_inv_at (Some (start_pc w)) s" "view_at (Some (start_pc w)) s = view_at None s"
  by (auto simp: pc_state_defs start_pc_def fun_eq_iff split: work.split option.split)

lemma work_step_frame:
  "rc_running (snd (work_step out p s)) = rc_running s" "rc_worker (snd (work_step out p s)) = rc_worker s"
  by (auto simp: work_step_def save_write_def load_failed_def mutation_teardown_def rc_set_def emit_state_def
      emit_error_def on_mutation_def split: pc.split outcome.split prod.split option.split sum.split)

lemma run_work_running: "rc_running (run_work n outs p s) = rc_running s"
proof (induction n arbitrary: p s)
  case (Suc n)
  obtain q s1 where w: "work_step (outs p) p s = (q, s1)" by fastforce
  then have "rc_running s1 = rc_running s" using work_step_frame(1) by (metis snd_conv)
  with w Suc.IH show ?case by (cases q) simp_all
qed simp

lemma worker_step_keeps:
  assumes i: "recorder_inv s" and l: "lossless s (WorkerStep out)"
  shows "recorder_inv (worker_step out s)
    \<and> (\<forall>d. session_view (worker_step out s) d = session_view s d @ episodes_of d (saved_by s (WorkerStep out)))"
proof (cases "rc_running s")
  case None
  with i have "recorder_inv_at None s" by (simp add: recorder_inv_def recorder_pc_def)
  with None start_pc_keeps show ?thesis
    by (auto simp: worker_step_def recorder_inv_def recorder_pc_def session_view_def saved_by_def
        split: list.split option.split)
next
  case (Some jp)
  obtain j p where jp: "jp = (j, p)" by (cases jp)
  obtain q s1 where w: "work_step out p s = (q, s1)" by fastforce
  have "recorder_inv_at (Some p) s" "lossless_at out p s"
    using i l Some jp by (simp_all add: recorder_inv_def lossless_def recorder_pc_def)
  from work_step_keeps [OF this w] have k: "recorder_inv_at (next_pc q) s1"
    "\<And>d. view_at (next_pc q) s1 d = view_at (Some p) s d @ episodes_of d (saved_at out p s)" by blast+
  have "rc_worker s1 = rc_worker s"
    using w work_step_frame(2) by (metis snd_conv)
  then have "wk_thread (rc_worker s1) \<and> \<not> wk_exited (rc_worker s1)"
    using i Some by (simp add: recorder_inv_def)
  with k Some jp w show ?thesis
    by (cases q) (auto simp: worker_step_def recorder_inv_def recorder_pc_def session_view_def saved_by_def next_pc_def end_job_def)
qed

text \<open>Finalizing off the worker ends: each of its steps is closer to the last.\<close>

definition fin_rank :: "pc \<Rightarrow> nat option" where
  "fin_rank p = (case p of FinCheck \<Rightarrow> Some 5 | FinBuffer \<Rightarrow> Some 4 | FinMark \<Rightarrow> Some 3 | FinTake \<Rightarrow> Some 2
     | FinTeardown m \<Rightarrow> Some 1 | _ \<Rightarrow> None)"

lemma fin_step:
  assumes "fin_rank p = Some r" and "work_step out p s = (q, s1)"
  shows "next_pc q = None \<or> (\<exists>p1 r1. q = Continue p1 \<and> fin_rank p1 = Some r1 \<and> r1 < r)"
    and "saved_at out p s = []"
  using assms
  by (auto simp: fin_rank_def work_step_def next_pc_def saved_at_def split: pc.splits outcome.splits prod.splits option.splits if_splits sum.splits)

lemma run_work_keeps:
  "fin_rank p = Some r \<Longrightarrow> r \<le> n \<Longrightarrow> recorder_inv_at (Some p) s \<Longrightarrow> (\<And>m. outs (FinTeardown m) = Succeeds) \<Longrightarrow>
   recorder_inv_at None (run_work n outs p s) \<and> view_at None (run_work n outs p s) = view_at (Some p) s"
proof (induction n arbitrary: p r s)
  case 0
  then show ?case by (auto simp: fin_rank_def split: pc.splits)
next
  case (Suc n)
  obtain q s1 where w: "work_step (outs p) p s = (q, s1)" by fastforce
  have "lossless_at (outs p) p s"
    using Suc.prems(1,4) by (auto simp: lossless_at_def fin_rank_def split: pc.splits outcome.splits)
  from work_step_keeps [OF Suc.prems(3) this w] fin_step(2) [OF Suc.prems(1) w]
  have k: "recorder_inv_at (next_pc q) s1" "view_at (next_pc q) s1 = view_at (Some p) s"
    by (auto simp: fun_eq_iff)
  show ?case
  proof (cases "\<exists>p1. q = Continue p1")
    case True
    then obtain p1 where q: "q = Continue p1" by blast
    with fin_step(1) [OF Suc.prems(1) w] obtain r1 where r1: "fin_rank p1 = Some r1" "r1 < r"
      by (auto simp: next_pc_def)
    with Suc.prems(2) have "r1 \<le> n" by simp
    from Suc.IH [OF r1(1) this _ Suc.prems(4), of s1] k q w show ?thesis by (simp add: next_pc_def)
  next
    case False
    with k w show ?thesis by (cases q) (simp_all add: next_pc_def)
  qed
qed

lemma finalize_keeps:
  assumes "recorder_inv_at None s" and "\<And>m. outs (FinTeardown m) = Succeeds"
  shows "recorder_inv_at None (finalize_recording_now outs s)
    \<and> view_at None (finalize_recording_now outs s) = view_at None s"
proof -
  have "recorder_inv_at (Some FinCheck) s" "view_at (Some FinCheck) s = view_at None s"
    using start_pc_keeps [where s = s and w = DoFinalize] assms(1) by (simp_all add: start_pc_def)
  with run_work_keeps [of FinCheck 5 5 s outs] assms(2) show ?thesis
    by (simp add: finalize_recording_now_def fin_rank_def)
qed

lemma inv_at_recording:
  assumes "recorder_inv_at p s" and "rec_mutation r = attached s" "dataset_loaded r = dataset_loaded (rc_recording s)"
    "episodes_recorded r = episodes_recorded (rc_recording s)" "is_recording r \<Longrightarrow> attached s \<noteq> None"
  shows "recorder_inv_at p (rc_set r s) \<and> view_at p (rc_set r s) = view_at p s"
  using assms by (auto simp: recorder_inv_at_def view_at_def cache_at_def rc_set_def fun_eq_iff split: option.splits)

lemma inv_at_frame:
  assumes "recorder_inv_at p s"
  shows "recorder_inv_at p (rc_set (rec_add_frame obs im act left (rc_recording s)) s)
    \<and> view_at p (rc_set (rec_add_frame obs im act left (rc_recording s)) s) = view_at p s"
proof (cases "rc_set (rec_add_frame obs im act left (rc_recording s)) s = s")
  case False
  then obtain m b where m: "attached s = Some m"
    "rec_add_frame obs im act left (rc_recording s) = (rc_recording s)\<lparr>rec_mutation := Some (m\<lparr>mut_buffer := b\<rparr>)\<rparr>"
    by (auto simp: rec_add_frame_def rc_set_def split: if_splits option.splits)
  with assms show ?thesis
    by (auto simp: recorder_inv_at_def view_at_def cache_at_def rc_set_def fun_eq_iff split: option.splits)
qed (use assms in simp)

lemma rc_set_same [simp]: "rc_set (rc_recording s) s = s"
  by (simp add: rc_set_def)

lemma rc_set_pc [simp]: "recorder_pc (rc_set r s) = recorder_pc s" "rc_worker (rc_set r s) = rc_worker s"
  "rc_running (rc_set r s) = rc_running s"
  by (simp_all add: rc_set_def recorder_pc_def)

lemma recorder_step_keeps:
  assumes i: "recorder_inv s" and l: "lossless s e"
  shows "recorder_inv (recorder_step s e)
    \<and> (\<forall>d. session_view (recorder_step s e) d = session_view s d @ episodes_of d (saved_by s e))"
proof (cases e)
  case (WorkerStep out)
  with worker_step_keeps [OF i] l show ?thesis by simp
next
  case (StartRecordingCmd task)
  have "recorder_inv_at (recorder_pc s) (rc_set (snd (rec_start task (rc_recording s))) s)
      \<and> view_at (recorder_pc s) (rc_set (snd (rec_start task (rc_recording s))) s) = view_at (recorder_pc s) s"
    by (rule inv_at_recording) (use i in \<open>auto simp: recorder_inv_def rec_start_def recorder_inv_at_def\<close>)
  with i StartRecordingCmd show ?thesis
    by (simp add: recorder_inv_def session_view_def saved_by_def)
next
  case (RecordTick src names pos im act left)
  have "snd (recording_on_tick src names pos im act left (rc_recording s)) = rc_recording s
    \<or> (\<exists>obs a. snd (recording_on_tick src names pos im act left (rc_recording s)) = rec_add_frame obs im a left (rc_recording s))"
    by (auto simp: recording_on_tick_def split: option.split sum.split)
  with i inv_at_frame [of "recorder_pc s" s] RecordTick show ?thesis
    by (auto simp: recorder_inv_def session_view_def saved_by_def)
next
  case (TeardownSession discarding tearing)
  show ?thesis
  proof (cases "wk_closed (rc_worker s) \<and> (\<not> wk_thread (rc_worker s) \<or> wk_exited (rc_worker s))")
    case True
    with i have idle: "rc_running s = None" unfolding recorder_inv_def by blast
    with i have at: "recorder_inv_at None s" by (simp add: recorder_inv_def recorder_pc_def)
    have tear: "tearing = Succeeds" using l TeardownSession by (simp add: lossless_def)
    define outs where "outs = (\<lambda>p. case p of FinBuffer \<Rightarrow> discarding | FinTeardown m \<Rightarrow> tearing | _ \<Rightarrow> Succeeds)"
    have outs_tear: "outs (FinTeardown m) = Succeeds" for m by (simp add: outs_def tear)
    let ?s1 = "finalize_recording_now outs s"
    have k: "recorder_inv_at None ?s1" "view_at None ?s1 = view_at None s"
      using finalize_keeps [where outs = outs, OF at outs_tear] by blast+
    have r: "rc_running ?s1 = None"
      using idle run_work_running by (simp add: finalize_recording_now_def)
    have "recorder_inv_at None (rc_set (rec_close (rc_recording ?s1)) ?s1)
        \<and> view_at None (rc_set (rec_close (rc_recording ?s1)) ?s1) = view_at None ?s1"
      by (rule inv_at_recording [OF k(1)]) (use k(1) in \<open>auto simp: rec_close_def recorder_inv_at_def\<close>)
    with k r idle True TeardownSession show ?thesis
      unfolding outs_def by (simp add: teardown_session_def Let_def recorder_inv_def session_view_def saved_by_def recorder_pc_def)
  next
    case False
    have "recorder_inv_at (recorder_pc s) (rc_set (rec_close (rc_recording s)) s)
        \<and> view_at (recorder_pc s) (rc_set (rec_close (rc_recording s)) s) = view_at (recorder_pc s) s"
      by (rule inv_at_recording) (use i in \<open>auto simp: recorder_inv_def rec_close_def recorder_inv_at_def\<close>)
    with False i TeardownSession show ?thesis
      by (auto simp: teardown_session_def Let_def recorder_inv_def session_view_def saved_by_def)
  qed
qed (use i in \<open>auto simp: recorder_inv_def session_view_def saved_by_def recorder_pc_def submit_work_def worker_submit_def
    worker_wait_def worker_close_def Let_def split: option.split bool.split\<close>)


section \<open>Runs\<close>

fun run_lossless :: "recorder \<Rightarrow> recorder_event list \<Rightarrow> bool" where
  "run_lossless s [] = True"
| "run_lossless s (e # es) = (lossless s e \<and> run_lossless (recorder_step s e) es)"

text \<open>The abstract recorder: a list of episodes per dataset, to which saves append.\<close>

fun run_saved :: "recorder \<Rightarrow> recorder_event list \<Rightarrow> (string \<times> episode) list" where
  "run_saved s [] = []"
| "run_saved s (e # es) = saved_by s e @ run_saved (recorder_step s e) es"

lemma recorder_inv_init: "recorder_inv (recorder_init ds)"
  by (simp add: recorder_inv_def recorder_pc_def recorder_init_def recording_init_def pc_state_defs)

lemma session_view_init: "session_view (recorder_init ds) d = committed (recorder_init ds) d"
  by (simp add: session_view_def recorder_pc_def recorder_init_def recording_init_def pc_state_defs)

lemma recorder_run_keeps:
  "recorder_inv s \<Longrightarrow> run_lossless s es \<Longrightarrow>
   recorder_inv (foldl recorder_step s es)
   \<and> (\<forall>d. session_view (foldl recorder_step s es) d = session_view s d @ episodes_of d (run_saved s es))"
proof (induction es arbitrary: s)
  case (Cons e es)
  then have "recorder_inv (recorder_step s e)"
    "\<And>d. session_view (recorder_step s e) d = session_view s d @ episodes_of d (saved_by s e)"
    using recorder_step_keeps by auto
  with Cons show ?case by simp
qed simp

text \<open>C5: no interleaving of ticks, commands, worker steps, waits and teardown loses an episode that was
  saved: when failing saves leave the cache's episodes alone and copies back succeed, a dataset as the
  session will leave it (the cache's episodes while one is open, the files otherwise) is what was there
  at the start followed by the episodes whose save returned, in order. While a mutation is attached
  and no save is between its write and its mark, the published count is the number of episodes that the
  files do not hold yet; without one it is zero.\<close>

theorem recorded_episodes_kept:
  assumes "run_lossless (recorder_init ds) es" and "s = foldl recorder_step (recorder_init ds) es"
  shows "(\<forall>d. session_view s d = committed (recorder_init ds) d @ episodes_of d (run_saved (recorder_init ds) es))
    \<and> (\<forall>d. cache_at (recorder_pc s) s = None \<longrightarrow> committed s d = session_view s d)
    \<and> dataset_loaded (rc_recording s) = (attached s \<noteq> None)
    \<and> (is_recording (rc_recording s) \<longrightarrow> attached s \<noteq> None)
    \<and> (case attached s of None \<Rightarrow> episodes_recorded (rc_recording s) = 0
       | Some m \<Rightarrow> recorder_pc s = Some SaveMark
           \<or> int (length (session_view s (mut_dataset m)))
             = int (length (committed s (mut_dataset m))) + episodes_recorded (rc_recording s))"
proof -
  have k: "recorder_inv s" "\<And>d. session_view s d = committed (recorder_init ds) d @ episodes_of d (run_saved (recorder_init ds) es)"
    using recorder_run_keeps [OF recorder_inv_init assms(1)] session_view_init assms(2) by auto
  then have at: "recorder_inv_at (recorder_pc s) s" by (simp add: recorder_inv_def)
  have "cache_at (recorder_pc s) s = None \<longrightarrow> committed s d = session_view s d" for d
    by (simp add: session_view_def view_at_def)
  moreover have "case attached s of None \<Rightarrow> episodes_recorded (rc_recording s) = 0
       | Some m \<Rightarrow> recorder_pc s = Some SaveMark
           \<or> int (length (session_view s (mut_dataset m)))
             = int (length (committed s (mut_dataset m))) + episodes_recorded (rc_recording s)"
    using at by (auto simp: recorder_inv_at_def session_view_def view_at_def cache_at_def unsaved_mark_def split: option.split if_splits)
  ultimately show ?thesis using at k(2) unfolding recorder_inv_at_def by blast
qed

text \<open>
  A start command that is accepted while a save is being written: the mark of the save ends the new
  episode, so its frames are not recorded although the client was told that it records.
\<close>

lemma start_during_save_is_ended:
  assumes "rc_running s = Some (j, SaveWrite)" and "attached s \<noteq> None" and "\<not> rec_closed (rc_recording s)"
  shows "fst (rec_start task (rc_recording s))
    \<and> is_recording (rc_recording (recorder_step s (StartRecordingCmd task)))
    \<and> \<not> is_recording (rc_recording (foldl recorder_step s [StartRecordingCmd task, WorkerStep Succeeds, WorkerStep Succeeds]))"
proof -
  obtain m where "attached s = Some m" using assms(2) by blast
  with assms(1,3) show ?thesis
    by (simp add: rec_start_def rc_set_def worker_step_def work_step_def save_write_def on_mutation_def
        mark_saved_def emit_state_def end_job_def)
qed

section \<open>A worked session\<close>

definition demo_frame :: "recorder_event" where
  "demo_frame = RecordTick Teleop [''j''] [1] [] (Some [2]) None"

definition demo_recording :: "recorder_event list" where
  "demo_recording = [Submit (DoLoad ''d'') None, WorkerStep Succeeds, WorkerStep Succeeds, WorkerStep Succeeds,
     WorkerStep Succeeds, StartRecordingCmd ''t'', demo_frame, demo_frame, Submit DoSave (Some ''r''),
     WorkerStep Succeeds, WorkerStep Succeeds, WorkerStep Succeeds, WorkerStep Succeeds, WaitAck ''r'', CloseWorker,
     WorkerStep Succeeds, TeardownSession Succeeds Succeeds]"

lemma demo_recording_values:
  "run_lossless (recorder_init Map.empty) demo_recording"
  "map length (episodes_of ''d'' (run_saved (recorder_init Map.empty) demo_recording)) = [2]"
  "cache_at (recorder_pc (foldl recorder_step (recorder_init Map.empty) demo_recording))
     (foldl recorder_step (recorder_init Map.empty) demo_recording) = None"
  by code_simp+

theorem recorded_episodes_kept_witness:
  "map length (committed (foldl recorder_step (recorder_init Map.empty) demo_recording) ''d'') = [2]"
proof -
  note r = recorded_episodes_kept [OF demo_recording_values(1) refl]
  have "committed (foldl recorder_step (recorder_init Map.empty) demo_recording) ''d''
      = committed (recorder_init Map.empty) ''d'' @ episodes_of ''d'' (run_saved (recorder_init Map.empty) demo_recording)"
    using r demo_recording_values(3) by simp
  then show ?thesis
    using demo_recording_values(2) by (simp add: committed_def recorder_init_def)
qed

end
