(* ===== verification/RuntimeSource.thy ===== *)
theory RuntimeSource
  imports RuntimeRecording
begin

text \<open>
  The action source of a robot session, \<^verbatim>\<open>runtime/action_source.py\<close>, with the background model
  loader of \<^verbatim>\<open>runtime/policy_loader.py\<close>. Policies are numbers (object identities); what a robot, a
  leader and a policy answer are arguments of the steps. Three kinds of threads share the state: the
  control thread (commands and ticks), one loader thread per load request and one warm-up thread per
  arming; a step is one handler of the control thread or one lock section of another thread.
  \<open>_failure_logged\<close> only guards a log line and is left out.
\<close>

record RobotObservation =
  joint_positions :: joints
  obs_timestamp :: real

record source_config =
  cfg_f32 :: "real \<Rightarrow> real"
  cfg_has_leader :: bool
  cfg_fps :: real
  cfg_camera_keys :: "string list"

text \<open>\<open>int()\<close> of a float truncates toward zero.\<close>

definition py_int :: "real \<Rightarrow> int" where
  "py_int x = (if x < 0 then - \<lfloor>- x\<rfloor> else \<lfloor>x\<rfloor>)"

definition max_leader_failures :: "source_config \<Rightarrow> int" where
  "max_leader_failures cfg = max 1 (py_int (3 * cfg_fps cfg))"

definition to_f32 :: "source_config \<Rightarrow> joints \<Rightarrow> joints" where
  "to_f32 cfg v = map (cfg_f32 cfg) v"

type_synonym model_id = "string \<times> string \<times> string"

definition model_identity :: "LoadModelCommand \<Rightarrow> model_id" where
  "model_identity c = (lm_model_id c, lm_backend c, lm_device c)"

text \<open>A load thread builds its policy, checks that it is still wanted, and hands it over.\<close>

datatype load_phase = Building | Built nat | Checked nat

record source =
  as_follower_source :: FollowerSource
  as_hold_target :: "joints option"
  as_last_leader_action :: "joints option"
  as_last_leader_timestamp :: "real option"
  as_leader_failures :: int
  as_leader_reads_enabled :: bool
  as_connected :: bool
  as_policy :: "nat option"
  as_attached_generation :: nat
  as_arm_generation :: nat
  as_arming :: bool
  as_model_loaded :: bool
  as_loaded_identity :: "model_id option"
  as_task :: "string option"
  as_policy_error_emitted :: bool
  as_last_robot_state :: "RobotObservation option"
  as_recording :: "RecordingState option"
  as_loader_generation :: nat
  as_loads :: "(nat \<times> LoadModelCommand \<times> load_phase) list"
  as_arms :: "(nat \<times> nat) list"
  as_built :: "nat list"
  as_disconnected :: "nat list"
  as_events :: "runtime_event list"

definition source_init :: "source_config \<Rightarrow> source" where
  "source_init cfg = \<lparr>as_follower_source = Hold, as_hold_target = None, as_last_leader_action = None,
     as_last_leader_timestamp = None, as_leader_failures = 0, as_leader_reads_enabled = cfg_has_leader cfg,
     as_connected = False, as_policy = None, as_attached_generation = 0, as_arm_generation = 0, as_arming = False,
     as_model_loaded = False, as_loaded_identity = None, as_task = None, as_policy_error_emitted = False,
     as_last_robot_state = None, as_recording = None, as_loader_generation = 0, as_loads = [], as_arms = [],
     as_built = [], as_disconnected = [], as_events = []\<rparr>"

definition bind_recording :: "RecordingState \<Rightarrow> source \<Rightarrow> source" where
  "bind_recording r s = s\<lparr>as_recording := Some r\<rparr>"

definition state_data :: "source \<Rightarrow> StateData" where
  "state_data s = \<lparr>connected = True, follower_source = as_follower_source s, has_leader = as_leader_reads_enabled s,
     model_loaded = Some (as_model_loaded s), state_task = as_task s,
     state_dataset_loaded = map_option dataset_loaded (as_recording s),
     state_is_recording = map_option is_recording (as_recording s),
     state_episodes_recorded = map_option episodes_recorded (as_recording s)\<rparr>"

definition emit :: "runtime_event \<Rightarrow> source \<Rightarrow> source" where
  "emit e s = s\<lparr>as_events := as_events s @ [e]\<rparr>"

definition source_emit_state :: "source \<Rightarrow> source" where
  "source_emit_state s = emit (StateEvent (state_data s)) s"

definition or_message :: "string \<Rightarrow> string \<Rightarrow> string" where
  "or_message m d = (if m = '''' then d else m)"

definition disconnect_policy :: "nat \<Rightarrow> source \<Rightarrow> source" where
  "disconnect_policy p s = s\<lparr>as_disconnected := as_disconnected s @ [p]\<rparr>"

definition cancel_arming :: "source \<Rightarrow> source" where
  "cancel_arming s = s\<lparr>as_arm_generation := as_arm_generation s + 1, as_arming := False\<rparr>"

section \<open>Loading\<close>

definition loader_request :: "LoadModelCommand \<Rightarrow> source \<Rightarrow> source" where
  "loader_request c s =
     (let generation = as_loader_generation s + 1
      in s\<lparr>as_loader_generation := generation, as_loads := as_loads s @ [(generation, c, Building)]\<rparr>)"

definition loader_shutdown :: "source \<Rightarrow> source" where
  "loader_shutdown s = s\<lparr>as_loader_generation := as_loader_generation s + 1\<rparr>"

text \<open>
  How building went: a policy, or an error with the source that was already made. The error classes
  are the ones \<open>_emit_error\<close> tells apart.
\<close>

datatype load_error = ExportNotFound string | AppError string string | OtherError string

datatype build_result = BuildOk nat | BuildFails load_error "nat option"

definition load_error_event :: "load_error \<Rightarrow> runtime_event" where
  "load_error_event e =
     (case e of
        ExportNotFound path \<Rightarrow> ErrorEvent (''Model export not found at '' @ path @ ''.'') ''model_not_found''
      | AppError msg code \<Rightarrow> ErrorEvent msg code
      | OtherError msg \<Rightarrow> ErrorEvent (or_message msg ''Failed to load the model.'') ''model_load_failed'')"

definition check_camera_keys :: "string list \<Rightarrow> string list \<Rightarrow> bool" where
  "check_camera_keys input_names camera_keys \<longleftrightarrow>
     (let expected = filter (\<lambda>n. n = ''images'' \<or> starts_with ''images.'' n) input_names
      in expected = [] \<or> set expected = {''images''}
         \<or> set expected \<subseteq> set (map (\<lambda>k. ''images.'' @ k) camera_keys))"

definition drop_load :: "nat \<Rightarrow> source \<Rightarrow> source" where
  "drop_load generation s = s\<lparr>as_loads := filter (\<lambda>(g, c, ph). g \<noteq> generation) (as_loads s)\<rparr>"

definition set_phase :: "nat \<Rightarrow> load_phase \<Rightarrow> source \<Rightarrow> source" where
  "set_phase generation ph s =
     s\<lparr>as_loads := map (\<lambda>(g, c, p). if g = generation then (g, c, ph) else (g, c, p)) (as_loads s)\<rparr>"

definition load_build :: "nat \<Rightarrow> build_result \<Rightarrow> source \<Rightarrow> source" where
  "load_build generation r s =
     (case r of
        BuildOk p \<Rightarrow> set_phase generation (Built p) (s\<lparr>as_built := as_built s @ [p]\<rparr>)
      | BuildFails e src \<Rightarrow>
          let s1 = (case src of None \<Rightarrow> s | Some p \<Rightarrow> disconnect_policy p (s\<lparr>as_built := as_built s @ [p]\<rparr>));
              s2 = drop_load generation s1
          in if generation \<noteq> as_loader_generation s2 then s2 else emit (load_error_event e) s2)"

definition load_check :: "nat \<Rightarrow> nat \<Rightarrow> source \<Rightarrow> source" where
  "load_check generation p s =
     (if generation \<noteq> as_loader_generation s then disconnect_policy p (drop_load generation s)
      else set_phase generation (Checked p) s)"

definition set_policy :: "nat \<Rightarrow> nat \<Rightarrow> model_id option \<Rightarrow> source \<Rightarrow> source" where
  "set_policy p generation ident s =
     (if generation < as_attached_generation s then disconnect_policy p s
      else
        let s1 = (cancel_arming s)\<lparr>as_policy := Some p, as_attached_generation := generation, as_model_loaded := True,
              as_loaded_identity := ident, as_policy_error_emitted := False\<rparr>;
            s2 = source_emit_state s1
        in case as_policy s of None \<Rightarrow> s2 | Some q \<Rightarrow> if q = p then s2 else disconnect_policy q s2)"

definition load_attach :: "nat \<Rightarrow> LoadModelCommand \<Rightarrow> nat \<Rightarrow> source \<Rightarrow> source" where
  "load_attach generation c p s = set_policy p generation (Some (model_identity c)) (drop_load generation s)"

section \<open>Arming\<close>

text \<open>How \<open>set_task\<close> and \<open>reset\<close> of a policy ended; another exception leaves the control loop.\<close>

datatype reset_result = ResetOk | ResetError string | ResetRaises string

definition arm_policy :: "string option \<Rightarrow> reset_result \<Rightarrow> source \<Rightarrow> (string + bool) \<times> source" where
  "arm_policy task r s =
     (case as_policy s of
        None \<Rightarrow> (Inr False, emit (ErrorEvent ''No policy is loaded.'' ''policy_not_loaded'') s)
      | Some p \<Rightarrow>
          (case r of
             ResetRaises e \<Rightarrow> (Inl e, s)
           | ResetError e \<Rightarrow>
               (Inr False, emit (ErrorEvent (or_message e ''Failed to arm the policy.'') ''policy_reset_failed'') s)
           | ResetOk \<Rightarrow>
               let s1 = s\<lparr>as_task := task, as_policy_error_emitted := False,
                     as_arm_generation := as_arm_generation s + 1, as_arming := True\<rparr>
               in case as_last_robot_state s1 of
                    None \<Rightarrow> (Inr True, s1\<lparr>as_arming := False, as_follower_source := Policy\<rparr>)
                  | Some o1 \<Rightarrow> (Inr False, s1\<lparr>as_arms := as_arms s1 @ [(p, as_arm_generation s1)]\<rparr>)))"

text \<open>The end of a warm-up thread; \<open>Some e\<close> where the warm-up raised.\<close>

definition finish_arm :: "nat \<Rightarrow> nat \<Rightarrow> string option \<Rightarrow> source \<Rightarrow> source" where
  "finish_arm p generation err s =
     (let s1 = s\<lparr>as_arms := filter (\<lambda>(q, g). g \<noteq> generation) (as_arms s)\<rparr>
      in case err of
           Some e \<Rightarrow>
             if generation \<noteq> as_arm_generation s1 then s1
             else emit (ErrorEvent (or_message e ''Failed to warm up the policy.'') ''policy_warmup_failed'')
                    (s1\<lparr>as_arming := False\<rparr>)
         | None \<Rightarrow>
             if generation \<noteq> as_arm_generation s1 \<or> as_policy s1 \<noteq> Some p then s1
             else source_emit_state (s1\<lparr>as_arming := False, as_follower_source := Policy\<rparr>))"

section \<open>Commands\<close>

definition hold_at :: "source_config \<Rightarrow> RobotObservation \<Rightarrow> source \<Rightarrow> source" where
  "hold_at cfg rs s = s\<lparr>as_hold_target := Some (to_f32 cfg (joint_positions rs))\<rparr>"

definition handle_load_model :: "LoadModelCommand \<Rightarrow> source \<Rightarrow> source" where
  "handle_load_model c s =
     (if \<not> lm_force c \<and> as_loaded_identity s = Some (model_identity c) then s
      else
        let s1 = source_emit_state ((cancel_arming (s\<lparr>as_loaded_identity := None\<rparr>))\<lparr>as_model_loaded := False\<rparr>)
        in if \<not> as_connected s1
           then emit (ErrorEvent ''Cannot load a model before the runtime session is connected.'' ''model_load_failed'') s1
           else loader_request c s1)"

definition handle_start_task :: "string \<Rightarrow> reset_result \<Rightarrow> source \<Rightarrow> (string + unit) \<times> source" where
  "handle_start_task task r s =
     (case arm_policy (Some task) r s of
        (Inl e, s1) \<Rightarrow> (Inl e, s1)
      | (Inr switched, s1) \<Rightarrow> (Inr (), if switched then source_emit_state s1 else s1))"

definition handle_stop_task :: "source_config \<Rightarrow> RobotObservation \<Rightarrow> source \<Rightarrow> source" where
  "handle_stop_task cfg rs s =
     (let s1 = cancel_arming s
      in if as_follower_source s1 = Hold then s1
         else source_emit_state (hold_at cfg rs (s1\<lparr>as_follower_source := Hold\<rparr>)))"

definition handle_start_recording :: "string \<Rightarrow> source \<Rightarrow> source" where
  "handle_start_recording task s =
     (case as_recording s of
        None \<Rightarrow> emit (ErrorEvent ''Load a dataset before starting a recording.'' ''dataset_not_loaded'') s
      | Some r \<Rightarrow>
          (case rec_start task r of
             (False, r1) \<Rightarrow>
               emit (ErrorEvent ''Load a dataset before starting a recording.'' ''dataset_not_loaded'') (s\<lparr>as_recording := Some r1\<rparr>)
           | (True, r1) \<Rightarrow> source_emit_state (s\<lparr>as_recording := Some r1\<rparr>)))"

definition handle_set_follower_source ::
  "source_config \<Rightarrow> FollowerSource \<Rightarrow> RobotObservation \<Rightarrow> reset_result \<Rightarrow> source \<Rightarrow> (string + unit) \<times> source" where
  "handle_set_follower_source cfg requested rs r s =
     (if requested = Teleop \<and> \<not> cfg_has_leader cfg
      then (Inr (), emit (ErrorEvent ''Teleoperation requires a leader robot.'' ''leader_required'') s)
      else if requested = Teleop \<and> \<not> as_leader_reads_enabled s
      then (Inr (), emit (ErrorEvent ''The leader robot is not responding. Reconnect before resuming teleoperation.''
              ''leader_connection_lost'') s)
      else if requested = Policy then
        (case arm_policy (as_task s) r s of
           (Inl e, s1) \<Rightarrow> (Inl e, s1)
         | (Inr switched, s1) \<Rightarrow> (Inr (), if switched then source_emit_state s1 else s1))
      else
        let s1 = cancel_arming s
        in if requested = as_follower_source s1 then (Inr (), s1)
           else
             let s2 = s1\<lparr>as_follower_source := requested\<rparr>;
                 s3 = (if requested = Hold then hold_at cfg rs s2 else s2)
             in (Inr (), source_emit_state s3))"

definition handle_command ::
  "source_config \<Rightarrow> RobotObservation \<Rightarrow> command \<Rightarrow> reset_result \<Rightarrow> source \<Rightarrow> (string + unit) \<times> source" where
  "handle_command cfg rs c r s =
     (case c of
        LoadModel m \<Rightarrow> (Inr (), handle_load_model m s)
      | StartTask t \<Rightarrow> handle_start_task t r s
      | StopTask \<Rightarrow> (Inr (), handle_stop_task cfg rs s)
      | SetFollowerSource f \<Rightarrow> handle_set_follower_source cfg f rs r s
      | StartRecording t \<Rightarrow> (Inr (), handle_start_recording t s)
      | _ \<Rightarrow> (Inr (), s))"

section \<open>A tick\<close>

text \<open>What reading the leader gave: an observation, or an exception.\<close>

datatype leader_read = LeaderObs joints real | LeaderRaises

definition disable_failed_leader :: "source_config \<Rightarrow> RobotObservation \<Rightarrow> source \<Rightarrow> source" where
  "disable_failed_leader cfg rs s =
     (let changed = (as_follower_source s \<noteq> Hold);
          s1 = (hold_at cfg rs (s\<lparr>as_leader_reads_enabled := False\<rparr>))\<lparr>as_follower_source := Hold\<rparr>;
          s2 = (if changed then source_emit_state s1 else s1)
      in emit (ErrorEvent ''The leader robot stopped responding. The follower switched to hold.'' ''leader_connection_lost'') s2)"

definition leader_ok :: "RobotObservation \<Rightarrow> leader_read \<Rightarrow> source \<Rightarrow> bool" where
  "leader_ok rs l s =
     (case l of
        LeaderRaises \<Rightarrow> False
      | LeaderObs v t \<Rightarrow>
          \<not> (case as_last_leader_timestamp s of None \<Rightarrow> False | Some t0 \<Rightarrow> t \<le> t0)
          \<and> length v = length (joint_positions rs))"

definition read_leader ::
  "source_config \<Rightarrow> RobotObservation \<Rightarrow> leader_read \<Rightarrow> source \<Rightarrow> joints option \<times> source" where
  "read_leader cfg rs l s =
     (if \<not> cfg_has_leader cfg then (None, s)
      else case l of
          LeaderObs v t \<Rightarrow>
            if leader_ok rs l s
            then (Some (to_f32 cfg v), s\<lparr>as_leader_failures := 0, as_last_leader_timestamp := Some t,
                    as_last_leader_action := Some (to_f32 cfg v)\<rparr>)
            else (let s1 = s\<lparr>as_leader_failures := as_leader_failures s + 1\<rparr>;
                      s2 = (if as_leader_failures s1 \<ge> max_leader_failures cfg then disable_failed_leader cfg rs s1 else s1)
                  in (case as_last_leader_action s2 of Some a \<Rightarrow> Some a | None \<Rightarrow> as_hold_target s2, s2))
        | LeaderRaises \<Rightarrow>
            (let s1 = s\<lparr>as_leader_failures := as_leader_failures s + 1\<rparr>;
                 s2 = (if as_leader_failures s1 \<ge> max_leader_failures cfg then disable_failed_leader cfg rs s1 else s1)
             in (case as_last_leader_action s2 of Some a \<Rightarrow> Some a | None \<Rightarrow> as_hold_target s2, s2)))"

text \<open>What the policy's \<open>update\<close> gave.\<close>

datatype policy_result = PolicyAction joints | PolicyNothing | PolicyError string | PolicyWorkerDied string

definition drop_policy_to_hold :: "source_config \<Rightarrow> RobotObservation \<Rightarrow> string \<Rightarrow> source \<Rightarrow> source" where
  "drop_policy_to_hold cfg rs e s =
     (let changed = (as_follower_source s \<noteq> Hold);
          s1 = (hold_at cfg rs s)\<lparr>as_follower_source := Hold, as_loaded_identity := None\<rparr>;
          s2 = (if \<not> as_policy_error_emitted s1
                then emit (ErrorEvent (or_message e ''Policy inference failed.'') ''policy_inference_failed'')
                       (s1\<lparr>as_policy_error_emitted := True\<rparr>)
                else s1)
      in if changed then source_emit_state s2 else s2)"

definition policy_action ::
  "source_config \<Rightarrow> RobotObservation \<Rightarrow> policy_result \<Rightarrow> source \<Rightarrow> (string + joints option) \<times> source" where
  "policy_action cfg rs r s =
     (if as_policy s = None \<or> as_arming s then (Inr None, s)
      else case r of
          PolicyAction a \<Rightarrow> (Inr (Some a), s)
        | PolicyNothing \<Rightarrow> (Inr None, s)
        | PolicyWorkerDied e \<Rightarrow> (Inl e, s)
        | PolicyError e \<Rightarrow> (Inr None, drop_policy_to_hold cfg rs e s))"

definition select_action :: "source \<Rightarrow> joints option \<Rightarrow> joints option \<Rightarrow> joints" where
  "select_action s leader policy =
     (case (as_follower_source s, leader, policy) of
        (Teleop, Some a, _) \<Rightarrow> a
      | (Policy, _, Some a) \<Rightarrow> a
      | _ \<Rightarrow> (case as_hold_target s of None \<Rightarrow> [] | Some h \<Rightarrow> h))"

text \<open>\<open>update\<close> after the commands are drained.\<close>

definition act ::
  "source_config \<Rightarrow> RobotObservation \<Rightarrow> leader_read \<Rightarrow> policy_result \<Rightarrow> source \<Rightarrow> (string + joints) \<times> source" where
  "act cfg rs l p s =
     (let s1 = (if as_hold_target s = None then hold_at cfg rs s else s);
          (leader, s2) = (if as_leader_reads_enabled s1 then read_leader cfg rs l s1 else (as_last_leader_action s1, s1))
      in case policy_action cfg rs p s2 of
           (Inl e, s3) \<Rightarrow> (Inl e, s3)
         | (Inr policy, s3) \<Rightarrow> (Inr (select_action s3 leader policy), s3))"

definition observe :: "RobotObservation \<Rightarrow> source \<Rightarrow> source" where
  "observe rs s = s\<lparr>as_last_robot_state := Some rs\<rparr>"

fun drain_commands ::
  "source_config \<Rightarrow> RobotObservation \<Rightarrow> (command \<times> reset_result) list \<Rightarrow> source \<Rightarrow> (string + unit) \<times> source" where
  "drain_commands cfg rs [] s = (Inr (), s)"
| "drain_commands cfg rs ((c, r) # cs) s =
     (case handle_command cfg rs c r s of
        (Inl e, s1) \<Rightarrow> (Inl e, s1)
      | (Inr u, s1) \<Rightarrow> drain_commands cfg rs cs s1)"

definition update_action ::
  "source_config \<Rightarrow> (command \<times> reset_result) list \<Rightarrow> RobotObservation \<Rightarrow> leader_read \<Rightarrow> policy_result \<Rightarrow> source
     \<Rightarrow> (string + joints) \<times> source" where
  "update_action cfg cs rs l p s =
     (case drain_commands cfg rs cs (observe rs s) of
        (Inl e, s1) \<Rightarrow> (Inl e, s1)
      | (Inr u, s1) \<Rightarrow> act cfg rs l p s1)"

section \<open>Connecting and leaving\<close>

definition source_connect :: "source_config \<Rightarrow> bool \<Rightarrow> source \<Rightarrow> (string + unit) \<times> source" where
  "source_connect cfg names_match s =
     (if cfg_has_leader cfg \<and> \<not> names_match
      then (Inl ''Leader and follower joint names must match for teleoperation'', s\<lparr>as_connected := True\<rparr>)
      else (Inr (), s\<lparr>as_connected := True\<rparr>))"

definition source_disconnect :: "source_config \<Rightarrow> source \<Rightarrow> source" where
  "source_disconnect cfg s = s\<lparr>as_connected := False, as_hold_target := None, as_last_leader_action := None,
     as_last_leader_timestamp := None, as_leader_failures := 0, as_leader_reads_enabled := cfg_has_leader cfg,
     as_last_robot_state := None\<rparr>"

definition shutdown_policy :: "source \<Rightarrow> source" where
  "shutdown_policy s =
     (let s1 = (cancel_arming (loader_shutdown s))\<lparr>as_policy := None, as_model_loaded := False, as_loaded_identity := None\<rparr>
      in case as_policy s of None \<Rightarrow> s1 | Some p \<Rightarrow> disconnect_policy p s1)"

section \<open>Steps\<close>

datatype source_event =
    Observe RobotObservation
  | Command RobotObservation command reset_result
  | Act RobotObservation leader_read policy_result
  | LoadBuilds nat build_result
  | LoadChecks nat
  | LoadAttaches nat
  | ArmEnds nat "string option"
  | Connect bool
  | Disconnect
  | ShutdownPolicy

definition load_of :: "nat \<Rightarrow> source \<Rightarrow> (LoadModelCommand \<times> load_phase) option" where
  "load_of generation s = map_of (as_loads s) generation"

text \<open>A policy is a new object when it is built.\<close>

definition built_policies :: "build_result \<Rightarrow> nat set" where
  "built_policies r = (case r of BuildOk p \<Rightarrow> {p} | BuildFails e None \<Rightarrow> {} | BuildFails e (Some p) \<Rightarrow> {p})"

fun source_step :: "source_config \<Rightarrow> source \<Rightarrow> source_event \<Rightarrow> source" where
  "source_step cfg s (Observe rs) = observe rs s"
| "source_step cfg s (Command rs c r) = snd (handle_command cfg rs c r s)"
| "source_step cfg s (Act rs l p) = snd (act cfg rs l p s)"
| "source_step cfg s (LoadBuilds g r) =
     (case load_of g s of
        Some (c, Building) \<Rightarrow> if built_policies r \<inter> set (as_built s) = {} then load_build g r s else s
      | _ \<Rightarrow> s)"
| "source_step cfg s (LoadChecks g) =
     (case load_of g s of Some (c, Built p) \<Rightarrow> load_check g p s | _ \<Rightarrow> s)"
| "source_step cfg s (LoadAttaches g) =
     (case load_of g s of Some (c, Checked p) \<Rightarrow> load_attach g c p s | _ \<Rightarrow> s)"
| "source_step cfg s (ArmEnds g e) =
     (case map_of (map (\<lambda>(p, g). (g, p)) (as_arms s)) g of Some p \<Rightarrow> finish_arm p g e s | None \<Rightarrow> s)"
| "source_step cfg s (Connect m) = snd (source_connect cfg m s)"
| "source_step cfg s Disconnect = source_disconnect cfg s"
| "source_step cfg s ShutdownPolicy = shutdown_policy s"

end
