(* ===== verification/RuntimeSourceProps.thy ===== *)
theory RuntimeSourceProps
  imports RuntimeSource "HOL-Library.Multiset"
begin

text \<open>
  What the action source guarantees however commands, ticks, loads and warm-ups interleave: a stopped
  policy does not move the robot, a lost leader ends in hold, and every policy that was built is
  attached, in flight or disconnected, once.
\<close>

section \<open>The invariant\<close>

definition phase_policy :: "load_phase \<Rightarrow> nat list" where
  "phase_policy ph = (case ph of Building \<Rightarrow> [] | Built p \<Rightarrow> [p] | Checked p \<Rightarrow> [p])"

definition in_flight :: "source \<Rightarrow> nat list" where
  "in_flight s = concat (map (\<lambda>(g, c, ph). phase_policy ph) (as_loads s))"

definition attached_policy :: "source \<Rightarrow> nat list" where
  "attached_policy s = (case as_policy s of None \<Rightarrow> [] | Some p \<Rightarrow> [p])"

definition source_inv :: "source_config \<Rightarrow> source \<Rightarrow> bool" where
  "source_inv cfg s \<longleftrightarrow>
     (as_leader_reads_enabled s \<longrightarrow> cfg_has_leader cfg \<and> as_leader_failures s < max_leader_failures cfg)
     \<and> (as_follower_source s = Teleop \<longrightarrow> as_leader_reads_enabled s)
     \<and> (\<forall>(p, g)\<in>set (as_arms s). g \<le> as_arm_generation s)
     \<and> distinct (map fst (as_loads s)) \<and> (\<forall>g\<in>fst ` set (as_loads s). g \<le> as_loader_generation s)
     \<and> distinct (as_built s)
     \<and> mset (as_built s) = mset (as_disconnected s) + mset (attached_policy s) + mset (in_flight s)"

lemma max_failures_pos [simp]: "0 < max_leader_failures cfg"
  by (simp add: max_leader_failures_def less_max_iff_disj)

lemma source_inv_init: "source_inv cfg (source_init cfg)"
  by (simp add: source_inv_def source_init_def attached_policy_def in_flight_def)

text \<open>The parts of the state that the invariant reads.\<close>

definition same_core :: "source \<Rightarrow> source \<Rightarrow> bool" where
  "same_core s s' \<longleftrightarrow>
     as_loads s' = as_loads s \<and> as_built s' = as_built s \<and> as_disconnected s' = as_disconnected s
     \<and> as_policy s' = as_policy s \<and> as_loader_generation s' = as_loader_generation s
     \<and> as_attached_generation s' = as_attached_generation s \<and> as_arms s' = as_arms s
     \<and> as_arm_generation s \<le> as_arm_generation s'"

definition leader_part_ok :: "source_config \<Rightarrow> source \<Rightarrow> bool" where
  "leader_part_ok cfg s \<longleftrightarrow>
     (as_leader_reads_enabled s \<longrightarrow> cfg_has_leader cfg \<and> as_leader_failures s < max_leader_failures cfg)
     \<and> (as_follower_source s = Teleop \<longrightarrow> as_leader_reads_enabled s)"

lemma source_inv_core:
  "source_inv cfg s \<Longrightarrow> same_core s s' \<Longrightarrow> leader_part_ok cfg s' \<Longrightarrow> source_inv cfg s'"
  by (auto simp: source_inv_def same_core_def leader_part_ok_def in_flight_def attached_policy_def)

lemma source_inv_leader: "source_inv cfg s \<Longrightarrow> leader_part_ok cfg s"
  by (simp add: source_inv_def leader_part_ok_def)

lemma same_core_refl [simp]: "same_core s s"
  by (simp add: same_core_def)

lemma same_core_trans: "same_core s t \<Longrightarrow> same_core t u \<Longrightarrow> same_core s u"
  by (auto simp: same_core_def)

lemmas source_defs = emit_def source_emit_state_def hold_at_def cancel_arming_def disconnect_policy_def Let_def

lemma load_split:
  assumes "distinct (map fst xs)" and "map_of xs g = Some v"
  shows "\<exists>ys zs. xs = ys @ (g, v) # zs \<and> g \<notin> fst ` set ys \<and> g \<notin> fst ` set zs"
proof -
  obtain ys zs where "xs = ys @ (g, v) # zs" using map_of_SomeD [OF assms(2)] by (meson split_list)
  with assms(1) show ?thesis by (intro exI [of _ ys] exI [of _ zs]) auto
qed

lemma drop_load_split:
  "as_loads s = ys @ (g, c, ph) # zs \<Longrightarrow> g \<notin> fst ` set ys \<Longrightarrow> g \<notin> fst ` set zs \<Longrightarrow> drop_load g s = s\<lparr>as_loads := ys @ zs\<rparr>"
proof -
  have same: "filter (\<lambda>(h, c, ph). h \<noteq> g) xs = xs" if "g \<notin> fst ` set xs" for xs :: "(nat \<times> LoadModelCommand \<times> load_phase) list"
    using that by (induction xs) auto
  show "as_loads s = ys @ (g, c, ph) # zs \<Longrightarrow> g \<notin> fst ` set ys \<Longrightarrow> g \<notin> fst ` set zs \<Longrightarrow> ?thesis"
    by (simp add: drop_load_def same)
qed

lemma set_phase_split:
  "as_loads s = ys @ (g, c, ph) # zs \<Longrightarrow> g \<notin> fst ` set ys \<Longrightarrow> g \<notin> fst ` set zs \<Longrightarrow>
   set_phase g ph' s = s\<lparr>as_loads := ys @ (g, c, ph') # zs\<rparr>"
proof -
  have same: "map (\<lambda>(h, c, p). if h = g then (h, c, ph') else (h, c, p)) xs = xs" if "g \<notin> fst ` set xs"
    for xs :: "(nat \<times> LoadModelCommand \<times> load_phase) list"
    using that by (induction xs) auto
  show "as_loads s = ys @ (g, c, ph) # zs \<Longrightarrow> g \<notin> fst ` set ys \<Longrightarrow> g \<notin> fst ` set zs \<Longrightarrow> ?thesis"
    by (simp add: set_phase_def same)
qed

section \<open>Every step\<close>

lemma handle_load_model_inv:
  assumes i: "source_inv cfg s"
  shows "source_inv cfg (handle_load_model c s)"
proof -
  have k: "source_inv cfg (source_emit_state ((cancel_arming (s\<lparr>as_loaded_identity := None\<rparr>))\<lparr>as_model_loaded := False\<rparr>))"
    (is "source_inv cfg ?s1")
    by (rule source_inv_core [OF i]) (use i in \<open>auto simp: source_inv_def same_core_def leader_part_ok_def source_defs\<close>)
  have "source_inv cfg (loader_request c ?s1)"
    using k by (auto simp: source_inv_def loader_request_def in_flight_def attached_policy_def phase_policy_def Let_def)
  moreover have "source_inv cfg (emit e ?s1)" for e
    by (rule source_inv_core [OF k]) (use k in \<open>auto simp: source_inv_def same_core_def leader_part_ok_def emit_def\<close>)
  ultimately show ?thesis using i by (simp add: handle_load_model_def Let_def)
qed

lemma arm_policy_inv:
  assumes i: "source_inv cfg s"
  shows "source_inv cfg (snd (arm_policy task r s))"
  using i
  by (auto simp: arm_policy_def emit_def source_inv_def in_flight_def attached_policy_def Let_def
      split: option.splits reset_result.splits)

lemma emit_state_inv [simp]: "source_inv cfg (source_emit_state s) = source_inv cfg s" "source_inv cfg (emit e s) = source_inv cfg s"
  by (simp_all add: source_defs source_inv_def in_flight_def attached_policy_def)

lemma handle_command_inv:
  assumes i: "source_inv cfg s"
  shows "source_inv cfg (snd (handle_command cfg rs c r s))"
proof (cases c)
  case (SetFollowerSource f)
  have "source_inv cfg (snd (handle_set_follower_source cfg f rs r s))"
  proof (cases "f = Policy")
    case True
    obtain x s1 where a: "arm_policy (as_task s) r s = (x, s1)" by fastforce
    then have "source_inv cfg s1" using arm_policy_inv [OF i] by (metis snd_conv)
    with a True show ?thesis
      by (auto simp: handle_set_follower_source_def split: sum.split)
  next
    case False
    show ?thesis
      by (rule source_inv_core [OF i])
         (use i False in \<open>auto simp: handle_set_follower_source_def source_defs same_core_def leader_part_ok_def source_inv_def\<close>)
  qed
  with SetFollowerSource show ?thesis by (simp add: handle_command_def)
next
  case (StartTask t)
  obtain x s1 where a: "arm_policy (Some t) r s = (x, s1)" by fastforce
  then have "source_inv cfg s1" using arm_policy_inv [OF i] by (metis snd_conv)
  with a StartTask show ?thesis by (auto simp: handle_command_def handle_start_task_def split: sum.split)
next
  case StopTask
  have "source_inv cfg (handle_stop_task cfg rs s)"
    by (rule source_inv_core [OF i])
       (use i in \<open>auto simp: handle_stop_task_def source_defs same_core_def leader_part_ok_def source_inv_def\<close>)
  with StopTask show ?thesis by (simp add: handle_command_def)
next
  case (StartRecording t)
  have "source_inv cfg (handle_start_recording t s)"
    by (rule source_inv_core [OF i])
       (use i in \<open>auto simp: handle_start_recording_def source_defs same_core_def leader_part_ok_def source_inv_def
         split: option.split prod.split bool.split\<close>)
  with StartRecording show ?thesis by (simp add: handle_command_def)
qed (use i handle_load_model_inv in \<open>simp_all add: handle_command_def\<close>)

lemma read_leader_inv:
  assumes i: "source_inv cfg s" and e: "as_leader_reads_enabled s"
  shows "source_inv cfg (snd (read_leader cfg rs l s))"
proof (rule source_inv_core [OF i])
  show "same_core s (snd (read_leader cfg rs l s))"
    by (auto simp: read_leader_def disable_failed_leader_def source_defs same_core_def split: leader_read.split)
  from i e show "leader_part_ok cfg (snd (read_leader cfg rs l s))"
    by (auto simp: read_leader_def disable_failed_leader_def source_defs leader_part_ok_def source_inv_def split: leader_read.split)
qed

lemma policy_action_inv:
  assumes i: "source_inv cfg s"
  shows "source_inv cfg (snd (policy_action cfg rs p s))"
  by (rule source_inv_core [OF i])
     (use i in \<open>auto simp: policy_action_def drop_policy_to_hold_def source_defs same_core_def leader_part_ok_def source_inv_def
       split: policy_result.split\<close>)

text \<open>A tick in three moves: the first hold target, the leader, the policy.\<close>

definition with_hold :: "source_config \<Rightarrow> RobotObservation \<Rightarrow> source \<Rightarrow> source" where
  "with_hold cfg rs s = (if as_hold_target s = None then hold_at cfg rs s else s)"

definition read_or_last ::
  "source_config \<Rightarrow> RobotObservation \<Rightarrow> leader_read \<Rightarrow> source \<Rightarrow> joints option \<times> source" where
  "read_or_last cfg rs l s = (if as_leader_reads_enabled s then read_leader cfg rs l s else (as_last_leader_action s, s))"

lemma act_moves:
  "act cfg rs l p s =
     (let (leader, s2) = read_or_last cfg rs l (with_hold cfg rs s)
      in case policy_action cfg rs p s2 of
           (Inl e, s3) \<Rightarrow> (Inl e, s3)
         | (Inr policy, s3) \<Rightarrow> (Inr (select_action s3 leader policy), s3))"
  by (simp add: act_def read_or_last_def with_hold_def Let_def)

lemma snd_act: "snd (act cfg rs l p s) = snd (policy_action cfg rs p (snd (read_or_last cfg rs l (with_hold cfg rs s))))"
  unfolding act_moves Let_def by (auto split: prod.split sum.split)

lemma act_inv:
  assumes i: "source_inv cfg s"
  shows "source_inv cfg (snd (act cfg rs l p s))"
proof -
  have s1: "source_inv cfg (with_hold cfg rs s)"
    by (rule source_inv_core [OF i]) (use i in \<open>auto simp: with_hold_def hold_at_def same_core_def leader_part_ok_def source_inv_def\<close>)
  then have "source_inv cfg (snd (read_or_last cfg rs l (with_hold cfg rs s)))"
    using read_leader_inv [OF s1] by (simp add: read_or_last_def)
  then show ?thesis unfolding snd_act by (rule policy_action_inv)
qed

text \<open>A load thread's entry may change its phase or go, if the policies still add up.\<close>

definition arms_ok :: "source \<Rightarrow> bool" where
  "arms_ok s \<longleftrightarrow> (\<forall>(p, g)\<in>set (as_arms s). g \<le> as_arm_generation s)"

definition phases :: "(nat \<times> LoadModelCommand \<times> load_phase) list \<Rightarrow> nat list" where
  "phases xs = concat (map (\<lambda>(g, c, ph). phase_policy ph) xs)"

lemma phases_simps [simp]: "phases [] = []" "phases ((g, c, ph) # xs) = phase_policy ph @ phases xs"
  "phases (xs @ ys) = phases xs @ phases ys"
  by (simp_all add: phases_def)

lemma phase_policy_simps [simp]: "phase_policy Building = []" "phase_policy (Built p) = [p]" "phase_policy (Checked p) = [p]"
  by (simp_all add: phase_policy_def)

lemma source_inv_parts:
  "source_inv cfg s \<longleftrightarrow> leader_part_ok cfg s \<and> arms_ok s
     \<and> distinct (map fst (as_loads s)) \<and> (\<forall>g\<in>set (map fst (as_loads s)). g \<le> as_loader_generation s)
     \<and> distinct (as_built s)
     \<and> mset (as_built s) = mset (as_disconnected s) + mset (attached_policy s) + mset (phases (as_loads s))"
  by (simp add: source_inv_def leader_part_ok_def arms_ok_def in_flight_def phases_def conj_assoc)

lemma inv_loads_change:
  assumes i: "source_inv cfg s" and sp: "as_loads s = ys @ (g, c, ph) # zs"
    and new: "as_loads s' = ys @ new @ zs" "new = [] \<or> (\<exists>c' ph'. new = [(g, c', ph')])"
    and keep: "leader_part_ok cfg s'" "arms_ok s'" "as_loader_generation s' = as_loader_generation s" "distinct (as_built s')"
    and sum: "mset (as_built s') + mset (as_disconnected s) + mset (attached_policy s) + mset (phase_policy ph)
      = mset (as_built s) + mset (as_disconnected s') + mset (attached_policy s') + mset (phases new)"
  shows "source_inv cfg s'"
proof -
  have old: "mset (as_built s) = mset (as_disconnected s) + mset (attached_policy s)
      + (mset (phase_policy ph) + mset (phases ys) + mset (phases zs))"
    using i sp by (simp add: source_inv_parts)
  have "mset (as_built s') = mset (as_disconnected s') + mset (attached_policy s') + (mset (phases new) + mset (phases ys) + mset (phases zs))"
  proof -
    have "mset (as_built s') + (mset (as_disconnected s) + mset (attached_policy s) + mset (phase_policy ph))
        = (mset (as_disconnected s') + mset (attached_policy s') + (mset (phases new) + mset (phases ys) + mset (phases zs)))
          + (mset (as_disconnected s) + mset (attached_policy s) + mset (phase_policy ph))"
      using sum unfolding old by (simp add: ac_simps)
    then show ?thesis by (rule add_right_imp_eq)
  qed
  moreover have "distinct (map fst (as_loads s'))" "\<forall>g\<in>set (map fst (as_loads s')). g \<le> as_loader_generation s'"
  proof -
    have o: "distinct (map fst ys @ g # map fst zs)" "\<forall>h\<in>set (map fst ys @ g # map fst zs). h \<le> as_loader_generation s'"
      using i sp keep(3) by (simp_all add: source_inv_parts)
    have "map fst (as_loads s') = map fst ys @ map fst zs \<or> map fst (as_loads s') = map fst ys @ g # map fst zs"
      using new by auto
    with o show "distinct (map fst (as_loads s'))" "\<forall>g\<in>set (map fst (as_loads s')). g \<le> as_loader_generation s'"
      by (elim disjE; simp only: distinct_append distinct.simps list.set set_append; blast)+
  qed
  ultimately show ?thesis using keep(1,2,4) unfolding new(1) by (simp add: source_inv_parts new(1))
qed

lemma load_found:
  assumes "source_inv cfg s" and "load_of g s = Some (c, ph)"
  obtains ys zs where "as_loads s = ys @ (g, c, ph) # zs" "g \<notin> fst ` set ys" "g \<notin> fst ` set zs"
proof -
  have "distinct (map fst (as_loads s))" using assms(1) by (simp add: source_inv_def)
  moreover have "map_of (as_loads s) g = Some (c, ph)" using assms(2) by (simp add: load_of_def)
  ultimately show thesis using load_split [of "as_loads s" g "(c, ph)"] that by blast
qed

lemma leader_part_fields [simp]:
  "leader_part_ok cfg (s\<lparr>as_built := x1\<rparr>) = leader_part_ok cfg s" "leader_part_ok cfg (s\<lparr>as_loads := x2\<rparr>) = leader_part_ok cfg s"
  "leader_part_ok cfg (s\<lparr>as_disconnected := x3\<rparr>) = leader_part_ok cfg s"
  "arms_ok (s\<lparr>as_built := x1\<rparr>) = arms_ok s" "arms_ok (s\<lparr>as_loads := x2\<rparr>) = arms_ok s" "arms_ok (s\<lparr>as_disconnected := x3\<rparr>) = arms_ok s"
  "attached_policy (s\<lparr>as_built := x1\<rparr>) = attached_policy s" "attached_policy (s\<lparr>as_loads := x2\<rparr>) = attached_policy s"
  "attached_policy (s\<lparr>as_disconnected := x3\<rparr>) = attached_policy s"
  by (simp_all add: leader_part_ok_def arms_ok_def attached_policy_def)

lemma source_inv_basic:
  "source_inv cfg s \<Longrightarrow> leader_part_ok cfg s \<and> arms_ok s \<and> distinct (as_built s)"
  by (simp add: source_inv_parts)

lemma load_build_inv:
  assumes i: "source_inv cfg s" and l: "load_of g s = Some (c, Building)" and n: "built_policies r \<inter> set (as_built s) = {}"
  shows "source_inv cfg (load_build g r s)"
proof -
  obtain ys zs where sp: "as_loads s = ys @ (g, c, Building) # zs" "g \<notin> fst ` set ys" "g \<notin> fst ` set zs"
    using load_found [OF i l] by blast
  note basic = source_inv_basic [OF i]
  show ?thesis
  proof (cases r)
    case (BuildOk p)
    have "as_loads (s\<lparr>as_built := as_built s @ [p]\<rparr>) = ys @ (g, c, Building) # zs" using sp(1) by simp
    from set_phase_split [OF this sp(2,3)] BuildOk
    have e: "load_build g r s = s\<lparr>as_built := as_built s @ [p], as_loads := ys @ [(g, c, Built p)] @ zs\<rparr>"
      by (simp add: load_build_def)
    show ?thesis
      unfolding e by (rule inv_loads_change [OF i sp(1)]) (use basic n BuildOk in \<open>auto simp: built_policies_def\<close>)
  next
    case (BuildFails e src)
    define s1 where "s1 = (case src of None \<Rightarrow> s | Some p \<Rightarrow> disconnect_policy p (s\<lparr>as_built := as_built s @ [p]\<rparr>))"
    have "as_loads s1 = ys @ (g, c, Building) # zs"
      using sp(1) by (simp add: s1_def disconnect_policy_def split: option.split)
    from drop_load_split [OF this sp(2,3)] have d: "drop_load g s1 = s1\<lparr>as_loads := ys @ zs\<rparr>" .
    have "source_inv cfg (s1\<lparr>as_loads := ys @ zs\<rparr>)"
      by (rule inv_loads_change [OF i sp(1), of _ "[]"])
         (use basic n BuildFails in \<open>auto simp: s1_def built_policies_def disconnect_policy_def split: option.split\<close>)
    then have "source_inv cfg (drop_load g s1)" unfolding d .
    moreover have "load_build g r s = (if g \<noteq> as_loader_generation (drop_load g s1) then drop_load g s1
        else emit (load_error_event e) (drop_load g s1))"
      using BuildFails by (simp add: load_build_def s1_def Let_def)
    ultimately show ?thesis by (cases "g = as_loader_generation (drop_load g s1)") simp_all
  qed
qed

lemma load_check_inv:
  assumes i: "source_inv cfg s" and l: "load_of g s = Some (c, Built p)"
  shows "source_inv cfg (load_check g p s)"
proof -
  obtain ys zs where sp: "as_loads s = ys @ (g, c, Built p) # zs" "g \<notin> fst ` set ys" "g \<notin> fst ` set zs"
    using load_found [OF i l] by blast
  note basic = source_inv_basic [OF i]
  have "source_inv cfg (disconnect_policy p (s\<lparr>as_loads := ys @ zs\<rparr>))"
    by (rule inv_loads_change [OF i sp(1), of _ "[]"]) (use basic in \<open>auto simp: disconnect_policy_def\<close>)
  moreover have "source_inv cfg (s\<lparr>as_loads := ys @ [(g, c, Checked p)] @ zs\<rparr>)"
    by (rule inv_loads_change [OF i sp(1)]) (use basic in auto)
  ultimately show ?thesis
    unfolding load_check_def drop_load_split [OF sp] set_phase_split [OF sp] by (cases "g = as_loader_generation s") simp_all
qed

text \<open>A policy in flight is not attached: it was built once.\<close>

lemma in_flight_fresh:
  assumes i: "source_inv cfg s" and sp: "as_loads s = ys @ (g, c, ph) # zs" and p: "phase_policy ph = [p]"
  shows "as_policy s \<noteq> Some p"
proof
  assume "as_policy s = Some p"
  with i sp p have "mset (as_built s) = {#p, p#} + (mset (as_disconnected s) + mset (phases ys) + mset (phases zs))"
    by (simp add: source_inv_parts attached_policy_def)
  then have "count (mset (as_built s)) p \<ge> 2" by simp
  moreover have "count (mset (as_built s)) p \<le> 1"
    using source_inv_basic [OF i] distinct_count_atmost_1 [of "as_built s"] by (metis dual_order.refl zero_le)
  ultimately show False by simp
qed

lemma load_attach_inv:
  assumes i: "source_inv cfg s" and l: "load_of g s = Some (c, Checked p)"
  shows "source_inv cfg (load_attach g c p s)"
proof -
  obtain ys zs where sp: "as_loads s = ys @ (g, c, Checked p) # zs" "g \<notin> fst ` set ys" "g \<notin> fst ` set zs"
    using load_found [OF i l] by blast
  note basic = source_inv_basic [OF i]
  have fresh: "as_policy s \<noteq> Some p" by (rule in_flight_fresh [OF i sp(1)]) simp
  show ?thesis
    unfolding load_attach_def drop_load_split [OF sp]
  proof (rule inv_loads_change [OF i sp(1), of _ "[]"])
    show "arms_ok (set_policy p g (Some (model_identity c)) (s\<lparr>as_loads := ys @ zs\<rparr>))"
      using basic by (fastforce simp: set_policy_def source_defs arms_ok_def split: option.split)
    show "leader_part_ok cfg (set_policy p g (Some (model_identity c)) (s\<lparr>as_loads := ys @ zs\<rparr>))"
      using basic by (simp add: set_policy_def source_defs leader_part_ok_def split: option.split)
  qed (use basic fresh in \<open>simp_all add: set_policy_def source_defs attached_policy_def split: option.split\<close>)
qed

lemma finish_arm_inv:
  assumes i: "source_inv cfg s"
  shows "source_inv cfg (finish_arm p g e s)"
  using i
  by (auto simp: finish_arm_def source_inv_def source_defs attached_policy_def in_flight_def split: option.splits)

lemma shutdown_inv:
  assumes i: "source_inv cfg s"
  shows "source_inv cfg (shutdown_policy s)"
  using i
  by (cases "as_policy s")
     (auto simp: shutdown_policy_def loader_shutdown_def source_inv_def source_defs attached_policy_def in_flight_def)

lemma source_step_inv: "source_inv cfg s \<Longrightarrow> source_inv cfg (source_step cfg s e)"
proof (cases e)
  case (Observe rs)
  assume "source_inv cfg s"
  with Observe show ?thesis by (simp add: observe_def source_inv_def attached_policy_def in_flight_def)
next
  case Disconnect
  assume "source_inv cfg s"
  with Disconnect show ?thesis by (auto simp: source_disconnect_def source_inv_def attached_policy_def in_flight_def)
next
  case (Connect m)
  assume "source_inv cfg s"
  with Connect show ?thesis by (auto simp: source_connect_def source_inv_def attached_policy_def in_flight_def)
qed (auto simp: handle_command_inv act_inv load_build_inv load_check_inv load_attach_inv finish_arm_inv shutdown_inv
    split: option.split load_phase.split)

interpretation source_machine: step_invariant "source_step cfg" "source_inv cfg" for cfg
  by unfold_locales (rule source_step_inv)

section \<open>A stopped policy\<close>

text \<open>No warm-up that is still running may switch to the policy.\<close>

definition quiet :: "source \<Rightarrow> bool" where
  "quiet s \<longleftrightarrow> as_follower_source s \<noteq> Policy \<and> (\<forall>(p, g)\<in>set (as_arms s). g < as_arm_generation s)"

definition asks_policy :: "source_event \<Rightarrow> bool" where
  "asks_policy e = (case e of Command rs (StartTask t) r \<Rightarrow> True | Command rs (SetFollowerSource Policy) r \<Rightarrow> True | _ \<Rightarrow> False)"

lemma quiet_core:
  "quiet s \<Longrightarrow> as_arms s' = as_arms s \<Longrightarrow> as_arm_generation s \<le> as_arm_generation s' \<Longrightarrow>
   as_follower_source s' \<noteq> Policy \<Longrightarrow> quiet s'"
  by (fastforce simp: quiet_def)

lemma quiet_act:
  assumes q: "quiet s"
  shows "quiet (snd (act cfg rs l p s))"
proof -
  have s1: "quiet (with_hold cfg rs s)"
    by (rule quiet_core [OF q]) (use q in \<open>auto simp: with_hold_def hold_at_def quiet_def\<close>)
  have s2: "quiet (snd (read_or_last cfg rs l (with_hold cfg rs s)))"
    by (rule quiet_core [OF s1])
       (use s1 in \<open>auto simp: quiet_def read_or_last_def read_leader_def disable_failed_leader_def source_defs split: leader_read.split\<close>)
  show ?thesis
    unfolding snd_act
    by (rule quiet_core [OF s2])
       (use s2 in \<open>auto simp: quiet_def policy_action_def drop_policy_to_hold_def source_defs split: policy_result.split\<close>)
qed

lemma quiet_command:
  assumes q: "quiet s" and c: "\<not> asks_policy (Command rs c r)"
  shows "quiet (snd (handle_command cfg rs c r s))"
proof (cases c)
  case (SetFollowerSource f)
  with c have "f \<noteq> Policy" by (auto simp: asks_policy_def)
  then have "quiet (snd (handle_set_follower_source cfg f rs r s))"
    by (intro quiet_core [OF q])
       (use q in \<open>auto simp: quiet_def handle_set_follower_source_def source_defs\<close>)
  with SetFollowerSource show ?thesis by (simp add: handle_command_def)
next
  case (LoadModel m)
  have "quiet (handle_load_model m s)"
    by (rule quiet_core [OF q]) (use q in \<open>auto simp: quiet_def handle_load_model_def loader_request_def source_defs\<close>)
  with LoadModel show ?thesis by (simp add: handle_command_def)
next
  case StopTask
  have "quiet (handle_stop_task cfg rs s)"
    by (rule quiet_core [OF q]) (use q in \<open>auto simp: quiet_def handle_stop_task_def source_defs\<close>)
  with StopTask show ?thesis by (simp add: handle_command_def)
next
  case (StartRecording t)
  have "quiet (handle_start_recording t s)"
    by (rule quiet_core [OF q])
       (use q in \<open>auto simp: quiet_def handle_start_recording_def source_defs split: option.split prod.split bool.split\<close>)
  with StartRecording show ?thesis by (simp add: handle_command_def)
qed (use q c in \<open>auto simp: handle_command_def asks_policy_def\<close>)

lemma quiet_loads:
  assumes q: "quiet s"
  shows "quiet (load_build g b s)" "quiet (load_check g p s)" "quiet (load_attach g c p s)" "quiet (shutdown_policy s)"
proof -
  show "quiet (load_build g b s)"
    by (rule quiet_core [OF q])
       (use q in \<open>auto simp: quiet_def load_build_def set_phase_def drop_load_def source_defs split: build_result.split option.split\<close>)
  show "quiet (load_check g p s)"
    by (rule quiet_core [OF q]) (use q in \<open>auto simp: quiet_def load_check_def set_phase_def drop_load_def source_defs\<close>)
  show "quiet (load_attach g c p s)"
    by (rule quiet_core [OF q])
       (use q in \<open>auto simp: quiet_def load_attach_def set_policy_def drop_load_def source_defs split: option.split\<close>)
  show "quiet (shutdown_policy s)"
    by (rule quiet_core [OF q]) (use q in \<open>auto simp: quiet_def shutdown_policy_def loader_shutdown_def source_defs split: option.split\<close>)
qed

lemma quiet_finish_arm:
  assumes q: "quiet s" and p: "(p, g) \<in> set (as_arms s)"
  shows "quiet (finish_arm p g e s)"
proof -
  have "g < as_arm_generation s" using q p by (auto simp: quiet_def)
  with q show ?thesis
    by (auto simp: finish_arm_def quiet_def Let_def split: option.split)
qed

lemma arms_find: "map_of (map (\<lambda>(p, g). (g, p)) xs) g = Some p \<Longrightarrow> (p, g) \<in> set xs"
  by (auto dest!: map_of_SomeD)

lemma quiet_step:
  assumes q: "quiet s" and e: "\<not> asks_policy e"
  shows "quiet (source_step cfg s e)"
proof (cases e)
  case (Command rs c r)
  with quiet_command [OF q] e show ?thesis by simp
next
  case (ArmEnds g err)
  with quiet_finish_arm [OF q arms_find] q show ?thesis by (auto split: option.split)
next
  case (Observe rs)
  with q show ?thesis by (simp add: observe_def quiet_def)
next
  case (Connect m)
  with q show ?thesis by (simp add: source_connect_def quiet_def)
next
  case Disconnect
  with q show ?thesis by (simp add: source_disconnect_def quiet_def)
qed (use q in \<open>simp_all add: quiet_act quiet_loads split: option.split load_phase.split\<close>)

lemma quiet_run: "quiet s \<Longrightarrow> \<not> list_ex asks_policy es \<Longrightarrow> quiet (foldl (source_step cfg) s es)"
  by (induction es arbitrary: s) (simp_all add: quiet_step)

lemma hold_is_quiet:
  assumes i: "source_inv cfg s" and c: "c \<in> {StopTask, SetFollowerSource Hold}"
  shows "quiet (snd (handle_command cfg rs c r s)) \<and> as_follower_source (snd (handle_command cfg rs c r s)) = Hold"
proof -
  have "\<forall>(p, g)\<in>set (as_arms s). g < as_arm_generation s + 1"
    using i by (auto simp: source_inv_def)
  with c show ?thesis
    by (auto simp: handle_command_def handle_stop_task_def handle_set_follower_source_def source_defs quiet_def split: if_splits)
qed

text \<open>Only in the follower source \<open>Policy\<close> does what the policy computed reach the robot.\<close>

lemma action_without_policy:
  assumes "as_follower_source s \<noteq> Policy"
  shows "fst (act cfg rs l (PolicyAction a) s) = fst (act cfg rs l PolicyNothing s)"
proof -
  define s2 where "s2 = snd (read_or_last cfg rs l (with_hold cfg rs s))"
  have f: "as_follower_source s2 \<noteq> Policy"
    using assms
    by (auto simp: s2_def read_or_last_def with_hold_def read_leader_def disable_failed_leader_def source_defs split: leader_read.split)
  then have "select_action s2 x (Some a) = select_action s2 x None" for x
    by (cases "as_follower_source s2"; cases x) (simp_all add: select_action_def)
  then show ?thesis
    unfolding act_moves by (simp add: policy_action_def s2_def case_prod_beta)
qed

text \<open>C3: after a stop command (\<open>StopTask\<close> or a switch to hold) in any reachable state, whatever
  happens next on any thread (ticks, warm-ups that were already running, loads that finish, leader
  failures, reconnects), as long as no later command asks for the policy again, the follower is not
  under policy control and what the policy computes changes no action sent to the robot.\<close>

theorem stop_ends_policy_control:
  assumes "c \<in> {StopTask, SetFollowerSource Hold}" and "\<not> list_ex asks_policy later"
    and "s = foldl (source_step cfg) (source_init cfg) (es @ Command rs c r # later)"
  shows "as_follower_source s \<noteq> Policy
    \<and> fst (act cfg rs' l (PolicyAction a) s) = fst (act cfg rs' l PolicyNothing s)"
proof -
  have "source_inv cfg (foldl (source_step cfg) (source_init cfg) es)"
    by (rule source_machine.run_inv) (rule source_inv_init)
  from hold_is_quiet [OF this assms(1)] have "quiet (foldl (source_step cfg) (source_init cfg) (es @ [Command rs c r]))"
    by simp
  from quiet_run [OF this assms(2)] have "quiet s" by (simp add: assms(3))
  then have f: "as_follower_source s \<noteq> Policy" by (simp add: quiet_def)
  with action_without_policy [OF f] show ?thesis by blast
qed

definition demo_cfg :: source_config where
  "demo_cfg = \<lparr>cfg_f32 = id, cfg_has_leader = True, cfg_fps = 1, cfg_camera_keys = []\<rparr>"

definition demo_obs :: RobotObservation where
  "demo_obs = \<lparr>joint_positions = [0, 0], obs_timestamp = 0\<rparr>"

definition demo_load :: LoadModelCommand where
  "demo_load = \<lparr>lm_model_id = ''m'', lm_backend = ''torch'', lm_device = ''cpu'', lm_force = False\<rparr>"

text \<open>A policy is loaded and armed; its warm-up is running when the task is stopped.\<close>

definition demo_armed :: "source_event list" where
  "demo_armed = [Connect True, Observe demo_obs, Command demo_obs (LoadModel demo_load) ResetOk, LoadBuilds 1 (BuildOk 7),
     LoadChecks 1, LoadAttaches 1, Command demo_obs (StartTask ''t'') ResetOk]"

theorem stop_ends_policy_control_witness:
  "as_arms (foldl (source_step demo_cfg) (source_init demo_cfg) demo_armed) = [(7, 3)]
   \<and> as_follower_source (foldl (source_step demo_cfg) (source_init demo_cfg)
       (demo_armed @ Command demo_obs StopTask ResetOk # [ArmEnds 3 None])) \<noteq> Policy"
proof
  show "as_arms (foldl (source_step demo_cfg) (source_init demo_cfg) demo_armed) = [(7, 3)]" by code_simp
  have "\<not> list_ex asks_policy [ArmEnds 3 None]" by (simp add: asks_policy_def)
  from stop_ends_policy_control [OF _ this refl, of StopTask demo_cfg demo_armed demo_obs ResetOk]
  show "as_follower_source (foldl (source_step demo_cfg) (source_init demo_cfg)
       (demo_armed @ Command demo_obs StopTask ResetOk # [ArmEnds 3 None])) \<noteq> Policy" by simp
qed

section \<open>A lost leader\<close>

lemma policy_action_leader:
  "as_leader_reads_enabled (snd (policy_action cfg rs p s)) = as_leader_reads_enabled s
   \<and> as_leader_failures (snd (policy_action cfg rs p s)) = as_leader_failures s
   \<and> as_last_leader_timestamp (snd (policy_action cfg rs p s)) = as_last_leader_timestamp s
   \<and> (as_follower_source s = Hold \<longrightarrow> as_follower_source (snd (policy_action cfg rs p s)) = Hold)"
  by (simp add: policy_action_def drop_policy_to_hold_def source_defs split: policy_result.split)

lemma with_hold_leader:
  "as_leader_reads_enabled (with_hold cfg rs s) = as_leader_reads_enabled s"
  "as_leader_failures (with_hold cfg rs s) = as_leader_failures s"
  "as_last_leader_timestamp (with_hold cfg rs s) = as_last_leader_timestamp s"
  "as_follower_source (with_hold cfg rs s) = as_follower_source s"
  "leader_ok rs l (with_hold cfg rs s) = leader_ok rs l s"
  by (simp_all add: with_hold_def hold_at_def leader_ok_def split: leader_read.split)

lemma failed_read:
  assumes "cfg_has_leader cfg" and "\<not> leader_ok rs l s"
  shows "as_leader_failures (snd (read_leader cfg rs l s)) = as_leader_failures s + 1"
    "as_last_leader_timestamp (snd (read_leader cfg rs l s)) = as_last_leader_timestamp s"
    "as_leader_reads_enabled (snd (read_leader cfg rs l s))
       = (as_leader_reads_enabled s \<and> as_leader_failures s + 1 < max_leader_failures cfg)"
    "as_leader_failures s + 1 \<ge> max_leader_failures cfg \<Longrightarrow> as_follower_source (snd (read_leader cfg rs l s)) = Hold"
  using assms by (auto simp: read_leader_def disable_failed_leader_def source_defs split: leader_read.split)

text \<open>Where a run of ticks with failing leader reads leads.\<close>

definition lost_leader :: "source_config \<Rightarrow> source \<Rightarrow> nat \<Rightarrow> source \<Rightarrow> bool" where
  "lost_leader cfg s n s' \<longleftrightarrow>
     as_last_leader_timestamp s' = as_last_leader_timestamp s
     \<and> as_leader_failures s' = min (as_leader_failures s + int n) (max_leader_failures cfg)
     \<and> as_leader_reads_enabled s' = (as_leader_failures s + int n < max_leader_failures cfg)
     \<and> (as_leader_failures s + int n \<ge> max_leader_failures cfg \<longrightarrow> as_follower_source s' = Hold)"

lemma leader_ok_timestamp:
  "as_last_leader_timestamp s' = as_last_leader_timestamp s \<Longrightarrow> leader_ok rs l s' = leader_ok rs l s"
  by (simp add: leader_ok_def split: leader_read.split)

lemma lost_leader_read:
  assumes n: "lost_leader cfg s n t" and f: "\<not> leader_ok rs l s" and c: "cfg_has_leader cfg"
  shows "lost_leader cfg s (Suc n) (snd (read_or_last cfg rs l t))"
proof -
  have f': "\<not> leader_ok rs l t" using n f leader_ok_timestamp [of t s] by (simp add: lost_leader_def)
  show ?thesis
  proof (cases "as_leader_reads_enabled t")
    case True
    with n have "as_leader_failures t = as_leader_failures s + int n" by (simp add: lost_leader_def)
    with n True failed_read [OF c f'] show ?thesis
      by (auto simp: lost_leader_def read_or_last_def)
  next
    case False
    with n show ?thesis by (auto simp: lost_leader_def read_or_last_def)
  qed
qed

lemma lost_leader_tick:
  assumes n: "lost_leader cfg s n t" and f: "\<not> leader_ok rs l s" and c: "cfg_has_leader cfg"
  shows "lost_leader cfg s (Suc n) (snd (act cfg rs l p t))"
proof -
  have "lost_leader cfg s n (with_hold cfg rs t)" using n by (simp add: lost_leader_def with_hold_leader)
  from lost_leader_read [OF this f c] show ?thesis
    using policy_action_leader [of cfg rs p "snd (read_or_last cfg rs l (with_hold cfg rs t))"]
    by (simp add: lost_leader_def snd_act)
qed

fun act_event :: "RobotObservation \<times> leader_read \<times> policy_result \<Rightarrow> source_event" where
  "act_event (rs, l, p) = Act rs l p"

lemma lost_leader_run:
  assumes "as_leader_reads_enabled s" "as_leader_failures s < max_leader_failures cfg" "cfg_has_leader cfg"
    and "\<forall>(rs, l, p)\<in>set ticks. \<not> leader_ok rs l s"
  shows "lost_leader cfg s (length ticks) (foldl (source_step cfg) s (map act_event ticks))"
  using assms(4)
proof (induction ticks rule: rev_induct)
  case Nil
  with assms show ?case by (simp add: lost_leader_def)
next
  case (snoc x ticks)
  obtain rs l p where x: "x = (rs, l, p)" by (cases x)
  with snoc have "lost_leader cfg s (length ticks) (foldl (source_step cfg) s (map act_event ticks))" "\<not> leader_ok rs l s"
    by auto
  from lost_leader_tick [OF this assms(3)] show ?case
    by (simp add: x)
qed

text \<open>C33: from any reachable state whose leader is still read, a run of ticks in which every leader read
  fails (it raises, is not newer than the last one, or has another number of joints) counts each failure
  once; the count never passes \<open>max_leader_failures\<close>, the leader is given up exactly when it is
  reached, the follower is then in hold, and a later request for teleoperation is refused with an error
  and changes neither the follower source nor anything else but the events.\<close>

theorem leader_loss_holds:
  assumes "s = foldl (source_step cfg) (source_init cfg) es" and "as_leader_reads_enabled s"
    and "\<forall>(rs, l, p)\<in>set ticks. \<not> leader_ok rs l s"
    and "s' = foldl (source_step cfg) s (map act_event ticks)"
  shows "as_leader_failures s' = min (as_leader_failures s + int (length ticks)) (max_leader_failures cfg)
    \<and> as_leader_reads_enabled s' = (as_leader_failures s + int (length ticks) < max_leader_failures cfg)
    \<and> (as_leader_reads_enabled s' \<or> as_follower_source s' = Hold
       \<and> (\<exists>m. source_step cfg s' (Command rs (SetFollowerSource Teleop) r) = emit (ErrorEvent m ''leader_connection_lost'') s'))"
proof -
  have i: "source_inv cfg s" unfolding assms(1) by (rule source_machine.run_inv) (rule source_inv_init)
  then have h: "cfg_has_leader cfg" "as_leader_failures s < max_leader_failures cfg"
    using assms(2) by (simp_all add: source_inv_def)
  have l: "lost_leader cfg s (length ticks) s'"
    unfolding assms(4) by (rule lost_leader_run [OF assms(2) h(2,1) assms(3)])
  then have "as_leader_failures s' = min (as_leader_failures s + int (length ticks)) (max_leader_failures cfg)"
    "as_leader_reads_enabled s' = (as_leader_failures s + int (length ticks) < max_leader_failures cfg)"
    by (simp_all add: lost_leader_def)
  moreover have "as_leader_reads_enabled s' \<or> as_follower_source s' = Hold
       \<and> (\<exists>m. source_step cfg s' (Command rs (SetFollowerSource Teleop) r) = emit (ErrorEvent m ''leader_connection_lost'') s')"
    using l h(1) by (auto simp: lost_leader_def handle_command_def handle_set_follower_source_def)
  ultimately show ?thesis by blast
qed

definition demo_lost :: "(RobotObservation \<times> leader_read \<times> policy_result) list" where
  "demo_lost = [(demo_obs, LeaderRaises, PolicyNothing), (demo_obs, LeaderObs [1] 5, PolicyNothing), (demo_obs, LeaderRaises, PolicyNothing)]"

theorem leader_loss_holds_witness:
  "as_follower_source (foldl (source_step demo_cfg)
     (foldl (source_step demo_cfg) (source_init demo_cfg) [Command demo_obs (SetFollowerSource Teleop) ResetOk])
     (map act_event demo_lost)) = Hold"
proof -
  let ?s = "foldl (source_step demo_cfg) (source_init demo_cfg) [Command demo_obs (SetFollowerSource Teleop) ResetOk]"
  have e: "as_leader_reads_enabled ?s" "as_leader_failures ?s = 0" by code_simp+
  have "\<forall>(rs, l, p)\<in>set demo_lost. \<not> leader_ok rs l ?s"
    by (simp add: demo_lost_def leader_ok_def demo_obs_def)
  note r = leader_loss_holds [OF refl e(1) this refl]
  have "max_leader_failures demo_cfg = 3" by (simp add: max_leader_failures_def demo_cfg_def py_int_def)
  with e(2) have n: "\<not> as_leader_failures ?s + int (length demo_lost) < max_leader_failures demo_cfg"
    by (simp only:) (simp add: demo_lost_def)
  from r [THEN conjunct2, THEN conjunct1] n have "\<not> as_leader_reads_enabled (foldl (source_step demo_cfg) ?s (map act_event demo_lost))"
    by (simp only: n not_False_eq_True)
  with r [THEN conjunct2, THEN conjunct2] show ?thesis by blast
qed

section \<open>What becomes of a policy\<close>





text \<open>
  The shutdown does not stop a load that has passed its generation check: it attaches its policy to the
  source that was shut down, and nothing disconnects it.
\<close>

lemma policy_attached_after_shutdown:
  assumes "load_of g s = Some (c, Checked p)" and "as_attached_generation s \<le> g"
  shows "as_policy (foldl (source_step cfg) s [ShutdownPolicy, Disconnect, LoadAttaches g]) = Some p"
proof -
  have "load_of g (source_disconnect cfg (shutdown_policy s)) = Some (c, Checked p)"
    "as_attached_generation (source_disconnect cfg (shutdown_policy s)) = as_attached_generation s"
    using assms(1)
    by (simp_all add: load_of_def source_disconnect_def shutdown_policy_def loader_shutdown_def source_defs split: option.split)
  with assms(2) show ?thesis
    by (simp add: load_attach_def drop_load_def set_policy_def source_defs split: option.split)
qed

end
