(* ===== verification/RuntimeOwner.thy ===== *)
theory RuntimeOwner
  imports RuntimeContract "HOL-Library.Multiset" "HOL-Library.Char_ord" "HOL-Library.List_Lexorder"
begin

text \<open>
  Who owns a robot: the names of sessions (\<^verbatim>\<open>runtime/transport/ids.py\<close>), the lock on a name
  (\<^verbatim>\<open>runtime/transport/lock.py\<close>), the process that serves it (\<^verbatim>\<open>runtime/hosts/process_host.py\<close>)
  and the policy that attaches to a live session or spawns one (\<^verbatim>\<open>runtime/owner.py\<close>). SHA-256 and
  JSON are arguments; what the kernel, a child and the transport answer are arguments of the calls.
\<close>

section \<open>Names\<close>

definition key_prefix :: string where
  "key_prefix = ''studio/rt''"

definition session_char_ok :: "char \<Rightarrow> bool" where
  "session_char_ok c \<longleftrightarrow> (65 \<le> (of_char c :: nat) \<and> (of_char c :: nat) \<le> 90)
     \<or> (97 \<le> (of_char c :: nat) \<and> (of_char c :: nat) \<le> 122)
     \<or> (48 \<le> (of_char c :: nat) \<and> (of_char c :: nat) \<le> 57) \<or> c = CHR ''_'' \<or> c = CHR ''-''"

definition session_name_ok :: "string \<Rightarrow> bool" where
  "session_name_ok name \<longleftrightarrow> starts_with ''rt-'' name \<and> drop 3 name \<noteq> [] \<and> list_all session_char_ok (drop 3 name)"

definition py_quoted :: "string \<Rightarrow> string" where
  "py_quoted s = CHR 0x27 # s @ [CHR 0x27]"

definition validate_session_name :: "string \<Rightarrow> string + string" where
  "validate_session_name name =
     (if session_name_ok name then Inr name
      else Inl (''invalid runtime session name '' @ py_quoted name @ '': expected '' @ py_quoted ''rt-''
        @ '' followed by letters, digits, '' @ py_quoted ''_'' @ '' or '' @ py_quoted ''-''))"

definition runtime_session_name :: "string \<Rightarrow> string + string" where
  "runtime_session_name follower_id = validate_session_name (''rt-'' @ follower_id)"

definition session_prefix :: "string \<Rightarrow> string + string" where
  "session_prefix name = bind_result (validate_session_name name) (\<lambda>n. Inr (key_prefix @ ''/'' @ n))"

definition session_key :: "string \<Rightarrow> string \<Rightarrow> string + string" where
  "session_key leaf name = bind_result (session_prefix name) (\<lambda>p. Inr (p @ ''/'' @ leaf))"

definition port_base :: nat where "port_base = 10000"
definition port_range :: nat where "port_range = 10000"

text \<open>\<open>digest\<close> gives the bytes of SHA-256; the port uses the first four, big-endian.\<close>

definition port_for_prefix :: "(string \<Rightarrow> nat list) \<Rightarrow> string \<Rightarrow> nat" where
  "port_for_prefix digest pre = port_base + foldl (\<lambda>a b. a * 256 + b) 0 (take 4 (digest pre)) mod port_range"

definition derive_endpoint_port :: "(string \<Rightarrow> nat list) \<Rightarrow> string \<Rightarrow> string + nat" where
  "derive_endpoint_port digest name = bind_result (session_prefix name) (\<lambda>p. Inr (port_for_prefix digest p))"

lemma port_outside_robot_range: "port_for_prefix digest p < 20000 \<and> 10000 \<le> port_for_prefix digest p"
proof -
  have "foldl (\<lambda>a b. a * 256 + b) 0 (take 4 (digest p)) mod 10000 < (10000 :: nat)" by simp
  then show ?thesis by (simp add: port_for_prefix_def port_base_def port_range_def)
qed

text \<open>Keys of different sessions, and different keys of one, never meet.\<close>

lemma name_before_slash: "CHR ''/'' \<notin> set m \<Longrightarrow> takeWhile (\<lambda>c. c \<noteq> CHR ''/'') (m @ CHR ''/'' # k) = m"
  by (induction m) auto

lemma session_name_no_slash: "session_name_ok m \<Longrightarrow> CHR ''/'' \<notin> set m"
proof -
  assume ok: "session_name_ok m"
  then obtain t where m: "m = ''rt-'' @ t" by (auto simp: session_name_ok_def starts_with_iff)
  with ok have "list_all session_char_ok t" by (simp add: session_name_ok_def)
  then have "CHR ''/'' \<notin> set t" by (auto simp: list_all_iff session_char_ok_def)
  with m show ?thesis by simp
qed

lemma session_keys_disjoint:
  assumes "session_key k m = Inr x" and "session_key l n = Inr x"
  shows "m = n \<and> k = l"
proof -
  have ok: "session_name_ok m" "session_name_ok n" and x: "m @ CHR ''/'' # k = n @ CHR ''/'' # l"
    using assms by (auto simp: session_key_def session_prefix_def validate_session_name_def split: if_splits)
  have "m = n" using name_before_slash [OF session_name_no_slash [OF ok(1)], of k]
    name_before_slash [OF session_name_no_slash [OF ok(2)], of l] x by simp
  with x show ?thesis by simp
qed

section \<open>The lock on a session name\<close>

text \<open>A lock file's JSON, \<open>None\<close> where it cannot be read; a field of another type is \<open>None\<close>.\<close>

record diagnostics =
  dg_kind :: string
  dg_identity :: "string option"
  dg_pid :: "int option"

record lock_file =
  lf_diagnostics :: "diagnostics option"
  lf_holder :: "int option"

text \<open>The lock directory, the holder of each \<open>flock\<close>, and the processes that live.\<close>

record lock_host =
  lh_files :: "(string \<times> lock_file) list"
  lh_alive :: "int list"

definition session_lock_kind :: string where
  "session_lock_kind = ''rt-name''"

definition session_lock_path :: "(string \<Rightarrow> string) \<Rightarrow> string \<Rightarrow> string" where
  "session_lock_path sha identity = sha (session_lock_kind @ '':'' @ identity) @ ''.lock''"

definition read_live_diagnostics :: "lock_host \<Rightarrow> string \<Rightarrow> diagnostics option" where
  "read_live_diagnostics h path =
     (case map_of (lh_files h) path of
        None \<Rightarrow> None
      | Some f \<Rightarrow>
          (case lf_diagnostics f of
             None \<Rightarrow> None
           | Some d \<Rightarrow>
               if dg_kind d \<noteq> session_lock_kind then None
               else case dg_pid d of
                   None \<Rightarrow> None
                 | Some pid \<Rightarrow>
                     if pid \<le> 0 \<or> pid \<notin> set (lh_alive h) then None
                     else if lf_holder f = None then None else Some d))"

definition live_session_pid :: "(string \<Rightarrow> string) \<Rightarrow> lock_host \<Rightarrow> string \<Rightarrow> int option" where
  "live_session_pid sha h name =
     (case read_live_diagnostics h (session_lock_path sha name) of
        None \<Rightarrow> None
      | Some d \<Rightarrow> if dg_identity d \<noteq> Some name then None else dg_pid d)"

definition registered_session_names :: "lock_host \<Rightarrow> string list" where
  "registered_session_names h =
     sort (remdups (List.map_filter (\<lambda>(path, f). Option.bind (read_live_diagnostics h path) dg_identity) (lh_files h)))"

text \<open>\<open>acquire\<close> and \<open>release\<close> of the one lock object of process \<open>pid\<close>; the kernel releases a dead process's lock.\<close>

definition lock_acquire :: "(string \<Rightarrow> string) \<Rightarrow> int \<Rightarrow> string \<Rightarrow> lock_host \<Rightarrow> bool \<times> lock_host" where
  "lock_acquire sha pid name h =
     (let path = session_lock_path sha name;
          f = (case map_of (lh_files h) path of None \<Rightarrow> \<lparr>lf_diagnostics = None, lf_holder = None\<rparr> | Some f \<Rightarrow> f)
      in case lf_holder f of
           Some q \<Rightarrow> (q = pid, h)
         | None \<Rightarrow> (True, h\<lparr>lh_files := AList.update path
             \<lparr>lf_diagnostics = Some \<lparr>dg_kind = session_lock_kind, dg_identity = Some name, dg_pid = Some pid\<rparr>,
              lf_holder = Some pid\<rparr> (lh_files h)\<rparr>))"

definition lock_release :: "int \<Rightarrow> lock_host \<Rightarrow> lock_host" where
  "lock_release pid h =
     h\<lparr>lh_files := map (\<lambda>(p, f). (p, if lf_holder f = Some pid then f\<lparr>lf_holder := None\<rparr> else f)) (lh_files h)\<rparr>"

definition process_dies :: "int \<Rightarrow> lock_host \<Rightarrow> lock_host" where
  "process_dies pid h = (lock_release pid h)\<lparr>lh_alive := removeAll pid (lh_alive h)\<rparr>"

datatype lock_event = ProcessStarts int | Acquires int string | Releases int | ProcessDies int

fun lock_step :: "(string \<Rightarrow> string) \<Rightarrow> lock_host \<Rightarrow> lock_event \<Rightarrow> lock_host" where
  "lock_step sha h (ProcessStarts pid) = (if pid > 0 then h\<lparr>lh_alive := pid # lh_alive h\<rparr> else h)"
| "lock_step sha h (Acquires pid name) =
     (if pid \<in> set (lh_alive h) \<and> session_name_ok name then snd (lock_acquire sha pid name h) else h)"
| "lock_step sha h (Releases pid) = lock_release pid h"
| "lock_step sha h (ProcessDies pid) = process_dies pid h"

text \<open>What a held file says is true: its holder lives and wrote it.\<close>

definition lock_inv :: "(string \<Rightarrow> string) \<Rightarrow> lock_host \<Rightarrow> bool" where
  "lock_inv sha h \<longleftrightarrow> (\<forall>p\<in>set (lh_alive h). 0 < p)
     \<and> (\<forall>path f. map_of (lh_files h) path = Some f \<longrightarrow>
          (\<forall>pid. lf_holder f = Some pid \<longrightarrow> pid \<in> set (lh_alive h)
             \<and> (\<exists>name. path = session_lock_path sha name
                  \<and> lf_diagnostics f = Some \<lparr>dg_kind = session_lock_kind, dg_identity = Some name, dg_pid = Some pid\<rparr>)))"

definition lock_holder :: "(string \<Rightarrow> string) \<Rightarrow> lock_host \<Rightarrow> string \<Rightarrow> int option" where
  "lock_holder sha h name = Option.bind (map_of (lh_files h) (session_lock_path sha name)) lf_holder"

lemma map_of_release:
  "map_of (lh_files (lock_release pid h)) path
   = map_option (\<lambda>f. if lf_holder f = Some pid then f\<lparr>lf_holder := None\<rparr> else f) (map_of (lh_files h) path)"
proof -
  have "map_of (map (\<lambda>(p, f). (p, g f)) xs) path = map_option g (map_of xs path)" for g :: "lock_file \<Rightarrow> lock_file" and xs
    by (induction xs) auto
  then show ?thesis by (simp add: lock_release_def)
qed

lemma lock_release_inv: "lock_inv sha h \<Longrightarrow> lock_inv sha (lock_release pid h)"
  unfolding lock_inv_def map_of_release
  by (auto simp: lock_release_def split: if_splits)

lemma lock_step_inv: "lock_inv sha h \<Longrightarrow> lock_inv sha (lock_step sha h e)"
proof (cases e)
  case (ProcessStarts pid)
  assume "lock_inv sha h"
  with ProcessStarts show ?thesis by (auto simp: lock_inv_def)
next
  case (Acquires pid name)
  assume i: "lock_inv sha h"
  define path where "path = session_lock_path sha name"
  show ?thesis
  proof (cases "pid \<in> set (lh_alive h) \<and> session_name_ok name
      \<and> Option.bind (map_of (lh_files h) path) lf_holder = None")
    case True
    with Acquires have "lock_step sha h e = h\<lparr>lh_files := AList.update path
        \<lparr>lf_diagnostics = Some \<lparr>dg_kind = session_lock_kind, dg_identity = Some name, dg_pid = Some pid\<rparr>,
         lf_holder = Some pid\<rparr> (lh_files h)\<rparr>"
      by (auto simp: lock_acquire_def path_def Let_def split: option.split)
    with i True show ?thesis
      by (auto simp: lock_inv_def update_conv path_def)
  next
    case False
    with Acquires have "lock_step sha h e = h"
      by (auto simp: lock_acquire_def path_def Let_def split: option.split)
    with i show ?thesis by simp
  qed
next
  case (Releases pid)
  assume "lock_inv sha h"
  with Releases show ?thesis by (simp add: lock_release_inv)
next
  case (ProcessDies pid)
  assume i: "lock_inv sha h"
  have "\<forall>path f. map_of (lh_files (lock_release pid h)) path = Some f \<longrightarrow> lf_holder f \<noteq> Some pid"
    by (auto simp: map_of_release dest: arg_cong [where f = lf_holder])
  note none = this
  define k where "k = lock_release pid h"
  have k: "lock_inv sha k" unfolding k_def by (rule lock_release_inv [OF i])
  have "lock_inv sha (k\<lparr>lh_alive := removeAll pid (lh_alive k)\<rparr>)"
    unfolding lock_inv_def
  proof (intro conjI allI impI)
    show "\<forall>p\<in>set (lh_alive (k\<lparr>lh_alive := removeAll pid (lh_alive k)\<rparr>)). 0 < p"
      using k by (simp add: lock_inv_def)
  next
    fix path f q
    assume f: "map_of (lh_files (k\<lparr>lh_alive := removeAll pid (lh_alive k)\<rparr>)) path = Some f" "lf_holder f = Some q"
    then have m: "map_of (lh_files k) path = Some f" by simp
    with none f(2) have "q \<noteq> pid" unfolding k_def by auto
    with k m f(2) show "q \<in> set (lh_alive (k\<lparr>lh_alive := removeAll pid (lh_alive k)\<rparr>))"
      by (auto simp: lock_inv_def)
    from k m f(2) show "\<exists>name. path = session_lock_path sha name
        \<and> lf_diagnostics f = Some \<lparr>dg_kind = session_lock_kind, dg_identity = Some name, dg_pid = Some q\<rparr>"
      unfolding lock_inv_def by blast
  qed
  with ProcessDies show ?thesis by (simp add: process_dies_def k_def lock_release_def)
qed

interpretation lock_machine: step_invariant "lock_step sha" "lock_inv sha" for sha
  by unfold_locales (rule lock_step_inv)

lemma lock_inv_init: "lock_inv sha \<lparr>lh_files = [], lh_alive = []\<rparr>"
  by (simp add: lock_inv_def)

text \<open>The registry answers with the process that holds the name, and only then.\<close>

lemma live_pid_is_holder:
  assumes "inj sha" and "h = foldl (lock_step sha) \<lparr>lh_files = [], lh_alive = []\<rparr> es"
  shows "live_session_pid sha h name = lock_holder sha h name"
proof -
  have i: "lock_inv sha h" unfolding assms(2) by (rule lock_machine.run_inv) (rule lock_inv_init)
  have same: "session_lock_path sha m = session_lock_path sha n \<Longrightarrow> m = n" for m n
    using injD [OF assms(1), of "session_lock_kind @ '':'' @ m" "session_lock_kind @ '':'' @ n"]
    by (simp add: session_lock_path_def)
  show ?thesis
  proof (cases "map_of (lh_files h) (session_lock_path sha name)")
    case None
    then show ?thesis by (simp add: live_session_pid_def read_live_diagnostics_def lock_holder_def)
  next
    case (Some f)
    show ?thesis
    proof (cases "lf_holder f")
      case None
      with Some show ?thesis
        by (simp add: live_session_pid_def read_live_diagnostics_def lock_holder_def split: option.split)
    next
      case h: (Some pid)
      with i Some same obtain "pid \<in> set (lh_alive h)" "0 < pid"
        "lf_diagnostics f = Some \<lparr>dg_kind = session_lock_kind, dg_identity = Some name, dg_pid = Some pid\<rparr>"
        unfolding lock_inv_def by metis
      with Some h show ?thesis
        by (simp add: live_session_pid_def read_live_diagnostics_def lock_holder_def)
    qed
  qed
qed

section \<open>Stopping a session by name\<close>

datatype stop_signal = SigTerm int | SigKill int

text \<open>Each poll of the wait: the pid in the registry, and whether the signalled process is there; the
  last look at the registry comes when the time is up.\<close>

fun wait_until_session_gone :: "(int option \<times> bool) list \<Rightarrow> int option \<Rightarrow> bool" where
  "wait_until_session_gone [] final = (final = None)"
| "wait_until_session_gone ((live, there) # polls) final =
     (if live = None \<or> \<not> there then True else wait_until_session_gone polls final)"

definition stop_runtime_session ::
  "int option \<Rightarrow> int option \<Rightarrow> (int option \<times> bool) list \<Rightarrow> int option \<Rightarrow> stop_signal list" where
  "stop_runtime_session live metadata_pid polls final =
     (case (case live of Some p \<Rightarrow> Some p
            | None \<Rightarrow> (case metadata_pid of Some p \<Rightarrow> if p > 0 then Some p else None | None \<Rightarrow> None)) of
        None \<Rightarrow> []
      | Some pid \<Rightarrow> if wait_until_session_gone polls final then [SigTerm pid] else [SigTerm pid, SigKill pid])"

text \<open>A live lock whose session does not answer still holds the robot.\<close>

definition runtime_session_holder :: "int option \<Rightarrow> 'm option \<Rightarrow> ('m + int) option" where
  "runtime_session_holder live metadata =
     (case live of None \<Rightarrow> None | Some pid \<Rightarrow> (case metadata of Some md \<Rightarrow> Some (Inl md) | None \<Rightarrow> Some (Inr pid)))"

section \<open>The process of a session\<close>

record app_error =
  ae_message :: string
  ae_code :: string
  ae_phase :: "string option"

datatype owner_error =
    AppRaised app_error
  | SessionBusy "string option" "int option"
  | OtherRaised string

datatype child = Running | Exited int

record process_host =
  ph_proc :: "child option"
  ph_error :: "app_error option"
  ph_stop_requested :: bool

definition process_host_init :: process_host where
  "process_host_init = \<lparr>ph_proc = None, ph_error = None, ph_stop_requested = False\<rparr>"

definition host_alive :: "process_host \<Rightarrow> bool" where
  "host_alive h \<longleftrightarrow> ph_proc h = Some Running"

definition host_exited_cleanly :: "process_host \<Rightarrow> bool" where
  "host_exited_cleanly h \<longleftrightarrow> ph_proc h = Some (Exited 0)"

text \<open>\<open>stop\<close> terminates the child, or kills it after the grace period.\<close>

definition host_stop :: "process_host \<Rightarrow> process_host" where
  "host_stop h = h\<lparr>ph_stop_requested := True, ph_proc := (if ph_proc h = Some Running then Some (Exited (- 15)) else ph_proc h)\<rparr>"

text \<open>
  What a start meets: \<open>Popen\<close> may raise, writing the configuration may fail, another thread may call
  \<open>stop\<close> after the write or while the line is awaited, and the child's first line may not come.
\<close>

record start_answers =
  sa_popen_error :: "string option"
  sa_write_ok :: bool
  sa_stop_at_write :: bool
  sa_line :: "string option"
  sa_stop_at_line :: bool

definition connection_failed :: "string \<Rightarrow> owner_error" where
  "connection_failed msg = AppRaised \<lparr>ae_message = msg, ae_code = ''robot_connection_failed'', ae_phase = None\<rparr>"

text \<open>
  \<open>parse\<close> reads the JSON of an error line: message, code and phase, \<open>None\<close> where it is malformed; then
  the function raises its own error instead of returning the child's.
\<close>

definition error_from_line :: "(string \<Rightarrow> (string \<times> string \<times> string option) option) \<Rightarrow> string \<Rightarrow> app_error + app_error" where
  "error_from_line parse line =
     (case parse (remove_prefix ''ERROR:'' line) of
        None \<Rightarrow> Inl \<lparr>ae_message = ''Runtime session worker returned a malformed startup error: '' @ py_quoted line,
                 ae_code = ''robot_connection_failed'', ae_phase = None\<rparr>
      | Some (msg, code, phase) \<Rightarrow> Inr \<lparr>ae_message = msg, ae_code = code, ae_phase = phase\<rparr>)"

definition host_start ::
  "(string \<Rightarrow> (string \<times> string \<times> string option) option) \<Rightarrow> string \<Rightarrow> start_answers \<Rightarrow> process_host
     \<Rightarrow> (owner_error + unit) \<times> process_host" where
  "host_start parse name a h =
     (case ph_proc h of
        Some Running \<Rightarrow> (Inr (), h)
      | Some (Exited code) \<Rightarrow> (Inl (OtherRaised ''Runtime session host cannot be started more than once''), h)
      | None \<Rightarrow>
          let h1 = h\<lparr>ph_error := None\<rparr> in
          case sa_popen_error a of
            Some e \<Rightarrow> (Inl (OtherRaised e), h1)
          | None \<Rightarrow>
              let h2 = h1\<lparr>ph_proc := Some Running\<rparr> in
              if ph_stop_requested h2 \<or> sa_stop_at_write a then (Inr (), host_stop h2)
              else if \<not> sa_write_ok a
              then (Inl (connection_failed ''Failed to start the runtime session process.''), host_stop h2)
              else if sa_stop_at_line a then (Inr (), host_stop h2)
              else case sa_line a of
                  None \<Rightarrow> (Inl (connection_failed (''Runtime session '' @ name @ '' did not become ready within 30.0s.'')), host_stop h2)
                | Some line \<Rightarrow>
                    if starts_with ''ERROR:'' line
                    then (case error_from_line parse line of
                            Inl e \<Rightarrow> (Inl (AppRaised e), h2)
                          | Inr e \<Rightarrow> (Inl (AppRaised e), host_stop (h2\<lparr>ph_error := Some e\<rparr>)))
                    else if line \<noteq> ''READY''
                    then (Inl (connection_failed (''Runtime session worker returned an unexpected startup response: '' @ py_quoted line)), host_stop h2)
                    else (Inr (), h2))"

section \<open>Attach or spawn\<close>

text \<open>The metadata of a session; \<open>md_instance\<close> is \<open>Some (Inl ())\<close> where the field is not a string.\<close>

record session_metadata =
  md_instance :: "(unit + string) option"
  md_digest :: "string option"
  md_cameras :: "string list option"
  md_pid :: "int option"

record owner_config =
  oc_session_name :: string
  oc_digest :: string
  oc_cameras :: "string list"
  oc_follower_name :: "string option"

text \<open>
  What an owner does to sessions: \<open>StopSession\<close> carries the metadata it was decided on, if any;
  \<open>StartHost\<close> is a start that returned, \<open>StartFailed\<close> one that raised and whether its child was left running.
\<close>

datatype owner_action =
    StopSession "session_metadata option"
  | StartHost
  | StartFailed bool
  | StopHost
  | AttachTo session_metadata

record session_owner =
  ow_host :: "process_host option"
  ow_metadata :: "session_metadata option"
  ow_spawned :: bool
  ow_actions :: "owner_action list"

definition owner_init :: session_owner where
  "owner_init = \<lparr>ow_host = None, ow_metadata = None, ow_spawned = False, ow_actions = []\<rparr>"

definition owner_does :: "owner_action \<Rightarrow> session_owner \<Rightarrow> session_owner" where
  "owner_does a s = s\<lparr>ow_actions := ow_actions s @ [a]\<rparr>"

definition reject_if_different_rig :: "owner_config \<Rightarrow> session_metadata \<Rightarrow> owner_error + unit" where
  "reject_if_different_rig cfg md =
     (if md_digest md = Some (oc_digest cfg) then Inr () else Inl (SessionBusy (oc_follower_name cfg) (md_pid md)))"

definition needs_more_cameras :: "owner_config \<Rightarrow> session_metadata \<Rightarrow> bool" where
  "needs_more_cameras cfg md \<longleftrightarrow>
     \<not> set (oc_cameras cfg) \<subseteq> set (case md_cameras md of None \<Rightarrow> [] | Some ks \<Rightarrow> ks)"

text \<open>\<open>RuntimeSessionClient.attach\<close> refuses an instance id that is not a string or is empty.\<close>

definition client_accepts :: "session_metadata \<Rightarrow> bool" where
  "client_accepts md \<longleftrightarrow> (case md_instance md of None \<Rightarrow> True | Some (Inl u) \<Rightarrow> False | Some (Inr s) \<Rightarrow> s \<noteq> '''')"

definition attach_to :: "owner_config \<Rightarrow> session_metadata \<Rightarrow> session_owner \<Rightarrow> (owner_error + unit) \<times> session_owner" where
  "attach_to cfg md s =
     (case reject_if_different_rig cfg md of
        Inl e \<Rightarrow> (Inl e, s)
      | Inr u \<Rightarrow>
          if client_accepts md then (Inr (), (owner_does (AttachTo md) s)\<lparr>ow_metadata := Some md\<rparr>)
          else (Inl (OtherRaised ''Runtime session metadata instance_id must be a string''), s))"

definition try_attach :: "owner_config \<Rightarrow> session_metadata \<Rightarrow> session_owner \<Rightarrow> (owner_error + bool) \<times> session_owner" where
  "try_attach cfg md s =
     (case reject_if_different_rig cfg md of
        Inl e \<Rightarrow> (Inl e, s)
      | Inr u \<Rightarrow>
          if needs_more_cameras cfg md then (Inr False, owner_does (StopSession (Some md)) s)
          else bind_state (attach_to cfg md s) (\<lambda>u s1. (Inr True, s1)))"

text \<open>A poll of \<open>_wait_for_spawned_metadata\<close>: whether the child has died by then, and what the probe found.\<close>

fun wait_for_spawned_metadata ::
  "(bool \<times> session_metadata option) list \<Rightarrow> session_owner \<Rightarrow> (owner_error + session_metadata option) \<times> session_owner" where
  "wait_for_spawned_metadata [] s = (Inr None, s)"
| "wait_for_spawned_metadata ((dies, probe) # polls) s =
     (let s1 = (if dies then s\<lparr>ow_host := map_option (\<lambda>h. h\<lparr>ph_proc := map_option (\<lambda>c. Exited 1) (ph_proc h)\<rparr>) (ow_host s)\<rparr> else s)
      in case ow_host s1 of
           Some h \<Rightarrow>
             if \<not> host_alive h
             then (Inl (case ph_error h of Some e \<Rightarrow> AppRaised e
                        | None \<Rightarrow> connection_failed ''Runtime session stopped before answering metadata''), s1)
             else (case probe of Some md \<Rightarrow> (Inr (Some md), s1) | None \<Rightarrow> wait_for_spawned_metadata polls s1)
         | None \<Rightarrow> (case probe of Some md \<Rightarrow> (Inr (Some md), s1) | None \<Rightarrow> wait_for_spawned_metadata polls s1))"

fun probe_with_retry :: "session_metadata option list \<Rightarrow> session_metadata option" where
  "probe_with_retry [] = None"
| "probe_with_retry (p # ps) = (case p of Some md \<Rightarrow> Some md | None \<Rightarrow> probe_with_retry ps)"

text \<open>What one turn of the loop in \<open>connect\<close> meets.\<close>

record connect_round =
  cr_probe :: "session_metadata option"
  cr_start :: start_answers
  cr_retry :: "session_metadata option list"
  cr_wait :: "(bool \<times> session_metadata option) list"

definition is_name_contention :: "owner_error \<Rightarrow> bool" where
  "is_name_contention e = (case e of AppRaised a \<Rightarrow> ae_phase a = Some ''name_lock_contention'' | _ \<Rightarrow> False)"

text \<open>\<open>stop\<close> on the owner stops the child it started.\<close>

definition owner_stop :: "session_owner \<Rightarrow> session_owner" where
  "owner_stop s = (case ow_host s of None \<Rightarrow> s | Some h \<Rightarrow> owner_does StopHost (s\<lparr>ow_host := Some (host_stop h)\<rparr>))"

definition finish_spawn ::
  "owner_config \<Rightarrow> (bool \<times> session_metadata option) list \<Rightarrow> session_owner \<Rightarrow> (owner_error + unit) \<times> session_owner" where
  "finish_spawn cfg polls s =
     (case bind_state (wait_for_spawned_metadata polls s)
         (\<lambda>found s1. case found of
            None \<Rightarrow> (Inl (connection_failed (''Runtime session '' @ oc_session_name cfg
                @ '' reported READY but its metadata is unreachable.'')), s1)
          | Some md \<Rightarrow> attach_to cfg md s1) of
        (Inl e, s1) \<Rightarrow> (Inl e, (owner_stop s1)\<lparr>ow_host := None, ow_spawned := False\<rparr>)
      | (Inr u, s1) \<Rightarrow> (Inr (), s1))"

text \<open>One turn: \<open>None\<close> where the loop goes round again.\<close>

definition after_start ::
  "owner_config \<Rightarrow> connect_round \<Rightarrow> owner_error + unit \<Rightarrow> session_owner \<Rightarrow> (owner_error + unit) option \<times> session_owner" where
  "after_start cfg r started s1 =
     (case started of
        Inl (OtherRaised m) \<Rightarrow> (Some (Inl (OtherRaised m)), s1)
      | Inl e \<Rightarrow>
          (let s2 = s1\<lparr>ow_host := None\<rparr>
           in if \<not> is_name_contention e then (Some (Inl e), s2)
              else case probe_with_retry (cr_retry r) of
                  None \<Rightarrow> (Some (Inl e), s2)
                | Some md \<Rightarrow>
                    (case try_attach cfg md s2 of
                       (Inl f, s3) \<Rightarrow> (Some (Inl f), s3)
                     | (Inr True, s3) \<Rightarrow> (Some (Inr ()), s3)
                     | (Inr False, s3) \<Rightarrow> (None, s3)))
      | Inr u \<Rightarrow>
          (case finish_spawn cfg (cr_wait r) (s1\<lparr>ow_spawned := True\<rparr>) of (x, s2) \<Rightarrow> (Some x, s2)))"

definition spawn_session ::
  "(string \<Rightarrow> (string \<times> string \<times> string option) option) \<Rightarrow> owner_config \<Rightarrow> connect_round \<Rightarrow> session_owner
     \<Rightarrow> (owner_error + unit) option \<times> session_owner" where
  "spawn_session parse cfg r s =
     (let (started, h) = host_start parse (oc_session_name cfg) (cr_start r) process_host_init
      in after_start cfg r started
           (owner_does (if isl started then StartFailed (host_alive h) else StartHost) (s\<lparr>ow_host := Some h\<rparr>)))"

definition connect_turn ::
  "(string \<Rightarrow> (string \<times> string \<times> string option) option) \<Rightarrow> owner_config \<Rightarrow> bool \<Rightarrow> connect_round \<Rightarrow> session_owner
     \<Rightarrow> (owner_error + unit) option \<times> session_owner" where
  "connect_turn parse cfg skip_probe r s =
     (case (if skip_probe then None else cr_probe r) of
        None \<Rightarrow> spawn_session parse cfg r s
      | Some md \<Rightarrow>
          (case try_attach cfg md s of
             (Inl e, s1) \<Rightarrow> (Some (Inl e), s1)
           | (Inr True, s1) \<Rightarrow> (Some (Inr ()), s1)
           | (Inr False, s1) \<Rightarrow> spawn_session parse cfg r s1))"

text \<open>The loop over the turns that the world has answers for; \<open>None\<close> where it is still going round.\<close>

fun connect_loop ::
  "(string \<Rightarrow> (string \<times> string \<times> string option) option) \<Rightarrow> owner_config \<Rightarrow> bool \<Rightarrow> connect_round list \<Rightarrow> session_owner
     \<Rightarrow> (owner_error + unit) option \<times> session_owner" where
  "connect_loop parse cfg skip_probe [] s = (None, s)"
| "connect_loop parse cfg skip_probe (r # rs) s =
     (case connect_turn parse cfg skip_probe r s of
        (None, s1) \<Rightarrow> connect_loop parse cfg False rs s1
      | (Some x, s1) \<Rightarrow> (Some x, s1))"

definition owner_connect ::
  "(string \<Rightarrow> (string \<times> string \<times> string option) option) \<Rightarrow> owner_config \<Rightarrow> bool \<Rightarrow> connect_round list \<Rightarrow> session_owner
     \<Rightarrow> (owner_error + unit) option \<times> session_owner" where
  "owner_connect parse cfg replace rs s =
     connect_loop parse cfg replace rs (if replace then owner_does (StopSession None) s else s)"

definition stop_abandoned_spawn :: "session_metadata option \<Rightarrow> session_owner \<Rightarrow> session_owner" where
  "stop_abandoned_spawn probe s =
     (if ow_host s = None \<or> ow_spawned s \<or> ow_metadata s \<noteq> None then s
      else if probe \<noteq> None then s else owner_stop s)"

definition owner_is_alive :: "(int \<Rightarrow> bool) \<Rightarrow> session_owner \<Rightarrow> bool" where
  "owner_is_alive there s =
     (if ow_spawned s then (case ow_host s of None \<Rightarrow> False | Some h \<Rightarrow> host_alive h)
      else case Option.bind (ow_metadata s) md_pid of None \<Rightarrow> False | Some pid \<Rightarrow> pid > 0 \<and> there pid)"

definition owner_exited_cleanly :: "bool \<Rightarrow> session_owner \<Rightarrow> bool" where
  "owner_exited_cleanly shutdown_received s =
     (if ow_spawned s then (case ow_host s of None \<Rightarrow> False | Some h \<Rightarrow> host_exited_cleanly h) else shutdown_received)"

section \<open>How connecting ends\<close>

text \<open>
  A session is only stopped on request, or for a client of the same rig that needs more cameras; a child
  is only left running by a start that met a malformed error line, which is what \<open>bad\<close> allows.
\<close>

definition stop_justified :: "owner_config \<Rightarrow> bool \<times> bool \<Rightarrow> owner_action \<Rightarrow> bool" where
  "stop_justified cfg allow a =
     (case a of StopSession None \<Rightarrow> fst allow
      | StopSession (Some md) \<Rightarrow> md_digest md = Some (oc_digest cfg) \<and> needs_more_cameras cfg md
      | StartFailed alive \<Rightarrow> alive \<longrightarrow> snd allow
      | _ \<Rightarrow> True)"

definition unstopped :: "session_owner \<Rightarrow> int" where
  "unstopped s = int (count (mset (ow_actions s)) StartHost) - int (count (mset (ow_actions s)) StopHost)"

definition idle_owner :: "owner_config \<Rightarrow> bool \<times> bool \<Rightarrow> session_owner \<Rightarrow> bool" where
  "idle_owner cfg allow s \<longleftrightarrow> ow_host s = None \<and> ow_metadata s = None \<and> \<not> ow_spawned s \<and> unstopped s = 0
     \<and> list_all (stop_justified cfg allow) (ow_actions s)"

definition attached_owner :: "owner_config \<Rightarrow> bool \<times> bool \<Rightarrow> session_owner \<Rightarrow> bool" where
  "attached_owner cfg allow s \<longleftrightarrow>
     (\<exists>md. ow_metadata s = Some md \<and> last (ow_actions s) = AttachTo md \<and> md_digest md = Some (oc_digest cfg)
        \<and> client_accepts md
        \<and> (if ow_spawned s then (\<exists>h. ow_host s = Some h \<and> host_alive h)
           else ow_host s = None \<and> \<not> needs_more_cameras cfg md))
     \<and> unstopped s = (if ow_spawned s then 1 else 0) \<and> list_all (stop_justified cfg allow) (ow_actions s)"

definition failed_owner :: "owner_config \<Rightarrow> bool \<times> bool \<Rightarrow> session_owner \<Rightarrow> bool" where
  "failed_owner cfg allow s \<longleftrightarrow> ow_metadata s = None \<and> \<not> ow_spawned s
     \<and> (\<forall>h. ow_host s = Some h \<longrightarrow> \<not> host_alive h) \<and> unstopped s = 0 \<and> list_all (stop_justified cfg allow) (ow_actions s)"

definition camera_stops :: "session_owner \<Rightarrow> nat" where
  "camera_stops s = length (filter (\<lambda>a. case a of StopSession (Some md) \<Rightarrow> True | _ \<Rightarrow> False) (ow_actions s))"

lemma idle_is_failed: "idle_owner cfg allow s \<Longrightarrow> failed_owner cfg allow s"
  by (simp add: idle_owner_def failed_owner_def)

lemma attach_to_cases:
  assumes "attach_to cfg md s = (x, t)"
  shows "(\<exists>e. x = Inl e \<and> t = s) \<or>
    (x = Inr () \<and> md_digest md = Some (oc_digest cfg) \<and> client_accepts md \<and> t = (owner_does (AttachTo md) s)\<lparr>ow_metadata := Some md\<rparr>)"
  using assms by (auto simp: attach_to_def reject_if_different_rig_def split: if_splits)

lemma try_attach_cases:
  assumes "try_attach cfg md s = (x, t)" and "idle_owner cfg allow s"
  shows "(\<exists>e. x = Inl e \<and> t = s) \<or> (x = Inr True \<and> attached_owner cfg allow t)
    \<or> (x = Inr False \<and> idle_owner cfg allow t \<and> camera_stops t = Suc (camera_stops s))"
proof (cases "md_digest md = Some (oc_digest cfg)")
  case False
  with assms(1) show ?thesis by (auto simp: try_attach_def reject_if_different_rig_def)
next
  case same: True
  show ?thesis
  proof (cases "needs_more_cameras cfg md")
    case True
    with same assms show ?thesis
      by (auto simp: try_attach_def reject_if_different_rig_def owner_does_def idle_owner_def stop_justified_def camera_stops_def unstopped_def)
  next
    case False
    obtain y u where a: "attach_to cfg md s = (y, u)" by fastforce
    with False same assms(1) have x: "(x, t) = bind_state (y, u) (\<lambda>v s1. (Inr True, s1))"
      by (simp add: try_attach_def reject_if_different_rig_def)
    from attach_to_cases [OF a] x False assms(2) show ?thesis
      by (auto simp: owner_does_def idle_owner_def attached_owner_def stop_justified_def unstopped_def)
  qed
qed

lemma wait_keeps:
  assumes "wait_for_spawned_metadata polls s = (x, t)" and "ow_host s = Some h"
  shows "(\<exists>g. ow_host t = Some g) \<and> ow_metadata t = ow_metadata s \<and> ow_spawned t = ow_spawned s
    \<and> ow_actions t = ow_actions s \<and> ((\<exists>md. x = Inr (Some md)) \<longrightarrow> (\<exists>g. ow_host t = Some g \<and> host_alive g))"
  using assms
proof (induction polls s arbitrary: h rule: wait_for_spawned_metadata.induct)
  case (2 dies probe polls s)
  define s1 where "s1 = (if dies then s\<lparr>ow_host := map_option (\<lambda>h. h\<lparr>ph_proc := map_option (\<lambda>c. Exited 1) (ph_proc h)\<rparr>) (ow_host s)\<rparr> else s)"
  have k: "ow_metadata s1 = ow_metadata s" "ow_spawned s1 = ow_spawned s" "ow_actions s1 = ow_actions s"
    by (simp_all add: s1_def)
  obtain g where g: "ow_host s1 = Some g" using "2.prems"(2) by (cases dies) (auto simp: s1_def)
  show ?case
  proof (cases "host_alive g \<and> probe = None")
    case True
    with "2.prems"(1) g have w: "wait_for_spawned_metadata polls s1 = (x, t)" by (simp add: s1_def [symmetric] Let_def)
    from "2.IH"(2) [OF s1_def g _ _ w g] True k show ?thesis by auto
  next
    case False
    with "2.prems"(1) g k show ?thesis
      by (auto simp: s1_def [symmetric] Let_def split: option.splits if_splits)
  qed
qed auto

definition malformed_start :: "(string \<Rightarrow> (string \<times> string \<times> string option) option) \<Rightarrow> start_answers \<Rightarrow> bool" where
  "malformed_start parse a \<longleftrightarrow>
     (case sa_line a of None \<Rightarrow> False
      | Some line \<Rightarrow> starts_with ''ERROR:'' line \<and> parse (remove_prefix ''ERROR:'' line) = None)"

lemma host_start_ok:
  assumes "host_start parse name a process_host_init = (x, h)"
  shows "(\<exists>e. x = Inl e \<and> (host_alive h \<longrightarrow> malformed_start parse a \<and> (\<exists>b. e = AppRaised b))) \<or> x = Inr ()"
  using assms
  by (auto simp: host_start_def process_host_init_def host_stop_def host_alive_def malformed_start_def error_from_line_def
      connection_failed_def Let_def split: option.splits if_splits sum.splits)

lemma finish_spawn_cases:
  assumes "finish_spawn cfg polls s = (x, t)" and "ow_host s = Some h" and "ow_metadata s = None" and "ow_spawned s" and "unstopped s = 1"
    and "list_all (stop_justified cfg allow) (ow_actions s)"
  shows "(\<exists>e. x = Inl e \<and> failed_owner cfg allow t) \<or> (x = Inr () \<and> attached_owner cfg allow t)"
proof -
  obtain y s1 where w: "wait_for_spawned_metadata polls s = (y, s1)" by fastforce
  from wait_keeps [OF w assms(2)] assms(3-6) obtain g where k: "ow_host s1 = Some g" "ow_metadata s1 = None" "ow_spawned s1"
    "unstopped s1 = 1" "list_all (stop_justified cfg allow) (ow_actions s1)" "(\<exists>md. y = Inr (Some md)) \<longrightarrow> host_alive g"
    by (auto simp: unstopped_def)
  have stopped: "failed_owner cfg allow ((owner_stop s1)\<lparr>ow_host := None, ow_spawned := False\<rparr>)"
    using k by (simp add: failed_owner_def owner_stop_def owner_does_def stop_justified_def unstopped_def)
  show ?thesis
  proof (cases "\<exists>md. y = Inr (Some md)")
    case True
    then obtain md where y: "y = Inr (Some md)" by blast
    obtain z u where a: "attach_to cfg md s1 = (z, u)" by fastforce
    from attach_to_cases [OF a] show ?thesis
    proof
      assume "\<exists>e. z = Inl e \<and> u = s1"
      with assms(1) w y a stopped show ?thesis by (auto simp: finish_spawn_def)
    next
      assume o: "z = Inr () \<and> md_digest md = Some (oc_digest cfg) \<and> client_accepts md \<and> u = (owner_does (AttachTo md) s1)\<lparr>ow_metadata := Some md\<rparr>"
      with assms(1) w y a k show ?thesis
        by (auto simp: finish_spawn_def attached_owner_def owner_does_def stop_justified_def unstopped_def)
    qed
  next
    case False
    then have "\<exists>e. bind_state (y, s1) (\<lambda>found s1. case found of
            None \<Rightarrow> (Inl (connection_failed (''Runtime session '' @ oc_session_name cfg
                @ '' reported READY but its metadata is unreachable.'')), s1)
          | Some md \<Rightarrow> attach_to cfg md s1) = (Inl e, s1)"
      by (cases y) (auto split: option.split)
    with assms(1) w stopped show ?thesis by (auto simp: finish_spawn_def)
  qed
qed

text \<open>What a turn may do: settle, or stop a session that lacks cameras and go round again.\<close>

definition turn_ok :: "owner_config \<Rightarrow> bool \<times> bool \<Rightarrow> nat \<Rightarrow> (owner_error + unit) option \<Rightarrow> session_owner \<Rightarrow> bool" where
  "turn_ok cfg allow n x t \<longleftrightarrow>
     (case x of None \<Rightarrow> idle_owner cfg allow t \<and> n < camera_stops t
      | Some (Inl e) \<Rightarrow> failed_owner cfg allow t
      | Some (Inr u) \<Rightarrow> attached_owner cfg allow t)"

lemma spawn_session_ok:
  assumes i: "idle_owner cfg allow s" and e: "spawn_session parse cfg r s = (x, t)"
    and bad: "malformed_start parse (cr_start r) \<longrightarrow> snd allow"
  shows "turn_ok cfg allow (camera_stops s) x t"
proof -
  obtain started h where h: "host_start parse (oc_session_name cfg) (cr_start r) process_host_init = (started, h)" by fastforce
  define s1 where "s1 = owner_does (if isl started then StartFailed (host_alive h) else StartHost) (s\<lparr>ow_host := Some h\<rparr>)"
  have sp: "after_start cfg r started s1 = (x, t)"
    using e by (simp only: spawn_session_def h Let_def prod.case s1_def)
  from host_start_ok [OF h] show ?thesis
  proof
    assume "\<exists>e. started = Inl e \<and> (host_alive h \<longrightarrow> malformed_start parse (cr_start r) \<and> (\<exists>b. e = AppRaised b))"
    then obtain err where st: "started = Inl err" "host_alive h \<longrightarrow> malformed_start parse (cr_start r) \<and> (\<exists>b. err = AppRaised b)"
      by blast
    have s1: "ow_host s1 = Some h" "ow_metadata s1 = None" "\<not> ow_spawned s1" "unstopped s1 = 0"
      "list_all (stop_justified cfg allow) (ow_actions s1)" "camera_stops s1 = camera_stops s"
      using i st bad by (auto simp: s1_def owner_does_def idle_owner_def stop_justified_def unstopped_def camera_stops_def)
    then have s2: "idle_owner cfg allow (s1\<lparr>ow_host := None\<rparr>)" "camera_stops (s1\<lparr>ow_host := None\<rparr>) = camera_stops s"
      by (simp_all add: idle_owner_def unstopped_def camera_stops_def)
    show ?thesis
    proof (cases "(\<exists>m. err = OtherRaised m) \<or> \<not> is_name_contention err \<or> probe_with_retry (cr_retry r) = None")
      case True
      with sp st s1 idle_is_failed [OF s2(1)] show ?thesis
        by (cases err) (auto simp: after_start_def Let_def turn_ok_def failed_owner_def split: if_splits option.splits)
    next
      case False
      then obtain md where md: "probe_with_retry (cr_retry r) = Some md" by blast
      obtain y u where a: "try_attach cfg md (s1\<lparr>ow_host := None\<rparr>) = (y, u)" by fastforce
      with False md sp st have xt: "(x, t) = (case (y, u) of (Inl f, s3) \<Rightarrow> (Some (Inl f), s3)
          | (Inr True, s3) \<Rightarrow> (Some (Inr ()), s3) | (Inr False, s3) \<Rightarrow> (None, s3))"
        by (cases err) (auto simp: after_start_def Let_def is_name_contention_def)
      from try_attach_cases [OF a s2(1)] xt s2 idle_is_failed [OF s2(1)] show ?thesis
        by (auto simp: turn_ok_def)
    qed
  next
    assume st: "started = Inr ()"
    obtain y u where f: "finish_spawn cfg (cr_wait r) (s1\<lparr>ow_spawned := True\<rparr>) = (y, u)" by fastforce
    with sp st have "x = Some y" "t = u" by (auto simp: after_start_def)
    moreover have "(\<exists>e. y = Inl e \<and> failed_owner cfg allow u) \<or> (y = Inr () \<and> attached_owner cfg allow u)"
      by (rule finish_spawn_cases [OF f])
         (use i st in \<open>simp_all add: s1_def owner_does_def idle_owner_def stop_justified_def unstopped_def\<close>)
    ultimately show ?thesis by (auto simp: turn_ok_def)
  qed
qed

lemma connect_turn_ok:
  assumes i: "idle_owner cfg allow s" and e: "connect_turn parse cfg skip r s = (x, t)"
    and bad: "malformed_start parse (cr_start r) \<longrightarrow> snd allow"
  shows "turn_ok cfg allow (camera_stops s) x t"
proof (cases "if skip then None else cr_probe r")
  case None
  with e have "spawn_session parse cfg r s = (x, t)" unfolding connect_turn_def None by simp
  then show ?thesis by (rule spawn_session_ok [OF i _ bad])
next
  case (Some md)
  obtain y u where a: "try_attach cfg md s = (y, u)" by fastforce
  from try_attach_cases [OF a i] show ?thesis
  proof (elim disjE exE conjE)
    fix err
    assume "y = Inl err" "u = s"
    with e a idle_is_failed [OF i] show ?thesis unfolding connect_turn_def Some by (auto simp: turn_ok_def)
  next
    assume "y = Inr True" "attached_owner cfg allow u"
    with e a show ?thesis unfolding connect_turn_def Some by (auto simp: turn_ok_def)
  next
    assume c: "y = Inr False" "idle_owner cfg allow u" "camera_stops u = Suc (camera_stops s)"
    with e a have "spawn_session parse cfg r u = (x, t)" unfolding connect_turn_def Some by simp
    from spawn_session_ok [OF c(2) this bad] c(3) show ?thesis
      by (auto simp: turn_ok_def split: option.splits)
  qed
qed

lemma connect_loop_ok:
  "idle_owner cfg allow s \<Longrightarrow> connect_loop parse cfg skip rs s = (x, t) \<Longrightarrow>
   \<forall>r\<in>set rs. malformed_start parse (cr_start r) \<longrightarrow> snd allow \<Longrightarrow>
   (case x of None \<Rightarrow> camera_stops s + length rs \<le> camera_stops t \<and> idle_owner cfg allow t
    | Some (Inl e) \<Rightarrow> failed_owner cfg allow t
    | Some (Inr u) \<Rightarrow> attached_owner cfg allow t)"
proof (induction rs arbitrary: s skip)
  case Nil
  then show ?case by auto
next
  case (Cons r rs)
  obtain y u where c: "connect_turn parse cfg skip r s = (y, u)" by fastforce
  from Cons.prems(3) connect_turn_ok [OF Cons.prems(1) c] have ok: "turn_ok cfg allow (camera_stops s) y u" by simp
  show ?case
  proof (cases y)
    case None
    with c Cons.prems(2) have "connect_loop parse cfg False rs u = (x, t)" by simp
    from Cons.IH [OF _ this] Cons.prems(3) ok None show ?thesis by (auto simp: turn_ok_def split: option.splits sum.splits)
  next
    case (Some z)
    with c Cons.prems(2) ok show ?thesis by (auto simp: turn_ok_def split: sum.splits)
  qed
qed

text \<open>C9: connecting to the session of a robot, whatever probes, children and rival owners do in each turn
  of its loop, ends in one of two ways. Either the owner is attached to a session of exactly its rig
  (same digest, a usable instance id), which has every camera the client needs unless the owner started it
  itself, and then its child is running; or it raised, holds no session and counts as not spawned. Every
  child whose start returned was stopped again, the one it is attached to apart; one whose start failed
  was left running only by a malformed error line. Every turn that goes round again has stopped a session
  of the same rig for lack of cameras. A session of another rig is never stopped, unless the caller asked
  to replace it.\<close>

theorem connect_outcome:
  assumes "owner_connect parse cfg replace rs owner_init = (x, t)"
  shows "(case x of
       None \<Rightarrow> length rs \<le> camera_stops t
     | Some (Inl e) \<Rightarrow> ow_metadata t = None \<and> \<not> ow_spawned t \<and> (\<forall>h. ow_host t = Some h \<longrightarrow> \<not> host_alive h)
     | Some (Inr u) \<Rightarrow> \<exists>md. ow_metadata t = Some md \<and> last (ow_actions t) = AttachTo md \<and> md_digest md = Some (oc_digest cfg)
         \<and> client_accepts md
         \<and> (if ow_spawned t then \<exists>h. ow_host t = Some h \<and> host_alive h
            else ow_host t = None \<and> \<not> needs_more_cameras cfg md))
    \<and> int (count (mset (ow_actions t)) StartHost)
       = int (count (mset (ow_actions t)) StopHost) + (if ow_spawned t then 1 else 0)
    \<and> (StartFailed True \<in> set (ow_actions t) \<longrightarrow> (\<exists>r\<in>set rs. malformed_start parse (cr_start r)))
    \<and> (\<forall>md. StopSession (Some md) \<in> set (ow_actions t) \<longrightarrow> md_digest md = Some (oc_digest cfg) \<and> needs_more_cameras cfg md)
    \<and> (StopSession None \<in> set (ow_actions t) \<longrightarrow> replace)"
proof -
  define allow where "allow = (replace, \<exists>r\<in>set rs. malformed_start parse (cr_start r))"
  define s where "s = (if replace then owner_does (StopSession None) owner_init else owner_init)"
  have i: "idle_owner cfg allow s"
    by (simp add: s_def idle_owner_def owner_does_def owner_init_def stop_justified_def allow_def unstopped_def)
  have ok: "case x of None \<Rightarrow> camera_stops s + length rs \<le> camera_stops t \<and> idle_owner cfg allow t
    | Some (Inl e) \<Rightarrow> failed_owner cfg allow t | Some (Inr u) \<Rightarrow> attached_owner cfg allow t"
    using assms by (intro connect_loop_ok [OF i]) (auto simp: owner_connect_def s_def allow_def)
  then have j: "list_all (stop_justified cfg allow) (ow_actions t)" and u: "unstopped t = (if ow_spawned t then 1 else 0)"
    by (auto simp: idle_owner_def failed_owner_def attached_owner_def split: option.splits sum.splits)
  have "case x of
       None \<Rightarrow> length rs \<le> camera_stops t
     | Some (Inl e) \<Rightarrow> ow_metadata t = None \<and> \<not> ow_spawned t \<and> (\<forall>h. ow_host t = Some h \<longrightarrow> \<not> host_alive h)
     | Some (Inr u) \<Rightarrow> \<exists>md. ow_metadata t = Some md \<and> last (ow_actions t) = AttachTo md \<and> md_digest md = Some (oc_digest cfg)
         \<and> client_accepts md
         \<and> (if ow_spawned t then \<exists>h. ow_host t = Some h \<and> host_alive h
            else ow_host t = None \<and> \<not> needs_more_cameras cfg md)"
    using ok by (auto simp: failed_owner_def attached_owner_def split: option.splits sum.splits)
  moreover have "int (count (mset (ow_actions t)) StartHost)
       = int (count (mset (ow_actions t)) StopHost) + (if ow_spawned t then 1 else 0)"
    using u by (simp add: unstopped_def)
  moreover have "\<exists>r\<in>set rs. malformed_start parse (cr_start r)" if "StartFailed True \<in> set (ow_actions t)"
    using j that unfolding list_all_iff by (auto simp: stop_justified_def allow_def)
  moreover have "md_digest md = Some (oc_digest cfg) \<and> needs_more_cameras cfg md" if "StopSession (Some md) \<in> set (ow_actions t)" for md
    using j that unfolding list_all_iff by (auto simp: stop_justified_def)
  moreover have "replace" if "StopSession None \<in> set (ow_actions t)"
    using j that unfolding list_all_iff by (auto simp: stop_justified_def allow_def)
  ultimately show ?thesis by blast
qed

text \<open>
  A child that sends a malformed error line makes the start raise before it stops the child: the owner
  forgets a process that may still run.
\<close>

lemma malformed_error_leaks_child:
  assumes "parse ''x'' = None"
  shows "ow_actions (snd (spawn_session parse cfg
      \<lparr>cr_probe = None, cr_start = \<lparr>sa_popen_error = None, sa_write_ok = True, sa_stop_at_write = False,
         sa_line = Some ''ERROR:x'', sa_stop_at_line = False\<rparr>, cr_retry = [], cr_wait = []\<rparr> owner_init)) = [StartFailed True]"
  using assms
  by (simp add: spawn_session_def after_start_def host_start_def process_host_init_def error_from_line_def starts_with_def remove_prefix_def
      owner_does_def owner_init_def host_alive_def is_name_contention_def Let_def)

text \<open>A live session lacks the camera, its replacement is started by a rival first, and that one serves.\<close>

definition demo_owner :: owner_config where
  "demo_owner = \<lparr>oc_session_name = ''rt-1'', oc_digest = ''d'', oc_cameras = [''top''], oc_follower_name = None\<rparr>"

definition demo_metadata :: "string list \<Rightarrow> session_metadata" where
  "demo_metadata ks = \<lparr>md_instance = Some (Inr ''i''), md_digest = Some ''d'', md_cameras = Some ks, md_pid = Some 4\<rparr>"

definition demo_round :: connect_round where
  "demo_round = \<lparr>cr_probe = Some (demo_metadata []),
     cr_start = \<lparr>sa_popen_error = None, sa_write_ok = True, sa_stop_at_write = False, sa_line = Some ''ERROR:x'', sa_stop_at_line = False\<rparr>,
     cr_retry = [None, Some (demo_metadata [''top''])], cr_wait = []\<rparr>"

definition demo_parse :: "string \<Rightarrow> (string \<times> string \<times> string option) option" where
  "demo_parse s = Some (''held'', ''runtime_session_busy'', Some ''name_lock_contention'')"

theorem connect_outcome_witness:
  "ow_metadata (snd (owner_connect demo_parse demo_owner False [demo_round] owner_init)) = Some (demo_metadata [''top''])
   \<and> \<not> needs_more_cameras demo_owner (demo_metadata [''top''])
   \<and> needs_more_cameras demo_owner (demo_metadata [])"
proof -
  define t where "t = snd (owner_connect demo_parse demo_owner False [demo_round] owner_init)"
  have v: "fst (owner_connect demo_parse demo_owner False [demo_round] owner_init) = Some (Inr ())"
    "ow_metadata t = Some (demo_metadata [''top''])" "\<not> ow_spawned t"
    "StopSession (Some (demo_metadata [])) \<in> set (ow_actions t)"
    unfolding t_def by code_simp+
  then have "owner_connect demo_parse demo_owner False [demo_round] owner_init = (Some (Inr ()), t)"
    unfolding t_def by (simp add: prod_eq_iff)
  from connect_outcome [OF this] v show ?thesis unfolding t_def [symmetric] by auto
qed

end
