(* ===== verification/RuntimeLink.thy ===== *)
theory RuntimeLink
  imports RuntimeContract "HOL-Library.Multiset"
begin

text \<open>
  The two ends of a session's transport: the client of \<^verbatim>\<open>runtime/transport/client.py\<close> and the server
  of \<^verbatim>\<open>runtime/transport/server.py\<close>; and the worker process around the session,
  \<^verbatim>\<open>runtime/hosts/session_worker.py\<close>. The Zenoh session is not under the repository: publishing
  appends to a log, and what arrives is an argument. \<open>attach\<close> runs beside the threads that send
  commands and receive events, so it is split where they may come between.
\<close>

section \<open>The client\<close>

text \<open>Where \<open>attach\<close> stands; each constructor names what the next step does.\<close>

datatype attach_pc = ClearState | DrainEvents | MarkReady | FlushPending

record link_client =
  lc_instance :: "string option"
  lc_metadata_ready :: bool
  lc_hardware_ready :: bool
  lc_shutdown_received :: bool
  lc_pending :: "command list"
  lc_published :: "(string option \<times> command) list"
  lc_events :: "runtime_event list"
  lc_last_state :: "StateData option"
  lc_error :: "(string \<times> string) option"
  lc_attach :: "attach_pc option"

definition link_client_init :: "string option \<Rightarrow> link_client" where
  "link_client_init inst = \<lparr>lc_instance = inst, lc_metadata_ready = False, lc_hardware_ready = False,
     lc_shutdown_received = False, lc_pending = [], lc_published = [], lc_events = [], lc_last_state = None,
     lc_error = None, lc_attach = None\<rparr>"

text \<open>\<open>probe\<close> returns the first reply that carries metadata of the instance this client wants.\<close>

fun client_probe :: "string option \<Rightarrow> (string option \<times> 'm) option list \<Rightarrow> 'm option" where
  "client_probe inst [] = None"
| "client_probe inst (r # rs) =
     (case r of
        None \<Rightarrow> client_probe inst rs
      | Some (i, md) \<Rightarrow> if inst \<noteq> None \<and> i \<noteq> inst then client_probe inst rs else Some md)"

text \<open>The instance id of the metadata, checked; \<open>Some ''''\<close> is refused.\<close>

definition attach_begin :: "string option \<Rightarrow> link_client \<Rightarrow> link_client" where
  "attach_begin inst c =
     (if lc_attach c \<noteq> None \<or> inst = Some '''' then c else c\<lparr>lc_instance := inst, lc_attach := Some ClearState\<rparr>)"

definition attach_step :: "link_client \<Rightarrow> link_client" where
  "attach_step c =
     (case lc_attach c of
        None \<Rightarrow> c
      | Some ClearState \<Rightarrow> c\<lparr>lc_hardware_ready := False, lc_last_state := None, lc_error := None,
          lc_shutdown_received := False, lc_attach := Some DrainEvents\<rparr>
      | Some DrainEvents \<Rightarrow> c\<lparr>lc_events := [], lc_attach := Some MarkReady\<rparr>
      | Some MarkReady \<Rightarrow> c\<lparr>lc_metadata_ready := True, lc_attach := Some FlushPending\<rparr>
      | Some FlushPending \<Rightarrow> c\<lparr>lc_published := lc_published c @ map (\<lambda>x. (lc_instance c, x)) (lc_pending c),
          lc_pending := [], lc_attach := None\<rparr>)"

definition client_apply :: "command \<Rightarrow> link_client \<Rightarrow> link_client" where
  "client_apply x c =
     (if \<not> lc_metadata_ready c then c\<lparr>lc_pending := lc_pending c @ [x]\<rparr>
      else c\<lparr>lc_published := lc_published c @ [(lc_instance c, x)]\<rparr>)"

definition client_deliver :: "runtime_event \<Rightarrow> link_client \<Rightarrow> link_client" where
  "client_deliver e c = c\<lparr>lc_events := sink_emit e (lc_events c)\<rparr>"

definition accept_ready_state :: "StateData \<Rightarrow> bool \<Rightarrow> link_client \<Rightarrow> link_client" where
  "accept_ready_state d initial_only c =
     (if Some d = lc_last_state c then c
      else if lc_hardware_ready c then
        (if initial_only then c else (client_deliver (StateEvent d) c)\<lparr>lc_last_state := Some d\<rparr>)
      else (client_deliver (StateEvent d) c)\<lparr>lc_last_state := Some d, lc_hardware_ready := True\<rparr>)"

definition event_failure :: "runtime_event \<Rightarrow> string \<times> string" where
  "event_failure e = (case e of ErrorEvent msg code \<Rightarrow> (msg, code) | _ \<Rightarrow> (''Runtime session failed'', ''robot_connection_failed''))"

text \<open>A sample that decoded to an event, its fatal mark and its instance.\<close>

definition receive_event :: "runtime_event \<Rightarrow> bool \<Rightarrow> string option \<Rightarrow> link_client \<Rightarrow> link_client" where
  "receive_event e fatal inst c =
     (if \<not> lc_metadata_ready c then c
      else if lc_instance c \<noteq> None \<and> inst \<noteq> lc_instance c then c
      else if fatal then c\<lparr>lc_error := Some (event_failure e)\<rparr>
      else case e of
          StateEvent d \<Rightarrow> if connected d then accept_ready_state d False c else client_deliver e c
        | LifecycleEvent ev reason \<Rightarrow>
            client_deliver e (if ev = ''shutdown'' then c\<lparr>lc_shutdown_received := True\<rparr> else c)
        | _ \<Rightarrow> client_deliver e c)"

text \<open>A metadata reply with its instance, status and state.\<close>

definition recover_ready_state :: "(string option \<times> string \<times> StateData option) option list \<Rightarrow> link_client \<Rightarrow> link_client" where
  "recover_ready_state replies c =
     (case find (\<lambda>r. case r of None \<Rightarrow> False
          | Some (inst, status, st) \<Rightarrow> (lc_instance c = None \<or> inst = lc_instance c) \<and> status = ''running'' \<and> st \<noteq> None) replies of
        Some (Some (inst, status, Some d)) \<Rightarrow> accept_ready_state d True c
      | _ \<Rightarrow> c)"

text \<open>\<open>request\<close> reads the first decodable reply of its instance: it must be the acknowledgement asked for.\<close>

fun client_request :: "string option \<Rightarrow> string \<Rightarrow> (runtime_event \<times> string option) option list \<Rightarrow> string + AckData" where
  "client_request inst rid [] = Inl ''Runtime request received no reply''"
| "client_request inst rid (r # rs) =
     (case r of
        None \<Rightarrow> client_request inst rid rs
      | Some (e, i) \<Rightarrow>
          if i \<noteq> inst then client_request inst rid rs
          else case e of
              AckEvent a \<Rightarrow> if ack_request_id a \<noteq> rid
                then Inl ''Runtime acknowledgement request_id does not match the request'' else Inr a
            | _ \<Rightarrow> Inl ''Expected an ack reply'')"

datatype link_event =
    AttachBegins "string option"
  | AttachSteps
  | Applies command
  | Receives runtime_event bool "string option"
  | Recovers "(string option \<times> string \<times> StateData option) option list"
  | Delivers runtime_event
  | GetsEvent

fun link_step :: "link_client \<Rightarrow> link_event \<Rightarrow> link_client" where
  "link_step c (AttachBegins inst) = attach_begin inst c"
| "link_step c AttachSteps = attach_step c"
| "link_step c (Applies x) = client_apply x c"
| "link_step c (Receives e fatal inst) = receive_event e fatal inst c"
| "link_step c (Recovers replies) = recover_ready_state replies c"
| "link_step c (Delivers e) = client_deliver e c"
| "link_step c GetsEvent = c\<lparr>lc_events := snd (sink_get_nowait (lc_events c))\<rparr>"

section \<open>The server\<close>

record link_server =
  ls_instance :: string
  ls_status :: string
  ls_state :: "StateData option"
  ls_error :: "runtime_event option"
  ls_published :: "(runtime_event \<times> bool) list"
  ls_handled :: "command list"


text \<open>There is a publisher for every event but an acknowledgement.\<close>

definition server_emit :: "runtime_event \<Rightarrow> bool \<Rightarrow> link_server \<Rightarrow> link_server" where
  "server_emit e fatal s =
     (let s1 = (case e of
          StateEvent d \<Rightarrow> if connected d then s\<lparr>ls_status := ''running'', ls_state := Some d\<rparr>
                          else if fatal then s\<lparr>ls_status := ''error'', ls_error := Some e\<rparr> else s
        | LifecycleEvent ev reason \<Rightarrow> if ev = ''shutdown'' then s\<lparr>ls_status := ''stopped''\<rparr>
                          else if fatal then s\<lparr>ls_status := ''error'', ls_error := Some e\<rparr> else s
        | _ \<Rightarrow> if fatal then s\<lparr>ls_status := ''error'', ls_error := Some e\<rparr> else s)
      in case e of AckEvent a \<Rightarrow> s1 | _ \<Rightarrow> s1\<lparr>ls_published := ls_published s1 @ [(e, fatal)]\<rparr>)"


text \<open>A request: \<open>answer\<close> is the exception its handler raised, if any; \<open>Inl\<close> is an error reply.\<close>

definition answer_request ::
  "command \<Rightarrow> string option \<Rightarrow> string option \<Rightarrow> string option \<Rightarrow> link_server \<Rightarrow> (string + AckData) \<times> link_server" where
  "answer_request x rid inst answer s =
     (if inst \<noteq> Some (ls_instance s) then (Inl ''Runtime request targets a different instance'', s)
      else case rid of
          None \<Rightarrow> (Inl ''Runtime request has no request_id'', s)
        | Some r \<Rightarrow>
            (Inr (case answer of
                Some e \<Rightarrow> \<lparr>ack_request_id = r, ack_ok = False, ack_error = Some e\<rparr>
              | None \<Rightarrow> \<lparr>ack_request_id = r, ack_ok = True, ack_error = None\<rparr>),
             s\<lparr>ls_handled := ls_handled s @ [x]\<rparr>))"

section \<open>Commands are neither lost nor doubled\<close>


definition sent :: "link_client \<Rightarrow> command list" where
  "sent c = map snd (lc_published c)"


















text \<open>
  A command applied between the ready mark and the flush is sent before the ones that wait, although
  \<open>apply\<close> says it queues until the attach has flushed.
\<close>

lemma late_command_overtakes:
  "sent (foldl link_step (link_client_init None)
     [Applies (LoadDataset ''d''), AttachBegins (Some ''i''), AttachSteps, AttachSteps, AttachSteps,
      Applies (SetFollowerSource Teleop), AttachSteps])
   = [SetFollowerSource Teleop, LoadDataset ''d'']"
  by code_simp

end
