(* ===== verification/RuntimeWorker.thy ===== *)
theory RuntimeWorker
  imports RuntimeContract
begin

text \<open>
  The process around a session, \<^verbatim>\<open>runtime/hosts/session_worker.py\<close>: the watch over subscribers
  and the worker's life from its start payload to its exit code. Clock readings, the transport's
  answers and the exceptions of the session's calls are arguments.
\<close>

section \<open>The subscriber watch\<close>

datatype watch_output = PublishAttached | PublishIdle real | ApplyHold | FinalizeRecording | EmitShutdown

record watcher =
  w_present :: bool
  w_idle_since :: "real option"
  w_published :: bool
  w_outputs :: "watch_output list"
  w_stopped :: bool

definition watcher_init :: watcher where
  "watcher_init = \<lparr>w_present = True, w_idle_since = None, w_published = True, w_outputs = [], w_stopped = False\<rparr>"

text \<open>A poll: whether a subscriber matches, the two clocks, and the second look at the deadline.\<close>

record watch_poll =
  wp_matching :: bool
  wp_now :: real
  wp_wall :: real
  wp_matching_again :: bool

definition watch_says :: "watch_output list \<Rightarrow> watcher \<Rightarrow> watcher" where
  "watch_says os w = w\<lparr>w_outputs := w_outputs w @ os\<rparr>"

definition watch_step :: "real \<Rightarrow> watcher \<Rightarrow> watch_poll \<Rightarrow> watcher" where
  "watch_step timeout w p =
     (if w_stopped w then w
      else if wp_matching p then
        (let w1 = (if w_published w then w else (watch_says [PublishAttached] w)\<lparr>w_published := True\<rparr>)
         in w1\<lparr>w_present := True, w_idle_since := None\<rparr>)
      else
        let w1 = (if w_present w then (watch_says [ApplyHold, FinalizeRecording] w)\<lparr>w_present := False\<rparr> else w)
        in case w_idle_since w1 of
             None \<Rightarrow>
               let w2 = w1\<lparr>w_idle_since := Some (wp_now p)\<rparr>
               in if w_published w2 then (watch_says [PublishIdle (wp_wall p + timeout)] w2)\<lparr>w_published := False\<rparr> else w2
           | Some since \<Rightarrow>
               if wp_now p - since > timeout then
                 (if wp_matching_again p then w1\<lparr>w_idle_since := None\<rparr>
                  else (watch_says [EmitShutdown] w1)\<lparr>w_stopped := True\<rparr>)
               else w1)"

section \<open>The worker process\<close>

text \<open>Where a start can fail, with the phase that the handshake reports.\<close>

datatype start_failure = BadPayload | LockHeld | EndpointTaken | NoClient | SetupRaises

definition failure_phase :: "start_failure \<Rightarrow> string" where
  "failure_phase f = (case f of BadPayload \<Rightarrow> ''invalid_config'' | LockHeld \<Rightarrow> ''name_lock_contention''
     | EndpointTaken \<Rightarrow> ''endpoint_collision'' | NoClient \<Rightarrow> ''endpoint_collision'' | SetupRaises \<Rightarrow> ''setup_failed'')"

text \<open>What the process holds, and what its parent and its clients saw.\<close>

record worker_process =
  wo_lock_held :: bool
  wo_server_open :: bool
  wo_session_made :: bool
  wo_devices_released :: bool
  wo_watching :: bool
  wo_handshake :: "string option"
  wo_fatal_published :: bool

definition worker_process_init :: worker_process where
  "worker_process_init = \<lparr>wo_lock_held = False, wo_server_open = False, wo_session_made = False, wo_devices_released = False,
     wo_watching = False, wo_handshake = None, wo_fatal_published = False\<rparr>"

text \<open>\<open>_open_locked_session\<close>: what is held at the point where it raises stays held.\<close>

definition open_locked_session :: "start_failure option \<Rightarrow> worker_process \<Rightarrow> (start_failure + unit) \<times> worker_process" where
  "open_locked_session failure w =
     (if failure = Some LockHeld then (Inl LockHeld, w)
      else
        let w1 = w\<lparr>wo_lock_held := True, wo_session_made := True\<rparr>
        in if failure = Some EndpointTaken then (Inl EndpointTaken, w1)
           else
             let w2 = w1\<lparr>wo_server_open := True\<rparr>
             in if failure = Some NoClient then (Inl NoClient, w2)
                else if failure = Some SetupRaises then (Inl SetupRaises, w2)
                else (Inr (), w2\<lparr>wo_watching := True\<rparr>))"

text \<open>\<open>_teardown\<close> of the session and the server its caller holds; whether either raised.\<close>

definition worker_teardown :: "bool \<Rightarrow> bool \<Rightarrow> bool \<Rightarrow> bool \<Rightarrow> bool \<Rightarrow> worker_process \<Rightarrow> bool \<times> worker_process" where
  "worker_teardown has_session has_server session_raises close_raises report_errors w =
     (let w1 = (if has_session then w\<lparr>wo_devices_released := \<not> session_raises,
            wo_fatal_published := wo_fatal_published w \<or> (session_raises \<and> report_errors \<and> has_server \<and> wo_server_open w)\<rparr> else w);
          w2 = (if has_server then w1\<lparr>wo_server_open := False\<rparr> else w1)
      in (has_session \<and> session_raises \<or> has_server \<and> close_raises, w2))"

text \<open>
  \<open>main\<close>. On a failing start the names \<open>lock\<close>, \<open>server\<close> and \<open>session\<close> are still unbound, whatever
  \<open>_open_locked_session\<close> had made: the teardown gets nothing and the lock is not released.
\<close>

definition worker_main :: "start_failure option \<Rightarrow> bool \<Rightarrow> bool \<Rightarrow> bool \<Rightarrow> int \<times> worker_process" where
  "worker_main failure run_raises session_raises close_raises =
     (case (if failure = Some BadPayload then (Inl BadPayload, worker_process_init)
            else open_locked_session failure worker_process_init) of
        (Inl f, w) \<Rightarrow>
          (1, snd (worker_teardown False False session_raises close_raises False
             (w\<lparr>wo_handshake := Some (''ERROR:'' @ failure_phase f)\<rparr>)))
      | (Inr u, w) \<Rightarrow>
          (let w1 = w\<lparr>wo_handshake := Some ''READY'', wo_fatal_published := run_raises\<rparr>;
               (failed, w2) = worker_teardown True True session_raises close_raises True w1
           in (if run_raises \<or> failed then 1 else 0, w2\<lparr>wo_lock_held := False\<rparr>)))"

text \<open>A served session exits with its lock released and its transport closed, with 0 exactly after a clean run.\<close>

lemma worker_main_served:
  "failure = None \<Longrightarrow> (case worker_main failure run_raises session_raises close_raises of (code, w) \<Rightarrow>
     \<not> wo_lock_held w \<and> \<not> wo_server_open w \<and> wo_handshake w = Some ''READY''
     \<and> (code = 0 \<longleftrightarrow> \<not> run_raises \<and> \<not> session_raises \<and> \<not> close_raises)
     \<and> (wo_fatal_published w \<longleftrightarrow> run_raises \<or> session_raises))"
  by (auto simp: worker_main_def open_locked_session_def worker_teardown_def Let_def worker_process_init_def)

text \<open>A start that fails after the transport opened leaves it open until the process is gone.\<close>

lemma failed_start_skips_teardown:
  assumes "f \<in> {NoClient, SetupRaises}"
  shows "fst (worker_main (Some f) r sr cr) = 1 \<and> wo_server_open (snd (worker_main (Some f) r sr cr))
    \<and> wo_lock_held (snd (worker_main (Some f) r sr cr)) \<and> \<not> wo_devices_released (snd (worker_main (Some f) r sr cr))"
  using assms by (auto simp: worker_main_def open_locked_session_def worker_teardown_def Let_def worker_process_init_def)

section \<open>When the watch latches and when it ends a session\<close>

definition is_latch :: "watch_output \<Rightarrow> bool" where
  "is_latch o1 \<longleftrightarrow> o1 = ApplyHold \<or> o1 = FinalizeRecording"

text \<open>How often the polls see the last subscriber gone; \<open>present\<close> says whether one was there before.\<close>

fun abandonments :: "bool \<Rightarrow> watch_poll list \<Rightarrow> nat" where
  "abandonments present [] = 0"
| "abandonments present (p # ps) = (if present \<and> \<not> wp_matching p then 1 else 0) + abandonments (wp_matching p) ps"

definition watch_run :: "real \<Rightarrow> watch_poll list \<Rightarrow> watcher" where
  "watch_run timeout ps = foldl (watch_step timeout) watcher_init ps"

lemma stopped_run: "w_stopped w \<Longrightarrow> foldl (watch_step timeout) w ps = w"
  by (induction ps) (simp_all add: watch_step_def)

lemma watch_step_latch:
  assumes "\<not> w_stopped w"
  shows "filter is_latch (w_outputs (watch_step timeout w p))
      = filter is_latch (w_outputs w) @ (if w_present w \<and> \<not> wp_matching p then [ApplyHold, FinalizeRecording] else [])
    \<and> w_present (watch_step timeout w p) = wp_matching p"
  using assms by (auto simp: watch_step_def watch_says_def is_latch_def Let_def split: option.split)

lemma run_latches:
  "\<not> w_stopped (foldl (watch_step timeout) w ps) \<Longrightarrow>
   filter is_latch (w_outputs (foldl (watch_step timeout) w ps))
   = filter is_latch (w_outputs w) @ concat (replicate (abandonments (w_present w) ps) [ApplyHold, FinalizeRecording])"
proof (induction ps arbitrary: w)
  case (Cons p ps)
  have "\<not> w_stopped w"
  proof
    assume "w_stopped w"
    with stopped_run [OF this, of timeout "p # ps"] Cons.prems show False by simp
  qed
  from watch_step_latch [OF this, of timeout p] Cons.IH [of "watch_step timeout w p"] Cons.prems show ?case by simp
qed simp

text \<open>The countdown began at a poll since which no poll saw a subscriber.\<close>

definition watch_inv :: "watch_poll list \<Rightarrow> watcher \<Rightarrow> bool" where
  "watch_inv ps w \<longleftrightarrow> EmitShutdown \<notin> set (w_outputs w)
     \<and> (w_present w \<longrightarrow> w_idle_since w = None)
     \<and> (\<forall>t. w_idle_since w = Some t \<longrightarrow>
          (\<exists>i<length ps. wp_now (ps ! i) = t \<and> (\<forall>k. i \<le> k \<and> k < length ps \<longrightarrow> \<not> wp_matching (ps ! k))))"

lemma countdown_goes_on:
  assumes "\<exists>i<length ps. wp_now (ps ! i) = t \<and> (\<forall>k. i \<le> k \<and> k < length ps \<longrightarrow> \<not> wp_matching (ps ! k))"
    and "\<not> wp_matching p"
  shows "\<exists>i<length (ps @ [p]). wp_now ((ps @ [p]) ! i) = t
    \<and> (\<forall>k. i \<le> k \<and> k < length (ps @ [p]) \<longrightarrow> \<not> wp_matching ((ps @ [p]) ! k))"
proof -
  obtain i where i: "i < length ps" "wp_now (ps ! i) = t" "\<forall>k. i \<le> k \<and> k < length ps \<longrightarrow> \<not> wp_matching (ps ! k)"
    using assms(1) by blast
  have "\<not> wp_matching ((ps @ [p]) ! k)" if "i \<le> k" "k < length (ps @ [p])" for k
  proof (cases "k = length ps")
    case True
    with assms(2) show ?thesis by simp
  next
    case False
    with that i(3) show ?thesis by (simp add: nth_append)
  qed
  with i(1,2) show ?thesis by (intro exI [of _ i]) (simp add: nth_append)
qed

lemma watch_inv_step:
  assumes i: "watch_inv ps w" and r: "\<not> w_stopped w" and r': "\<not> w_stopped (watch_step timeout w p)"
  shows "watch_inv (ps @ [p]) (watch_step timeout w p)"
proof (cases "wp_matching p")
  case True
  with i r show ?thesis by (auto simp: watch_inv_def watch_step_def watch_says_def Let_def)
next
  case False
  show ?thesis
  proof (cases "w_idle_since w")
    case None
    have "w_idle_since (watch_step timeout w p) = Some (wp_now p)" "\<not> w_present (watch_step timeout w p)"
      "EmitShutdown \<notin> set (w_outputs (watch_step timeout w p))"
      using i False None r by (auto simp: watch_inv_def watch_step_def watch_says_def Let_def)
    with False show ?thesis by (auto simp: watch_inv_def le_less_Suc_eq intro!: exI [of _ "length ps"])
  next
    case (Some t)
    have "w_idle_since (watch_step timeout w p) \<in> {None, Some t}" "\<not> w_present (watch_step timeout w p)"
      "EmitShutdown \<notin> set (w_outputs (watch_step timeout w p))"
      using i False Some r r' by (auto simp: watch_inv_def watch_step_def watch_says_def Let_def split: if_splits)
    moreover have "\<exists>i<length ps. wp_now (ps ! i) = t \<and> (\<forall>k. i \<le> k \<and> k < length ps \<longrightarrow> \<not> wp_matching (ps ! k))"
      using i Some by (simp add: watch_inv_def)
    note countdown_goes_on [OF this False]
    ultimately show ?thesis by (auto simp: watch_inv_def)
  qed
qed

lemma watch_inv_run: "\<not> w_stopped (watch_run timeout ps) \<Longrightarrow> watch_inv ps (watch_run timeout ps)"
proof (induction ps rule: rev_induct)
  case Nil
  then show ?case by (simp add: watch_run_def watcher_init_def watch_inv_def)
next
  case (snoc p ps)
  have "\<not> w_stopped (watch_run timeout ps)"
    using snoc.prems stopped_run [of "watch_run timeout ps" timeout "[p]"] by (auto simp: watch_run_def)
  with snoc watch_inv_step [of ps "watch_run timeout ps" timeout p] show ?case by (simp add: watch_run_def)
qed

lemma countdown_runs:
  assumes "\<forall>x\<in>set rs. \<not> wp_matching x \<and> \<not> wp_matching_again x"
    and "w_idle_since w = Some t" and "\<not> w_stopped (foldl (watch_step timeout) w rs)"
  shows "w_idle_since (foldl (watch_step timeout) w rs) = Some t"
  using assms
proof (induction rs arbitrary: w)
  case (Cons x rs)
  have "\<not> w_stopped (watch_step timeout w x)"
    using Cons.prems(3) stopped_run [of "watch_step timeout w x" timeout rs] by auto
  with Cons.prems have "w_idle_since (watch_step timeout w x) = Some t"
    by (auto simp: watch_step_def watch_says_def Let_def split: if_splits)
  with Cons.IH [of "watch_step timeout w x"] Cons.prems show ?case by simp
qed simp

lemma last_poll_matches:
  assumes "qs = [] \<or> wp_matching (last qs)" and "\<not> w_stopped (watch_run timeout qs)"
  shows "w_idle_since (watch_run timeout qs) = None"
proof (cases qs rule: rev_cases)
  case Nil
  then show ?thesis by (simp add: watch_run_def watcher_init_def)
next
  case (snoc ps p)
  with assms show ?thesis
    by (auto simp: watch_run_def watch_step_def watch_says_def Let_def)
qed

lemma stop_step:
  assumes "\<not> w_stopped w" and "w_stopped (watch_step timeout w p)"
  obtains t where "\<not> wp_matching p" "\<not> wp_matching_again p" "w_idle_since w = Some t" "timeout < wp_now p - t"
  using assms by (auto simp: watch_step_def watch_says_def Let_def split: if_splits option.splits)

text \<open>C34: while the watch runs, each time the polls see the last subscriber gone it orders the follower to hold
  and then queues the finalize of the recording, once per abandonment and before any countdown; it has not
  ended the session. It ends the session at a poll only if that poll finds no subscriber on both looks
  and a countdown of more than the timeout has run since an earlier poll, with no poll in between
  seeing one; and it does end it when no look since the poll that saw the last one gone finds one.\<close>

theorem watch_latches_then_exits:
  assumes "w = watch_run timeout ps" and "\<not> w_stopped w"
  shows "filter is_latch (w_outputs w) = concat (replicate (abandonments True ps) [ApplyHold, FinalizeRecording])
    \<and> EmitShutdown \<notin> set (w_outputs w)
    \<and> (w_stopped (watch_step timeout w p) \<longrightarrow> \<not> wp_matching p \<and> \<not> wp_matching_again p
        \<and> (\<exists>i<length ps. timeout < wp_now p - wp_now (ps ! i) \<and> (\<forall>k. i \<le> k \<and> k < length ps \<longrightarrow> \<not> wp_matching (ps ! k))))
    \<and> (\<forall>qs r rs. ps = qs @ r # rs \<and> (qs = [] \<or> wp_matching (last qs))
        \<and> (\<forall>x\<in>set (r # rs @ [p]). \<not> wp_matching x \<and> \<not> wp_matching_again x) \<and> timeout < wp_now p - wp_now r
        \<longrightarrow> w_stopped (watch_step timeout w p))"
proof (intro conjI allI impI)
  show "filter is_latch (w_outputs w) = concat (replicate (abandonments True ps) [ApplyHold, FinalizeRecording])"
    using run_latches [of timeout watcher_init ps] assms by (simp add: watch_run_def watcher_init_def)
  have i: "watch_inv ps w" using watch_inv_run assms by blast
  then show "EmitShutdown \<notin> set (w_outputs w)" by (simp add: watch_inv_def)
  assume s: "w_stopped (watch_step timeout w p)"
  obtain t where t: "\<not> wp_matching p" "\<not> wp_matching_again p" "w_idle_since w = Some t" "timeout < wp_now p - t"
    by (rule stop_step [OF assms(2) s])
  show "\<not> wp_matching p" "\<not> wp_matching_again p" by (rule t)+
  from i t(3) obtain i where "i < length ps" "wp_now (ps ! i) = t" "\<forall>k. i \<le> k \<and> k < length ps \<longrightarrow> \<not> wp_matching (ps ! k)"
    unfolding watch_inv_def by blast
  with t(4) show "\<exists>i<length ps. timeout < wp_now p - wp_now (ps ! i) \<and> (\<forall>k. i \<le> k \<and> k < length ps \<longrightarrow> \<not> wp_matching (ps ! k))"
    by blast
next
  fix qs r rs
  assume a: "ps = qs @ r # rs \<and> (qs = [] \<or> wp_matching (last qs))
        \<and> (\<forall>x\<in>set (r # rs @ [p]). \<not> wp_matching x \<and> \<not> wp_matching_again x) \<and> timeout < wp_now p - wp_now r"
  then have ps: "ps = qs @ r # rs" and qs: "qs = [] \<or> wp_matching (last qs)" and r: "\<not> wp_matching r"
    and rs: "\<forall>x\<in>set rs. \<not> wp_matching x \<and> \<not> wp_matching_again x"
    and p: "\<not> wp_matching p" "\<not> wp_matching_again p" "timeout < wp_now p - wp_now r" by simp_all
  define u where "u = watch_run timeout qs"
  have w: "w = foldl (watch_step timeout) (watch_step timeout u r) rs"
    using assms(1) by (simp add: ps watch_run_def u_def)
  have nu: "\<not> w_stopped u"
  proof
    assume "w_stopped u"
    from stopped_run [OF this, of timeout "r # rs"] this assms(2) w show False by simp
  qed
  have nr: "\<not> w_stopped (watch_step timeout u r)"
  proof
    assume "w_stopped (watch_step timeout u r)"
    from stopped_run [OF this, of timeout rs] this assms(2) w show False by simp
  qed
  have "w_idle_since u = None" unfolding u_def by (rule last_poll_matches [OF qs]) (use nu in \<open>simp add: u_def\<close>)
  then have "w_idle_since (watch_step timeout u r) = Some (wp_now r)"
    using nu r by (auto simp: watch_step_def watch_says_def Let_def)
  from countdown_runs [OF rs this] assms(2) have "w_idle_since w = Some (wp_now r)" by (simp add: w)
  with p assms(2) show "w_stopped (watch_step timeout w p)"
    by (simp add: watch_step_def watch_says_def Let_def)
qed

definition demo_poll :: "bool \<Rightarrow> real \<Rightarrow> bool \<Rightarrow> watch_poll" where
  "demo_poll m t again = \<lparr>wp_matching = m, wp_now = t, wp_wall = t, wp_matching_again = again\<rparr>"

theorem watch_latches_then_exits_witness:
  "filter is_latch (w_outputs (watch_run 5 [demo_poll True 0 False, demo_poll False 1 False, demo_poll False 4 False]))
     = [ApplyHold, FinalizeRecording]
   \<and> w_stopped (watch_step 5 (watch_run 5 [demo_poll True 0 False, demo_poll False 1 False, demo_poll False 4 False]) (demo_poll False 7 False))"
proof -
  let ?ps = "[demo_poll True 0 False, demo_poll False 1 False, demo_poll False 4 False]"
  have "\<not> w_stopped (watch_run 5 ?ps)"
    by (simp add: watch_run_def watcher_init_def watch_step_def watch_says_def demo_poll_def Let_def)
  note r = watch_latches_then_exits [OF refl this, of "demo_poll False 7 False"]
  note exits = r [THEN conjunct2, THEN conjunct2, THEN conjunct2, THEN spec [of _ "[demo_poll True 0 False]"],
    THEN spec [of _ "demo_poll False 1 False"], THEN spec [of _ "[demo_poll False 4 False]"], THEN mp]
  have "w_stopped (watch_step 5 (watch_run 5 ?ps) (demo_poll False 7 False))"
    by (rule exits) (simp add: demo_poll_def)
  moreover have "abandonments True ?ps = 1" by (simp add: demo_poll_def)
  with r [THEN conjunct1] have "filter is_latch (w_outputs (watch_run 5 ?ps)) = [ApplyHold, FinalizeRecording]" by (simp only: ) simp
  ultimately show ?thesis by blast
qed

text \<open>
  A client that attaches on the deadline and is gone at the next poll leaves without the follower being
  held and without its recording being finalized: the second look does not count as a subscriber seen.
\<close>

lemma deadline_client_not_latched:
  "filter is_latch (w_outputs (watch_run 5 [demo_poll False 1 False, demo_poll False 7 True, demo_poll False 8 False]))
   = [ApplyHold, FinalizeRecording]"
  by (simp add: watch_run_def watcher_init_def watch_step_def watch_says_def demo_poll_def Let_def is_latch_def)

end
