(* ===== verification/RuntimeCodec.thy ===== *)
theory RuntimeCodec
  imports RuntimeContract
begin

text \<open>
  How commands travel between a client and a session: \<^verbatim>\<open>runtime/transport/codec.py\<close> with the
  command models of \<^verbatim>\<open>runtime/contract.py\<close>. MessagePack is a pair of arguments, \<open>pack\<close> and
  \<open>unpack\<close>; \<open>uuid_ok\<close> is pydantic's test of a UUID's text. A command travels with its optional
  \<open>request_id\<close>, which the acknowledged commands require.
\<close>

datatype json = JNull | JBool bool | JInt int | JStr string | JList "json list" | JObj "(string \<times> json) list"

definition max_payload_bytes :: nat where
  "max_payload_bytes = 1024 * 1024"

datatype wire_error = ValueError string | TypeError string | KeyError string | ValidationError string

section \<open>Commands\<close>

definition follower_source_str :: "FollowerSource \<Rightarrow> string" where
  "follower_source_str f = (case f of Hold \<Rightarrow> ''hold'' | Teleop \<Rightarrow> ''teleop'' | Policy \<Rightarrow> ''policy'')"

definition parse_follower_source :: "string \<Rightarrow> FollowerSource option" where
  "parse_follower_source s =
     (if s = ''hold'' then Some Hold else if s = ''teleop'' then Some Teleop else if s = ''policy'' then Some Policy else None)"

definition inference_backends :: "string list" where
  "inference_backends = [''openvino'', ''torch'']"

definition opt_str :: "string option \<Rightarrow> json" where
  "opt_str x = (case x of None \<Rightarrow> JNull | Some s \<Rightarrow> JStr s)"

text \<open>\<open>model_dump(mode="json")\<close>: the fields of the base class come first.\<close>

definition dump_command :: "command \<times> string option \<Rightarrow> json" where
  "dump_command cr = (case cr of (c, rid) \<Rightarrow>
     (case c of
        SetFollowerSource f \<Rightarrow> JObj [(''request_id'', opt_str rid), (''command'', JStr ''set_follower_source''),
          (''follower_source'', JStr (follower_source_str f))]
      | DisconnectCommand \<Rightarrow> JObj [(''request_id'', opt_str rid), (''command'', JStr ''disconnect'')]
      | LoadModel m \<Rightarrow> JObj [(''request_id'', opt_str rid), (''command'', JStr ''load_model''), (''model_id'', JStr (lm_model_id m)),
          (''inference_device'', JObj [(''backend'', JStr (lm_backend m)), (''device'', JStr (lm_device m))]),
          (''force'', JBool (lm_force m))]
      | LoadDataset d \<Rightarrow> JObj [(''request_id'', opt_str rid), (''command'', JStr ''load_dataset''), (''dataset_id'', JStr d)]
      | StartTask t \<Rightarrow> JObj [(''request_id'', opt_str rid), (''command'', JStr ''start_task''), (''task'', JStr t)]
      | StopTask \<Rightarrow> JObj [(''request_id'', opt_str rid), (''command'', JStr ''stop_task'')]
      | StartRecording t \<Rightarrow> JObj [(''request_id'', opt_str rid), (''command'', JStr ''start_recording''), (''task'', JStr t)]
      | SaveEpisode r \<Rightarrow> JObj [(''command'', JStr ''save_episode''), (''request_id'', JStr r)]
      | DiscardEpisode r \<Rightarrow> JObj [(''command'', JStr ''discard_episode''), (''request_id'', JStr r)]))"

definition json_field :: "string \<Rightarrow> (string \<times> json) list \<Rightarrow> json option" where
  "json_field k fs = map_of fs k"

definition str_field :: "string \<Rightarrow> (string \<times> json) list \<Rightarrow> string option" where
  "str_field k fs = (case json_field k fs of Some (JStr s) \<Rightarrow> Some s | _ \<Rightarrow> None)"

text \<open>\<open>request_id: str | None = None\<close>: absent and null are \<open>None\<close>, another type is refused.\<close>

definition opt_str_field :: "string \<Rightarrow> (string \<times> json) list \<Rightarrow> string option option" where
  "opt_str_field k fs =
     (case json_field k fs of None \<Rightarrow> Some None | Some JNull \<Rightarrow> Some None | Some (JStr s) \<Rightarrow> Some (Some s) | _ \<Rightarrow> None)"

text \<open>\<open>bool\<close> in lax mode also takes the integers 0 and 1 and some words; here booleans and 0 and 1.\<close>

definition bool_field :: "string \<Rightarrow> bool \<Rightarrow> (string \<times> json) list \<Rightarrow> bool option" where
  "bool_field k dflt fs =
     (case json_field k fs of None \<Rightarrow> Some dflt | Some (JBool b) \<Rightarrow> Some b
      | Some (JInt i) \<Rightarrow> if i = 0 then Some False else if i = 1 then Some True else None | _ \<Rightarrow> None)"

definition uuid_field :: "(string \<Rightarrow> bool) \<Rightarrow> string \<Rightarrow> (string \<times> json) list \<Rightarrow> string option" where
  "uuid_field uuid_ok k fs = (case str_field k fs of Some s \<Rightarrow> if uuid_ok s then Some s else None | None \<Rightarrow> None)"

definition parse_inference_device :: "(string \<times> json) list \<Rightarrow> (string \<times> string) option" where
  "parse_inference_device fs =
     (case json_field ''inference_device'' fs of
        Some (JObj ds) \<Rightarrow>
          (case (str_field ''backend'' ds, str_field ''device'' ds) of
             (Some b, Some d) \<Rightarrow> if b \<in> set inference_backends then Some (b, d) else None
           | _ \<Rightarrow> None)
      | _ \<Rightarrow> None)"

text \<open>The member of the union is chosen by \<open>command\<close>, then its fields are validated.\<close>

definition parse_fields :: "(string \<Rightarrow> bool) \<Rightarrow> string \<Rightarrow> (string \<times> json) list \<Rightarrow> command option" where
  "parse_fields uuid_ok tag fs =
     (if tag = ''set_follower_source'' then
        Option.bind (str_field ''follower_source'' fs) (\<lambda>s. map_option SetFollowerSource (parse_follower_source s))
      else if tag = ''disconnect'' then Some DisconnectCommand
      else if tag = ''load_model'' then
        (case (uuid_field uuid_ok ''model_id'' fs, parse_inference_device fs, bool_field ''force'' False fs) of
           (Some m, Some (b, d), Some f) \<Rightarrow> Some (LoadModel \<lparr>lm_model_id = m, lm_backend = b, lm_device = d, lm_force = f\<rparr>)
         | _ \<Rightarrow> None)
      else if tag = ''load_dataset'' then map_option LoadDataset (uuid_field uuid_ok ''dataset_id'' fs)
      else if tag = ''start_task'' then map_option StartTask (str_field ''task'' fs)
      else if tag = ''stop_task'' then Some StopTask
      else if tag = ''start_recording'' then map_option StartRecording (str_field ''task'' fs)
      else if tag = ''save_episode'' then map_option SaveEpisode (str_field ''request_id'' fs)
      else if tag = ''discard_episode'' then map_option DiscardEpisode (str_field ''request_id'' fs)
      else None)"

definition validate_command :: "(string \<Rightarrow> bool) \<Rightarrow> json \<Rightarrow> wire_error + command \<times> string option" where
  "validate_command uuid_ok j =
     (case j of
        JObj fs \<Rightarrow>
          (case str_field ''command'' fs of
             None \<Rightarrow> Inl (ValidationError ''command'')
           | Some tag \<Rightarrow>
               (case (parse_fields uuid_ok tag fs, opt_str_field ''request_id'' fs) of
                  (Some c, Some rid) \<Rightarrow> Inr (c, rid)
                | _ \<Rightarrow> Inl (ValidationError tag)))
      | _ \<Rightarrow> Inl (ValidationError ''command''))"

section \<open>The envelope\<close>

definition json_unpack :: "('b list \<Rightarrow> json option) \<Rightarrow> 'b list \<Rightarrow> wire_error + (string \<times> json) list" where
  "json_unpack unpack data =
     (if length data > max_payload_bytes then Inl (ValueError ''Runtime transport payload exceeds 1048576 bytes'')
      else case unpack data of
          None \<Rightarrow> Inl (ValueError ''unpack'')
        | Some (JObj fs) \<Rightarrow> Inr fs
        | Some j \<Rightarrow> Inl (TypeError ''Expected a mapping payload''))"

definition encode_command :: "(json \<Rightarrow> 'b list) \<Rightarrow> command \<times> string option \<Rightarrow> string option \<Rightarrow> 'b list" where
  "encode_command pack c instance_id = pack (JObj [(''instance_id'', opt_str instance_id), (''command'', dump_command c)])"

definition decode_command ::
  "(string \<Rightarrow> bool) \<Rightarrow> ('b list \<Rightarrow> json option) \<Rightarrow> 'b list \<Rightarrow> wire_error + (command \<times> string option) \<times> string option" where
  "decode_command uuid_ok unpack data =
     bind_result (json_unpack unpack data) (\<lambda>payload.
       case opt_str_field ''instance_id'' payload of
         None \<Rightarrow> Inl (TypeError ''Runtime command instance_id must be a string'')
       | Some inst \<Rightarrow>
           (case json_field ''command'' payload of
              None \<Rightarrow> Inl (KeyError ''command'')
            | Some j \<Rightarrow> bind_result (validate_command uuid_ok j) (\<lambda>c. Inr (c, inst))))"

text \<open>What a client can build: UUIDs and devices were validated, acknowledged commands carry their id.\<close>

definition command_ok :: "(string \<Rightarrow> bool) \<Rightarrow> command \<times> string option \<Rightarrow> bool" where
  "command_ok uuid_ok cr = (case cr of (c, rid) \<Rightarrow>
     (case c of
        LoadModel m \<Rightarrow> uuid_ok (lm_model_id m) \<and> lm_backend m \<in> set inference_backends
      | LoadDataset d \<Rightarrow> uuid_ok d
      | SaveEpisode r \<Rightarrow> rid = Some r
      | DiscardEpisode r \<Rightarrow> rid = Some r
      | _ \<Rightarrow> True))"

lemma parse_follower_source_str [simp]: "parse_follower_source (follower_source_str f) = Some f"
  by (cases f) (simp_all add: parse_follower_source_def follower_source_str_def)

lemmas field_defs = str_field_def opt_str_field_def bool_field_def uuid_field_def json_field_def opt_str_def

lemma validate_dump:
  assumes "command_ok uuid_ok (c, rid)"
  shows "validate_command uuid_ok (dump_command (c, rid)) = Inr (c, rid)"
  using assms
  by (cases c; cases rid)
     (simp_all add: validate_command_def dump_command_def parse_fields_def field_defs parse_inference_device_def command_ok_def)

text \<open>C38: every command a client can build, whatever its strings, arrives at the session as it was sent,
  with its request id and the instance it was meant for, if the packed payload fits the limit of one
  MiB; a larger one is refused with an error and never decoded to something else.\<close>

theorem command_roundtrip:
  assumes "\<And>v. unpack (pack v) = Some v" and "command_ok uuid_ok c"
  shows "decode_command uuid_ok unpack (encode_command pack c inst)
    = (if length (encode_command pack c inst) \<le> max_payload_bytes then Inr (c, inst)
       else Inl (ValueError ''Runtime transport payload exceeds 1048576 bytes''))"
proof (cases "length (encode_command pack c inst) \<le> max_payload_bytes")
  case True
  obtain cmd rid where c: "c = (cmd, rid)" by (cases c)
  have "unpack (encode_command pack c inst) = Some (JObj [(''instance_id'', opt_str inst), (''command'', dump_command c)])"
    by (simp add: encode_command_def assms(1))
  with True have "json_unpack unpack (encode_command pack c inst) = Inr [(''instance_id'', opt_str inst), (''command'', dump_command c)]"
    by (simp add: json_unpack_def)
  with True validate_dump [OF assms(2) [unfolded c]] show ?thesis
    by (cases inst) (simp_all add: decode_command_def field_defs c)
next
  case False
  then show ?thesis by (simp add: decode_command_def json_unpack_def)
qed

text \<open>A packing that keeps the value in one cell.\<close>

definition demo_unpack :: "json list \<Rightarrow> json option" where
  "demo_unpack b = (case b of [v] \<Rightarrow> Some v | _ \<Rightarrow> None)"

theorem command_roundtrip_witness:
  "decode_command (\<lambda>s. s \<noteq> '''') demo_unpack
     (encode_command (\<lambda>v. [v]) (LoadModel \<lparr>lm_model_id = ''m'', lm_backend = ''torch'', lm_device = ''cpu'', lm_force = True\<rparr>, None) (Some ''i''))
   = Inr ((LoadModel \<lparr>lm_model_id = ''m'', lm_backend = ''torch'', lm_device = ''cpu'', lm_force = True\<rparr>, None), Some ''i'')"
  by (subst command_roundtrip)
     (simp_all add: demo_unpack_def command_ok_def inference_backends_def encode_command_def max_payload_bytes_def)

end
