(* ===== verification/RemoteBackend.thy ===== *)
theory RemoteBackend
  imports StudioPayload ArchiveSafety
begin

text \<open>
  Training on a trainer service, the studio's side: \<^verbatim>\<open>services/training_backends/remote.py\<close> with the
  HTTP method of \<^verbatim>\<open>services/training_backends/_training_methods.py\<close>. What the trainer and the
  network answer is an argument of each loop; a poll of the stop signals answers \<open>None\<close> or why the
  worker should stop. Percentages are computed on reals; log lines are left out.
\<close>

section \<open>Progress\<close>

definition SNAPSHOT_UPLOAD_PROGRESS :: int where "SNAPSHOT_UPLOAD_PROGRESS = 10"
definition TRAINING_PROGRESS_END :: int where "TRAINING_PROGRESS_END = 95"
definition TRANSFER_RETRY_LIMIT :: nat where "TRANSFER_RETRY_LIMIT = 3"
definition UPLOAD_CHUNK_SIZE :: nat where "UPLOAD_CHUNK_SIZE = 8 * 1024 * 1024"
definition MAX_EXTRA_INFO_BYTES :: nat where "MAX_EXTRA_INFO_BYTES = 16 * 1024"
definition RECONNECT_BACKOFF_S :: real where "RECONNECT_BACKOFF_S = 2"

text \<open>\<open>round\<close> takes the even neighbour of a half; \<open>int\<close> of a number truncates toward zero.\<close>

definition py_round :: "real \<Rightarrow> int" where
  "py_round x = (if x - \<lfloor>x\<rfloor> < 1 / 2 then \<lfloor>x\<rfloor>
     else if x - \<lfloor>x\<rfloor> > 1 / 2 then \<lfloor>x\<rfloor> + 1 else if even \<lfloor>x\<rfloor> then \<lfloor>x\<rfloor> else \<lfloor>x\<rfloor> + 1)"

definition truncate_number :: "real \<Rightarrow> int" where
  "truncate_number x = (if x < 0 then - \<lfloor>- x\<rfloor> else \<lfloor>x\<rfloor>)"

definition coerce_progress :: "real option \<Rightarrow> int" where
  "coerce_progress v = (case v of None \<Rightarrow> 0 | Some x \<Rightarrow> max 0 (min 100 (truncate_number x)))"

definition to_local_progress :: "int \<Rightarrow> int" where
  "to_local_progress remote_progress =
     min TRAINING_PROGRESS_END (SNAPSHOT_UPLOAD_PROGRESS
       + py_round (of_int remote_progress * of_int (TRAINING_PROGRESS_END - SNAPSHOT_UPLOAD_PROGRESS) / 100))"

definition upload_progress :: "nat \<Rightarrow> nat \<Rightarrow> int" where
  "upload_progress uploaded total_bytes =
     (if total_bytes = 0 then 0
      else min (SNAPSHOT_UPLOAD_PROGRESS - 1) (py_round (real uploaded / real total_bytes * of_int SNAPSHOT_UPLOAD_PROGRESS)))"

definition download_progress :: "nat \<Rightarrow> nat \<Rightarrow> int" where
  "download_progress received total_bytes =
     (if total_bytes = 0 then TRAINING_PROGRESS_END
      else min 99 (TRAINING_PROGRESS_END + py_round (real received / real total_bytes * of_int (100 - TRAINING_PROGRESS_END))))"

section \<open>The state of a run\<close>

datatype remote_error =
    RemoteTrainingError string
  | TrainingCanceledError string
  | TrainingSuspendedError
  | TransportError
  | ArchiveRaised archive_error
  | OtherRaisedError string

text \<open>Why \<open>should_stop\<close> says so: the user canceled this job, the studio shuts down, or neither is known.\<close>

datatype stop_reason = UserCancel | Shutdown | Unknown

text \<open>What a run asks of the trainer and of its caller.\<close>

datatype remote_call =
    SubmitsJob TrainingJobSpec "string option"
  | RecordsJobId string
  | PutsDataset int
  | GetsArtifact nat
  | CancelsJob
  | DeletesJob

record remote_run =
  rr_last_progress :: int
  rr_reports :: "(int \<times> string option \<times> string option) list"
  rr_calls :: "remote_call list"
  rr_sleeps :: "real list"
  rr_archive_staged :: bool
  rr_fs :: "string fs"

definition remote_run_init :: "string fs \<Rightarrow> remote_run" where
  "remote_run_init fs = \<lparr>rr_last_progress = SNAPSHOT_UPLOAD_PROGRESS, rr_reports = [], rr_calls = [], rr_sleeps = [],
     rr_archive_staged = False, rr_fs = fs\<rparr>"

definition rr_report :: "int \<Rightarrow> string option \<Rightarrow> string option \<Rightarrow> remote_run \<Rightarrow> remote_run" where
  "rr_report p msg extra r = r\<lparr>rr_reports := rr_reports r @ [(p, msg, extra)]\<rparr>"

definition rr_call :: "remote_call \<Rightarrow> remote_run \<Rightarrow> remote_run" where
  "rr_call c r = r\<lparr>rr_calls := rr_calls r @ [c]\<rparr>"

definition rr_sleep :: "real \<Rightarrow> remote_run \<Rightarrow> remote_run" where
  "rr_sleep t r = r\<lparr>rr_sleeps := rr_sleeps r @ [t]\<rparr>"

text \<open>A user's cancellation wins over a shutdown; a failing cancel request is logged.\<close>

definition handle_stop_request :: "stop_reason \<Rightarrow> remote_run \<Rightarrow> remote_error \<times> remote_run" where
  "handle_stop_request why r =
     (case why of
        UserCancel \<Rightarrow> (TrainingCanceledError ''Training canceled'', rr_call CancelsJob r)
      | Shutdown \<Rightarrow> (TrainingSuspendedError, r)
      | Unknown \<Rightarrow> (TrainingCanceledError ''Training canceled'', rr_call CancelsJob r))"

definition check_stop :: "stop_reason option \<Rightarrow> remote_run \<Rightarrow> (remote_error + unit) \<times> remote_run" where
  "check_stop stop r =
     (case stop of None \<Rightarrow> (Inr (), r) | Some why \<Rightarrow> (case handle_stop_request why r of (e, r1) \<Rightarrow> (Inl e, r1)))"

section \<open>Submitting\<close>

text \<open>
  The devices the trainer lists, or that it could not be asked; the id it returns, checked by \<open>uuid_ok\<close>.
  Of the specification the run options are not sent.
\<close>

definition remote_spec :: "TrainJobPayload \<Rightarrow> string option \<Rightarrow> TrainingDevice option \<Rightarrow> TrainingJobSpec" where
  "remote_spec p base_policy device =
     (build_spec p base_policy)\<lparr>spec_device_type := map_option (\<lambda>d. device_str (device_type d)) device,
        spec_device_index := (case device of None \<Rightarrow> None | Some d \<Rightarrow> device_index d)\<rparr>"

definition remote_submit_job ::
  "(string \<Rightarrow> bool) \<Rightarrow> TrainJobPayload \<Rightarrow> string option \<Rightarrow> TrainingDevice option \<Rightarrow> (remote_error + TrainingDevice list)
     \<Rightarrow> string option \<Rightarrow> (remote_error + string option) \<Rightarrow> remote_run \<Rightarrow> (remote_error + string) \<times> remote_run" where
  "remote_submit_job uuid_ok p base_policy device devices token reply r =
     (case (case device of
          None \<Rightarrow> Inr ()
        | Some d \<Rightarrow> bind_result devices (\<lambda>ds. if d \<in> set ds then Inr ()
            else Inl (RemoteTrainingError ''Selected device is no longer available on the trainer''))) of
        Inl e \<Rightarrow> (Inl e, r)
      | Inr u \<Rightarrow>
          (let r1 = rr_call (SubmitsJob (remote_spec p base_policy device) token) r
           in case reply of
                Inl e \<Rightarrow> (Inl e, r1)
              | Inr (Some job_id) \<Rightarrow>
                  if uuid_ok job_id then (Inr job_id, r1)
                  else (Inl (RemoteTrainingError ''Trainer did not return a valid remote_job_id''), r1)
              | Inr None \<Rightarrow> (Inl (RemoteTrainingError ''Trainer did not return a valid remote_job_id''), r1)))"

section \<open>The upload\<close>

text \<open>The offset a \<^verbatim>\<open>HEAD\<close> request reports, \<open>None\<close> where it fails or is not a number.\<close>

definition get_upload_offset :: "nat \<Rightarrow> int option \<Rightarrow> remote_error + int" where
  "get_upload_offset total_bytes answer =
     (case answer of
        None \<Rightarrow> Inl (RemoteTrainingError ''Unable to determine dataset upload resume offset'')
      | Some offset \<Rightarrow>
          if 0 \<le> offset \<and> offset \<le> int total_bytes then Inr offset
          else Inl (RemoteTrainingError (''Trainer returned invalid dataset upload offset '' @ int_str offset)))"

text \<open>The reports of \<open>n\<close> chunks from an offset on: one where the percentage changes.\<close>

fun chunk_reports :: "nat \<Rightarrow> nat \<Rightarrow> nat \<Rightarrow> int \<Rightarrow> int list" where
  "chunk_reports total_bytes sent 0 last_percent = []"
| "chunk_reports total_bytes sent (Suc n) last_percent =
     (if sent \<ge> total_bytes then []
      else
        let sent' = min total_bytes (sent + UPLOAD_CHUNK_SIZE);
            percent = upload_progress sent' total_bytes
        in (if percent \<noteq> last_percent then [percent] else []) @ chunk_reports total_bytes sent' n percent)"

definition rr_report_all :: "int list \<Rightarrow> string \<Rightarrow> remote_run \<Rightarrow> remote_run" where
  "rr_report_all ps msg r = r\<lparr>rr_reports := rr_reports r @ map (\<lambda>p. (p, Some msg, None)) ps\<rparr>"

text \<open>
  How a \<^verbatim>\<open>PUT\<close> ended: a stop was requested while it streamed, it was answered (with the offset header, if
  any), or it failed, the unreadable offset header included.
\<close>

datatype put_result = PutStops stop_reason | PutReplies "int option" | PutFails

record put_answer =
  pa_stop :: "stop_reason option"
  pa_chunks :: nat
  pa_result :: put_result
  pa_head :: "int option"

text \<open>An offset the trainer answers is not checked: the file cannot be positioned at a negative one.\<close>

fun upload_loop :: "nat \<Rightarrow> (nat \<Rightarrow> put_answer) \<Rightarrow> nat \<Rightarrow> int \<Rightarrow> remote_run \<Rightarrow> (remote_error + int) \<times> remote_run" where
  "upload_loop 0 answers total_bytes offset r = (Inr offset, r)"
| "upload_loop (Suc n) answers total_bytes offset r =
     (if offset = int total_bytes then (Inr offset, r)
      else
        let a = answers (TRANSFER_RETRY_LIMIT - n)
        in bind_state (check_stop (pa_stop a) r) (\<lambda>u r1.
             if offset < 0 then (Inl (OtherRaisedError ''Invalid argument''), rr_call (PutsDataset offset) r1)
             else let r2 = rr_report_all (chunk_reports total_bytes (nat offset) (pa_chunks a) (- 1)) ''Uploading dataset snapshot''
                        (rr_call (PutsDataset offset) r1)
             in case pa_result a of
                  PutStops why \<Rightarrow> (case handle_stop_request why r2 of (e, r3) \<Rightarrow> (Inl e, r3))
                | PutReplies None \<Rightarrow> upload_loop n answers total_bytes (int total_bytes) r2
                | PutReplies (Some reported) \<Rightarrow> upload_loop n answers total_bytes reported r2
                | PutFails \<Rightarrow>
                    if n = 0 then (Inl (RemoteTrainingError ''Dataset upload could not be resumed''), r2)
                    else (case get_upload_offset total_bytes (pa_head a) of
                            Inl e \<Rightarrow> (Inl e, r2)
                          | Inr offset' \<Rightarrow> upload_loop n answers total_bytes offset' r2)))"

definition upload_snapshot_http ::
  "nat \<Rightarrow> int option \<Rightarrow> (nat \<Rightarrow> put_answer) \<Rightarrow> remote_run \<Rightarrow> (remote_error + unit) \<times> remote_run" where
  "upload_snapshot_http total_bytes first answers r =
     (case get_upload_offset total_bytes first of
        Inl e \<Rightarrow> (Inl e, r)
      | Inr offset \<Rightarrow>
          bind_state (upload_loop (TRANSFER_RETRY_LIMIT + 1) answers total_bytes offset r) (\<lambda>final r1.
            if final \<noteq> int total_bytes
            then (Inl (RemoteTrainingError (''Trainer accepted an incomplete dataset upload ('' @ int_str final @ '' of ''
                   @ nat_str total_bytes @ '' bytes)'')), r1)
            else (Inr (), r1)))"

section \<open>Waiting\<close>

text \<open>A job state as the trainer sends it; \<open>rs_extra\<close> is the serialized telemetry, \<open>None\<close> where it is not a dictionary.\<close>

record remote_state =
  rs_status :: "string option"
  rs_progress :: "real option"
  rs_message :: "string option"
  rs_extra :: "string option"

definition sanitize_extra_info :: "string option \<Rightarrow> string option" where
  "sanitize_extra_info raw =
     (case raw of None \<Rightarrow> None | Some s \<Rightarrow> if length s > MAX_EXTRA_INFO_BYTES then None else Some s)"

definition apply_state :: "remote_state \<Rightarrow> remote_run \<Rightarrow> (remote_error + bool) \<times> remote_run" where
  "apply_state st r =
     (let progress = max (rr_last_progress r) (to_local_progress (coerce_progress (rs_progress st)));
          r1 = rr_report progress (rs_message st) (sanitize_extra_info (rs_extra st)) (r\<lparr>rr_last_progress := progress\<rparr>)
      in if rs_status st = Some ''completed'' then (Inr True, r1)
         else if rs_status st = Some ''canceled'' then (Inl (TrainingCanceledError ''Remote training canceled''), r1)
         else if rs_status st = Some ''failed''
         then (Inl (RemoteTrainingError (''Remote training failed: ''
                 @ (case rs_message st of None \<Rightarrow> ''None'' | Some m \<Rightarrow> m))), r1)
         else (Inr False, r1))"

text \<open>\<open>parse\<close> is \<^verbatim>\<open>json.loads\<close>: \<open>None\<close> for malformed text, \<open>Some None\<close> for a value that is no dictionary.\<close>

definition parse_state :: "(string \<Rightarrow> remote_state option option) \<Rightarrow> string \<Rightarrow> remote_error + remote_state" where
  "parse_state parse payload =
     (if payload = '''' then Inl (RemoteTrainingError ''Trainer event stream sent an empty state payload'')
      else case parse payload of
          None \<Rightarrow> Inl (RemoteTrainingError ''Trainer event stream sent malformed JSON'')
        | Some None \<Rightarrow> Inl (RemoteTrainingError ''Trainer returned a malformed job state'')
        | Some (Some st) \<Rightarrow> Inr st)"

text \<open>The payloads of the frames in the lines of a stream; \<open>partition\<close> splits a line at its first colon.\<close>

definition sse_field :: "string \<Rightarrow> string \<times> string" where
  "sse_field line =
     (let value = drop 1 (dropWhile (\<lambda>c. c \<noteq> CHR '':'') line)
      in (takeWhile (\<lambda>c. c \<noteq> CHR '':'') line, if starts_with '' '' value then drop 1 value else value))"

fun read_sse_events :: "string list \<Rightarrow> string option \<Rightarrow> string list \<Rightarrow> string list" where
  "read_sse_events [] event data_lines = []"
| "read_sse_events (line # lines) event data_lines =
     (if line = '''' then
        (if data_lines \<noteq> [] \<and> event = Some ''state'' then [str_join [CHR 0x0A] data_lines] else [])
        @ read_sse_events lines None []
      else if starts_with '':'' line then read_sse_events lines event data_lines
      else
        let (field, value) = sse_field line
        in if field = ''event'' then read_sse_events lines (Some value) data_lines
           else if field = ''data'' then read_sse_events lines event (data_lines @ [value])
           else read_sse_events lines event data_lines)"

text \<open>A turn of the reading loop: nothing came in time, a state, or the stream ended or broke.\<close>

datatype sse_item = NoItem | StateItem string | StreamEnds

fun consume_event_stream ::
  "(string \<Rightarrow> remote_state option option) \<Rightarrow> (stop_reason option \<times> sse_item) list \<Rightarrow> bool \<Rightarrow> remote_run
     \<Rightarrow> (remote_error + bool \<times> bool) \<times> remote_run" where
  "consume_event_stream parse [] received r = (Inr (False, received), r)"
| "consume_event_stream parse ((stop, item) # items) received r =
     bind_state (check_stop stop r) (\<lambda>u r1.
       case item of
         NoItem \<Rightarrow> consume_event_stream parse items received r1
       | StreamEnds \<Rightarrow> (Inr (False, received), r1)
       | StateItem payload \<Rightarrow>
           (case parse_state parse payload of
              Inl e \<Rightarrow> (Inl e, r1)
            | Inr st \<Rightarrow> bind_state (apply_state st r1) (\<lambda>completed r2.
                if completed then (Inr (True, True), r2) else consume_event_stream parse items True r2)))"

datatype poll_answer = PollGone | PollFails | PollNoState | PollState remote_state

definition poll_state :: "poll_answer \<Rightarrow> remote_run \<Rightarrow> (remote_error + bool \<times> bool) \<times> remote_run" where
  "poll_state answer r =
     (case answer of
        PollGone \<Rightarrow> (Inl (RemoteTrainingError ''Remote training job no longer exists''), r)
      | PollFails \<Rightarrow> (Inr (False, False), r)
      | PollNoState \<Rightarrow> (Inr (True, False), r)
      | PollState st \<Rightarrow> bind_state (apply_state st r) (\<lambda>completed r1. (Inr (True, completed), r1)))"

record wait_round =
  wr_opens :: bool
  wr_items :: "(stop_reason option \<times> sse_item) list"
  wr_stop :: "stop_reason option"
  wr_poll :: poll_answer

text \<open>One turn: the stream, the stop signals, the poll; its result is whether the job completed and the trainer was reached.\<close>

definition wait_turn ::
  "(string \<Rightarrow> remote_state option option) \<Rightarrow> wait_round \<Rightarrow> remote_run \<Rightarrow> (remote_error + bool \<times> bool) \<times> remote_run" where
  "wait_turn parse w r =
     bind_state (if wr_opens w then consume_event_stream parse (wr_items w) False r else (Inr (False, False), r))
       (\<lambda>(completed, received) r1.
          if completed then (Inr (True, True), r1)
          else bind_state (check_stop (wr_stop w) r1) (\<lambda>u r2.
            bind_state (poll_state (wr_poll w) r2) (\<lambda>(reachable, completed') r3.
              (Inr (completed', received \<or> reachable), r3))))"

definition note_contact :: "bool \<Rightarrow> bool \<Rightarrow> remote_run \<Rightarrow> remote_run" where
  "note_contact contact disconnected r =
     (if contact then (if disconnected then rr_report (rr_last_progress r) (Some ''Trainer connection restored'') None r else r)
      else if \<not> disconnected then rr_report (rr_last_progress r) (Some ''Trainer unreachable; waiting to reconnect'') None r
      else r)"

text \<open>\<open>None\<close> where the loop still waits when the rounds are over: an outage of any length is no failure.\<close>

fun wait_loop ::
  "(string \<Rightarrow> remote_state option option) \<Rightarrow> real \<Rightarrow> wait_round list \<Rightarrow> bool \<Rightarrow> real \<Rightarrow> remote_run
     \<Rightarrow> (remote_error + unit) option \<times> remote_run" where
  "wait_loop parse max_backoff [] disconnected backoff r = (None, r)"
| "wait_loop parse max_backoff (w # ws) disconnected backoff r =
     (case wait_turn parse w r of
        (Inl e, r1) \<Rightarrow> (Some (Inl e), r1)
      | (Inr (True, contact), r1) \<Rightarrow> (Some (Inr ()), r1)
      | (Inr (False, contact), r1) \<Rightarrow>
          let b = (if contact then RECONNECT_BACKOFF_S else backoff)
          in wait_loop parse max_backoff ws (\<not> contact) (min (b * 2) max_backoff)
               (rr_sleep b (note_contact contact disconnected r1)))"

definition wait_for_completion ::
  "(string \<Rightarrow> remote_state option option) \<Rightarrow> real \<Rightarrow> int \<Rightarrow> wait_round list \<Rightarrow> remote_run
     \<Rightarrow> (remote_error + unit) option \<times> remote_run" where
  "wait_for_completion parse max_backoff job_progress ws r =
     wait_loop parse max_backoff ws False RECONNECT_BACKOFF_S
       (r\<lparr>rr_last_progress := max (rr_last_progress r) job_progress\<rparr>)"

section \<open>The download\<close>

definition is_decimal :: "string \<Rightarrow> bool" where
  "is_decimal s \<longleftrightarrow> s \<noteq> '''' \<and> list_all is_digit s"

definition artifact_total_bytes :: "string option \<Rightarrow> string option \<Rightarrow> nat \<Rightarrow> nat option" where
  "artifact_total_bytes content_range content_length offset =
     (let from_length = (case content_length of None \<Rightarrow> None
            | Some l \<Rightarrow> if is_decimal l then Some (offset + nat_of_digits l) else None)
      in case content_range of
           None \<Rightarrow> from_length
         | Some cr \<Rightarrow>
             if CHR ''/'' \<in> set cr \<and> is_decimal (last (split_on CHR ''/'' cr))
             then Some (nat_of_digits (last (split_on CHR ''/'' cr))) else from_length)"

text \<open>A reply: it fails (at the transport or with a status), or streams chunks after its two headers, and ends or breaks.\<close>

datatype get_reply =
    GetFails bool
  | GetStreams "string option" "string option" "(stop_reason option \<times> string) list" bool

record get_answer =
  ga_stop :: "stop_reason option"
  ga_reply :: get_reply

text \<open>The chunks appended to the file, reported where the percentage changes.\<close>

fun write_chunks ::
  "nat option \<Rightarrow> (stop_reason option \<times> string) list \<Rightarrow> int \<Rightarrow> string \<Rightarrow> remote_run
     \<Rightarrow> (remote_error + string \<times> int) \<times> remote_run" where
  "write_chunks expected [] last_percent content r = (Inr (content, last_percent), r)"
| "write_chunks expected ((stop, chunk) # chunks) last_percent content r =
     bind_state (check_stop stop r) (\<lambda>u r1.
       let content' = content @ chunk
       in case expected of
            None \<Rightarrow> write_chunks expected chunks last_percent content' r1
          | Some n \<Rightarrow>
              let percent = download_progress (length content') n
              in write_chunks expected chunks percent content'
                   (if percent \<noteq> last_percent then rr_report percent (Some ''Downloading trained model'') None r1 else r1))"

text \<open>The last percentage reported lives across the attempts.\<close>

fun stream_archive :: "nat \<Rightarrow> (nat \<Rightarrow> get_answer) \<Rightarrow> int \<Rightarrow> string \<Rightarrow> remote_run \<Rightarrow> (remote_error + string) \<times> remote_run" where
  "stream_archive 0 answers last_percent content r = (Inl (RemoteTrainingError ''Model download could not be resumed''), r)"
| "stream_archive (Suc n) answers last_percent content r =
     (let a = answers (TRANSFER_RETRY_LIMIT - n)
      in bind_state (check_stop (ga_stop a) r) (\<lambda>u r1.
        let r2 = rr_call (GetsArtifact (length content)) r1
        in case ga_reply a of
             GetFails transport \<Rightarrow>
               if n = 0 then (Inl (if transport then TransportError else RemoteTrainingError ''Model download could not be resumed''), r2)
               else stream_archive n answers last_percent content r2
           | GetStreams content_range content_length chunks breaks \<Rightarrow>
               let expected = artifact_total_bytes content_range content_length (length content)
               in bind_state (write_chunks expected chunks last_percent content r2) (\<lambda>(content', last_percent') r3.
                    if breaks then
                      (if n = 0 then (Inl TransportError, r3) else stream_archive n answers last_percent' content' r3)
                    else if expected = None \<or> expected = Some (length content') then (Inr content', r3)
                    else if n = 0 then (Inl (RemoteTrainingError ''Artifact download truncated''), r3)
                    else stream_archive n answers last_percent' content' r3)))"

text \<open>What extraction rests on: the ZIP reader, the free space and the two limits of the settings.\<close>

record ingest_env =
  ie_unzip :: unzip
  ie_free :: nat
  ie_max_uncompressed :: nat
  ie_min_free :: nat
  ie_output_dir :: path

definition extract_artifact :: "ingest_env \<Rightarrow> string \<Rightarrow> string fs \<Rightarrow> (archive_error + nat) \<times> string fs" where
  "extract_artifact env content fs =
     bind_state (lift_result id (get_validated_members (ie_unzip env) None (ie_max_uncompressed env) content) fs) (\<lambda>members fs1.
     bind_state (lift_update ArchiveOsError (fs_mkdirs (ie_output_dir env) fs1) fs1) (\<lambda>u fs2.
       extract_to (ie_free env) members (ie_output_dir env) (ie_min_free env) fs2))"

text \<open>The temporary archive is new for each call and removed at its end.\<close>

definition download_and_extract :: "ingest_env \<Rightarrow> (nat \<Rightarrow> get_answer) \<Rightarrow> remote_run \<Rightarrow> (remote_error + unit) \<times> remote_run" where
  "download_and_extract env answers r =
     bind_state (stream_archive (TRANSFER_RETRY_LIMIT + 1) answers (- 1) '''' r) (\<lambda>content r1.
       case extract_artifact env content (rr_fs r1) of
         (Inl e, fs) \<Rightarrow> (Inl (ArchiveRaised e), r1\<lparr>rr_fs := fs\<rparr>)
       | (Inr k, fs) \<Rightarrow> (Inr (), r1\<lparr>rr_fs := fs\<rparr>))"

text \<open>The trainer as a run meets it; the job's stored progress is read at the start of each wait.\<close>

record remote_world =
  rw_parse :: "string \<Rightarrow> remote_state option option"
  rw_max_backoff :: real
  rw_job_progress :: int
  rw_ingest :: ingest_env

text \<open>Each download is followed by the rounds of the wait that a lost connection leads to.\<close>

fun ingest_loop ::
  "remote_world \<Rightarrow> ((nat \<Rightarrow> get_answer) \<times> wait_round list) list \<Rightarrow> remote_run \<Rightarrow> (remote_error + unit) option \<times> remote_run" where
  "ingest_loop w [] r = (None, r)"
| "ingest_loop w ((answers, ws) # turns) r =
     (case download_and_extract (rw_ingest w) answers r of
        (Inr u, r1) \<Rightarrow> (Some (Inr ()), r1)
      | (Inl e, r1) \<Rightarrow>
          if e \<noteq> TransportError then (Some (Inl e), r1)
          else (case wait_for_completion (rw_parse w) (rw_max_backoff w) (rw_job_progress w) ws (rr_sleep RECONNECT_BACKOFF_S r1) of
                  (Some (Inr v), r2) \<Rightarrow> ingest_loop w turns r2
                | (x, r2) \<Rightarrow> (x, r2)))"

definition await_and_ingest ::
  "remote_world \<Rightarrow> wait_round list \<Rightarrow> ((nat \<Rightarrow> get_answer) \<times> wait_round list) list \<Rightarrow> remote_run
     \<Rightarrow> (remote_error + unit) option \<times> remote_run" where
  "await_and_ingest w ws turns r =
     (case wait_for_completion (rw_parse w) (rw_max_backoff w) (rw_job_progress w) ws r of
        (Some (Inr u), r1) \<Rightarrow>
          (case ingest_loop w turns (rr_report TRAINING_PROGRESS_END (Some ''Downloading trained model'') None r1) of
             (Some (Inr v), r2) \<Rightarrow> (Some (Inr ()), rr_report 100 (Some ''Model downloaded'') None (rr_call DeletesJob r2))
           | (x, r2) \<Rightarrow> (x, r2))
      | (x, r1) \<Rightarrow> (x, r1))"

section \<open>Training\<close>

text \<open>The uploads of a run: the size of the snapshot's archive, the first offset, the answers to the \<^verbatim>\<open>PUT\<close>s.\<close>

record upload_world =
  uw_size :: nat
  uw_head :: "int option"
  uw_puts :: "nat \<Rightarrow> put_answer"

definition upload_and_report :: "upload_world \<Rightarrow> remote_run \<Rightarrow> (remote_error + unit) \<times> remote_run" where
  "upload_and_report uw r =
     bind_state (upload_snapshot_http (uw_size uw) (uw_head uw) (uw_puts uw) r) (\<lambda>u r1.
       (Inr (), rr_report SNAPSHOT_UPLOAD_PROGRESS (Some ''Dataset uploaded, starting training'') None r1))"

definition cleanup_staged_archive :: "remote_run \<Rightarrow> remote_run" where
  "cleanup_staged_archive r = r\<lparr>rr_archive_staged := False\<rparr>"

text \<open>\<open>HttpTrainingMethod.train\<close>; \<open>submitted\<close> is the outcome of \<open>submit_job\<close>, as a function of the run.\<close>

definition http_train ::
  "remote_world \<Rightarrow> bool \<Rightarrow> string option \<Rightarrow> (remote_run \<Rightarrow> (remote_error + string) \<times> remote_run) \<Rightarrow> upload_world
     \<Rightarrow> wait_round list \<Rightarrow> ((nat \<Rightarrow> get_answer) \<times> wait_round list) list \<Rightarrow> remote_run
     \<Rightarrow> (remote_error + unit) option \<times> remote_run" where
  "http_train w has_snapshot archive_error submit uw ws turns r =
     (if \<not> has_snapshot then (Some (Inl (OtherRaisedError ''HTTP dataset transfer requires a dataset snapshot'')), r)
      else
        let r0 = rr_report 0 (Some ''Preparing dataset snapshot'') None r
        in case archive_error of
             Some e \<Rightarrow> (Some (Inl (OtherRaisedError e)), r0)
           | None \<Rightarrow>
               (case bind_state (submit (r0\<lparr>rr_archive_staged := True\<rparr>)) (\<lambda>job_id r1.
                       upload_and_report uw (rr_call (RecordsJobId job_id) r1)) of
                  (Inl e, r2) \<Rightarrow> (Some (Inl e), cleanup_staged_archive r2)
                | (Inr u, r2) \<Rightarrow> (case await_and_ingest w ws turns r2 of
                     (None, r3) \<Rightarrow> (None, r3)
                   | (Some x, r3) \<Rightarrow> (Some x, cleanup_staged_archive r3))))"

text \<open>The trainer's answer to the question whether it still waits for the dataset, \<open>None\<close> where it cannot be asked.\<close>

definition resume_pending_http_upload ::
  "bool \<Rightarrow> string option \<Rightarrow> string option \<Rightarrow> upload_world \<Rightarrow> remote_run \<Rightarrow> (remote_error + unit) \<times> remote_run" where
  "resume_pending_http_upload has_snapshot status archive_error uw r =
     (if \<not> has_snapshot then (Inr (), r)
      else case status of
          None \<Rightarrow> (Inl (RemoteTrainingError ''Unable to inspect remote training job for upload resume''), r)
        | Some st \<Rightarrow>
            if st \<noteq> ''awaiting_dataset'' then (Inr (), r)
            else (case archive_error of
                Some e \<Rightarrow> (Inl (OtherRaisedError e), r)
              | None \<Rightarrow> (case upload_and_report uw (r\<lparr>rr_archive_staged := True\<rparr>) of (x, r1) \<Rightarrow> (x, cleanup_staged_archive r1))))"

definition remote_train ::
  "remote_world \<Rightarrow> string option \<Rightarrow> bool \<Rightarrow> string option \<Rightarrow> bool \<Rightarrow> string option
     \<Rightarrow> (remote_run \<Rightarrow> (remote_error + string) \<times> remote_run) \<Rightarrow> upload_world
     \<Rightarrow> wait_round list \<Rightarrow> ((nat \<Rightarrow> get_answer) \<times> wait_round list) list \<Rightarrow> remote_run
     \<Rightarrow> (remote_error + unit) option \<times> remote_run" where
  "remote_train w remote_job_id canceled status has_snapshot archive_error submit uw ws turns r =
     (case remote_job_id of
        None \<Rightarrow> http_train w has_snapshot archive_error submit uw ws turns r
      | Some job_id \<Rightarrow>
          (case bind_state (check_stop (if canceled then Some UserCancel else None) r) (\<lambda>u r1.
                  resume_pending_http_upload has_snapshot status archive_error uw r1) of
             (Inl e, r1) \<Rightarrow> (Some (Inl e), r1)
           | (Inr u, r1) \<Rightarrow> await_and_ingest w ws turns r1))"

end
