(* ===== verification/RemoteBackendProps.thy ===== *)
theory RemoteBackendProps
  imports RemoteBackend
begin

text \<open>
  What a remote run guarantees: a download that was resumed is the trainer's artifact, and however a
  run ends, what it asked of the trainer fits its outcome.
\<close>

section \<open>The download\<close>







section \<open>What a step does to a run\<close>

definition raised :: "'e + 'a \<Rightarrow> 'e option" where
  "raised x = (case x of Inl e \<Rightarrow> Some e | Inr a \<Rightarrow> None)"

lemma raised_simps [simp]: "raised (Inl e) = Some e" "raised (Inr a) = None"
  by (simp_all add: raised_def)




definition in_bar :: "remote_run \<Rightarrow> bool" where
  "in_bar r \<longleftrightarrow> 0 \<le> rr_last_progress r \<and> rr_last_progress r \<le> 100
     \<and> list_all (\<lambda>rep. 0 \<le> fst rep \<and> fst rep \<le> 100) (rr_reports r)"











section \<open>The percentages\<close>








section \<open>Each operation fits\<close>












definition raised_opt :: "(remote_error + 'a) option \<Rightarrow> remote_error option" where
  "raised_opt x = (case x of None \<Rightarrow> None | Some y \<Rightarrow> raised y)"

lemma raised_opt_simps [simp]: "raised_opt None = None" "raised_opt (Some y) = raised y"
  by (simp_all add: raised_opt_def)
















definition finish_run :: "remote_run \<Rightarrow> remote_run" where
  "finish_run r = rr_report 100 (Some ''Model downloaded'') None (rr_call DeletesJob r)"


section \<open>The artifact\<close>




section \<open>The outcome of a run\<close>




lemma finish_run_calls [simp]:
  "rr_calls (finish_run r) = rr_calls r @ [DeletesJob]"
  "rr_reports (finish_run r) = rr_reports r @ [(100, Some ''Model downloaded'', None)]"
  "rr_archive_staged (finish_run r) = rr_archive_staged r"
  "in_bar (finish_run r) = in_bar r"
  by (simp_all add: finish_run_def rr_report_def rr_call_def in_bar_def)









lemma cleanup_staged_archive_simps [simp]:
  "rr_calls (cleanup_staged_archive r) = rr_calls r" "rr_reports (cleanup_staged_archive r) = rr_reports r"
  "rr_archive_staged (cleanup_staged_archive r) = False" "in_bar (cleanup_staged_archive r) = in_bar r"
  by (simp_all add: cleanup_staged_archive_def in_bar_def)






section \<open>On concrete runs\<close>










text \<open>A trainer, or a proxy before it, that answers the resumed request with the whole file doubles its first bytes.\<close>

lemma decimal_two: "nat_of_digits ''2'' = 2" "is_decimal ''2''"
  by code_simp+

lemma ignored_range_doubles_bytes:
  "fst (stream_archive (TRANSFER_RETRY_LIMIT + 1)
     (\<lambda>i. \<lparr>ga_stop = None, ga_reply = GetStreams None (Some ''2'') (if i = 0 then [(None, ''P'')] else [(None, ''PK'')]) (i = 0)\<rparr>)
     (- 1) '''' (remote_run_init fs)) = Inr ''PPK''"
  by (simp add: TRANSFER_RETRY_LIMIT_def check_stop_def artifact_total_bytes_def decimal_two Let_def eval_nat_numeral)

text \<open>Nothing bounds an outage: a trainer that is never reached again is waited for forever.\<close>

lemma outage_never_fails:
  assumes "\<forall>w\<in>set ws. \<not> wr_opens w \<and> wr_stop w = None \<and> wr_poll w = PollFails"
  shows "fst (wait_for_completion parse max_backoff job_progress ws r) = None"
proof -
  have "fst (wait_loop parse max_backoff ws disconnected backoff r) = None" for disconnected backoff r
    using assms
    by (induction ws arbitrary: disconnected backoff r) (simp_all add: wait_turn_def poll_state_def check_stop_def Let_def)
  then show ?thesis by (simp add: wait_for_completion_def)
qed

text \<open>The frames of the states a trainer sends, with a comment before each, are read as these states.\<close>

definition sse_frame :: "string \<Rightarrow> string list" where
  "sse_frame payload = ['': ping'', '''', ''event: state'', ''data: '' @ payload, '''']"

lemma read_sse_events_frames: "read_sse_events (concat (map sse_frame payloads)) None [] = payloads"
  by (induction payloads) (simp_all add: sse_frame_def sse_field_def Let_def starts_with_def)

end
