(* ===== verification/SshConfig.thy ===== *)
theory SshConfig
  imports FileSys "HOL-Library.AList"
begin

text \<open>
  The SSH configuration of the user: \<^verbatim>\<open>services/ssh_config_reader.py\<close>, which lists and resolves the
  literal \<^verbatim>\<open>Host\<close> names of a configuration file and the files it includes, and
  \<^verbatim>\<open>services/ssh_config_writer.py\<close>, which appends an entry, dials it and takes it back. The lines of a
  file are split into arguments by \<^verbatim>\<open>shlex.split\<close> of the standard library, written out here as its state
  machine. What a path resolves to and what an include names are arguments.
\<close>

section \<open>Characters and lines\<close>

text \<open>The ends of lines of \<^verbatim>\<open>str.splitlines\<close>, in ASCII.\<close>

definition is_line_end :: "char \<Rightarrow> bool" where
  "is_line_end c \<longleftrightarrow> (10 \<le> char_code c \<and> char_code c \<le> 13) \<or> (28 \<le> char_code c \<and> char_code c \<le> 30)"

text \<open>A carriage return and a newline end one line; text ends no line where it is empty.\<close>

fun split_lines :: "string \<Rightarrow> string \<Rightarrow> string list" where
  "split_lines acc [] = (if acc = [] then [] else [rev acc])"
| "split_lines acc (c # cs) =
     (if \<not> is_line_end c then split_lines (c # acc) cs
      else rev acc # (case cs of
          [] \<Rightarrow> []
        | d # ds \<Rightarrow> if c = CHR 0x0D \<and> d = CHR 0x0A then split_lines [] ds else split_lines [] (d # ds)))"

definition splitlines :: "string \<Rightarrow> string list" where
  "splitlines s = split_lines [] s"

section \<open>Arguments of a line\<close>

text \<open>
  The states of \<^verbatim>\<open>shlex\<close> in POSIX mode with \<open>whitespace_split\<close>: between tokens, in a word, in a quotation,
  after an escape. The token that is read, and whether a quotation was in it, are kept beside; an error is \<open>None\<close>.
  A comment ends a line, since a line has no end of line in it.
\<close>

datatype lex_state = Between | InWord | InQuote char | Escaped lex_state

definition lex_space :: "char \<Rightarrow> bool" where
  "lex_space c \<longleftrightarrow> char_code c \<in> {32, 9, 13, 10}"

definition is_quote :: "char \<Rightarrow> bool" where
  "is_quote c \<longleftrightarrow> c = CHR 0x27 \<or> c = CHR 0x22"

definition is_escape :: "char \<Rightarrow> bool" where
  "is_escape c \<longleftrightarrow> c = CHR 0x5C"

definition emit_token :: "string \<Rightarrow> bool \<Rightarrow> string list \<Rightarrow> string list" where
  "emit_token token quoted rest = (if token = [] \<and> \<not> quoted then rest else token # rest)"

fun shlex_tokens :: "lex_state \<Rightarrow> string \<Rightarrow> bool \<Rightarrow> string \<Rightarrow> string list option" where
  "shlex_tokens Between token quoted [] = Some (emit_token token quoted [])"
| "shlex_tokens InWord token quoted [] = Some (emit_token token quoted [])"
| "shlex_tokens (InQuote q) token quoted [] = None"
| "shlex_tokens (Escaped s) token quoted [] = None"
| "shlex_tokens (InQuote q) token quoted (c # cs) =
     (if c = q then shlex_tokens InWord token True cs
      else if is_escape c \<and> q = CHR 0x22 then shlex_tokens (Escaped (InQuote q)) token True cs
      else shlex_tokens (InQuote q) (token @ [c]) True cs)"
| "shlex_tokens (Escaped s) token quoted (c # cs) =
     shlex_tokens s (token @ (case s of InQuote q \<Rightarrow> if \<not> is_escape c \<and> c \<noteq> q then [CHR 0x5C, c] else [c] | _ \<Rightarrow> [c]))
       quoted cs"
| "shlex_tokens s token quoted (c # cs) =
     (if lex_space c then map_option (emit_token token quoted) (shlex_tokens Between [] False cs)
      else if c = CHR ''#'' then Some (emit_token token quoted [])
      else if is_escape c then shlex_tokens (Escaped InWord) token quoted cs
      else if is_quote c then shlex_tokens (InQuote c) token quoted cs
      else shlex_tokens InWord (token @ [c]) quoted cs)"

definition shlex_split :: "string \<Rightarrow> string list option" where
  "shlex_split s = shlex_tokens Between [] False s"

text \<open>
  The pattern of a directive: the shortest keyword, which is not empty, before white space or an equals sign. The
  alternative of white space is tried first, so an equals sign after it belongs to the arguments.
\<close>

definition is_separator :: "char \<Rightarrow> bool" where
  "is_separator c \<longleftrightarrow> is_space c \<or> c = CHR ''=''"

definition match_directive :: "string \<Rightarrow> (string \<times> string) option" where
  "match_directive s =
     (case s of
        [] \<Rightarrow> None
      | c # cs \<Rightarrow>
          if is_space c then None
          else
            (let keyword = c # takeWhile (\<lambda>x. \<not> is_separator x) cs;
                 rest = dropWhile (\<lambda>x. \<not> is_separator x) cs
             in case rest of
                  [] \<Rightarrow> None
                | x # xs \<Rightarrow> Some (keyword, dropWhile is_space xs)))"

definition parse_line :: "string \<Rightarrow> (string \<times> string list) option" where
  "parse_line line =
     (let stripped = strip_space line
      in if stripped = [] \<or> starts_with ''#'' stripped then None
         else case match_directive stripped of
             None \<Rightarrow> None
           | Some (keyword, rest) \<Rightarrow> map_option (\<lambda>args. (py_lower keyword, args)) (shlex_split rest))"

section \<open>Numbers\<close>

text \<open>\<^verbatim>\<open>int\<close> of a text: white space around, a sign, digits with single underscores between them.\<close>

fun int_digits :: "bool \<Rightarrow> nat \<Rightarrow> string \<Rightarrow> nat option" where
  "int_digits after_digit n [] = (if after_digit then Some n else None)"
| "int_digits after_digit n (c # cs) =
     (if is_digit c then int_digits True (10 * n + digit_val c) cs
      else if c = CHR ''_'' \<and> after_digit then int_digits False n cs
      else None)"

definition parse_int :: "string \<Rightarrow> int option" where
  "parse_int s =
     (case strip_space s of
        [] \<Rightarrow> None
      | c # cs \<Rightarrow>
          if c = CHR ''-'' then map_option (\<lambda>n. - int n) (int_digits False 0 cs)
          else if c = CHR ''+'' then map_option int (int_digits False 0 cs)
          else map_option int (int_digits False 0 (c # cs)))"

section \<open>The blocks of a file\<close>

record host_block =
  hb_patterns :: "string list"
  hb_hostname :: "string option"
  hb_port :: "int option"
  hb_user :: "string option"

definition new_block :: "string list \<Rightarrow> host_block" where
  "new_block patterns = \<lparr>hb_patterns = patterns, hb_hostname = None, hb_port = None, hb_user = None\<rparr>"

definition is_literal_pattern :: "string \<Rightarrow> bool" where
  "is_literal_pattern p \<longleftrightarrow> \<not> starts_with ''!'' p \<and> CHR ''*'' \<notin> set p \<and> CHR ''?'' \<notin> set p"

definition CREDENTIAL_DIRECTIVE_PREFIXES :: "string list" where
  "CREDENTIAL_DIRECTIVE_PREFIXES = [''identityfile'', ''identityagent'', ''certificatefile'', ''password'']"

definition is_credential :: "string \<Rightarrow> bool" where
  "is_credential keyword \<longleftrightarrow> list_ex (\<lambda>p. starts_with p keyword) CREDENTIAL_DIRECTIVE_PREFIXES"

definition apply_directive :: "host_block \<Rightarrow> string \<Rightarrow> string list \<Rightarrow> host_block" where
  "apply_directive b keyword args =
     (if is_credential keyword then b
      else if keyword = ''hostname'' then b\<lparr>hb_hostname := Some (hd args)\<rparr>
      else if keyword = ''port'' then (case parse_int (hd args) of None \<Rightarrow> b | Some n \<Rightarrow> b\<lparr>hb_port := Some n\<rparr>)
      else if keyword = ''user'' then b\<lparr>hb_user := Some (hd args)\<rparr>
      else b)"

text \<open>
  The files by their resolved paths, and the files that an argument of an include in a directory names, in order.
\<close>

record ssh_env =
  se_files :: "(path \<times> string) list"
  se_resolve :: "path \<Rightarrow> path"
  se_includes :: "string \<Rightarrow> path \<Rightarrow> path list"

text \<open>Reading a file as text makes every end of line of any system a newline.\<close>

fun universal_newlines :: "string \<Rightarrow> string" where
  "universal_newlines [] = []"
| "universal_newlines (c # cs) =
     (if c = CHR 0x0D then CHR 0x0A # (case cs of
          [] \<Rightarrow> []
        | d # ds \<Rightarrow> if d = CHR 0x0A then universal_newlines ds else universal_newlines (d # ds))
      else c # universal_newlines cs)"

definition read_config :: "ssh_env \<Rightarrow> path \<Rightarrow> string option" where
  "read_config env p = map_option universal_newlines (map_of (se_files env) (se_resolve env p))"

text \<open>
  The blocks in order; the last of them is open where \<open>current\<close> is its position, as the object that
  \<^verbatim>\<open>current\<close> names. Includes are read in place; \<open>visited\<close> guards against a cycle. \<open>None\<close> is
  the end of the fuel.
\<close>

type_synonym scan = "host_block list \<times> nat option \<times> path list"

fun fold_includes :: "(path \<Rightarrow> path list \<Rightarrow> (host_block list \<times> path list) option) \<Rightarrow> path list \<Rightarrow> scan \<Rightarrow> scan option" where
  "fold_includes f [] sc = Some sc"
| "fold_includes f (p # ps) (blocks, current, visited) =
     (case f p visited of
        None \<Rightarrow> None
      | Some (found, visited') \<Rightarrow> fold_includes f ps (blocks @ found, current, visited'))"

definition scan_directive :: "string \<Rightarrow> string list \<Rightarrow> host_block list \<times> nat option \<Rightarrow> host_block list \<times> nat option" where
  "scan_directive keyword args sc =
     (case sc of (blocks, current) \<Rightarrow>
        if keyword = ''host'' then (blocks @ [new_block args], Some (length blocks))
        else (case current of
            None \<Rightarrow> (blocks, None)
          | Some i \<Rightarrow> (blocks[i := apply_directive (blocks ! i) keyword args], Some i)))"

fun scan_lines ::
  "(path \<Rightarrow> path list \<Rightarrow> (host_block list \<times> path list) option) \<Rightarrow> (string \<Rightarrow> path list) \<Rightarrow> string list \<Rightarrow> scan \<Rightarrow> scan option" where
  "scan_lines f includes [] sc = Some sc"
| "scan_lines f includes (line # lines) (blocks, current, visited) =
     (case parse_line line of
        None \<Rightarrow> scan_lines f includes lines (blocks, current, visited)
      | Some (keyword, args) \<Rightarrow>
          if args = [] then scan_lines f includes lines (blocks, current, visited)
          else if keyword = ''include'' then
            (case fold_includes f (concat (map includes args)) (blocks, current, visited) of
               None \<Rightarrow> None
             | Some sc \<Rightarrow> scan_lines f includes lines sc)
          else
            (case scan_directive keyword args (blocks, current) of
               (blocks', current') \<Rightarrow> scan_lines f includes lines (blocks', current', visited)))"

fun iter_blocks :: "nat \<Rightarrow> ssh_env \<Rightarrow> path \<Rightarrow> path list \<Rightarrow> (host_block list \<times> path list) option" where
  "iter_blocks 0 env p visited = None"
| "iter_blocks (Suc n) env p visited =
     (let resolved = se_resolve env p
      in if resolved \<in> set visited then Some ([], visited)
         else case read_config env p of
             None \<Rightarrow> Some ([], resolved # visited)
           | Some text \<Rightarrow>
               (case scan_lines (iter_blocks n env) (\<lambda>a. se_includes env a (butlast p)) (splitlines text) ([], None, resolved # visited) of
                  None \<Rightarrow> None
                | Some (blocks, current, visited') \<Rightarrow> Some (blocks, visited')))"

definition host_blocks :: "ssh_env \<Rightarrow> path \<Rightarrow> host_block list" where
  "host_blocks env p = (case iter_blocks (Suc (length (se_files env))) env p [] of None \<Rightarrow> [] | Some (blocks, visited) \<Rightarrow> blocks)"

section \<open>Listing and resolving\<close>

datatype ssh_error = ValidationError | ResourceAlreadyExistsError string | SshRaised string

record ssh_option =
  so_alias :: string
  so_hostname :: "string option"
  so_port :: "int option"
  so_user :: "string option"

record resolved_host = ssh_option +
  so_found :: bool

definition override :: "'a option \<Rightarrow> 'a option \<Rightarrow> 'a option" where
  "override old new = (case new of None \<Rightarrow> old | Some v \<Rightarrow> Some v)"

definition merge_block :: "host_block \<Rightarrow> host_block \<Rightarrow> host_block" where
  "merge_block old b = old\<lparr>hb_hostname := override (hb_hostname old) (hb_hostname b),
     hb_port := override (hb_port old) (hb_port b), hb_user := override (hb_user old) (hb_user b)\<rparr>"

text \<open>The merged fields by name, and the names in the order of their first entry.\<close>

fun merge_patterns :: "host_block \<Rightarrow> string list \<Rightarrow> (string \<rightharpoonup> host_block) \<times> string list \<Rightarrow> (string \<rightharpoonup> host_block) \<times> string list" where
  "merge_patterns b [] m = m"
| "merge_patterns b (p # ps) (merged, order) =
     (if \<not> is_literal_pattern p then merge_patterns b ps (merged, order)
      else case merged p of
          None \<Rightarrow> merge_patterns b ps (merged(p \<mapsto> merge_block (new_block [p]) b), order @ [p])
        | Some old \<Rightarrow> merge_patterns b ps (merged(p \<mapsto> merge_block old b), order))"

definition merge_all :: "host_block list \<Rightarrow> (string \<rightharpoonup> host_block) \<times> string list" where
  "merge_all blocks = fold (\<lambda>b. merge_patterns b (hb_patterns b)) blocks (Map.empty, [])"

definition hostname_or :: "string option \<Rightarrow> string \<Rightarrow> string" where
  "hostname_or h alias = (case h of None \<Rightarrow> alias | Some s \<Rightarrow> if s = [] then alias else s)"

text \<open>The models refuse a port that is none.\<close>

definition port_field_ok :: "int option \<Rightarrow> bool" where
  "port_field_ok p = (case p of None \<Rightarrow> True | Some n \<Rightarrow> 1 \<le> n \<and> n \<le> 65535)"

definition make_option :: "string \<Rightarrow> host_block \<Rightarrow> ssh_error + ssh_option" where
  "make_option alias b =
     (if port_field_ok (hb_port b)
      then Inr \<lparr>so_alias = alias, so_hostname = Some (hostname_or (hb_hostname b) alias), so_port = hb_port b, so_user = hb_user b\<rparr>
      else Inl ValidationError)"

fun make_options :: "(string \<rightharpoonup> host_block) \<Rightarrow> string list \<Rightarrow> ssh_error + ssh_option list" where
  "make_options merged [] = Inr []"
| "make_options merged (a # as) =
     bind_result (make_option a (the (merged a))) (\<lambda>o1. bind_result (make_options merged as) (\<lambda>opts. Inr (o1 # opts)))"

definition list_host_aliases :: "ssh_env \<Rightarrow> path \<Rightarrow> ssh_error + ssh_option list" where
  "list_host_aliases env p = (case merge_all (host_blocks env p) of (merged, order) \<Rightarrow> make_options merged order)"

text \<open>A block counts once, also where it names the alias twice.\<close>

definition resolve_step :: "string \<Rightarrow> host_block \<Rightarrow> bool \<times> host_block \<Rightarrow> bool \<times> host_block" where
  "resolve_step alias b st =
     (if list_ex (\<lambda>p. is_literal_pattern p \<and> p = alias) (hb_patterns b) then (True, merge_block (snd st) b) else st)"

definition resolve_alias :: "ssh_env \<Rightarrow> path \<Rightarrow> string \<Rightarrow> ssh_error + resolved_host" where
  "resolve_alias env p alias =
     (case fold (resolve_step alias) (host_blocks env p) (False, new_block []) of
        (found, b) \<Rightarrow>
          if \<not> found
          then Inr \<lparr>so_alias = alias, so_hostname = None, so_port = None, so_user = None, so_found = False\<rparr>
          else if port_field_ok (hb_port b)
          then Inr \<lparr>so_alias = alias, so_hostname = Some (hostname_or (hb_hostname b) alias), so_port = hb_port b,
                 so_user = hb_user b, so_found = True\<rparr>
          else Inl ValidationError)"

section \<open>Appending\<close>

record alias_create =
  ac_alias :: string
  ac_hostname :: string
  ac_port :: int
  ac_user :: "string option"
  ac_identity_file :: "string option"

definition is_alnum :: "char \<Rightarrow> bool" where
  "is_alnum c \<longleftrightarrow> is_digit c \<or> (65 \<le> char_code c \<and> char_code c \<le> 90) \<or> (97 \<le> char_code c \<and> char_code c \<le> 122)"

definition alias_ok :: "string \<Rightarrow> bool" where
  "alias_ok s \<longleftrightarrow> (case s of
      [] \<Rightarrow> False
    | c # cs \<Rightarrow> is_alnum c \<and> length cs \<le> 254 \<and> list_all (\<lambda>x. is_alnum x \<or> x \<in> {CHR ''.'', CHR ''_'', CHR ''-''}) cs)"

definition value_ok :: "nat \<Rightarrow> string \<Rightarrow> bool" where
  "value_ok n s \<longleftrightarrow> length s \<le> n \<and> list_all (\<lambda>c. 32 \<le> char_code c \<and> char_code c < 127) s"

fun field_ok :: "('a \<Rightarrow> bool) \<Rightarrow> 'a option \<Rightarrow> bool" where
  "field_ok ok None = True"
| "field_ok ok (Some v) = ok v"

text \<open>The validation of the fields, which arrive stripped.\<close>

definition create_ok :: "alias_create \<Rightarrow> bool" where
  "create_ok c \<longleftrightarrow> alias_ok (ac_alias c) \<and> ac_hostname c \<noteq> [] \<and> value_ok 255 (ac_hostname c)
     \<and> 1 \<le> ac_port c \<and> ac_port c \<le> 65535
     \<and> field_ok (value_ok 255) (ac_user c) \<and> field_ok (value_ok 4096) (ac_identity_file c)
     \<and> strip_space (ac_hostname c) = ac_hostname c
     \<and> field_ok (\<lambda>s. strip_space s = s) (ac_user c) \<and> field_ok (\<lambda>s. strip_space s = s) (ac_identity_file c)"

definition given_text :: "string option \<Rightarrow> bool" where
  "given_text s \<longleftrightarrow> s \<noteq> None \<and> s \<noteq> Some []"

definition entry_lines :: "alias_create \<Rightarrow> string list" where
  "entry_lines c =
     [''Host '' @ ac_alias c, ''    HostName '' @ ac_hostname c, ''    Port '' @ int_str (ac_port c)]
     @ (if given_text (ac_user c) then [''    User '' @ the (ac_user c)] else [])
     @ (if given_text (ac_identity_file c) then [''    IdentityFile '' @ the (ac_identity_file c), ''    IdentitiesOnly yes''] else [])"

definition NL :: string where "NL = [CHR 0x0A]"

definition render_entry :: "alias_create \<Rightarrow> string" where
  "render_entry c = str_join NL (entry_lines c) @ NL"

definition appended_text :: "string \<Rightarrow> alias_create \<Rightarrow> string" where
  "appended_text existing c =
     (if universal_newlines existing = [] then render_entry c
      else (if \<not> ends_with NL (universal_newlines existing) then NL else []) @ NL @ render_entry c)"

text \<open>The directory of the file is there or is made; a path that leads to a file names it by its resolved path.\<close>

definition add_host_alias :: "ssh_env \<Rightarrow> path \<Rightarrow> alias_create \<Rightarrow> (ssh_error + ssh_option) \<times> ssh_env" where
  "add_host_alias env p c =
     (case list_host_aliases env p of
        Inl e \<Rightarrow> (Inl e, env)
      | Inr existing \<Rightarrow>
          if list_ex (\<lambda>ex. so_alias ex = ac_alias c) existing
          then (Inl (ResourceAlreadyExistsError (ac_alias c)), env)
          else
            (let old = (case map_of (se_files env) (se_resolve env p) of None \<Rightarrow> [] | Some t \<Rightarrow> t)
             in (Inr \<lparr>so_alias = ac_alias c, so_hostname = Some (ac_hostname c), so_port = Some (ac_port c), so_user = ac_user c\<rparr>,
                 env\<lparr>se_files := AList.update (se_resolve env p) (old @ appended_text old c) (se_files env)\<rparr>)))"

text \<open>Truncating a file to more than its length fills it with zeros; a file that is gone cannot be opened.\<close>

definition ssh_rollback :: "path \<Rightarrow> nat option \<Rightarrow> ssh_env \<Rightarrow> ssh_env" where
  "ssh_rollback p prior_size env =
     (case prior_size of
        None \<Rightarrow> env\<lparr>se_files := AList.delete (se_resolve env p) (se_files env)\<rparr>
      | Some n \<Rightarrow>
          (case map_of (se_files env) (se_resolve env p) of
             None \<Rightarrow> env
           | Some t \<Rightarrow> env\<lparr>se_files := AList.update (se_resolve env p) (take n t @ replicate (n - length t) (CHR 0x00)) (se_files env)\<rparr>))"

text \<open>What the dial of the new alias ends with, and what others do to the files while it lasts.\<close>

definition add_verified_host_alias ::
  "(ssh_env \<Rightarrow> ssh_env) \<Rightarrow> ssh_error option \<Rightarrow> ssh_env \<Rightarrow> path \<Rightarrow> alias_create \<Rightarrow> (ssh_error + ssh_option) \<times> ssh_env" where
  "add_verified_host_alias meanwhile dial env p c =
     (let prior_size = map_option length (map_of (se_files env) (se_resolve env p))
      in bind_state (add_host_alias env p c) (\<lambda>opt env1.
           let env2 = meanwhile env1
           in case dial of None \<Rightarrow> (Inr opt, env2) | Some e \<Rightarrow> (Inl e, ssh_rollback p prior_size env2)))"

end
