(* ===== verification/SshConfigProps.thy ===== *)
theory SshConfigProps
  imports SshConfig
begin

text \<open>
  What the SSH configuration guarantees: reading ends on every graph of includes, listing and resolving
  agree, values of credential directives do not matter, an appended entry is read back as it was given.
\<close>

section \<open>Includes end\<close>

definition answers :: "path list \<Rightarrow> (path \<Rightarrow> path list \<Rightarrow> (host_block list \<times> path list) option) \<Rightarrow> bool" where
  "answers v0 f \<longleftrightarrow> (\<forall>q v. set v0 \<subseteq> set v \<longrightarrow> distinct v \<longrightarrow>
     (\<exists>b v'. f q v = Some (b, v') \<and> set v \<subseteq> set v' \<and> distinct v'))"

lemma fold_includes_answers:
  "answers v0 f \<Longrightarrow> set v0 \<subseteq> set v \<Longrightarrow> distinct v \<Longrightarrow>
   \<exists>b v'. fold_includes f ps (blocks, current, v) = Some (b, current, v') \<and> set v \<subseteq> set v' \<and> distinct v'"
proof (induction ps arbitrary: blocks v)
  case (Cons p ps)
  from Cons.prems obtain b v1 where f: "f p v = Some (b, v1)" "set v \<subseteq> set v1" "distinct v1"
    unfolding answers_def by blast
  with Cons.prems have "set v0 \<subseteq> set v1" by blast
  from Cons.IH [OF Cons.prems(1) this f(3)] f show ?case by fastforce
qed simp

lemma scan_lines_cases:
  obtains (inclusion) args where "parse_line line = Some (''include'', args)" "args \<noteq> []"
  | (plain) sc' where "\<And>f inc lines. scan_lines f inc (line # lines) (blocks, current, visited) = scan_lines f inc lines sc'"
      "snd (snd sc') = visited"
proof (cases "parse_line line")
  case None
  then show thesis using plain [of "(blocks, current, visited)"] by simp
next
  case (Some d)
  obtain kw args where d: "d = (kw, args)" by (cases d)
  obtain b c where b: "scan_directive kw args (blocks, current) = (b, c)" by fastforce
  show thesis
  proof (cases "args = []")
    case True
    then show thesis using plain [of "(blocks, current, visited)"] Some d by simp
  next
    case False
    then show thesis using plain [of "(b, c, visited)"] inclusion Some d b by (cases "kw = ''include''") simp_all
  qed
qed

lemma scan_lines_answers:
  "answers v0 f \<Longrightarrow> set v0 \<subseteq> set v \<Longrightarrow> distinct v \<Longrightarrow>
   \<exists>b cur v'. scan_lines f includes lines (blocks, current, v) = Some (b, cur, v') \<and> set v \<subseteq> set v' \<and> distinct v'"
proof (induction lines arbitrary: blocks current v)
  case (Cons line lines)
  show ?case
  proof (cases rule: scan_lines_cases [where line = line and blocks = blocks and current = current and visited = v, case_names inclusion plain])
    case (inclusion args)
    obtain b v1 where inc: "fold_includes f (concat (map includes args)) (blocks, current, v) = Some (b, current, v1)"
      "set v \<subseteq> set v1" "distinct v1" using fold_includes_answers [OF Cons.prems] by metis
    with Cons.prems have "set v0 \<subseteq> set v1" by blast
    from Cons.IH [OF Cons.prems(1) this inc(3), of b current] inc inclusion show ?thesis by fastforce
  next
    case (plain sc1)
    obtain b c where sc1: "sc1 = (b, c, v)" using plain(2) by (cases sc1) simp
    show ?thesis unfolding plain(1) sc1 by (rule Cons.IH [OF Cons.prems])
  qed
qed simp

lemma iter_blocks_ends:
  "distinct v \<Longrightarrow> card (fst ` set (se_files env) - set v) < n \<Longrightarrow>
   \<exists>b v'. iter_blocks n env p v = Some (b, v') \<and> set v \<subseteq> set v' \<and> distinct v'"
proof (induction n arbitrary: p v)
  case (Suc n)
  let ?files = "fst ` set (se_files env)" and ?r = "se_resolve env p"
  show ?case
  proof (cases "?r \<in> set v \<or> read_config env p = None")
    case False
    then obtain content where content: "?r \<notin> set v" "read_config env p = Some content" by auto
    then have "?r \<in> ?files" by (auto simp: read_config_def dest: map_of_SomeD intro: rev_image_eqI)
    with content have "card (?files - set (?r # v)) < card (?files - set v)"
      by (intro psubset_card_mono) auto
    with Suc.prems have small: "card (?files - set (?r # v)) < n" by linarith
    have "answers (?r # v) (iter_blocks n env)"
      unfolding answers_def
    proof (intro allI impI)
      fix q w
      assume w: "set (?r # v) \<subseteq> set w" "distinct w"
      then have "card (?files - set w) \<le> card (?files - set (?r # v))" by (intro card_mono) auto
      with small Suc.IH [OF w(2)] show "\<exists>b v'. iter_blocks n env q w = Some (b, v') \<and> set w \<subseteq> set v' \<and> distinct v'"
        by simp
    qed
    from scan_lines_answers [OF this subset_refl, of "\<lambda>a. se_includes env a (butlast p)" "splitlines content" "[]" None]
      Suc.prems content show ?thesis by (fastforce simp: Let_def)
  qed (use Suc.prems in \<open>auto simp: Let_def\<close>)
qed simp

definition more_defined :: "('a \<Rightarrow> 'b \<Rightarrow> 'c option) \<Rightarrow> ('a \<Rightarrow> 'b \<Rightarrow> 'c option) \<Rightarrow> bool" where
  "more_defined f g \<longleftrightarrow> (\<forall>a b c. f a b = Some c \<longrightarrow> g a b = Some c)"

lemma fold_includes_more: "more_defined f g \<Longrightarrow> fold_includes f ps sc = Some r \<Longrightarrow> fold_includes g ps sc = Some r"
  by (induction f ps sc rule: fold_includes.induct) (auto simp: more_defined_def split: option.splits)

lemma scan_lines_more: "more_defined f g \<Longrightarrow> scan_lines f inc lines sc = Some r \<Longrightarrow> scan_lines g inc lines sc = Some r"
proof (induction lines arbitrary: sc)
  case (Cons line lines)
  obtain blocks current visited where sc: "sc = (blocks, current, visited)" by (cases sc)
  show ?case
  proof (cases rule: scan_lines_cases [where line = line and blocks = blocks and current = current and visited = visited, case_names inclusion plain])
    case (inclusion args)
    with Cons.prems(2) obtain sc1 where sc1: "fold_includes f (concat (map inc args)) (blocks, current, visited) = Some sc1"
      "scan_lines f inc lines sc1 = Some r" by (auto simp: sc split: option.splits)
    with fold_includes_more [OF Cons.prems(1) sc1(1)] Cons.IH [OF Cons.prems(1) sc1(2)] inclusion show ?thesis by (simp add: sc)
  next
    case (plain sc1)
    with Cons show ?thesis by (simp add: sc del: scan_lines.simps)
  qed
qed simp

lemma iter_blocks_more: "more_defined (iter_blocks n env) (iter_blocks (Suc n) env)"
proof (induction n)
  case (Suc n)
  show ?case
    unfolding more_defined_def
  proof (intro allI impI)
    fix p v r
    assume r: "iter_blocks (Suc n) env p v = Some r"
    show "iter_blocks (Suc (Suc n)) env p v = Some r"
      using r [unfolded iter_blocks.simps(2) [of n env p v] Let_def]
      unfolding iter_blocks.simps(2) [of "Suc n" env p v] Let_def
      by (auto simp del: iter_blocks.simps split: option.splits if_splits dest: scan_lines_more [OF Suc])
  qed
qed (simp add: more_defined_def)

declare iter_blocks.simps(2) [simp del]

lemma iter_blocks_more_fuel: "iter_blocks n env p v = Some r \<Longrightarrow> iter_blocks (n + k) env p v = Some r"
proof (induction k)
  case (Suc k)
  then show ?case using iter_blocks_more [of "n + k" env] unfolding more_defined_def by (cases r) simp
qed simp

lemma card_files_less: "card (fst ` set (se_files env) - set v) < Suc (length (se_files env))"
proof -
  have "card (fst ` set (se_files env) - set v) \<le> card (fst ` set (se_files env))" by (intro card_mono) auto
  also have "\<dots> \<le> length (map fst (se_files env))" using card_length [of "map fst (se_files env)"] by simp
  finally show ?thesis by simp
qed

text \<open>C37: whatever the files include, themselves too, reading a configuration ends: one level of nesting more than
  there are files is enough, no file is read twice, and more levels give the same blocks.\<close>

theorem includes_end:
  "\<exists>blocks visited. iter_blocks (Suc (length (se_files env))) env p [] = Some (blocks, visited) \<and> distinct visited
     \<and> (\<forall>k. iter_blocks (Suc (length (se_files env)) + k) env p [] = Some (blocks, visited))"
proof -
  obtain blocks visited where r: "iter_blocks (Suc (length (se_files env))) env p [] = Some (blocks, visited)" "distinct visited"
    using iter_blocks_ends [OF _ card_files_less, of "[]" env p] by auto
  with iter_blocks_more_fuel [OF r(1)] show ?thesis by blast
qed

section \<open>Listing and resolving agree\<close>

lemma merge_block_again [simp]: "merge_block (merge_block old b) b = merge_block old b"
  by (simp add: merge_block_def override_def split: option.split)

lemma merge_patterns_at:
  "fst (merge_patterns b ps (M, order)) a =
     (if is_literal_pattern a \<and> a \<in> set ps
      then Some (merge_block (case M a of None \<Rightarrow> new_block [a] | Some old \<Rightarrow> old) b) else M a)"
  by (induction ps arbitrary: M order) (auto split: option.splits)

lemma merge_patterns_order:
  "distinct order \<Longrightarrow> set order = dom M \<Longrightarrow>
   distinct (snd (merge_patterns b ps (M, order))) \<and> set (snd (merge_patterns b ps (M, order))) = dom (fst (merge_patterns b ps (M, order)))"
proof (induction ps arbitrary: M order)
  case (Cons p ps)
  show ?case
  proof (cases "is_literal_pattern p \<and> M p = None")
    case True
    with Cons.prems have "distinct (order @ [p])" "set (order @ [p]) = dom (M(p \<mapsto> merge_block (new_block [p]) b))" by auto
    from Cons.IH [OF this] True show ?thesis by (simp del: fun_upd_apply)
  next
    case False
    show ?thesis
    proof (cases "is_literal_pattern p")
      case True
      with False obtain old where old: "M p = Some old" by auto
      with Cons.prems have "set order = dom (M(p \<mapsto> merge_block old b))" by auto
      from Cons.IH [OF Cons.prems(1) this] True old show ?thesis by (simp del: fun_upd_apply)
    qed (use Cons in simp)
  qed
qed simp

definition as_merged :: "string \<Rightarrow> bool \<times> host_block \<Rightarrow> host_block option" where
  "as_merged a st = (if fst st then Some ((snd st)\<lparr>hb_patterns := [a]\<rparr>) else None)"

lemma merge_block_patterns: "(merge_block old b)\<lparr>hb_patterns := ps\<rparr> = merge_block (old\<lparr>hb_patterns := ps\<rparr>) b"
  by (simp add: merge_block_def)

lemma merge_all_resolves:
  fixes blocks :: "host_block list"
  assumes "distinct (snd m)" "set (snd m) = dom (fst m)" "fst m a = as_merged a st" "\<not> fst st \<Longrightarrow> snd st = new_block []"
  shows "let m' = fold (\<lambda>b. merge_patterns b (hb_patterns b)) blocks m
    in distinct (snd m') \<and> set (snd m') = dom (fst m') \<and> fst m' a = as_merged a (fold (resolve_step a) blocks st)"
  using assms
proof (induction blocks arbitrary: m st)
  case (Cons b blocks)
  obtain M order where m: "m = (M, order)" by (cases m)
  let ?m = "merge_patterns b (hb_patterns b) m" and ?st = "resolve_step a b st"
  have "fst ?m a = as_merged a ?st"
    using Cons.prems(3,4) by (auto simp: m merge_patterns_at resolve_step_def as_merged_def list_ex_iff merge_block_patterns new_block_def)
  moreover have "distinct (snd ?m)" "set (snd ?m) = dom (fst ?m)"
    using merge_patterns_order [of order M] Cons.prems(1,2) by (simp_all add: m)
  moreover have "\<not> fst ?st \<Longrightarrow> snd ?st = new_block []"
    using Cons.prems(4) by (simp add: resolve_step_def split: if_splits)
  ultimately show ?case using Cons.IH [of ?m ?st] by (simp add: Let_def)
qed simp

definition option_of :: "(string \<rightharpoonup> host_block) \<Rightarrow> string \<Rightarrow> ssh_option" where
  "option_of M a = (let b = the (M a) in
     \<lparr>so_alias = a, so_hostname = Some (hostname_or (hb_hostname b) a), so_port = hb_port b, so_user = hb_user b\<rparr>)"

lemma make_options_eq:
  "make_options M names = (if list_all (\<lambda>a. port_field_ok (hb_port (the (M a)))) names
     then Inr (map (option_of M) names) else Inl ValidationError)"
  by (induction names) (auto simp: make_option_def option_of_def Let_def)

definition resolved_of :: "string \<Rightarrow> ssh_option option \<Rightarrow> resolved_host" where
  "resolved_of a x = (case x of
      None \<Rightarrow> \<lparr>so_alias = a, so_hostname = None, so_port = None, so_user = None, so_found = False\<rparr>
    | Some ex \<Rightarrow> \<lparr>so_alias = so_alias ex, so_hostname = so_hostname ex, so_port = so_port ex, so_user = so_user ex, so_found = True\<rparr>)"

lemma find_option_of:
  "find (\<lambda>ex. so_alias ex = a) (map (option_of M) names) = (if a \<in> set names then Some (option_of M a) else None)"
  by (induction names) (auto simp: option_of_def Let_def)

text \<open>C36: the listing has each alias once, and for every name resolving it gives the fields of its entry in the
  listing, or says that it is not found where the listing has none; where a port is none both fail.\<close>

theorem listing_agrees_with_resolving:
  "case list_host_aliases env p of
     Inr opts \<Rightarrow> distinct (map so_alias opts)
       \<and> (\<forall>a. resolve_alias env p a = Inr (resolved_of a (find (\<lambda>ex. so_alias ex = a) opts)))
   | Inl e \<Rightarrow> \<exists>a. resolve_alias env p a = Inl e"
proof -
  obtain M order where m: "merge_all (host_blocks env p) = (M, order)" by (cases "merge_all (host_blocks env p)")
  define st where "st a = fold (resolve_step a) (host_blocks env p) (False, new_block [])" for a
  have inv: "distinct order" "set order = dom M" "M a = as_merged a (st a)" for a
    using merge_all_resolves [of "(Map.empty, [])" a "(False, new_block [])" "host_blocks env p"] m
    by (simp_all add: merge_all_def as_merged_def st_def Let_def)
  have res: "resolve_alias env p a = (if a \<notin> set order then Inr (resolved_of a None)
      else if port_field_ok (hb_port (the (M a))) then Inr (resolved_of a (Some (option_of M a))) else Inl ValidationError)" for a
    using inv(2) inv(3) [of a] unfolding resolve_alias_def st_def [symmetric]
    by (cases "st a") (auto simp: as_merged_def resolved_of_def option_of_def Let_def split: if_splits)
  show ?thesis
  proof (cases "list_all (\<lambda>a. port_field_ok (hb_port (the (M a)))) order")
    case True
    then have l: "list_host_aliases env p = Inr (map (option_of M) order)" by (simp add: list_host_aliases_def m make_options_eq)
    have "map so_alias (map (option_of M) order) = order" by (simp add: option_of_def Let_def map_idI)
    with True inv(1) show ?thesis by (auto simp: l res find_option_of list_all_iff simp del: map_map)
  next
    case False
    then obtain a where "a \<in> set order" "\<not> port_field_ok (hb_port (the (M a)))" by (auto simp: list_all_iff)
    then have "resolve_alias env p a = Inl ValidationError" by (simp add: res)
    with False show ?thesis by (auto simp: list_host_aliases_def m make_options_eq)
  qed
qed

section \<open>Lines of a text\<close>

lemma split_lines_end:
  "is_line_end c \<Longrightarrow> c \<noteq> CHR 0x0D \<Longrightarrow> split_lines acc (c # cs) = rev acc # split_lines [] cs"
  by (cases cs) simp_all

lemma split_lines_return:
  "split_lines acc (CHR 0x0D # cs) = rev acc # split_lines [] (case cs of d # ds \<Rightarrow> if d = CHR 0x0A then ds else cs | [] \<Rightarrow> [])"
  by (cases cs) (simp_all add: is_line_end_def char_code_def)

lemma newline_ends: "is_line_end (CHR 0x0A)"
  by (simp add: is_line_end_def char_code_def)

declare split_lines.simps(2) [simp del]

lemma split_lines_inside [simp]: "\<not> is_line_end c \<Longrightarrow> split_lines acc (c # cs) = split_lines (c # acc) cs"
  by (simp add: split_lines.simps(2))

lemma split_lines_newline [simp]: "split_lines acc (CHR 0x0A # cs) = rev acc # split_lines [] cs"
  by (rule split_lines_end) (simp_all add: newline_ends)

lemma split_universal: "split_lines acc (universal_newlines s) = split_lines acc s"
proof (induction s arbitrary: acc rule: universal_newlines.induct)
  case (2 c cs)
  show ?case
  proof (cases "c = CHR 0x0D")
    case True
    then show ?thesis using 2 by (cases cs) (auto simp: split_lines_return)
  next
    case False
    then show ?thesis using 2(3) by (cases "is_line_end c") (simp_all add: split_lines_end)
  qed
qed simp

lemma splitlines_universal [simp]: "splitlines (universal_newlines s) = splitlines s"
  by (simp add: splitlines_def split_universal)

text \<open>A newline between two texts separates their lines; an empty line may be between them.\<close>

lemma split_lines_append:
  "\<exists>blanks. list_all (\<lambda>l. l = []) blanks \<and> split_lines acc (a @ NL @ b) = split_lines acc a @ blanks @ splitlines b"
proof (induction acc a rule: split_lines.induct)
  case (1 acc)
  show ?case by (rule exI [of _ "if acc = [] then [[]] else []"]) (simp add: NL_def splitlines_def)
next
  case (2 acc c cs)
  show ?case
  proof (cases "is_line_end c")
    case False
    with 2(1) show ?thesis by simp
  next
    case line_end: True
    show ?thesis
    proof (cases "c = CHR 0x0D")
      case False
      then have "\<And>s. split_lines acc (c # s) = rev acc # split_lines [] s" using line_end by (simp add: split_lines_end)
      moreover have "\<exists>blanks. list_all (\<lambda>l. l = []) blanks \<and> split_lines [] (cs @ NL @ b) = split_lines [] cs @ blanks @ splitlines b"
      proof (cases cs)
        case Nil
        then show ?thesis by (intro exI [of _ "[[]]"]) (simp add: NL_def splitlines_def)
      next
        case (Cons d ds)
        with 2(3) [OF _ Cons] False line_end show ?thesis by auto
      qed
      ultimately show ?thesis by auto
    next
      case True
      show ?thesis
      proof (cases cs)
        case Nil
        with True show ?thesis by (intro exI [of _ "[]"]) (simp add: split_lines_return NL_def splitlines_def)
      next
        case (Cons d ds)
        then show ?thesis
          using True 2(2) [OF _ Cons] 2(3) [OF _ Cons] line_end by (cases "d = CHR 0x0A") (auto simp: split_lines_return)
      qed
    qed
  qed
qed

lemma split_lines_plain: "list_all (\<lambda>c. \<not> is_line_end c) l \<Longrightarrow> split_lines acc (l @ NL @ s) = (rev acc @ l) # splitlines s"
  by (induction l arbitrary: acc) (simp_all add: NL_def splitlines_def)

lemma str_join_lines: "ls \<noteq> [] \<Longrightarrow> str_join NL ls @ NL = concat (map (\<lambda>l. l @ NL) ls)"
  by (induction NL ls rule: str_join.induct) simp_all

lemma splitlines_lines:
  "list_all (list_all (\<lambda>c. \<not> is_line_end c)) ls \<Longrightarrow> splitlines (concat (map (\<lambda>l. l @ NL) ls)) = ls"
proof (induction ls)
  case (Cons l ls)
  then show ?case using split_lines_plain [of l "[]" "concat (map (\<lambda>l. l @ NL) ls)"] by (simp add: splitlines_def)
qed (simp add: splitlines_def)

section \<open>Reading the lines that are written\<close>

text \<open>Characters that the tokenizer takes as they are.\<close>

definition plain_char :: "char \<Rightarrow> bool" where
  "plain_char c \<longleftrightarrow> \<not> is_space c \<and> \<not> is_quote c \<and> \<not> is_escape c \<and> c \<noteq> CHR ''#''"

definition plain_word :: "string \<Rightarrow> bool" where
  "plain_word s \<longleftrightarrow> s \<noteq> [] \<and> list_all plain_char s"

lemma lex_space_is_space: "lex_space c \<Longrightarrow> is_space c"
  by (auto simp: lex_space_def is_space_def)

lemma shlex_in_word:
  "token \<noteq> [] \<Longrightarrow> list_all plain_char s \<Longrightarrow> shlex_tokens InWord token quoted s = Some [token @ s]"
proof (induction s arbitrary: token)
  case (Cons c s)
  then show ?case using lex_space_is_space [of c] by (auto simp: plain_char_def)
qed (simp add: emit_token_def)

lemma shlex_split_plain: "plain_word s \<Longrightarrow> shlex_split s = Some [s]"
  using lex_space_is_space [of "hd s"] shlex_in_word [of "[hd s]" "tl s" False]
  by (cases s) (auto simp: plain_word_def shlex_split_def plain_char_def)

definition tight :: "string \<Rightarrow> bool" where
  "tight s \<longleftrightarrow> s \<noteq> [] \<and> \<not> is_space (hd s) \<and> \<not> is_space (last s)"

lemma plain_word_tight: "plain_word s \<Longrightarrow> tight s"
  by (cases s) (auto simp: plain_word_def tight_def plain_char_def list_all_iff)

lemma dropWhile_tight: "tight s \<Longrightarrow> dropWhile is_space s = s"
  by (cases s) (simp_all add: tight_def)

lemma strip_space_tight: "list_all is_space indent \<Longrightarrow> tight s \<Longrightarrow> strip_space (indent @ s) = s"
proof -
  assume "list_all is_space indent" "tight s"
  then have "dropWhile is_space (indent @ s) = s"
    by (simp add: dropWhile_append2 list_all_iff dropWhile_tight)
  moreover have "tight (rev s)" using \<open>tight s\<close> by (simp add: tight_def hd_rev last_rev)
  ultimately show ?thesis by (simp add: strip_space_def dropWhile_tight)
qed

lemma tight_iff_stripped: "s \<noteq> [] \<Longrightarrow> strip_space s = s \<Longrightarrow> tight s"
proof -
  assume s: "s \<noteq> []" "strip_space s = s"
  have len: "length (dropWhile is_space xs) \<le> length xs" for xs :: string by (rule length_dropWhile_le)
  have "length s \<le> length (dropWhile is_space s)"
    using s(2) len [of "rev (dropWhile is_space s)"] by (metis strip_space_def length_rev)
  moreover have "length (takeWhile is_space s) + length (dropWhile is_space s) = length s"
    by (metis length_append takeWhile_dropWhile_id)
  ultimately have "length (takeWhile is_space s) = 0" by linarith
  then have "takeWhile is_space s = []" by simp
  then have d: "dropWhile is_space s = s" by (metis append_Nil takeWhile_dropWhile_id)
  then have "dropWhile is_space (rev s) = rev s" using s(2) by (metis strip_space_def rev_rev_ident)
  with d s(1) show "tight s" by (simp add: tight_def dropWhile_eq_self_iff hd_rev)
qed

lemma parse_line_directive:
  assumes "list_all is_space indent" "kw \<noteq> []" "list_all (\<lambda>c. \<not> is_separator c) kw" "hd kw \<noteq> CHR ''#''" "tight v"
  shows "parse_line (indent @ kw @ '' '' @ v) = map_option (\<lambda>args. (py_lower kw, args)) (shlex_split v)"
proof -
  have "tight (kw @ '' '' @ v)"
    using assms(2,3,5) by (cases kw) (auto simp: tight_def is_separator_def)
  then have strip: "strip_space (indent @ kw @ '' '' @ v) = kw @ '' '' @ v"
    using assms(1) strip_space_tight [of indent "kw @ '' '' @ v"] by simp
  have sp: "is_separator (CHR '' '')" "is_space (CHR '' '')" by (simp_all add: is_separator_def is_space_def char_code_def)
  obtain c cs where kw: "kw = c # cs" using assms(2) by (cases kw) auto
  have "match_directive (kw @ '' '' @ v) = Some (kw, v)"
    using assms(3) sp dropWhile_tight [OF assms(5)]
    by (simp add: kw match_directive_def takeWhile_append2 dropWhile_append2 list_all_iff Let_def is_separator_def)
  moreover have "kw @ '' '' @ v \<noteq> []" "\<not> starts_with ''#'' (kw @ '' '' @ v)"
    using assms(4) by (simp_all add: kw starts_with_def)
  ultimately show ?thesis by (simp add: parse_line_def strip Let_def del: append.simps)
qed

lemma int_digits_nat_str: "list_all is_digit s \<Longrightarrow> after \<or> s \<noteq> [] \<Longrightarrow>
    int_digits after n s = Some (foldl (\<lambda>a c. 10 * a + digit_val c) n s)"
  by (induction s arbitrary: after n) auto

lemma digit_plain: "is_digit c \<Longrightarrow> plain_char c"
  by (auto simp: is_digit_def plain_char_def is_space_def is_quote_def is_escape_def char_code_def)

lemma alnum_plain: "is_alnum c \<or> c \<in> {CHR ''.'', CHR ''_'', CHR ''-''} \<Longrightarrow> plain_char c"
  by (auto simp: is_alnum_def is_digit_def plain_char_def is_space_def is_quote_def is_escape_def char_code_def)

lemma nat_str_plain: "plain_word (nat_str n)"
  using nat_str_digits [of n] nat_str_nonempty [of n] by (auto simp: plain_word_def list_all_iff digit_plain)

lemma parse_int_nat_str: "parse_int (nat_str n) = Some (int n)"
proof -
  have tight: "tight (nat_str n)" by (rule plain_word_tight [OF nat_str_plain])
  obtain c cs where s: "nat_str n = c # cs" using nat_str_nonempty [of n] by (cases "nat_str n") auto
  then have "is_digit c" using nat_str_digits [of n] by simp
  then have "c \<noteq> CHR ''-''" "c \<noteq> CHR ''+''" by (auto simp: is_digit_def)
  moreover have "int_digits False 0 (nat_str n) = Some n"
    using int_digits_nat_str [OF nat_str_digits, of False n 0] nat_str_nonempty [of n] nat_of_digits_nat_str [of n]
    by (simp add: nat_of_digits_def)
  ultimately show ?thesis using strip_space_tight [of "[]" "nat_str n"] tight s by (simp add: parse_int_def)
qed

lemma lower_keywords:
  "py_lower ''Host'' = ''host''" "py_lower ''HostName'' = ''hostname''" "py_lower ''Port'' = ''port''" "py_lower ''User'' = ''user''"
  "py_lower ''IdentityFile'' = ''identityfile''" "py_lower ''IdentitiesOnly'' = ''identitiesonly''"
  by code_simp+

lemma keyword_chars:
  "list_all (\<lambda>c. \<not> is_separator c) ''Host''" "list_all (\<lambda>c. \<not> is_separator c) ''HostName''"
  "list_all (\<lambda>c. \<not> is_separator c) ''Port''" "list_all (\<lambda>c. \<not> is_separator c) ''User''"
  "list_all (\<lambda>c. \<not> is_separator c) ''IdentityFile''" "list_all is_space ''    ''"
  by code_simp+

section \<open>Reading back an entry\<close>

lemma value_ok_ends: "value_ok n s \<Longrightarrow> list_all (\<lambda>c. \<not> is_line_end c) s"
  by (auto simp: value_ok_def is_line_end_def list_all_iff)

lemma line_end_is_space: "is_line_end c \<Longrightarrow> is_space c"
  unfolding is_line_end_def is_space_def by linarith

lemma plain_word_ends: "plain_word s \<Longrightarrow> list_all (\<lambda>c. \<not> is_line_end c) s"
  unfolding plain_word_def plain_char_def list_all_iff using line_end_is_space by blast

definition alias_char :: "char \<Rightarrow> bool" where
  "alias_char c \<longleftrightarrow> is_alnum c \<or> c \<in> {CHR ''.'', CHR ''_'', CHR ''-''}"

lemma alias_ok_chars: "alias_ok s \<Longrightarrow> s \<noteq> [] \<and> list_all alias_char s"
  by (cases s) (auto simp: alias_ok_def alias_char_def list_all_iff)

lemma alias_ok_plain: "alias_ok s \<Longrightarrow> plain_word s"
  using alias_ok_chars [of s] alnum_plain unfolding plain_word_def list_all_iff alias_char_def by blast

lemma alias_ok_literal: "alias_ok s \<Longrightarrow> is_literal_pattern s"
proof -
  assume "alias_ok s"
  then have s: "s \<noteq> []" "list_all alias_char s" by (simp_all add: alias_ok_chars)
  moreover have "\<not> alias_char (CHR ''*'')" "\<not> alias_char (CHR ''?'')" "\<not> alias_char (CHR ''!'')"
    by code_simp+
  ultimately show ?thesis by (cases s) (auto simp: is_literal_pattern_def list_all_iff starts_with_def)
qed

definition entry_user :: "alias_create \<Rightarrow> string option" where
  "entry_user c = (if given_text (ac_user c) then ac_user c else None)"

definition entry_block :: "alias_create \<Rightarrow> host_block" where
  "entry_block c = \<lparr>hb_patterns = [ac_alias c], hb_hostname = Some (ac_hostname c), hb_port = Some (ac_port c), hb_user = entry_user c\<rparr>"

text \<open>The values of an entry that are read back as they are.\<close>

definition plain_entry :: "alias_create \<Rightarrow> bool" where
  "plain_entry c \<longleftrightarrow> create_ok c \<and> plain_word (ac_hostname c) \<and> (given_text (ac_user c) \<longrightarrow> plain_word (the (ac_user c)))"

lemma entry_lines_ends: "create_ok c \<Longrightarrow> list_all (list_all (\<lambda>c. \<not> is_line_end c)) (entry_lines c)"
proof -
  assume c: "create_ok c"
  have "list_all (\<lambda>c. \<not> is_line_end c) (int_str (ac_port c))"
    using c plain_word_ends [OF nat_str_plain] by (simp add: create_ok_def int_str_def)
  moreover have "list_all (\<lambda>c. \<not> is_line_end c) ''Host ''" "list_all (\<lambda>c. \<not> is_line_end c) ''    HostName ''"
    "list_all (\<lambda>c. \<not> is_line_end c) ''    Port ''" "list_all (\<lambda>c. \<not> is_line_end c) ''    User ''"
    "list_all (\<lambda>c. \<not> is_line_end c) ''    IdentityFile ''" "list_all (\<lambda>c. \<not> is_line_end c) ''    IdentitiesOnly yes''"
    by code_simp+
  moreover have "list_all (\<lambda>c. \<not> is_line_end c) (ac_alias c)" "list_all (\<lambda>c. \<not> is_line_end c) (ac_hostname c)"
    "given_text (ac_user c) \<Longrightarrow> list_all (\<lambda>c. \<not> is_line_end c) (the (ac_user c))"
    "given_text (ac_identity_file c) \<Longrightarrow> list_all (\<lambda>c. \<not> is_line_end c) (the (ac_identity_file c))"
    using c plain_word_ends [OF alias_ok_plain] value_ok_ends by (auto simp: create_ok_def given_text_def)
  ultimately show ?thesis
    unfolding entry_lines_def by (auto simp only: list_all_append list.pred_inject if_split)
qed

lemma entry_lines_parse:
  assumes "plain_entry c"
  shows "parse_line (''Host '' @ ac_alias c) = Some (''host'', [ac_alias c])"
    and "parse_line (''    HostName '' @ ac_hostname c) = Some (''hostname'', [ac_hostname c])"
    and "parse_line (''    Port '' @ int_str (ac_port c)) = Some (''port'', [int_str (ac_port c)])"
    and "given_text (ac_user c) \<Longrightarrow> parse_line (''    User '' @ the (ac_user c)) = Some (''user'', [the (ac_user c)])"
    and "given_text (ac_identity_file c) \<Longrightarrow> parse_line (''    IdentityFile '' @ the (ac_identity_file c))
           = map_option (\<lambda>args. (''identityfile'', args)) (shlex_split (the (ac_identity_file c)))"
    and "parse_line ''    IdentitiesOnly yes'' = Some (''identitiesonly'', [''yes''])"
proof -
  have ok: "plain_word (ac_alias c)" "plain_word (ac_hostname c)" "plain_word (int_str (ac_port c))"
    using assms alias_ok_plain nat_str_plain by (simp_all add: plain_entry_def create_ok_def int_str_def)
  have d: "parse_line (indent @ kw @ '' '' @ v) = Some (py_lower kw, [v])"
    if "list_all is_space indent" "kw \<noteq> []" "list_all (\<lambda>c. \<not> is_separator c) kw" "hd kw \<noteq> CHR ''#''" "plain_word v" for indent kw v
    using parse_line_directive [OF that(1-4) plain_word_tight [OF that(5)]] shlex_split_plain [OF that(5)] by simp
  show "parse_line (''Host '' @ ac_alias c) = Some (''host'', [ac_alias c])"
    using d [of "[]" "''Host''", OF _ _ keyword_chars(1) _ ok(1)] by (simp add: lower_keywords)
  show "parse_line (''    HostName '' @ ac_hostname c) = Some (''hostname'', [ac_hostname c])"
    using d [OF keyword_chars(6) _ keyword_chars(2) _ ok(2)] by (simp add: lower_keywords)
  show "parse_line (''    Port '' @ int_str (ac_port c)) = Some (''port'', [int_str (ac_port c)])"
    using d [OF keyword_chars(6) _ keyword_chars(3) _ ok(3)] by (simp add: lower_keywords)
  show "parse_line (''    User '' @ the (ac_user c)) = Some (''user'', [the (ac_user c)])" if "given_text (ac_user c)"
    using d [OF keyword_chars(6) _ keyword_chars(4), of "the (ac_user c)"] that assms by (simp add: lower_keywords plain_entry_def)
  show "parse_line (''    IdentityFile '' @ the (ac_identity_file c))
      = map_option (\<lambda>args. (''identityfile'', args)) (shlex_split (the (ac_identity_file c)))" if "given_text (ac_identity_file c)"
  proof -
    from that assms have "tight (the (ac_identity_file c))"
      by (auto simp: given_text_def plain_entry_def create_ok_def intro: tight_iff_stripped)
    from parse_line_directive [OF keyword_chars(6) _ keyword_chars(5) _ this] show ?thesis by (simp add: lower_keywords)
  qed
  show "parse_line ''    IdentitiesOnly yes'' = Some (''identitiesonly'', [''yes''])" by code_simp
qed

lemma parse_line_empty [simp]: "parse_line [] = None"
  by (simp add: parse_line_def strip_space_def Let_def)

lemma scan_lines_blanks: "list_all (\<lambda>l. l = []) blanks \<Longrightarrow> scan_lines f inc (blanks @ ls) sc = scan_lines f inc ls sc"
  by (cases sc, induction blanks) simp_all

lemma scan_lines_append:
  "scan_lines f inc (xs @ ys) sc = (case scan_lines f inc xs sc of None \<Rightarrow> None | Some sc' \<Rightarrow> scan_lines f inc ys sc')"
  by (induction f inc xs sc rule: scan_lines.induct) (auto split: option.split prod.split)

lemma credential_identityfile: "is_credential ''identityfile''"
  by code_simp

lemma scan_entry:
  assumes "plain_entry c"
  shows "scan_lines f inc (entry_lines c) (blocks, current, v) = Some (blocks @ [entry_block c], Some (length blocks), v)"
proof -
  note p = entry_lines_parse [OF assms]
  have cr: "\<not> is_credential ''hostname''" "\<not> is_credential ''port''" "\<not> is_credential ''user''" "\<not> is_credential ''identitiesonly''"
    by code_simp+
  have port: "parse_int (int_str (ac_port c)) = Some (ac_port c)"
    using assms parse_int_nat_str [of "nat (ac_port c)"] by (simp add: plain_entry_def create_ok_def int_str_def)
  define l1 where "l1 = ''Host '' @ ac_alias c"
  define l2 where "l2 = ''    HostName '' @ ac_hostname c"
  define l3 where "l3 = ''    Port '' @ int_str (ac_port c)"
  define l4 where "l4 = ''    User '' @ the (ac_user c)"
  define l5 where "l5 = ''    IdentityFile '' @ the (ac_identity_file c)"
  define l6 where "l6 = ''    IdentitiesOnly yes''"
  note q = p [folded l1_def l2_def l3_def l4_def l5_def l6_def]
  have "entry_lines c = [l1, l2, l3] @ (if given_text (ac_user c) then [l4] else []) @ (if given_text (ac_identity_file c) then [l5, l6] else [])"
    unfolding entry_lines_def l1_def l2_def l3_def l4_def l5_def l6_def by (rule refl)
  then show ?thesis
    by (cases "given_text (ac_user c)"; cases "given_text (ac_identity_file c)"; cases "shlex_split (the (ac_identity_file c))")
      (auto simp: q(1,2,3,6) q(4,5) scan_directive_def apply_directive_def cr credential_identityfile port new_block_def
         entry_block_def entry_user_def given_text_def)
qed

section \<open>Appending\<close>

text \<open>Two readers agree on the files a scan can still reach once the configuration itself is visited.\<close>

definition agree :: "path \<Rightarrow> (path \<Rightarrow> path list \<Rightarrow> (host_block list \<times> path list) option)
    \<Rightarrow> (path \<Rightarrow> path list \<Rightarrow> (host_block list \<times> path list) option) \<Rightarrow> bool" where
  "agree r f g \<longleftrightarrow> (\<forall>q v. r \<in> set v \<longrightarrow> f q v = g q v \<and> (\<forall>b v'. f q v = Some (b, v') \<longrightarrow> r \<in> set v'))"

lemma agreeD: "agree r f g \<Longrightarrow> r \<in> set v \<Longrightarrow> g q v = f q v" "agree r f g \<Longrightarrow> r \<in> set v \<Longrightarrow> f q v = Some (b, v') \<Longrightarrow> r \<in> set v'"
  unfolding agree_def by auto

lemma fold_includes_agree:
  "agree r f g \<Longrightarrow> r \<in> set (snd (snd sc)) \<Longrightarrow>
   fold_includes f ps sc = fold_includes g ps sc \<and> (\<forall>sc'. fold_includes f ps sc = Some sc' \<longrightarrow> r \<in> set (snd (snd sc')))"
proof (induction ps arbitrary: sc)
  case (Cons p ps)
  obtain blocks current v where sc: "sc = (blocks, current, v)" by (cases sc)
  with Cons.prems have v: "r \<in> set v" by simp
  show ?case
  proof (cases "f p v")
    case None
    then show ?thesis using agreeD(1) [OF Cons.prems(1) v, of p] by (simp add: sc)
  next
    case (Some x)
    obtain b v' where x: "x = (b, v')" by (cases x)
    have "r \<in> set (snd (snd (blocks @ b, current, v')))" using agreeD(2) [OF Cons.prems(1) v] Some x by simp
    from Cons.IH [OF Cons.prems(1) this] Some agreeD(1) [OF Cons.prems(1) v, of p] show ?thesis by (simp add: sc x)
  qed
qed simp

lemma scan_lines_agree:
  "agree r f g \<Longrightarrow> r \<in> set (snd (snd sc)) \<Longrightarrow>
   scan_lines f inc ls sc = scan_lines g inc ls sc \<and> (\<forall>sc'. scan_lines f inc ls sc = Some sc' \<longrightarrow> r \<in> set (snd (snd sc')))"
proof (induction ls arbitrary: sc)
  case (Cons line ls)
  obtain blocks current v where sc: "sc = (blocks, current, v)" by (cases sc)
  show ?case
  proof (cases rule: scan_lines_cases [where line = line and blocks = blocks and current = current and visited = v, case_names inclusion plain])
    case (inclusion args)
    let ?ps = "concat (map inc args)"
    note inc = fold_includes_agree [OF Cons.prems, of ?ps]
    show ?thesis
    proof (cases "fold_includes f ?ps sc")
      case None
      with inc inclusion show ?thesis by (simp add: sc)
    next
      case (Some sc1)
      with inc have "r \<in> set (snd (snd sc1))" by blast
      from Cons.IH [OF Cons.prems(1) this] inc Some inclusion show ?thesis by (simp add: sc)
    qed
  next
    case (plain sc1)
    with Cons.prems(2) have "r \<in> set (snd (snd sc1))" by (simp add: sc)
    from Cons.IH [OF Cons.prems(1) this] plain(1) show ?thesis by (simp add: sc)
  qed
qed simp

lemma iter_blocks_agree:
  assumes "\<And>q. q \<noteq> r \<Longrightarrow> map_of (se_files env') q = map_of (se_files env) q"
    and "se_resolve env' = se_resolve env" and "se_includes env' = se_includes env"
  shows "agree r (iter_blocks n env) (iter_blocks n env')"
proof (induction n)
  case (Suc n)
  show ?case
    unfolding agree_def
  proof (intro allI impI)
    fix q v
    assume r: "r \<in> set v"
    show "iter_blocks (Suc n) env q v = iter_blocks (Suc n) env' q v
      \<and> (\<forall>b v'. iter_blocks (Suc n) env q v = Some (b, v') \<longrightarrow> r \<in> set v')"
    proof (cases "se_resolve env q \<in> set v")
      case False
      then have "se_resolve env q \<noteq> r" using r by blast
      then have "read_config env' q = read_config env q" using assms(1) [of "se_resolve env q"] assms(2)
        by (simp add: read_config_def)
      with False r scan_lines_agree [OF Suc, of "([], None, se_resolve env q # v)"] assms(2,3) show ?thesis
        by (auto simp: iter_blocks.simps(2) Let_def split: option.split)
    qed (use r assms(2) in \<open>auto simp: iter_blocks.simps(2) Let_def\<close>)
  qed
qed (simp add: agree_def)

lemma universal_newlines_Nil [simp]: "universal_newlines s = [] \<longleftrightarrow> s = []"
  by (cases s) auto

lemma splitlines_appended:
  assumes "create_ok c"
  shows "\<exists>blanks. list_all (\<lambda>l. l = []) blanks \<and> splitlines (t @ appended_text t c) = splitlines t @ blanks @ entry_lines c"
proof -
  have "entry_lines c \<noteq> []" by (simp add: entry_lines_def)
  then have entry: "splitlines (render_entry c) = entry_lines c"
    unfolding render_entry_def using splitlines_lines [OF entry_lines_ends [OF assms]] by (simp add: str_join_lines)
  have one: "\<exists>blanks. list_all (\<lambda>l. l = []) blanks \<and> splitlines (t @ NL @ s) = splitlines t @ blanks @ splitlines s" for t s
    using split_lines_append [of "[]" t s] by (simp add: splitlines_def)
  have blank: "splitlines (NL @ s) = [] # splitlines s" for s by (simp add: NL_def splitlines_def)
  show ?thesis
  proof (cases "t = []")
    case True
    then show ?thesis using entry by (intro exI [of _ "[]"]) (simp add: appended_text_def splitlines_def)
  next
    case False
    obtain bs where bs: "list_all (\<lambda>l. l = []) bs" "splitlines (t @ NL @ render_entry c) = splitlines t @ bs @ entry_lines c"
      using one [of t "render_entry c"] entry by auto
    obtain bs' where bs': "list_all (\<lambda>l. l = []) bs'" "splitlines (t @ NL @ NL @ render_entry c) = splitlines t @ bs' @ [] # entry_lines c"
      using one [of t "NL @ render_entry c"] entry by (auto simp: blank)
    show ?thesis
    proof (cases "ends_with NL (universal_newlines t)")
      case True
      with False bs show ?thesis by (intro exI [of _ bs]) (simp add: appended_text_def)
    next
      case not_ended: False
      with False bs' show ?thesis by (intro exI [of _ "bs' @ [[]]"]) (simp add: appended_text_def)
    qed
  qed
qed

text \<open>The configuration with the entry appended has the blocks it had, and the entry's.\<close>

lemma host_blocks_appended:
  fixes env :: ssh_env and p :: path and c :: alias_create
  assumes "plain_entry c"
  defines "r \<equiv> se_resolve env p"
  defines "old \<equiv> (case map_of (se_files env) r of None \<Rightarrow> [] | Some t \<Rightarrow> t)"
  defines "env' \<equiv> env\<lparr>se_files := AList.update r (old @ appended_text old c) (se_files env)\<rparr>"
  shows "host_blocks env' p = host_blocks env p @ [entry_block c]"
proof -
  define m where "m = length (se_files env) + length (se_files env')"
  let ?inc = "\<lambda>a. se_includes env a (butlast p)"
  have blocks: "host_blocks e p = (case iter_blocks (Suc m) e p [] of None \<Rightarrow> [] | Some (blocks, visited) \<Rightarrow> blocks)"
    if "e = env \<or> e = env'" for e
  proof -
    obtain b v where "\<forall>k. iter_blocks (Suc (length (se_files e)) + k) e p [] = Some (b, v)"
      using includes_end [of e p] by blast
    from this [rule_format, of 0] this [rule_format, of "m - length (se_files e)"] that
    show ?thesis by (auto simp: host_blocks_def m_def add.commute)
  qed
  have files: "map_of (se_files env') q = (if q = r then Some (old @ appended_text old c) else map_of (se_files env) q)" for q
    by (simp add: env'_def update_conv')
  have agr: "agree r (iter_blocks m env) (iter_blocks m env')"
    by (rule iter_blocks_agree) (simp_all add: files, simp_all add: env'_def)
  have create: "create_ok c" using assms(1) by (simp add: plain_entry_def)
  obtain blanks where blanks: "list_all (\<lambda>l. l = []) blanks" "splitlines (old @ appended_text old c) = splitlines old @ blanks @ entry_lines c"
    using splitlines_appended [OF create] by blast
  have "answers [r] (iter_blocks m env)"
    unfolding answers_def
  proof (intro allI impI)
    fix q v
    assume v: "set [r] \<subseteq> set v" "distinct v"
    have "se_files env' \<noteq> []" using files [of r] by (cases "se_files env'") auto
    then have "card (fst ` set (se_files env) - set v) < m"
      using card_files_less [of env v] by (cases "se_files env'") (simp_all add: m_def)
    from iter_blocks_ends [OF v(2) this] show "\<exists>b v'. iter_blocks m env q v = Some (b, v') \<and> set v \<subseteq> set v' \<and> distinct v'" .
  qed
  from scan_lines_answers [OF this subset_refl, of ?inc "splitlines old" "[]" None]
  obtain b cur v where scan: "scan_lines (iter_blocks m env) ?inc (splitlines old) ([], None, [r]) = Some (b, cur, v)" by auto
  have old_scan: "iter_blocks (Suc m) env p [] = (if map_of (se_files env) r = None then Some ([], [r]) else Some (b, v))"
    using scan by (auto simp: iter_blocks.simps(2) Let_def read_config_def r_def [symmetric] old_def split: option.split)
  moreover have "iter_blocks (Suc m) env' p [] = Some (b @ [entry_block c], v)"
  proof -
    have "scan_lines (iter_blocks m env') ?inc (splitlines old) ([], None, [r]) = Some (b, cur, v)"
      using scan_lines_agree [OF agr, of "([], None, [r])"] scan by simp
    then have "scan_lines (iter_blocks m env') ?inc (splitlines (old @ appended_text old c)) ([], None, [r])
        = Some (b @ [entry_block c], Some (length b), v)"
      using scan_entry [OF assms(1)] by (simp add: blanks(2) scan_lines_append [of _ _ "splitlines old"] scan_lines_blanks [OF blanks(1)])
    moreover have "se_resolve env' p = r" "se_includes env' = se_includes env" by (simp_all add: env'_def r_def)
    ultimately show ?thesis
      by (simp add: iter_blocks.simps(2) Let_def read_config_def files)
  qed
  moreover have "b = []" if "map_of (se_files env) r = None"
    using scan that by (simp add: old_def splitlines_def)
  ultimately show ?thesis by (auto simp: blocks)
qed

lemma resolve_stays_found: "fst st \<Longrightarrow> fst (fold (resolve_step a) blocks st)"
  by (induction blocks arbitrary: st) (simp_all add: resolve_step_def)

lemma resolve_not_found: "\<not> fst (fold (resolve_step a) blocks st) \<Longrightarrow> fold (resolve_step a) blocks st = st"
proof (induction blocks arbitrary: st)
  case (Cons b blocks)
  have "\<not> fst (resolve_step a b st)" using Cons.prems resolve_stays_found [of "resolve_step a b st" a blocks] by auto
  then have "resolve_step a b st = st" by (simp add: resolve_step_def split: if_splits)
  with Cons show ?case by simp
qed simp

definition entry_option :: "alias_create \<Rightarrow> ssh_option" where
  "entry_option c = \<lparr>so_alias = ac_alias c, so_hostname = Some (ac_hostname c), so_port = Some (ac_port c), so_user = entry_user c\<rparr>"

text \<open>C20: an entry whose host name and user are plain words is read back as it was given, at the end of the
  listing; every other name resolves as before.\<close>

theorem added_host_resolves:
  assumes "plain_entry c" and "add_host_alias env p c = (Inr opt, env')"
  shows "resolve_alias env' p (ac_alias c) = Inr (resolved_of (ac_alias c) (Some (entry_option c)))
    \<and> (\<forall>a. a \<noteq> ac_alias c \<longrightarrow> resolve_alias env' p a = resolve_alias env p a)
    \<and> (\<exists>opts. list_host_aliases env p = Inr opts \<and> list_host_aliases env' p = Inr (opts @ [entry_option c]))"
proof -
  let ?a = "ac_alias c"
  from assms(2) obtain opts where opts: "list_host_aliases env p = Inr opts" "\<not> list_ex (\<lambda>ex. so_alias ex = ?a) opts"
    and env': "host_blocks env' p = host_blocks env p @ [entry_block c]"
    using host_blocks_appended [OF assms(1), of env p]
    by (auto simp: add_host_alias_def Let_def split: sum.splits if_splits)
  have lit: "is_literal_pattern ?a" using assms(1) alias_ok_literal by (simp add: plain_entry_def create_ok_def)
  have port: "port_field_ok (Some (ac_port c))" "ac_hostname c \<noteq> []"
    using assms(1) by (simp_all add: plain_entry_def create_ok_def port_field_ok_def)
  obtain M order where m: "merge_all (host_blocks env p) = (M, order)" by (cases "merge_all (host_blocks env p)")
  have inv: "distinct order" "set order = dom M" "M a = as_merged a (fold (resolve_step a) (host_blocks env p) (False, new_block []))" for a
    using merge_all_resolves [of "(Map.empty, [])" a "(False, new_block [])" "host_blocks env p"] m
    by (simp_all add: merge_all_def as_merged_def Let_def)
  have ok: "list_all (\<lambda>a. port_field_ok (hb_port (the (M a)))) order" "opts = map (option_of M) order"
    using opts(1) by (auto simp: list_host_aliases_def m make_options_eq split: if_splits)
  have absent: "M ?a = None"
    using opts(2) inv(2) by (auto simp: ok(2) list_ex_iff option_of_def Let_def domIff)
  then have st: "fold (resolve_step ?a) (host_blocks env p) (False, new_block []) = (False, new_block [])"
    using inv(3) [of ?a] resolve_not_found [of ?a "host_blocks env p" "(False, new_block [])"]
    by (auto simp: as_merged_def split: if_splits)
  let ?b = "merge_block (new_block [?a]) (entry_block c)" and ?M = "M(?a \<mapsto> merge_block (new_block [?a]) (entry_block c))"
  have fields: "hb_hostname ?b = Some (ac_hostname c)" "hb_port ?b = Some (ac_port c)" "hb_user ?b = entry_user c"
    by (simp_all add: merge_block_def entry_block_def override_def new_block_def split: option.split)
  have "resolve_alias env' p ?a = Inr (resolved_of ?a (Some (entry_option c)))"
    using fields lit port st
    by (simp add: resolve_alias_def env' resolve_step_def entry_block_def merge_block_def new_block_def override_def
        hostname_or_def resolved_of_def entry_option_def split: option.split)
  moreover have "resolve_alias env' p a = resolve_alias env p a" if "a \<noteq> ?a" for a
  proof -
    have "resolve_step a (entry_block c) st = st" for st
      using that by (simp add: resolve_step_def entry_block_def)
    then show ?thesis by (simp add: resolve_alias_def env')
  qed
  moreover have "list_host_aliases env' p = Inr (opts @ [entry_option c])"
  proof -
    have merged: "merge_all (host_blocks env' p) = (?M, order @ [?a])"
      using m lit absent by (simp add: merge_all_def env' entry_block_def)
    have "?a \<notin> set order" using absent inv(2) by (simp add: domIff)
    then have "list_all (\<lambda>a. port_field_ok (hb_port (the (?M a)))) order" "map (option_of ?M) order = opts"
      using ok by (auto simp: list_all_iff option_of_def)
    then show ?thesis
      using port fields
      by (simp add: list_host_aliases_def merged make_options_eq option_of_def entry_option_def hostname_or_def Let_def)
  qed
  ultimately show ?thesis using opts(1) by blast
qed

section \<open>Secrets\<close>

text \<open>A line with a credential directive, whatever its value.\<close>

definition secret_line :: "string \<Rightarrow> bool" where
  "secret_line line \<longleftrightarrow> (let s = strip_space line in s \<noteq> [] \<and> \<not> starts_with ''#'' s
     \<and> (case match_directive s of None \<Rightarrow> False | Some (keyword, rest) \<Rightarrow> is_credential (py_lower keyword)))"

definition same_but_secrets :: "string \<Rightarrow> string \<Rightarrow> bool" where
  "same_but_secrets t t' \<longleftrightarrow> list_all2 (\<lambda>l l'. l = l' \<or> secret_line l \<and> secret_line l') (splitlines t) (splitlines t')"

lemma secret_line_skipped: "secret_line line \<Longrightarrow> scan_lines f inc (line # lines) sc = scan_lines f inc lines sc"
proof -
  assume secret: "secret_line line"
  obtain blocks current visited where sc: "sc = (blocks, current, visited)" by (cases sc)
  from secret obtain kw rest where kw: "match_directive (strip_space line) = Some (kw, rest)" "is_credential (py_lower kw)"
    "strip_space line \<noteq> []" "\<not> starts_with ''#'' (strip_space line)"
    by (auto simp: secret_line_def Let_def split: option.splits)
  have no: "\<not> is_credential ''host''" "\<not> is_credential ''include''" by code_simp+
  have keeps: "scan_directive (py_lower kw) args (blocks, current) = (blocks, current)" for args
    using kw(2) no by (cases "py_lower kw = ''host''") (auto simp: scan_directive_def apply_directive_def list_update_id split: option.split)
  show ?thesis
    using kw no keeps by (cases "shlex_split rest") (auto simp: sc parse_line_def Let_def)
qed

lemma scan_lines_secrets:
  "list_all2 (\<lambda>l l'. l = l' \<or> secret_line l \<and> secret_line l') ls ls' \<Longrightarrow> scan_lines f inc ls sc = scan_lines f inc ls' sc"
proof (induction ls ls' arbitrary: sc rule: list_all2_induct)
  case (Cons l ls l' ls')
  show ?case
  proof (cases "l = l'")
    case False
    with Cons have "secret_line l" "secret_line l'" by auto
    then show ?thesis using Cons.IH by (simp add: secret_line_skipped del: scan_lines.simps)
  next
    case True
    obtain blocks current visited where sc: "sc = (blocks, current, visited)" by (cases sc)
    show ?thesis using Cons.IH by (auto simp: True sc split: option.split prod.split)
  qed
qed simp

lemma iter_blocks_secrets:
  assumes "list_all2 (\<lambda>(p, t) (p', t'). p = p' \<and> same_but_secrets t t') (se_files env) (se_files env')"
    and "se_resolve env' = se_resolve env" and "se_includes env' = se_includes env"
  shows "iter_blocks n env p v = iter_blocks n env' p v"
proof (induction n arbitrary: p v)
  case (Suc n)
  have files: "rel_option same_but_secrets (map_of (se_files env) q) (map_of (se_files env') q)" for q
    using assms(1) by (induction rule: list_all2_induct) auto
  have f: "iter_blocks n env = iter_blocks n env'" by (intro ext) (rule Suc)
  show ?case
  proof (cases "map_of (se_files env) (se_resolve env p)")
    case None
    with files [of "se_resolve env p"] assms(2) show ?thesis
      by (auto simp: iter_blocks.simps(2) Let_def read_config_def)
  next
    case (Some t)
    with files [of "se_resolve env p"] obtain t' where t': "map_of (se_files env') (se_resolve env p) = Some t'" "same_but_secrets t t'"
      by (auto simp: option_rel_Some1)
    from scan_lines_secrets [OF t'(2) [unfolded same_but_secrets_def]] Some t'(1) assms(2,3) f show ?thesis
      by (auto simp: iter_blocks.simps(2) Let_def read_config_def)
  qed
qed simp

text \<open>C26: what the credential directives of the configuration and of the files it includes say, paths of keys,
  agents and passwords, has no influence on what is listed and resolved.\<close>

theorem secrets_do_not_matter:
  assumes "list_all2 (\<lambda>(p, t) (p', t'). p = p' \<and> same_but_secrets t t') (se_files env) (se_files env')"
    and "se_resolve env' = se_resolve env" and "se_includes env' = se_includes env"
  shows "list_host_aliases env' p = list_host_aliases env p \<and> (\<forall>a. resolve_alias env' p a = resolve_alias env p a)"
proof -
  have "length (se_files env') = length (se_files env)" using assms(1) by (auto dest: list_all2_lengthD)
  then have "host_blocks env' p = host_blocks env p" using iter_blocks_secrets [OF assms] by (simp add: host_blocks_def)
  then show ?thesis by (simp add: list_host_aliases_def resolve_alias_def)
qed

section \<open>Taking an entry back\<close>


section \<open>On concrete files\<close>

definition demo_ssh :: "string \<Rightarrow> ssh_env" where
  "demo_ssh t = \<lparr>se_files = [([''config''], t)], se_resolve = id, se_includes = (\<lambda>a d. [d @ [a]])\<rparr>"

definition demo_create :: alias_create where
  "demo_create = \<lparr>ac_alias = ''gpu'', ac_hostname = ''10.0.0.5'', ac_port = 2222, ac_user = Some ''me'', ac_identity_file = Some ''~/my key''\<rparr>"

definition demo_config :: string where
  "demo_config = ''Host web'' @ NL @ ''  HostName=web.example'' @ NL @ ''Include config''"

lemma demo_plain_entry: "plain_entry demo_create"
  by code_simp

lemma demo_added: "isl (fst (add_host_alias (demo_ssh demo_config) [''config''] demo_create)) = False"
  by code_simp

theorem added_host_resolves_witness:
  "resolve_alias (snd (add_host_alias (demo_ssh demo_config) [''config''] demo_create)) [''config''] ''gpu''
   = Inr \<lparr>so_alias = ''gpu'', so_hostname = Some ''10.0.0.5'', so_port = Some 2222, so_user = Some ''me'', so_found = True\<rparr>"
proof -
  obtain opt where "add_host_alias (demo_ssh demo_config) [''config''] demo_create
      = (Inr opt, snd (add_host_alias (demo_ssh demo_config) [''config''] demo_create))"
    using demo_added by (cases "add_host_alias (demo_ssh demo_config) [''config''] demo_create";
        cases "fst (add_host_alias (demo_ssh demo_config) [''config''] demo_create)") auto
  from added_host_resolves [OF demo_plain_entry this] show ?thesis
    by (simp add: demo_create_def resolved_of_def entry_option_def entry_user_def given_text_def)
qed

lemma demo_secrets: "same_but_secrets (''Host a'' @ NL @ ''IdentityFile x'') (''Host a'' @ NL @ ''PasswordAuthentication no'')"
  by code_simp

theorem secrets_do_not_matter_witness:
  "list_host_aliases (demo_ssh (''Host a'' @ NL @ ''PasswordAuthentication no'')) [''config'']
   = list_host_aliases (demo_ssh (''Host a'' @ NL @ ''IdentityFile x'')) [''config'']"
  using secrets_do_not_matter [of "demo_ssh (''Host a'' @ NL @ ''IdentityFile x'')"
      "demo_ssh (''Host a'' @ NL @ ''PasswordAuthentication no'')" "[''config'']"] demo_secrets
  by (simp add: demo_ssh_def del: append.simps)

text \<open>An equals sign with white space before it becomes the value: the alternative of white space comes first.\<close>

lemma spaced_equals_is_value:
  "resolve_alias (demo_ssh (''Host gpu'' @ NL @ ''HostName = gpu.example'' @ NL @ ''Port = 2222'')) [''config''] ''gpu''
   = Inr \<lparr>so_alias = ''gpu'', so_hostname = Some ''='', so_port = None, so_user = None, so_found = True\<rparr>"
  by code_simp

text \<open>One port out of range, in the entry of any alias, makes the whole listing raise.\<close>

definition demo_bad_port :: string where
  "demo_bad_port = ''Host a'' @ NL @ ''Port 0'' @ NL @ ''Host b''"

lemma bad_port_blocks:
  "host_blocks (demo_ssh demo_bad_port) [''config'']
   = [(new_block [''a''])\<lparr>hb_port := Some 0\<rparr>, new_block [''b'']]"
  by code_simp

lemma bad_port_fails_listing:
  "list_host_aliases (demo_ssh demo_bad_port) [''config''] = Inl ValidationError"
proof -
  have "is_literal_pattern ''a''" "is_literal_pattern ''b''" by code_simp+
  then show ?thesis
    by (simp add: list_host_aliases_def bad_port_blocks merge_all_def make_option_def new_block_def merge_block_def override_def
        port_field_ok_def)
qed

text \<open>\<^verbatim>\<open>Match\<close> does not end a block: its directives go to the host before it.\<close>

lemma match_goes_to_host_before:
  "resolve_alias (demo_ssh (''Host a'' @ NL @ ''HostName x'' @ NL @ ''Match user root'' @ NL @ ''HostName y'')) [''config''] ''a''
   = Inr \<lparr>so_alias = ''a'', so_hostname = Some ''y'', so_port = None, so_user = None, so_found = True\<rparr>"
  by code_simp

text \<open>An accepted host name with a number sign is written without quotes and read back shorter.\<close>

lemma unquoted_value_is_cut:
  "create_ok (demo_create\<lparr>ac_hostname := ''a #b''\<rparr>) \<and> parse_line (''    HostName '' @ ''a #b'') = Some (''hostname'', [''a''])"
  by code_simp

text \<open>What is appended while an alias is dialed, another alias too, is lost where the dial fails.\<close>

lemma rollback_drops_later_text:
  assumes "add_host_alias env p c = (Inr opt, env1)" and "map_of (se_files env) (se_resolve env p) = Some t"
    and "map_of (se_files (meanwhile env1)) (se_resolve env p) = Some (t @ s)" and "se_resolve (meanwhile env1) = se_resolve env"
  shows "map_of (se_files (snd (add_verified_host_alias meanwhile (Some e) env p c))) (se_resolve env p) = Some t"
  using assms by (simp add: add_verified_host_alias_def Let_def ssh_rollback_def update_conv')

end
