(* ===== verification/CameraClaims.thy ===== *)
theory CameraClaims
  imports Prelude "HOL-Library.AList"
begin

text \<open>
  The registry that pins the settings of a camera while a runtime session uses it
  (\<^verbatim>\<open>services/camera_claims.py\<close>), and the life of its pins in the websocket of a session
  (\<^verbatim>\<open>api/runtime_ws.py\<close>): claimed at the handshake, released when the session is gone. A fingerprint is
  its key, the JSON text with sorted names; dictionaries are association lists, since the first holder counts.
\<close>

section \<open>The registry\<close>

type_synonym camera_settings = "nat \<times> nat \<times> nat"

record camera =
  cam_name :: string
  cam_fingerprint :: "string option"
  cam_width :: "nat option"
  cam_height :: "nat option"
  cam_fps :: "nat option"

record camera_claim =
  cl_fingerprint :: string
  cl_settings :: camera_settings
  cl_holder :: string
  cl_project_id :: string
  cl_project_name :: string

definition or_zero :: "nat option \<Rightarrow> nat" where
  "or_zero n = (case n of None \<Rightarrow> 0 | Some k \<Rightarrow> k)"

definition settings_from_camera :: "camera \<Rightarrow> camera_settings" where
  "settings_from_camera c = (or_zero (cam_width c), or_zero (cam_height c), or_zero (cam_fps c))"

record claim_registry =
  cr_claims :: "string \<rightharpoonup> (string \<times> camera_claim) list"
  cr_generation :: "string \<rightharpoonup> nat"

definition claim_registry_init :: claim_registry where
  "claim_registry_init = \<lparr>cr_claims = Map.empty, cr_generation = Map.empty\<rparr>"

datatype claim_error =
    CameraSettingsConflictError string camera_settings camera_settings
  | ReselectError string
  | RecordingLockError string

text \<open>The first holder of a camera, if it has any.\<close>

definition first_holder :: "claim_registry \<Rightarrow> string \<Rightarrow> camera_claim option" where
  "first_holder reg fp = (case cr_claims reg fp of None \<Rightarrow> None | Some [] \<Rightarrow> None | Some ((h, c) # hs) \<Rightarrow> Some c)"

fun find_conflict :: "claim_registry \<Rightarrow> camera_claim list \<Rightarrow> claim_error option" where
  "find_conflict reg [] = None"
| "find_conflict reg (incoming # cs) =
     (case first_holder reg (cl_fingerprint incoming) of
        None \<Rightarrow> find_conflict reg cs
      | Some pinned \<Rightarrow>
          if cl_settings pinned \<noteq> cl_settings incoming
          then Some (CameraSettingsConflictError (cl_project_name pinned) (cl_settings pinned) (cl_settings incoming))
          else find_conflict reg cs)"

definition add_pin :: "camera_claim \<Rightarrow> (string \<rightharpoonup> (string \<times> camera_claim) list) \<Rightarrow> (string \<rightharpoonup> (string \<times> camera_claim) list)" where
  "add_pin c m = m(cl_fingerprint c \<mapsto>
     AList.update (cl_holder c) c (case m (cl_fingerprint c) of None \<Rightarrow> [] | Some hs \<Rightarrow> hs))"

definition claim_cameras :: "camera_claim list \<Rightarrow> claim_registry \<Rightarrow> (claim_error + nat) \<times> claim_registry" where
  "claim_cameras cs reg =
     (case find_conflict reg cs of
        Some e \<Rightarrow> (Inl e, reg)
      | None \<Rightarrow>
          (let reg1 = reg\<lparr>cr_claims := fold add_pin cs (cr_claims reg)\<rparr>
           in case cs of
                [] \<Rightarrow> (Inr 0, reg1)
              | c # _ \<Rightarrow>
                  (let g = (case cr_generation reg1 (cl_holder c) of None \<Rightarrow> 0 | Some k \<Rightarrow> k) + 1
                   in (Inr g, reg1\<lparr>cr_generation := (cr_generation reg1)(cl_holder c \<mapsto> g)\<rparr>))))"

definition drop_holder :: "string \<Rightarrow> (string \<times> camera_claim) list option \<Rightarrow> (string \<times> camera_claim) list option" where
  "drop_holder h hs = (case hs of None \<Rightarrow> None
     | Some l \<Rightarrow> (let l' = AList.delete h l in if l' = [] then None else Some l'))"

definition release_cameras :: "string \<Rightarrow> nat option \<Rightarrow> claim_registry \<Rightarrow> claim_registry" where
  "release_cameras h generation reg =
     (if generation \<noteq> None \<and> cr_generation reg h \<noteq> generation then reg
      else reg\<lparr>cr_claims := (\<lambda>fp. drop_holder h (cr_claims reg fp))\<rparr>)"

definition holder_of :: "string \<Rightarrow> claim_registry \<Rightarrow> camera_claim option" where
  "holder_of fp reg = first_holder reg fp"

text \<open>A camera that is pinned is neither changed nor deleted.\<close>

definition ensure_not_claimed :: "string option \<Rightarrow> claim_registry \<Rightarrow> claim_error + unit" where
  "ensure_not_claimed fp reg =
     (case fp of
        None \<Rightarrow> Inr ()
      | Some k \<Rightarrow> (case holder_of k reg of None \<Rightarrow> Inr () | Some h \<Rightarrow> Inl (RecordingLockError (cl_project_name h))))"

section \<open>The pins of websockets\<close>

definition camera_claims :: "camera list \<Rightarrow> string \<Rightarrow> string \<Rightarrow> string \<Rightarrow> claim_error + camera_claim list" where
  "camera_claims cameras session_name project_id project_name =
     (case find (\<lambda>c. cam_fingerprint c = None) cameras of
        Some c \<Rightarrow> Inl (ReselectError (cam_name c))
      | None \<Rightarrow> Inr (map (\<lambda>c. \<lparr>cl_fingerprint = the (cam_fingerprint c), cl_settings = settings_from_camera c,
                               cl_holder = session_name, cl_project_id = project_id, cl_project_name = project_name\<rparr>) cameras))"

text \<open>
  A websocket that has claimed its cameras, with the generation it was given; a waiter is what is left of it when
  it closes while its session lives, until the session is seen dead.
\<close>

record pin_owner =
  po_id :: nat
  po_holder :: string
  po_generation :: nat
  po_claims :: "camera_claim list"

record pin_state =
  ps_registry :: claim_registry
  ps_sockets :: "pin_owner list"
  ps_waiters :: "pin_owner list"

definition pin_init :: pin_state where
  "pin_init = \<lparr>ps_registry = claim_registry_init, ps_sockets = [], ps_waiters = []\<rparr>"

text \<open>
  \<open>Handshake\<close>: a websocket claims, or fails and ends. \<open>SocketEnds\<close>: the last block of the websocket, told
  whether its owner is there and alive; it is also the release that follows a failure to start. \<open>SessionDies\<close>:
  the poll of a waiter finds its session dead.
\<close>

datatype pin_event =
    Handshake nat "camera list" string string string
  | SocketEnds nat bool
  | SessionDies nat

definition pin_release :: "pin_owner \<Rightarrow> pin_state \<Rightarrow> pin_state" where
  "pin_release po s = s\<lparr>ps_registry := release_cameras (po_holder po) (Some (po_generation po)) (ps_registry s)\<rparr>"

definition handshake :: "nat \<Rightarrow> camera list \<Rightarrow> string \<Rightarrow> string \<Rightarrow> string \<Rightarrow> pin_state \<Rightarrow> (claim_error + unit) \<times> pin_state" where
  "handshake i cameras name project_id project_name s =
     (case camera_claims cameras name project_id project_name of
        Inl e \<Rightarrow> (Inl e, s)
      | Inr cs \<Rightarrow>
          (case claim_cameras cs (ps_registry s) of
             (Inl e, reg) \<Rightarrow> (Inl e, s\<lparr>ps_registry := reg\<rparr>)
           | (Inr g, reg) \<Rightarrow>
               (Inr (), s\<lparr>ps_registry := reg,
                  ps_sockets := \<lparr>po_id = i, po_holder = name, po_generation = g, po_claims = cs\<rparr> # ps_sockets s\<rparr>)))"

fun pin_step :: "pin_state \<Rightarrow> pin_event \<Rightarrow> pin_state" where
  "pin_step s (Handshake i cameras name project_id project_name) =
     (if \<exists>po\<in>set (ps_sockets s @ ps_waiters s). po_id po = i then s
      else snd (handshake i cameras name project_id project_name s))"
| "pin_step s (SocketEnds i alive) =
     (case find (\<lambda>po. po_id po = i) (ps_sockets s) of
        None \<Rightarrow> s
      | Some po \<Rightarrow>
          (let s1 = s\<lparr>ps_sockets := filter (\<lambda>q. po_id q \<noteq> i) (ps_sockets s)\<rparr>
           in if alive then s1\<lparr>ps_waiters := po # ps_waiters s1\<rparr> else pin_release po s1))"
| "pin_step s (SessionDies i) =
     (case find (\<lambda>po. po_id po = i) (ps_waiters s) of
        None \<Rightarrow> s
      | Some po \<Rightarrow> pin_release po (s\<lparr>ps_waiters := filter (\<lambda>q. po_id q \<noteq> i) (ps_waiters s)\<rparr>))"

section \<open>What the pins guarantee\<close>

text \<open>The claim a holder has on a camera.\<close>

definition pinned :: "claim_registry \<Rightarrow> string \<Rightarrow> string \<Rightarrow> camera_claim option" where
  "pinned reg fp h = (case cr_claims reg fp of None \<Rightarrow> None | Some hs \<Rightarrow> map_of hs h)"

definition holders_ok :: "string \<Rightarrow> (string \<times> camera_claim) list \<Rightarrow> bool" where
  "holders_ok fp hs \<longleftrightarrow> distinct (map fst hs) \<and> (\<forall>p\<in>set hs. cl_fingerprint (snd p) = fp \<and> cl_holder (snd p) = fst p)
     \<and> (\<forall>p\<in>set hs. \<forall>q\<in>set hs. cl_settings (snd p) = cl_settings (snd q))"

definition registry_ok :: "claim_registry \<Rightarrow> bool" where
  "registry_ok reg \<longleftrightarrow> (\<forall>fp hs. cr_claims reg fp = Some hs \<longrightarrow> hs \<noteq> [] \<and> holders_ok fp hs)
     \<and> (\<forall>h g. cr_generation reg h = Some g \<longrightarrow> 0 < g)"

definition current :: "claim_registry \<Rightarrow> pin_owner \<Rightarrow> bool" where
  "current reg po \<longleftrightarrow> cr_generation reg (po_holder po) = Some (po_generation po)"

definition generation_of :: "claim_registry \<Rightarrow> string \<Rightarrow> nat" where
  "generation_of reg h = (case cr_generation reg h of None \<Rightarrow> 0 | Some g \<Rightarrow> g)"

text \<open>
  Every camera of the newest claim of a session is pinned for it, and every pin is of a session whose newest
  claim has a websocket or a waiter that will release it.
\<close>

definition claims_pinned :: "claim_registry \<Rightarrow> pin_owner \<Rightarrow> bool" where
  "claims_pinned reg po \<longleftrightarrow> (\<forall>c\<in>set (po_claims po). \<exists>d\<in>set (po_claims po).
     cl_fingerprint d = cl_fingerprint c \<and> pinned reg (cl_fingerprint c) (po_holder po) = Some d)"

definition owners_ok :: "claim_registry \<Rightarrow> pin_owner set \<Rightarrow> bool" where
  "owners_ok reg pos \<longleftrightarrow>
     (\<forall>po\<in>pos. po_generation po \<le> generation_of reg (po_holder po) \<and> (current reg po \<longrightarrow> claims_pinned reg po))
     \<and> (\<forall>po\<in>pos. \<forall>q\<in>pos. po_holder po = po_holder q \<longrightarrow> current reg po \<longrightarrow> current reg q \<longrightarrow> po = q)
     \<and> (\<forall>fp h. pinned reg fp h \<noteq> None \<longrightarrow> (\<exists>po\<in>pos. po_holder po = h \<and> current reg po))"

definition pin_owners :: "pin_state \<Rightarrow> pin_owner list" where
  "pin_owners s = ps_sockets s @ ps_waiters s"

definition pins_ok :: "pin_state \<Rightarrow> bool" where
  "pins_ok s \<longleftrightarrow> registry_ok (ps_registry s) \<and> distinct (map po_id (pin_owners s))
     \<and> owners_ok (ps_registry s) (set (pin_owners s))"

section \<open>The registry keeps its invariant\<close>

abbreviation holders_at :: "(string \<rightharpoonup> (string \<times> camera_claim) list) \<Rightarrow> string \<Rightarrow> (string \<times> camera_claim) list" where
  "holders_at m fp \<equiv> (case m fp of None \<Rightarrow> [] | Some hs \<Rightarrow> hs)"

lemma fold_add_pin:
  assumes "\<forall>c\<in>set cs. cl_holder c = h"
  shows "fold add_pin cs m fp = (case filter (\<lambda>c. cl_fingerprint c = fp) cs of
      [] \<Rightarrow> m fp
    | c # l \<Rightarrow> Some (AList.update h (last (c # l)) (holders_at m fp)))"
  using assms
proof (induction cs arbitrary: fp rule: rev_induct)
  case (snoc c cs)
  then have h: "cl_holder c = h" and IH: "fold add_pin cs m fp = (case filter (\<lambda>c. cl_fingerprint c = fp) cs of
      [] \<Rightarrow> m fp | c # l \<Rightarrow> Some (AList.update h (last (c # l)) (holders_at m fp)))" for fp by auto
  show ?case
    by (cases "filter (\<lambda>c. cl_fingerprint c = fp) cs") (auto simp: add_pin_def [of c] IH h split: list.split)
qed simp

lemma find_conflict_None:
  "find_conflict reg cs = None \<longleftrightarrow>
     (\<forall>c\<in>set cs. pred_option (\<lambda>pinned. cl_settings pinned = cl_settings c) (first_holder reg (cl_fingerprint c)))"
  by (induction cs) (auto split: option.split if_splits)

lemma pinned_claim:
  assumes "\<forall>c\<in>set cs. cl_holder c = h"
  shows "pinned \<lparr>cr_claims = fold add_pin cs m, cr_generation = g\<rparr> fp k =
    (case filter (\<lambda>c. cl_fingerprint c = fp) cs of
       c # l \<Rightarrow> if k = h then Some (last (c # l)) else pinned \<lparr>cr_claims = m, cr_generation = g\<rparr> fp k
     | [] \<Rightarrow> pinned \<lparr>cr_claims = m, cr_generation = g\<rparr> fp k)"
  by (auto simp: pinned_def fold_add_pin [OF assms] update_conv' split: list.split option.split)

lemma set_update_subset: "set (AList.update h d l) \<subseteq> insert (h, d) (set l)"
  by (induction l) auto

lemma registry_ok_holders: "registry_ok reg \<Longrightarrow> holders_ok fp (holders_at (cr_claims reg) fp)"
proof (cases "cr_claims reg fp")
  case None
  then show ?thesis by (simp add: holders_ok_def)
next
  case (Some hs)
  assume "registry_ok reg"
  with Some show ?thesis unfolding registry_ok_def by simp
qed

lemma holders_ok_update:
  assumes "holders_ok fp l" and "cl_fingerprint d = fp" and "cl_holder d = h"
    and "l \<noteq> [] \<Longrightarrow> cl_settings (snd (hd l)) = cl_settings d"
  shows "holders_ok fp (AList.update h d l)"
proof -
  have same: "cl_settings (snd p) = cl_settings d" if "p \<in> set l" for p
  proof -
    from that have "l \<noteq> []" "hd l \<in> set l" by (auto intro: hd_in_set)
    with assms(1,4) that show ?thesis unfolding holders_ok_def by metis
  qed
  have new: "p = (h, d) \<or> p \<in> set l" if "p \<in> set (AList.update h d l)" for p
    using that set_update_subset [of h d l] by blast
  have "distinct (map fst (AList.update h d l))" using assms(1) by (simp add: holders_ok_def distinct_update)
  moreover have "cl_fingerprint (snd p) = fp \<and> cl_holder (snd p) = fst p \<and> cl_settings (snd p) = cl_settings d"
    if "p \<in> set (AList.update h d l)" for p
    using new [OF that] assms(1,2,3) same [of p] unfolding holders_ok_def by fastforce
  ultimately show ?thesis unfolding holders_ok_def by simp
qed

lemma registry_ok_claim:
  assumes "registry_ok reg" and "\<forall>c\<in>set cs. cl_holder c = h" and "find_conflict reg cs = None"
  shows "registry_ok (reg\<lparr>cr_claims := fold add_pin cs (cr_claims reg)\<rparr>)"
proof -
  have "hs \<noteq> [] \<and> holders_ok fp hs" if hs: "fold add_pin cs (cr_claims reg) fp = Some hs" for fp hs
  proof (cases "filter (\<lambda>c. cl_fingerprint c = fp) cs")
    case Nil
    with hs fold_add_pin [OF assms(2), of "cr_claims reg" fp] assms(1) show ?thesis by (simp add: registry_ok_def)
  next
    case (Cons c l)
    define d where "d = last (c # l)"
    let ?old = "holders_at (cr_claims reg) fp"
    have eq: "hs = AList.update h d ?old" using hs fold_add_pin [OF assms(2), of "cr_claims reg" fp] Cons by (simp add: d_def)
    have "d \<in> set (filter (\<lambda>c. cl_fingerprint c = fp) cs)" unfolding Cons d_def by (rule last_in_set) simp
    then have d: "d \<in> set cs" "cl_fingerprint d = fp" "cl_holder d = h" using assms(2) by auto
    have "cl_settings (snd (hd ?old)) = cl_settings d" if old: "?old \<noteq> []"
    proof (cases "cr_claims reg fp")
      case (Some hs0)
      with old obtain k f rest where "cr_claims reg fp = Some ((k, f) # rest)" by (cases hs0) auto
      then show ?thesis using assms(3) d by (auto simp: find_conflict_None first_holder_def)
    qed (use old in simp)
    from holders_ok_update [OF registry_ok_holders [OF assms(1)] d(2,3) this] show ?thesis by (simp add: eq)
  qed
  then show ?thesis using assms(1) by (simp add: registry_ok_def)
qed

lemma drop_holder_Some:
  "drop_holder h hs = Some l \<Longrightarrow> \<exists>l0. hs = Some l0 \<and> l = filter (\<lambda>(k, c). h \<noteq> k) l0 \<and> l \<noteq> []"
  by (auto simp: drop_holder_def Let_def AList.delete_eq split: option.splits if_splits)

lemma drop_holder_map_of:
  "(case drop_holder h hs of None \<Rightarrow> None | Some l \<Rightarrow> map_of l k)
     = (if k = h then None else case hs of None \<Rightarrow> None | Some l \<Rightarrow> map_of l k)"
proof (cases hs)
  case (Some l)
  have "map_of (AList.delete h l) k = (if k = h then None else map_of l k)" by (simp add: delete_conv')
  then show ?thesis by (cases "AList.delete h l = []") (auto simp: drop_holder_def Let_def Some)
qed (simp add: drop_holder_def)

lemma registry_ok_release:
  assumes "registry_ok reg"
  shows "registry_ok (release_cameras h g reg)"
proof -
  have "l \<noteq> [] \<and> holders_ok fp l" if l: "drop_holder h (cr_claims reg fp) = Some l" for fp l
  proof -
    from drop_holder_Some [OF l] obtain l0 where l0: "cr_claims reg fp = Some l0" "l = filter (\<lambda>(k, c). h \<noteq> k) l0" "l \<noteq> []"
      by blast
    then have ok: "holders_ok fp l0" using assms by (simp add: registry_ok_def)
    have "set l \<subseteq> set l0" using l0(2) by auto
    moreover have "distinct (map fst l)" unfolding l0(2) using ok by (simp add: holders_ok_def distinct_map_filter)
    ultimately show ?thesis using ok l0(3) unfolding holders_ok_def by blast
  qed
  then show ?thesis using assms by (simp add: registry_ok_def release_cameras_def)
qed

lemma pinned_release:
  "pinned (release_cameras h g reg) fp k =
     (if g \<noteq> None \<and> cr_generation reg h \<noteq> g then pinned reg fp k
      else if k = h then None else pinned reg fp k)"
  by (simp add: pinned_def release_cameras_def drop_holder_map_of)

section \<open>Every step keeps the pins\<close>

lemma owners_ok_release:
  assumes "owners_ok reg (insert po pos)" and "po \<notin> pos"
  shows "owners_ok (release_cameras (po_holder po) (Some (po_generation po)) reg) pos"
proof (cases "current reg po")
  case False
  then have "release_cameras (po_holder po) (Some (po_generation po)) reg = reg"
    by (simp add: release_cameras_def current_def)
  then show ?thesis using assms False unfolding owners_ok_def by (metis insert_iff)
next
  case True
  let ?reg = "release_cameras (po_holder po) (Some (po_generation po)) reg"
  have gen: "cr_generation ?reg = cr_generation reg" by (simp add: release_cameras_def)
  have cur: "current ?reg q = current reg q" "generation_of ?reg k = generation_of reg k" for q k
    by (simp_all add: current_def generation_of_def gen)
  have pin: "pinned ?reg fp k = (if k = po_holder po then None else pinned reg fp k)" for fp k
    using True by (simp add: pinned_release current_def)
  have other: "po_holder q \<noteq> po_holder po" if "q \<in> pos" "current reg q" for q
    using assms that True unfolding owners_ok_def by (metis insert_iff)
  have "claims_pinned ?reg q" if "q \<in> pos" "current reg q" for q
  proof -
    have "claims_pinned reg q" using assms(1) that unfolding owners_ok_def by blast
    then show ?thesis using other [OF that] by (simp add: claims_pinned_def pin)
  qed
  moreover have "\<exists>q\<in>pos. po_holder q = h \<and> current reg q" if "pinned ?reg fp h \<noteq> None" for fp h
  proof -
    from that have "h \<noteq> po_holder po" "pinned reg fp h \<noteq> None" by (auto simp: pin split: if_splits)
    with assms(1) show ?thesis unfolding owners_ok_def by (metis insert_iff)
  qed
  ultimately show ?thesis using assms(1) unfolding owners_ok_def cur by blast
qed

lemma owners_ok_claim:
  assumes ok: "registry_ok reg" "owners_ok reg pos" and h: "\<forall>c\<in>set cs. cl_holder c = h"
    and claim: "claim_cameras cs reg = (Inr g, reg')" and po: "po_holder po = h" "po_generation po = g" "po_claims po = cs"
  shows "registry_ok reg' \<and> owners_ok reg' (insert po pos)"
proof -
  have nc: "find_conflict reg cs = None" using claim by (auto simp: claim_cameras_def split: option.splits)
  show ?thesis
  proof (cases cs)
    case Nil
    with claim nc have same: "reg' = reg" "g = 0" by (simp_all add: claim_cameras_def Let_def)
    have "\<not> current reg po" using ok(1) po same by (auto simp: current_def registry_ok_def)
    moreover have "po_generation po \<le> generation_of reg (po_holder po)" by (simp add: po same)
    ultimately show ?thesis using ok unfolding same(1) owners_ok_def by (metis insert_iff)
  next
    case (Cons c0 cs0)
    then have c0: "cl_holder c0 = h" using h by simp
    let ?reg = "reg\<lparr>cr_claims := fold add_pin cs (cr_claims reg)\<rparr>"
    have g: "g = generation_of reg h + 1" and reg': "reg' = ?reg\<lparr>cr_generation := (cr_generation reg)(h \<mapsto> g)\<rparr>"
      using claim nc c0 by (auto simp: claim_cameras_def Let_def Cons generation_of_def)
    have "registry_ok ?reg" by (rule registry_ok_claim [OF ok(1) h nc])
    then have reg_ok: "registry_ok reg'" using g by (auto simp: reg' registry_ok_def)
    have pin: "pinned reg' fp k = (case filter (\<lambda>c. cl_fingerprint c = fp) cs of
        c # l \<Rightarrow> if k = h then Some (last (c # l)) else pinned reg fp k | [] \<Rightarrow> pinned reg fp k)" for fp k
      using pinned_claim [OF h, of "cr_claims reg" "(cr_generation reg)(h \<mapsto> g)" fp k]
      by (cases "filter (\<lambda>c. cl_fingerprint c = fp) cs") (simp_all add: reg' pinned_def)
    have other: "pinned reg' fp k = pinned reg fp k" if "k \<noteq> h" for fp k
      using that by (simp add: pin split: list.split)
    have cur: "current reg' q \<longleftrightarrow> (if po_holder q = h then po_generation q = g else current reg q)" for q
      by (auto simp: current_def reg')
    have gen: "generation_of reg' k = (if k = h then g else generation_of reg k)" for k
      by (simp add: generation_of_def reg')
    have old: "po_generation q \<le> generation_of reg (po_holder q)" if "q \<in> pos" for q
      using ok(2) that by (simp add: owners_ok_def)
    have stale: "po_holder q \<noteq> h" if "q \<in> pos" "current reg' q" for q
      using old [OF that(1)] that(2) g by (auto simp: cur split: if_splits)
    have new: "claims_pinned reg' po"
      unfolding claims_pinned_def po
    proof
      fix c
      assume c: "c \<in> set cs"
      then obtain a l where al: "filter (\<lambda>d. cl_fingerprint d = cl_fingerprint c) cs = a # l"
        by (cases "filter (\<lambda>d. cl_fingerprint d = cl_fingerprint c) cs") (auto simp: filter_empty_conv)
      have "last (a # l) \<in> set (filter (\<lambda>d. cl_fingerprint d = cl_fingerprint c) cs)" unfolding al by (rule last_in_set) simp
      then have m: "last (a # l) \<in> set cs" "cl_fingerprint (last (a # l)) = cl_fingerprint c" by simp_all
      have "pinned reg' (cl_fingerprint c) h = Some (last (a # l))" by (simp add: pin al)
      with m show "\<exists>d\<in>set cs. cl_fingerprint d = cl_fingerprint c \<and> pinned reg' (cl_fingerprint c) h = Some d" by blast
    qed
    have "claims_pinned reg' q" if q: "q \<in> insert po pos" "current reg' q" for q
    proof (cases "q = po")
      case False
      then have "q \<in> pos" using q(1) by simp
      then have "po_holder q \<noteq> h" using stale q(2) by blast
      moreover have "claims_pinned reg q" using ok(2) \<open>q \<in> pos\<close> q(2) \<open>po_holder q \<noteq> h\<close> by (simp add: owners_ok_def cur)
      ultimately show ?thesis by (simp add: claims_pinned_def other)
    qed (simp add: new)
    moreover have "\<exists>q\<in>insert po pos. po_holder q = k \<and> current reg' q" if "pinned reg' fp k \<noteq> None" for fp k
    proof (cases "k = h")
      case True
      then show ?thesis by (intro bexI [of _ po]) (simp_all add: po cur)
    next
      case False
      then have "pinned reg fp k \<noteq> None" using that by (simp add: other)
      then obtain q where "q \<in> pos" "po_holder q = k" "current reg q" using ok(2) unfolding owners_ok_def by blast
      with False show ?thesis by (intro bexI [of _ q]) (simp_all add: cur)
    qed
    moreover have "q = r" if qr: "q \<in> insert po pos" "r \<in> insert po pos" "po_holder q = po_holder r" "current reg' q" "current reg' r" for q r
    proof -
      consider "q = po" "r = po" | "q = po" "r \<in> pos" | "q \<in> pos" "r = po" | "q \<in> pos" "r \<in> pos" using qr(1,2) by blast
      then show ?thesis
      proof cases
        case 2
        with stale [OF 2(2) qr(5)] qr(3) po(1) show ?thesis by simp
      next
        case 3
        with stale [OF 3(1) qr(4)] qr(3) po(1) show ?thesis by simp
      next
        case 4
        have "po_holder q \<noteq> h" by (rule stale [OF 4(1) qr(4)])
        then have "current reg q" "current reg r" using qr(3-5) by (simp_all add: cur)
        with ok(2) 4 qr(3) show ?thesis unfolding owners_ok_def by blast
      qed simp
    qed
    moreover have "po_generation q \<le> generation_of reg' (po_holder q)" if "q \<in> insert po pos" for q
    proof (cases "q = po")
      case False
      then show ?thesis using that old [of q] g by (cases "po_holder q = h") (simp_all add: gen)
    qed (simp add: gen po)
    ultimately have "owners_ok reg' (insert po pos)"
      unfolding owners_ok_def by (intro conjI ballI impI allI) blast+
    with reg_ok show ?thesis by blast
  qed
qed

lemma find_owner:
  assumes "distinct (map po_id xs)" and "find (\<lambda>po. po_id po = i) xs = Some po"
  shows "po \<in> set xs" and "po_id po = i" and "set (filter (\<lambda>q. po_id q \<noteq> i) xs) = set xs - {po}"
proof -
  from assms(2) show po: "po \<in> set xs" "po_id po = i" by (auto simp: find_Some_iff)
  then show "set (filter (\<lambda>q. po_id q \<noteq> i) xs) = set xs - {po}"
    using assms(1) by (auto simp: distinct_map inj_on_def)
qed

lemma pin_step_ok: "pins_ok s \<Longrightarrow> pins_ok (pin_step s e)"
proof (cases e)
  case (Handshake i cameras name project_id project_name)
  assume ok: "pins_ok s"
  show ?thesis
  proof (cases "\<exists>po\<in>set (ps_sockets s @ ps_waiters s). po_id po = i")
    case fresh: False
    show ?thesis
    proof (cases "camera_claims cameras name project_id project_name")
      case (Inl err)
      then show ?thesis using ok by (simp add: Handshake handshake_def)
    next
      case (Inr cs)
      then have h: "\<forall>c\<in>set cs. cl_holder c = name" by (auto simp: camera_claims_def split: option.splits)
      obtain y reg where claim: "claim_cameras cs (ps_registry s) = (y, reg)" by fastforce
      show ?thesis
      proof (cases y)
        case (Inl err)
        then have "reg = ps_registry s" using claim by (auto simp: claim_cameras_def Let_def split: option.splits list.splits)
        then show ?thesis using ok fresh Inr claim Inl by (simp add: Handshake handshake_def)
      next
        case (Inr g)
        let ?po = "\<lparr>po_id = i, po_holder = name, po_generation = g, po_claims = cs\<rparr>"
        have step: "pin_step s e = s\<lparr>ps_registry := reg, ps_sockets := ?po # ps_sockets s\<rparr>"
          using fresh claim Inr \<open>camera_claims _ _ _ _ = Inr cs\<close> by (simp add: Handshake handshake_def)
        have "registry_ok reg \<and> owners_ok reg (insert ?po (set (pin_owners s)))"
          using ok owners_ok_claim [OF _ _ h, of "ps_registry s" "set (pin_owners s)" g reg ?po] claim Inr
          by (simp add: pins_ok_def)
        then show ?thesis
          using ok fresh unfolding step by (auto simp: pins_ok_def pin_owners_def)
      qed
    qed
  qed (use ok in \<open>auto simp: Handshake\<close>)
next
  case (SocketEnds i alive)
  assume ok: "pins_ok s"
  show ?thesis
  proof (cases "find (\<lambda>po. po_id po = i) (ps_sockets s)")
    case (Some po)
    let ?rest = "filter (\<lambda>q. po_id q \<noteq> i) (ps_sockets s)"
    have d: "distinct (map po_id (ps_sockets s))" "distinct (map po_id (pin_owners s))"
      using ok by (simp_all add: pins_ok_def pin_owners_def)
    note f = find_owner [OF d(1) Some]
    have "po \<notin> set (ps_waiters s)" using d(2) f(1) by (auto simp: pin_owners_def)
    then have split: "set (pin_owners s) = insert po (set ?rest \<union> set (ps_waiters s))" "po \<notin> set ?rest \<union> set (ps_waiters s)"
      using f by (auto simp: pin_owners_def)
    have "distinct (map po_id (?rest @ po # ps_waiters s))"
      using d(2) f(1,2) by (auto simp: pin_owners_def distinct_map_filter)
    with ok show ?thesis
      using owners_ok_release [of "ps_registry s" po, OF _ split(2)] split(1)
      by (auto simp: SocketEnds Some Let_def pins_ok_def pin_owners_def pin_release_def intro: registry_ok_release)
  qed (use ok in \<open>simp add: SocketEnds\<close>)
next
  case (SessionDies i)
  assume ok: "pins_ok s"
  show ?thesis
  proof (cases "find (\<lambda>po. po_id po = i) (ps_waiters s)")
    case (Some po)
    let ?rest = "filter (\<lambda>q. po_id q \<noteq> i) (ps_waiters s)"
    have d: "distinct (map po_id (ps_waiters s))" "distinct (map po_id (pin_owners s))"
      using ok by (simp_all add: pins_ok_def pin_owners_def)
    note f = find_owner [OF d(1) Some]
    have "po \<notin> set (ps_sockets s)" using d(2) f(1) by (auto simp: pin_owners_def)
    then have split: "set (pin_owners s) = insert po (set (ps_sockets s) \<union> set ?rest)" "po \<notin> set (ps_sockets s) \<union> set ?rest"
      using f by (auto simp: pin_owners_def)
    have "distinct (map po_id (ps_sockets s @ ?rest))"
      using d(2) by (auto simp: pin_owners_def distinct_map_filter)
    with ok show ?thesis
      using owners_ok_release [of "ps_registry s" po, OF _ split(2)] split(1)
      by (auto simp: SessionDies Some Let_def pins_ok_def pin_owners_def pin_release_def intro: registry_ok_release)
  qed (use ok in \<open>simp add: SessionDies\<close>)
qed

interpretation pins: step_invariant pin_step pins_ok
  by unfold_locales (rule pin_step_ok)

lemma pins_ok_init: "pins_ok pin_init"
  by (simp add: pins_ok_def pin_init_def registry_ok_def claim_registry_init_def pin_owners_def owners_ok_def pinned_def)

lemma pins_ok_run: "pins_ok (foldl pin_step pin_init es)"
  by (rule pins.run_inv [OF pins_ok_init])

text \<open>C25: in every run of handshakes, closing websockets and dying sessions, all sessions that hold a camera have
  pinned it with the same settings, every camera of a session's newest claim is pinned for it until the websocket
  of that claim, or the waiter it leaves, releases it, and no pin is left when all of them are gone.\<close>

theorem camera_pins_hold:
  "let s = foldl pin_step pin_init es in
    (\<forall>fp h k c d. pinned (ps_registry s) fp h = Some c \<and> pinned (ps_registry s) fp k = Some d \<longrightarrow> cl_settings c = cl_settings d)
    \<and> (\<forall>po\<in>set (pin_owners s). current (ps_registry s) po \<longrightarrow> claims_pinned (ps_registry s) po)
    \<and> (\<forall>fp c. holder_of fp (ps_registry s) = Some c \<longrightarrow>
         (\<exists>po\<in>set (pin_owners s). po_holder po = cl_holder c \<and> current (ps_registry s) po))"
proof -
  define s where "s = foldl pin_step pin_init es"
  have ok: "registry_ok (ps_registry s)" "owners_ok (ps_registry s) (set (pin_owners s))"
    using pins_ok_run [of es] by (simp_all add: pins_ok_def s_def)
  have "cl_settings c = cl_settings d"
    if "pinned (ps_registry s) fp h = Some c" "pinned (ps_registry s) fp k = Some d" for fp h k c d
  proof -
    from that obtain hs where hs: "cr_claims (ps_registry s) fp = Some hs" "map_of hs h = Some c" "map_of hs k = Some d"
      by (auto simp: pinned_def split: option.splits)
    then have "(h, c) \<in> set hs" "(k, d) \<in> set hs" by (auto dest: map_of_SomeD)
    moreover have "holders_ok fp hs" using ok(1) hs(1) by (simp add: registry_ok_def)
    ultimately show ?thesis unfolding holders_ok_def by (metis snd_conv)
  qed
  moreover have "\<exists>po\<in>set (pin_owners s). po_holder po = cl_holder c \<and> current (ps_registry s) po"
    if "holder_of fp (ps_registry s) = Some c" for fp c
  proof -
    from that obtain h hs where hs: "cr_claims (ps_registry s) fp = Some ((h, c) # hs)"
      by (auto simp: holder_of_def first_holder_def split: option.splits list.splits)
    then have "holders_ok fp ((h, c) # hs)" using ok(1) by (simp add: registry_ok_def)
    then have "cl_holder c = h" by (simp add: holders_ok_def)
    moreover have "pinned (ps_registry s) fp h \<noteq> None" using hs by (simp add: pinned_def)
    ultimately show ?thesis using ok(2) unfolding owners_ok_def by blast
  qed
  ultimately show ?thesis using ok(2) unfolding owners_ok_def s_def [symmetric] Let_def by blast
qed

section \<open>Concrete runs\<close>

definition demo_camera :: camera where
  "demo_camera = \<lparr>cam_name = ''top'', cam_fingerprint = Some ''usb-1'', cam_width = Some 640, cam_height = Some 480, cam_fps = None\<rparr>"

definition demo_pins :: pin_state where
  "demo_pins = foldl pin_step pin_init [Handshake 1 [demo_camera] ''rt-a'' ''p'' ''Alpha'', Handshake 2 [demo_camera] ''rt-b'' ''q'' ''Beta'',
     SocketEnds 1 True]"

lemma demo_pins_held: "\<exists>c. holder_of ''usb-1'' (ps_registry demo_pins) = Some c \<and> cl_holder c = ''rt-a''"
proof -
  have "map_option cl_holder (holder_of ''usb-1'' (ps_registry demo_pins)) = Some ''rt-a''" by code_simp
  then show ?thesis by auto
qed

theorem camera_pins_hold_witness:
  "\<exists>po\<in>set (pin_owners demo_pins). po_holder po = ''rt-a'' \<and> claims_pinned (ps_registry demo_pins) po"
proof -
  obtain c where c: "holder_of ''usb-1'' (ps_registry demo_pins) = Some c" "cl_holder c = ''rt-a''"
    using demo_pins_held by blast
  note run = camera_pins_hold [of "[Handshake 1 [demo_camera] ''rt-a'' ''p'' ''Alpha'',
     Handshake 2 [demo_camera] ''rt-b'' ''q'' ''Beta'', SocketEnds 1 True]", unfolded Let_def, folded demo_pins_def]
  from run [THEN conjunct2, THEN conjunct2, rule_format, OF c(1)] c(2) obtain po
    where "po \<in> set (pin_owners demo_pins)" "po_holder po = ''rt-a''" "current (ps_registry demo_pins) po" by metis
  with run [THEN conjunct2, THEN conjunct1] show ?thesis by blast
qed

text \<open>
  A second websocket of a running session that fails to connect has the newest claim, and releases the pins of
  the session, whose own websocket is no longer the newest: the camera can be changed while it runs.
\<close>

lemma failed_reconnect_unpins_session:
  "let s = foldl pin_step pin_init [Handshake 1 [demo_camera] ''rt-a'' ''p'' ''Alpha'', Handshake 2 [demo_camera] ''rt-a'' ''p'' ''Alpha'',
       SocketEnds 2 False]
   in map po_id (ps_sockets s) = [1] \<and> ensure_not_claimed (cam_fingerprint demo_camera) (ps_registry s) = Inr ()"
  by code_simp

end
