(* ===== verification/DatasetAdapter.thy ===== *)
theory DatasetAdapter
  imports ArchiveSafety TrainerStore ImportSchema "HOL-Library.Product_Lexorder"
begin

text \<open>
  The format adapter of a dataset import, \<^verbatim>\<open>services/dataset_import/adapters\<close>: recognizing an archive, the
  draft of its manifest, the last check and the commit. Decoding JSON and Parquet, the numbers Python reads from
  text, and the representation of a value that is not text are fields of the environment, as are the free bytes
  and what the database refuses.
\<close>

section \<open>Environment\<close>

text \<open>
  A shard as pandas gives it: its rows, the episode numbers that are numbers, the sum of the lengths, the tasks
  of each row (\<open>None\<close> where the cell is text or cannot be iterated, and for a task that is no text).
\<close>

record parquet =
  pq_rows :: nat
  pq_episode_index :: "int list option"
  pq_length_sum :: "int option"
  pq_tasks :: "string option list option list option"

record Dataset =
  ds_id :: string
  ds_name :: string
  ds_default_task :: string
  ds_project_id :: string
  ds_environment_id :: string

record import_env =
  de_unzip :: unzip
  de_listing :: "string listing"
  de_free :: nat
  de_max_uncompressed_bytes :: nat
  de_min_free_bytes :: nat
  de_storage_dir :: path
  de_projects :: "string list"
  de_loads :: "string \<Rightarrow> json option"
  de_read_parquet :: "string \<Rightarrow> parquet option"
  de_parse_float :: "string \<Rightarrow> real option"
  de_repr :: "json \<Rightarrow> string"
  de_db_refuses :: "Dataset \<Rightarrow> string option"

text \<open>The directories of \<^verbatim>\<open>settings.py\<close>.\<close>

definition studio_datasets_dir :: "import_env \<Rightarrow> path" where
  "studio_datasets_dir env = de_storage_dir env @ [''datasets'']"

definition studio_cache_dir :: "import_env \<Rightarrow> path" where
  "studio_cache_dir env = de_storage_dir env @ [''cache'']"

datatype import_exn = ArchiveExn archive_error | ValueExn string | KeyExn string | AttributeExn
  | ValidationExn | IntegrityExn string | DatabaseExn string

section \<open>Reading an archive\<close>

text \<open>
  \<^verbatim>\<open>SafeZipArchive._read_member\<close>: the entries are those of the first look, the file is opened again; the
  last entry of a name is the one that is opened.
\<close>

definition read_member :: "import_env \<Rightarrow> zip_info list \<Rightarrow> string option \<Rightarrow> string \<Rightarrow> import_exn + string option" where
  "read_member env members file target_name =
     (case resolve_member_name members target_name of
        None \<Rightarrow> Inr None
      | Some member_name \<Rightarrow>
          (let unreadable = Inl (ArchiveExn (InvalidArchiveError (''Unable to read '' @ target_name @ '' from archive'')))
           in case file of
                None \<Rightarrow> unreadable
              | Some content \<Rightarrow>
                  (case de_unzip env content of
                     None \<Rightarrow> unreadable
                   | Some now \<Rightarrow>
                       (case find (\<lambda>m. zi_filename m = member_name) (rev now) of
                          None \<Rightarrow> Inl (KeyExn member_name)
                        | Some m \<Rightarrow> if zi_crc_ok m then Inr (Some (zi_data m)) else unreadable))))"

definition read_json :: "import_env \<Rightarrow> zip_info list \<Rightarrow> string option \<Rightarrow> string \<Rightarrow> import_exn + json" where
  "read_json env members file target_name =
     bind_result (read_member env members file target_name) (\<lambda>raw.
       case raw of
         None \<Rightarrow> Inr JNull
       | Some bytes \<Rightarrow>
           (case de_loads env bytes of
              None \<Rightarrow> Inl (ArchiveExn (InvalidArchiveError (''Unable to read JSON '' @ target_name @ '' from archive'')))
            | Some v \<Rightarrow> Inr v))"

definition normalized_names :: "zip_info list \<Rightarrow> string list" where
  "normalized_names members = map (\<lambda>m. normalize_zip_member_name (zi_filename m)) members"

section \<open>Values of JSON\<close>

definition dict_get :: "string \<Rightarrow> json \<Rightarrow> json" where
  "dict_get k v = (case v of JDict kvs \<Rightarrow> (case map_of kvs k of None \<Rightarrow> JNull | Some x \<Rightarrow> x) | _ \<Rightarrow> JNull)"

definition json_truth :: "json \<Rightarrow> bool" where
  "json_truth v = (case v of JNull \<Rightarrow> False | JBool b \<Rightarrow> b | JInt i \<Rightarrow> i \<noteq> 0 | JReal r \<Rightarrow> r \<noteq> 0
     | JStr s \<Rightarrow> s \<noteq> [] | JList xs \<Rightarrow> xs \<noteq> [] | JDict kvs \<Rightarrow> kvs \<noteq> [])"

text \<open>\<open>isinstance(v, int)\<close>: a boolean is an integer.\<close>

definition json_int :: "json \<Rightarrow> int option" where
  "json_int v = (case v of JInt i \<Rightarrow> Some i | JBool b \<Rightarrow> Some (if b then 1 else 0) | _ \<Rightarrow> None)"

definition truncate_real :: "real \<Rightarrow> int" where
  "truncate_real r = (if r < 0 then - \<lfloor>- r\<rfloor> else \<lfloor>r\<rfloor>)"

text \<open>\<open>int(float(v))\<close>, \<open>None\<close> where it raises; integers are within the exact range of a double.\<close>

definition int_of_float :: "import_env \<Rightarrow> json \<Rightarrow> int option" where
  "int_of_float env v = (case v of JInt i \<Rightarrow> Some i | JBool b \<Rightarrow> Some (if b then 1 else 0)
     | JReal r \<Rightarrow> Some (truncate_real r) | JStr s \<Rightarrow> map_option truncate_real (de_parse_float env s) | _ \<Rightarrow> None)"

definition py_str :: "import_env \<Rightarrow> json \<Rightarrow> string" where
  "py_str env v = (case v of JStr s \<Rightarrow> s | JInt i \<Rightarrow> int_str i | JNull \<Rightarrow> ''None''
     | JBool b \<Rightarrow> (if b then ''True'' else ''False'') | _ \<Rightarrow> de_repr env v)"

section \<open>The recording schema\<close>

definition or_int :: "int option \<Rightarrow> int option \<Rightarrow> int option" where
  "or_int a b = (if a = None \<or> a = Some 0 then b else a)"

definition camera_entry :: "import_env \<Rightarrow> int option \<Rightarrow> string \<Rightarrow> json \<Rightarrow> ManifestCameraEntry" where
  "camera_entry env dataset_fps camera_name feature =
     (let video = dict_get ''video'' (dict_get ''info'' feature);
          width = or_int (int_of_float env (dict_get ''width'' video)) None;
          height = or_int (int_of_float env (dict_get ''height'' video)) None;
          fps = or_int (int_of_float env (dict_get ''fps'' video)) dataset_fps
      in case (if width = None \<or> height = None then dict_get ''shape'' feature else JNull) of
           JList (h # w # _) \<Rightarrow>
             \<lparr>mce_name = camera_name, mce_width = or_int width (int_of_float env w),
              mce_height = or_int height (int_of_float env h), mce_fps = fps\<rparr>
         | _ \<Rightarrow> \<lparr>mce_name = camera_name, mce_width = width, mce_height = height, mce_fps = fps\<rparr>)"

definition camera_prefix :: string where "camera_prefix = ''observation.images.''"

fun extract_cameras :: "import_env \<Rightarrow> int option \<Rightarrow> (string \<times> json) list \<Rightarrow> ManifestCameraEntry list" where
  "extract_cameras env dataset_fps [] = []"
| "extract_cameras env dataset_fps ((key, feature) # features) =
     (if \<not> starts_with camera_prefix key then extract_cameras env dataset_fps features
      else if dict_get ''dtype'' feature \<noteq> JStr ''video'' then extract_cameras env dataset_fps features
      else let camera_name = drop (length camera_prefix) key in
        if camera_name = [] then extract_cameras env dataset_fps features
        else camera_entry env dataset_fps camera_name feature # extract_cameras env dataset_fps features)"

definition joint_of :: "json \<Rightarrow> string option" where
  "joint_of raw_name =
     (case raw_name of
        JStr s \<Rightarrow> (let joint = strip_space (hd (split_on CHR ''.'' s)) in if joint = [] then None else Some joint)
      | _ \<Rightarrow> None)"

definition add_joint :: "json \<Rightarrow> string list \<Rightarrow> string list" where
  "add_joint raw_name joints =
     (case joint_of raw_name of None \<Rightarrow> joints | Some j \<Rightarrow> if j \<in> set joints then joints else joints @ [j])"

definition names_of_feature :: "json \<Rightarrow> string \<Rightarrow> json list" where
  "names_of_feature features key = (case dict_get ''names'' (dict_get key features) of JList ns \<Rightarrow> ns | _ \<Rightarrow> [])"

definition extract_robots :: "json \<Rightarrow> string option \<Rightarrow> ManifestRobotEntry list" where
  "extract_robots features robot_type =
     (let joints = fold add_joint (names_of_feature features ''action'' @ names_of_feature features ''observation.state'') []
      in if joints = [] \<and> robot_type = None then [] else [\<lparr>mre_type = robot_type, mre_joints = joints\<rparr>])"

text \<open>An exception on the way gives the empty schema.\<close>

definition extract_recording_schema :: "import_env \<Rightarrow> json \<Rightarrow> DatasetManifestRecordingSchema" where
  "extract_recording_schema env info =
     (case info of
        JDict _ \<Rightarrow>
          (let features = (case dict_get ''features'' info of JDict fs \<Rightarrow> fs | _ \<Rightarrow> []);
               fps_raw = dict_get ''fps'' info;
               robot_type_raw = dict_get ''robot_type'' info;
               robot_type = (if json_truth robot_type_raw then Some (strip_space (py_str env robot_type_raw)) else None)
           in if fps_raw \<noteq> JNull \<and> int_of_float env fps_raw = None then empty_schema
              else \<lparr>rs_cameras = extract_cameras env (if fps_raw = JNull then None else int_of_float env fps_raw) features,
                    rs_robots = extract_robots (JDict features) robot_type, rs_tasks = []\<rparr>)
      | _ \<Rightarrow> empty_schema)"

section \<open>Recognizing a format\<close>

datatype v2_marker = EpisodesJsonl | TasksJsonl

definition marker_text :: "v2_marker \<Rightarrow> string" where
  "marker_text m = (case m of EpisodesJsonl \<Rightarrow> ''meta/episodes.jsonl'' | TasksJsonl \<Rightarrow> ''meta/tasks.jsonl'')"

definition names_member :: "string \<Rightarrow> string \<Rightarrow> bool" where
  "names_member target name \<longleftrightarrow> name = target \<or> ends_with (''/'' @ target) name"

definition is_v3_data :: "string \<Rightarrow> bool" where
  "is_v3_data name \<longleftrightarrow> (is_infix_str ''data/'' name \<or> starts_with ''data/'' name) \<and> is_infix_str ''/file-'' name
     \<and> ends_with ''.parquet'' name \<and> \<not> is_infix_str ''episode_'' name"

record detected =
  has_info :: bool
  has_tasks_parquet :: bool
  has_v3_data :: bool

datatype detect_end = Matched | RejectedV2 v2_marker | Unmatched detected

fun detect_scan :: "string list \<Rightarrow> detected \<Rightarrow> detect_end" where
  "detect_scan [] d = Unmatched d"
| "detect_scan (name # names) d =
     (if names_member (marker_text EpisodesJsonl) name then RejectedV2 EpisodesJsonl
      else if names_member (marker_text TasksJsonl) name then RejectedV2 TasksJsonl
      else
        (let d' = \<lparr>has_info = has_info d \<or> names_member ''meta/info.json'' name,
                   has_tasks_parquet = has_tasks_parquet d \<or> names_member ''meta/tasks.parquet'' name,
                   has_v3_data = has_v3_data d \<or> is_v3_data name\<rparr>
         in if has_info d' \<and> has_tasks_parquet d' \<and> has_v3_data d' then Matched else detect_scan names d'))"

definition nothing_detected :: detected where
  "nothing_detected = \<lparr>has_info = False, has_tasks_parquet = False, has_v3_data = False\<rparr>"

definition missing_markers :: "detected \<Rightarrow> string list" where
  "missing_markers d =
     (if has_info d then [] else [''meta/info.json''])
     @ (if has_tasks_parquet d then [] else [''meta/tasks.parquet''])
     @ (if has_v3_data d then [] else [''v3 data files''])"

definition lerobot_detect :: "zip_info list \<Rightarrow> bool \<times> ImportValidationReport" where
  "lerobot_detect members =
     (case detect_scan (normalized_names members) nothing_detected of
        Matched \<Rightarrow> (True, [])
      | RejectedV2 m \<Rightarrow> (False, add_error (''Archive contains LeRobot v2 markers ('' @ marker_text m @ '')'') [])
      | Unmatched d \<Rightarrow>
          (False, if missing_markers d \<noteq> []
                  then add_error (''LeRobot v3 markers not found: '' @ str_join '', '' (missing_markers d)) [] else []))"

section \<open>Episode metadata\<close>

text \<open>
  \<^verbatim>\<open>(?:^|/)meta/episodes/chunk-(\d+)/file-(\d+)\.parquet$\<close>: the last four components of the name; the end of
  the pattern may stand before one newline.
\<close>

definition digits_after :: "string \<Rightarrow> string \<Rightarrow> nat option" where
  "digits_after pre s =
     (if starts_with pre s \<and> drop (length pre) s \<noteq> [] \<and> list_all is_digit (drop (length pre) s)
      then Some (nat_of_digits (drop (length pre) s)) else None)"

definition remove_suffix :: "string \<Rightarrow> string \<Rightarrow> string option" where
  "remove_suffix suf s = (if ends_with suf s then Some (take (length s - length suf) s) else None)"

definition episode_shard :: "string \<Rightarrow> (nat \<times> nat) option" where
  "episode_shard name =
     (case rev (split_on CHR ''/'' (if ends_with [CHR 0x0A] name then butlast name else name)) of
        file # chunk # episodes # meta # _ \<Rightarrow>
          if episodes = ''episodes'' \<and> meta = ''meta'' then
            (case (digits_after ''chunk-'' chunk, Option.bind (remove_suffix ''.parquet'' file) (digits_after ''file-'')) of
               (Some c, Some f) \<Rightarrow> Some (c, f)
             | _ \<Rightarrow> None)
          else None
      | _ \<Rightarrow> None)"

definition episode_shards :: "string list \<Rightarrow> (nat \<times> nat \<times> string) list" where
  "episode_shards names = sort (concat (map (\<lambda>n. case episode_shard n of None \<Rightarrow> [] | Some (c, f) \<Rightarrow> [(c, f, n)]) names))"

record episode_scan =
  readable_shards :: nat
  shards_with_index :: nat
  shards_without_index :: nat
  shards_without_length :: nat
  rows_total :: nat
  rows_without_index :: nat
  unique_indices :: "int list"
  frame_count :: int
  task_names :: "string list"

definition no_episodes :: episode_scan where
  "no_episodes = \<lparr>readable_shards = 0, shards_with_index = 0, shards_without_index = 0, shards_without_length = 0,
     rows_total = 0, rows_without_index = 0, unique_indices = [], frame_count = 0, task_names = []\<rparr>"

definition row_tasks :: "string option list option list \<Rightarrow> string list" where
  "row_tasks cells = concat (map (\<lambda>cell. case cell of None \<Rightarrow> []
     | Some ts \<Rightarrow> concat (map (\<lambda>t. case t of None \<Rightarrow> [] | Some x \<Rightarrow> [x]) ts)) cells)"

definition count_shard :: "parquet \<Rightarrow> episode_scan \<Rightarrow> episode_scan" where
  "count_shard df a =
     (let a1 = a\<lparr>readable_shards := Suc (readable_shards a), rows_total := rows_total a + pq_rows df\<rparr>;
          a2 = (case pq_episode_index df of
                  Some indices \<Rightarrow> a1\<lparr>shards_with_index := Suc (shards_with_index a1),
                                     unique_indices := fold List.insert indices (unique_indices a1)\<rparr>
                | None \<Rightarrow> a1\<lparr>shards_without_index := Suc (shards_without_index a1),
                             rows_without_index := rows_without_index a1 + pq_rows df\<rparr>);
          a3 = (case pq_length_sum df of
                  Some n \<Rightarrow> a2\<lparr>frame_count := frame_count a2 + n\<rparr>
                | None \<Rightarrow> a2\<lparr>shards_without_length := Suc (shards_without_length a2)\<rparr>)
      in (case pq_tasks df of
            Some cells \<Rightarrow> a3\<lparr>task_names := fold List.insert (row_tasks cells) (task_names a3)\<rparr>
          | None \<Rightarrow> a3))"

fun scan_shards :: "import_env \<Rightarrow> zip_info list \<Rightarrow> string option \<Rightarrow> (nat \<times> nat \<times> string) list \<Rightarrow> episode_scan
    \<Rightarrow> ImportValidationReport \<Rightarrow> (import_exn + episode_scan) \<times> ImportValidationReport" where
  "scan_shards env members file [] a report = (Inr a, report)"
| "scan_shards env members file ((c, f, shard_name) # shards) a report =
     bind_state (lift_result id (read_member env members file shard_name) report) (\<lambda>shard_bytes report.
       case shard_bytes of
         None \<Rightarrow> scan_shards env members file shards a
           (add_warning (''Could not read episode parquet '' @ shard_name) report)
       | Some bytes \<Rightarrow>
           (case de_read_parquet env bytes of
              None \<Rightarrow> scan_shards env members file shards a
                (add_warning (''Could not parse episode parquet '' @ shard_name) report)
            | Some df \<Rightarrow> scan_shards env members file shards (count_shard df a) report))"

definition episode_count_of :: "episode_scan \<Rightarrow> nat" where
  "episode_count_of a =
     (if shards_with_index a = 0 then rows_total a
      else if shards_without_index a = 0 then length (unique_indices a)
      else length (unique_indices a) + rows_without_index a)"

definition when_report :: "bool \<Rightarrow> string \<Rightarrow> ImportValidationReport \<Rightarrow> ImportValidationReport" where
  "when_report b message report = (if b then add_warning message report else report)"

definition warn_counts :: "episode_scan \<Rightarrow> ImportValidationReport \<Rightarrow> ImportValidationReport" where
  "warn_counts a report =
     when_report (shards_without_length a > 0) ''shards without length; frame count may be incomplete''
       (when_report (shards_with_index a = 0) ''episode count is based on row count''
         (when_report (shards_with_index a > 0 \<and> shards_without_index a > 0) ''episode count may be approximate'' report))"

definition mismatch :: "json \<Rightarrow> int \<Rightarrow> bool" where
  "mismatch expected n = (case json_int expected of None \<Rightarrow> False | Some e \<Rightarrow> e \<noteq> n)"

text \<open>Where the metadata is true but no object, \<open>info.get\<close> raises.\<close>

definition load_episode_metadata ::
  "import_env \<Rightarrow> zip_info list \<Rightarrow> string option \<Rightarrow> json \<Rightarrow> ImportValidationReport
     \<Rightarrow> (import_exn + int \<times> int \<times> string list) \<times> ImportValidationReport" where
  "load_episode_metadata env members file info report =
     (let shards = episode_shards (normalized_names members) in
      if shards = [] then (Inr (0, 0, []), add_error ''No episode parquet found under meta/episodes'' report)
      else bind_state (scan_shards env members file shards no_episodes report) (\<lambda>a report1.
        if readable_shards a = 0
        then (Inr (0, 0, task_names a), add_error ''No readable episode parquet found under meta/episodes'' report1)
        else
          (let episodes = int (episode_count_of a); frames = frame_count a; report2 = warn_counts a report1
           in if json_truth info \<and> (\<forall>kvs. info \<noteq> JDict kvs) then (Inl AttributeExn, report2)
              else
                (let report3 = when_report (mismatch (dict_get ''total_episodes'' info) episodes) ''Episode count mismatch'' report2;
                     report4 = when_report (mismatch (dict_get ''total_frames'' info) frames) ''Frame count mismatch'' report3
                 in (Inr (episodes, frames, task_names a),
                     when_report (task_names a = []) ''Could not infer tasks from episode metadata'' report4)))))"

definition load_info :: "import_env \<Rightarrow> zip_info list \<Rightarrow> string option \<Rightarrow> ImportValidationReport
    \<Rightarrow> (import_exn + json) \<times> ImportValidationReport" where
  "load_info env members file report =
     bind_state (lift_result id (read_json env members file ''meta/info.json'') report) (\<lambda>raw_info report.
       if raw_info = JNull then (Inr (JDict []), add_error ''Could not read required metadata file meta/info.json'' report)
       else (Inr raw_info, report))"

section \<open>The draft\<close>

text \<open>What the body of the \<open>try\<close> has assigned when it ends or raises, with what it has raised.\<close>

record draft_parts =
  dp_info :: json
  dp_episodes :: int
  dp_frames :: int
  dp_tasks :: "string list"
  dp_raised :: "import_exn option"

definition draft_body :: "import_env \<Rightarrow> zip_info list \<Rightarrow> string option \<Rightarrow> draft_parts \<times> ImportValidationReport" where
  "draft_body env members file =
     (case load_info env members file [] of
        (Inl e, report) \<Rightarrow> (\<lparr>dp_info = JDict [], dp_episodes = 0, dp_frames = 0, dp_tasks = [], dp_raised = Some e\<rparr>, report)
      | (Inr info, report) \<Rightarrow>
          (case load_episode_metadata env members file info report of
             (Inl e, report1) \<Rightarrow> (\<lparr>dp_info = info, dp_episodes = 0, dp_frames = 0, dp_tasks = [], dp_raised = Some e\<rparr>, report1)
           | (Inr (episodes, frames, tasks), report1) \<Rightarrow>
               (let parts = \<lparr>dp_info = info, dp_episodes = episodes, dp_frames = frames, dp_tasks = tasks, dp_raised = None\<rparr>
                in case read_json env members file ''meta/stats.json'' of
                     Inl e \<Rightarrow> (parts\<lparr>dp_raised := Some e\<rparr>, report1)
                   | Inr stats \<Rightarrow>
                       (let report2 = when_report (stats = JNull) ''No global stats metadata found'' report1
                        in case read_member env members file ''meta/tasks.parquet'' of
                             Inl e \<Rightarrow> (parts\<lparr>dp_raised := Some e\<rparr>, report2)
                           | Inr index \<Rightarrow> (parts, when_report (index = None) ''No tasks index found'' report2)))))"

definition is_caught :: "import_exn \<Rightarrow> bool" where
  "is_caught e = (case e of ValueExn _ \<Rightarrow> True | ArchiveExn (InvalidArchiveError _) \<Rightarrow> True | _ \<Rightarrow> False)"

definition lerobot_build_draft ::
  "import_env \<Rightarrow> zip_info list \<Rightarrow> string option \<Rightarrow> import_exn + DatasetManifest \<times> ImportValidationReport" where
  "lerobot_build_draft env members file =
     (case draft_body env members file of
        (parts, report) \<Rightarrow>
          if dp_raised parts \<noteq> None \<and> \<not> is_caught (the (dp_raised parts)) then Inl (the (dp_raised parts))
          else
            (let report1 = (if dp_raised parts = None then report
                            else add_error ''Unable to parse core dataset metadata from archive'' report);
                 report2 = when_report (dp_episodes parts = 0) ''Detected 0 episodes from metadata'' report1;
                 report3 = when_report (dp_frames parts = 0 \<and> dp_episodes parts > 0)
                   ''Detected episodes but total frame count is 0'' report2;
                 schema = extract_recording_schema env (dp_info parts);
                 report4 = when_report (rs_cameras schema = []) ''No camera streams inferred from dataset metadata'' report3;
                 report5 = when_report (rs_robots schema = []) ''No robot schema inferred from dataset metadata'' report4
             in case make_statistics (dp_episodes parts) (dp_frames parts) of
                  None \<Rightarrow> Inl ValidationExn
                | Some statistics \<Rightarrow>
                    Inr (\<lparr>dm_source_type = LEROBOT_V3, dm_statistics = statistics,
                          dm_dataset_schema = schema\<lparr>rs_tasks := sort (dp_tasks parts)\<rparr>\<rparr>, report5)))"

section \<open>Commit\<close>

text \<open>The disk and the table of datasets.\<close>

record import_store =
  is_fs :: "string fs"
  is_datasets :: "Dataset list"

definition on_fs :: "('e + 'a) \<times> string fs \<Rightarrow> import_store \<Rightarrow> ('e + 'a) \<times> import_store" where
  "on_fs r st = (case r of (x, fs) \<Rightarrow> (x, st\<lparr>is_fs := fs\<rparr>))"

definition archive_state :: "(archive_error + 'a) \<times> 's \<Rightarrow> (import_exn + 'a) \<times> 's" where
  "archive_state r = (case r of (x, s) \<Rightarrow> lift_result ArchiveExn x s)"

text \<open>\<^verbatim>\<open>mkdir(parents=True, exist_ok=False)\<close>.\<close>

definition fs_mkdir_new :: "path \<Rightarrow> 'c fs \<Rightarrow> os_error + 'c fs" where
  "fs_mkdir_new p fs = (if fs_exists p fs then Inl (FileExistsError p) else fs_mkdirs p fs)"

definition persist_dataset :: "import_env \<Rightarrow> Dataset \<Rightarrow> import_store \<Rightarrow> (import_exn + Dataset) \<times> import_store" where
  "persist_dataset env dataset st =
     (case de_db_refuses env dataset of
        Some e \<Rightarrow> (Inl (IntegrityExn e), st)
      | None \<Rightarrow>
          if ds_id dataset \<in> ds_id ` set (is_datasets st) then (Inl (IntegrityExn (ds_id dataset)), st)
          else (Inr dataset, st\<lparr>is_datasets := is_datasets st @ [dataset]\<rparr>))"

definition validated_members :: "import_env \<Rightarrow> string option \<Rightarrow> archive_error + zip_info list" where
  "validated_members env file =
     (case file of
        None \<Rightarrow> Inl (ArchiveOsError (FileNotFoundError []))
      | Some content \<Rightarrow> get_validated_members (de_unzip env) None (de_max_uncompressed_bytes env) content)"

definition file_content :: "path \<Rightarrow> 'c fs \<Rightarrow> 'c option" where
  "file_content p fs = (case fs p of Some (FileN c) \<Rightarrow> Some c | _ \<Rightarrow> None)"

definition new_dataset :: "string \<Rightarrow> ImportPayload \<Rightarrow> string \<Rightarrow> DatasetImportFinalizeInput \<Rightarrow> Dataset" where
  "new_dataset dataset_id payload project_id fin =
     \<lparr>ds_id = dataset_id,
      ds_name = (case imp_dataset_name payload of None \<Rightarrow> ''Imported Dataset'' | Some n \<Rightarrow> if n = [] then ''Imported Dataset'' else n),
      ds_default_task = fin_default_task fin, ds_project_id = project_id,
      ds_environment_id = fin_environment_id fin\<rparr>"

text \<open>The body of the \<open>try\<close>: extract, flatten, store the row.\<close>

definition commit_body :: "import_env \<Rightarrow> zip_info list \<Rightarrow> path \<Rightarrow> Dataset \<Rightarrow> import_store \<Rightarrow> (import_exn + Dataset) \<times> import_store" where
  "commit_body env members destination_dir dataset st =
     bind_state (on_fs (archive_state (extract_to (de_free env) members destination_dir (de_min_free_bytes env) (is_fs st))) st)
       (\<lambda>_ st1.
     bind_state (on_fs (archive_state (lift_os_state (flatten_single_root_directory (de_listing env) destination_dir (is_fs st1)))) st1)
       (\<lambda>_ st2. persist_dataset env dataset st2))"

definition lerobot_commit :: "import_env \<Rightarrow> string \<Rightarrow> path \<Rightarrow> ImportPayload \<Rightarrow> string \<Rightarrow> import_store
    \<Rightarrow> (import_exn + Dataset) \<times> import_store" where
  "lerobot_commit env dataset_id archive_path payload project_id st =
     (case imp_finalize_input payload of
        None \<Rightarrow> (Inl (ValueExn ''Cannot commit dataset import without finalize input''), st)
      | Some fin \<Rightarrow>
          (let destination_dir = studio_datasets_dir env @ [dataset_id] in
           bind_state (on_fs (archive_state (lift_update ArchiveOsError (fs_mkdirs (studio_datasets_dir env) (is_fs st)) (is_fs st))) st)
             (\<lambda>_ st1.
           bind_state (on_fs (archive_state (lift_update ArchiveOsError (fs_mkdir_new destination_dir (is_fs st1)) (is_fs st1))) st1)
             (\<lambda>_ st2.
           bind_state (archive_state (lift_result id (validated_members env (file_content archive_path (is_fs st2))) st2))
             (\<lambda>members st3.
           bind_state (on_fs (archive_state (check_disk_headroom (de_free env) (studio_datasets_dir env)
               (collect_total_uncompressed members) (de_min_free_bytes env) (is_fs st3))) st3)
             (\<lambda>_ st4.
               case commit_body env members destination_dir (new_dataset dataset_id payload project_id fin) st4 of
                 (Inl e, st5) \<Rightarrow> (Inl e, st5\<lparr>is_fs := fs_remove_below destination_dir (is_fs st5)\<rparr>)
               | (Inr saved, st5) \<Rightarrow> (Inr saved, st5)))))))"

section \<open>Adapters\<close>

text \<open>The contract of \<^verbatim>\<open>adapters/base.py\<close>; the registry holds the one adapter there is.\<close>

record dataset_adapter =
  ad_source :: DatasetImportSource
  ad_detect :: "zip_info list \<Rightarrow> bool \<times> ImportValidationReport"
  ad_build_draft :: "zip_info list \<Rightarrow> string option \<Rightarrow> import_exn + DatasetManifest \<times> ImportValidationReport"
  ad_validate_pre_commit :: "ImportPayload \<Rightarrow> ImportValidationReport"
  ad_commit :: "string \<Rightarrow> path \<Rightarrow> ImportPayload \<Rightarrow> string \<Rightarrow> import_store \<Rightarrow> (import_exn + Dataset) \<times> import_store"

definition lerobot_validate_pre_commit :: "ImportPayload \<Rightarrow> ImportValidationReport" where
  "lerobot_validate_pre_commit payload =
     (if imp_finalize_input payload = None then add_error ''Finalize input is required before commit'' [] else [])"

definition LeRobotV3Adapter :: "import_env \<Rightarrow> dataset_adapter" where
  "LeRobotV3Adapter env =
     \<lparr>ad_source = LEROBOT_V3, ad_detect = lerobot_detect, ad_build_draft = lerobot_build_draft env,
      ad_validate_pre_commit = lerobot_validate_pre_commit, ad_commit = lerobot_commit env\<rparr>"

definition registered_adapters :: "import_env \<Rightarrow> dataset_adapter list" where
  "registered_adapters env = [LeRobotV3Adapter env]"

definition supported_formats :: "string list" where
  "supported_formats = [''auto'', ''lerobot_v3'']"

text \<open>The archive is read where an adapter is asked; a refused or unreadable one raises then.\<close>

fun select_dataset_import_adapter :: "dataset_adapter list \<Rightarrow> string \<Rightarrow> archive_error + zip_info list
    \<Rightarrow> import_exn + ImportValidationReport + dataset_adapter" where
  "select_dataset_import_adapter [] format_hint archive = Inr (Inl (add_error ''No supported dataset format was detected.'' []))"
| "select_dataset_import_adapter (a # adapters) format_hint archive =
     (if format_hint \<noteq> ''auto'' \<and> format_hint \<noteq> source_value (ad_source a)
      then select_dataset_import_adapter adapters format_hint archive
      else
        (case archive of
           Inl e \<Rightarrow> Inl (ArchiveExn e)
         | Inr members \<Rightarrow>
             (case ad_detect a members of
                (matched, report) \<Rightarrow>
                  if matched then Inr (Inr a)
                  else if format_hint = source_value (ad_source a) then Inr (Inl report)
                  else select_dataset_import_adapter adapters format_hint archive)))"

end
