(* ===== verification/DatasetImport.thy ===== *)
theory DatasetImport
  imports DatasetAdapter StudioScheduler
begin

text \<open>
  Importing a dataset: the endpoints (\<^verbatim>\<open>api/dataset_import.py\<close>), the service
  (\<^verbatim>\<open>services/dataset_import/service.py\<close>) and the worker (\<^verbatim>\<open>workers/dataset_import_worker.py\<close>) over the job
  table of StudioJobs, the adapters of DatasetAdapter and the disk. A call of the service loads and writes its
  row in one step. A worker runs as steps that end at its transactions; an upload as its check, its write to the
  disk and its attaching, with anything in between.
\<close>

section \<open>Service\<close>

datatype import_api_error = HttpStatus nat | ServiceRaised service_error | ArchiveRaised archive_error | OsRaised

definition staged_path :: "import_env \<Rightarrow> string \<Rightarrow> path" where
  "staged_path env staging_id = studio_cache_dir env @ [''imports'', ''datasets'', staging_id @ ''.zip'']"

definition resolve_payload_archive_path :: "import_env \<Rightarrow> ImportPayload \<Rightarrow> path" where
  "resolve_payload_archive_path env payload = staged_path env (imp_archive_staging_id payload)"

definition load_validated_dataset_import_job ::
  "string \<Rightarrow> string \<Rightarrow> jobs \<Rightarrow> service_error + Job \<times> ImportPayload" where
  "load_validated_dataset_import_job project_id job_id rows =
     (case find_job job_id rows of
        None \<Rightarrow> Inl (ResourceNotFound job_id)
      | Some job \<Rightarrow>
          if sj_project_id job \<noteq> project_id then Inl (ResourceNotFound job_id)
          else (case sj_payload job of
                  TrainP p \<Rightarrow> Inl (InvalidJobState ''Job is not a dataset import job'')
                | ImportP payload \<Rightarrow> Inr (job, payload)))"

definition new_import_payload :: "string \<Rightarrow> string \<Rightarrow> string \<Rightarrow> ImportPayload" where
  "new_import_payload staging_id format_hint dataset_name =
     \<lparr>imp_step = AWAITING_ARCHIVE_UPLOAD, imp_result_dataset_id = None, imp_archive_staging_id = staging_id,
      imp_uploaded_archive_name = None, imp_format_hint = format_hint,
      imp_dataset_name = (if dataset_name = [] then None else Some dataset_name), imp_manifest_draft = None,
      imp_validation_report = None, imp_finalize_input = None\<rparr>"

definition new_import_job :: "string \<Rightarrow> string \<Rightarrow> ImportPayload \<Rightarrow> int \<Rightarrow> Job" where
  "new_import_job job_id project_id payload now =
     \<lparr>sj_id = job_id, sj_project_id = project_id, sj_payload = ImportP payload, sj_progress = 0,
      sj_status = J_PENDING, sj_extra_info = None, sj_message = ''Dataset import job prepared, awaiting upload'',
      sj_start_time = None, sj_end_time = None, sj_created_at = now\<rparr>"

text \<open>The row is refused for a project that does not exist.\<close>

definition prepare_dataset_import_job :: "import_env \<Rightarrow> string \<Rightarrow> string \<Rightarrow> string \<Rightarrow> string \<Rightarrow> string \<Rightarrow> int \<Rightarrow> jobs
    \<Rightarrow> (service_error + Job) \<times> jobs" where
  "prepare_dataset_import_job env job_id staging_id project_id format_hint dataset_name now rows =
     (let job = new_import_job job_id project_id (new_import_payload staging_id format_hint dataset_name) now
      in if project_id \<notin> set (de_projects env) \<or> find_job job_id rows \<noteq> None
         then (Inl (ResourceNotFound project_id), rows)
         else (Inr job, rows @ [job]))"

definition import_change :: "ImportPayload option \<Rightarrow> JobStatus \<Rightarrow> string \<Rightarrow> int option \<Rightarrow> int option \<Rightarrow> job_change" where
  "import_change payload status message progress end_time =
     no_change\<lparr>chg_payload := map_option ImportP payload, chg_status := Some status, chg_message := Some message,
               chg_progress := progress, chg_end_time := end_time\<rparr>"

definition attach_dataset_import_archive :: "string \<Rightarrow> string \<Rightarrow> string \<Rightarrow> jobs \<Rightarrow> (service_error + Job option) \<times> jobs" where
  "attach_dataset_import_archive project_id job_id uploaded_archive_name rows =
     bind_state (lift_result id (load_validated_dataset_import_job project_id job_id rows) rows) (\<lambda>(job, payload) rows.
       if imp_step payload \<noteq> AWAITING_ARCHIVE_UPLOAD
       then (Inl (InvalidJobState ''Archive can only be attached when job awaits its upload''), rows)
       else
         (let payload' = payload\<lparr>imp_uploaded_archive_name := Some uploaded_archive_name, imp_step := QUEUED_FOR_DETECTION\<rparr>;
              rows' = update_job job (import_change (Some payload') J_PENDING ''Dataset queued for importing'' (Some 5) None) rows
          in (Inr (find_job job_id rows'), rows')))"

definition finalize_dataset_import_job ::
  "string \<Rightarrow> string \<Rightarrow> DatasetImportFinalizeInput \<Rightarrow> jobs \<Rightarrow> (service_error + Job option) \<times> jobs" where
  "finalize_dataset_import_job project_id job_id finalize_input rows =
     bind_state (lift_result id (load_validated_dataset_import_job project_id job_id rows) rows) (\<lambda>(job, payload) rows.
       if imp_step payload \<noteq> AWAITING_USER_REVIEW
       then (Inl (InvalidJobState ''Dataset import can only be finalized from user review''), rows)
       else
         (let payload' = payload\<lparr>imp_finalize_input := Some finalize_input, imp_step := QUEUED_FOR_IMPORT\<rparr>;
              rows' = update_job job (import_change (Some payload') J_PENDING ''Dataset import finalized and queued'' (Some 45) None) rows
          in (Inr (find_job job_id rows'), rows')))"

text \<open>The second half of a cancellation writes the copy of the row that the first half loaded.\<close>

definition write_cancellation :: "import_env \<Rightarrow> Job \<Rightarrow> ImportPayload \<Rightarrow> int \<Rightarrow> jobs \<times> string fs \<Rightarrow> jobs \<times> string fs" where
  "write_cancellation env job payload now st =
     (case st of (rows, fs) \<Rightarrow>
        (update_job job (import_change None J_CANCELED ''Dataset import canceled'' None (Some now)) rows,
         fs_unlink (resolve_payload_archive_path env payload) fs))"

definition cancel_dataset_import_job ::
  "import_env \<Rightarrow> string \<Rightarrow> string \<Rightarrow> int \<Rightarrow> jobs \<times> string fs \<Rightarrow> (service_error + unit) \<times> jobs \<times> string fs" where
  "cancel_dataset_import_job env project_id job_id now st =
     bind_state (lift_result id (load_validated_dataset_import_job project_id job_id (fst st)) st) (\<lambda>(job, payload) st.
       if imp_step payload \<noteq> AWAITING_USER_REVIEW
       then (Inl (InvalidJobState ''Dataset import can only be canceled from user review''), st)
       else (Inr (), write_cancellation env job payload now st))"

section \<open>State\<close>

datatype worker_stage = W_Start | W_Detect | W_Build "zip_info list" dataset_adapter
  | W_Import dataset_adapter | W_Complete

record import_worker =
  wk_job :: string
  wk_project :: string
  wk_payload :: ImportPayload
  wk_stage :: worker_stage

text \<open>An upload request that has passed its check, with the payload it loaded then.\<close>

record upload =
  up_id :: nat
  up_project :: string
  up_job :: string
  up_payload :: ImportPayload
  up_filename :: string
  up_content :: string
  up_staged :: bool

text \<open>
  \<open>iw_db\<close> are the outcomes of the next updates of the worker, \<open>None\<close> where one succeeds (and where the list is
  too short); \<open>iw_issued\<close> are the identifiers \<^verbatim>\<open>uuid4\<close> has given.
\<close>

record import_world =
  iw_jobs :: jobs
  iw_store :: import_store
  iw_worker :: "import_worker option"
  iw_uploads :: "upload list"
  iw_events :: "Job list"
  iw_db :: "string option list"
  iw_issued :: "string list"

definition world_fs :: "import_world \<Rightarrow> string fs" where
  "world_fs w = is_fs (iw_store w)"

definition set_world_fs :: "string fs \<Rightarrow> import_world \<Rightarrow> import_world" where
  "set_world_fs fs w = w\<lparr>iw_store := (iw_store w)\<lparr>is_fs := fs\<rparr>\<rparr>"

definition import_init :: "jobs \<Rightarrow> import_store \<Rightarrow> import_world" where
  "import_init rows st = \<lparr>iw_jobs = rows, iw_store = st, iw_worker = None, iw_uploads = [], iw_events = [], iw_db = [],
     iw_issued = map sj_id rows\<rparr>"

section \<open>Endpoints\<close>

definition prepare_endpoint :: "import_env \<Rightarrow> string \<Rightarrow> string \<Rightarrow> string \<Rightarrow> string \<Rightarrow> string \<Rightarrow> int \<Rightarrow> jobs
    \<Rightarrow> (import_api_error + Job) \<times> jobs" where
  "prepare_endpoint env job_id staging_id project_id format_hint dataset_name now rows =
     (if format_hint \<notin> set supported_formats then (Inl (HttpStatus 400), rows)
      else if strip_space dataset_name = [] then (Inl (HttpStatus 400), rows)
      else (case prepare_dataset_import_job env job_id staging_id project_id format_hint (strip_space dataset_name) now rows of
              (r, rows') \<Rightarrow> lift_result ServiceRaised r rows'))"

definition get_awaiting_upload_job :: "string \<Rightarrow> string \<Rightarrow> jobs \<Rightarrow> import_api_error + ImportPayload" where
  "get_awaiting_upload_job project_id job_id rows =
     (case find_job job_id rows of
        None \<Rightarrow> Inl (ServiceRaised (ResourceNotFound job_id))
      | Some job \<Rightarrow>
          (case sj_payload job of
             TrainP p \<Rightarrow> Inl (HttpStatus 404)
           | ImportP payload \<Rightarrow>
               if sj_project_id job \<noteq> project_id then Inl (HttpStatus 404)
               else if imp_step payload \<noteq> AWAITING_ARCHIVE_UPLOAD then Inl (HttpStatus 409)
               else Inr payload))"

definition check_upload_name :: "string \<Rightarrow> import_api_error + unit" where
  "check_upload_name filename =
     (if filename = [] then Inl (HttpStatus 400)
      else if \<not> ends_with ''.zip'' (py_lower filename) then Inl (HttpStatus 415) else Inr ())"

definition accept_upload :: "import_env \<Rightarrow> nat \<Rightarrow> string \<Rightarrow> string \<Rightarrow> string \<Rightarrow> string \<Rightarrow> import_world
    \<Rightarrow> (import_api_error + unit) \<times> import_world" where
  "accept_upload env u project_id job_id filename content w =
     bind_state (lift_result id (get_awaiting_upload_job project_id job_id (iw_jobs w)) w) (\<lambda>payload w.
     bind_state (lift_result id (check_upload_name filename) w) (\<lambda>_ w.
       (case check_disk_headroom (de_free env) (studio_cache_dir env @ [''imports'', ''datasets'']) (length content)
               (de_min_free_bytes env) (world_fs w) of
          (Inl e, fs) \<Rightarrow> (Inl (ArchiveRaised e), set_world_fs fs w)
        | (Inr _, fs) \<Rightarrow>
            (Inr (), (set_world_fs fs w)\<lparr>iw_uploads := iw_uploads w @
               [\<lparr>up_id = u, up_project = project_id, up_job = job_id, up_payload = payload, up_filename = filename,
                 up_content = content, up_staged = False\<rparr>]\<rparr>))))"

definition staged_upload_path :: "import_env \<Rightarrow> upload \<Rightarrow> path" where
  "staged_upload_path env up = resolve_payload_archive_path env (up_payload up)"

text \<open>\<open>broken\<close>: the write fails after so many bytes.\<close>

definition persist_uploaded_archive :: "import_env \<Rightarrow> nat option \<Rightarrow> upload \<Rightarrow> string fs \<Rightarrow> (import_api_error + unit) \<times> string fs" where
  "persist_uploaded_archive env broken up fs =
     (case fs_mkdirs (butlast (staged_upload_path env up)) fs of
        Inl e \<Rightarrow> (Inl OsRaised, fs)
      | Inr fs1 \<Rightarrow>
          (case fs_write (staged_upload_path env up) (case broken of None \<Rightarrow> up_content up | Some n \<Rightarrow> take n (up_content up)) fs1 of
             Inl e \<Rightarrow> (Inl OsRaised, fs1)
           | Inr fs2 \<Rightarrow> (if broken = None then Inr () else Inl OsRaised, fs2)))"

definition drop_upload :: "nat \<Rightarrow> import_world \<Rightarrow> import_world" where
  "drop_upload u w = w\<lparr>iw_uploads := filter (\<lambda>x. up_id x \<noteq> u) (iw_uploads w)\<rparr>"

definition write_upload :: "import_env \<Rightarrow> nat option \<Rightarrow> upload \<Rightarrow> import_world \<Rightarrow> import_world" where
  "write_upload env broken up w =
     (case persist_uploaded_archive env broken up (world_fs w) of
        (Inl e, fs) \<Rightarrow> drop_upload (up_id up) (set_world_fs fs w)
      | (Inr _, fs) \<Rightarrow>
          (set_world_fs fs w)\<lparr>iw_uploads := map (\<lambda>x. if up_id x = up_id up then x\<lparr>up_staged := True\<rparr> else x) (iw_uploads w)\<rparr>)"

text \<open>Validation of what is on the disk then; only an archive that is refused is removed.\<close>

definition attach_upload :: "import_env \<Rightarrow> upload \<Rightarrow> import_world \<Rightarrow> (import_api_error + unit) \<times> import_world" where
  "attach_upload env up w0 =
     (let w = drop_upload (up_id up) w0 in
      case validated_members env (file_content (staged_upload_path env up) (world_fs w)) of
        Inl (ArchiveOsError e) \<Rightarrow> (Inl OsRaised, w)
      | Inl e \<Rightarrow> (Inl (ArchiveRaised e), set_world_fs (fs_unlink (staged_upload_path env up) (world_fs w)) w)
      | Inr members \<Rightarrow>
          (case attach_dataset_import_archive (up_project up) (up_job up) (up_filename up) (iw_jobs w) of
             (Inl e, rows) \<Rightarrow> (Inl (ServiceRaised e), w\<lparr>iw_jobs := rows\<rparr>)
           | (Inr _, rows) \<Rightarrow> (Inr (), w\<lparr>iw_jobs := rows\<rparr>)))"

section \<open>Worker\<close>

text \<open>\<^verbatim>\<open>_update_job_payload\<close>: one transaction; the database may fail.\<close>

definition update_import_payload :: "int \<Rightarrow> string \<Rightarrow> ImportPayload \<Rightarrow> JobStatus \<Rightarrow> string \<Rightarrow> int option \<Rightarrow> import_world
    \<Rightarrow> (import_exn + Job) \<times> import_world" where
  "update_import_payload now job_id payload status message progress w0 =
     (let w = w0\<lparr>iw_db := tl (iw_db w0)\<rparr> in
      case (if iw_db w0 = [] then None else hd (iw_db w0)) of
        Some e \<Rightarrow> (Inl (DatabaseExn e), w)
      | None \<Rightarrow>
          (case update_job_payload job_id (ImportP payload) (Some status) (Some message) progress None now (iw_jobs w) of
             (Inr (Some job), rows) \<Rightarrow> (Inr job, w\<lparr>iw_jobs := rows\<rparr>)
           | (_, rows) \<Rightarrow> (Inl (DatabaseExn job_id), w\<lparr>iw_jobs := rows\<rparr>)))"

definition queue_put :: "Job \<Rightarrow> import_world \<Rightarrow> import_world" where
  "queue_put job w = w\<lparr>iw_events := iw_events w @ [job]\<rparr>"

definition cleanup_staged :: "path \<Rightarrow> import_world \<Rightarrow> import_world" where
  "cleanup_staged archive_path w = set_world_fs (fs_unlink archive_path (world_fs w)) w"

definition put_update :: "int \<Rightarrow> string \<Rightarrow> ImportPayload \<Rightarrow> JobStatus \<Rightarrow> string \<Rightarrow> int option \<Rightarrow> import_world
    \<Rightarrow> (import_exn + unit) \<times> import_world" where
  "put_update now job_id payload status message progress w =
     bind_state (update_import_payload now job_id payload status message progress w) (\<lambda>job w. (Inr (), queue_put job w))"

definition fail_job_with_validation_report :: "import_env \<Rightarrow> int \<Rightarrow> string \<Rightarrow> ImportPayload \<Rightarrow> ImportValidationReport \<Rightarrow> string
    \<Rightarrow> import_world \<Rightarrow> (import_exn + unit) \<times> import_world" where
  "fail_job_with_validation_report env now job_id payload report message w =
     (let payload' = payload\<lparr>imp_validation_report := (if report = [] then None else Some report)\<rparr>
      in bind_state (update_import_payload now job_id payload' J_FAILED message None w) (\<lambda>job w.
           (Inr (), queue_put job (cleanup_staged (resolve_payload_archive_path env payload) w))))"

text \<open>How a part of the work ends: with the next part, with the process, or with an exception and the payload then.\<close>

datatype phase_end = Goes import_worker | Ends | Raises import_exn ImportPayload

definition end_phase :: "ImportPayload \<Rightarrow> phase_end \<Rightarrow> (import_exn + unit) \<times> import_world \<Rightarrow> phase_end \<times> import_world" where
  "end_phase payload next r = (case r of (Inl e, w) \<Rightarrow> (Raises e payload, w) | (Inr _, w) \<Rightarrow> (next, w))"

definition start_detection :: "int \<Rightarrow> import_worker \<Rightarrow> import_world \<Rightarrow> phase_end \<times> import_world" where
  "start_detection now wk w =
     (let payload = (wk_payload wk)\<lparr>imp_step := DETECTING_FORMAT\<rparr>
      in end_phase payload (Goes (wk\<lparr>wk_payload := payload, wk_stage := W_Detect\<rparr>))
           (put_update now (wk_job wk) payload J_RUNNING ''Detecting dataset format'' (Some 10) w))"

definition detect_format :: "import_env \<Rightarrow> dataset_adapter list \<Rightarrow> int \<Rightarrow> import_worker \<Rightarrow> import_world \<Rightarrow> phase_end \<times> import_world" where
  "detect_format env adapters now wk w =
     (let payload = wk_payload wk;
          archive = validated_members env (file_content (resolve_payload_archive_path env payload) (world_fs w))
      in case select_dataset_import_adapter adapters (imp_format_hint payload) archive of
           Inl e \<Rightarrow> (Raises e payload, w)
         | Inr (Inl report) \<Rightarrow>
             end_phase payload Ends
               (fail_job_with_validation_report env now (wk_job wk) payload report ''Dataset format detection failed'' w)
         | Inr (Inr adapter) \<Rightarrow>
             (let payload' = payload\<lparr>imp_step := BUILDING_MANIFEST_DRAFT\<rparr>;
                  members = (case archive of Inl _ \<Rightarrow> [] | Inr ms \<Rightarrow> ms)
              in end_phase payload' (Goes (wk\<lparr>wk_payload := payload', wk_stage := W_Build members adapter\<rparr>))
                   (put_update now (wk_job wk) payload' J_RUNNING ''Generating dataset draft'' (Some 25) w)))"

definition build_draft_phase :: "import_env \<Rightarrow> int \<Rightarrow> zip_info list \<Rightarrow> dataset_adapter \<Rightarrow> import_worker \<Rightarrow> import_world
    \<Rightarrow> phase_end \<times> import_world" where
  "build_draft_phase env now members adapter wk w =
     (let payload = wk_payload wk in
      case ad_build_draft adapter members (file_content (resolve_payload_archive_path env payload) (world_fs w)) of
        Inl e \<Rightarrow> (Raises e payload, w)
      | Inr (draft, report) \<Rightarrow>
          (let payload' = payload\<lparr>imp_manifest_draft := Some (draft\<lparr>dm_source_type := ad_source adapter\<rparr>),
                 imp_validation_report := (if report = [] then None else Some report), imp_step := AWAITING_USER_REVIEW\<rparr>
           in end_phase payload' Ends (put_update now (wk_job wk) payload' J_PENDING ''Waiting for user input'' (Some 40) w)))"

text \<open>The \<open>finally\<close> of a commit, where the work raises.\<close>

definition finally_cleanup :: "path \<Rightarrow> phase_end \<times> import_world \<Rightarrow> phase_end \<times> import_world" where
  "finally_cleanup archive_path r =
     (case r of (Goes wk, w) \<Rightarrow> (Goes wk, w) | (x, w) \<Rightarrow> (x, cleanup_staged archive_path w))"

definition pre_commit_report :: "dataset_adapter \<Rightarrow> ImportPayload \<Rightarrow> ImportValidationReport" where
  "pre_commit_report adapter payload =
     (if imp_dataset_name payload = None \<or> imp_dataset_name payload = Some []
      then add_error ''dataset_name is required before commit (must be set at prepare time)'' [] else [])
     @ ad_validate_pre_commit adapter payload"

definition start_commit :: "import_env \<Rightarrow> dataset_adapter list \<Rightarrow> int \<Rightarrow> import_worker \<Rightarrow> import_world \<Rightarrow> phase_end \<times> import_world" where
  "start_commit env adapters now wk w =
     (let payload = wk_payload wk; archive_path = resolve_payload_archive_path env payload in
      case imp_manifest_draft payload of
        None \<Rightarrow> (Raises (ValueExn ''No dataset manifest draft found; cannot determine adapter for commit'') payload, w)
      | Some draft \<Rightarrow>
          (case find (\<lambda>a. ad_source a = dm_source_type draft) adapters of
             None \<Rightarrow> (Raises (ValueExn ''No adapter available during commit'') payload, w)
           | Some adapter \<Rightarrow>
               (let report = pre_commit_report adapter payload in
                if \<not> report_is_valid report then
                  (let payload' = payload\<lparr>imp_validation_report := Some report\<rparr>
                   in end_phase payload' Ends
                        (bind_state (update_import_payload now (wk_job wk) payload' J_FAILED ''Pre-commit validation failed'' None w)
                          (\<lambda>job w. (Inr (), queue_put job (cleanup_staged archive_path w)))))
                else
                  (let payload' = payload\<lparr>imp_step := IMPORTING_DATASET\<rparr>
                   in finally_cleanup archive_path
                        (end_phase payload' (Goes (wk\<lparr>wk_payload := payload', wk_stage := W_Import adapter\<rparr>))
                          (put_update now (wk_job wk) payload' J_RUNNING ''Importing dataset'' (Some 60) w))))))"

definition import_phase :: "import_env \<Rightarrow> string \<Rightarrow> dataset_adapter \<Rightarrow> import_worker \<Rightarrow> import_world \<Rightarrow> phase_end \<times> import_world" where
  "import_phase env new_id adapter wk w =
     (let payload = wk_payload wk; archive_path = resolve_payload_archive_path env payload in
      finally_cleanup archive_path
        (case ad_commit adapter new_id archive_path payload (wk_project wk) (iw_store w) of
           (Inl e, st) \<Rightarrow> (Raises e payload, w\<lparr>iw_store := st\<rparr>)
         | (Inr dataset, st) \<Rightarrow>
             (Goes (wk\<lparr>wk_payload := payload\<lparr>imp_result_dataset_id := Some (ds_id dataset), imp_step := IMPORT_COMPLETED\<rparr>,
                       wk_stage := W_Complete\<rparr>), w\<lparr>iw_store := st\<rparr>)))"

definition complete_phase :: "import_env \<Rightarrow> int \<Rightarrow> import_worker \<Rightarrow> import_world \<Rightarrow> phase_end \<times> import_world" where
  "complete_phase env now wk w =
     finally_cleanup (resolve_payload_archive_path env (wk_payload wk))
       (end_phase (wk_payload wk) Ends
         (put_update now (wk_job wk) (wk_payload wk) J_COMPLETED ''Dataset import completed'' (Some 100) w))"

text \<open>The process starts with the row as it finds it; a row that is not a running import ends it.\<close>

definition start_phase :: "import_env \<Rightarrow> dataset_adapter list \<Rightarrow> int \<Rightarrow> import_worker \<Rightarrow> import_world \<Rightarrow> phase_end \<times> import_world" where
  "start_phase env adapters now wk w =
     (case find_job (wk_job wk) (iw_jobs w) of
        None \<Rightarrow> (Ends, w)
      | Some job \<Rightarrow>
          (case sj_payload job of
             TrainP p \<Rightarrow> (Ends, w)
           | ImportP payload \<Rightarrow>
               if sj_status job \<noteq> J_RUNNING then (Ends, w)
               else
                 (let wk' = wk\<lparr>wk_project := sj_project_id job, wk_payload := payload\<rparr> in
                  if imp_step payload = QUEUED_FOR_DETECTION then start_detection now wk' w
                  else if imp_step payload = QUEUED_FOR_IMPORT then start_commit env adapters now wk' w
                  else (Ends, w))))"

definition worker_phase :: "import_env \<Rightarrow> dataset_adapter list \<Rightarrow> int \<Rightarrow> string \<Rightarrow> import_worker \<Rightarrow> import_world \<Rightarrow> phase_end \<times> import_world" where
  "worker_phase env adapters now new_id wk w =
     (case wk_stage wk of
        W_Start \<Rightarrow> start_phase env adapters now wk w
      | W_Detect \<Rightarrow> detect_format env adapters now wk w
      | W_Build members adapter \<Rightarrow> build_draft_phase env now members adapter wk w
      | W_Import adapter \<Rightarrow> import_phase env new_id adapter wk w
      | W_Complete \<Rightarrow> complete_phase env now wk w)"

text \<open>The handler around the work marks the job failed; where that raises too the process ends with the row as it is.\<close>

definition process_job :: "import_env \<Rightarrow> int \<Rightarrow> import_worker \<Rightarrow> phase_end \<times> import_world \<Rightarrow> import_world" where
  "process_job env now wk r =
     (case r of
        (Goes wk', w) \<Rightarrow> w\<lparr>iw_worker := Some wk'\<rparr>
      | (Ends, w) \<Rightarrow> w\<lparr>iw_worker := None\<rparr>
      | (Raises e payload, w) \<Rightarrow>
          (snd (fail_job_with_validation_report env now (wk_job wk) payload
             (add_error ''Dataset import failed unexpectedly'' []) ''Dataset import failed'' w))\<lparr>iw_worker := None\<rparr>)"

definition run_import_worker :: "import_env \<Rightarrow> dataset_adapter list \<Rightarrow> int \<Rightarrow> string \<Rightarrow> import_world \<Rightarrow> import_world" where
  "run_import_worker env adapters now new_id w =
     (case iw_worker w of
        None \<Rightarrow> w
      | Some wk \<Rightarrow> process_job env now wk (worker_phase env adapters now new_id wk w))"

text \<open>A process that is killed while it extracts leaves the first entries behind.\<close>

definition partial_commit :: "import_env \<Rightarrow> string \<Rightarrow> nat \<Rightarrow> ImportPayload \<Rightarrow> string fs \<Rightarrow> string fs" where
  "partial_commit env new_id k payload fs =
     (case bind_result (fs_mkdirs (studio_datasets_dir env) fs) (fs_mkdir_new (studio_datasets_dir env @ [new_id])) of
        Inl e \<Rightarrow> fs
      | Inr fs1 \<Rightarrow>
          (case validated_members env (file_content (resolve_payload_archive_path env payload) fs1) of
             Inl e \<Rightarrow> fs1
           | Inr members \<Rightarrow> snd (extract_members (take k members) (studio_datasets_dir env @ [new_id]) 0 fs1)))"

section \<open>Events\<close>

datatype import_event =
    ImportPrepared string string string string string int
  | UploadAccepted nat string string string string
  | UploadWritten nat "nat option"
  | UploadAttached nat
  | ImportFinalized string string DatasetImportFinalizeInput
  | ImportCanceled string string int
  | ImportClaimed int
  | WorkerStep int string "string option list"
  | WorkerDied string "nat option"
  | ImportsRecovered int
  | ImportDeleted string

definition claim_import :: "int \<Rightarrow> import_world \<Rightarrow> import_world" where
  "claim_import now w =
     (if iw_worker w \<noteq> None then w
      else (case claim_pending_dataset_import_job now (iw_jobs w) of
          (None, rows) \<Rightarrow> w\<lparr>iw_jobs := rows\<rparr>
        | (Some job, rows) \<Rightarrow>
            (case sj_payload job of
               TrainP p \<Rightarrow> w\<lparr>iw_jobs := rows\<rparr>
             | ImportP payload \<Rightarrow> w\<lparr>iw_jobs := rows, iw_worker := Some \<lparr>wk_job = sj_id job, wk_project = sj_project_id job,
                 wk_payload = payload, wk_stage = W_Start\<rparr>\<rparr>)))"

definition find_upload :: "nat \<Rightarrow> import_world \<Rightarrow> upload option" where
  "find_upload u w = find (\<lambda>x. up_id x = u) (iw_uploads w)"

fun import_step :: "import_env \<Rightarrow> dataset_adapter list \<Rightarrow> import_world \<Rightarrow> import_event \<Rightarrow> import_world" where
  "import_step env adapters w (ImportPrepared job_id staging_id project_id format_hint dataset_name now) =
     (if job_id \<in> set (iw_issued w) \<or> staging_id \<in> set (iw_issued w) \<or> job_id = staging_id then w
      else w\<lparr>iw_jobs := snd (prepare_endpoint env job_id staging_id project_id format_hint dataset_name now (iw_jobs w)),
             iw_issued := job_id # staging_id # iw_issued w\<rparr>)"
| "import_step env adapters w (UploadAccepted u project_id job_id filename content) =
     (if u \<in> up_id ` set (iw_uploads w) then w else snd (accept_upload env u project_id job_id filename content w))"
| "import_step env adapters w (UploadWritten u broken) =
     (case find_upload u w of
        None \<Rightarrow> w
      | Some up \<Rightarrow> if up_staged up then w else write_upload env broken up w)"
| "import_step env adapters w (UploadAttached u) =
     (case find_upload u w of
        None \<Rightarrow> w
      | Some up \<Rightarrow> if up_staged up then snd (attach_upload env up w) else w)"
| "import_step env adapters w (ImportFinalized project_id job_id input) =
     w\<lparr>iw_jobs := snd (finalize_dataset_import_job project_id job_id input (iw_jobs w))\<rparr>"
| "import_step env adapters w (ImportCanceled project_id job_id now) =
     (case snd (cancel_dataset_import_job env project_id job_id now (iw_jobs w, world_fs w)) of
        (rows, fs) \<Rightarrow> (set_world_fs fs w)\<lparr>iw_jobs := rows\<rparr>)"
| "import_step env adapters w (ImportClaimed now) = claim_import now w"
| "import_step env adapters w (WorkerStep now new_id db) = run_import_worker env adapters now new_id (w\<lparr>iw_db := db\<rparr>)"
| "import_step env adapters w (WorkerDied new_id k) =
     (case iw_worker w of
        None \<Rightarrow> w
      | Some wk \<Rightarrow>
          (case (wk_stage wk, k) of
             (W_Import adapter, Some n) \<Rightarrow>
               (set_world_fs (partial_commit env new_id n (wk_payload wk) (world_fs w)) w)\<lparr>iw_worker := None\<rparr>
           | _ \<Rightarrow> w\<lparr>iw_worker := None\<rparr>))"
| "import_step env adapters w (ImportsRecovered now) =
     w\<lparr>iw_jobs := fail_imports now (case iw_worker w of None \<Rightarrow> [] | Some wk \<Rightarrow> [wk_job wk])
        (filter (\<lambda>j. sj_status j = J_RUNNING \<and> job_type j = DATASET_IMPORT) (iw_jobs w)) (iw_jobs w)\<rparr>"
| "import_step env adapters w (ImportDeleted job_id) = w\<lparr>iw_jobs := snd (delete_studio_job job_id (iw_jobs w))\<rparr>"

end
