(* ===== verification/DatasetAdapterProps.thy ===== *)
theory DatasetAdapterProps
  imports DatasetAdapter
begin

text \<open>
  What the adapter guarantees: a commit stores the dataset with the files of the archive or leaves nothing behind,
  an archive is recognized by its first entries, a recording schema names each joint once.
\<close>

section \<open>Commit\<close>

interpretation store_frame: state_preorder "\<lambda>s t. fs_frame base (is_fs s) (is_fs t)" for base
  by unfold_locales (auto intro: archive_frame.trans_rel)

lemma snd_on_fs [simp]: "snd (on_fs r st) = st\<lparr>is_fs := snd r\<rparr>"
  by (cases r) (simp add: on_fs_def)

lemma snd_archive_state [simp]: "snd (archive_state r) = snd r"
  by (cases r; cases "fst r") (auto simp: archive_state_def)

lemma snd_lift_update [simp]: "snd (lift_update f r s) = (case r of Inl _ \<Rightarrow> s | Inr t \<Rightarrow> t)"
  by (cases r) auto

lemma snd_lift_result [simp]: "snd (lift_result f r s) = s"
  by (cases r) auto

lemma on_fs_Inr: "on_fs r st = (Inr a, st') \<longleftrightarrow> (\<exists>fs. r = (Inr a, fs) \<and> st' = st\<lparr>is_fs := fs\<rparr>)"
  by (cases r) (auto simp: on_fs_def)

lemma archive_state_Inr: "archive_state r = (Inr a, s) \<longleftrightarrow> r = (Inr a, s)"
  by (cases r; cases "fst r") (auto simp: archive_state_def)

lemma lift_os_state_Inr: "lift_os_state r = (Inr a, s) \<longleftrightarrow> r = (Inr a, s)"
  by (cases r; cases "fst r") (auto simp: lift_os_state_def)

text \<open>Making directories gives no file another content.\<close>

lemma file_content_mkdirs: "fs_mkdirs p fs = Inr fs' \<Longrightarrow> file_content q fs' = file_content q fs"
  by (auto simp: file_content_def dest!: fs_mkdirs_Inr split: option.splits node.splits if_splits)

lemma fs_mkdir_new_Inr: "fs_mkdir_new p fs = Inr fs' \<longleftrightarrow> fs p = None \<and> fs_mkdirs p fs = Inr fs'"
  by (auto simp: fs_mkdir_new_def fs_exists_def)

lemma persist_datasets:
  "persist_dataset env d st = (r, st') \<Longrightarrow> is_fs st' = is_fs st \<and>
     (case r of Inl _ \<Rightarrow> is_datasets st' = is_datasets st
      | Inr d' \<Rightarrow> d' = d \<and> ds_id d \<notin> ds_id ` set (is_datasets st) \<and> is_datasets st' = is_datasets st @ [d])"
  by (auto simp: persist_dataset_def split: option.splits if_splits)

lemma persist_fs [simp]: "is_fs (snd (persist_dataset env d st)) = is_fs st"
  by (simp add: persist_dataset_def split: option.split)

text \<open>Moving and removing files gives no directory a content it did not have.\<close>

definition contents_below :: "path \<Rightarrow> 'c fs \<Rightarrow> 'c set" where
  "contents_below base fs = {c. \<exists>q. fs (base @ q) = Some (FileN c)}"

lemma contents_below_less:
  "(\<And>q. fs' (base @ q) \<noteq> None \<Longrightarrow> fs' (base @ q) = fs (base @ q)) \<Longrightarrow> contents_below base fs' \<subseteq> contents_below base fs"
  by (force simp: contents_below_def)

lemma contents_flatten_scan: "contents_below base (snd (flatten_scan base ns fs)) \<subseteq> contents_below base fs"
proof (induction ns arbitrary: fs)
  case (Cons n ns)
  let ?fs1 = "if fs_is_dir (base @ [n]) fs then fs_remove_below (base @ [n]) fs else fs_unlink (base @ [n]) fs"
  have "contents_below base ?fs1 \<subseteq> contents_below base fs"
    by (rule contents_below_less) (auto simp: fs_remove_below_def fs_unlink_def split: if_splits)
  moreover have "snd (flatten_scan base (n # ns) fs) = snd (flatten_scan base ns
      (if is_ignorable_extraction_entry n then ?fs1 else fs))"
    by (simp split: prod.splits)
  ultimately show ?case using Cons.IH [of ?fs1] Cons.IH [of fs] by (auto split: if_splits)
qed simp

lemma contents_move:
  assumes "fs_move (base @ a) (base @ b) fs = Inr fs'"
  shows "contents_below base fs' \<subseteq> contents_below base fs"
proof -
  obtain d where d: "fs' = fs_rename (base @ a) (base @ d) fs"
    using assms by (auto simp: fs_move_def Let_def split: if_splits)
  show ?thesis
    unfolding d contents_below_def fs_rename_def by (auto split: if_splits)
qed

lemma contents_flatten_moves: "contents_below base (snd (flatten_moves base d cs fs)) \<subseteq> contents_below base fs"
proof (induction cs arbitrary: fs)
  case (Cons c cs)
  then show ?case
    using contents_move [of base "[d, c]" "[c]" fs]
    by (cases "fs_move (base @ [d, c]) (base @ [c]) fs") auto
qed simp

lemma contents_flatten:
  "contents_below base (snd (flatten_single_root_directory listing base fs)) \<subseteq> contents_below base fs"
proof -
  obtain ns fs1 where s: "flatten_scan base (listing fs base) fs = (ns, fs1)" by fastforce
  have 1: "contents_below base fs1 \<subseteq> contents_below base fs"
    using contents_flatten_scan [of base "listing fs base" fs] by (simp add: s)
  have 2: "contents_below base (snd (bind_state (flatten_moves base d cs fs1)
      (\<lambda>_ fs2. lift_update id (fs_rmdir listing (base @ [d]) fs2) fs2))) \<subseteq> contents_below base fs1" for d cs
  proof -
    obtain r fs2 where m: "flatten_moves base d cs fs1 = (r, fs2)" by fastforce
    have "contents_below base fs3 \<subseteq> contents_below base fs2" if "fs_rmdir listing (base @ [d]) fs2 = Inr fs3" for fs3
      using that by (auto simp: fs_rmdir_def contents_below_def split: if_splits)
    then show ?thesis using contents_flatten_moves [of base d cs fs1]
      by (cases r; cases "fs_rmdir listing (base @ [d]) fs2") (auto simp: m)
  qed
  show ?thesis
    using 1 2 by (auto simp: flatten_single_root_directory_def s split: list.splits)
qed

lemma contents_extract:
  assumes "extract_to free ms base m fs = (Inr k, fs')"
  shows "contents_below base fs' \<subseteq> contents_below base fs \<union> zi_data ` set ms"
proof -
  obtain fs1 where e: "extract_members ms base 0 fs1 = (Inr k, fs')"
    and f: "fs1 = fs \<or> fs_mkdirs base fs = Inr fs1"
    using assms by (auto simp: extract_to_def check_disk_headroom_def Let_def bind_state_Inr_iff lift_Inr_iffs split: if_splits)
  have "contents_below base fs1 \<subseteq> contents_below base fs"
    using f by (auto simp: contents_below_def dest!: fs_mkdirs_Inr split: if_splits)
  then show ?thesis using extract_members_origin [OF e] by (force simp: contents_below_def)
qed

definition destination :: "import_env \<Rightarrow> string \<Rightarrow> path" where
  "destination env dataset_id = studio_datasets_dir env @ [dataset_id]"

lemma datasets_keep [simp]: "is_datasets (st\<lparr>is_fs := fs\<rparr>) = is_datasets st"
  by simp

lemma commit_body_frame: "fs_frame base (is_fs st) (is_fs (snd (commit_body env ms base d st)))"
  unfolding commit_body_def
  by (intro store_frame.rel_bind)
     (auto simp: fs_frame_extract_to fs_frame_flatten)

lemma commit_body_Inr:
  assumes "commit_body env ms base d st = (Inr saved, st')"
  obtains k fs1 where "extract_to (de_free env) ms base (de_min_free_bytes env) (is_fs st) = (Inr k, fs1)"
    and "flatten_single_root_directory (de_listing env) base fs1 = (Inr (), is_fs st')"
    and "saved = d" and "ds_id d \<notin> ds_id ` set (is_datasets st)" and "is_datasets st' = is_datasets st @ [d]"
  using assms
  by (auto simp: commit_body_def bind_state_Inr_iff on_fs_Inr archive_state_Inr lift_os_state_Inr dest!: persist_datasets)

lemma commit_body_Inl: "commit_body env ms base d st = (Inl e, st') \<Longrightarrow> is_datasets st' = is_datasets st"
proof -
  assume c: "commit_body env ms base d st = (Inl e, st')"
  have "is_datasets (snd (bind_state (on_fs r s) f)) = is_datasets s \<or> (\<exists>a fs. r = (Inr a, fs) \<and> bind_state (on_fs r s) f = f a (s\<lparr>is_fs := fs\<rparr>))"
    for r s and f :: "'a \<Rightarrow> import_store \<Rightarrow> (import_exn + 'b) \<times> import_store"
    by (cases r; cases "fst r") (auto simp: on_fs_def)
  then show ?thesis using c persist_datasets [of env d] unfolding commit_body_def
    by (smt (verit) datasets_keep old.sum.simps(5) snd_conv)
qed

text \<open>Up to the body: the directories, the checked entries, and what is there when the body starts.\<close>

lemma lerobot_commit_cases:
  obtains (no_input) e where "imp_finalize_input p = None" and "lerobot_commit env i ap p pr st = (Inl e, st)"
  | (early) e fs where "lerobot_commit env i ap p pr st = (Inl e, st\<lparr>is_fs := fs\<rparr>)"
      and "\<And>n q. fs (destination env i @ n # q) = is_fs st (destination env i @ n # q)"
      and "fs (destination env i) \<in> {is_fs st (destination env i), Some DirN}"
  | (body) fin ms fs where "imp_finalize_input p = Some fin" and "is_fs st (destination env i) = None"
      and "validated_members env (file_content ap (is_fs st)) = Inr ms"
      and "\<And>q. fs (destination env i @ q) = (if q = [] then Some DirN else is_fs st (destination env i @ q))"
      and "lerobot_commit env i ap p pr st =
        (case commit_body env ms (destination env i) (new_dataset i p pr fin) (st\<lparr>is_fs := fs\<rparr>) of
           (Inl e, st5) \<Rightarrow> (Inl e, st5\<lparr>is_fs := fs_remove_below (destination env i) (is_fs st5)\<rparr>)
         | (Inr saved, st5) \<Rightarrow> (Inr saved, st5))"
proof (cases "imp_finalize_input p")
  case None
  with no_input show ?thesis by (simp add: lerobot_commit_def)
next
  case (Some fin)
  let ?dd = "studio_datasets_dir env" and ?d = "destination env i"
  note defs = lerobot_commit_def Some Let_def destination_def [symmetric]
  have low: "\<not> prefix (?d @ q) ?dd" for q by (auto simp: destination_def dest!: prefix_length_le)
  show ?thesis
  proof (cases "fs_mkdirs ?dd (is_fs st)")
    case (Inl e)
    show ?thesis
      by (rule early [of "ArchiveExn (ArchiveOsError e)" "is_fs st"]) (simp_all add: defs Inl on_fs_def archive_state_def)
  next
    case (Inr fs1)
    have k1: "fs1 (?d @ q) = is_fs st (?d @ q)" for q using fs_mkdirs_keeps(2) [OF Inr low] .
    have d1: "fs1 ?d = is_fs st ?d" using k1 [of "[]"] by simp
    show ?thesis
    proof (cases "fs_mkdir_new ?d fs1")
      case (Inl e)
      show ?thesis
        by (rule early [of "ArchiveExn (ArchiveOsError e)" fs1])
           (simp_all add: defs Inr Inl on_fs_def archive_state_def k1 d1)
    next
      case m: (Inr fs2)
      then have new: "fs1 ?d = None" and m': "fs_mkdirs ?d fs1 = Inr fs2" by (simp_all add: fs_mkdir_new_Inr)
      have k2: "fs2 (?d @ q) = (if q = [] then Some DirN else is_fs st (?d @ q))" for q
        using fs_mkdirs_Inr [OF m'] new k1 d1 by (auto simp: prefix_def)
      have d2: "fs2 ?d = Some DirN" using k2 [of "[]"] by simp
      have c: "file_content ap fs2 = file_content ap (is_fs st)"
        using file_content_mkdirs [OF m'] file_content_mkdirs [OF Inr] by simp
      show ?thesis
      proof (cases "validated_members env (file_content ap (is_fs st))")
        case (Inl e)
        show ?thesis
          by (rule early [of "ArchiveExn e" fs2])
             (simp_all add: defs Inr m c Inl on_fs_def archive_state_def k2 d2)
      next
        case v: (Inr ms)
        obtain r fs3 where h: "check_disk_headroom (de_free env) ?dd (collect_total_uncompressed ms) (de_min_free_bytes env) fs2 = (r, fs3)"
          by fastforce
        have f3: "fs3 = fs2 \<or> fs_mkdirs ?dd fs2 = Inr fs3"
          using h by (auto simp: check_disk_headroom_def Let_def split: if_splits sum.splits)
             (cases "fs_mkdirs ?dd fs2"; auto split: if_splits)+
        have k3: "fs3 (?d @ q) = (if q = [] then Some DirN else is_fs st (?d @ q))" for q
        proof -
          have "fs3 (?d @ q) = fs2 (?d @ q)" using f3 fs_mkdirs_keeps(2) [of ?dd fs2 fs3, OF _ low] by auto
          with k2 [of q] show ?thesis by simp
        qed
        have d3: "fs3 ?d = Some DirN" using k3 [of "[]"] by simp
        show ?thesis
        proof (cases r)
          case (Inl e)
          show ?thesis
            by (rule early [of "ArchiveExn e" fs3])
               (simp_all add: defs Inr m c v h Inl on_fs_def archive_state_def k3 d3)
        next
          case r: (Inr u)
          show ?thesis
            by (rule body [of fin ms fs3])
               (use new d1 k3 in \<open>simp_all add: defs Inr m c v h r on_fs_def archive_state_def\<close>)
        qed
      qed
    qed
  qed
qed

lemma lerobot_commit_frame: "fs_frame (destination env i) (is_fs st) (is_fs (snd (lerobot_commit env i ap p pr st)))"
proof -
  let ?dd = "studio_datasets_dir env" and ?d = "destination env i"
  have dd: "prefix ?dd ?d" by (simp add: destination_def)
  have up: "fs_mkdirs ?dd fs = Inr fs' \<Longrightarrow> fs_frame ?d fs fs'" for fs fs' :: "string fs" using dd by (blast intro: fs_frame_mkdirs)
  have new: "fs_mkdir_new ?d fs = Inr fs' \<Longrightarrow> fs_frame ?d fs fs'" for fs fs' :: "string fs"
    by (auto simp: fs_mkdir_new_Inr intro: fs_frame_mkdirs)
  have head: "fs_frame ?d fs (snd (check_disk_headroom f ?dd n m fs))" for f n m and fs :: "string fs"
    unfolding check_disk_headroom_def
    by (rule archive_frame.rel_bind) (auto simp: Let_def split: sum.splits intro: up)
  have body: "fs_frame ?d (is_fs s) (is_fs (snd (case commit_body env ms ?d d s of
      (Inl e, t) \<Rightarrow> (Inl e, t\<lparr>is_fs := fs_remove_below ?d (is_fs t)\<rparr>) | (Inr x, t) \<Rightarrow> (Inr x, t))))" for s ms d
  proof -
    obtain r t where c: "commit_body env ms ?d d s = (r, t)" by fastforce
    have "fs_frame ?d (is_fs s) (is_fs t)" using commit_body_frame [of ?d s env ms d] by (simp add: c)
    with archive_frame.trans_rel [OF this fs_frame_remove_below [of ?d ?d]] show ?thesis
      by (cases r) (simp_all add: c)
  qed
  show ?thesis
    unfolding lerobot_commit_def Let_def destination_def [symmetric]
    by (auto split: option.split sum.split intro!: store_frame.rel_bind body head intro: up new)
qed

text \<open>C18: a commit that returns has stored exactly the dataset asked for, in a directory that was not there, with the
  checked entries of the staged archive extracted and flattened in it; every file below it has the content of an
  entry. A commit that raises has stored nothing and leaves no file behind, at most the empty directory. Neither
  changes anything elsewhere, but for missing parents.\<close>

theorem commit_all_or_nothing:
  "let dest = destination env i in
   fs_frame dest (is_fs st) (is_fs (snd (lerobot_commit env i ap p pr st))) \<and>
   (case lerobot_commit env i ap p pr st of
      (Inr d, st') \<Rightarrow>
        (\<exists>fin ms k fs1 fs2. imp_finalize_input p = Some fin \<and> d = new_dataset i p pr fin
           \<and> i \<notin> ds_id ` set (is_datasets st) \<and> is_datasets st' = is_datasets st @ [d] \<and> is_fs st dest = None
           \<and> validated_members env (file_content ap (is_fs st)) = Inr ms
           \<and> extract_to (de_free env) ms dest (de_min_free_bytes env) fs1 = (Inr k, fs2)
           \<and> flatten_single_root_directory (de_listing env) dest fs2 = (Inr (), is_fs st')
           \<and> contents_below dest (is_fs st') \<subseteq> contents_below dest (is_fs st) \<union> zi_data ` set ms)
    | (Inl e, st') \<Rightarrow>
        is_datasets st' = is_datasets st \<and> is_fs st' dest \<in> {None, is_fs st dest, Some DirN}
          \<and> (\<forall>n q. is_fs st' (dest @ n # q) \<in> {None, is_fs st (dest @ n # q)}))"
proof -
  let ?d = "destination env i"
  consider (no_input) e where "imp_finalize_input p = None" and "lerobot_commit env i ap p pr st = (Inl e, st)"
  | (early) e fs where "lerobot_commit env i ap p pr st = (Inl e, st\<lparr>is_fs := fs\<rparr>)"
      and "\<And>n q. fs (?d @ n # q) = is_fs st (?d @ n # q)" and "fs ?d \<in> {is_fs st ?d, Some DirN}"
  | (body) fin ms fs where "imp_finalize_input p = Some fin" and "is_fs st ?d = None"
      and "validated_members env (file_content ap (is_fs st)) = Inr ms"
      and "\<And>q. fs (?d @ q) = (if q = [] then Some DirN else is_fs st (?d @ q))"
      and "lerobot_commit env i ap p pr st =
        (case commit_body env ms ?d (new_dataset i p pr fin) (st\<lparr>is_fs := fs\<rparr>) of
           (Inl e, st5) \<Rightarrow> (Inl e, st5\<lparr>is_fs := fs_remove_below ?d (is_fs st5)\<rparr>)
         | (Inr saved, st5) \<Rightarrow> (Inr saved, st5))"
    using lerobot_commit_cases [of p env i ap pr st] by blast
  then show ?thesis
  proof cases
    case no_input
    then show ?thesis using lerobot_commit_frame [of env i st ap p pr] by simp
  next
    case early
    then show ?thesis using lerobot_commit_frame [of env i st ap p pr] by auto
  next
    case body
    let ?c = "commit_body env ms ?d (new_dataset i p pr fin) (st\<lparr>is_fs := fs\<rparr>)"
    obtain r st5 where c: "?c = (r, st5)" by fastforce
    show ?thesis
    proof (cases r)
      case (Inl e)
      from commit_body_Inl [OF c [unfolded Inl]] body show ?thesis
        using lerobot_commit_frame [of env i st ap p pr] by (simp add: c Inl fs_remove_below_def Let_def)
    next
      case (Inr saved)
      from commit_body_Inr [OF c [unfolded Inr]] obtain k fs1 where e: "extract_to (de_free env) ms ?d (de_min_free_bytes env) fs = (Inr k, fs1)"
        and f: "flatten_single_root_directory (de_listing env) ?d fs1 = (Inr (), is_fs st5)" and s: "saved = new_dataset i p pr fin"
        and n: "ds_id (new_dataset i p pr fin) \<notin> ds_id ` set (is_datasets st)" and ds: "is_datasets st5 = is_datasets st @ [new_dataset i p pr fin]"
        by auto
      have "contents_below ?d fs \<subseteq> contents_below ?d (is_fs st)" using body(4) by (auto simp: contents_below_def split: if_splits)
      with contents_extract [OF e] contents_flatten [of ?d "de_listing env" fs1]
      have "contents_below ?d (is_fs st5) \<subseteq> contents_below ?d (is_fs st) \<union> zi_data ` set ms" by (auto simp: f)
      then have "\<exists>fin ms k fs1 fs2. imp_finalize_input p = Some fin \<and> saved = new_dataset i p pr fin
           \<and> i \<notin> ds_id ` set (is_datasets st) \<and> is_datasets st5 = is_datasets st @ [saved] \<and> is_fs st ?d = None
           \<and> validated_members env (file_content ap (is_fs st)) = Inr ms
           \<and> extract_to (de_free env) ms ?d (de_min_free_bytes env) fs1 = (Inr k, fs2)
           \<and> flatten_single_root_directory (de_listing env) ?d fs2 = (Inr (), is_fs st5)
           \<and> contents_below ?d (is_fs st5) \<subseteq> contents_below ?d (is_fs st) \<union> zi_data ` set ms"
        using e f s n ds body(1-3) by (intro exI [of _ fin] exI [of _ ms] exI [of _ k] exI [of _ fs] exI [of _ fs1]) (simp add: new_dataset_def)
      then show ?thesis
        using lerobot_commit_frame [of env i st ap p pr] body(5) by (simp add: c Inr Let_def)
    qed
  qed
qed

text \<open>A disk without room leaves the empty directory: the check comes after the directory is made and before what removes it.\<close>

lemma full_disk_leaves_directory:
  assumes "imp_finalize_input p = Some fin" and "fs_mkdirs (studio_datasets_dir env) (is_fs st) = Inr fs1"
    and "fs_mkdir_new (destination env i) fs1 = Inr fs2" and "validated_members env (file_content ap fs2) = Inr ms"
    and "de_free env < collect_total_uncompressed ms + de_min_free_bytes env"
  shows "\<exists>e st'. lerobot_commit env i ap p pr st = (Inl e, st') \<and> is_fs st' (destination env i) = Some DirN"
proof -
  have "fs2 (destination env i) = Some DirN"
    using assms(3) fs_mkdirs_is_dir [of "destination env i" fs1 fs2] by (auto simp: fs_mkdir_new_Inr fs_is_dir_def)
  moreover from this have "fs_mkdirs (studio_datasets_dir env) fs2 = Inr fs3 \<Longrightarrow> fs3 (destination env i) = Some DirN" for fs3
    using fs_mkdirs_keeps(1) [of _ fs2 fs3 "destination env i"] by simp
  ultimately show ?thesis using assms
    by (cases "fs_mkdirs (studio_datasets_dir env) fs2")
       (auto simp: lerobot_commit_def Let_def destination_def on_fs_def archive_state_def check_disk_headroom_def)
qed

section \<open>Recognizing an archive\<close>

definition is_v2_marker :: "string \<Rightarrow> bool" where
  "is_v2_marker name \<longleftrightarrow> names_member (marker_text EpisodesJsonl) name \<or> names_member (marker_text TasksJsonl) name"

definition v3_complete :: "string list \<Rightarrow> detected \<Rightarrow> bool" where
  "v3_complete ns d \<longleftrightarrow> (has_info d \<or> list_ex (names_member ''meta/info.json'') ns)
     \<and> (has_tasks_parquet d \<or> list_ex (names_member ''meta/tasks.parquet'') ns)
     \<and> (has_v3_data d \<or> list_ex is_v3_data ns)"

lemma detect_scan_matched:
  "\<not> v3_complete [] d \<Longrightarrow>
     detect_scan names d = Matched \<longleftrightarrow> (\<exists>n. v3_complete (take n names) d \<and> \<not> list_ex is_v2_marker (take n names))"
proof (induction names arbitrary: d)
  case (Cons name names)
  let ?d = "\<lparr>has_info = has_info d \<or> names_member ''meta/info.json'' name,
     has_tasks_parquet = has_tasks_parquet d \<or> names_member ''meta/tasks.parquet'' name,
     has_v3_data = has_v3_data d \<or> is_v3_data name\<rparr>"
  have step: "(\<exists>n. P n (take n (name # names))) \<longleftrightarrow> P 0 [] \<or> (\<exists>n. P (Suc n) (name # take n names))" for P
    by (metis not0_implies_Suc take_0 take_Suc_Cons)
  have shift: "v3_complete (name # ns) d \<longleftrightarrow> v3_complete ns ?d" for ns
    by (auto simp: v3_complete_def)
  have r: "(\<exists>n. v3_complete (take n (name # names)) d \<and> \<not> list_ex is_v2_marker (take n (name # names))) \<longleftrightarrow>
      \<not> is_v2_marker name \<and> (\<exists>n. v3_complete (take n names) ?d \<and> \<not> list_ex is_v2_marker (take n names))"
    unfolding step [of "\<lambda>_ ns. v3_complete ns d \<and> \<not> list_ex is_v2_marker ns"] using Cons.prems by (auto simp: shift)
  show ?case
  proof (cases "is_v2_marker name")
    case True
    then show ?thesis unfolding r by (auto simp: is_v2_marker_def)
  next
    case False
    show ?thesis
    proof (cases "v3_complete [] ?d")
      case True
      then have "\<exists>n. v3_complete (take n names) ?d \<and> \<not> list_ex is_v2_marker (take n names)" by (intro exI [of _ 0]) simp
      with True False show ?thesis unfolding r by (simp add: is_v2_marker_def v3_complete_def)
    next
      case inc: False
      then have "detect_scan (name # names) d = detect_scan names ?d" using False by (auto simp: is_v2_marker_def v3_complete_def)
      with Cons.IH [OF inc] False show ?thesis unfolding r by simp
    qed
  qed
qed (simp add: v3_complete_def)

text \<open>An archive is taken for a LeRobot v3 dataset exactly when some first entries of it have the three v3 markers
  and no v2 marker.\<close>

lemma archive_recognized_iff:
  "fst (lerobot_detect members) \<longleftrightarrow> (\<exists>n. let ns = take n (normalized_names members) in
     list_ex (names_member ''meta/info.json'') ns \<and> list_ex (names_member ''meta/tasks.parquet'') ns
       \<and> list_ex is_v3_data ns \<and> \<not> list_ex is_v2_marker ns)"
proof -
  have "fst (lerobot_detect members) \<longleftrightarrow> detect_scan (normalized_names members) nothing_detected = Matched"
    by (simp add: lerobot_detect_def split: detect_end.splits)
  also have "\<dots> \<longleftrightarrow> (\<exists>n. v3_complete (take n (normalized_names members)) nothing_detected
      \<and> \<not> list_ex is_v2_marker (take n (normalized_names members)))"
    by (rule detect_scan_matched) (simp add: v3_complete_def nothing_detected_def)
  finally show ?thesis by (simp add: v3_complete_def nothing_detected_def Let_def)
qed

text \<open>The docstring says an archive with v2 markers is rejected; one that lists them last is not.\<close>

definition demo_entry :: "string \<Rightarrow> zip_info" where
  "demo_entry name = \<lparr>zi_filename = name, zi_file_size = 1, zi_external_attr = 0, zi_data = ''x'', zi_crc_ok = True\<rparr>"

lemma late_v2_marker_accepted:
  "fst (lerobot_detect (map demo_entry [''meta/info.json'', ''meta/tasks.parquet'', ''data/chunk-000/file-000.parquet'', ''meta/tasks.jsonl'']))"
  "\<not> fst (lerobot_detect (map demo_entry [''meta/tasks.jsonl'', ''meta/info.json'', ''meta/tasks.parquet'', ''data/chunk-000/file-000.parquet'']))"
  by code_simp+

section \<open>The recording schema\<close>

lemma set_dropWhile_strip: "set (strip_space s) \<subseteq> set s"
  unfolding strip_space_def by (auto dest!: set_dropWhileD)

lemma joint_of_ok: "joint_of v = Some j \<Longrightarrow> j \<noteq> [] \<and> CHR ''.'' \<notin> set j"
proof -
  assume "joint_of v = Some j"
  then obtain s where "j = strip_space (hd (split_on CHR ''.'' s))" "j \<noteq> []"
    by (auto simp: joint_of_def Let_def split: json.splits if_splits)
  moreover have "CHR ''.'' \<notin> set (hd (split_on CHR ''.'' s))" by (rule split_on_parts [of _ _ s]) simp
  ultimately show ?thesis using set_dropWhile_strip by blast
qed

definition joints_ok :: "string list \<Rightarrow> bool" where
  "joints_ok js \<longleftrightarrow> distinct js \<and> (\<forall>j\<in>set js. j \<noteq> [] \<and> CHR ''.'' \<notin> set j)"

lemma joints_ok_fold: "joints_ok js \<Longrightarrow> joints_ok (fold add_joint vs js)"
proof (induction vs arbitrary: js)
  case (Cons v vs)
  have "joints_ok (add_joint v js)"
  proof (cases "joint_of v")
    case (Some j)
    from joint_of_ok [OF Some] Cons.prems show ?thesis by (simp add: Some add_joint_def joints_ok_def)
  qed (use Cons.prems in \<open>simp add: add_joint_def\<close>)
  with Cons.IH show ?case by simp
qed simp

lemma extract_robots_ok: "r \<in> set (extract_robots features t) \<Longrightarrow> joints_ok (mre_joints r)"
proof -
  have "joints_ok []" by (simp add: joints_ok_def)
  from joints_ok_fold [OF this] show "r \<in> set (extract_robots features t) \<Longrightarrow> joints_ok (mre_joints r)"
    unfolding extract_robots_def Let_def by (auto simp del: fold_append split: if_splits)
qed

text \<open>At most one robot, whose joints are named once, and cameras that have a name, whatever the metadata are.\<close>

lemma schema_wellformed:
  "length (rs_robots (extract_recording_schema env info)) \<le> 1"
  "r \<in> set (rs_robots (extract_recording_schema env info)) \<Longrightarrow> joints_ok (mre_joints r)"
  "c \<in> set (rs_cameras (extract_recording_schema env info)) \<Longrightarrow> mce_name c \<noteq> []"
proof -
  show "length (rs_robots (extract_recording_schema env info)) \<le> 1"
    by (simp add: extract_recording_schema_def empty_schema_def extract_robots_def Let_def split: json.split)
  show "joints_ok (mre_joints r)" if "r \<in> set (rs_robots (extract_recording_schema env info))"
    using that by (auto simp: extract_recording_schema_def empty_schema_def Let_def dest: extract_robots_ok split: json.splits if_splits)
  have "c \<in> set (extract_cameras env f features) \<Longrightarrow> mce_name c \<noteq> []" for f features
    by (induction features) (auto simp: Let_def camera_entry_def split: if_splits json.splits list.splits)
  then show "mce_name c \<noteq> []" if "c \<in> set (rs_cameras (extract_recording_schema env info))"
    using that by (auto simp: extract_recording_schema_def empty_schema_def Let_def split: json.splits if_splits)
qed

text \<open>
  The docstring says missing or malformed fields are skipped; a rate of frames that is no number empties the whole
  schema, cameras and robots included.
\<close>

lemma malformed_fps_empties_schema:
  "dict_get ''fps'' (JDict kvs) = JStr s \<Longrightarrow> de_parse_float env s = None \<Longrightarrow> extract_recording_schema env (JDict kvs) = empty_schema"
  by (simp add: extract_recording_schema_def int_of_float_def Let_def)

end
