(* ===== verification/DatasetImportProps.thy ===== *)
theory DatasetImportProps
  imports DatasetImport DatasetAdapterProps StudioSchedulerInv
begin

text \<open>
  What holds of dataset imports in every run of DatasetImport: the steps a job takes and what they leave behind,
  the commit of the adapter, the staged archive, the recognition of a format.
\<close>

section \<open>Rows of imports\<close>

definition step_rank :: "ImportStep \<Rightarrow> nat" where
  "step_rank s = (case s of AWAITING_ARCHIVE_UPLOAD \<Rightarrow> 0 | QUEUED_FOR_DETECTION \<Rightarrow> 1 | DETECTING_FORMAT \<Rightarrow> 2
     | BUILDING_MANIFEST_DRAFT \<Rightarrow> 3 | AWAITING_USER_REVIEW \<Rightarrow> 4 | QUEUED_FOR_IMPORT \<Rightarrow> 5 | IMPORTING_DATASET \<Rightarrow> 6
     | IMPORT_COMPLETED \<Rightarrow> 7)"


text \<open>The dataset of an import that got that far: what the user asked for, under the identifier of the result.\<close>

definition result_ok :: "Dataset list \<Rightarrow> string \<Rightarrow> ImportPayload \<Rightarrow> bool" where
  "result_ok ds project_id p \<longleftrightarrow> (\<exists>d fin. imp_result_dataset_id p = Some (ds_id d) \<and> d \<in> set ds
     \<and> imp_finalize_input p = Some fin \<and> d = new_dataset (ds_id d) p project_id fin)"

definition payload_ok :: "ImportPayload \<Rightarrow> bool" where
  "payload_ok p \<longleftrightarrow> imp_dataset_name p \<noteq> None \<and> imp_dataset_name p \<noteq> Some []
     \<and> (4 \<le> step_rank (imp_step p) \<longleftrightarrow> imp_manifest_draft p \<noteq> None)
     \<and> (5 \<le> step_rank (imp_step p) \<longleftrightarrow> imp_finalize_input p \<noteq> None)
     \<and> (1 \<le> step_rank (imp_step p) \<longleftrightarrow> imp_uploaded_archive_name p \<noteq> None)"


text \<open>
  How a row may move: what was given stays, the step does not go back, a completed import stays as it is; one
  that ended otherwise moves again only from the review of the user.
\<close>

definition payload_moves :: "ImportPayload \<Rightarrow> ImportPayload \<Rightarrow> bool" where
  "payload_moves p p' \<longleftrightarrow> step_rank (imp_step p) \<le> step_rank (imp_step p')
     \<and> imp_archive_staging_id p' = imp_archive_staging_id p \<and> imp_format_hint p' = imp_format_hint p
     \<and> imp_dataset_name p' = imp_dataset_name p
     \<and> (imp_manifest_draft p = None \<or> imp_manifest_draft p' = imp_manifest_draft p)
     \<and> (imp_finalize_input p = None \<or> imp_finalize_input p' = imp_finalize_input p)"

definition import_row_moves :: "Job \<Rightarrow> Job \<Rightarrow> bool" where
  "import_row_moves j j' = (case sj_payload j of
       TrainP _ \<Rightarrow> j' = j
     | ImportP p \<Rightarrow> (\<exists>p'. sj_payload j' = ImportP p' \<and> payload_moves p p') \<and> sj_project_id j' = sj_project_id j
         \<and> (sj_status j = J_COMPLETED \<longrightarrow> j' = j)
         \<and> (sj_status j = J_FAILED \<and> imp_step p \<noteq> AWAITING_USER_REVIEW \<longrightarrow> j' = j))"


text \<open>A completed job is not deleted.\<close>

definition import_rows_move :: "jobs \<Rightarrow> jobs \<Rightarrow> bool" where
  "import_rows_move rows rows' \<longleftrightarrow> (\<forall>i j. find_job i rows = Some j \<longrightarrow>
     (case find_job i rows' of Some j' \<Rightarrow> import_row_moves j j' | None \<Rightarrow> sj_status j \<noteq> J_COMPLETED))"

lemma payload_moves_refl [simp]: "payload_moves p p"
  by (simp add: payload_moves_def)


lemma import_row_moves_refl [simp]: "import_row_moves j j"
  by (simp add: import_row_moves_def split: job_payload.splits)






lemma update_job_modify:
  assumes "studio_ids_distinct rows" and "find_job k rows = Some j"
  shows "update_job j c rows = modify_job k c rows"
proof -
  have k: "sj_id j = k" using find_job_id [OF assms(2)] .
  have "r = j" if "r \<in> set rows" "sj_id r = k" for r
    using find_job_in [OF assms(1) that(1)] that(2) assms(2) by simp
  then show ?thesis
    by (auto simp: update_job_def modify_job_def sql_update_def k)
qed



lemma import_rows_move_refl [simp]: "import_rows_move rows rows"
  by (simp add: import_rows_move_def split: option.splits)


section \<open>What the service does to a row\<close>






section \<open>What the worker does to a row\<close>

definition payload_change :: "ImportPayload \<Rightarrow> JobStatus \<Rightarrow> string \<Rightarrow> int option \<Rightarrow> int \<Rightarrow> job_change" where
  "payload_change payload status message progress now =
     \<lparr>chg_status = Some status, chg_message = Some message, chg_progress = progress, chg_extra_info = None,
      chg_payload = Some (ImportP payload), chg_start_time = None, chg_end_time = end_time_of (Some status) now\<rparr>"


lemma apply_payload_change [simp]:
  "sj_payload (apply_change (payload_change p st msg prog now) j) = ImportP p"
  "sj_status (apply_change (payload_change p st msg prog now) j) = st"
  "sj_project_id (apply_change (payload_change p st msg prog now) j) = sj_project_id j"
  by (simp_all add: apply_change_def payload_change_def)

text \<open>A payload that may be written to the row of a running import.\<close>

definition may_write :: "Dataset list \<Rightarrow> Job \<Rightarrow> ImportPayload \<Rightarrow> bool" where
  "may_write ds j p \<longleftrightarrow> sj_status j = J_RUNNING \<and> (\<exists>p0. sj_payload j = ImportP p0 \<and> payload_moves p0 p)
     \<and> payload_ok p \<and> imp_step p \<noteq> AWAITING_ARCHIVE_UPLOAD
     \<and> (imp_step p = IMPORT_COMPLETED \<longrightarrow> result_ok ds (sj_project_id j) p)"

lemma may_write_report [simp]: "may_write ds j (p\<lparr>imp_validation_report := r\<rparr>) = may_write ds j p"
  by (simp add: may_write_def payload_moves_def payload_ok_def result_ok_def new_dataset_def)


section \<open>The invariant\<close>



definition world_datasets :: "import_world \<Rightarrow> Dataset list" where
  "world_datasets w = is_datasets (iw_store w)"








section \<open>Each part of the work keeps the invariant\<close>


lemma ids_modify_map [simp]: "map sj_id (modify_job k c rows) = map sj_id rows"
  by (simp add: modify_job_def map_sql_update)

lemma world_simps [simp]:
  "world_datasets (w\<lparr>iw_jobs := r\<rparr>) = world_datasets w" "world_datasets (w\<lparr>iw_db := d\<rparr>) = world_datasets w"
  "world_datasets (w\<lparr>iw_events := es\<rparr>) = world_datasets w" "world_datasets (w\<lparr>iw_worker := x\<rparr>) = world_datasets w"
  "world_datasets (w\<lparr>iw_uploads := us\<rparr>) = world_datasets w" "world_datasets (w\<lparr>iw_issued := ids\<rparr>) = world_datasets w"
  "world_datasets (set_world_fs fs w) = world_datasets w"
  "iw_jobs (set_world_fs fs w) = iw_jobs w" "iw_issued (set_world_fs fs w) = iw_issued w"
  "iw_worker (set_world_fs fs w) = iw_worker w"
  by (simp_all add: world_datasets_def set_world_fs_def)

lemma queue_cleanup_simps [simp]:
  "world_datasets (queue_put j w) = world_datasets w" "iw_jobs (queue_put j w) = iw_jobs w"
  "iw_issued (queue_put j w) = iw_issued w" "world_datasets (cleanup_staged q w) = world_datasets w"
  "iw_jobs (cleanup_staged q w) = iw_jobs w" "iw_issued (cleanup_staged q w) = iw_issued w"
  by (simp_all add: queue_put_def cleanup_staged_def)








section \<open>The contract of adapters\<close>





section \<open>Every event keeps the invariant\<close>










lemma ids_fail_imports [simp]: "map sj_id (fail_imports now ex js rows) = map sj_id rows"
  by (induction js arbitrary: rows) (simp_all add: snd_update_job_status)



lemma accept_upload_keeps [simp]:
  "iw_jobs (snd (accept_upload env u pr k name content w)) = iw_jobs w"
  "iw_worker (snd (accept_upload env u pr k name content w)) = iw_worker w"
  "world_datasets (snd (accept_upload env u pr k name content w)) = world_datasets w"
  "iw_issued (snd (accept_upload env u pr k name content w)) = iw_issued w"
  unfolding accept_upload_def
  by (cases "get_awaiting_upload_job pr k (iw_jobs w)"; cases "check_upload_name name"; auto split: prod.split sum.split)+

lemma write_upload_keeps [simp]:
  "iw_jobs (write_upload env broken up w) = iw_jobs w"
  "iw_worker (write_upload env broken up w) = iw_worker w"
  "world_datasets (write_upload env broken up w) = world_datasets w"
  "iw_issued (write_upload env broken up w) = iw_issued w"
  by (auto simp: write_upload_def drop_upload_def split: prod.split sum.split)


lemma drop_upload_keeps [simp]:
  "iw_jobs (drop_upload u w) = iw_jobs w" "iw_worker (drop_upload u w) = iw_worker w"
  "world_datasets (drop_upload u w) = world_datasets w" "iw_issued (drop_upload u w) = iw_issued w"
  by (simp_all add: drop_upload_def)





section \<open>The life of an import\<close>






section \<open>The staged archive\<close>



text \<open>The jobs that have ended from one world to the next.\<close>

definition newly_ended :: "import_world \<Rightarrow> import_world \<Rightarrow> Job set" where
  "newly_ended w w' = {j. find_job (sj_id j) (iw_jobs w') = Some j \<and> j_terminal (sj_status j)
     \<and> (\<exists>j0. find_job (sj_id j) (iw_jobs w) = Some j0 \<and> \<not> j_terminal (sj_status j0))}"

lemma unlinked [simp]: "file_content q (fs_unlink q fs) = None"
  by (simp add: file_content_def fs_unlink_def fs_is_file_def split: option.split node.split)

lemma cleaned [simp]: "file_content q (world_fs (cleanup_staged q w)) = None"
  by (simp add: cleanup_staged_def set_world_fs_def world_fs_def)

lemma queue_put_fs [simp]: "world_fs (queue_put j w) = world_fs w"
  by (simp add: queue_put_def world_fs_def)

text \<open>A part of the work that ends the process has left the row waiting or the archive gone.\<close>

definition end_clean :: "string \<Rightarrow> path \<Rightarrow> phase_end \<times> import_world \<Rightarrow> bool" where
  "end_clean k q r \<longleftrightarrow> (case r of (Ends, w) \<Rightarrow>
       file_content q (world_fs w) = None \<or> (\<exists>j. find_job k (iw_jobs w) = Some j \<and> sj_status j = J_PENDING) | _ \<Rightarrow> True)"

lemma end_clean_raises [simp]: "end_clean k q (Raises e p, w)" "end_clean k q (Goes wk, w)"
  by (simp_all add: end_clean_def)








lemma none_ended:
  assumes "\<And>i j. find_job i (iw_jobs w') = Some j \<Longrightarrow> find_job i (iw_jobs w) = Some j \<or> \<not> j_terminal (sj_status j)"
  shows "newly_ended w w' = {}"
  using assms by (fastforce simp: newly_ended_def)

lemma same_jobs_none_ended: "iw_jobs w' = iw_jobs w \<Longrightarrow> newly_ended w w' = {}"
  by (rule none_ended) simp









lemma same_none_ended [simp]: "newly_ended w w = {}"
  by (rule same_jobs_none_ended) simp


section \<open>Places where the code does not do what its text says\<close>

text \<open>Cancellation leaves the step at the review, and finalizing looks only at the step: a canceled import is queued again.\<close>

lemma canceled_import_is_finalized:
  assumes "studio_ids_distinct rows" and "find_job k rows = Some j" and "sj_project_id j = pr"
    and "sj_payload j = ImportP p" and "imp_step p = AWAITING_USER_REVIEW" and "sj_status j = J_CANCELED"
  shows "\<exists>j'. fst (finalize_dataset_import_job pr k input rows) = Inr (Some j') \<and> sj_status j' = J_PENDING
     \<and> import_step_of j' = Some QUEUED_FOR_IMPORT"
proof -
  have l: "load_validated_dataset_import_job pr k rows = Inr (j, p)"
    using assms by (simp add: load_validated_dataset_import_job_def)
  show ?thesis
    using assms(5) by (simp add: finalize_dataset_import_job_def l Let_def update_job_modify [OF assms(1,2)]
        studio_table.lookup_modify assms(2) apply_change_def import_change_def no_change_def import_step_of_def)
qed

text \<open>
  A cancellation that loaded its row before the import was finalized writes it back over what has happened since,
  and takes the archive from the worker.
\<close>

lemma stale_cancellation_overwrites:
  assumes "studio_ids_distinct rows" and "find_job k rows = Some j'" and "sj_id j = k" and "sj_payload j = ImportP p"
  shows "let (rows', fs') = write_cancellation env j p now (rows, fs)
    in (\<exists>c. find_job k rows' = Some c \<and> sj_status c = J_CANCELED \<and> sj_payload c = ImportP p)
       \<and> file_content (resolve_payload_archive_path env p) fs' = None"
proof -
  have "find_job k (update_job j c rows) = Some (apply_change c j)" for c
    using assms(2,3) by (auto simp: update_job_def find_job_def row_get_sql_update_sel split: option.splits dest: row_get_SomeD)
  then show ?thesis using assms(4)
    by (simp add: write_cancellation_def apply_change_def import_change_def no_change_def)
qed

text \<open>
  An upload that passed its check writes its bytes whatever step the job has reached since: a second upload replaces
  the archive whose draft the user reviews.
\<close>

lemma late_upload_replaces_archive:
  assumes "find_upload u w = Some up" and "\<not> up_staged up" and "persist_uploaded_archive env None up (world_fs w) = (Inr (), fs)"
  shows "iw_jobs (import_step env ads w (UploadWritten u None)) = iw_jobs w
    \<and> file_content (staged_upload_path env up) (world_fs (import_step env ads w (UploadWritten u None))) = Some (up_content up)"
  using assms
  by (auto simp: write_upload_def persist_uploaded_archive_def set_world_fs_def world_fs_def file_content_def
      dest!: fs_write_Inr split: sum.splits)

end
