(* ===== verification/Coroutine.thy ===== *)
theory Coroutine
  imports Prelude
begin

text \<open>
  Coroutines of one event loop, as the websocket workers of \<^verbatim>\<open>workers/transport_worker.py\<close> use them: a
  program runs without interruption to its next \<^verbatim>\<open>await\<close>; between two of them the other tasks run. A call of
  \<^verbatim>\<open>asyncio.to_thread\<close> starts a thread, which a cancellation does not stop.
\<close>

section \<open>Programs\<close>

text \<open>
  \<open>Call\<close> waits for the answer of code outside, \<open>Send\<close> for the transport (whose sending never raises), \<open>Acquire\<close>
  for the one lock of a worker, \<open>Gather\<close> for its two loops. Everything else takes no time.
\<close>

datatype ('s, 'c, 'a, 'e, 'x) prog =
    Done
  | Raise 'x
  | Do "'s \<Rightarrow> 's" "('s, 'c, 'a, 'e, 'x) prog"
  | Ask "'s \<Rightarrow> ('s, 'c, 'a, 'e, 'x) prog"
  | Acquire "('s, 'c, 'a, 'e, 'x) prog"
  | Release "('s, 'c, 'a, 'e, 'x) prog"
  | Send 'e "('s, 'c, 'a, 'e, 'x) prog"
  | Call 'c "'x + 'a \<Rightarrow> ('s, 'c, 'a, 'e, 'x) prog"
  | Gather "('s, 'c, 'a, 'e, 'x) prog"

primrec andthen :: "('s, 'c, 'a, 'e, 'x) prog \<Rightarrow> ('s, 'c, 'a, 'e, 'x) prog \<Rightarrow> ('s, 'c, 'a, 'e, 'x) prog" where
  "andthen Done q = q"
| "andthen (Raise x) q = Raise x"
| "andthen (Do f p) q = Do f (andthen p q)"
| "andthen (Ask f) q = Ask (\<lambda>s. andthen (f s) q)"
| "andthen (Acquire p) q = Acquire (andthen p q)"
| "andthen (Release p) q = Release (andthen p q)"
| "andthen (Send e p) q = Send e (andthen p q)"
| "andthen (Call c k) q = Call c (\<lambda>r. andthen (k r) q)"
| "andthen (Gather p) q = Gather (andthen p q)"

text \<open>\<^verbatim>\<open>except Exception\<close>: a cancellation is not caught.\<close>

primrec catch :: "('s, 'c, 'a, 'e, 'x) prog \<Rightarrow> ('x \<Rightarrow> ('s, 'c, 'a, 'e, 'x) prog) \<Rightarrow> ('s, 'c, 'a, 'e, 'x) prog" where
  "catch Done h = Done"
| "catch (Raise x) h = h x"
| "catch (Do f p) h = Do f (catch p h)"
| "catch (Ask f) h = Ask (\<lambda>s. catch (f s) h)"
| "catch (Acquire p) h = Acquire (catch p h)"
| "catch (Release p) h = Release (catch p h)"
| "catch (Send e p) h = Send e (catch p h)"
| "catch (Call c k) h = Call c (\<lambda>r. catch (k r) h)"
| "catch (Gather p) h = Gather (catch p h)"

definition call :: "'c \<Rightarrow> ('a \<Rightarrow> ('s, 'c, 'a, 'e, 'x) prog) \<Rightarrow> ('s, 'c, 'a, 'e, 'x) prog" where
  "call c k = Call c (\<lambda>r. case r of Inl x \<Rightarrow> Raise x | Inr a \<Rightarrow> k a)"

text \<open>\<^verbatim>\<open>async with self._bus_lock\<close> around one call; the lock is released on both ways out.\<close>

definition locked_call :: "'c \<Rightarrow> ('a \<Rightarrow> ('s, 'c, 'a, 'e, 'x) prog) \<Rightarrow> ('s, 'c, 'a, 'e, 'x) prog" where
  "locked_call c k = Acquire (Call c (\<lambda>r. Release (case r of Inl x \<Rightarrow> Raise x | Inr a \<Rightarrow> k a)))"

text \<open>One call of several inside the lock.\<close>

definition held_call :: "'c \<Rightarrow> ('a \<Rightarrow> ('s, 'c, 'a, 'e, 'x) prog) \<Rightarrow> ('s, 'c, 'a, 'e, 'x) prog" where
  "held_call c k = Call c (\<lambda>r. case r of Inl x \<Rightarrow> Release (Raise x) | Inr a \<Rightarrow> k a)"

fun held_calls :: "'c list \<Rightarrow> ('s, 'c, 'a, 'e, 'x) prog \<Rightarrow> ('s, 'c, 'a, 'e, 'x) prog" where
  "held_calls [] p = p"
| "held_calls (c # cs) p = held_call c (\<lambda>_. held_calls cs p)"

section \<open>The loop\<close>

datatype loop_task = MAIN | COMMANDS | BROADCAST

text \<open>\<^verbatim>\<open>run\<close> first works alone, then waits for its two loops, then cleans up in its \<^verbatim>\<open>finally\<close>.\<close>

datatype loop_stage = Alone | Together | Cleaning | Ended

text \<open>
  A thread whose task was canceled has no task any more; its call still runs, and its answer is lost. The log has
  what a worker asks of the code outside, what it is told, and what it sends.
\<close>

datatype ('c, 'a, 'e, 'x) log_entry = Starts 'c | Ends 'c "'x + 'a" | Lost 'c "'x + 'a" | Sends 'e

record ('s, 'c, 'a, 'e, 'x) event_loop =
  el_self :: 's
  el_lock :: "loop_task option"
  el_stage :: loop_stage
  el_at :: "loop_task \<Rightarrow> ('s, 'c, 'a, 'e, 'x) prog option"
  el_threads :: "(loop_task option \<times> 'c) list"
  el_log :: "('c, 'a, 'e, 'x) log_entry list"

record ('s, 'c, 'a, 'e, 'x, 'm) worker_code =
  wc_body :: "('s, 'c, 'a, 'e, 'x) prog"
  wc_cleanup :: "('s, 'c, 'a, 'e, 'x) prog"
  wc_dispatch :: "'m \<Rightarrow> ('s, 'c, 'a, 'e, 'x) prog"
  wc_tick :: "('s, 'c, 'a, 'e, 'x) prog"
  wc_fits :: "'c \<Rightarrow> 'a \<Rightarrow> bool"
  wc_shielded :: bool

text \<open>Running to the next point where the task waits, or to its end.\<close>

primrec settle :: "('s, 'c, 'a, 'e, 'x) prog \<Rightarrow> loop_task \<Rightarrow> ('s, 'c, 'a, 'e, 'x) event_loop \<Rightarrow> ('s, 'c, 'a, 'e, 'x) event_loop" where
  "settle Done = (\<lambda>t w. w\<lparr>el_at := (el_at w)(t := None)\<rparr>)"
| "settle (Raise x) = (\<lambda>t w. w\<lparr>el_at := (el_at w)(t := None)\<rparr>)"
| "settle (Do f p) = (\<lambda>t w. settle p t (w\<lparr>el_self := f (el_self w)\<rparr>))"
| "settle (Ask f) = (\<lambda>t w. settle (f (el_self w)) t w)"
| "settle (Acquire p) = (\<lambda>t w. if el_lock w = None then settle p t (w\<lparr>el_lock := Some t\<rparr>)
                                else w\<lparr>el_at := (el_at w)(t := Some (Acquire p))\<rparr>)"
| "settle (Release p) = (\<lambda>t w. settle p t (w\<lparr>el_lock := None\<rparr>))"
| "settle (Send e p) = (\<lambda>t w. w\<lparr>el_at := (el_at w)(t := Some (Send e p)), el_log := el_log w @ [Sends e]\<rparr>)"
| "settle (Call c k) = (\<lambda>t w. w\<lparr>el_at := (el_at w)(t := Some (Call c k)), el_threads := el_threads w @ [(Some t, c)],
                              el_log := el_log w @ [Starts c]\<rparr>)"
| "settle (Gather p) = (\<lambda>t w. w\<lparr>el_at := (el_at w)(t := Some (Gather p)), el_stage := Together\<rparr>)"

definition clean_up :: "('s, 'c, 'a, 'e, 'x, 'm) worker_code \<Rightarrow> ('s, 'c, 'a, 'e, 'x) event_loop \<Rightarrow> ('s, 'c, 'a, 'e, 'x) event_loop" where
  "clean_up code w =
     (let w' = settle (wc_cleanup code) MAIN (w\<lparr>el_stage := Cleaning\<rparr>)
      in if el_at w' MAIN = None then w'\<lparr>el_stage := Ended\<rparr> else w')"

text \<open>A task goes on; where \<^verbatim>\<open>run\<close> has come to an end its next stage follows.\<close>

definition resume :: "('s, 'c, 'a, 'e, 'x, 'm) worker_code \<Rightarrow> loop_task \<Rightarrow> ('s, 'c, 'a, 'e, 'x) prog
    \<Rightarrow> ('s, 'c, 'a, 'e, 'x) event_loop \<Rightarrow> ('s, 'c, 'a, 'e, 'x) event_loop" where
  "resume code t p w =
     (let w' = settle p t w in
      if t \<noteq> MAIN \<or> el_at w' MAIN \<noteq> None then w'
      else if el_stage w' = Cleaning then w'\<lparr>el_stage := Ended\<rparr>
      else clean_up code w')"

text \<open>A canceled task leaves its \<^verbatim>\<open>async with\<close>, and its thread behind.\<close>

definition cancel_task :: "loop_task \<Rightarrow> ('s, 'c, 'a, 'e, 'x) event_loop \<Rightarrow> ('s, 'c, 'a, 'e, 'x) event_loop" where
  "cancel_task t w =
     w\<lparr>el_at := (el_at w)(t := None), el_lock := (if el_lock w = Some t then None else el_lock w),
       el_threads := map (\<lambda>(o', c). (if o' = Some t then None else o', c)) (el_threads w)\<rparr>"

definition start_worker :: "('s, 'c, 'a, 'e, 'x, 'm) worker_code \<Rightarrow> 's \<Rightarrow> ('s, 'c, 'a, 'e, 'x) event_loop" where
  "start_worker code s =
     resume code MAIN (wc_body code)
       \<lparr>el_self = s, el_lock = None, el_stage = Alone, el_at = (\<lambda>_. None), el_threads = [], el_log = []\<rparr>"

text \<open>
  \<open>ReceiveFails\<close>: the client has gone, or has sent JSON that is no object; the command loop ends.
  \<open>Canceled\<close> is a cancellation of \<^verbatim>\<open>run\<close> itself, which a worker may shield its cleanup from.
\<close>

datatype ('a, 'x, 'm) loop_event =
    Granted loop_task
  | Delivered loop_task
  | Answered loop_task "'x + 'a"
  | ThreadEnds nat "'x + 'a"
  | Received 'm
  | ReceiveFails
  | Ticks
  | Canceled

definition answer_fits :: "('s, 'c, 'a, 'e, 'x, 'm) worker_code \<Rightarrow> 'c \<Rightarrow> 'x + 'a \<Rightarrow> bool" where
  "answer_fits code c r = (case r of Inl x \<Rightarrow> True | Inr a \<Rightarrow> wc_fits code c a)"

definition answered :: "('s, 'c, 'a, 'e, 'x, 'm) worker_code \<Rightarrow> loop_task \<Rightarrow> 'x + 'a \<Rightarrow> 'c \<Rightarrow> ('x + 'a \<Rightarrow> ('s, 'c, 'a, 'e, 'x) prog)
    \<Rightarrow> ('s, 'c, 'a, 'e, 'x) event_loop \<Rightarrow> ('s, 'c, 'a, 'e, 'x) event_loop" where
  "answered code t r c k w =
     (if answer_fits code c r
      then resume code t (k r) (w\<lparr>el_threads := remove1 (Some t, c) (el_threads w), el_log := el_log w @ [Ends c r]\<rparr>)
      else w)"

fun loop_step :: "('s, 'c, 'a, 'e, 'x, 'm) worker_code \<Rightarrow> ('s, 'c, 'a, 'e, 'x) event_loop \<Rightarrow> ('a, 'x, 'm) loop_event
    \<Rightarrow> ('s, 'c, 'a, 'e, 'x) event_loop" where
  "loop_step code w (Granted t) =
     (case el_at w t of
        Some (Acquire p) \<Rightarrow> if el_lock w = None then resume code t p (w\<lparr>el_lock := Some t\<rparr>) else w
      | _ \<Rightarrow> w)"
| "loop_step code w (Delivered t) = (case el_at w t of Some (Send e p) \<Rightarrow> resume code t p w | _ \<Rightarrow> w)"
| "loop_step code w (Answered t r) = (case el_at w t of Some (Call c k) \<Rightarrow> answered code t r c k w | _ \<Rightarrow> w)"
| "loop_step code w (ThreadEnds n r) =
     (if n < length (el_threads w) \<and> fst (el_threads w ! n) = None \<and> answer_fits code (snd (el_threads w ! n)) r
      then w\<lparr>el_threads := take n (el_threads w) @ drop (Suc n) (el_threads w),
             el_log := el_log w @ [Lost (snd (el_threads w ! n)) r]\<rparr>
      else w)"
| "loop_step code w (Received m) =
     (if el_stage w = Together \<and> el_at w COMMANDS = None then resume code COMMANDS (wc_dispatch code m) w else w)"
| "loop_step code w ReceiveFails =
     (case el_at w MAIN of
        Some (Gather p) \<Rightarrow> if el_at w COMMANDS = None then resume code MAIN p (cancel_task BROADCAST w) else w
      | _ \<Rightarrow> w)"
| "loop_step code w Ticks =
     (if el_stage w = Together \<and> el_at w BROADCAST = None then resume code BROADCAST (wc_tick code) w else w)"
| "loop_step code w Canceled =
     (if el_stage w = Ended \<or> el_stage w = Cleaning \<and> wc_shielded code then w
      else let w' = cancel_task MAIN (cancel_task COMMANDS (cancel_task BROADCAST w)) in
        if el_stage w = Cleaning then w'\<lparr>el_stage := Ended\<rparr> else clean_up code w')"

section \<open>One call at a time\<close>

text \<open>
  A program that holds the lock at every serial call, acquires it only when it does not hold it, and gives it back
  before it ends; where it waits for the two loops it has nothing left to do.
\<close>

primrec guarded :: "('c \<Rightarrow> bool) \<Rightarrow> ('s, 'c, 'a, 'e, 'x) prog \<Rightarrow> bool \<Rightarrow> bool" where
  "guarded serial Done = (\<lambda>held. \<not> held)"
| "guarded serial (Raise x) = (\<lambda>held. \<not> held)"
| "guarded serial (Do f p) = guarded serial p"
| "guarded serial (Ask f) = (\<lambda>held. \<forall>s. guarded serial (f s) held)"
| "guarded serial (Acquire p) = (\<lambda>held. \<not> held \<and> guarded serial p True)"
| "guarded serial (Release p) = (\<lambda>held. held \<and> guarded serial p False)"
| "guarded serial (Send e p) = guarded serial p"
| "guarded serial (Call c k) = (\<lambda>held. (serial c \<longrightarrow> held) \<and> (\<forall>r. guarded serial (k r) held))"
| "guarded serial (Gather p) = (\<lambda>held. \<not> held \<and> p = Done)"

primrec ungathered :: "('s, 'c, 'a, 'e, 'x) prog \<Rightarrow> bool" where
  "ungathered Done \<longleftrightarrow> True"
| "ungathered (Raise x) \<longleftrightarrow> True"
| "ungathered (Do f p) \<longleftrightarrow> ungathered p"
| "ungathered (Ask f) \<longleftrightarrow> (\<forall>s. ungathered (f s))"
| "ungathered (Acquire p) \<longleftrightarrow> ungathered p"
| "ungathered (Release p) \<longleftrightarrow> ungathered p"
| "ungathered (Send e p) \<longleftrightarrow> ungathered p"
| "ungathered (Call c k) \<longleftrightarrow> (\<forall>r. ungathered (k r))"
| "ungathered (Gather p) \<longleftrightarrow> False"

named_theorems prog_rules

lemma guarded_andthen [prog_rules]:
  "guarded serial p held \<Longrightarrow> ungathered p \<Longrightarrow> guarded serial q False \<Longrightarrow> guarded serial (andthen p q) held"
  by (induction p arbitrary: held) auto

lemma guarded_catch [prog_rules]:
  "guarded serial p held \<Longrightarrow> (\<And>x. guarded serial (h x) False) \<Longrightarrow> guarded serial (catch p h) held"
  by (induction p arbitrary: held) auto

lemma ungathered_andthen [prog_rules]: "ungathered p \<Longrightarrow> ungathered q \<Longrightarrow> ungathered (andthen p q)"
  by (induction p) auto

lemma ungathered_catch [prog_rules]: "ungathered p \<Longrightarrow> (\<And>x. ungathered (h x)) \<Longrightarrow> ungathered (catch p h)"
  by (induction p) auto

lemma all_answers: "(\<forall>r. P r) \<longleftrightarrow> (\<forall>x. P (Inl x)) \<and> (\<forall>a. P (Inr a))"
  by (rule split_sum_all)

lemma guarded_locked_call [simp]:
  "guarded serial (locked_call c k) held \<longleftrightarrow> \<not> held \<and> (\<forall>a. guarded serial (k a) False)"
  by (simp add: locked_call_def all_answers)

lemma guarded_call [simp]:
  "guarded serial (call c k) held \<longleftrightarrow> \<not> serial c \<and> \<not> held \<and> (\<forall>a. guarded serial (k a) False)"
  by (cases held) (simp_all add: call_def all_answers)

lemma guarded_held_call [simp]:
  "guarded serial (held_call c k) held \<longleftrightarrow> held \<and> (\<forall>a. guarded serial (k a) True)"
  by (cases held) (simp_all add: held_call_def all_answers)

lemma guarded_held_calls [simp]: "guarded serial (held_calls cs p) True \<longleftrightarrow> guarded serial p True"
  by (induction cs) auto

lemma ungathered_calls [simp]:
  "ungathered (locked_call c k) \<longleftrightarrow> (\<forall>a. ungathered (k a))" "ungathered (call c k) \<longleftrightarrow> (\<forall>a. ungathered (k a))"
  "ungathered (held_call c k) \<longleftrightarrow> (\<forall>a. ungathered (k a))" "ungathered (held_calls cs p) \<longleftrightarrow> ungathered p"
  by (simp_all add: locked_call_def call_def held_call_def all_answers) (induction cs; simp add: held_call_def all_answers)

definition task_ok :: "('c \<Rightarrow> bool) \<Rightarrow> loop_task \<Rightarrow> ('s, 'c, 'a, 'e, 'x) event_loop \<Rightarrow> bool" where
  "task_ok serial t w \<longleftrightarrow>
     (case el_at w t of None \<Rightarrow> el_lock w \<noteq> Some t | Some p \<Rightarrow> guarded serial p (el_lock w = Some t))
     \<and> filter (\<lambda>(o', c). o' = Some t) (el_threads w) = (case el_at w t of Some (Call c k) \<Rightarrow> [(Some t, c)] | _ \<Rightarrow> [])"

definition orphans :: "('s, 'c, 'a, 'e, 'x) event_loop \<Rightarrow> (loop_task option \<times> 'c) list" where
  "orphans w = filter (\<lambda>(o', c). o' = None) (el_threads w)"

lemma task_ok_self [simp]: "task_ok serial t (w\<lparr>el_self := s\<rparr>) \<longleftrightarrow> task_ok serial t w"
  by (simp add: task_ok_def cong: option.case_cong)

lemma settle_task_ok:
  assumes "guarded serial p (el_lock w = Some t)" "filter (\<lambda>(o', c). o' = Some t) (el_threads w) = []"
    and "\<And>t'. t' \<noteq> t \<Longrightarrow> task_ok serial t' w"
  shows "task_ok serial t' (settle p t w)"
  using assms
proof (induction p arbitrary: w)
  case (Do f p)
  then show ?case by simp
next
  case (Ask f)
  then show ?case by simp
next
  case (Acquire p)
  show ?case
  proof (cases "el_lock w = None")
    case True
    have "task_ok serial t'' (w\<lparr>el_lock := Some t\<rparr>)" if "t'' \<noteq> t" for t''
      using Acquire.prems(3) [OF that] that True by (auto simp: task_ok_def split: option.splits)
    then show ?thesis using Acquire True by simp
  next
    case False
    then show ?thesis using Acquire.prems by (cases "t' = t") (auto simp: task_ok_def cong: option.case_cong)
  qed
next
  case (Release p)
  have "task_ok serial t'' (w\<lparr>el_lock := None\<rparr>)" if "t'' \<noteq> t" for t''
    using Release.prems(1) Release.prems(3) [OF that] that by (auto simp: task_ok_def split: option.splits)
  then show ?case using Release by simp
qed (auto simp: task_ok_def cong: option.case_cong)

lemma settle_stage: "ungathered p \<Longrightarrow> el_stage (settle p t w) = el_stage w"
  by (induction p arbitrary: w) auto

lemma settle_orphans [simp]: "orphans (settle p t w) = orphans w"
  by (induction p arbitrary: w) (auto simp: orphans_def)

lemma settle_other [simp]: "t' \<noteq> t \<Longrightarrow> el_at (settle p t w) t' = el_at w t'"
  by (induction p arbitrary: w) auto

lemma settle_ungathered: "ungathered p \<Longrightarrow> el_at (settle p t w) t = Some q \<Longrightarrow> ungathered q"
  by (induction p arbitrary: w) (auto split: if_splits)

lemma settle_main_stage:
  "el_stage (settle p t w) = el_stage w \<or> (el_stage (settle p t w) = Together \<and> (\<exists>q. el_at (settle p t w) t = Some (Gather q)))"
proof (induction p arbitrary: w)
  case (Do f p)
  show ?case using Do [of "w\<lparr>el_self := f (el_self w)\<rparr>"] by simp
next
  case (Ask f)
  show ?case using Ask [of "f (el_self w)" w] by simp
next
  case (Acquire p)
  show ?case using Acquire [of "w\<lparr>el_lock := Some t\<rparr>"] by simp
next
  case (Release p)
  show ?case using Release [of "w\<lparr>el_lock := None\<rparr>"] by simp
qed auto

lemma settle_gather: "el_at (settle p t w) t = Some (Gather q) \<Longrightarrow> el_stage (settle p t w) = Together"
  by (induction p arbitrary: w) (auto split: if_splits)

text \<open>The condition under which the calls of a worker cannot meet, in every reachable state.\<close>

definition serialized :: "('c \<Rightarrow> bool) \<Rightarrow> ('s, 'c, 'a, 'e, 'x) event_loop \<Rightarrow> bool" where
  "serialized serial w \<longleftrightarrow>
     (\<forall>t. task_ok serial t w)
     \<and> (el_stage w = Together \<longleftrightarrow> (\<exists>q. el_at w MAIN = Some (Gather q)))
     \<and> (el_stage w = Together \<or> el_at w COMMANDS = None \<and> el_at w BROADCAST = None)
     \<and> (el_stage w \<in> {Cleaning, Ended} \<or> orphans w = [])
     \<and> (el_stage w \<noteq> Ended \<or> el_at w MAIN = None)
     \<and> (\<forall>t p. el_at w t = Some p \<and> (t \<noteq> MAIN \<or> el_stage w = Cleaning) \<longrightarrow> ungathered p)"


lemma serializedD:
  assumes "serialized serial w"
  shows "task_ok serial t w" "el_stage w = Together \<longleftrightarrow> (\<exists>q. el_at w MAIN = Some (Gather q))"
    "el_stage w \<noteq> Together \<Longrightarrow> t \<noteq> MAIN \<Longrightarrow> el_at w t = None"
    "el_stage w \<notin> {Cleaning, Ended} \<Longrightarrow> orphans w = []"
    "el_at w t = Some p \<Longrightarrow> t \<noteq> MAIN \<or> el_stage w = Cleaning \<Longrightarrow> ungathered p"
    "el_stage w = Ended \<Longrightarrow> el_at w MAIN = None"
  using assms by (auto simp: serialized_def) (cases t; auto)+

definition ready :: "('c \<Rightarrow> bool) \<Rightarrow> loop_task \<Rightarrow> ('s, 'c, 'a, 'e, 'x) prog \<Rightarrow> ('s, 'c, 'a, 'e, 'x) event_loop \<Rightarrow> bool" where
  "ready serial t p w \<longleftrightarrow> guarded serial p (el_lock w = Some t)
     \<and> filter (\<lambda>(o', c). o' = Some t) (el_threads w) = [] \<and> (\<forall>t'. t' \<noteq> t \<longrightarrow> task_ok serial t' w)"

lemma ready_settle: "ready serial t p w \<Longrightarrow> task_ok serial t' (settle p t w)"
  by (intro settle_task_ok) (auto simp: ready_def)

lemma ready_Granted:
  assumes "\<And>t'. task_ok serial t' w" "el_at w t = Some (Acquire p)" "el_lock w = None"
  shows "ready serial t p (w\<lparr>el_lock := Some t\<rparr>)"
proof -
  have "task_ok serial t' (w\<lparr>el_lock := Some t\<rparr>)" if "t' \<noteq> t" for t'
    using assms(1) [of t'] assms(3) that by (auto simp: task_ok_def cong: option.case_cong)
  then show ?thesis using assms(1) [of t] assms(2,3) by (auto simp: ready_def task_ok_def)
qed

lemma ready_Delivered:
  assumes "\<And>t'. task_ok serial t' w" "el_at w t = Some (Send e p)"
  shows "ready serial t p w"
proof -
  have "guarded serial p (el_lock w = Some t) \<and> filter (\<lambda>(o', c). o' = Some t) (el_threads w) = []"
    using assms(1) [of t] assms(2) by (simp add: task_ok_def)
  then show ?thesis using assms(1) by (simp add: ready_def)
qed

lemma filter_remove1_same: "filter P xs = [x] \<Longrightarrow> filter P (remove1 x xs) = []"
proof (induction xs)
  case (Cons y ys)
  show ?case
  proof (cases "P y")
    case True
    then show ?thesis using Cons.prems by simp
  next
    case False
    then have "y \<noteq> x" using Cons.prems by (metis filter.simps(2) filter_eq_Cons_iff)
    then show ?thesis using Cons False by simp
  qed
qed simp

lemma filter_remove1_other: "\<not> P x \<Longrightarrow> filter P (remove1 x xs) = filter P xs"
  by (induction xs) auto

lemma task_ok_answered:
  assumes "task_ok serial t' w" "t' \<noteq> t"
  shows "task_ok serial t' (w\<lparr>el_threads := remove1 (Some t, c) (el_threads w), el_log := l\<rparr>)"
proof -
  have "filter (\<lambda>(o', c). o' = Some t') (remove1 (Some t, c) (el_threads w)) = filter (\<lambda>(o', c). o' = Some t') (el_threads w)"
    using assms(2) by (intro filter_remove1_other) simp
  then show ?thesis using assms(1) by (simp add: task_ok_def cong: option.case_cong)
qed

lemma ready_Answered:
  assumes ok: "\<And>t'. task_ok serial t' w" and at: "el_at w t = Some (Call c k)"
  shows "ready serial t (k r) (w\<lparr>el_threads := remove1 (Some t, c) (el_threads w), el_log := l\<rparr>)"
proof -
  have "filter (\<lambda>(o', c). o' = Some t) (el_threads w) = [(Some t, c)]" using ok [of t] at by (simp add: task_ok_def)
  then have "filter (\<lambda>(o', c). o' = Some t) (remove1 (Some t, c) (el_threads w)) = []" by (rule filter_remove1_same)
  moreover have "guarded serial (k r) (el_lock w = Some t)" using ok [of t] at by (simp add: task_ok_def)
  ultimately show ?thesis using task_ok_answered [OF ok] by (simp add: ready_def)
qed

lemma ready_new: "(\<And>t'. task_ok serial t' w) \<Longrightarrow> el_at w t = None \<Longrightarrow> guarded serial p False \<Longrightarrow> ready serial t p w"
proof -
  assume a: "\<And>t'. task_ok serial t' w" "el_at w t = None" "guarded serial p False"
  then have "el_lock w \<noteq> Some t \<and> filter (\<lambda>(o', c). o' = Some t) (el_threads w) = []"
    using a(1) [of t] by (simp add: task_ok_def)
  then show ?thesis using a by (simp add: ready_def)
qed

lemma settle_loop_serialized:
  assumes s: "serialized serial w0" "el_at w = el_at w0" "el_stage w = el_stage w0" "orphans w = orphans w0"
    and t: "t \<noteq> MAIN" "el_stage w0 = Together" and p: "ready serial t p w" "ungathered p"
  shows "serialized serial (settle p t w)"
proof -
  obtain q where "el_at w MAIN = Some (Gather q)" using serializedD(2) [OF s(1)] s t by auto
  moreover have "ungathered q" if "el_at (settle p t w) t' = Some q" "t' \<noteq> MAIN" for t' q
  proof (cases "t' = t")
    case True
    then show ?thesis using settle_ungathered [OF p(2)] that by metis
  next
    case False
    then show ?thesis using serializedD(5) [OF s(1)] that s(2) by auto
  qed
  ultimately show ?thesis
    using settle_stage [OF p(2)] ready_settle [OF p(1)] serializedD(4) [OF s(1)] s t by (auto simp: serialized_def)
qed

lemma cancel_task_ok:
  fixes w :: "('s, 'c, 'a, 'e, 'x) event_loop"
  assumes "\<And>t'. task_ok serial t' w"
  shows "task_ok serial t' (cancel_task t w)"
proof -
  have f: "filter (\<lambda>(o', c). o' = Some t') (map (\<lambda>(o', c). (if o' = Some t then None else o', c)) xs)
      = (if t' = t then [] else filter (\<lambda>(o', c). o' = Some t') xs)" for xs :: "(loop_task option \<times> 'c) list"
    by (induction xs) (auto split: if_splits)
  show ?thesis using assms [of t'] by (auto simp: task_ok_def cancel_task_def f cong: option.case_cong)
qed

lemma cancel_task_at [simp]: "el_at (cancel_task t w) = (el_at w)(t := None)" "el_stage (cancel_task t w) = el_stage w"
  by (simp_all add: cancel_task_def)

text \<open>The contract of a worker whose serial calls are to be made one at a time.\<close>

locale serial_worker =
  fixes code :: "('s, 'c, 'a, 'e, 'x, 'm) worker_code" and serial :: "'c \<Rightarrow> bool"
  assumes body_guarded: "guarded serial (wc_body code) False"
    and cleanup_guarded: "guarded serial (wc_cleanup code) False"
    and dispatch_guarded: "guarded serial (wc_dispatch code m) False"
    and tick_guarded: "guarded serial (wc_tick code) False"
    and cleanup_ungathered: "ungathered (wc_cleanup code)"
    and dispatch_ungathered: "ungathered (wc_dispatch code m)"
    and tick_ungathered: "ungathered (wc_tick code)"
begin

lemma clean_up_serialized:
  assumes "\<And>t. task_ok serial t w" "\<And>t. el_at w t = None"
  shows "serialized serial (clean_up code w)"
proof -
  let ?w = "w\<lparr>el_stage := Cleaning\<rparr>" let ?w' = "settle (wc_cleanup code) MAIN ?w"
  have ok: "task_ok serial t ?w" for t using assms(1) [of t] by (simp add: task_ok_def cong: option.case_cong)
  have "ready serial MAIN (wc_cleanup code) ?w" using ready_new [OF ok] assms(2) cleanup_guarded by simp
  then have ok': "task_ok serial t ?w'" for t by (rule ready_settle)
  have ok'': "task_ok serial t (?w'\<lparr>el_stage := Ended\<rparr>)" for t using ok' [of t] by (simp add: task_ok_def cong: option.case_cong)
  have st: "el_stage ?w' = Cleaning" using settle_stage [OF cleanup_ungathered] by simp
  have "ungathered q" if "el_at ?w' t = Some q" for t q
    using settle_ungathered [OF cleanup_ungathered] that assms(2) by (cases "t = MAIN") auto
  moreover have "el_at ?w' MAIN \<noteq> Some (Gather q)" for q using settle_gather [of _ MAIN ?w q] st by fastforce
  ultimately show ?thesis using ok' ok'' st assms(2) by (auto simp: clean_up_def serialized_def Let_def)
qed

lemma resume_main_serialized:
  assumes s: "serialized serial w0" "el_at w = el_at w0" "el_stage w = el_stage w0" "orphans w = orphans w0"
    and st: "el_stage w0 \<in> {Alone, Cleaning}" and p: "ready serial MAIN p w" "el_stage w0 = Cleaning \<Longrightarrow> ungathered p"
  shows "serialized serial (resume code MAIN p w)"
proof -
  let ?w = "settle p MAIN w"
  have ok: "task_ok serial t ?w" for t using p(1) by (rule ready_settle)
  have none: "el_at ?w t = None" if "t \<noteq> MAIN" for t using serializedD(3) [OF s(1)] that s st by auto
  show ?thesis
  proof (cases "el_at ?w MAIN")
    case None
    then have at: "el_at ?w t = None" for t using none by (cases "t = MAIN") auto
    have ok': "task_ok serial t (?w\<lparr>el_stage := Ended\<rparr>)" for t using ok [of t] by (simp add: task_ok_def cong: option.case_cong)
    have "serialized serial (?w\<lparr>el_stage := Ended\<rparr>)" using ok' at by (auto simp: serialized_def)
    then show ?thesis using None clean_up_serialized [OF ok at] by (simp add: resume_def Let_def)
  next
    case (Some q)
    have u: "ungathered q" if "el_stage ?w = Cleaning"
      using settle_main_stage [of p MAIN w] settle_ungathered [OF p(2)] Some that s(3) by fastforce
    have g: "el_stage ?w = Together \<longleftrightarrow> (\<exists>q. el_at ?w MAIN = Some (Gather q))"
      using settle_main_stage [of p MAIN w] settle_gather [of p MAIN w] st s(3) by auto
    have o': "el_stage ?w \<in> {Cleaning, Ended} \<or> orphans ?w = []"
      using settle_main_stage [of p MAIN w] serializedD(4) [OF s(1)] settle_stage p(2) st s by fastforce
    have u': "ungathered r" if "el_at ?w t = Some r" "t \<noteq> MAIN \<or> el_stage ?w = Cleaning" for t r
      using that none u Some by (cases "t = MAIN") auto
    have "el_stage ?w \<noteq> Ended" using settle_main_stage [of p MAIN w] st s(3) by auto
    then have "serialized serial ?w" unfolding serialized_def using ok none u' g o' by auto
    then show ?thesis using Some by (simp add: resume_def Let_def)
  qed
qed

lemma resumed_serialized:
  assumes s: "serialized serial w0" "el_at w = el_at w0" "el_stage w = el_stage w0" "orphans w = orphans w0"
    and at: "el_at w0 t = Some q" and p: "ready serial t p w" "ungathered q \<Longrightarrow> ungathered p" "\<forall>r. q \<noteq> Gather r"
  shows "serialized serial (resume code t p w)"
proof (cases "t = MAIN")
  case True
  have "el_stage w0 \<noteq> Together" using serializedD(2) [OF s(1)] at p(3) True by auto
  moreover have "el_stage w0 \<noteq> Ended" using serializedD(6) [OF s(1)] at True by auto
  ultimately have "el_stage w0 \<in> {Alone, Cleaning}" by (cases "el_stage w0") auto
  then show ?thesis using resume_main_serialized [OF s] p serializedD(5) [OF s(1) at] True by auto
next
  case False
  then have "el_stage w0 = Together" using serializedD(3) [OF s(1)] at by force
  then show ?thesis using settle_loop_serialized [OF s False] p serializedD(5) [OF s(1) at] False by (simp add: resume_def)
qed

lemma started_serialized:
  assumes s: "serialized serial w" and t: "el_stage w = Together" "el_at w t = None" "t \<noteq> MAIN"
    and p: "guarded serial p False" "ungathered p"
  shows "serialized serial (resume code t p w)"
proof -
  have "ready serial t p w" using ready_new [OF serializedD(1) [OF s]] t p by blast
  then show ?thesis using settle_loop_serialized [OF s refl refl refl] t p by (simp add: resume_def)
qed

lemma remove_orphan_task_ok:
  assumes "task_ok serial t w" "n < length (el_threads w)" "fst (el_threads w ! n) = None"
  shows "task_ok serial t (w\<lparr>el_threads := take n (el_threads w) @ drop (Suc n) (el_threads w), el_log := l\<rparr>)"
proof -
  let ?P = "\<lambda>(o', c). o' = Some t"
  have "filter ?P (el_threads w) = filter ?P (take n (el_threads w) @ el_threads w ! n # drop (Suc n) (el_threads w))"
    using assms(2) by (simp add: id_take_nth_drop [symmetric])
  also have "\<dots> = filter ?P (take n (el_threads w) @ drop (Suc n) (el_threads w))"
    using assms(3) by (auto split: prod.splits)
  finally show ?thesis using assms(1) by (simp add: task_ok_def cong: option.case_cong)
qed

lemma orphan_ended_serialized:
  assumes s: "serialized serial w" "n < length (el_threads w)" "fst (el_threads w ! n) = None"
  shows "serialized serial (w\<lparr>el_threads := take n (el_threads w) @ drop (Suc n) (el_threads w), el_log := l\<rparr>)"
proof -
  have "el_threads w ! n \<in> set (orphans w)" using s(2,3) by (auto simp: orphans_def)
  then have "orphans w \<noteq> []" by auto
  then have "el_stage w \<in> {Cleaning, Ended}" using serializedD(4) [OF s(1)] by blast
  moreover have "task_ok serial t (w\<lparr>el_threads := take n (el_threads w) @ drop (Suc n) (el_threads w), el_log := l\<rparr>)" for t
    using remove_orphan_task_ok [OF serializedD(1) [OF s(1)] s(2,3)] .
  ultimately show ?thesis using s(1) unfolding serialized_def by auto
qed

lemma cancel_all_none: "el_at (cancel_task MAIN (cancel_task COMMANDS (cancel_task BROADCAST w))) t = None"
  by (cases t) auto

lemma step_serialized:
  assumes s: "serialized serial w"
  shows "serialized serial (loop_step code w e)"
proof -
  note ok = serializedD(1) [OF s]
  show ?thesis
  proof (cases e)
    case (Granted t)
    have "serialized serial (resume code t p (w\<lparr>el_lock := Some t\<rparr>))" if "el_at w t = Some (Acquire p)" "el_lock w = None" for p
      by (rule resumed_serialized [OF s _ _ _ that(1)])
        (use ready_Granted [OF ok that] in \<open>auto simp: orphans_def\<close>)
    then show ?thesis using s Granted by (auto split: option.splits prog.splits)
  next
    case (Delivered t)
    have "serialized serial (resume code t p w)" if "el_at w t = Some (Send a p)" for a p
      by (rule resumed_serialized [OF s _ _ _ that]) (use ready_Delivered [OF ok that] in auto)
    then show ?thesis using s Delivered by (auto split: option.splits prog.splits)
  next
    case (Answered t r)
    have "serialized serial (answered code t r c k w)" if "el_at w t = Some (Call c k)" for c k
      unfolding answered_def
      using resumed_serialized [OF s _ _ _ that] ready_Answered [OF ok that] s
      by (auto simp: orphans_def filter_remove1_other)
    then show ?thesis using s Answered by (auto split: option.splits prog.splits)
  next
    case (ThreadEnds n r)
    then show ?thesis using s orphan_ended_serialized [OF s] by auto
  next
    case (Received m)
    then show ?thesis using s started_serialized [OF s] dispatch_guarded dispatch_ungathered by auto
  next
    case ReceiveFails
    have "serialized serial (resume code MAIN p (cancel_task BROADCAST w))"
      if "el_at w MAIN = Some (Gather p)" "el_at w COMMANDS = None" for p
    proof -
      have p: "p = Done" using ok [of MAIN] that by (simp add: task_ok_def)
      have st: "el_stage w = Together" using serializedD(2) [OF s] that by blast
      have l: "el_lock w \<noteq> Some MAIN" using ok [of MAIN] that by (simp add: task_ok_def)
      let ?w = "settle Done MAIN (cancel_task BROADCAST w)"
      have r: "ready serial MAIN Done (cancel_task BROADCAST w)"
        using cancel_task_ok [OF ok] ok [of MAIN] l that by (auto simp: ready_def task_ok_def cancel_task_def)
      have none: "el_at ?w t = None" for t using that by (cases t) auto
      show ?thesis using clean_up_serialized [OF ready_settle [OF r] none] st p by (simp add: resume_def)
    qed
    then show ?thesis using s ReceiveFails by (auto split: option.splits prog.splits)
  next
    case Ticks
    then show ?thesis using s started_serialized [OF s] tick_guarded tick_ungathered by auto
  next
    case Canceled
    let ?w = "cancel_task MAIN (cancel_task COMMANDS (cancel_task BROADCAST w))"
    have c: "task_ok serial t ?w" for t by (intro cancel_task_ok ok)
    have c': "task_ok serial t (?w\<lparr>el_stage := Ended\<rparr>)" for t using c [of t] by (simp add: task_ok_def cong: option.case_cong)
    have "serialized serial (?w\<lparr>el_stage := Ended\<rparr>)" unfolding serialized_def using c' cancel_all_none [of w] by auto
    then show ?thesis using s clean_up_serialized [OF c cancel_all_none] Canceled by (auto simp: Let_def)
  qed
qed

lemma start_serialized: "serialized serial (start_worker code s)"
proof -
  let ?w = "\<lparr>el_self = s, el_lock = None, el_stage = Alone, el_at = (\<lambda>_. None), el_threads = [], el_log = []\<rparr>
     :: ('s, 'c, 'a, 'e, 'x) event_loop"
  have ok: "task_ok serial t ?w" for t by (simp add: task_ok_def)
  then have "serialized serial ?w" by (auto simp: serialized_def orphans_def)
  moreover have "ready serial MAIN (wc_body code) ?w" using ready_new [OF ok] body_guarded by simp
  ultimately show ?thesis unfolding start_worker_def by (intro resume_main_serialized) auto
qed

lemma run_serialized: "serialized serial (foldl (loop_step code) (start_worker code s) es)"
proof (induction es rule: rev_induct)
  case Nil
  then show ?case by (simp add: start_serialized)
qed (simp add: step_serialized)

end

text \<open>Calls of tasks, but not those that a cancellation has left behind, are made one at a time.\<close>

definition serial_calls :: "('c \<Rightarrow> bool) \<Rightarrow> ('s, 'c, 'a, 'e, 'x) event_loop \<Rightarrow> (loop_task option \<times> 'c) list" where
  "serial_calls serial w = filter (\<lambda>(o', c). o' \<noteq> None \<and> serial c) (el_threads w)"

lemma serial_call_of_holder:
  assumes "\<And>t. task_ok serial t w" "(o', c) \<in> set (serial_calls serial w)"
  shows "o' = el_lock w"
proof -
  obtain t where t: "o' = Some t" "(Some t, c) \<in> set (el_threads w)" "serial c" using assms(2) by (auto simp: serial_calls_def)
  then have in_t: "(Some t, c) \<in> set (filter (\<lambda>(o', c). o' = Some t) (el_threads w))" by simp
  obtain k where "el_at w t = Some (Call c k)"
    using assms(1) [of t] in_t unfolding task_ok_def by (simp split: option.splits prog.splits)
  then show ?thesis using assms(1) [of t] t by (auto simp: task_ok_def)
qed

lemma serialized_one_call:
  assumes "serialized serial w"
  shows "length (serial_calls serial w) \<le> 1"
proof (cases "el_lock w")
  case None
  have "serial_calls serial w = []"
  proof (rule ccontr)
    assume "serial_calls serial w \<noteq> []"
    then obtain o' c where "(o', c) \<in> set (serial_calls serial w)" by (cases "serial_calls serial w") auto
    then show False using serial_call_of_holder [OF serializedD(1) [OF assms]] None by (auto simp: serial_calls_def)
  qed
  then show ?thesis by simp
next
  case (Some t)
  have "serial_calls serial w = filter (\<lambda>(o', c). o' = Some t) (serial_calls serial w)"
    using serial_call_of_holder [OF serializedD(1) [OF assms]] Some by (intro filter_True [symmetric]) auto
  also have "\<dots> = filter (\<lambda>(o', c). serial c) (filter (\<lambda>(o', c). o' = Some t) (el_threads w))"
    by (auto simp: serial_calls_def intro!: filter_cong)
  also have "length \<dots> \<le> length (filter (\<lambda>(o', c). o' = Some t) (el_threads w))" by (rule length_filter_le)
  also have "\<dots> \<le> 1" using serializedD(1) [OF assms, of t] by (auto simp: task_ok_def split: option.splits prog.splits)
  finally show ?thesis .
qed

end
