(* ===== verification/SetupWorker.thy ===== *)
theory SetupWorker
  imports Coroutine Complex_Main "HOL-Library.AList"
begin

text \<open>
  The setup wizard of an SO101 arm, \<^verbatim>\<open>workers/robots/so101_setup_worker.py\<close>, as coroutines: \<^verbatim>\<open>run\<close>, the loop that
  takes commands of the client and the loop that streams positions. The motor bus is LeRobot's; its calls are
  answered from outside, and so is finding the port. Commands are those whose fields are text.
\<close>

section \<open>State\<close>

datatype SetupPhase = CONNECTING | VOLTAGE_CHECK | MOTOR_PROBE | MOTOR_SETUP | CALIBRATION_INSTRUCTIONS
  | CALIBRATION_HOMING | CALIBRATION_RECORDING | CONFIGURE | VERIFICATION

datatype WorkerState = INITIALIZING | W_RUNNING | W_ERROR | SHUTTING_DOWN | W_STOPPED

record SerialPortInfo =
  sp_serial_number :: "string option"
  sp_connection_string :: "string option"

text \<open>The exceptions the worker tells apart; \<open>PermissionExn\<close> and \<open>ConnectionExn\<close> are also \<open>OSError\<close>s.\<close>

datatype setup_exn = PermissionExn string | ConnectionExn string | OSExn string | RuntimeExn string
  | KeyExn string | OtherExn string

definition exn_text :: "setup_exn \<Rightarrow> string" where
  "exn_text e = (case e of PermissionExn s \<Rightarrow> s | ConnectionExn s \<Rightarrow> s | OSExn s \<Rightarrow> s | RuntimeExn s \<Rightarrow> s
     | KeyExn s \<Rightarrow> s | OtherExn s \<Rightarrow> s)"

record MotorCalibration =
  mc_id :: int
  mc_drive_mode :: int
  mc_homing_offset :: int
  mc_range_min :: int
  mc_range_max :: int

type_synonym motor_calibrations = "(string \<times> MotorCalibration) list"

text \<open>What a read of the positions is for.\<close>

datatype read_purpose = Seed | Track | View

datatype bus_call =
    FindPort
  | OpenBus string
  | ReadVoltage string
  | PingMotor int
  | ReadCalibration
  | HasCalibration
  | SetupMotor string
  | DisableTorque
  | WriteRegister string string int
  | SetHalfTurnHomings
  | ReadPositions read_purpose
  | ReadNormalized
  | WriteCalibration motor_calibrations
  | SetCalibration motor_calibrations
  | ConfigureMotors
  | DisconnectBus
  | ClosePort
  | CloseTransport

datatype bus_value =
    NoValue
  | Truth bool
  | Voltage int
  | Model "int option"
  | Port "string option"
  | Positions "(string \<times> int) list"
  | Normalized "(string \<times> real) list"
  | Calibrations motor_calibrations

record voltage_report =
  vr_readings :: "(string \<times> int \<times> int option) list"
  vr_avg_voltage :: "real option"
  vr_voltage_ok :: bool
  vr_expected_source :: string
  vr_robot_type :: string

record motor_found =
  mf_name :: string
  mf_motor_id :: int
  mf_found :: bool
  mf_model_number :: "int option"
  mf_model_correct :: bool

record calibration_status =
  cs_motors :: "(string \<times> MotorCalibration \<times> bool) list"
  cs_all_calibrated :: bool

record probe_report =
  pr_motors :: "motor_found list"
  pr_all_motors_ok :: bool
  pr_found_count :: nat
  pr_total_count :: nat
  pr_calibration :: "calibration_status option"

datatype setup_event =
    StatusEvent WorkerState SetupPhase string
  | VoltageResult voltage_report
  | ProbeResult probe_report
  | MotorSetupProgress string string string
  | HomingResult "(string \<times> int) list"
  | RangePositions "(string \<times> int \<times> int \<times> int) list"
  | PlainPositions "(string \<times> int) list"
  | StateWasUpdated "(string \<times> real) list"
  | CalibrationResult motor_calibrations
  | ErrorEvent string string
  | Pong

record setup_worker =
  sw_robot_type :: string
  sw_serial_port :: SerialPortInfo
  sw_state :: WorkerState
  sw_error_message :: "string option"
  sw_stop_requested :: bool
  sw_phase :: SetupPhase
  sw_bus :: bool
  sw_port :: "string option"
  sw_voltage_result :: "voltage_report option"
  sw_probe_result :: "probe_report option"
  sw_homing_offsets :: "(string \<times> int) list option"
  sw_range_mins :: "(string \<times> int) list"
  sw_range_maxes :: "(string \<times> int) list"
  sw_last_raw :: "(string \<times> int) list option"

type_synonym setup_prog = "(setup_worker, bus_call, bus_value, setup_event, setup_exn) prog"

definition new_setup_worker :: "string \<Rightarrow> SerialPortInfo \<Rightarrow> setup_worker" where
  "new_setup_worker robot_type serial_port =
     \<lparr>sw_robot_type = robot_type, sw_serial_port = serial_port, sw_state = INITIALIZING, sw_error_message = None,
      sw_stop_requested = False, sw_phase = CONNECTING, sw_bus = False, sw_port = None, sw_voltage_result = None,
      sw_probe_result = None, sw_homing_offsets = None, sw_range_mins = [], sw_range_maxes = [], sw_last_raw = None\<rparr>"

section \<open>Constants\<close>

definition STS3215_MODEL_NUMBER :: int where "STS3215_MODEL_NUMBER = 777"

definition VOLTAGE_THRESHOLD_RAW :: int where "VOLTAGE_THRESHOLD_RAW = 70"

definition MOTORS :: "(string \<times> int) list" where
  "MOTORS = [(''shoulder_pan'', 1), (''shoulder_lift'', 2), (''elbow_flex'', 3), (''wrist_flex'', 4),
     (''wrist_roll'', 5), (''gripper'', 6)]"

definition motor_names :: "string list" where "motor_names = map fst MOTORS"

text \<open>
  What the bus answers: values of the kind of the call, and for all motors at once one value for each of them.
\<close>

definition bus_fits :: "bus_call \<Rightarrow> bus_value \<Rightarrow> bool" where
  "bus_fits c a =
     (case c of
        FindPort \<Rightarrow> (case a of Port p \<Rightarrow> True | _ \<Rightarrow> False)
      | ReadVoltage n \<Rightarrow> (case a of Voltage v \<Rightarrow> True | _ \<Rightarrow> False)
      | PingMotor i \<Rightarrow> (case a of Model m \<Rightarrow> True | _ \<Rightarrow> False)
      | ReadCalibration \<Rightarrow> (case a of Calibrations cs \<Rightarrow> map fst cs = motor_names | _ \<Rightarrow> False)
      | HasCalibration \<Rightarrow> (case a of Truth b \<Rightarrow> True | _ \<Rightarrow> False)
      | SetHalfTurnHomings \<Rightarrow> (case a of Positions ps \<Rightarrow> map fst ps = motor_names | _ \<Rightarrow> False)
      | ReadPositions u \<Rightarrow> (case a of Positions ps \<Rightarrow> map fst ps = motor_names | _ \<Rightarrow> False)
      | ReadNormalized \<Rightarrow> (case a of Normalized ps \<Rightarrow> map fst ps = motor_names | _ \<Rightarrow> False)
      | _ \<Rightarrow> a = NoValue)"

section \<open>Helpers\<close>

definition classify_error :: "setup_exn \<Rightarrow> string" where
  "classify_error e = (case e of PermissionExn s \<Rightarrow> ''permission_denied'' | ConnectionExn s \<Rightarrow> ''device_not_found''
     | _ \<Rightarrow> ''connection_failed'')"

definition send_phase_status :: "string \<Rightarrow> setup_prog \<Rightarrow> setup_prog" where
  "send_phase_status message p = Ask (\<lambda>s. Send (StatusEvent (sw_state s) (sw_phase s) message) p)"

definition require_bus :: "setup_prog \<Rightarrow> setup_prog" where
  "require_bus p = Ask (\<lambda>s. if sw_bus s then p else Raise (RuntimeExn ''Motor bus is not connected''))"

definition in_phase :: "SetupPhase \<Rightarrow> setup_prog \<Rightarrow> setup_prog" where
  "in_phase ph p = Do (\<lambda>s. s\<lparr>sw_phase := ph\<rparr>) p"

section \<open>Connecting\<close>

definition open_failure :: "string \<Rightarrow> setup_exn \<Rightarrow> setup_exn" where
  "open_failure port e =
     (case e of
        PermissionExn s \<Rightarrow> PermissionExn (''Permission denied for port '' @ port)
      | ConnectionExn s \<Rightarrow> ConnectionExn (''Could not open port '' @ port @ '': '' @ s)
      | OSExn s \<Rightarrow> ConnectionExn (''Could not open port '' @ port @ '': '' @ s)
      | _ \<Rightarrow> e)"

definition no_device :: "SerialPortInfo \<Rightarrow> setup_exn" where
  "no_device sp =
     (case sp_serial_number sp of
        Some n \<Rightarrow> if n \<noteq> [] then ConnectionExn (''No USB device found with serial number '' @ n)
                  else ConnectionExn (''No USB device found at '' @ (case sp_connection_string sp of None \<Rightarrow> [] | Some x \<Rightarrow> x))
      | None \<Rightarrow> ConnectionExn (''No USB device found at '' @ (case sp_connection_string sp of None \<Rightarrow> [] | Some x \<Rightarrow> x)))"

definition open_bus :: "string \<Rightarrow> setup_prog" where
  "open_bus port =
     Do (\<lambda>s. s\<lparr>sw_port := Some port, sw_bus := True\<rparr>)
       (andthen (catch (locked_call (OpenBus port) (\<lambda>_. Done)) (\<lambda>e. Raise (open_failure port e)))
         (send_phase_status (''Connected to '' @ port) Done))"

definition connect_bus :: setup_prog where
  "connect_bus =
     in_phase CONNECTING (send_phase_status ''Resolving connection port...''
       (call FindPort (\<lambda>a. case a of
            Port (Some port) \<Rightarrow> open_bus port
          | _ \<Rightarrow> Ask (\<lambda>s. Raise (no_device (sw_serial_port s))))))"

section \<open>Voltage\<close>

fun read_voltages :: "(string \<times> int) list \<Rightarrow> (string \<times> int \<times> int option) list
    \<Rightarrow> ((string \<times> int \<times> int option) list \<Rightarrow> setup_prog) \<Rightarrow> setup_prog" where
  "read_voltages [] readings k = k readings"
| "read_voltages ((n, i) # ms) readings k =
     Acquire (Call (ReadVoltage n) (\<lambda>r. Release (read_voltages ms
       (readings @ [(n, i, case r of Inr (Voltage v) \<Rightarrow> Some v | _ \<Rightarrow> None)]) k)))"

definition raw_values :: "(string \<times> int \<times> int option) list \<Rightarrow> int list" where
  "raw_values readings = concat (map (\<lambda>(n, i, raw). case raw of None \<Rightarrow> [] | Some v \<Rightarrow> [v]) readings)"

definition average :: "int list \<Rightarrow> real option" where
  "average vs = (if vs = [] then None else Some (real_of_int (sum_list vs) / real (length vs)))"

definition is_follower :: "string \<Rightarrow> bool" where
  "is_follower robot_type \<longleftrightarrow> robot_type = ''SO101_Follower''"

definition voltage_ok :: "bool \<Rightarrow> real option \<Rightarrow> bool" where
  "voltage_ok follower avg =
     (case avg of
        None \<Rightarrow> True
      | Some v \<Rightarrow> if follower then v \<ge> real_of_int VOLTAGE_THRESHOLD_RAW else v < real_of_int VOLTAGE_THRESHOLD_RAW)"

definition voltage_report_of :: "string \<Rightarrow> (string \<times> int \<times> int option) list \<Rightarrow> voltage_report" where
  "voltage_report_of robot_type readings =
     (let avg = average (raw_values readings); follower = is_follower robot_type
      in \<lparr>vr_readings = readings, vr_avg_voltage = map_option (\<lambda>v. v * (1 / 10)) avg, vr_voltage_ok = voltage_ok follower avg,
          vr_expected_source = (if follower then ''external power supply (>= 7V)'' else ''USB only (< 7V)''),
          vr_robot_type = robot_type\<rparr>)"

definition run_voltage_check :: setup_prog where
  "run_voltage_check =
     in_phase VOLTAGE_CHECK (send_phase_status ''Checking supply voltage...'' (require_bus
       (read_voltages MOTORS [] (\<lambda>readings. Ask (\<lambda>s.
          let report = voltage_report_of (sw_robot_type s) readings
          in Do (\<lambda>s. s\<lparr>sw_voltage_result := Some report\<rparr>) (Send (VoltageResult report) Done))))))"

section \<open>Motor probe\<close>

definition found_motor :: "string \<Rightarrow> int \<Rightarrow> int option \<Rightarrow> motor_found" where
  "found_motor n i model_nb = \<lparr>mf_name = n, mf_motor_id = i, mf_found = (model_nb \<noteq> None), mf_model_number = model_nb,
     mf_model_correct = (model_nb = Some STS3215_MODEL_NUMBER)\<rparr>"

fun probe_motors :: "(string \<times> int) list \<Rightarrow> motor_found list \<Rightarrow> (motor_found list \<Rightarrow> setup_prog) \<Rightarrow> setup_prog" where
  "probe_motors [] found k = k found"
| "probe_motors ((n, i) # ms) found k =
     locked_call (PingMotor i) (\<lambda>a. probe_motors ms (found @ [found_motor n i (case a of Model m \<Rightarrow> m | _ \<Rightarrow> None)]) k)"

definition motor_is_ok :: "motor_found \<Rightarrow> bool" where
  "motor_is_ok m \<longleftrightarrow> mf_found m \<and> mf_model_correct m"

definition is_default :: "MotorCalibration \<Rightarrow> bool" where
  "is_default mc \<longleftrightarrow> mc_homing_offset mc = 0 \<and> mc_range_min mc = 0 \<and> mc_range_max mc = 4095"

definition calibration_status_of :: "motor_calibrations \<Rightarrow> calibration_status" where
  "calibration_status_of cal = \<lparr>cs_motors = map (\<lambda>(n, mc). (n, mc, \<not> is_default mc)) cal,
     cs_all_calibrated = list_all (\<lambda>(n, mc). \<not> is_default mc) cal\<rparr>"

definition probe_report_of :: "motor_found list \<Rightarrow> calibration_status option \<Rightarrow> probe_report" where
  "probe_report_of found status =
     \<lparr>pr_motors = found, pr_all_motors_ok = list_all motor_is_ok found, pr_found_count = length (filter motor_is_ok found),
      pr_total_count = length MOTORS, pr_calibration = status\<rparr>"

definition report_probe :: "motor_found list \<Rightarrow> calibration_status option \<Rightarrow> setup_prog" where
  "report_probe found status =
     (let report = probe_report_of found status
      in Do (\<lambda>s. s\<lparr>sw_probe_result := Some report\<rparr>) (Send (ProbeResult report) Done))"

definition check_calibration :: "(calibration_status \<Rightarrow> setup_prog) \<Rightarrow> setup_prog" where
  "check_calibration k = require_bus (locked_call ReadCalibration (\<lambda>a.
     k (calibration_status_of (case a of Calibrations cal \<Rightarrow> cal | _ \<Rightarrow> []))))"

definition run_motor_probe :: setup_prog where
  "run_motor_probe =
     in_phase MOTOR_PROBE (send_phase_status ''Probing motors...'' (require_bus
       (probe_motors MOTORS [] (\<lambda>found.
          if list_all motor_is_ok found then check_calibration (\<lambda>status. report_probe found (Some status))
          else report_probe found None))))"

section \<open>Motor setup\<close>

definition handle_motor_setup :: "string \<Rightarrow> setup_prog" where
  "handle_motor_setup motor_name =
     require_bus (Send (MotorSetupProgress motor_name ''scanning'' (''Scanning for motor '' @ motor_name))
       (catch (locked_call (SetupMotor motor_name) (\<lambda>_. Send (MotorSetupProgress motor_name ''success''
                 (''Motor '' @ motor_name @ '' configured'')) Done))
          (\<lambda>e. Send (MotorSetupProgress motor_name ''error'' (exn_text e)) Done)))"

section \<open>Calibration\<close>

definition enter_calibration :: setup_prog where
  "enter_calibration =
     require_bus (locked_call DisableTorque (\<lambda>_.
       in_phase CALIBRATION_INSTRUCTIONS (send_phase_status ''Torque disabled'' Done)))"

definition handle_start_homing :: setup_prog where
  "handle_start_homing =
     in_phase CALIBRATION_HOMING (send_phase_status ''Applying homing offsets...'' (require_bus
       (Acquire (held_call DisableTorque (\<lambda>_.
         held_calls (map (\<lambda>m. WriteRegister ''Operating_Mode'' m 0) motor_names)
           (held_call SetHalfTurnHomings (\<lambda>a. Release
             (let offsets = (case a of Positions ps \<Rightarrow> ps | _ \<Rightarrow> [])
              in Do (\<lambda>s. s\<lparr>sw_homing_offsets := Some offsets\<rparr>) (Send (HomingResult offsets) Done)))))))))"

definition begin_recording :: setup_prog where
  "begin_recording =
     Ask (\<lambda>s. if sw_phase s = CALIBRATION_RECORDING then Done
       else require_bus (send_phase_status ''Recording range of motion...''
         (locked_call (ReadPositions Seed) (\<lambda>a.
           let start_positions = (case a of Positions ps \<Rightarrow> ps | _ \<Rightarrow> [])
           in Do (\<lambda>s. s\<lparr>sw_range_mins := start_positions, sw_range_maxes := start_positions\<rparr>)
                (in_phase CALIBRATION_RECORDING Done)))))"

text \<open>\<^verbatim>\<open>_configure_motors\<close>.\<close>

definition configure_motor :: "bool \<Rightarrow> string \<Rightarrow> bus_call list" where
  "configure_motor follower motor =
     WriteRegister ''Operating_Mode'' motor 0 #
     (if follower then
        [WriteRegister ''P_Coefficient'' motor 16, WriteRegister ''I_Coefficient'' motor 0, WriteRegister ''D_Coefficient'' motor 32]
        @ (if motor = ''gripper'' then [WriteRegister ''Max_Torque_Limit'' motor 500,
             WriteRegister ''Protection_Current'' motor 250, WriteRegister ''Overload_Torque'' motor 25] else [])
      else [])"

definition configure_motors :: "setup_prog \<Rightarrow> setup_prog" where
  "configure_motors p =
     send_phase_status ''Configuring motors...'' (require_bus
       (Acquire (held_call DisableTorque (\<lambda>_. held_call ConfigureMotors (\<lambda>_. Ask (\<lambda>s.
          held_calls (concat (map (configure_motor (is_follower (sw_robot_type s))) motor_names)) (Release p)))))))"

definition enter_verification :: setup_prog where
  "enter_verification =
     require_bus (Call HasCalibration (\<lambda>r.
       if r = Inr (Truth True) then in_phase VERIFICATION Done
       else locked_call ReadCalibration (\<lambda>a.
         let cal = (case a of Calibrations cs \<Rightarrow> cs | _ \<Rightarrow> [])
         in Call (SetCalibration cal) (\<lambda>_. Send (CalibrationResult cal) (in_phase VERIFICATION Done)))))"

definition same_min_max :: "setup_worker \<Rightarrow> string list" where
  "same_min_max s = filter (\<lambda>m. (case map_of (sw_range_mins s) m of None \<Rightarrow> 0 | Some v \<Rightarrow> v)
      = (case map_of (sw_range_maxes s) m of None \<Rightarrow> 0 | Some v \<Rightarrow> v)) motor_names"

text \<open>\<open>None\<close> where a subscript is missing.\<close>

fun build_calibration :: "(string \<times> int) list \<Rightarrow> (string \<times> int) list \<Rightarrow> setup_worker \<Rightarrow> motor_calibrations option" where
  "build_calibration [] offsets s = Some []"
| "build_calibration ((n, i) # ms) offsets s =
     (case (map_of offsets n, map_of (sw_range_mins s) n, map_of (sw_range_maxes s) n) of
        (Some h, Some lo, Some hi) \<Rightarrow>
          map_option (\<lambda>rest. (n, \<lparr>mc_id = i, mc_drive_mode = 0, mc_homing_offset = h, mc_range_min = lo, mc_range_max = hi\<rparr>) # rest)
            (build_calibration ms offsets s)
      | _ \<Rightarrow> None)"

definition write_and_verify :: "motor_calibrations \<Rightarrow> setup_prog" where
  "write_and_verify calibration =
     locked_call (WriteCalibration calibration) (\<lambda>_.
       configure_motors (send_phase_status ''Calibration complete''
         (Send (CalibrationResult calibration) enter_verification)))"

definition handle_stop_recording :: setup_prog where
  "handle_stop_recording =
     in_phase CONFIGURE (require_bus (Ask (\<lambda>s.
       case sw_homing_offsets s of
         None \<Rightarrow> Raise (RuntimeExn ''Homing offsets have not been computed yet'')
       | Some offsets \<Rightarrow>
           if same_min_max s \<noteq> []
           then Send (ErrorEvent (''Some motors have the same min and max values: '' @ str_join '', '' (same_min_max s)) ''command_error'') Done
           else (case build_calibration MOTORS offsets s of
                   None \<Rightarrow> Raise (KeyExn ''motor'')
                 | Some calibration \<Rightarrow> write_and_verify calibration))))"

section \<open>Streaming\<close>

text \<open>The ranges so far, and whether each motor had one.\<close>

fun track_range :: "(string \<times> int) list \<Rightarrow> (string \<times> int) list \<Rightarrow> (string \<times> int) list
    \<Rightarrow> (string \<times> int) list \<times> (string \<times> int) list \<times> bool" where
  "track_range [] mins maxes = (mins, maxes, True)"
| "track_range ((m, pos) # ps) mins maxes =
     (case (map_of mins m, map_of maxes m) of
        (Some lo, Some hi) \<Rightarrow> track_range ps (AList.update m (min lo pos) mins) (AList.update m (max hi pos) maxes)
      | _ \<Rightarrow> (mins, maxes, False))"

definition range_rows :: "(string \<times> int) list \<Rightarrow> (string \<times> int) list \<Rightarrow> (string \<times> int) list \<Rightarrow> (string \<times> int \<times> int \<times> int) list" where
  "range_rows current mins maxes = map (\<lambda>(n, pos). (n, pos, the (map_of mins n), the (map_of maxes n))) current"

definition note_raw :: "(string \<times> int) list \<Rightarrow> setup_prog" where
  "note_raw current = Do (\<lambda>s. s\<lparr>sw_last_raw := Some current\<rparr>) Done"

definition send_raw_positions :: "read_purpose \<Rightarrow> (string \<times> int) list \<Rightarrow> setup_prog" where
  "send_raw_positions purpose current =
     Ask (\<lambda>s.
       if purpose = Track then
         (case track_range current (sw_range_mins s) (sw_range_maxes s) of
            (mins, maxes, all_known) \<Rightarrow>
              Do (\<lambda>s. s\<lparr>sw_range_mins := mins, sw_range_maxes := maxes\<rparr>)
                (if all_known then Send (RangePositions (range_rows current mins maxes)) (note_raw current)
                 else Raise (KeyExn ''motor'')))
       else if sw_last_raw s \<noteq> Some current then Send (PlainPositions current) (note_raw current)
       else note_raw current)"

definition broadcast_raw_positions :: "read_purpose \<Rightarrow> setup_prog" where
  "broadcast_raw_positions purpose =
     require_bus (locked_call (ReadPositions purpose) (\<lambda>a. send_raw_positions purpose (case a of Positions ps \<Rightarrow> ps | _ \<Rightarrow> [])))"

definition broadcast_normalized_positions :: setup_prog where
  "broadcast_normalized_positions =
     require_bus (locked_call ReadNormalized (\<lambda>a.
       Send (StateWasUpdated (case a of Normalized ps \<Rightarrow> map (\<lambda>(n, v). (n @ ''.pos'', v)) ps | _ \<Rightarrow> [])) Done))"

definition broadcast_tick :: setup_prog where
  "broadcast_tick =
     Ask (\<lambda>s. case sw_phase s of
         CALIBRATION_INSTRUCTIONS \<Rightarrow> broadcast_raw_positions View
       | CALIBRATION_HOMING \<Rightarrow> broadcast_raw_positions View
       | CALIBRATION_RECORDING \<Rightarrow> broadcast_raw_positions Track
       | VERIFICATION \<Rightarrow> broadcast_normalized_positions
       | _ \<Rightarrow> Done)"

text \<open>One turn of the broadcast loop; an exception is logged.\<close>

definition broadcast_turn :: setup_prog where
  "broadcast_turn = catch broadcast_tick (\<lambda>_. Done)"

section \<open>Commands\<close>

datatype setup_command = CommandMessage string "string option"

definition dispatch_setup_command :: "string \<Rightarrow> string option \<Rightarrow> setup_prog" where
  "dispatch_setup_command command motor =
     (if command = ''ping'' then Send Pong Done
      else if command = ''start_motor_setup'' then
        in_phase MOTOR_SETUP (send_phase_status ''Motor setup mode'' Done)
      else if command = ''motor_connected'' then
        (let motor_name = (case motor of None \<Rightarrow> [] | Some m \<Rightarrow> m)
         in if motor_name \<notin> set motor_names then Send (ErrorEvent (''Unknown motor: '' @ motor_name) ''command_error'') Done
            else handle_motor_setup motor_name)
      else if command = ''finish_motor_setup'' then run_motor_probe
      else if command = ''enter_calibration'' then enter_calibration
      else if command = ''start_homing'' then handle_start_homing
      else if command = ''start_recording'' then begin_recording
      else if command = ''stop_recording'' then handle_stop_recording
      else if command = ''enter_verification'' then enter_verification
      else if command = ''re_probe'' then andthen run_voltage_check run_motor_probe
      else Send (ErrorEvent (''Unknown command: '' @ command) ''command_error'') Done)"

definition setup_command_turn :: "setup_command \<Rightarrow> setup_prog" where
  "setup_command_turn m =
     (case m of CommandMessage command motor \<Rightarrow>
        catch (dispatch_setup_command command motor) (\<lambda>e. Send (ErrorEvent (exn_text e) ''command_error'') Done))"

section \<open>The worker\<close>

text \<open>The body of \<^verbatim>\<open>run\<close>, without its \<^verbatim>\<open>finally\<close>.\<close>

definition setup_body :: setup_prog where
  "setup_body =
     catch
       (Do (\<lambda>s. s\<lparr>sw_state := W_RUNNING\<rparr>)
         (andthen connect_bus (andthen run_voltage_check (andthen run_motor_probe (Gather Done)))))
       (\<lambda>e. Do (\<lambda>s. s\<lparr>sw_state := W_ERROR, sw_error_message := Some (exn_text e)\<rparr>)
              (Send (ErrorEvent (exn_text e) (classify_error e)) Done))"

definition cleanup_bus :: "setup_prog \<Rightarrow> setup_prog" where
  "cleanup_bus p =
     Ask (\<lambda>s. if sw_bus s then
         Acquire (Call DisconnectBus (\<lambda>r. Release
           (case r of
              Inl e \<Rightarrow> Call ClosePort (\<lambda>_. Do (\<lambda>s. s\<lparr>sw_bus := False\<rparr>) p)
            | Inr a \<Rightarrow> Do (\<lambda>s. s\<lparr>sw_bus := False\<rparr>) p)))
       else p)"

text \<open>\<^verbatim>\<open>TransportWorker.shutdown\<close>.\<close>

definition shutdown_worker :: setup_prog where
  "shutdown_worker =
     Do (\<lambda>s. s\<lparr>sw_state := SHUTTING_DOWN, sw_stop_requested := True\<rparr>)
       (Call CloseTransport (\<lambda>_. Do (\<lambda>s. s\<lparr>sw_state := W_STOPPED\<rparr>) Done))"

definition setup_code :: "(setup_worker, bus_call, bus_value, setup_event, setup_exn, setup_command) worker_code" where
  "setup_code = \<lparr>wc_body = setup_body, wc_cleanup = cleanup_bus shutdown_worker, wc_dispatch = setup_command_turn,
     wc_tick = broadcast_turn, wc_fits = bus_fits, wc_shielded = False\<rparr>"

text \<open>A session as the endpoint starts it (\<^verbatim>\<open>api/robot_setup.py\<close>); \<open>None\<close> where it is refused.\<close>

definition robot_setup_websocket :: "string \<Rightarrow> string option \<Rightarrow> string option
    \<Rightarrow> (setup_worker, bus_call, bus_value, setup_event, setup_exn) event_loop option" where
  "robot_setup_websocket robot_type serial_number connection_string =
     (if robot_type \<notin> {''SO101_Follower'', ''SO101_Leader''} then None
      else if serial_number \<in> {None, Some []} \<and> connection_string \<in> {None, Some []} then None
      else Some (start_worker setup_code (new_setup_worker robot_type
        \<lparr>sp_serial_number = serial_number, sp_connection_string = connection_string\<rparr>)))"

type_synonym setup_loop = "(setup_worker, bus_call, bus_value, setup_event, setup_exn) event_loop"

definition setup_run :: "string \<Rightarrow> SerialPortInfo \<Rightarrow> (bus_value, setup_exn, setup_command) loop_event list \<Rightarrow> setup_loop" where
  "setup_run robot_type serial_port es =
     foldl (loop_step setup_code) (start_worker setup_code (new_setup_worker robot_type serial_port)) es"

end
