(* ===== verification/CoroutineRely.thy ===== *)
theory CoroutineRely
  imports Coroutine "HOL-Library.Sublist"
begin

text \<open>
  What the coroutines of a worker may assume of each other. A \<^emph>\<open>view\<close> is the state of the worker with the log.
  At every point where a task waits the invariant holds; while it waits the view changes as its rely allows; from
  one waiting point to the next it changes the view as its guarantee says.
\<close>

type_synonym ('s, 'c, 'a, 'e, 'x) view = "'s \<times> ('c, 'a, 'e, 'x) log_entry list"

record ('s, 'c, 'a, 'e, 'x) contract =
  ct_rely :: "('s, 'c, 'a, 'e, 'x) view \<Rightarrow> ('s, 'c, 'a, 'e, 'x) view \<Rightarrow> bool"
  ct_inv :: "('s, 'c, 'a, 'e, 'x) view \<Rightarrow> bool"
  ct_guarantee :: "('s, 'c, 'a, 'e, 'x) view \<Rightarrow> ('s, 'c, 'a, 'e, 'x) view \<Rightarrow> bool"
  ct_fits :: "'c \<Rightarrow> 'x + 'a \<Rightarrow> bool"

definition parks :: "('s, 'c, 'a, 'e, 'x) contract \<Rightarrow> ('s, 'c, 'a, 'e, 'x) view \<Rightarrow> ('s, 'c, 'a, 'e, 'x) view \<Rightarrow> bool" where
  "parks C v0 v \<longleftrightarrow> ct_inv C v \<and> ct_guarantee C v0 v"

text \<open>\<open>keeps C Q p v0 v\<close>: run from \<open>v\<close>, having started at \<open>v0\<close>, the program keeps the contract, and where it ends \<open>Q\<close> holds.\<close>

primrec keeps :: "('s, 'c, 'a, 'e, 'x) contract
    \<Rightarrow> ('x option \<Rightarrow> ('s, 'c, 'a, 'e, 'x) view \<Rightarrow> ('s, 'c, 'a, 'e, 'x) view \<Rightarrow> bool)
    \<Rightarrow> ('s, 'c, 'a, 'e, 'x) prog \<Rightarrow> ('s, 'c, 'a, 'e, 'x) view \<Rightarrow> ('s, 'c, 'a, 'e, 'x) view \<Rightarrow> bool" where
  "keeps C Q Done = (\<lambda>v0 v. Q None v0 v)"
| "keeps C Q (Raise x) = (\<lambda>v0 v. Q (Some x) v0 v)"
| "keeps C Q (Do f p) = (\<lambda>v0 v. keeps C Q p v0 (f (fst v), snd v))"
| "keeps C Q (Ask f) = (\<lambda>v0 v. keeps C Q (f (fst v)) v0 v)"
| "keeps C Q (Release p) = (\<lambda>v0 v. keeps C Q p v0 v)"
| "keeps C Q (Acquire p) = (\<lambda>v0 v. parks C v0 v \<and> keeps C Q p v0 v
     \<and> (\<forall>v'. ct_rely C v v' \<and> ct_inv C v' \<longrightarrow> keeps C Q p v' v'))"
| "keeps C Q (Send e p) = (\<lambda>v0 v. parks C v0 (fst v, snd v @ [Sends e])
     \<and> (\<forall>v'. ct_rely C (fst v, snd v @ [Sends e]) v' \<and> ct_inv C v' \<longrightarrow> keeps C Q p v' v'))"
| "keeps C Q (Call c k) = (\<lambda>v0 v. parks C v0 (fst v, snd v @ [Starts c])
     \<and> (\<forall>v' r. ct_rely C (fst v, snd v @ [Starts c]) v' \<and> ct_inv C v' \<and> ct_fits C c r
          \<longrightarrow> keeps C Q (k r) v' (fst v', snd v' @ [Ends c r])))"
| "keeps C Q (Gather p) = (\<lambda>v0 v. parks C v0 v \<and> (\<forall>v'. ct_rely C v v' \<and> ct_inv C v' \<longrightarrow> keeps C Q p v' v'))"

lemma keeps_CallI:
  assumes "parks C v0 (fst v, snd v @ [Starts c])"
    and "\<And>v' r. ct_rely C (fst v, snd v @ [Starts c]) v' \<Longrightarrow> ct_inv C v' \<Longrightarrow> ct_fits C c r
      \<Longrightarrow> keeps C Q (k r) v' (fst v', snd v' @ [Ends c r])"
  shows "keeps C Q (Call c k) v0 v"
  using assms unfolding keeps.simps by blast

lemma keeps_AcquireI:
  assumes "parks C v0 v" "keeps C Q p v0 v" "\<And>v'. ct_rely C v v' \<Longrightarrow> ct_inv C v' \<Longrightarrow> keeps C Q p v' v'"
  shows "keeps C Q (Acquire p) v0 v"
  using assms unfolding keeps.simps by blast

lemma keeps_weaken:
  "keeps C Q p v0 v \<Longrightarrow> (\<And>x v0 v. Q x v0 v \<Longrightarrow> Q' x v0 v) \<Longrightarrow> keeps C Q' p v0 v"
  by (induction p arbitrary: v0 v) auto

text \<open>A condition on what comes after a program.\<close>

definition then_keeps :: "('s, 'c, 'a, 'e, 'x) contract
    \<Rightarrow> ('x option \<Rightarrow> ('s, 'c, 'a, 'e, 'x) view \<Rightarrow> ('s, 'c, 'a, 'e, 'x) view \<Rightarrow> bool)
    \<Rightarrow> ('s, 'c, 'a, 'e, 'x) prog \<Rightarrow> 'x option \<Rightarrow> ('s, 'c, 'a, 'e, 'x) view \<Rightarrow> ('s, 'c, 'a, 'e, 'x) view \<Rightarrow> bool" where
  "then_keeps C Q q x = (case x of None \<Rightarrow> keeps C Q q | Some e \<Rightarrow> Q (Some e))"

lemma then_keeps_simps [simp]: "then_keeps C Q q None = keeps C Q q" "then_keeps C Q q (Some e) = Q (Some e)"
  by (simp_all add: then_keeps_def)

definition or_keeps :: "('s, 'c, 'a, 'e, 'x) contract
    \<Rightarrow> ('x option \<Rightarrow> ('s, 'c, 'a, 'e, 'x) view \<Rightarrow> ('s, 'c, 'a, 'e, 'x) view \<Rightarrow> bool)
    \<Rightarrow> ('x \<Rightarrow> ('s, 'c, 'a, 'e, 'x) prog) \<Rightarrow> 'x option \<Rightarrow> ('s, 'c, 'a, 'e, 'x) view \<Rightarrow> ('s, 'c, 'a, 'e, 'x) view \<Rightarrow> bool" where
  "or_keeps C Q h x = (case x of None \<Rightarrow> Q None | Some e \<Rightarrow> keeps C Q (h e))"

lemma or_keeps_simps [simp]: "or_keeps C Q h None = Q None" "or_keeps C Q h (Some e) = keeps C Q (h e)"
  by (simp_all add: or_keeps_def)

lemma keeps_andthen: "keeps C Q (andthen p q) = keeps C (then_keeps C Q q) p"
  by (induction p) (auto simp: fun_eq_iff)

lemma keeps_catch: "keeps C Q (catch p h) = keeps C (or_keeps C Q h) p"
  by (induction p) (auto simp: fun_eq_iff)

text \<open>The view of a state of the loop, and a task that waits within its contract.\<close>

definition view_of :: "('s, 'c, 'a, 'e, 'x) event_loop \<Rightarrow> ('s, 'c, 'a, 'e, 'x) view" where
  "view_of w = (el_self w, el_log w)"

definition continues :: "('s, 'c, 'a, 'e, 'x) contract \<Rightarrow> ('x option \<Rightarrow> ('s, 'c, 'a, 'e, 'x) view \<Rightarrow> ('s, 'c, 'a, 'e, 'x) view \<Rightarrow> bool)
    \<Rightarrow> ('s, 'c, 'a, 'e, 'x) prog \<Rightarrow> ('s, 'c, 'a, 'e, 'x) view \<Rightarrow> bool" where
  "continues C Q p v =
     (case p of
        Acquire p' \<Rightarrow> keeps C Q p' v v
      | Send e p' \<Rightarrow> keeps C Q p' v v
      | Gather p' \<Rightarrow> keeps C Q p' v v
      | Call c k \<Rightarrow> \<forall>r. ct_fits C c r \<longrightarrow> keeps C Q (k r) v (fst v, snd v @ [Ends c r])
      | _ \<Rightarrow> False)"

lemma continues_simps [simp]:
  "continues C Q (Acquire p) v = keeps C Q p v v" "continues C Q (Send e p) v = keeps C Q p v v"
  "continues C Q (Gather p) v = keeps C Q p v v"
  "continues C Q (Call c k) v = (\<forall>r. ct_fits C c r \<longrightarrow> keeps C Q (k r) v (fst v, snd v @ [Ends c r]))"
  by (simp_all add: continues_def)

definition parked :: "('s, 'c, 'a, 'e, 'x) contract \<Rightarrow> ('x option \<Rightarrow> ('s, 'c, 'a, 'e, 'x) view \<Rightarrow> ('s, 'c, 'a, 'e, 'x) view \<Rightarrow> bool)
    \<Rightarrow> ('s, 'c, 'a, 'e, 'x) prog \<Rightarrow> ('s, 'c, 'a, 'e, 'x) view \<Rightarrow> bool" where
  "parked C Q p v \<longleftrightarrow> (\<forall>v'. ct_rely C v v' \<and> ct_inv C v' \<longrightarrow> continues C Q p v')"

lemma settle_view:
  assumes "keeps C Q p v0 (view_of w)" "\<And>x v. Q x v0 v \<Longrightarrow> parks C v0 v"
  shows "parks C v0 (view_of (settle p t w))"
    and "el_at (settle p t w) t = Some q \<Longrightarrow> parked C Q q (view_of (settle p t w))"
    and "el_at (settle p t w) t = None \<Longrightarrow> \<exists>x. Q x v0 (view_of (settle p t w))"
proof -
  have "parks C v0 (view_of (settle p t w))
      \<and> (case el_at (settle p t w) t of Some q \<Rightarrow> parked C Q q (view_of (settle p t w))
         | None \<Rightarrow> \<exists>x. Q x v0 (view_of (settle p t w)))"
    using assms(1)
  proof (induction p arbitrary: w)
    case Done
    then show ?case using assms(2) by (auto simp: view_of_def)
  next
    case (Raise x)
    then show ?case using assms(2) by (auto simp: view_of_def)
  next
    case (Do f p)
    show ?case using Do.IH [of "w\<lparr>el_self := f (el_self w)\<rparr>"] Do.prems by (simp add: view_of_def cong: option.case_cong)
  next
    case (Ask f)
    then show ?case by (simp add: view_of_def cong: option.case_cong)
  next
    case (Acquire p)
    show ?case using Acquire.IH [of "w\<lparr>el_lock := Some t\<rparr>"] Acquire.prems
      by (simp add: view_of_def parked_def cong: option.case_cong)
  next
    case (Release p)
    show ?case using Release.IH [of "w\<lparr>el_lock := None\<rparr>"] Release.prems by (simp add: view_of_def cong: option.case_cong)
  next
    case (Send e p)
    then show ?case by (simp add: view_of_def parked_def)
  next
    case (Call c k)
    then show ?case by (simp add: view_of_def parked_def)
  next
    case (Gather p)
    then show ?case by (simp add: view_of_def parked_def)
  qed
  then show "parks C v0 (view_of (settle p t w))"
    and "el_at (settle p t w) t = Some q \<Longrightarrow> parked C Q q (view_of (settle p t w))"
    and "el_at (settle p t w) t = None \<Longrightarrow> \<exists>x. Q x v0 (view_of (settle p t w))"
    by auto
qed

lemma parked_rely: "parked C Q p v \<Longrightarrow> ct_rely C v v' \<Longrightarrow> (\<And>u. ct_rely C v' u \<Longrightarrow> ct_rely C v u) \<Longrightarrow> parked C Q p v'"
  by (auto simp: parked_def)

text \<open>
  The contract of a worker of which each task keeps its part: what a task guarantees the others may rely on. A worker
  whose calls are serial and whose programs keep the contracts has its invariant in every reachable state.
\<close>

locale rely_guarantee = serial_worker code serial
  for code :: "('s, 'c, 'a, 'e, 'x, 'm) worker_code" and serial :: "'c \<Rightarrow> bool" +
  fixes ct :: "loop_task \<Rightarrow> ('s, 'c, 'a, 'e, 'x) contract"
    and vinv :: "('s, 'c, 'a, 'e, 'x) view \<Rightarrow> bool"
    and init :: "'s \<Rightarrow> bool"
  assumes inv_same: "ct_inv (ct t) = vinv"
    and fits_same: "ct_fits (ct t) = answer_fits code"
    and rely_refl: "ct_rely (ct t) v v"
    and rely_trans: "ct_rely (ct t) u v \<Longrightarrow> ct_rely (ct t) v v' \<Longrightarrow> ct_rely (ct t) u v'"
    and guarantee_rely: "t \<noteq> MAIN \<Longrightarrow> t' \<noteq> t \<Longrightarrow> ct_guarantee (ct t) u v \<Longrightarrow> ct_rely (ct t') u v"
    and lost_inv: "vinv (s, l) \<Longrightarrow> vinv (s, l @ [Lost c r])"
    and lost_rely: "ct_rely (ct MAIN) (s, l) (s, l @ [Lost c r])"
    and body_keeps: "init s \<Longrightarrow> keeps (ct MAIN) (\<lambda>x. parks (ct MAIN)) (wc_body code) (s, []) (s, [])"
    and cleanup_keeps: "vinv v \<Longrightarrow> keeps (ct MAIN) (\<lambda>x. parks (ct MAIN)) (wc_cleanup code) v v"
    and dispatch_keeps: "vinv v \<Longrightarrow> keeps (ct COMMANDS) (\<lambda>x. parks (ct COMMANDS)) (wc_dispatch code m) v v"
    and tick_keeps: "vinv v \<Longrightarrow> keeps (ct BROADCAST) (\<lambda>x. parks (ct BROADCAST)) (wc_tick code) v v"
begin

definition tasks_parked :: "('s, 'c, 'a, 'e, 'x) event_loop \<Rightarrow> bool" where
  "tasks_parked w \<longleftrightarrow> (\<forall>t p. el_at w t = Some p \<longrightarrow> parked (ct t) (\<lambda>x. parks (ct t)) p (view_of w))"

definition loop_inv :: "('s, 'c, 'a, 'e, 'x) event_loop \<Rightarrow> bool" where
  "loop_inv w \<longleftrightarrow> serialized serial w \<and> vinv (view_of w) \<and> tasks_parked w"

lemma clean_up_inv:
  assumes "vinv (view_of w)" "\<And>t. el_at w t = None"
  shows "vinv (view_of (clean_up code w)) \<and> tasks_parked (clean_up code w)"
proof -
  let ?w = "w\<lparr>el_stage := Cleaning\<rparr>" let ?w' = "settle (wc_cleanup code) MAIN ?w"
  have v: "view_of ?w = view_of w" by (simp add: view_of_def)
  have k: "keeps (ct MAIN) (\<lambda>x. parks (ct MAIN)) (wc_cleanup code) (view_of w) (view_of ?w)"
    unfolding v using assms(1) by (rule cleanup_keeps)
  note s = settle_view [OF k]
  have i: "vinv (view_of ?w')" using s(1) [of MAIN] by (simp add: parks_def inv_same)
  have "parked (ct t) (\<lambda>x. parks (ct t)) p (view_of ?w')" if "el_at ?w' t = Some p" for t p
    using s(2) that assms(2) by (cases "t = MAIN") auto
  then have "tasks_parked ?w'" by (simp add: tasks_parked_def)
  then show ?thesis using i by (auto simp: clean_up_def Let_def tasks_parked_def view_of_def)
qed

lemma resume_inv:
  assumes k: "keeps (ct t) (\<lambda>x. parks (ct t)) p v0 (view_of w)"
    and others: "\<And>t' q. t' \<noteq> t \<Longrightarrow> el_at w t' = Some q \<Longrightarrow> parked (ct t') (\<lambda>x. parks (ct t')) q v0"
    and main: "t = MAIN \<Longrightarrow> el_at w COMMANDS = None \<and> el_at w BROADCAST = None"
  shows "vinv (view_of (resume code t p w)) \<and> tasks_parked (resume code t p w)"
proof -
  let ?w' = "settle p t w"
  note s = settle_view [OF k]
  have i: "vinv (view_of ?w')" and g: "ct_guarantee (ct t) v0 (view_of ?w')"
    using s(1) [of t] by (simp_all add: parks_def inv_same)
  have at: "el_at w t' = None" if "t = MAIN" "t' \<noteq> MAIN" for t' using main that by (cases t') auto
  have tp: "tasks_parked ?w'" unfolding tasks_parked_def
  proof (intro allI impI)
    fix t' q assume q: "el_at ?w' t' = Some q"
    show "parked (ct t') (\<lambda>x. parks (ct t')) q (view_of ?w')"
    proof (cases "t' = t")
      case True
      then show ?thesis using s(2) q by blast
    next
      case False
      then have q': "el_at w t' = Some q" using q by simp
      then have "t \<noteq> MAIN" using at False by force
      then have "ct_rely (ct t') v0 (view_of ?w')" using guarantee_rely False g by blast
      then show ?thesis using parked_rely others [OF False q'] rely_trans by blast
    qed
  qed
  show ?thesis
  proof (cases "t = MAIN \<and> el_at ?w' MAIN = None")
    case True
    then have none: "el_at ?w' t' = None" for t' using at by (cases "t' = MAIN") auto
    have "tasks_parked (?w'\<lparr>el_stage := Ended\<rparr>)" using none by (simp add: tasks_parked_def)
    then show ?thesis using clean_up_inv [OF i none] i tp True by (simp add: resume_def Let_def view_of_def)
  next
    case False
    then show ?thesis using i tp by (auto simp: resume_def Let_def)
  qed
qed

lemma loop_invD:
  assumes "loop_inv w"
  shows "serialized serial w" "vinv (view_of w)" "el_at w t = Some p \<Longrightarrow> parked (ct t) (\<lambda>x. parks (ct t)) p (view_of w)"
  using assms by (auto simp: loop_inv_def tasks_parked_def)

lemma parked_now: "parked (ct t) Q p v \<Longrightarrow> vinv v \<Longrightarrow> continues (ct t) Q p v"
  using rely_refl [of t v] inv_same [of t] unfolding parked_def by (metis (mono_tags))

lemma main_alone:
  assumes "serialized serial w" "el_at w MAIN = Some p" "\<forall>q. p \<noteq> Gather q"
  shows "el_at w COMMANDS = None \<and> el_at w BROADCAST = None"
  using serializedD(2) [OF assms(1)] serializedD(3) [OF assms(1)] assms(2,3) by (metis loop_task.distinct(1,3) option.inject)

definition good_view :: "('s, 'c, 'a, 'e, 'x) event_loop \<Rightarrow> bool" where
  "good_view w \<longleftrightarrow> vinv (view_of w) \<and> tasks_parked w"

lemma good_resume:
  assumes w: "loop_inv w" and at: "el_at w t = Some q" "\<forall>r. q \<noteq> Gather r" "el_at w' = el_at w"
    and k: "keeps (ct t) (\<lambda>x. parks (ct t)) p (view_of w) (view_of w')"
  shows "good_view (resume code t p w')"
  unfolding good_view_def
proof (rule resume_inv [OF k])
  show "parked (ct t') (\<lambda>x. parks (ct t')) r (view_of w)" if "el_at w' t' = Some r" for t' r
    using loop_invD(3) [OF w] that at(3) by simp
  show "el_at w' COMMANDS = None \<and> el_at w' BROADCAST = None" if "t = MAIN"
    using main_alone [OF loop_invD(1) [OF w] _ at(2)] at that by simp
qed

lemma good_started:
  assumes w: "loop_inv w" and t: "t \<noteq> MAIN" and k: "keeps (ct t) (\<lambda>x. parks (ct t)) p (view_of w) (view_of w)"
  shows "good_view (resume code t p w)"
  unfolding good_view_def by (rule resume_inv [OF k]) (use loop_invD(3) [OF w] t in auto)

lemma good_Granted:
  assumes "loop_inv w" "el_at w t = Some (Acquire p)"
  shows "good_view (resume code t p (w\<lparr>el_lock := Some t\<rparr>))"
  using parked_now [OF loop_invD(3) [OF assms] loop_invD(2) [OF assms(1)]]
  by (intro good_resume [OF assms]) (simp_all add: view_of_def)

lemma good_Delivered:
  assumes "loop_inv w" "el_at w t = Some (Send e p)"
  shows "good_view (resume code t p w)"
  using parked_now [OF loop_invD(3) [OF assms] loop_invD(2) [OF assms(1)]]
  by (intro good_resume [OF assms]) simp_all

lemma loop_inv_good: "loop_inv w \<Longrightarrow> good_view w"
  by (simp add: loop_inv_def good_view_def)

lemma good_Answered:
  assumes "loop_inv w" "el_at w t = Some (Call c k)"
  shows "good_view (answered code t r c k w)"
proof (cases "answer_fits code c r")
  case True
  then have "keeps (ct t) (\<lambda>x. parks (ct t)) (k r) (view_of w) (fst (view_of w), snd (view_of w) @ [Ends c r])"
    using parked_now [OF loop_invD(3) [OF assms] loop_invD(2) [OF assms(1)]] by (simp add: fits_same)
  then have "good_view (resume code t (k r) (w\<lparr>el_threads := remove1 (Some t, c) (el_threads w), el_log := el_log w @ [Ends c r]\<rparr>))"
    by (intro good_resume [OF assms]) (simp_all add: view_of_def)
  then show ?thesis using True by (simp add: answered_def)
next
  case False
  then show ?thesis using loop_inv_good [OF assms(1)] by (simp add: answered_def)
qed

lemma good_Lost:
  assumes w: "loop_inv w" and n: "n < length (el_threads w)" "fst (el_threads w ! n) = None"
  shows "good_view (w\<lparr>el_threads := ts, el_log := el_log w @ [Lost c r]\<rparr>)"
proof -
  let ?w = "w\<lparr>el_threads := ts, el_log := el_log w @ [Lost c r]\<rparr>"
  note d = loop_invD [OF w]
  have "el_threads w ! n \<in> set (orphans w)" using n by (auto simp: orphans_def)
  then have "orphans w \<noteq> []" by auto
  then have "el_stage w \<noteq> Together" using serializedD(4) [OF d(1)] by auto
  then have none: "t \<noteq> MAIN \<Longrightarrow> el_at w t = None" for t using serializedD(3) [OF d(1)] by blast
  have r: "ct_rely (ct MAIN) (view_of w) (view_of ?w)" by (simp add: view_of_def lost_rely)
  have "parked (ct t) (\<lambda>x. parks (ct t)) p (view_of ?w)" if "el_at ?w t = Some p" for t p
  proof -
    have "t = MAIN" using none that by force
    then have "parked (ct MAIN) (\<lambda>x. parks (ct MAIN)) p (view_of w)" using d(3) that by simp
    then have "parked (ct MAIN) (\<lambda>x. parks (ct MAIN)) p (view_of ?w)" using parked_rely [OF _ r] rely_trans [OF r] by blast
    then show ?thesis using \<open>t = MAIN\<close> by simp
  qed
  moreover have "vinv (view_of ?w)" using lost_inv d(2) by (simp add: view_of_def)
  ultimately show ?thesis by (simp add: good_view_def tasks_parked_def)
qed

lemma good_ReceiveFails:
  assumes w: "loop_inv w" and at: "el_at w MAIN = Some (Gather p)" "el_at w COMMANDS = None"
  shows "good_view (resume code MAIN p (cancel_task BROADCAST w))"
proof -
  have "keeps (ct MAIN) (\<lambda>x. parks (ct MAIN)) p (view_of w) (view_of (cancel_task BROADCAST w))"
    using parked_now [OF loop_invD(3) [OF w at(1)] loop_invD(2) [OF w]] by (simp add: view_of_def cancel_task_def)
  then show ?thesis unfolding good_view_def
    by (rule resume_inv) (use loop_invD(3) [OF w] at in \<open>auto split: if_splits\<close>)
qed

lemma good_Canceled:
  assumes w: "loop_inv w"
  shows "good_view (loop_step code w Canceled)"
proof -
  let ?w = "cancel_task MAIN (cancel_task COMMANDS (cancel_task BROADCAST w))"
  have v: "vinv (view_of ?w)" using loop_invD(2) [OF w] by (simp add: view_of_def cancel_task_def)
  have "good_view (?w\<lparr>el_stage := Ended\<rparr>)"
    using v cancel_all_none [of w] by (simp add: good_view_def tasks_parked_def view_of_def)
  then show ?thesis using clean_up_inv [OF v cancel_all_none] loop_inv_good [OF w] by (simp add: Let_def good_view_def)
qed

lemma good_step:
  assumes w: "loop_inv w"
  shows "good_view (loop_step code w e)"
proof (cases e)
  case (Granted t)
  then show ?thesis using good_Granted [OF w] loop_inv_good [OF w] by (simp split: option.splits prog.splits)
next
  case (Delivered t)
  then show ?thesis using good_Delivered [OF w] loop_inv_good [OF w] by (simp split: option.splits prog.splits)
next
  case (Answered t r)
  then show ?thesis using good_Answered [OF w] loop_inv_good [OF w] by (simp split: option.splits prog.splits)
next
  case (ThreadEnds n r)
  then show ?thesis using good_Lost [OF w, of n] loop_inv_good [OF w] by auto
next
  case (Received m)
  then show ?thesis using good_started [OF w _ dispatch_keeps [OF loop_invD(2) [OF w]]] loop_inv_good [OF w] by simp
next
  case ReceiveFails
  then show ?thesis using good_ReceiveFails [OF w] loop_inv_good [OF w] by (simp split: option.splits prog.splits)
next
  case Ticks
  then show ?thesis using good_started [OF w _ tick_keeps [OF loop_invD(2) [OF w]]] loop_inv_good [OF w] by simp
next
  case Canceled
  then show ?thesis using good_Canceled [OF w] by blast
qed

lemma step_inv: "loop_inv w \<Longrightarrow> loop_inv (loop_step code w e)"
  using good_step step_serialized loop_invD(1) by (auto simp: loop_inv_def good_view_def)

lemma start_inv: "init s \<Longrightarrow> loop_inv (start_worker code s)"
proof -
  assume "init s"
  then have "vinv (view_of (start_worker code s)) \<and> tasks_parked (start_worker code s)"
    unfolding start_worker_def using body_keeps by (intro resume_inv [of MAIN _ "(s, [])"]) (auto simp: view_of_def)
  then show ?thesis using start_serialized by (simp add: loop_inv_def)
qed

lemma run_inv:
  assumes "init s"
  shows "loop_inv (foldl (loop_step code) (start_worker code s) es)"
proof (induction es rule: rev_induct)
  case Nil
  then show ?case using start_inv [OF assms] by simp
qed (simp add: step_inv)

lemma run_view_inv: "init s \<Longrightarrow> vinv (view_of (foldl (loop_step code) (start_worker code s) es))"
  using loop_invD(2) [OF run_inv] .

end

definition extends :: "('s, 'c, 'a, 'e, 'x) view \<Rightarrow> ('s, 'c, 'a, 'e, 'x) view \<Rightarrow> bool" where
  "extends u v \<longleftrightarrow> prefix (snd u) (snd v)"

lemma extends_refl [simp]: "extends v v"
  by (simp add: extends_def)

lemma extends_trans: "extends u v \<Longrightarrow> extends v w \<Longrightarrow> extends u w"
  by (auto simp: extends_def)

lemma extends_snoc: "extends u (s, l) \<Longrightarrow> extends u (s', l @ [e])"
  by (simp add: extends_def)

lemma extends_self: "extends u (s, l) \<Longrightarrow> extends u (s', l)"
  by (simp add: extends_def)

text \<open>
  A task that may add anything. \<open>sound G p\<close>: from every view of the invariant whose log satisfies \<open>G\<close>, the
  program keeps the contract.
\<close>

locale appending =
  fixes C :: "('s, 'c, 'a, 'e, 'x) contract"
    and vinv :: "('s, 'c, 'a, 'e, 'x) view \<Rightarrow> bool"
    and code :: "('s, 'c, 'a, 'e, 'x, 'm) worker_code"
    and calm :: "('c, 'a, 'e, 'x) log_entry \<Rightarrow> bool"
  assumes inv_is [simp]: "ct_inv C = vinv"
    and guarantee_is [simp]: "ct_guarantee C = extends"
    and rely_extends: "ct_rely C u v \<Longrightarrow> extends u v"
    and fits_is [simp]: "ct_fits C = answer_fits code"
    and calm_vinv: "vinv (s, l) \<Longrightarrow> calm e \<Longrightarrow> vinv (s, l @ [e])"
begin

text \<open>A call of which neither the start nor the answer counts.\<close>

definition quiet_call :: "'c \<Rightarrow> bool" where
  "quiet_call c \<longleftrightarrow> calm (Starts c) \<and> (\<forall>r. calm (Ends c r))"

definition sound :: "(('c, 'a, 'e, 'x) log_entry list \<Rightarrow> bool) \<Rightarrow> ('s, 'c, 'a, 'e, 'x) prog \<Rightarrow> bool" where
  "sound G p \<longleftrightarrow> (\<forall>v0 v. vinv v \<and> G (snd v) \<and> extends v0 v \<longrightarrow> keeps C (\<lambda>x. parks C) p v0 v)"

definition lasting :: "(('c, 'a, 'e, 'x) log_entry list \<Rightarrow> bool) \<Rightarrow> bool" where
  "lasting G \<longleftrightarrow> (\<forall>l xs. G l \<longrightarrow> G (l @ xs))"

lemma parks_iff [simp]: "parks C v0 v \<longleftrightarrow> vinv v \<and> extends v0 v"
  by (simp add: parks_def)

lemma soundD: "sound G p \<Longrightarrow> vinv v \<Longrightarrow> G (snd v) \<Longrightarrow> extends v0 v \<Longrightarrow> keeps C (\<lambda>x. parks C) p v0 v"
  unfolding sound_def by blast

lemma lasting_rely: "lasting G \<Longrightarrow> G (snd u) \<Longrightarrow> ct_rely C u v \<Longrightarrow> G (snd v)"
proof -
  assume a: "lasting G" "G (snd u)" "ct_rely C u v"
  then obtain xs where "snd v = snd u @ xs" using rely_extends unfolding extends_def prefix_def by blast
  then show ?thesis using a by (simp add: lasting_def)
qed

lemma sound_weaken: "sound G p \<Longrightarrow> (\<And>l. G' l \<Longrightarrow> G l) \<Longrightarrow> sound G' p"
  by (simp add: sound_def)

lemma sound_ends: "sound G Done" "sound G (Raise x)"
  by (simp_all add: sound_def)

lemma sound_Do:
  assumes "\<And>s l. vinv (s, l) \<Longrightarrow> G l \<Longrightarrow> vinv (f s, l)" "sound G p"
  shows "sound G (Do f p)"
  unfolding sound_def
proof (intro allI impI)
  fix v0 v assume a: "vinv v \<and> G (snd v) \<and> extends v0 v"
  obtain s l where v: "v = (s, l)" by (cases v)
  then show "keeps C (\<lambda>x. parks C) (Do f p) v0 v"
    using soundD [OF assms(2), of "(f s, l)" v0] assms(1) [of s l] a extends_self [of v0 s l "f s"] by simp
qed

lemma sound_Ask: "(\<And>s l. vinv (s, l) \<Longrightarrow> G l \<Longrightarrow> sound G (f s)) \<Longrightarrow> sound G (Ask f)"
  by (auto simp: sound_def)

lemma sound_Release: "sound G p \<Longrightarrow> sound G (Release p)"
  by (simp add: sound_def)

lemma sound_Acquire:
  assumes "lasting G" "sound G p"
  shows "sound G (Acquire p)"
  unfolding sound_def
proof (intro allI impI)
  fix v0 v assume a: "vinv v \<and> G (snd v) \<and> extends v0 v"
  have "keeps C (\<lambda>x. parks C) p v' v'" if "ct_rely C v v'" "vinv v'" for v'
    using soundD [OF assms(2) that(2) _ extends_refl] lasting_rely [OF assms(1) _ that(1)] a by blast
  then show "keeps C (\<lambda>x. parks C) (Acquire p) v0 v"
    using soundD [OF assms(2)] a unfolding keeps.simps parks_iff inv_is by blast
qed

lemma sound_Gather:
  assumes "lasting G" "sound G p"
  shows "sound G (Gather p)"
  unfolding sound_def
proof (intro allI impI)
  fix v0 v assume a: "vinv v \<and> G (snd v) \<and> extends v0 v"
  have "keeps C (\<lambda>x. parks C) p v' v'" if "ct_rely C v v'" "vinv v'" for v'
    using soundD [OF assms(2) that(2) _ extends_refl] lasting_rely [OF assms(1) _ that(1)] a by blast
  then show "keeps C (\<lambda>x. parks C) (Gather p) v0 v"
    using soundD [OF assms(2)] a unfolding keeps.simps parks_iff inv_is by blast
qed

lemma sound_Send_if:
  assumes "calm (Sends m)" "lasting G" "sound G p"
  shows "sound G (Send m p)"
  unfolding sound_def
proof (intro allI impI)
  fix v0 v assume a: "vinv v \<and> G (snd v) \<and> extends v0 v"
  obtain s l where v: "v = (s, l)" by (cases v)
  have i: "vinv (s, l @ [Sends m])" using a v calm_vinv assms(1) by blast
  have g: "G (l @ [Sends m])" using a v assms(2) by (simp add: lasting_def)
  have "keeps C (\<lambda>x. parks C) p v' v'" if "ct_rely C (s, l @ [Sends m]) v'" "vinv v'" for v'
    using soundD [OF assms(3) that(2)] lasting_rely [OF assms(2) _ that(1)] g by simp
  then show "keeps C (\<lambda>x. parks C) (Send m p) v0 v" using i a v extends_snoc [of v0 s l s "Sends m"]
    unfolding keeps.simps parks_iff inv_is fst_conv snd_conv by auto
qed

text \<open>A call, with what its answer adds to the log: either nothing that counts, or the rest accounts for it.\<close>

lemma sound_Call_any:
  assumes G: "lasting G" and c: "calm (Starts c)"
    and k: "\<And>r s l v0. answer_fits code c r \<Longrightarrow> vinv (s, l) \<Longrightarrow> G l \<Longrightarrow> extends v0 (s, l @ [Ends c r])
        \<Longrightarrow> keeps C (\<lambda>x. parks C) (k r) v0 (s, l @ [Ends c r])"
  shows "sound G (Call c k)"
  unfolding sound_def
proof (intro allI impI)
  fix v0 v assume a: "vinv v \<and> G (snd v) \<and> extends v0 v"
  obtain s l where v: "v = (s, l)" by (cases v)
  have i: "vinv (s, l @ [Starts c])" using a v calm_vinv c by blast
  have g: "G (l @ [Starts c])" using a v G by (simp add: lasting_def)
  have "keeps C (\<lambda>x. parks C) (k r) v' (fst v', snd v' @ [Ends c r])"
    if "ct_rely C (s, l @ [Starts c]) v'" "vinv v'" "answer_fits code c r" for v' r
    using k [of r "fst v'" "snd v'" v'] that lasting_rely [OF G _ that(1)] g extends_snoc [of v' "fst v'" "snd v'" "fst v'"] by simp
  then show "keeps C (\<lambda>x. parks C) (Call c k) v0 v" using i a v extends_snoc [of v0 s l s "Starts c"]
    unfolding keeps.simps parks_iff inv_is fits_is fst_conv snd_conv by auto
qed

lemma sound_Call_log:
  assumes "lasting G" "quiet_call c" "\<And>r. answer_fits code c r \<Longrightarrow> sound (P r) (k r)"
    "\<And>r l. G l \<Longrightarrow> P r (l @ [Ends c r])"
  shows "sound G (Call c k)"
proof (rule sound_Call_any)
  fix r s l v0 assume a: "answer_fits code c r" "vinv (s, l)" "G l" "extends v0 (s, l @ [Ends c r])"
  have "vinv (s, l @ [Ends c r])" using calm_vinv [OF a(2)] assms(2) by (simp add: quiet_call_def)
  then show "keeps C (\<lambda>x. parks C) (k r) v0 (s, l @ [Ends c r])"
    using soundD [OF assms(3) [OF a(1)]] a assms(4) by simp
qed (use assms in \<open>simp_all add: quiet_call_def\<close>)

lemma sound_Call:
  assumes "lasting G" "quiet_call c" "\<And>r. answer_fits code c r \<Longrightarrow> sound G (k r)"
  shows "sound G (Call c k)"
  using assms by (intro sound_Call_log [where P = "\<lambda>_. G"]) (auto simp: lasting_def)

lemma sound_Ask_at:
  assumes "\<And>s l v0. vinv (s, l) \<Longrightarrow> G l \<Longrightarrow> extends v0 (s, l) \<Longrightarrow> keeps C (\<lambda>x. parks C) (f s) v0 (s, l)"
  shows "sound G (Ask f)"
  unfolding sound_def
proof (intro allI impI)
  fix v0 v assume "vinv v \<and> G (snd v) \<and> extends v0 v"
  then show "keeps C (\<lambda>x. parks C) (Ask f) v0 v" using assms [of "fst v" "snd v" v0] by simp
qed

lemma sound_locked_call:
  "lasting G \<Longrightarrow> quiet_call c \<Longrightarrow> (\<And>a. wc_fits code c a \<Longrightarrow> sound G (k a)) \<Longrightarrow> sound G (locked_call c k)"
  unfolding locked_call_def
  by (intro sound_Acquire sound_Call sound_Release) (auto simp: answer_fits_def sound_ends split: sum.splits)

lemma sound_call:
  "lasting G \<Longrightarrow> quiet_call c \<Longrightarrow> (\<And>a. wc_fits code c a \<Longrightarrow> sound G (k a)) \<Longrightarrow> sound G (call c k)"
  unfolding call_def by (intro sound_Call) (auto simp: answer_fits_def sound_ends split: sum.splits)

lemma sound_held_call:
  "lasting G \<Longrightarrow> quiet_call c \<Longrightarrow> (\<And>a. wc_fits code c a \<Longrightarrow> sound G (k a)) \<Longrightarrow> sound G (held_call c k)"
  unfolding held_call_def
  by (intro sound_Call) (auto simp: answer_fits_def sound_ends intro: sound_Release split: sum.splits)

lemma sound_held_calls: "lasting G \<Longrightarrow> list_all quiet_call cs \<Longrightarrow> sound G p \<Longrightarrow> sound G (held_calls cs p)"
  by (induction cs) (auto intro: sound_held_call)

lemma sound_andthen:
  assumes "sound G p" "sound (\<lambda>_. True) q"
  shows "sound G (andthen p q)"
  unfolding sound_def keeps_andthen
proof (intro allI impI)
  fix v0 v assume "vinv v \<and> G (snd v) \<and> extends v0 v"
  then have "keeps C (\<lambda>x. parks C) p v0 v" using soundD [OF assms(1)] by blast
  then show "keeps C (then_keeps C (\<lambda>x. parks C) q) p v0 v"
    by (rule keeps_weaken) (use soundD [OF assms(2)] in \<open>simp add: then_keeps_def split: option.splits\<close>)
qed

lemma sound_catch:
  assumes "sound G p" "\<And>x. sound (\<lambda>_. True) (h x)"
  shows "sound G (catch p h)"
  unfolding sound_def keeps_catch
proof (intro allI impI)
  fix v0 v assume "vinv v \<and> G (snd v) \<and> extends v0 v"
  then have "keeps C (\<lambda>x. parks C) p v0 v" using soundD [OF assms(1)] by blast
  then show "keeps C (or_keeps C (\<lambda>x. parks C) h) p v0 v"
    by (rule keeps_weaken) (use soundD [OF assms(2)] in \<open>simp add: or_keeps_def split: option.splits\<close>)
qed

lemma lasting_True [simp]: "lasting (\<lambda>_. True)"
  by (simp add: lasting_def)

end

end
