(* ===== verification/SetupWorkerProps.thy ===== *)
theory SetupWorkerProps
  imports SetupWorker CoroutineRely "HOL-Library.Sublist"
begin

text \<open>
  What the setup wizard keeps, however its commands, its stream and the bus interleave: calls of the bus are made one
  at a time, and a calibration that is written is what was measured.
\<close>

section \<open>One call of the bus at a time\<close>

definition serial_bus_call :: "bus_call \<Rightarrow> bool" where
  "serial_bus_call c = (case c of FindPort \<Rightarrow> False | HasCalibration \<Rightarrow> False | SetCalibration _ \<Rightarrow> False
     | ClosePort \<Rightarrow> False | CloseTransport \<Rightarrow> False | _ \<Rightarrow> True)"

lemma serial_bus_call_simps [simp]:
  "\<not> serial_bus_call FindPort" "\<not> serial_bus_call HasCalibration" "\<not> serial_bus_call (SetCalibration cal)"
  "\<not> serial_bus_call ClosePort" "\<not> serial_bus_call CloseTransport"
  by (simp_all add: serial_bus_call_def)

lemma guarded_parts [simp]:
  "guarded serial (send_phase_status m p) held \<longleftrightarrow> guarded serial p held"
  "guarded serial (in_phase ph p) held \<longleftrightarrow> guarded serial p held"
  "ungathered (send_phase_status m p) \<longleftrightarrow> ungathered p"
  "ungathered (in_phase ph p) \<longleftrightarrow> ungathered p"
  by (simp_all add: send_phase_status_def in_phase_def)

lemma all_bus: "(\<forall>s. P (sw_bus s)) \<longleftrightarrow> P True \<and> P False"
  by (metis (full_types) setup_worker.select_convs(7))

lemma guarded_require_bus [simp]: "guarded serial (require_bus p) False \<longleftrightarrow> guarded serial p False"
  using all_bus [of "\<lambda>b. guarded serial (if b then p else Raise (RuntimeExn ''Motor bus is not connected'')) False"]
  by (simp add: require_bus_def)

lemma ungathered_require_bus [simp]: "ungathered (require_bus p) \<longleftrightarrow> ungathered p"
  using all_bus [of "\<lambda>b. ungathered (if b then p else Raise (RuntimeExn ''Motor bus is not connected''))"]
  by (simp add: require_bus_def)

lemma guarded_read_voltages: "(\<And>rs. guarded serial (k rs) False) \<Longrightarrow> guarded serial (read_voltages ms rs k) False"
  by (induction ms arbitrary: rs) (auto simp: case_prod_beta)

lemma ungathered_read_voltages: "(\<And>rs. ungathered (k rs)) \<Longrightarrow> ungathered (read_voltages ms rs k)"
  by (induction ms arbitrary: rs) (auto simp: case_prod_beta)

lemma guarded_probe_motors: "(\<And>fs. guarded serial (k fs) False) \<Longrightarrow> guarded serial (probe_motors ms fs k) False"
  by (induction ms arbitrary: fs) auto

lemma ungathered_probe_motors: "(\<And>fs. ungathered (k fs)) \<Longrightarrow> ungathered (probe_motors ms fs k)"
  by (induction ms arbitrary: fs) auto

lemmas setup_programs = open_bus_def connect_bus_def run_voltage_check_def check_calibration_def report_probe_def
  run_motor_probe_def handle_motor_setup_def enter_calibration_def handle_start_homing_def begin_recording_def
  configure_motors_def enter_verification_def write_and_verify_def handle_stop_recording_def note_raw_def
  send_raw_positions_def broadcast_raw_positions_def broadcast_normalized_positions_def broadcast_tick_def

lemma guarded_voltage_check [simp]: "guarded serial run_voltage_check False" "ungathered run_voltage_check"
  by (auto simp: run_voltage_check_def Let_def intro!: guarded_read_voltages ungathered_read_voltages)

lemma guarded_motor_probe [simp]: "guarded serial run_motor_probe False" "ungathered run_motor_probe"
  by (auto simp: run_motor_probe_def check_calibration_def report_probe_def Let_def
      intro!: guarded_probe_motors ungathered_probe_motors)

lemma guarded_connect_bus [simp]: "guarded serial_bus_call connect_bus False" "ungathered connect_bus"
  by (auto simp: connect_bus_def open_bus_def intro!: prog_rules split: bus_value.splits option.splits)

lemma guarded_verification [simp]: "guarded serial_bus_call enter_verification False" "ungathered enter_verification"
  by (auto simp: enter_verification_def Let_def)

lemma guarded_configure [simp]:
  "guarded serial_bus_call p False \<Longrightarrow> guarded serial_bus_call (configure_motors p) False"
  "ungathered p \<Longrightarrow> ungathered (configure_motors p)"
  by (simp_all add: configure_motors_def)

lemma guarded_recordings [simp]:
  "guarded serial_bus_call handle_start_homing False" "ungathered handle_start_homing"
  "guarded serial_bus_call begin_recording False" "ungathered begin_recording"
  "guarded serial_bus_call handle_stop_recording False" "ungathered handle_stop_recording"
  by (auto simp: handle_start_homing_def begin_recording_def handle_stop_recording_def write_and_verify_def Let_def
      split: option.splits)

lemma guarded_setup_handlers [simp]:
  "guarded serial_bus_call (handle_motor_setup m) False" "ungathered (handle_motor_setup m)"
  "guarded serial_bus_call enter_calibration False" "ungathered enter_calibration"
  by (auto simp: handle_motor_setup_def enter_calibration_def intro!: prog_rules)

lemma guarded_tick [simp]: "guarded serial_bus_call broadcast_tick False" "ungathered broadcast_tick"
  by (auto simp: broadcast_tick_def broadcast_raw_positions_def broadcast_normalized_positions_def send_raw_positions_def
      note_raw_def split: SetupPhase.splits prod.splits)

lemma guarded_dispatch [simp]:
  "guarded serial_bus_call (dispatch_setup_command c m) False" "ungathered (dispatch_setup_command c m)"
  by (auto simp: dispatch_setup_command_def Let_def intro!: prog_rules)

lemma guarded_setup_body: "guarded serial_bus_call setup_body False"
  by (auto simp: setup_body_def intro!: prog_rules)

lemma guarded_cleanup: "guarded serial_bus_call (cleanup_bus shutdown_worker) False" "ungathered (cleanup_bus shutdown_worker)"
  by (auto simp: cleanup_bus_def shutdown_worker_def all_answers)

interpretation setup_serial: serial_worker setup_code serial_bus_call
  by unfold_locales
    (auto simp: setup_code_def setup_command_turn_def broadcast_turn_def guarded_setup_body guarded_cleanup
      intro!: prog_rules split: setup_command.splits)

text \<open>C15: however commands, ticks, answers and cancellations come, at most one call of the bus is under way for the tasks of
  a session; only a cancellation leaves another one running.\<close>

theorem bus_calls_one_at_a_time:
  "let w = setup_run robot_type port es
   in length (serial_calls serial_bus_call w) \<le> 1 \<and> (orphans w = [] \<or> el_stage w \<in> {Cleaning, Ended})"
proof -
  have s: "serialized serial_bus_call (setup_run robot_type port es)"
    unfolding setup_run_def by (rule setup_serial.run_serialized)
  show ?thesis using serialized_one_call [OF s] serializedD(4) [OF s] by (auto simp: Let_def)
qed

section \<open>What was measured\<close>

text \<open>What the answers of the bus say: the offsets of the last homing, and the positions of the recording since it began.\<close>

record measured =
  me_offsets :: "(string \<times> int) list option"
  me_samples :: "(string \<times> int) list list"

definition note_answer :: "bus_call \<Rightarrow> (string \<times> int) list \<Rightarrow> measured \<Rightarrow> measured" where
  "note_answer c ps m =
     (if c = SetHalfTurnHomings then m\<lparr>me_offsets := Some ps\<rparr>
      else if c = ReadPositions Seed then m\<lparr>me_samples := [ps]\<rparr>
      else if c = ReadPositions Track then m\<lparr>me_samples := me_samples m @ [ps]\<rparr>
      else m)"

definition note_entry :: "(bus_call, bus_value, setup_event, setup_exn) log_entry \<Rightarrow> measured \<Rightarrow> measured" where
  "note_entry e m = (case e of Ends c (Inr (Positions ps)) \<Rightarrow> note_answer c ps m | _ \<Rightarrow> m)"

lemma note_entry_simps [simp]:
  "note_entry (Starts c) m = m" "note_entry (Sends msg) m = m" "note_entry (Lost c r) m = m" "note_entry (Ends c (Inl x)) m = m"
  "note_entry (Ends c (Inr (Positions ps))) m = note_answer c ps m"
  by (simp_all add: note_entry_def)

type_synonym setup_log = "(bus_call, bus_value, setup_event, setup_exn) log_entry list"

definition measured_in :: "setup_log \<Rightarrow> measured" where
  "measured_in l = fold note_entry l \<lparr>me_offsets = None, me_samples = []\<rparr>"

definition positions_of :: "string \<Rightarrow> (string \<times> int) list list \<Rightarrow> int set" where
  "positions_of n samples = (\<lambda>ps. the (map_of ps n)) ` set samples"

definition calibration_from :: "(string \<times> int) list \<Rightarrow> (string \<times> int) list list \<Rightarrow> motor_calibrations" where
  "calibration_from offsets samples = map (\<lambda>(n, i). (n, \<lparr>mc_id = i, mc_drive_mode = 0, mc_homing_offset = the (map_of offsets n),
     mc_range_min = Min (positions_of n samples), mc_range_max = Max (positions_of n samples)\<rparr>)) MOTORS"

definition is_measured :: "motor_calibrations \<Rightarrow> setup_log \<Rightarrow> bool" where
  "is_measured cal l \<longleftrightarrow>
     (\<exists>offsets. me_offsets (measured_in l) = Some offsets \<and> cal = calibration_from offsets (me_samples (measured_in l)))
     \<and> me_samples (measured_in l) \<noteq> [] \<and> list_all (\<lambda>(n, mc). mc_range_min mc < mc_range_max mc) cal"

text \<open>The stream, which may go on while a calibration waits to be written.\<close>

definition viewing :: "(bus_call, bus_value, setup_event, setup_exn) log_entry \<Rightarrow> bool" where
  "viewing e = (case e of
       Starts c \<Rightarrow> c \<in> {ReadPositions Track, ReadPositions View, ReadNormalized}
     | Ends c r \<Rightarrow> c \<in> {ReadPositions Track, ReadPositions View, ReadNormalized}
     | Lost c r \<Rightarrow> False
     | Sends m \<Rightarrow> True)"

definition may_write_calibration :: "motor_calibrations \<Rightarrow> setup_log \<Rightarrow> bool" where
  "may_write_calibration cal l \<longleftrightarrow> (\<exists>us vs. l = us @ vs \<and> is_measured cal us \<and> list_all viewing vs)"

definition writes_measured :: "setup_log \<Rightarrow> bool" where
  "writes_measured l \<longleftrightarrow> (\<forall>xs cal ys. l = xs @ Starts (WriteCalibration cal) # ys \<longrightarrow> may_write_calibration cal xs)"




lemma measured_Nil [simp]: "measured_in [] = \<lparr>me_offsets = None, me_samples = []\<rparr>"
  by (simp add: measured_in_def)






lemma writes_measured_Nil [simp]: "writes_measured []"
  by (simp add: writes_measured_def)







section \<open>Contracts\<close>








section \<open>The programs keep the contract\<close>












section \<open>Writing a calibration\<close>











section \<open>Streaming\<close>









lemma viewing_simps [simp]: "viewing (Sends m)" "u \<noteq> Seed \<Longrightarrow> viewing (Starts (ReadPositions u))"
  "u \<noteq> Seed \<Longrightarrow> viewing (Ends (ReadPositions u) r)" "viewing (Starts ReadNormalized)" "viewing (Ends ReadNormalized r)"
  by (cases u; simp add: viewing_def)+








section \<open>Every run\<close>





end
