(* ===== verification/SetupWorkerRuns.thy ===== *)
theory SetupWorkerRuns
  imports SetupWorkerProps
begin

text \<open>Sessions of the setup wizard in which it does not do what its text says, event by event.\<close>

section \<open>Runs that show something\<close>

definition all_motors :: "int list \<Rightarrow> (string \<times> int) list" where
  "all_motors vs = zip motor_names vs"

text \<open>Nothing is powered: no voltage is read and no motor found; the session begins all the same.\<close>

definition demo_session :: "(bus_value, setup_exn, setup_command) loop_event list" where
  "demo_session =
     [Delivered MAIN, Answered MAIN (Inr (Port (Some ''COM3''))), Answered MAIN (Inr NoValue), Delivered MAIN, Delivered MAIN]
     @ replicate 6 (Answered MAIN (Inl (OtherExn ''timeout''))) @ [Delivered MAIN, Delivered MAIN]
     @ replicate 6 (Answered MAIN (Inr (Model None))) @ [Delivered MAIN]"

definition demo_port :: SerialPortInfo where
  "demo_port = \<lparr>sp_serial_number = Some ''A1'', sp_connection_string = None\<rparr>"

definition command_received :: "string \<Rightarrow> (bus_value, setup_exn, setup_command) loop_event" where
  "command_received c = Received (CommandMessage c None)"

definition demo_homing :: "int list \<Rightarrow> (bus_value, setup_exn, setup_command) loop_event list" where
  "demo_homing offsets = [command_received ''start_homing'', Delivered COMMANDS] @ replicate 7 (Answered COMMANDS (Inr NoValue))
     @ [Answered COMMANDS (Inr (Positions (all_motors offsets))), Delivered COMMANDS]"

definition demo_range_recording :: "(bus_value, setup_exn, setup_command) loop_event list" where
  "demo_range_recording = [command_received ''start_recording'', Delivered COMMANDS,
     Answered COMMANDS (Inr (Positions (all_motors [0, 0, 0, 0, 0, 0]))),
     Ticks, Answered BROADCAST (Inr (Positions (all_motors [1, 2, 3, 4, 5, 6]))), Delivered BROADCAST]"

lemmas run_loop = setup_run_def start_worker_def resume_def clean_up_def Let_def answered_def answer_fits_def setup_code_def
  setup_body_def connect_bus_def open_bus_def run_voltage_check_def run_motor_probe_def report_probe_def cleanup_bus_def
  in_phase_def send_phase_status_def require_bus_def locked_call_def call_def held_call_def new_setup_worker_def bus_fits_def
  MOTORS_def

text \<open>A session that waits for a command, before its first calibration.\<close>

definition idle_session :: "setup_loop \<Rightarrow> bool" where
  "idle_session w \<longleftrightarrow> el_stage w = Together \<and> el_lock w = None \<and> el_at w = (\<lambda>_. None)(MAIN := Some (Gather Done))
     \<and> el_threads w = [] \<and> sw_bus (el_self w) \<and> sw_phase (el_self w) = MOTOR_PROBE \<and> sw_homing_offsets (el_self w) = None
     \<and> sw_range_mins (el_self w) = [] \<and> sw_range_maxes (el_self w) = [] \<and> sw_last_raw (el_self w) = None"

lemma demo_connected:
  "idle_session (setup_run ''SO101_Leader'' demo_port demo_session)"
  by (simp add: demo_session_def run_loop idle_session_def numeral_eq_Suc motor_is_ok_def found_motor_def)

definition calibration_calls :: "setup_log \<Rightarrow> bus_call list" where
  "calibration_calls l = concat (map (\<lambda>e. case e of
       Starts c \<Rightarrow> (case c of SetHalfTurnHomings \<Rightarrow> [c] | ReadPositions u \<Rightarrow> [c] | WriteCalibration cal \<Rightarrow> [c] | DisconnectBus \<Rightarrow> [c] | _ \<Rightarrow> [])
     | _ \<Rightarrow> []) l)"

lemma calibration_calls_append [simp]: "calibration_calls (xs @ ys) = calibration_calls xs @ calibration_calls ys"
  by (simp add: calibration_calls_def)

lemmas run_commands = run_loop command_received_def setup_command_turn_def dispatch_setup_command_def handle_start_homing_def
  begin_recording_def handle_stop_recording_def write_and_verify_def broadcast_turn_def broadcast_tick_def
  broadcast_raw_positions_def send_raw_positions_def note_raw_def motor_names_def all_motors_def calibration_calls_def
  same_min_max_def range_rows_def

lemma setup_run_append: "setup_run robot_type port (es @ fs) = foldl (loop_step setup_code) (setup_run robot_type port es) fs"
  by (simp add: setup_run_def)

text \<open>
  A second homing after a recording: \<^verbatim>\<open>start_homing\<close> keeps the recorded ranges, so a stop writes the new offsets with
  ranges that were measured under the old ones.
\<close>

lemma rehomed_calibration:
  "idle_session w \<Longrightarrow>
    calibration_calls (el_log (foldl (loop_step setup_code) w
      (demo_homing [0, 0, 0, 0, 0, 0] @ demo_range_recording @ demo_homing [9, 9, 9, 9, 9, 9] @ [command_received ''stop_recording''])))
    = calibration_calls (el_log w) @ [SetHalfTurnHomings, ReadPositions Seed, ReadPositions Track, SetHalfTurnHomings,
        WriteCalibration (calibration_from (all_motors [9, 9, 9, 9, 9, 9])
          [all_motors [0, 0, 0, 0, 0, 0], all_motors [1, 2, 3, 4, 5, 6]])]"
  by (simp add: idle_session_def demo_homing_def demo_range_recording_def numeral_eq_Suc run_commands calibration_from_def
      positions_of_def)

lemma rehomed_ranges_are_stale:
  "\<exists>es. \<exists>cs. calibration_calls (el_log (setup_run ''SO101_Leader'' demo_port es)) =
     cs @ [ReadPositions Seed, ReadPositions Track, SetHalfTurnHomings,
       WriteCalibration (calibration_from (all_motors [9, 9, 9, 9, 9, 9])
          [all_motors [0, 0, 0, 0, 0, 0], all_motors [1, 2, 3, 4, 5, 6]])]"
  using rehomed_calibration [OF demo_connected] setup_run_append [of _ _ demo_session]
  by (metis (no_types, lifting) append_Cons append_Nil append_assoc)

text \<open>
  A stop before every joint has moved: the answer asks to move all joints, but the phase has left the recording, so
  the stream has stopped and nothing that is moved now counts.
\<close>

lemma failed_stop_ends_recording:
  "idle_session w \<Longrightarrow>
    (let w' = foldl (loop_step setup_code) w (demo_homing [0, 0, 0, 0, 0, 0] @ take 3 demo_range_recording
           @ [command_received ''stop_recording'', Delivered COMMANDS, Ticks])
     in sw_phase (el_self w') = CONFIGURE
        \<and> calibration_calls (el_log w') = calibration_calls (el_log w) @ [SetHalfTurnHomings, ReadPositions Seed])"
  by (simp add: idle_session_def demo_homing_def demo_range_recording_def numeral_eq_Suc run_commands)

text \<open>
  A position that is read while the recording is stopped is shown to the user as part of the range, and is not in the
  calibration that is written.
\<close>

lemma late_position_not_written:
  "idle_session w \<Longrightarrow>
    (let es = demo_homing [0, 0, 0, 0, 0, 0] @ demo_range_recording
           @ [Ticks, command_received ''stop_recording'', Answered BROADCAST (Inr (Positions (all_motors [7, 7, 7, 7, 7, 7]))),
              Granted COMMANDS];
         w' = foldl (loop_step setup_code) w es
     in map_of (sw_range_maxes (el_self w')) ''gripper'' = Some 7
        \<and> last (calibration_calls (el_log w')) = WriteCalibration (calibration_from (all_motors [0, 0, 0, 0, 0, 0])
          [all_motors [0, 0, 0, 0, 0, 0], all_motors [1, 2, 3, 4, 5, 6]]))"
  by (simp add: idle_session_def demo_homing_def demo_range_recording_def numeral_eq_Suc run_commands calibration_from_def
      positions_of_def)

text \<open>
  The client leaves while the stream reads: its task is canceled and gives the lock back, the thread goes on
  reading, and the bus is disconnected beside it.
\<close>

lemma canceled_read_meets_disconnect:
  "idle_session w \<Longrightarrow>
    el_threads (foldl (loop_step setup_code) w
      (demo_homing [0, 0, 0, 0, 0, 0] @ [Ticks, ReceiveFails]))
    = [(None, ReadPositions View), (Some MAIN, DisconnectBus)]"
  by (simp add: idle_session_def demo_homing_def numeral_eq_Suc run_commands cancel_task_def)

text \<open>A cancellation that comes during the cleanup leaves the bus open, for nothing shields it.\<close>

lemma canceled_cleanup_leaves_bus:
  "idle_session w \<Longrightarrow>
    (let w' = foldl (loop_step setup_code) w [ReceiveFails, Canceled]
     in el_stage w' = Ended \<and> sw_bus (el_self w') \<and> sw_state (el_self w') = sw_state (el_self w))"
  by (simp add: idle_session_def numeral_eq_Suc run_commands cancel_task_def)

end
