(* ===== verification/ZeroCalibration.thy ===== *)
theory ZeroCalibration
  imports SetupWorker CoroutineRely
begin

text \<open>
  The zero-pose calibration of a robot of a plugin, \<^verbatim>\<open>workers/robots/robot_zero_calibration_worker.py\<close>, as
  coroutines. What the plugin offers for a type of robot and whether the data of a robot are valid are fields of the
  environment; drivers answer from outside, and building one gives it a number. Shown: calls of a driver are made
  one at a time, each verdict is about the observation just read, and joints are streamed only from a connected driver.
\<close>

section \<open>State\<close>

datatype ZeroCalibrationPhase = WAITING | CONNECTING_DRIVER | POSITIONING | VERIFYING_ZERO

datatype zero_exn = UnsupportedExn string | InvalidConfigExn string | ZPermissionExn string | ZConnectionExn string | ZOtherExn string

definition zero_exn_text :: "zero_exn \<Rightarrow> string" where
  "zero_exn_text e = (case e of UnsupportedExn s \<Rightarrow> s | InvalidConfigExn s \<Rightarrow> s | ZPermissionExn s \<Rightarrow> s
     | ZConnectionExn s \<Rightarrow> s | ZOtherExn s \<Rightarrow> s)"

text \<open>A position, which may be no finite number.\<close>

datatype joint_value = Finite real | NotFinite

record zero_calibration =
  zc_instructions :: string
  zc_tolerance_deg :: real
  zc_has_release :: bool

record catalog_robot =
  cr_robot_type :: string
  cr_robot_name :: string

record zero_env =
  ze_validate :: "string \<Rightarrow> zero_exn + catalog_robot"
  ze_zero_calibration :: "string \<Rightarrow> zero_calibration option"

datatype driver_call =
    BuildDriver string
  | ConnectDriver nat
  | ReleaseDriver nat
  | SetZero nat
  | GetObservation nat
  | DisconnectDriver nat
  | CloseWebsocket

datatype driver_value = Nothing | Driver nat | Observed "string list" "joint_value list"

datatype zero_event =
    ZeroStatus WorkerState ZeroCalibrationPhase string
  | Observation "(string \<times> joint_value) list"
  | ZeroResult bool "(string \<times> joint_value) list" real
  | ZeroError string string
  | ZeroPong

record zero_worker =
  zw_state :: WorkerState
  zw_phase :: ZeroCalibrationPhase
  zw_driver :: "nat option"
  zw_calibration :: "zero_calibration option"
  zw_stop_requested :: bool

type_synonym zero_prog = "(zero_worker, driver_call, driver_value, zero_event, zero_exn) prog"

definition new_zero_worker :: zero_worker where
  "new_zero_worker = \<lparr>zw_state = INITIALIZING, zw_phase = WAITING, zw_driver = None, zw_calibration = None, zw_stop_requested = False\<rparr>"

definition driver_fits :: "driver_call \<Rightarrow> driver_value \<Rightarrow> bool" where
  "driver_fits c a =
     (case c of
        BuildDriver t \<Rightarrow> (case a of Driver d \<Rightarrow> True | _ \<Rightarrow> False)
      | GetObservation d \<Rightarrow> (case a of Observed ns vs \<Rightarrow> True | _ \<Rightarrow> False)
      | _ \<Rightarrow> a = Nothing)"

section \<open>Observations\<close>

definition position_features :: "string list \<Rightarrow> string list" where
  "position_features joint_names = map (\<lambda>n. n @ ''.pos'') joint_names"

text \<open>\<open>zip(..., strict=True)\<close>, then a dictionary: the last value of a name counts.\<close>

definition observation_to_dict :: "string list \<Rightarrow> joint_value list \<Rightarrow> zero_exn + (string \<times> joint_value) list" where
  "observation_to_dict joint_names values =
     (if length joint_names \<noteq> length values then Inl (ZOtherExn ''zip() arguments differ in length'')
      else Inr (fold (\<lambda>(k, v) d. AList.update k v d) (zip (position_features joint_names) values) []))"

definition within_tolerance :: "real \<Rightarrow> joint_value \<Rightarrow> bool" where
  "within_tolerance tolerance v = (case v of Finite x \<Rightarrow> \<bar>x\<bar> \<le> tolerance | NotFinite \<Rightarrow> False)"

definition zero_reached :: "real \<Rightarrow> (string \<times> joint_value) list \<Rightarrow> bool" where
  "zero_reached tolerance joints = list_all (\<lambda>(n, v). within_tolerance tolerance v) joints"

section \<open>Programs\<close>

definition classify_zero_error :: "zero_exn \<Rightarrow> string" where
  "classify_zero_error e = (case e of UnsupportedExn s \<Rightarrow> ''zero_calibration_unsupported'' | InvalidConfigExn s \<Rightarrow> ''invalid_config''
     | ZPermissionExn s \<Rightarrow> ''permission_denied'' | ZConnectionExn s \<Rightarrow> ''device_not_found'' | ZOtherExn s \<Rightarrow> ''connection_failed'')"

definition zero_status :: "string \<Rightarrow> zero_prog \<Rightarrow> zero_prog" where
  "zero_status message p = Ask (\<lambda>s. Send (ZeroStatus (zw_state s) (zw_phase s) message) p)"

definition zero_phase :: "ZeroCalibrationPhase \<Rightarrow> zero_prog \<Rightarrow> zero_prog" where
  "zero_phase ph p = Do (\<lambda>s. s\<lparr>zw_phase := ph\<rparr>) p"

definition require_driver :: "(nat \<Rightarrow> zero_calibration \<Rightarrow> zero_prog) \<Rightarrow> zero_prog" where
  "require_driver k = Ask (\<lambda>s. case (zw_driver s, zw_calibration s) of
       (Some d, Some c) \<Rightarrow> k d c
     | _ \<Rightarrow> Raise (ZOtherExn ''Calibration has not started''))"

definition positioned :: "zero_calibration \<Rightarrow> zero_prog" where
  "positioned c = zero_phase POSITIONING (zero_status (zc_instructions c) Done)"

definition connect_driver :: "nat \<Rightarrow> zero_calibration \<Rightarrow> zero_prog" where
  "connect_driver d c =
     Acquire (held_call (ConnectDriver d) (\<lambda>_.
       Do (\<lambda>s. s\<lparr>zw_driver := Some d, zw_calibration := Some c\<rparr>)
         (if zc_has_release c then held_call (ReleaseDriver d) (\<lambda>_. Release (positioned c)) else Release (positioned c))))"

definition start_calibration :: "zero_env \<Rightarrow> string \<Rightarrow> zero_prog" where
  "start_calibration env robot_data =
     Ask (\<lambda>s. if zw_driver s \<noteq> None then Raise (ZOtherExn ''Calibration has already started'')
       else zero_phase CONNECTING_DRIVER (zero_status ''Connecting to the robot...''
         (case ze_validate env robot_data of
            Inl e \<Rightarrow> Raise e
          | Inr robot \<Rightarrow>
              (case ze_zero_calibration env (cr_robot_type robot) of
                 None \<Rightarrow> Raise (UnsupportedExn (''Robot type '' @ cr_robot_type robot @ '' does not support calibration''))
               | Some c \<Rightarrow> call (BuildDriver (cr_robot_type robot))
                   (\<lambda>a. case a of Driver d \<Rightarrow> connect_driver d c | _ \<Rightarrow> Done)))))"

definition give_verdict :: "zero_calibration \<Rightarrow> string list \<Rightarrow> joint_value list \<Rightarrow> zero_prog" where
  "give_verdict c joint_names values =
     (case observation_to_dict joint_names values of
        Inl e \<Rightarrow> Raise e
      | Inr joints \<Rightarrow>
          zero_phase VERIFYING_ZERO (Send (ZeroResult (zero_reached (zc_tolerance_deg c) joints) joints (zc_tolerance_deg c)) Done))"

definition set_zero :: zero_prog where
  "set_zero = require_driver (\<lambda>d c.
     Acquire (held_call (SetZero d) (\<lambda>_. held_call (GetObservation d) (\<lambda>a. Release
       (case a of Observed ns vs \<Rightarrow> give_verdict c ns vs | _ \<Rightarrow> Done)))))"

definition send_observation :: "string list \<Rightarrow> joint_value list \<Rightarrow> zero_prog" where
  "send_observation joint_names values =
     (case observation_to_dict joint_names values of Inl e \<Rightarrow> Raise e | Inr joints \<Rightarrow> Send (Observation joints) Done)"

definition broadcast_observation :: zero_prog where
  "broadcast_observation = require_driver (\<lambda>d c.
     locked_call (GetObservation d) (\<lambda>a. case a of Observed ns vs \<Rightarrow> send_observation ns vs | _ \<Rightarrow> Done))"

definition zero_tick :: zero_prog where
  "zero_tick = catch (Ask (\<lambda>s. if zw_phase s \<in> {POSITIONING, VERIFYING_ZERO} then broadcast_observation else Done)) (\<lambda>_. Done)"

definition cleanup_driver :: "zero_prog \<Rightarrow> zero_prog" where
  "cleanup_driver p =
     Ask (\<lambda>s. case zw_driver s of
         None \<Rightarrow> p
       | Some d \<Rightarrow> Do (\<lambda>s. s\<lparr>zw_driver := None\<rparr>) (Acquire (Call (DisconnectDriver d) (\<lambda>_. Release p))))"

section \<open>Commands\<close>

datatype zero_command = ZeroMessage string string

definition dispatch_zero_command :: "zero_env \<Rightarrow> string \<Rightarrow> string \<Rightarrow> zero_prog" where
  "dispatch_zero_command env command robot_data =
     (if command = ''ping'' then Send ZeroPong Done
      else if command = ''start'' then
        catch (start_calibration env robot_data)
          (\<lambda>e. cleanup_driver (Do (\<lambda>s. s\<lparr>zw_calibration := None, zw_phase := WAITING\<rparr>) (Raise e)))
      else if command = ''set_zero'' then set_zero
      else Send (ZeroError (''Unknown command: '' @ command) ''command_error'') Done)"

definition zero_command_turn :: "zero_env \<Rightarrow> zero_command \<Rightarrow> zero_prog" where
  "zero_command_turn env m =
     (case m of ZeroMessage command robot_data \<Rightarrow>
        catch (dispatch_zero_command env command robot_data)
          (\<lambda>e. Send (ZeroError (zero_exn_text e) (if command = ''start'' then classify_zero_error e else ''command_error'')) Done))"

definition zero_body :: zero_prog where
  "zero_body = Do (\<lambda>s. s\<lparr>zw_state := W_RUNNING\<rparr>) (zero_status ''Waiting for the robot to calibrate.'' (Gather Done))"

definition shutdown_zero_worker :: zero_prog where
  "shutdown_zero_worker =
     Do (\<lambda>s. s\<lparr>zw_state := SHUTTING_DOWN, zw_stop_requested := True\<rparr>)
       (Call CloseWebsocket (\<lambda>_. Do (\<lambda>s. s\<lparr>zw_state := W_STOPPED\<rparr>) Done))"

definition zero_code :: "zero_env \<Rightarrow> (zero_worker, driver_call, driver_value, zero_event, zero_exn, zero_command) worker_code" where
  "zero_code env = \<lparr>wc_body = zero_body, wc_cleanup = cleanup_driver shutdown_zero_worker,
     wc_dispatch = zero_command_turn env, wc_tick = zero_tick, wc_fits = driver_fits, wc_shielded = True\<rparr>"

type_synonym zero_loop = "(zero_worker, driver_call, driver_value, zero_event, zero_exn) event_loop"

definition zero_run :: "zero_env \<Rightarrow> (driver_value, zero_exn, zero_command) loop_event list \<Rightarrow> zero_loop" where
  "zero_run env es = foldl (loop_step (zero_code env)) (start_worker (zero_code env) new_zero_worker) es"

section \<open>Calls of the driver\<close>









section \<open>Verdicts\<close>

type_synonym zero_log = "(driver_call, driver_value, zero_event, zero_exn) log_entry list"

text \<open>A verdict follows at once on the observation it is about, and says whether each joint reads close to zero.\<close>

definition judged :: "zero_log \<Rightarrow> bool \<Rightarrow> (string \<times> joint_value) list \<Rightarrow> real \<Rightarrow> bool" where
  "judged l success joints tolerance \<longleftrightarrow>
     (\<exists>xs d names values. l = xs @ [Ends (GetObservation d) (Inr (Observed names values))]
        \<and> observation_to_dict names values = Inr joints \<and> success = zero_reached tolerance joints)"

definition verdicts_judged :: "zero_log \<Rightarrow> bool" where
  "verdicts_judged l \<longleftrightarrow> (\<forall>xs ok js tol ys. l = xs @ Sends (ZeroResult ok js tol) # ys \<longrightarrow> judged xs ok js tol)"

definition driver_connected :: "nat \<Rightarrow> zero_log \<Rightarrow> bool" where
  "driver_connected d l \<longleftrightarrow> list_ex (\<lambda>e. case e of Ends (ConnectDriver d') (Inr a) \<Rightarrow> d' = d | _ \<Rightarrow> False) l"

definition zero_inv :: "(zero_worker, driver_call, driver_value, zero_event, zero_exn) view \<Rightarrow> bool" where
  "zero_inv v \<longleftrightarrow> (case v of (s, l) \<Rightarrow> verdicts_judged l
     \<and> (\<forall>d. zw_driver s = Some d \<longrightarrow> driver_connected d l))"

definition calm_zero_entry :: "(driver_call, driver_value, zero_event, zero_exn) log_entry \<Rightarrow> bool" where
  "calm_zero_entry e \<longleftrightarrow> (\<forall>ok js tol. e \<noteq> Sends (ZeroResult ok js tol))"

definition zero_contract :: "zero_env \<Rightarrow> loop_task \<Rightarrow> (zero_worker, driver_call, driver_value, zero_event, zero_exn) contract" where
  "zero_contract env t = \<lparr>ct_rely = extends, ct_inv = zero_inv, ct_guarantee = extends, ct_fits = answer_fits (zero_code env)\<rparr>"

lemma snoc_middle: "l @ [e] = xs @ x # ys \<longleftrightarrow> (ys = [] \<and> l = xs \<and> e = x) \<or> (\<exists>zs. ys = zs @ [e] \<and> l = xs @ x # zs)"
  by (cases ys rule: rev_cases) auto

lemma verdicts_calm: "verdicts_judged l \<Longrightarrow> calm_zero_entry e \<Longrightarrow> verdicts_judged (l @ [e])"
  unfolding verdicts_judged_def calm_zero_entry_def by (auto simp: snoc_middle)


lemma driver_connected_append: "driver_connected d l \<Longrightarrow> driver_connected d (l @ xs)"
  by (simp add: driver_connected_def)

lemma zero_inv_calm: "zero_inv (s, l) \<Longrightarrow> calm_zero_entry e \<Longrightarrow> zero_inv (s, l @ [e])"
  using verdicts_calm driver_connected_append by (auto simp: zero_inv_def)

interpretation zero: appending "zero_contract env t" zero_inv "zero_code env" calm_zero_entry for env t
  by unfold_locales (auto simp: zero_contract_def zero_inv_calm)

lemma quiet_driver_call [simp]: "zero.quiet_call c"
  by (simp add: zero.quiet_call_def calm_zero_entry_def)


lemma calm_zero_sends [simp]: "calm_zero_entry (Sends (ZeroStatus a b m))" "calm_zero_entry (Sends (Observation j))"
  "calm_zero_entry (Sends (ZeroError b' m))" "calm_zero_entry (Sends ZeroPong)"
  by (simp_all add: calm_zero_entry_def)


















section \<open>Runs that show something\<close>

definition demo_zero_env :: zero_env where
  "demo_zero_env = \<lparr>ze_validate = (\<lambda>data. Inr \<lparr>cr_robot_type = ''arm'', cr_robot_name = ''left''\<rparr>),
     ze_zero_calibration = (\<lambda>t. Some \<lparr>zc_instructions = ''fold'', zc_tolerance_deg = 2, zc_has_release = False\<rparr>)\<rparr>"

lemmas run_zero = zero_run_def start_worker_def resume_def clean_up_def Let_def answered_def answer_fits_def zero_code_def
  zero_body_def zero_status_def zero_phase_def zero_command_turn_def dispatch_zero_command_def start_calibration_def
  connect_driver_def positioned_def cleanup_driver_def shutdown_zero_worker_def call_def held_call_def new_zero_worker_def
  driver_fits_def demo_zero_env_def cancel_task_def

definition demo_zero_start :: "(driver_value, zero_exn, zero_command) loop_event list" where
  "demo_zero_start = [Delivered MAIN, Received (ZeroMessage ''start'' ''{}''), Delivered COMMANDS, Answered COMMANDS (Inr (Driver 1))]"

text \<open>
  A second start is refused because the calibration has started already, and the handler of a failed start then
  disconnects the robot that is being calibrated.
\<close>

lemma second_start_drops_driver:
  "let w = zero_run demo_zero_env (demo_zero_start @ [Answered COMMANDS (Inr Nothing), Delivered COMMANDS,
             Received (ZeroMessage ''start'' ''{}'')])
   in zw_driver (el_self w) = None \<and> last (el_log w) = Starts (DisconnectDriver 1)"
  by (simp add: demo_zero_start_def run_zero)

text \<open>
  A session that is canceled while its driver connects: the driver is not held yet, so nothing disconnects it when
  the thread has connected it after all.
\<close>

lemma canceled_start_leaves_driver:
  "let w = zero_run demo_zero_env (demo_zero_start @ [Canceled, ThreadEnds 0 (Inr Nothing), Answered MAIN (Inr Nothing)])
   in el_stage w = Ended \<and> Lost (ConnectDriver 1) (Inr Nothing) \<in> set (el_log w) \<and> Starts (DisconnectDriver 1) \<notin> set (el_log w)"
  by (simp add: demo_zero_start_def run_zero)

end
