(* ===== verification/SshTransport.thy ===== *)
theory SshTransport
  imports SshConfig
begin

text \<open>
  The connection to the host of a managed trainer: \<^verbatim>\<open>services/ssh/transport.py\<close>,
  \<^verbatim>\<open>services/ssh/sanitize.py\<close> and \<^verbatim>\<open>services/ssh/host_keys.py\<close>. A command is an argument list, quoted by
  \<^verbatim>\<open>shlex.join\<close> of the standard library before it is sent; what comes back is sanitized. A first-seen
  host key is kept only where its fingerprint was accepted. What \<^verbatim>\<open>asyncssh\<close> answers is an argument.
\<close>

section \<open>Sanitizing what a host prints\<close>

text \<open>Text is a list of code points here, since the overrides of the text direction lie above the bytes.\<close>

type_synonym code_points = "nat list"

definition BIDI_OVERRIDES :: "nat set" where
  "BIDI_OVERRIDES = {0x200F, 0x202A, 0x202B, 0x202C, 0x202D, 0x202E, 0x2066, 0x2067, 0x2068, 0x2069, 0xFEFF}"

definition TRUNCATION_MARKER :: code_points where
  "TRUNCATION_MARKER = map char_code ''...[truncated]''"

text \<open>The category \<open>Cc\<close> of Unicode.\<close>

definition is_control :: "nat \<Rightarrow> bool" where
  "is_control c \<longleftrightarrow> c < 32 \<or> (127 \<le> c \<and> c < 160)"

text \<open>What remains after a string that a bell or \<open>ESC \\<close> ends; an escape of its own is left to the scanner.\<close>

fun skip_control_string :: "code_points \<Rightarrow> code_points" where
  "skip_control_string [] = []"
| "skip_control_string (c # cs) =
     (if c = 7 then cs
      else if c = 27 then (case cs of [] \<Rightarrow> c # cs | d # ds \<Rightarrow> if d = 92 then ds else c # cs)
      else skip_control_string cs)"

text \<open>What remains after an escape sequence; the argument is what follows the escape character.\<close>

definition skip_escape_sequence :: "code_points \<Rightarrow> code_points" where
  "skip_escape_sequence rest =
     (case rest of
        [] \<Rightarrow> []
      | introducer # cs \<Rightarrow>
          if introducer = 91 then drop 1 (dropWhile (\<lambda>c. \<not> (0x40 \<le> c \<and> c \<le> 0x7E)) cs)
          else if introducer \<in> {93, 80, 88, 94, 95} then skip_control_string cs
          else if 0x20 \<le> introducer \<and> introducer \<le> 0x2F then drop 1 (dropWhile (\<lambda>c. 0x20 \<le> c \<and> c \<le> 0x2F) cs)
          else cs)"

lemma skip_control_string_length: "length (skip_control_string cs) \<le> length cs"
proof (induction cs)
  case (Cons c cs)
  then show ?case
    by (simp add: skip_control_string.simps(2) [of c cs] del: skip_control_string.simps split: list.split)
qed simp

lemma length_drop_dropWhile: "length (drop 1 (dropWhile P xs)) \<le> length xs"
  using length_dropWhile_le [of P xs] by simp

lemma skip_escape_sequence_length: "length (skip_escape_sequence cs) \<le> length cs"
proof (cases cs)
  case (Cons i ds)
  then show ?thesis
    using length_drop_dropWhile [of "\<lambda>c. \<not> (0x40 \<le> c \<and> c \<le> 0x7E)" ds] length_drop_dropWhile [of "\<lambda>c. 0x20 \<le> c \<and> c \<le> 0x2F" ds]
      skip_control_string_length [of ds]
    by (simp add: skip_escape_sequence_def del: length_drop)
qed (simp add: skip_escape_sequence_def)

function strip_control_sequences :: "code_points \<Rightarrow> code_points" where
  "strip_control_sequences [] = []"
| "strip_control_sequences (c # cs) =
     (if c = 27 then strip_control_sequences (skip_escape_sequence cs)
      else if c = 10 then c # strip_control_sequences cs
      else if c \<in> BIDI_OVERRIDES \<or> is_control c then strip_control_sequences cs
      else c # strip_control_sequences cs)"
  by pat_completeness auto
termination
  by (relation "measure length") (auto simp: le_imp_less_Suc skip_escape_sequence_length)

fun split_lf :: "code_points \<Rightarrow> code_points list" where
  "split_lf [] = [[]]"
| "split_lf (c # cs) = (if c = 10 then [] # split_lf cs else (c # hd (split_lf cs)) # tl (split_lf cs))"

fun join_lf :: "code_points list \<Rightarrow> code_points" where
  "join_lf [] = []"
| "join_lf [l] = l"
| "join_lf (l # m # ls) = l @ 10 # join_lf (m # ls)"

definition sanitize_output :: "code_points \<Rightarrow> int \<Rightarrow> int \<Rightarrow> code_points" where
  "sanitize_output cs max_line_chars max_total_chars =
     (if max_total_chars \<le> 0 \<or> cs = [] then []
      else
        (let capped_lines = map (\<lambda>line. if max_line_chars > 0 then take (nat max_line_chars) line else [])
               (split_lf (strip_control_sequences cs));
             joined = join_lf capped_lines
         in if int (length joined) \<le> max_total_chars then joined
            else if max_total_chars \<le> int (length TRUNCATION_MARKER) then take (nat max_total_chars) joined
            else take (nat (max_total_chars - int (length TRUNCATION_MARKER))) joined @ TRUNCATION_MARKER))"

section \<open>Commands\<close>

text \<open>\<^verbatim>\<open>shlex.quote\<close> and \<^verbatim>\<open>shlex.join\<close>.\<close>

definition shell_safe :: "char \<Rightarrow> bool" where
  "shell_safe c \<longleftrightarrow> is_alnum c \<or> c \<in> set ''_@%+=:,./-''"

definition shlex_quote :: "string \<Rightarrow> string" where
  "shlex_quote s =
     (if s = [] then [CHR 0x27, CHR 0x27]
      else if list_all shell_safe s then s
      else CHR 0x27 # concat (map (\<lambda>c. if c = CHR 0x27 then [CHR 0x27, CHR 0x22, CHR 0x27, CHR 0x22, CHR 0x27] else [c]) s) @ [CHR 0x27])"

definition shlex_join :: "string list \<Rightarrow> string" where
  "shlex_join argv = str_join '' '' (map shlex_quote argv)"

datatype command_failure = TIMEOUT | CHANNEL_REFUSED | SIGNALED

record CommandResult =
  cr_argv :: "string list"
  cr_command :: string
  cr_exit_status :: int
  cr_stdout :: string
  cr_stderr :: string
  cr_duration_ms :: nat
  cr_failure :: "command_failure option"

definition COMMAND_TIMEOUT_EXIT_STATUS :: int where "COMMAND_TIMEOUT_EXIT_STATUS = 124"
definition COMMAND_FAILED_EXIT_STATUS :: int where "COMMAND_FAILED_EXIT_STATUS = -1"

definition outcome_ok :: "CommandResult \<Rightarrow> bool" where
  "outcome_ok r \<longleftrightarrow> cr_failure r = None \<and> cr_exit_status r = 0"

definition first_line :: "CommandResult \<Rightarrow> string" where
  "first_line r = (case dropWhile (\<lambda>l. strip_space l = []) (splitlines (cr_stdout r)) of [] \<Rightarrow> [] | l # ls \<Rightarrow> strip_space l)"

text \<open>How the connection ends a command. A stream that was not read is \<open>None\<close>.\<close>

datatype ssh_outcome =
    Completed "int option" bool "string option" "string option"
  | RanOutOfTime "string option" "string option"
  | ChannelNotOpened
  | ProcessFailed "int option" bool "string option" "string option"
  | ConnectionLost
  | SocketTimedOut
  | Canceled

datatype ssh_exn = SshConnectionError string string | SshHostKeyRefused string | SshNotAuthenticated string | SshOther string | Interrupted

definition sanitize_stream :: "int \<Rightarrow> int \<Rightarrow> string option \<Rightarrow> string" where
  "sanitize_stream max_line_chars max_total_chars stream =
     (case stream of
        None \<Rightarrow> ''''
      | Some s \<Rightarrow> map char_of (sanitize_output (map char_code s) max_line_chars max_total_chars))"

record ssh_limits =
  sl_max_line_chars :: int
  sl_max_total_chars :: int

definition make_result ::
  "ssh_limits \<Rightarrow> string list \<Rightarrow> int \<Rightarrow> string option \<Rightarrow> string option \<Rightarrow> nat \<Rightarrow> command_failure option \<Rightarrow> CommandResult" where
  "make_result limits argv exit_status out err duration failure =
     \<lparr>cr_argv = argv, cr_command = shlex_join argv, cr_exit_status = exit_status,
      cr_stdout = sanitize_stream (sl_max_line_chars limits) (sl_max_total_chars limits) out,
      cr_stderr = sanitize_stream (sl_max_line_chars limits) (sl_max_total_chars limits) err,
      cr_duration_ms = duration, cr_failure = failure\<rparr>"

definition status_or_failed :: "int option \<Rightarrow> int" where
  "status_or_failed s = (case s of None \<Rightarrow> COMMAND_FAILED_EXIT_STATUS | Some n \<Rightarrow> n)"

definition command_result :: "ssh_limits \<Rightarrow> string \<Rightarrow> string list \<Rightarrow> ssh_outcome \<Rightarrow> nat \<Rightarrow> ssh_exn + CommandResult" where
  "command_result limits alias argv outcome duration =
     (if argv = [] then Inl (SshOther ''argv must not be empty'') else case outcome of
        RanOutOfTime out err \<Rightarrow> Inr (make_result limits argv COMMAND_TIMEOUT_EXIT_STATUS out err duration (Some TIMEOUT))
      | ChannelNotOpened \<Rightarrow>
          Inr (make_result limits argv COMMAND_FAILED_EXIT_STATUS (Some '''') (Some '''') duration (Some CHANNEL_REFUSED))
      | ProcessFailed status signal out err \<Rightarrow>
          Inr (make_result limits argv (status_or_failed status) out err duration (if signal then Some SIGNALED else None))
      | ConnectionLost \<Rightarrow> Inl (SshConnectionError alias ''connection_lost'')
      | SocketTimedOut \<Rightarrow> Inl (SshConnectionError alias ''timeout'')
      | Canceled \<Rightarrow> Inl Interrupted
      | Completed status signal out err \<Rightarrow>
          if signal then Inr (make_result limits argv COMMAND_FAILED_EXIT_STATUS out err duration (Some SIGNALED))
          else Inr (make_result limits argv (status_or_failed status) out err duration None))"

section \<open>Host keys\<close>

text \<open>
  The keys that a known-hosts file has for a host: trusted ones, authorities and revoked ones, as
  \<^verbatim>\<open>asyncssh.match_known_hosts\<close> finds them.
\<close>

record ('k) host_matches =
  hm_trusted :: "'k list"
  hm_ca :: "'k list"
  hm_revoked :: "'k list"

record host_key_match =
  hk_consulted :: bool
  hk_trusted_keys :: nat
  hk_ca_keys :: nat
  hk_revoked_keys :: nat

definition no_match :: host_key_match where
  "no_match = \<lparr>hk_consulted = False, hk_trusted_keys = 0, hk_ca_keys = 0, hk_revoked_keys = 0\<rparr>"

definition has_entry :: "host_key_match \<Rightarrow> bool" where
  "has_entry m \<longleftrightarrow> hk_trusted_keys m \<noteq> 0 \<or> hk_ca_keys m \<noteq> 0 \<or> hk_revoked_keys m \<noteq> 0"

record host_key_verifier =
  hv_alias :: string
  hv_accepted_fingerprint :: "string option"
  hv_match :: host_key_match
  hv_presented_fingerprint :: "string option"

definition new_verifier :: "string \<Rightarrow> string option \<Rightarrow> host_key_verifier" where
  "new_verifier alias accepted = \<lparr>hv_alias = alias, hv_accepted_fingerprint = accepted, hv_match = no_match,
     hv_presented_fingerprint = None\<rparr>"

record ('k) key_env =
  ke_match :: "string \<Rightarrow> string \<Rightarrow> string \<Rightarrow> int \<Rightarrow> 'k host_matches"
  ke_fingerprint :: "'k \<Rightarrow> string"
  ke_public :: "'k \<Rightarrow> string"

definition note_matches :: "'k key_env \<Rightarrow> string option \<Rightarrow> string \<Rightarrow> string \<Rightarrow> int \<Rightarrow> host_key_verifier \<Rightarrow> host_key_verifier" where
  "note_matches env known_hosts host addr port v =
     (let m = ke_match env (case known_hosts of None \<Rightarrow> '''' | Some s \<Rightarrow> s) host addr port
      in v\<lparr>hv_match := \<lparr>hk_consulted = True, hk_trusted_keys = length (hm_trusted m), hk_ca_keys = length (hm_ca m),
             hk_revoked_keys = length (hm_revoked m)\<rparr>\<rparr>)"

definition host_pattern :: "string \<Rightarrow> int \<Rightarrow> string" where
  "host_pattern host port = (if port = 22 then host else ''['' @ host @ '']:'' @ int_str port)"

definition host_entry :: "'k key_env \<Rightarrow> string \<Rightarrow> int \<Rightarrow> 'k \<Rightarrow> string" where
  "host_entry env host port key = host_pattern host port @ '' '' @ strip_space (ke_public env key) @ NL"

text \<open>
  The answer, the verifier and the file afterwards. The file may have changed since it was matched: it is matched
  again under its lock, and what it holds then is \<open>known_hosts\<close> here.
\<close>

definition validate_host_public_key ::
  "'k key_env \<Rightarrow> string option \<Rightarrow> string \<Rightarrow> string \<Rightarrow> int \<Rightarrow> 'k \<Rightarrow> host_key_verifier \<Rightarrow> bool \<times> host_key_verifier \<times> string option" where
  "validate_host_public_key env known_hosts host addr port key v =
     (if \<not> hk_consulted (hv_match v) \<or> has_entry (hv_match v) then (False, v, known_hosts)
      else
        (let v1 = v\<lparr>hv_presented_fingerprint := Some (ke_fingerprint env key)\<rparr>
         in if hv_accepted_fingerprint v \<noteq> Some (ke_fingerprint env key) then (False, v1, known_hosts)
            else
              (let content = (case known_hosts of None \<Rightarrow> '''' | Some s \<Rightarrow> s);
                   current = ke_match env content host addr port
               in if hm_revoked current \<noteq> [] \<or> hm_ca current \<noteq> [] then (False, v1, Some content)
                  else if hm_trusted current \<noteq> [] then (key \<in> set (hm_trusted current), v1, Some content)
                  else (True, v1, Some (content @ host_entry env host port key)))))"

datatype host_key_error =
    SshHostKeyConfirmationRequiredError string string
  | SshHostKeyUnknownError string
  | SshHostKeyMismatchError string

definition verification_error :: "host_key_verifier \<Rightarrow> host_key_error" where
  "verification_error v =
     (if hk_consulted (hv_match v) \<and> \<not> has_entry (hv_match v)
      then (case hv_presented_fingerprint v of
              Some f \<Rightarrow> SshHostKeyConfirmationRequiredError (hv_alias v) f
            | None \<Rightarrow> SshHostKeyUnknownError (hv_alias v))
      else SshHostKeyMismatchError (hv_alias v))"

end
