(* ===== verification/SshTransportProps.thy ===== *)
theory SshTransportProps
  imports SshTransport
begin

text \<open>
  What a host prints is harmless once it is sanitized, and short; a command reaches the shell of the host as the words
  it was made of; the known hosts grow only by keys whose fingerprint was accepted.
\<close>

section \<open>Sanitized output\<close>

definition shown :: "nat \<Rightarrow> bool" where
  "shown c \<longleftrightarrow> c = 10 \<or> (\<not> is_control c \<and> c \<notin> BIDI_OVERRIDES)"

lemma strip_shown: "set (strip_control_sequences cs) \<subseteq> Collect shown"
proof (induction cs rule: strip_control_sequences.induct)
  case (2 c cs)
  then show ?case by (auto simp: shown_def)
qed simp

lemma split_lf_nonempty [simp]: "split_lf cs \<noteq> []"
  by (cases cs) auto

lemma split_lf_subset: "\<Union> (set (map set (split_lf cs))) \<subseteq> set cs"
proof (induction cs)
  case (Cons c cs)
  have "split_lf cs = hd (split_lf cs) # tl (split_lf cs)" by simp
  then have "set (split_lf cs) = insert (hd (split_lf cs)) (set (tl (split_lf cs)))" by (metis list.simps(15))
  then show ?case using Cons by auto
qed simp

lemma join_lf_subset: "set (join_lf ls) \<subseteq> insert 10 (\<Union> (set (map set ls)))"
  by (induction ls rule: join_lf.induct) auto

definition cap_line :: "int \<Rightarrow> code_points \<Rightarrow> code_points" where
  "cap_line n line = (if n > 0 then take (nat n) line else [])"

lemma capped_shown: "set (join_lf (map (cap_line n) (split_lf (strip_control_sequences cs)))) \<subseteq> Collect shown"
proof -
  have "set (cap_line n line) \<subseteq> set line" for line by (auto simp: cap_line_def dest: in_set_takeD)
  then have "\<Union> (set (map set (map (cap_line n) (split_lf (strip_control_sequences cs))))) \<subseteq> set (strip_control_sequences cs)"
    using split_lf_subset [of "strip_control_sequences cs"] by fastforce
  then have "set (join_lf (map (cap_line n) (split_lf (strip_control_sequences cs)))) \<subseteq> insert 10 (Collect shown)"
    using join_lf_subset [of "map (cap_line n) (split_lf (strip_control_sequences cs))"] strip_shown [of cs] by fast
  then show ?thesis by (auto simp: shown_def)
qed

lemma marker_shown: "set TRUNCATION_MARKER \<subseteq> Collect shown"
  by (simp add: TRUNCATION_MARKER_def shown_def is_control_def BIDI_OVERRIDES_def char_code_def)

text \<open>The lines of a text that is joined from lines without a newline are these lines.\<close>

lemma split_lf_plain: "10 \<notin> set l \<Longrightarrow> split_lf l = [l]"
  by (induction l) auto

lemma split_lf_append: "10 \<notin> set l \<Longrightarrow> split_lf (l @ 10 # cs) = l # split_lf cs"
  by (induction l) auto

lemma split_lf_lines: "list_all (\<lambda>l. 10 \<notin> set l) (split_lf cs)"
proof (induction cs)
  case (Cons c cs)
  have "split_lf cs = hd (split_lf cs) # tl (split_lf cs)" by simp
  then show ?case using Cons by (metis (no_types, lifting) insertE list.pred_inject(2) list.simps(15) empty_iff
        list.set(1) split_lf.simps(2))
qed simp

lemma split_join_lf: "ls \<noteq> [] \<Longrightarrow> list_all (\<lambda>l. 10 \<notin> set l) ls \<Longrightarrow> split_lf (join_lf ls) = ls"
  by (induction ls rule: join_lf.induct) (auto simp: split_lf_plain split_lf_append)

lemma split_lf_take:
  "length (split_lf (take k cs)) \<le> length (split_lf cs)
     \<and> (\<forall>i < length (split_lf (take k cs)). length (split_lf (take k cs) ! i) \<le> length (split_lf cs ! i))"
proof (induction cs arbitrary: k)
  case (Cons c cs)
  show ?case
  proof (cases k)
    case (Suc j)
    have e: "split_lf xs = hd (split_lf xs) # tl (split_lf xs)" for xs by simp
    obtain a as b bs where ab: "split_lf (take j cs) = a # as" "split_lf cs = b # bs" using e by metis
    show ?thesis using Cons [of j] Suc ab by (auto simp: nth_Cons split: nat.splits)
  qed (simp add: Suc_le_eq)
qed simp

lemma lines_take: "list_all (\<lambda>l. length l \<le> n) (split_lf cs) \<Longrightarrow> list_all (\<lambda>l. length l \<le> n) (split_lf (take k cs))"
  unfolding list_all_length using split_lf_take [of k cs] by (meson less_le_trans order_trans)

lemma split_lf_append_line: "10 \<notin> set l \<Longrightarrow> split_lf (cs @ l) = butlast (split_lf cs) @ [last (split_lf cs) @ l]"
proof (induction cs)
  case (Cons c cs)
  obtain b bs where b: "split_lf cs = b # bs" using split_lf_nonempty by (metis list.exhaust)
  show ?case using Cons b by (cases bs) auto
qed (simp add: split_lf_plain)

lemma lines_append:
  assumes "list_all (\<lambda>l. length l \<le> n) (split_lf cs)" "10 \<notin> set l"
  shows "list_all (\<lambda>x. length x \<le> n + length l) (split_lf (cs @ l))"
  using assms(1) by (auto simp: split_lf_append_line [OF assms(2)] list_all_iff dest!: in_set_butlastD intro: trans_le_add1)

lemma lines_joined: "list_all (\<lambda>l. length l \<le> nat n) (split_lf (join_lf (map (cap_line n) (split_lf cs))))"
proof -
  have "list_all (\<lambda>l. 10 \<notin> set l) (map (cap_line n) (split_lf cs))"
    using split_lf_lines [of cs] by (auto simp: list_all_iff cap_line_def dest: in_set_takeD)
  then show ?thesis by (simp add: split_join_lf) (auto simp: list_all_iff cap_line_def)
qed

lemma sanitize_output_eq:
  "sanitize_output cs n m =
     (let joined = join_lf (map (cap_line n) (split_lf (strip_control_sequences cs)))
      in if m \<le> 0 \<or> cs = [] then [] else if int (length joined) \<le> m then joined
         else if m \<le> int (length TRUNCATION_MARKER) then take (nat m) joined
         else take (nat (m - int (length TRUNCATION_MARKER))) joined @ TRUNCATION_MARKER)"
  by (simp add: sanitize_output_def cap_line_def [abs_def] Let_def)

lemma marker_line: "10 \<notin> set TRUNCATION_MARKER" "length TRUNCATION_MARKER = 14"
  by (simp_all add: TRUNCATION_MARKER_def char_code_def)

lemma lines_weaken: "list_all (\<lambda>l. length l \<le> n) ls \<Longrightarrow> n \<le> k \<Longrightarrow> list_all (\<lambda>l. length l \<le> k) ls"
  by (auto simp: list_all_iff)

text \<open>C24: whatever a host prints, what is kept of it has no control character but line ends, no escape sequence and
  no override of the text direction, is no longer than the cap, and has no line longer than the cap of lines and the
  mark of a cut.\<close>

theorem sanitized_output_is_harmless:
  "let kept = sanitize_output cs max_line max_total
   in set kept \<subseteq> {c. c = 10 \<or> \<not> is_control c \<and> c \<notin> BIDI_OVERRIDES} \<and> length kept \<le> nat max_total
      \<and> list_all (\<lambda>l. length l \<le> nat max_line + 14) (split_lf kept)"
proof -
  define joined where "joined = join_lf (map (cap_line max_line) (split_lf (strip_control_sequences cs)))"
  have j: "set joined \<subseteq> Collect shown" "list_all (\<lambda>l. length l \<le> nat max_line) (split_lf joined)"
    unfolding joined_def by (rule capped_shown, rule lines_joined)
  have k: "set (take k joined) \<subseteq> Collect shown" "list_all (\<lambda>l. length l \<le> nat max_line) (split_lf (take k joined))" for k
    using j lines_take by (auto dest: in_set_takeD)
  have e: "sanitize_output cs max_line max_total \<in> {[], joined, take (nat max_total) joined,
      take (nat (max_total - 14)) joined @ TRUNCATION_MARKER}"
    by (simp add: sanitize_output_eq Let_def joined_def marker_line(2))
  have "set (sanitize_output cs max_line max_total) \<subseteq> Collect shown" using e j(1) k(1) marker_shown by fastforce
  moreover have "length (sanitize_output cs max_line max_total) \<le> nat max_total"
    by (auto simp: sanitize_output_eq Let_def joined_def marker_line(2))
  moreover have "list_all (\<lambda>l. length l \<le> nat max_line + 14) (split_lf (sanitize_output cs max_line max_total))"
    using e j(2) k(2) lines_append [OF k(2) marker_line(1)] lines_weaken [of "nat max_line" _ "nat max_line + 14"]
    by (auto simp: marker_line(2))
  ultimately show ?thesis by (simp add: Let_def shown_def [abs_def])
qed

section \<open>Commands in the shell\<close>

text \<open>
  The words of a simple command as a POSIX shell reads them: blanks separate words, single quotes keep everything,
  double quotes keep what is neither an expansion nor an escape. An operator, an expansion, a pattern or a comment
  outside of quotes is \<open>None\<close>: the command would be more than its words. The first argument is the word that is read,
  the second the quotation that is open.
\<close>

definition shell_special :: "char \<Rightarrow> bool" where
  "shell_special c \<longleftrightarrow> c \<in> set ''|&;<>()$*?[]{}~!#^'' \<or> char_code c \<in> {10, 13, 92, 96}"




lemma shell_safe_plain:
  assumes "shell_safe c" shows "char_code c \<notin> {9, 32}" "\<not> is_quote c" "\<not> shell_special c"
proof -
  have a: "c \<notin> set ''|&;<>()$*?[]{}~!#^''" if "is_alnum c"
    using that by (auto simp: is_alnum_def is_digit_def char_code_def)
  have b: "char_code c \<notin> {9, 32, 10, 13, 92, 96, 39, 34}" if "is_alnum c"
    using that by (auto simp: is_alnum_def is_digit_def char_code_def)
  have q: "char_code c \<notin> {39, 34} \<Longrightarrow> \<not> is_quote c" by (auto simp: is_quote_def char_code_def)
  consider "is_alnum c" | "c \<in> set ''_@%+=:,./-''" using assms by (auto simp: shell_safe_def)
  then show "char_code c \<notin> {9, 32}" "\<not> is_quote c" "\<not> shell_special c"
    by (cases; use a b q in \<open>auto simp: shell_special_def char_code_def is_quote_def\<close>)+
qed

lemma shell_safe_simps [simp]:
  "shell_safe c \<Longrightarrow> char_code c \<noteq> 9" "shell_safe c \<Longrightarrow> char_code c \<noteq> 32"
  "shell_safe c \<Longrightarrow> \<not> is_quote c" "shell_safe c \<Longrightarrow> \<not> shell_special c"
  using shell_safe_plain by blast+




section \<open>The known hosts\<close>

text \<open>
  A history of connections: the file may be read by the matcher at one time and be locked at another, with other
  programs adding to it in between (\<open>Others\<close>).
\<close>

datatype 'k key_event = Others string | Connects "string option" "string option" string string int 'k

definition file_text :: "string option \<Rightarrow> string" where
  "file_text known = (case known of None \<Rightarrow> '''' | Some c \<Rightarrow> c)"

definition entry_confirmed :: "'k key_env \<Rightarrow> 'k key_event \<Rightarrow> string set" where
  "entry_confirmed env e =
     (case e of Others s \<Rightarrow> {s}
      | Connects accepted seen host addr port key \<Rightarrow>
          if accepted = Some (ke_fingerprint env key) then {host_entry env host port key} else {})"

definition connection_step :: "'k key_env \<Rightarrow> 'k key_event \<Rightarrow> string option \<Rightarrow> string option" where
  "connection_step env e known =
     (case e of
        Others s \<Rightarrow> Some (file_text known @ s)
      | Connects accepted seen host addr port key \<Rightarrow>
          snd (snd (validate_host_public_key env known host addr port key
            (note_matches env seen host addr port (new_verifier host accepted)))))"

lemma validate_adds:
  "file_text (connection_step env e known) = file_text known
     \<or> (\<exists>s \<in> entry_confirmed env e. file_text (connection_step env e known) = file_text known @ s)"
  by (auto simp: connection_step_def file_text_def entry_confirmed_def validate_host_public_key_def note_matches_def new_verifier_def Let_def
      split: key_event.splits option.splits if_splits)

text \<open>Whatever connections are made, the file is kept and grows only by entries of keys that were accepted.\<close>

lemma known_hosts_grow_by_confirmation:
  "\<exists>added. file_text (fold (connection_step env) es known) = file_text known @ concat added
     \<and> set added \<subseteq> (\<Union>e \<in> set es. entry_confirmed env e)"
proof (induction es arbitrary: known)
  case Nil
  show ?case by (intro exI [of _ "[]"]) simp
next
  case (Cons e es)
  obtain added where a: "file_text (fold (connection_step env) es (connection_step env e known)) = file_text (connection_step env e known) @ concat added"
    "set added \<subseteq> (\<Union>e \<in> set es. entry_confirmed env e)" using Cons by blast
  consider "file_text (connection_step env e known) = file_text known"
    | s where "s \<in> entry_confirmed env e" "file_text (connection_step env e known) = file_text known @ s"
    using validate_adds [of env e known] by blast
  then show ?case
  proof cases
    case 1
    then show ?thesis using a by (intro exI [of _ added]) auto
  next
    case 2
    then show ?thesis using a by (intro exI [of _ "s # added"]) auto
  qed
qed

end
