(* ===== verification/TrainerHost.thy ===== *)
theory TrainerHost
  imports SshTransport StudioPayload TrainerStore
begin

text \<open>
  The trainer container that the studio keeps on an SSH host: \<^verbatim>\<open>services/ssh/docker_ops.py\<close>,
  \<^verbatim>\<open>services/ssh/trainer_image.py\<close>, \<^verbatim>\<open>services/ssh/persistent_trainer.py\<close> and the connections of
  \<^verbatim>\<open>schemas/remote_trainer.py\<close>. The host is an argument: what it answers to a command may depend on everything
  that was done before. Each operation returns its result, or what it raises, and the world after it: the transcript
  of what was asked, the clock and the tables of the module.
\<close>

section \<open>Trainers\<close>

record ManualSshConnection =
  ms_hostname :: string
  ms_port :: int
  ms_user :: "string option"
  ms_identity_file :: "string option"

record SshConnection =
  sc_ssh_host_alias :: "string option"
  sc_ssh_connection :: "ManualSshConnection option"
  sc_ssh_remote_port :: int
  sc_ssh_local_port :: "int option"

record AwsBatchTarget =
  bt_queue :: string
  bt_job_definition :: string

record AwsBatchConnection =
  ab_region :: string
  ab_studio_role_arn :: string
  ab_bucket :: string
  ab_targets :: "(string \<times> AwsBatchTarget) list"
  ab_configuration_uri :: "string option"
  ab_profile_name :: string

datatype TrainerConnection = Direct string | Ssh SshConnection | AwsBatch AwsBatchConnection

record RemoteTrainer =
  rt_id :: string
  rt_name :: string
  rt_connection :: TrainerConnection

definition exactly_one_host :: "SshConnection \<Rightarrow> bool" where
  "exactly_one_host c \<longleftrightarrow> (sc_ssh_host_alias c = None) \<noteq> (sc_ssh_connection c = None)"

text \<open>Targets by alias and by address; an empty alias counts as none. The second raises where neither is given.\<close>

datatype ssh_target = AliasTarget string | DirectTarget string int "string option" "string option"

definition target_name :: "ssh_target \<Rightarrow> string" where
  "target_name t = (case t of AliasTarget a \<Rightarrow> a | DirectTarget h p u i \<Rightarrow> h)"

section \<open>The world of an operation\<close>

datatype resolution_detail = NoDetail | Said string | NoProtocolLabel | UnreadableProtocol json | OtherProtocol int

datatype host_exn =
    SshExn ssh_exn
  | TrainerImageResolutionError string int resolution_detail
  | TrainerImageVerificationError string string
  | TrainerImagePullError string "string option"
  | TrainerContainerLaunchError string "string option"
  | ContainerInspectionError string "string option"
  | HostValueError string

datatype signature_result = Authentic | Unauthentic string | SignatureRaised ssh_exn

datatype trainer_event =
    Dialed "ssh_exn option"
  | Ran "string list" "ssh_exn + CommandResult"
  | CheckedSignature string signature_result
  | Uploaded string "ssh_exn option"
  | Slept nat
  | ClosedConnection

record trainer_host =
  th_connect :: "trainer_event list \<Rightarrow> ssh_exn option"
  th_answer :: "trainer_event list \<Rightarrow> string list \<Rightarrow> nat \<Rightarrow> ssh_outcome \<times> nat"
  th_signature :: "trainer_event list \<Rightarrow> string \<Rightarrow> signature_result"
  th_upload :: "trainer_event list \<Rightarrow> string \<Rightarrow> ssh_exn option"
  th_interrupts :: "trainer_event list \<Rightarrow> bool"
  th_json :: "string \<Rightarrow> json option"
  th_sha256 :: "string \<Rightarrow> string"
  th_hash :: "string \<Rightarrow> nat"
  th_instance_id :: string
  th_limits :: ssh_limits
  th_registry :: string
  th_command_timeout_ms :: nat
  th_image_pull_timeout_ms :: nat
  th_stop_timeout_s :: int
  th_shm_size_gb :: int

record host_world =
  hw_log :: "trainer_event list"
  hw_now :: nat
  hw_launch_phase :: "string \<rightharpoonup> string"
  hw_launch_started_at :: "string \<rightharpoonup> nat"
  hw_launch_failure :: "string \<rightharpoonup> string"

type_synonym 'a host_act = "host_world \<Rightarrow> (host_exn + 'a) \<times> host_world"

definition returns :: "'a \<Rightarrow> 'a host_act" where
  "returns a = (\<lambda>w. (Inr a, w))"

definition raises :: "host_exn \<Rightarrow> 'a host_act" where
  "raises e = (\<lambda>w. (Inl e, w))"

definition and_then :: "'a host_act \<Rightarrow> ('a \<Rightarrow> 'b host_act) \<Rightarrow> 'b host_act" where
  "and_then m f = (\<lambda>w. bind_state (m w) f)"

definition updates :: "(host_world \<Rightarrow> host_world) \<Rightarrow> unit host_act" where
  "updates f = (\<lambda>w. (Inr (), f w))"

text \<open>\<open>except Exception\<close>: a cancellation is not one.\<close>

definition on_exception :: "'a host_act \<Rightarrow> (host_exn \<Rightarrow> 'a host_act) \<Rightarrow> 'a host_act" where
  "on_exception m h = (\<lambda>w. case m w of (Inl e, w1) \<Rightarrow> if e = SshExn Interrupted then (Inl e, w1) else h e w1 | (Inr a, w1) \<Rightarrow> (Inr a, w1))"

definition finally_notes :: "'a host_act \<Rightarrow> (host_world \<Rightarrow> host_world) \<Rightarrow> 'a host_act" where
  "finally_notes m f = (\<lambda>w. case m w of (r, w1) \<Rightarrow> (r, f w1))"

definition log_event :: "trainer_event \<Rightarrow> host_world \<Rightarrow> host_world" where
  "log_event e w = w\<lparr>hw_log := hw_log w @ [e]\<rparr>"

definition lift_ssh :: "ssh_exn + 'a \<Rightarrow> host_exn + 'a" where
  "lift_ssh r = (case r of Inl e \<Rightarrow> Inl (SshExn e) | Inr a \<Rightarrow> Inr a)"

definition run_within :: "trainer_host \<Rightarrow> string \<Rightarrow> nat \<Rightarrow> string list \<Rightarrow> CommandResult host_act" where
  "run_within th alias budget argv = (\<lambda>w.
     (case th_answer th (hw_log w) argv budget of (outcome, duration) \<Rightarrow>
        (let r = command_result (th_limits th) alias argv outcome duration
         in (lift_ssh r, (log_event (Ran argv r) w)\<lparr>hw_now := hw_now w + duration\<rparr>))))"

definition run_command :: "trainer_host \<Rightarrow> string \<Rightarrow> string list \<Rightarrow> CommandResult host_act" where
  "run_command th alias = run_within th alias (th_command_timeout_ms th)"

text \<open>\<open>async with\<close>: the connection is closed however its body ends.\<close>

definition with_transport :: "trainer_host \<Rightarrow> 'a host_act \<Rightarrow> 'a host_act" where
  "with_transport th body = (\<lambda>w.
     (case th_connect th (hw_log w) of
        Some e \<Rightarrow> (Inl (SshExn e), log_event (Dialed (Some e)) w)
      | None \<Rightarrow> finally_notes body (log_event ClosedConnection) (log_event (Dialed None) w)))"

definition json_dict :: "json option \<Rightarrow> (string \<times> json) list" where
  "json_dict j = (case j of Some (JDict kvs) \<Rightarrow> kvs | _ \<Rightarrow> [])"

definition output_or_none :: "CommandResult \<Rightarrow> string option" where
  "output_or_none r = (if cr_stderr r \<noteq> [] then Some (cr_stderr r) else if cr_stdout r \<noteq> [] then Some (cr_stdout r) else None)"

definition text_or_none :: "string \<Rightarrow> string option" where
  "text_or_none s = (if s = [] then None else Some s)"

section \<open>Images\<close>

definition DEFAULT_PROTOCOL_VERSION :: int where "DEFAULT_PROTOCOL_VERSION = 1"

definition PROTOCOL_LABEL :: string where
  "PROTOCOL_LABEL = ''org.open-edge-platform.physicalai.trainer.api-protocol''"

definition LIBRARY_VERSION_LABEL :: string where
  "LIBRARY_VERSION_LABEL = ''org.open-edge-platform.physicalai.trainer.library-version''"

definition rstrip_slashes :: "string \<Rightarrow> string" where
  "rstrip_slashes s = rev (dropWhile (\<lambda>c. c = CHR ''/'') (rev s))"

definition trainer_image_ref :: "string \<Rightarrow> DeviceType \<Rightarrow> string \<Rightarrow> string" where
  "trainer_image_ref registry d tag = rstrip_slashes registry @ ''/physicalai-trainer-'' @ device_str d @ '':'' @ tag"

definition protocol_tag :: "int \<Rightarrow> string" where
  "protocol_tag v = ''protocol-'' @ int_str v"

record ResolvedImage =
  ri_tag_reference :: string
  ri_digest_reference :: string
  ri_digest :: string
  ri_library_version :: "string option"

text \<open>\<^verbatim>\<open>rsplit(c, 1)[0]\<close>.\<close>

definition before_last :: "char \<Rightarrow> string \<Rightarrow> string" where
  "before_last c s = (if c \<in> set s then rev (tl (dropWhile (\<lambda>x. x \<noteq> c) (rev s))) else s)"

text \<open>\<^verbatim>\<open>int(str(value))\<close> of a label; the text of a truth value, a fraction or a container is no number.\<close>

definition label_int :: "json \<Rightarrow> int option" where
  "label_int v = (case v of JStr s \<Rightarrow> parse_int s | JInt n \<Rightarrow> Some n | _ \<Rightarrow> None)"

definition imagetools_inspect :: "string \<Rightarrow> string \<Rightarrow> string list" where
  "imagetools_inspect tag_ref format = [''docker'', ''buildx'', ''imagetools'', ''inspect'', tag_ref, ''--format'', format]"

text \<open>A null label counts as a label that is missing.\<close>

definition check_protocol :: "string \<Rightarrow> int \<Rightarrow> (string \<times> json) list \<Rightarrow> host_exn + unit" where
  "check_protocol tag_ref version labels =
     (case map_of labels PROTOCOL_LABEL of
        None \<Rightarrow> Inl (TrainerImageResolutionError tag_ref version NoProtocolLabel)
      | Some JNull \<Rightarrow> Inl (TrainerImageResolutionError tag_ref version NoProtocolLabel)
      | Some v \<Rightarrow>
          (case label_int v of
             None \<Rightarrow> Inl (TrainerImageResolutionError tag_ref version (UnreadableProtocol v))
           | Some n \<Rightarrow> if n \<noteq> version then Inl (TrainerImageResolutionError tag_ref version (OtherProtocol n)) else Inr ()))"

definition resolve_protocol_image :: "trainer_host \<Rightarrow> string \<Rightarrow> DeviceType \<Rightarrow> int \<Rightarrow> ResolvedImage host_act" where
  "resolve_protocol_image th alias d version =
     (let tag_ref = trainer_image_ref (th_registry th) d (protocol_tag version)
      in and_then (run_command th alias (imagetools_inspect tag_ref ''{{json .Manifest.Digest}}'')) (\<lambda>digest_result.
           case (if outcome_ok digest_result then th_json th (first_line digest_result) else None) of
             Some (JStr digest) \<Rightarrow>
               if digest = [] then raises (TrainerImageResolutionError tag_ref version
                   (if first_line digest_result = [] then NoDetail else Said (first_line digest_result)))
               else and_then (run_command th alias (imagetools_inspect tag_ref ''{{json .Image.Config.Labels}}'')) (\<lambda>labels_result.
                 let labels = (if outcome_ok labels_result then json_dict (th_json th (cr_stdout labels_result)) else [])
                 in case check_protocol tag_ref version labels of
                      Inl e \<Rightarrow> raises e
                    | Inr u \<Rightarrow> returns \<lparr>ri_tag_reference = tag_ref,
                        ri_digest_reference = before_last (CHR '':'') tag_ref @ ''@'' @ digest, ri_digest = digest,
                        ri_library_version = (case map_of labels LIBRARY_VERSION_LABEL of Some (JStr v) \<Rightarrow> Some v | _ \<Rightarrow> None)\<rparr>)
           | _ \<Rightarrow> raises (TrainerImageResolutionError tag_ref version
                   (if first_line digest_result = [] then NoDetail else Said (first_line digest_result)))))"

definition verify_image_signature :: "trainer_host \<Rightarrow> ResolvedImage \<Rightarrow> unit host_act" where
  "verify_image_signature th img = (\<lambda>w.
     (let r = th_signature th (hw_log w) (ri_digest_reference img);
          w1 = log_event (CheckedSignature (ri_digest_reference img) r) w
      in case r of
           Authentic \<Rightarrow> (Inr (), w1)
         | Unauthentic why \<Rightarrow> (Inl (TrainerImageVerificationError (ri_digest_reference img) why), w1)
         | SignatureRaised e \<Rightarrow> (Inl (SshExn e), w1)))"

definition image_present_locally :: "trainer_host \<Rightarrow> string \<Rightarrow> string \<Rightarrow> bool host_act" where
  "image_present_locally th alias image_ref =
     and_then (run_command th alias [''docker'', ''image'', ''inspect'', image_ref]) (\<lambda>r. returns (outcome_ok r))"

definition pull_pidfile :: "trainer_host \<Rightarrow> string \<Rightarrow> string" where
  "pull_pidfile th image_ref = ''/tmp/physicalai-pull-'' @ take 16 (th_sha256 th image_ref) @ ''.pid''"

definition pull_in_progress :: "trainer_host \<Rightarrow> string \<Rightarrow> string \<Rightarrow> bool host_act" where
  "pull_in_progress th alias image_ref =
     and_then (run_command th alias [''sh'', ''-c'', ''test -f \"$1\" && kill -0 \"$(cat \"$1\" 2>/dev/null)\" 2>/dev/null'', ''sh'',
         pull_pidfile th image_ref])
       (\<lambda>r. returns (outcome_ok r))"

definition PULL_POLL_INTERVAL_MS :: nat where "PULL_POLL_INTERVAL_MS = 5000"

lemma run_within_now: "hw_now w \<le> hw_now (snd (run_within th alias budget argv w))"
  by (simp add: run_within_def Let_def log_event_def split: prod.splits)

lemma pull_in_progress_now: "hw_now w \<le> hw_now (snd (pull_in_progress th alias image_ref w))"
  using run_within_now [of w th "alias" "th_command_timeout_ms th"]
  by (auto simp: pull_in_progress_def and_then_def run_command_def returns_def bind_state_def split: prod.splits sum.splits)
    (metis snd_conv)+

lemma pull_in_progress_later: "pull_in_progress th alias image_ref w = (r, w1) \<Longrightarrow> hw_now w \<le> hw_now w1"
  using pull_in_progress_now [of w th "alias" image_ref] by simp

text \<open>Waiting for a pull of someone else, until it ends or the time is over.\<close>

function await_until :: "trainer_host \<Rightarrow> string \<Rightarrow> string \<Rightarrow> nat \<Rightarrow> unit host_act" where
  "await_until th alias image_ref deadline w =
     (if hw_now w < deadline then
        (case pull_in_progress th alias image_ref w of
           (Inl e, w1) \<Rightarrow> (Inl e, w1)
         | (Inr busy, w1) \<Rightarrow>
             if \<not> busy then (Inr (), w1)
             else if th_interrupts th (hw_log w1) then (Inl (SshExn Interrupted), w1)
             else await_until th alias image_ref deadline
               ((log_event (Slept PULL_POLL_INTERVAL_MS) w1)\<lparr>hw_now := hw_now w1 + PULL_POLL_INTERVAL_MS\<rparr>))
      else (Inr (), w))"
  by pat_completeness auto
termination
  by (relation "measure (\<lambda>(th, al, image_ref, deadline, w). deadline - hw_now w)")
    (auto dest!: sym [THEN pull_in_progress_later] simp: PULL_POLL_INTERVAL_MS_def)

definition await_background_pull :: "trainer_host \<Rightarrow> string \<Rightarrow> string \<Rightarrow> unit host_act" where
  "await_background_pull th alias image_ref = (\<lambda>w. await_until th alias image_ref (hw_now w + th_image_pull_timeout_ms th) w)"

text \<open>The ids of the listed images of the repository that have another digest; a set has no order of its own.\<close>

definition listed_image :: "string \<Rightarrow> string \<times> string" where
  "listed_image line = (let i = takeWhile (\<lambda>c. c \<noteq> CHR '' '') line
     in (strip_space i, strip_space (drop (Suc (length i)) line)))"

definition stale_ids :: "trainer_host \<Rightarrow> string \<Rightarrow> string list \<Rightarrow> string list" where
  "stale_ids th digest lines = sort_key (th_hash th)
     (remdups (map fst (filter (\<lambda>(i, d). i \<noteq> [] \<and> d \<noteq> digest) (map listed_image lines))))"

fun remove_images :: "trainer_host \<Rightarrow> string \<Rightarrow> string list \<Rightarrow> string list \<Rightarrow> string list host_act" where
  "remove_images th alias [] removed = returns removed"
| "remove_images th alias (i # is) removed =
     and_then (on_exception (and_then (run_command th alias [''docker'', ''rmi'', i]) (\<lambda>r. returns (outcome_ok r))) (\<lambda>e. returns False))
       (\<lambda>gone. remove_images th alias is (if gone then removed @ [i] else removed))"

definition prune_stale_images :: "trainer_host \<Rightarrow> string \<Rightarrow> ResolvedImage \<Rightarrow> string list host_act" where
  "prune_stale_images th alias img =
     (let repository = before_last (CHR ''@'') (ri_digest_reference img)
      in and_then (on_exception
           (and_then (run_command th alias [''docker'', ''images'', repository, ''--digests'', ''--format'', ''{{.ID}} {{.Digest}}''])
             (\<lambda>r. returns (if outcome_ok r then splitlines (cr_stdout r) else [])))
           (\<lambda>e. returns []))
         (\<lambda>lines. remove_images th alias (stale_ids th (ri_digest img) lines) []))"

definition pull_image :: "trainer_host \<Rightarrow> string \<Rightarrow> ResolvedImage \<Rightarrow> unit host_act" where
  "pull_image th alias img =
     and_then (and_then (image_present_locally th alias (ri_digest_reference img)) (\<lambda>present.
        if present then returns ()
        else and_then (pull_in_progress th alias (ri_tag_reference img)) (\<lambda>busy.
          and_then (if busy then await_background_pull th alias (ri_tag_reference img) else returns ()) (\<lambda>u.
            and_then (image_present_locally th alias (ri_digest_reference img)) (\<lambda>present.
              if present then returns ()
              else and_then (run_within th alias (th_image_pull_timeout_ms th) [''docker'', ''pull'', ri_digest_reference img]) (\<lambda>r.
                if outcome_ok r then returns ()
                else raises (TrainerImagePullError (ri_digest_reference img) (output_or_none r))))))))
       (\<lambda>u. and_then (prune_stale_images th alias img) (\<lambda>removed. returns ()))"

section \<open>Containers\<close>

definition MANAGED_LABEL :: string where "MANAGED_LABEL = ''org.open-edge-platform.physicalai.managed''"
definition JOB_LABEL :: string where "JOB_LABEL = ''org.open-edge-platform.physicalai.job-id''"
definition SERVER_LABEL :: string where "SERVER_LABEL = ''org.open-edge-platform.physicalai.server-id''"
definition INSTANCE_LABEL :: string where "INSTANCE_LABEL = ''org.open-edge-platform.physicalai.backend-instance-id''"
definition IMAGE_DIGEST_LABEL :: string where "IMAGE_DIGEST_LABEL = ''org.open-edge-platform.physicalai.image-digest''"

definition management_labels :: "string \<Rightarrow> string \<Rightarrow> string \<Rightarrow> string \<Rightarrow> (string \<times> string) list" where
  "management_labels job_id server_id backend_instance_id image_digest =
     [(MANAGED_LABEL, ''true''), (JOB_LABEL, job_id), (SERVER_LABEL, server_id), (INSTANCE_LABEL, backend_instance_id),
      (IMAGE_DIGEST_LABEL, image_digest)]"

definition data_volume_name :: "string \<Rightarrow> string" where
  "data_volume_name trainer_id = ''physicalai-trainer-data-'' @ trainer_id"

definition container_name :: "string \<Rightarrow> string" where
  "container_name trainer_id = ''physicalai-trainer-'' @ trainer_id"

definition label_args :: "(string \<times> string) list \<Rightarrow> string list" where
  "label_args labels = map (\<lambda>(k, v). ''--label='' @ k @ ''='' @ v) labels"

record ContainerInspection =
  ci_running :: bool
  ci_labels :: "(string \<times> json) list"

definition container_not_found :: "CommandResult \<Rightarrow> bool" where
  "container_not_found r = list_ex (\<lambda>m. is_infix_str m (py_lower (cr_stderr r))) [''no such object'', ''no such container'']"

definition inspect_command :: "string \<Rightarrow> string \<Rightarrow> string list" where
  "inspect_command format name_or_id = [''docker'', ''inspect'', ''--format'', format, name_or_id]"

definition inspect_container :: "trainer_host \<Rightarrow> string \<Rightarrow> string \<Rightarrow> ContainerInspection option host_act" where
  "inspect_container th alias name_or_id =
     and_then (run_command th alias (inspect_command ''{{.State.Running}}'' name_or_id)) (\<lambda>running_result.
       if \<not> outcome_ok running_result then
         (if container_not_found running_result then returns None
          else raises (ContainerInspectionError name_or_id (output_or_none running_result)))
       else and_then (run_command th alias (inspect_command ''{{json .Config.Labels}}'' name_or_id)) (\<lambda>labels_result.
         if \<not> outcome_ok labels_result then
           (if container_not_found labels_result then returns None
            else raises (ContainerInspectionError name_or_id (output_or_none labels_result)))
         else returns (Some \<lparr>ci_running = (py_lower (first_line running_result) = ''true''),
                ci_labels = json_dict (th_json th (cr_stdout labels_result))\<rparr>)))"

definition owned_by :: "string \<Rightarrow> string \<Rightarrow> (string \<times> json) list \<Rightarrow> bool" where
  "owned_by backend_instance_id trainer_id labels \<longleftrightarrow>
     map_of labels MANAGED_LABEL = Some (JStr ''true'') \<and> map_of labels INSTANCE_LABEL = Some (JStr backend_instance_id)
     \<and> map_of labels SERVER_LABEL = Some (JStr trainer_id)"

fun remove_owned :: "trainer_host \<Rightarrow> string \<Rightarrow> string \<Rightarrow> string list \<Rightarrow> string list \<Rightarrow> string list host_act" where
  "remove_owned th alias trainer_id [] removed = returns removed"
| "remove_owned th alias trainer_id (c # cs) removed =
     and_then (inspect_container th alias c) (\<lambda>inspection.
       case inspection of
         None \<Rightarrow> remove_owned th alias trainer_id cs removed
       | Some i \<Rightarrow>
           if \<not> owned_by (th_instance_id th) trainer_id (ci_labels i) then remove_owned th alias trainer_id cs removed
           else and_then (run_command th alias [''docker'', ''rm'', ''-f'', c]) (\<lambda>r. remove_owned th alias trainer_id cs (removed @ [c])))"

definition remove_stale_containers_on_port :: "trainer_host \<Rightarrow> string \<Rightarrow> int \<Rightarrow> string \<Rightarrow> string list host_act" where
  "remove_stale_containers_on_port th alias port trainer_id =
     and_then (run_command th alias [''docker'', ''ps'', ''-a'', ''--filter'', ''publish='' @ int_str port, ''--format'', ''{{.ID}}'']) (\<lambda>r.
       if \<not> outcome_ok r then returns []
       else remove_owned th alias trainer_id (filter (\<lambda>l. l \<noteq> []) (map strip_space (splitlines (cr_stdout r)))) [])"

definition stop_and_remove_container :: "trainer_host \<Rightarrow> string \<Rightarrow> string \<Rightarrow> unit host_act" where
  "stop_and_remove_container th alias name_or_id =
     and_then (run_command th alias [''docker'', ''stop'', ''--time'', int_str (th_stop_timeout_s th), name_or_id]) (\<lambda>r.
       and_then (run_command th alias [''docker'', ''rm'', ''--force'', name_or_id]) (\<lambda>r. returns ()))"

definition create_data_volume :: "trainer_host \<Rightarrow> string \<Rightarrow> string \<Rightarrow> (string \<times> string) list \<Rightarrow> string \<Rightarrow> unit host_act" where
  "create_data_volume th alias name labels server_name =
     and_then (run_command th alias ([''docker'', ''volume'', ''create''] @ label_args labels @ [name])) (\<lambda>r.
       if outcome_ok r \<or> is_infix_str ''already exists'' (py_lower (cr_stderr r)) then returns ()
       else raises (TrainerContainerLaunchError server_name (output_or_none r)))"

definition remove_volume :: "trainer_host \<Rightarrow> string \<Rightarrow> string \<Rightarrow> unit host_act" where
  "remove_volume th alias name = and_then (run_command th alias [''docker'', ''volume'', ''rm'', name]) (\<lambda>r. returns ())"

definition device_run_args :: "DeviceType \<Rightarrow> string option \<Rightarrow> string list" where
  "device_run_args d render_gid =
     (if d = CUDA then [''--gpus'', ''all'']
      else [''--device'', ''/dev/dri''] @ (case render_gid of None \<Rightarrow> [] | Some g \<Rightarrow> if g = [] then [] else [''--group-add'', g]))"

definition TRAINER_UID :: int where "TRAINER_UID = 10001"
definition TRAINER_GID :: int where "TRAINER_GID = 10001"

definition build_run_argv ::
  "string \<Rightarrow> DeviceType \<Rightarrow> string \<Rightarrow> (string \<times> string) list \<Rightarrow> string \<Rightarrow> int \<Rightarrow> int \<Rightarrow> string option \<Rightarrow> int \<Rightarrow> string list" where
  "build_run_argv image_digest_ref d name labels data_volume remote_container_port stop_timeout_s render_gid shm_size_gb =
     [''docker'', ''run'', ''--detach'', ''--name'', name] @ label_args labels
     @ [''--restart=no'', ''--stop-timeout='' @ int_str stop_timeout_s,
        ''--publish'', ''127.0.0.1::'' @ int_str remote_container_port,
        ''--user'', int_str TRAINER_UID @ '':'' @ int_str TRAINER_GID,
        ''--cap-drop'', ''ALL'', ''--security-opt'', ''no-new-privileges'', ''--read-only'',
        ''--env=TMPDIR=/var/lib/physicalai-trainer'', ''--shm-size='' @ int_str shm_size_gb @ ''g'',
        ''--tmpfs'', ''/tmp:size=2g,uid='' @ int_str TRAINER_UID @ '',gid='' @ int_str TRAINER_GID,
        ''--mount'', ''type=volume,src='' @ data_volume @ '',dst=/var/lib/physicalai-trainer'']
     @ device_run_args d render_gid @ [image_digest_ref]"

definition launch_container :: "trainer_host \<Rightarrow> string \<Rightarrow> string list \<Rightarrow> string \<Rightarrow> string host_act" where
  "launch_container th alias argv server_name =
     and_then (run_command th alias argv) (\<lambda>r.
       if \<not> outcome_ok r \<or> first_line r = [] then raises (TrainerContainerLaunchError server_name (output_or_none r))
       else returns (first_line r))"

definition resolve_render_group_gid :: "trainer_host \<Rightarrow> string \<Rightarrow> string option host_act" where
  "resolve_render_group_gid th alias =
     and_then (run_command th alias [''sh'', ''-c'', ''stat -c %g $(ls /dev/dri/renderD* 2>/dev/null | head -n1) 2>/dev/null''])
       (\<lambda>r. returns (text_or_none (strip_space (first_line r))))"

section \<open>The persistent trainer\<close>

definition ssh_target :: "RemoteTrainer \<Rightarrow> host_exn + ssh_target" where
  "ssh_target rt =
     (case rt_connection rt of
        Ssh c \<Rightarrow>
          (case sc_ssh_host_alias c of
             Some (x # xs) \<Rightarrow> Inr (AliasTarget (x # xs))
           | _ \<Rightarrow> (case sc_ssh_connection c of
                 None \<Rightarrow> Inl (HostValueError ''SSH trainer has no configured host'')
               | Some m \<Rightarrow> Inr (DirectTarget (ms_hostname m) (ms_port m) (ms_user m) (ms_identity_file m))))
      | _ \<Rightarrow> Inl (HostValueError ''Trainer is not an SSH trainer''))"

definition note_phase :: "string \<Rightarrow> string \<Rightarrow> unit host_act" where
  "note_phase i phase = updates (\<lambda>w. w\<lparr>hw_launch_phase := (hw_launch_phase w)(i \<mapsto> phase)\<rparr>)"

definition set_failure :: "string \<Rightarrow> string \<Rightarrow> unit host_act" where
  "set_failure i reason = updates (\<lambda>w. w\<lparr>hw_launch_failure := (hw_launch_failure w)(i \<mapsto> reason)\<rparr>)"

definition intel_gpu_line :: "string \<Rightarrow> bool" where
  "intel_gpu_line line \<longleftrightarrow> is_infix_str ''Device #'' line \<and> is_infix_str ''Intel'' line \<and> \<not> is_infix_str ''CPU'' line"

definition detect_device :: "CommandResult \<Rightarrow> CommandResult \<Rightarrow> DeviceType option" where
  "detect_device cuda xpu =
     (if outcome_ok cuda then Some CUDA
      else if outcome_ok xpu \<and> list_ex intel_gpu_line (splitlines (cr_stdout xpu)) then Some XPU else None)"

text \<open>\<^verbatim>\<open>argv[argv.index(old)] = new\<close>; the index raises where there is none.\<close>

fun replace_first :: "string \<Rightarrow> string \<Rightarrow> string list \<Rightarrow> string list option" where
  "replace_first old new [] = None"
| "replace_first old new (x # xs) = (if x = old then Some (new # xs) else map_option (\<lambda>ys. x # ys) (replace_first old new xs))"

text \<open>The message of a launch error names the trainer and what the host printed.\<close>

definition launch_message :: "string \<Rightarrow> string option \<Rightarrow> string" where
  "launch_message server_name detail = ''Could not start the trainer container on remote server '' @ [CHR 0x27] @ server_name @ [CHR 0x27]
     @ (case detail of None \<Rightarrow> '''' | Some d \<Rightarrow> '': '' @ d) @ ''.''"

definition port_taken :: "host_exn \<Rightarrow> bool" where
  "port_taken e = (case e of
      TrainerContainerLaunchError n d \<Rightarrow> list_ex (\<lambda>m. is_infix_str m (py_lower (launch_message n d)))
        [''already allocated'', ''address already in use'']
    | _ \<Rightarrow> False)"

definition launch_trainer :: "trainer_host \<Rightarrow> string \<Rightarrow> string list \<Rightarrow> RemoteTrainer \<Rightarrow> unit host_act" where
  "launch_trainer th alias argv rt = (\<lambda>w.
     (case launch_container th alias argv (rt_name rt) w of
        (Inr c, w1) \<Rightarrow> (Inr (), w1)
      | (Inl e, w1) \<Rightarrow> (Inl e, if port_taken e then snd (set_failure (rt_id rt) ''remote_port_in_use'' w1) else w1)))"

definition run_image :: "trainer_host \<Rightarrow> string \<Rightarrow> RemoteTrainer \<Rightarrow> int \<Rightarrow> DeviceType \<Rightarrow> ResolvedImage \<Rightarrow> unit host_act" where
  "run_image th alias rt remote_port d img =
     (let i = rt_id rt; labels = management_labels i i (th_instance_id th) (ri_digest img)
      in and_then (create_data_volume th alias (data_volume_name i) labels (rt_name rt)) (\<lambda>u.
         and_then (if d = CUDA then returns None else resolve_render_group_gid th alias) (\<lambda>render_gid.
           case replace_first ''127.0.0.1::8001'' (''127.0.0.1:'' @ int_str remote_port @ '':8001'')
                  (build_run_argv (ri_digest_reference img) d (container_name i) labels (data_volume_name i) 8001 (th_stop_timeout_s th)
                     render_gid (th_shm_size_gb th)) of
             None \<Rightarrow> raises (HostValueError ''127.0.0.1::8001 is not in list'')
           | Some argv \<Rightarrow>
               and_then (note_phase i ''Starting trainer container'') (\<lambda>u.
               and_then (remove_stale_containers_on_port th alias remote_port i) (\<lambda>removed.
                 launch_trainer th alias argv rt)))))"

definition obtain_image :: "trainer_host \<Rightarrow> string \<Rightarrow> string \<Rightarrow> DeviceType \<Rightarrow> ResolvedImage host_act" where
  "obtain_image th alias i d =
     and_then (note_phase i ''Resolving trainer image'') (\<lambda>u.
     and_then (resolve_protocol_image th alias d DEFAULT_PROTOCOL_VERSION) (\<lambda>img.
     and_then (note_phase i ''Verifying trainer image'') (\<lambda>u.
     and_then (verify_image_signature th img) (\<lambda>u.
     and_then (note_phase i ''Pulling trainer image'') (\<lambda>u.
     and_then (pull_image th alias img) (\<lambda>u. returns img))))))"

definition start_on_host :: "trainer_host \<Rightarrow> string \<Rightarrow> RemoteTrainer \<Rightarrow> int \<Rightarrow> unit host_act" where
  "start_on_host th alias rt remote_port =
     (let i = rt_id rt
      in and_then (note_phase i ''Checking Docker'') (\<lambda>u.
         and_then (run_command th alias [''docker'', ''version'', ''--format'', ''{{.Server.Version}}'']) (\<lambda>docker.
           if \<not> outcome_ok docker
           then and_then (set_failure i ''docker_unavailable'') (\<lambda>u. raises (HostValueError ''Docker is not available on the SSH host''))
           else and_then (inspect_container th alias (container_name i)) (\<lambda>existing.
             if (case existing of Some c \<Rightarrow> ci_running c | None \<Rightarrow> False) then returns ()
             else and_then (if existing \<noteq> None then stop_and_remove_container th alias (container_name i) else returns ()) (\<lambda>u.
               and_then (note_phase i ''Detecting accelerator'') (\<lambda>u.
               and_then (run_command th alias [''nvidia-smi'', ''-L'']) (\<lambda>cuda.
               and_then (run_command th alias [''clinfo'', ''-l'']) (\<lambda>xpu.
                 case detect_device cuda xpu of
                   None \<Rightarrow> and_then (set_failure i ''accelerator_unavailable'')
                       (\<lambda>u. raises (HostValueError ''No supported CUDA or XPU accelerator found on SSH trainer''))
                 | Some d \<Rightarrow> and_then (obtain_image th alias i d) (\<lambda>img. run_image th alias rt remote_port d img)))))))))"

definition start_trainer :: "trainer_host \<Rightarrow> RemoteTrainer \<Rightarrow> unit host_act" where
  "start_trainer th rt =
     (case rt_connection rt of
        Ssh c \<Rightarrow>
          (case ssh_target rt of
             Inl e \<Rightarrow> raises e
           | Inr target \<Rightarrow>
               and_then (updates (\<lambda>w. w\<lparr>hw_launch_started_at := (hw_launch_started_at w)(rt_id rt \<mapsto> hw_now w),
                   hw_launch_failure := (hw_launch_failure w)(rt_id rt := None),
                   hw_launch_phase := (hw_launch_phase w)(rt_id rt \<mapsto> ''Connecting to '' @ [CHR 0x27] @ target_name target @ [CHR 0x27])\<rparr>))
                 (\<lambda>u. finally_notes (with_transport th (start_on_host th (target_name target) rt (sc_ssh_remote_port c)))
                   (\<lambda>w. w\<lparr>hw_launch_phase := (hw_launch_phase w)(rt_id rt := None)\<rparr>)))
      | _ \<Rightarrow> returns ())"

definition clear_launch_state :: "string \<Rightarrow> host_world \<Rightarrow> host_world" where
  "clear_launch_state i w = w\<lparr>hw_launch_phase := (hw_launch_phase w)(i := None), hw_launch_started_at := (hw_launch_started_at w)(i := None),
     hw_launch_failure := (hw_launch_failure w)(i := None)\<rparr>"

definition stop_trainer :: "trainer_host \<Rightarrow> RemoteTrainer \<Rightarrow> bool \<Rightarrow> unit host_act" where
  "stop_trainer th rt remove_data =
     (case rt_connection rt of
        Ssh c \<Rightarrow>
          (case ssh_target rt of
             Inl e \<Rightarrow> raises e
           | Inr target \<Rightarrow>
               and_then (with_transport th
                   (and_then (stop_and_remove_container th (target_name target) (container_name (rt_id rt))) (\<lambda>u.
                      if remove_data then remove_volume th (target_name target) (data_volume_name (rt_id rt)) else returns ())))
                 (\<lambda>u. updates (clear_launch_state (rt_id rt))))
      | _ \<Rightarrow> returns ())"

text \<open>The state that a health check reads, in milliseconds.\<close>

definition STARTUP_GRACE_PERIOD_MS :: nat where "STARTUP_GRACE_PERIOD_MS = 15 * 60 * 1000"

definition is_within_startup_grace_period :: "string \<Rightarrow> host_world \<Rightarrow> bool" where
  "is_within_startup_grace_period i w \<longleftrightarrow> hw_launch_phase w i \<noteq> None
     \<or> (case hw_launch_started_at w i of None \<Rightarrow> False | Some t \<Rightarrow> hw_now w < t + STARTUP_GRACE_PERIOD_MS)"

definition mark_reachable :: "string \<Rightarrow> host_world \<Rightarrow> host_world" where
  "mark_reachable i w = w\<lparr>hw_launch_started_at := (hw_launch_started_at w)(i := None), hw_launch_failure := (hw_launch_failure w)(i := None)\<rparr>"

definition set_install_phase :: "string \<Rightarrow> string option \<Rightarrow> host_world \<Rightarrow> host_world" where
  "set_install_phase i phase w = w\<lparr>hw_launch_phase := (hw_launch_phase w)(i := phase)\<rparr>"

definition set_install_failure :: "string \<Rightarrow> string option \<Rightarrow> host_world \<Rightarrow> host_world" where
  "set_install_failure i reason w = w\<lparr>hw_launch_failure := (hw_launch_failure w)(i := reason)\<rparr>"

end
