(* ===== verification/HostSetup.thy ===== *)
theory HostSetup
  imports TrainerHost
begin

text \<open>
  Setting up the host of a trainer on the user's request: \<^verbatim>\<open>services/ssh/host_installer.py\<close> and the background
  work of \<^verbatim>\<open>install_remote_trainer\<close> and \<^verbatim>\<open>reboot_installed_host\<close> in
  \<^verbatim>\<open>services/remote_trainer_service.py\<close>. The script that is sent is bundled with the studio; what it does on the
  host is an answer of the host.
\<close>

text \<open>\<open>try ... finally\<close> with a clean-up that may raise itself.\<close>

definition finally_do :: "'a host_act \<Rightarrow> unit host_act \<Rightarrow> 'a host_act" where
  "finally_do m f = (\<lambda>w. case m w of (r, w1) \<Rightarrow> (case f w1 of (Inl e, w2) \<Rightarrow> (Inl e, w2) | (Inr u, w2) \<Rightarrow> (r, w2)))"

definition upload_file :: "trainer_host \<Rightarrow> string \<Rightarrow> unit host_act" where
  "upload_file th destination = (\<lambda>w.
     (let r = th_upload th (hw_log w) destination; w1 = log_event (Uploaded destination r) w
      in (case r of None \<Rightarrow> Inr () | Some e \<Rightarrow> Inl (SshExn e), w1)))"

section \<open>The installer\<close>

definition ERROR_MARKERS :: "string list" where
  "ERROR_MARKERS = [''SUDO_REQUIRED'', ''ACTIVE_CONTAINERS'', ''APT_UPDATE_FAILED'', ''PACKAGE_MANAGER_BROKEN'', ''DOCKER_INSTALL_FAILED'',
     ''DOCKER_PROXY_CONFIG_FAILED'', ''DOCKER_PROXY_UNAVAILABLE'', ''BUILDX_INSTALL_FAILED'', ''BUILDX_UNAVAILABLE'',
     ''NVIDIA_DRIVER_INSTALL_FAILED'', ''NVIDIA_DRIVER_UNAVAILABLE'', ''NVIDIA_TOOLKIT_INSTALL_FAILED'', ''NVIDIA_TOOLKIT_REPO_FAILED'',
     ''NVIDIA_RUNTIME_CONFIG_FAILED'', ''DOCKER_RESTART_FAILED'', ''DOCKER_USER_ACCESS_MISSING'', ''INTEL_INSTALL_FAILED'',
     ''INTEL_DOWNLOAD_FAILED'', ''INTEL_CHECKSUM_FAILED'', ''DOCKER_MISSING'', ''DOCKER_UNAVAILABLE'',
     ''NVIDIA_CONTAINER_RUNTIME_UNAVAILABLE'', ''INTEL_COMPUTE_RUNTIME_UNAVAILABLE'', ''INTEL_RENDER_DEVICE_UNAVAILABLE'',
     ''INTEL_KERNEL_UNAVAILABLE'', ''GPU_AMBIGUOUS'', ''UNSUPPORTED_OS'']"

definition INSTALL_TIMEOUT_MS :: nat where "INSTALL_TIMEOUT_MS = 1800 * 1000"

definition private_directory :: "string \<Rightarrow> bool" where
  "private_directory d \<longleftrightarrow> starts_with ''/tmp/physicalai-installer.'' d
     \<and> length (remove_prefix ''/tmp/physicalai-installer.'' d) = 8 \<and> list_all is_alnum (remove_prefix ''/tmp/physicalai-installer.'' d)"

definition install_marker :: "CommandResult \<Rightarrow> string" where
  "install_marker r =
     (if outcome_ok r then ''ready''
      else if cr_exit_status r = 10 then ''reboot_required''
      else if cr_exit_status r = 11 then ''relogin_required''
      else case find (\<lambda>m. m \<in> set ERROR_MARKERS) (map (takeWhile (\<lambda>c. c \<noteq> CHR '':'')) (rev (splitlines (cr_stdout r)))) of
          Some m \<Rightarrow> py_lower m
        | None \<Rightarrow> if cr_failure r = Some TIMEOUT then ''installation_timeout'' else ''installation_failed'')"

definition install_argv :: "string \<Rightarrow> bool \<Rightarrow> string list" where
  "install_argv directory check_only =
     [''bash'', ''-c'', ''bash \"$1\" \"$3\" >\"$2\" 2>&1; status=$?; tail -n 20 \"$2\"; exit \"$status\"'', ''_'',
      directory @ ''/host-prerequisites.sh'', directory @ ''/install.log'', if check_only then ''--check'' else ''--install'']"

definition install_on_host :: "trainer_host \<Rightarrow> string \<Rightarrow> bool \<Rightarrow> string host_act" where
  "install_on_host th alias check_only =
     and_then (run_command th alias [''mktemp'', ''-d'', ''/tmp/physicalai-installer.XXXXXXXX'']) (\<lambda>temporary.
       let directory = first_line temporary; script = directory @ ''/host-prerequisites.sh''; log = directory @ ''/install.log''
       in if \<not> outcome_ok temporary \<or> \<not> private_directory directory then returns ''transfer_failed''
          else finally_do
            (and_then (upload_file th script) (\<lambda>u.
               and_then (run_within th alias INSTALL_TIMEOUT_MS (install_argv directory check_only)) (\<lambda>r. returns (install_marker r))))
            (and_then (run_command th alias [''rm'', ''-f'', script, log]) (\<lambda>r.
               and_then (run_command th alias [''rmdir'', directory]) (\<lambda>r. returns ()))))"

text \<open>Group changes need a new login.\<close>

definition install_ssh_prerequisites :: "trainer_host \<Rightarrow> RemoteTrainer \<Rightarrow> string host_act" where
  "install_ssh_prerequisites th rt =
     (case ssh_target rt of
        Inl e \<Rightarrow> raises e
      | Inr target \<Rightarrow>
          and_then (with_transport th (install_on_host th (target_name target) False)) (\<lambda>outcome.
            if outcome = ''relogin_required'' then with_transport th (install_on_host th (target_name target) True)
            else returns outcome))"

section \<open>The background work\<close>

definition report_failure :: "string \<Rightarrow> string \<Rightarrow> unit host_act" where
  "report_failure i reason = updates (set_install_failure i (Some reason))"

definition start_if_ready :: "trainer_host \<Rightarrow> RemoteTrainer \<Rightarrow> string \<Rightarrow> unit host_act" where
  "start_if_ready th rt outcome = (if outcome = ''ready'' then start_trainer th rt else report_failure (rt_id rt) outcome)"

definition install_failure_of :: "host_exn \<Rightarrow> string" where
  "install_failure_of e =
     (case e of
        SshExn (SshHostKeyRefused a) \<Rightarrow> ''ssh_install_host_key_failed''
      | SshExn (SshNotAuthenticated a) \<Rightarrow> ''ssh_install_auth_failed''
      | SshExn (SshConnectionError a r) \<Rightarrow> ''ssh_install_connection_failed''
      | _ \<Rightarrow> ''installation_failed'')"

definition run_install :: "trainer_host \<Rightarrow> RemoteTrainer \<Rightarrow> unit host_act" where
  "run_install th rt =
     finally_notes
       (on_exception (and_then (install_ssh_prerequisites th rt) (start_if_ready th rt))
         (\<lambda>e. report_failure (rt_id rt) (install_failure_of e)))
       (set_install_phase (rt_id rt) None)"

definition list_containers :: "string list" where
  "list_containers = [''sh'', ''-c'', ''if [ \"$(id -u)\" -eq 0 ]; then docker ps -q; else sudo -n docker ps -q; fi'']"

definition read_boot_id :: "string list" where
  "read_boot_id = [''cat'', ''/proc/sys/kernel/random/boot_id'']"

text \<open>
  Asking the host to reboot: the boot id it had, or \<open>None\<close> where a failure was reported. A connection that drops with
  the command counts as a reboot.
\<close>

definition request_reboot :: "trainer_host \<Rightarrow> string \<Rightarrow> string \<Rightarrow> string option host_act" where
  "request_reboot th alias i =
     and_then (run_command th alias list_containers) (\<lambda>containers.
       if \<not> outcome_ok containers then and_then (report_failure i ''docker_unavailable'') (\<lambda>u. returns None)
       else if strip_space (cr_stdout containers) \<noteq> [] then and_then (report_failure i ''reboot_blocked_active_containers'') (\<lambda>u. returns None)
       else and_then (run_command th alias read_boot_id) (\<lambda>before.
         if \<not> outcome_ok before then raises (HostValueError ''Could not read remote boot ID'')
         else (\<lambda>w. case run_command th alias [''sudo'', ''-n'', ''reboot''] w of
             (Inr r, w1) \<Rightarrow>
               if outcome_ok r then (Inr (Some (first_line before)), w1)
               else and_then (report_failure i ''reboot_failed'') (\<lambda>u. returns None) w1
           | (Inl e, w1) \<Rightarrow>
               (case e of SshExn (SshConnectionError a why) \<Rightarrow> (Inr (Some (first_line before)), w1) | _ \<Rightarrow> (Inl e, w1)))))"

definition REBOOT_POLL_MS :: nat where "REBOOT_POLL_MS = 2000"

definition check_rebooted :: "trainer_host \<Rightarrow> string \<Rightarrow> string \<Rightarrow> string \<Rightarrow> string option host_act" where
  "check_rebooted th alias i boot_id =
     with_transport th (and_then (run_command th alias read_boot_id) (\<lambda>after.
       if \<not> outcome_ok after \<or> first_line after = boot_id then returns None
       else and_then (updates (set_install_phase i (Some ''Verifying installed prerequisites''))) (\<lambda>u.
         and_then (install_on_host th alias False) (\<lambda>outcome. returns (Some outcome)))))"

text \<open>Up to 300 looks, two seconds apart; a host that cannot be reached is looked at again. \<open>None\<close> where it never came back.\<close>

fun await_reboot :: "nat \<Rightarrow> trainer_host \<Rightarrow> string \<Rightarrow> string \<Rightarrow> string \<Rightarrow> string option host_act" where
  "await_reboot 0 th alias i boot_id w = (Inr None, w)"
| "await_reboot (Suc n) th alias i boot_id w =
     (if th_interrupts th (hw_log w) then (Inl (SshExn Interrupted), w)
      else (case check_rebooted th alias i boot_id ((log_event (Slept REBOOT_POLL_MS) w)\<lparr>hw_now := hw_now w + REBOOT_POLL_MS\<rparr>) of
          (Inr (Some outcome), w1) \<Rightarrow> (Inr (Some outcome), w1)
        | (Inr None, w1) \<Rightarrow> await_reboot n th alias i boot_id w1
        | (Inl e, w1) \<Rightarrow> (case e of SshExn (SshConnectionError a why) \<Rightarrow> await_reboot n th alias i boot_id w1 | _ \<Rightarrow> (Inl e, w1))))"

definition reboot_workflow :: "trainer_host \<Rightarrow> RemoteTrainer \<Rightarrow> unit host_act" where
  "reboot_workflow th rt =
     (case ssh_target rt of
        Inl e \<Rightarrow> raises e
      | Inr target \<Rightarrow>
          and_then (with_transport th (request_reboot th (target_name target) (rt_id rt))) (\<lambda>asked.
            case asked of
              None \<Rightarrow> returns ()
            | Some boot_id \<Rightarrow>
                and_then (await_reboot 300 th (target_name target) (rt_id rt) boot_id) (\<lambda>outcome.
                  case outcome of
                    None \<Rightarrow> report_failure (rt_id rt) ''reboot_failed''
                  | Some outcome \<Rightarrow>
                      and_then (if outcome = ''relogin_required'' then install_ssh_prerequisites th rt else returns outcome)
                        (start_if_ready th rt))))"

definition run_reboot :: "trainer_host \<Rightarrow> RemoteTrainer \<Rightarrow> unit host_act" where
  "run_reboot th rt =
     finally_notes (on_exception (reboot_workflow th rt) (\<lambda>e. report_failure (rt_id rt) ''reboot_failed''))
       (set_install_phase (rt_id rt) None)"

end
