(* ===== verification/TrainerHostProps.thy ===== *)
theory TrainerHostProps
  imports HostSetup
begin

text \<open>
  What the studio does to the host of a trainer. A policy says which events may follow a transcript; the rules for
  transcripts are proved once in a locale over a policy, and interpreted on the policy that the operations keep: an
  image runs only after its signature was checked, in a confined container, and nothing is removed but what belongs
  to the trainer.
\<close>

section \<open>Transcripts that keep a policy\<close>

fun admitted :: "(trainer_event list \<Rightarrow> trainer_event \<Rightarrow> bool) \<Rightarrow> trainer_event list \<Rightarrow> trainer_event list \<Rightarrow> bool" where
  "admitted ok past [] = True"
| "admitted ok past (e # es) = (ok past e \<and> admitted ok (past @ [e]) es)"

lemma admitted_snoc: "admitted ok past (es @ [e]) \<longleftrightarrow> admitted ok past es \<and> ok (past @ es) e"
  by (induction es arbitrary: past) auto

lemma admitted_both: "admitted (\<lambda>l e. ok l e \<and> ok' l e) past es \<longleftrightarrow> admitted ok past es \<and> admitted ok' past es"
  by (induction es arbitrary: past) auto

definition lasts :: "(trainer_event list \<Rightarrow> bool) \<Rightarrow> bool" where
  "lasts P \<longleftrightarrow> (\<forall>l l'. P l \<longrightarrow> P (l @ l'))"

lemma lasts_rules [intro, simp]:
  "lasts (\<lambda>l. True)" "lasts (\<lambda>l. e \<in> set l)" "lasts P \<Longrightarrow> lasts Q \<Longrightarrow> lasts (\<lambda>l. P l \<and> Q l)"
  "(\<And>x. lasts (R x)) \<Longrightarrow> lasts (\<lambda>l. \<exists>x. R x l)" "lasts (\<lambda>l. c)"
  by (auto simp: lasts_def)

lemma lastsD: "lasts P \<Longrightarrow> P l \<Longrightarrow> P (l @ l')"
  by (simp add: lasts_def)

locale transcript_policy =
  fixes ok :: "trainer_event list \<Rightarrow> trainer_event \<Rightarrow> bool"
  assumes quiet: "ok l (Dialed r)" "ok l (Slept n)" "ok l ClosedConnection" "ok l (CheckedSignature ref s)" "ok l (Uploaded path u)"
begin

text \<open>Started on a transcript that keeps the policy and has \<open>P\<close>, an operation keeps it, extends the transcript, and has \<open>Q\<close> where it returns.\<close>

definition keeps_policy :: "(trainer_event list \<Rightarrow> bool) \<Rightarrow> 'a host_act \<Rightarrow> ('a \<Rightarrow> trainer_event list \<Rightarrow> bool) \<Rightarrow> bool" where
  "keeps_policy P m Q \<longleftrightarrow> (\<forall>w. admitted ok [] (hw_log w) \<and> P (hw_log w) \<longrightarrow>
     (case m w of (r, w1) \<Rightarrow> admitted ok [] (hw_log w1) \<and> (\<exists>es. hw_log w1 = hw_log w @ es)
        \<and> (case r of Inl e \<Rightarrow> True | Inr a \<Rightarrow> Q a (hw_log w1))))"

lemma keeps_policyD:
  assumes "keeps_policy P m Q" "admitted ok [] (hw_log w)" "P (hw_log w)" "m w = (r, w1)"
  shows "admitted ok [] (hw_log w1)" "\<exists>es. hw_log w1 = hw_log w @ es" "r = Inr a \<Longrightarrow> Q a (hw_log w1)"
proof -
  have "case (r, w1) of (r, w1) \<Rightarrow> admitted ok [] (hw_log w1) \<and> (\<exists>es. hw_log w1 = hw_log w @ es)
        \<and> (case r of Inl e \<Rightarrow> True | Inr a \<Rightarrow> Q a (hw_log w1))"
    using assms(1) [unfolded keeps_policy_def, rule_format, of w] assms(2-4) by simp
  then show "admitted ok [] (hw_log w1)" "\<exists>es. hw_log w1 = hw_log w @ es" "r = Inr a \<Longrightarrow> Q a (hw_log w1)" by auto
qed

lemma keeps_policyI:
  assumes "\<And>w r w1. admitted ok [] (hw_log w) \<Longrightarrow> P (hw_log w) \<Longrightarrow> m w = (r, w1)
     \<Longrightarrow> admitted ok [] (hw_log w1) \<and> (\<exists>es. hw_log w1 = hw_log w @ es) \<and> (\<forall>a. r = Inr a \<longrightarrow> Q a (hw_log w1))"
  shows "keeps_policy P m Q"
  using assms unfolding keeps_policy_def by (auto split: sum.splits)

lemma keeps_returns: "(\<And>l. P l \<Longrightarrow> Q a l) \<Longrightarrow> keeps_policy P (returns a) Q"
  by (simp add: keeps_policy_def returns_def)

lemma keeps_raises: "keeps_policy P (raises e) Q"
  by (simp add: keeps_policy_def raises_def)

lemma keeps_updates: "(\<And>w. hw_log (f w) = hw_log w) \<Longrightarrow> (\<And>l. P l \<Longrightarrow> Q () l) \<Longrightarrow> keeps_policy P (updates f) Q"
  by (simp add: keeps_policy_def updates_def)

lemma keeps_then:
  assumes m: "keeps_policy P m Q" and f: "\<And>a. keeps_policy (Q a) (f a) R"
  shows "keeps_policy P (and_then m f) R"
proof (rule keeps_policyI)
  fix w r w2 assume a: "admitted ok [] (hw_log w)" "P (hw_log w)" "and_then m f w = (r, w2)"
  obtain r1 w1 where m1: "m w = (r1, w1)" by fastforce
  note k = keeps_policyD [OF m a(1,2) m1]
  show "admitted ok [] (hw_log w2) \<and> (\<exists>es. hw_log w2 = hw_log w @ es) \<and> (\<forall>b. r = Inr b \<longrightarrow> R b (hw_log w2))"
  proof (cases r1)
    case (Inl e)
    then show ?thesis using a(3) m1 k by (auto simp: and_then_def)
  next
    case (Inr x)
    then have f2: "f x w1 = (r, w2)" using a(3) m1 by (simp add: and_then_def)
    note k2 = keeps_policyD [OF f k(1) k(3) [OF Inr] f2]
    show ?thesis using k(2) k2 by auto
  qed
qed

lemma policy_weaken:
  assumes m: "keeps_policy P' m Q'" and P: "\<And>l. P l \<Longrightarrow> P' l" and Q: "\<And>a l. Q' a l \<Longrightarrow> Q a l"
  shows "keeps_policy P m Q"
proof (rule keeps_policyI, intro conjI allI impI)
  fix w r w1 assume a: "admitted ok [] (hw_log w)" "P (hw_log w)" "m w = (r, w1)"
  note k = keeps_policyD [OF m a(1) P [OF a(2)] a(3)]
  show "admitted ok [] (hw_log w1)" "\<exists>es. hw_log w1 = hw_log w @ es" by (rule k)+
  show "Q b (hw_log w1)" if "r = Inr b" for b by (rule Q [OF k(3) [OF that]])
qed

lemma keeps_frame:
  assumes m: "keeps_policy P m Q" and F: "lasts F"
  shows "keeps_policy (\<lambda>l. P l \<and> F l) m (\<lambda>a l. Q a l \<and> F l)"
proof (rule keeps_policyI, intro conjI allI impI)
  fix w r w1 assume a: "admitted ok [] (hw_log w)" "P (hw_log w) \<and> F (hw_log w)" "m w = (r, w1)"
  note k = keeps_policyD [OF m a(1) conjunct1 [OF a(2)] a(3)]
  show "admitted ok [] (hw_log w1)" "\<exists>es. hw_log w1 = hw_log w @ es" by (rule k)+
  show "Q b (hw_log w1)" if "r = Inr b" for b by (rule k(3) [OF that])
  show "F (hw_log w1)" using k(2) lastsD [OF F conjunct2 [OF a(2)]] by (elim exE) simp
qed

text \<open>Where only what lasts matters.\<close>

lemma keeps_holding: "keeps_policy P m (\<lambda>a l. True) \<Longrightarrow> lasts P \<Longrightarrow> keeps_policy P m (\<lambda>a. P)"
  by (rule policy_weaken [where P' = "\<lambda>l. P l \<and> P l" and Q' = "\<lambda>a l. True \<and> P l", OF keeps_frame]) simp_all

lemma keeps_run:
  assumes "\<And>l r. P l \<Longrightarrow> ok l (Ran argv r)" "lasts P"
  shows "keeps_policy P (run_within th al budget argv) (\<lambda>r l. Ran argv (Inr r) \<in> set l \<and> P l)"
  using assms(1) quiet lastsD [OF assms(2)] by (auto simp: keeps_policy_def run_within_def Let_def log_event_def admitted_snoc lift_ssh_def
      split: prod.splits sum.splits)

lemma keeps_on_exception:
  assumes m: "keeps_policy P m Q" and h: "\<And>e. keeps_policy P (h e) Q" and P: "lasts P"
  shows "keeps_policy P (on_exception m h) Q"
proof (rule keeps_policyI)
  fix w r w2 assume a: "admitted ok [] (hw_log w)" "P (hw_log w)" "on_exception m h w = (r, w2)"
  obtain r1 w1 where m1: "m w = (r1, w1)" by fastforce
  note k = keeps_policyD [OF m a(1,2) m1]
  show "admitted ok [] (hw_log w2) \<and> (\<exists>es. hw_log w2 = hw_log w @ es) \<and> (\<forall>b. r = Inr b \<longrightarrow> Q b (hw_log w2))"
  proof (cases "(\<exists>b. r1 = Inr b) \<or> r1 = Inl (SshExn Interrupted)")
    case True
    then show ?thesis using a(3) m1 k by (auto simp: on_exception_def)
  next
    case False
    then obtain e where e: "h e w1 = (r, w2)" using a(3) m1 by (cases r1) (auto simp: on_exception_def)
    have "P (hw_log w1)" using k(2) lastsD [OF P a(2)] by (elim exE) simp
    note k2 = keeps_policyD [OF h k(1) this e]
    have "\<exists>es. hw_log w2 = hw_log w @ es" using k(2) k2(2) by (elim exE) simp
    then show ?thesis using k2(1,3) by simp
  qed
qed

lemma keeps_finally:
  assumes m: "keeps_policy P m Q" and f: "\<And>w. hw_log (f w) = hw_log w"
  shows "keeps_policy P (finally_notes m f) Q"
proof (rule keeps_policyI)
  fix w r w2 assume a: "admitted ok [] (hw_log w)" "P (hw_log w)" "finally_notes m f w = (r, w2)"
  obtain w1 where m1: "m w = (r, w1)" "w2 = f w1" using a(3) by (auto simp: finally_notes_def split: prod.splits)
  show "admitted ok [] (hw_log w2) \<and> (\<exists>es. hw_log w2 = hw_log w @ es) \<and> (\<forall>b. r = Inr b \<longrightarrow> Q b (hw_log w2))"
    using keeps_policyD [OF m a(1,2) m1(1)] m1(2) f by auto
qed

lemma keeps_transport:
  assumes m: "keeps_policy P m Q" and P: "lasts P" and Q: "\<And>a. lasts (Q a)"
  shows "keeps_policy P (with_transport th m) Q"
proof (rule keeps_policyI)
  fix w r w2 assume a: "admitted ok [] (hw_log w)" "P (hw_log w)" "with_transport th m w = (r, w2)"
  show "admitted ok [] (hw_log w2) \<and> (\<exists>es. hw_log w2 = hw_log w @ es) \<and> (\<forall>b. r = Inr b \<longrightarrow> Q b (hw_log w2))"
  proof (cases "th_connect th (hw_log w)")
    case (Some e)
    then show ?thesis using a quiet by (auto simp: with_transport_def log_event_def admitted_snoc)
  next
    case None
    obtain w1 where m1: "m (log_event (Dialed None) w) = (r, w1)" "w2 = log_event ClosedConnection w1"
      using a(3) None by (auto simp: with_transport_def finally_notes_def split: prod.splits)
    have "admitted ok [] (hw_log (log_event (Dialed None) w))" "P (hw_log (log_event (Dialed None) w))"
      using a quiet lastsD [OF P] by (simp_all add: log_event_def admitted_snoc)
    note k = keeps_policyD [OF m this m1(1)]
    show ?thesis using k m1(2) quiet lastsD [OF Q] by (auto simp: log_event_def admitted_snoc)
  qed
qed

lemma keeps_signature: "lasts P \<Longrightarrow> keeps_policy P (verify_image_signature th img)
    (\<lambda>u l. CheckedSignature (ri_digest_reference img) Authentic \<in> set l \<and> P l)"
  using quiet lastsD [of P] by (auto simp: keeps_policy_def verify_image_signature_def Let_def log_event_def admitted_snoc
      split: signature_result.splits)

lemma keeps_if: "(c \<Longrightarrow> keeps_policy P m Q) \<Longrightarrow> (\<not> c \<Longrightarrow> keeps_policy P m' Q) \<Longrightarrow> keeps_policy P (if c then m else m') Q"
  by simp

end

section \<open>The policy\<close>

definition authentic :: "string \<Rightarrow> trainer_event list \<Rightarrow> bool" where
  "authentic ref l \<longleftrightarrow> CheckedSignature ref Authentic \<in> set l"

text \<open>The options before the image of a \<^verbatim>\<open>docker run\<close>, as docker reads them: with an equals sign, without a value, or with the next argument as value.\<close>

fun docker_options :: "string list \<Rightarrow> (string \<times> string) list option" where
  "docker_options [] = Some []"
| "docker_options (a # as) =
     (if \<not> starts_with ''--'' a then None
      else if CHR ''='' \<in> set a then map_option (\<lambda>os. (takeWhile (\<lambda>c. c \<noteq> CHR ''='') a, drop 1 (dropWhile (\<lambda>c. c \<noteq> CHR ''='') a)) # os) (docker_options as)
      else if a \<in> {''--detach'', ''--read-only'', ''--privileged'', ''--rm'', ''--init''} then map_option (\<lambda>os. (a, '''') # os) (docker_options as)
      else (case as of [] \<Rightarrow> None | v # vs \<Rightarrow> map_option (\<lambda>os. (a, v) # os) (docker_options vs)))"

text \<open>
  No privileges, no capability, a user that is not root, nothing to write but scratch space and the volume of the
  trainer, and a port of the loopback interface only.
\<close>

definition confined :: "string \<Rightarrow> string list \<Rightarrow> bool" where
  "confined trainer_id options =
     (case docker_options options of
        None \<Rightarrow> False
      | Some os \<Rightarrow>
          {(''--read-only'', ''''), (''--cap-drop'', ''ALL''), (''--security-opt'', ''no-new-privileges''), (''--user'', ''10001:10001'')} \<subseteq> set os
          \<and> fst ` set os \<subseteq> set [''--detach'', ''--name'', ''--label'', ''--restart'', ''--stop-timeout'', ''--publish'', ''--user'', ''--cap-drop'',
              ''--security-opt'', ''--read-only'', ''--env'', ''--shm-size'', ''--tmpfs'', ''--mount'', ''--gpus'', ''--device'', ''--group-add'']
          \<and> {v. (''--publish'', v) \<in> set os} \<subseteq> {v. starts_with ''127.0.0.1:'' v}
          \<and> {v. (''--mount'', v) \<in> set os} = {''type=volume,src='' @ data_volume_name trainer_id @ '',dst=/var/lib/physicalai-trainer''}
          \<and> {v. (''--name'', v) \<in> set os} = {container_name trainer_id})"

definition launch_policy :: "string \<Rightarrow> trainer_event list \<Rightarrow> trainer_event \<Rightarrow> bool" where
  "launch_policy i l e =
     (case e of
        Ran argv r \<Rightarrow>
          if take 2 argv = [''docker'', ''pull''] then length argv = 3 \<and> authentic (argv ! 2) l
          else if take 2 argv = [''docker'', ''run''] then authentic (last argv) l \<and> confined i (butlast (drop 2 argv))
          else True
      | _ \<Rightarrow> True)"

text \<open>A container whose labels were read and name this installation and the trainer; an image that was listed for the repository of an authentic one, with another digest.\<close>

definition seen_owned :: "trainer_host \<Rightarrow> string \<Rightarrow> string \<Rightarrow> trainer_event list \<Rightarrow> bool" where
  "seen_owned th i c l \<longleftrightarrow> (\<exists>r. Ran (inspect_command ''{{json .Config.Labels}}'' c) (Inr r) \<in> set l \<and> outcome_ok r
     \<and> owned_by (th_instance_id th) i (json_dict (th_json th (cr_stdout r))))"

definition list_command :: "string \<Rightarrow> string list" where
  "list_command repository = [''docker'', ''images'', repository, ''--digests'', ''--format'', ''{{.ID}} {{.Digest}}'']"

definition seen_stale :: "string \<Rightarrow> trainer_event list \<Rightarrow> bool" where
  "seen_stale image_id l \<longleftrightarrow> (\<exists>ref digest r line. authentic ref l \<and> ends_with digest ref
     \<and> Ran (list_command (before_last (CHR ''@'') ref)) (Inr r) \<in> set l \<and> line \<in> set (splitlines (cr_stdout r))
     \<and> fst (listed_image line) = image_id \<and> snd (listed_image line) \<noteq> digest)"

definition removal_policy :: "trainer_host \<Rightarrow> string \<Rightarrow> trainer_event list \<Rightarrow> trainer_event \<Rightarrow> bool" where
  "removal_policy th i l e =
     (case e of
        Ran argv r \<Rightarrow>
          if take 2 argv = [''docker'', ''stop''] then last argv = container_name i
          else if take 2 argv = [''docker'', ''rm''] then length argv = 4 \<and> (argv ! 3 = container_name i \<or> seen_owned th i (argv ! 3) l)
          else if take 2 argv = [''docker'', ''rmi''] then length argv = 3 \<and> seen_stale (argv ! 2) l
          else if take 3 argv = [''docker'', ''volume'', ''rm''] then argv = [''docker'', ''volume'', ''rm'', data_volume_name i]
          else True
      | _ \<Rightarrow> True)"

text \<open>The one command that needs \<^verbatim>\<open>sudo\<close> itself is the reboot, where the containers of the host were listed and there were none.\<close>

definition seen_idle :: "trainer_event list \<Rightarrow> bool" where
  "seen_idle l \<longleftrightarrow> (\<exists>r. Ran list_containers (Inr r) \<in> set l \<and> outcome_ok r \<and> strip_space (cr_stdout r) = [])"

definition reboot_policy :: "trainer_event list \<Rightarrow> trainer_event \<Rightarrow> bool" where
  "reboot_policy l e = (case e of Ran argv r \<Rightarrow> if take 1 argv = [''sudo''] then argv = [''sudo'', ''-n'', ''reboot''] \<and> seen_idle l else True | _ \<Rightarrow> True)"

definition host_policy :: "trainer_host \<Rightarrow> string \<Rightarrow> trainer_event list \<Rightarrow> trainer_event \<Rightarrow> bool" where
  "host_policy th i l e \<longleftrightarrow> launch_policy i l e \<and> removal_policy th i l e \<and> reboot_policy l e"

interpretation host: transcript_policy "host_policy th i" for th i
  by unfold_locales (simp_all add: host_policy_def launch_policy_def removal_policy_def reboot_policy_def)

definition harmless :: "string list \<Rightarrow> bool" where
  "harmless argv \<longleftrightarrow> take 2 argv \<notin> {[''docker'', ''pull''], [''docker'', ''run''], [''docker'', ''stop''], [''docker'', ''rm''], [''docker'', ''rmi'']}
     \<and> take 3 argv \<noteq> [''docker'', ''volume'', ''rm''] \<and> take 1 argv \<noteq> [''sudo'']"

lemma harmless_policy: "harmless argv \<Longrightarrow> host_policy th i l (Ran argv r)"
  by (simp add: harmless_def host_policy_def launch_policy_def removal_policy_def reboot_policy_def)

lemma lasts_policy_facts [simp, intro]: "lasts (authentic ref)" "lasts (seen_owned th i c)" "lasts (seen_stale d)" "lasts seen_idle"
  by (auto simp: lasts_def authentic_def seen_owned_def seen_stale_def seen_idle_def)

abbreviation holds :: "trainer_host \<Rightarrow> string \<Rightarrow> (trainer_event list \<Rightarrow> bool) \<Rightarrow> 'a host_act \<Rightarrow> bool" where
  "holds th i P m \<equiv> host.keeps_policy th i P m (\<lambda>a. P)"

lemma holds_returns [intro!]: "holds th i P (returns a)"
  by (rule host.keeps_returns)

lemma holds_raises [intro!]: "holds th i P (raises e)"
  by (rule host.keeps_raises)

lemma holds_then: "holds th i P m \<Longrightarrow> (\<And>a. holds th i P (f a)) \<Longrightarrow> holds th i P (and_then m f)"
  by (rule host.keeps_then)

lemma runs_harmless: "harmless argv \<Longrightarrow> lasts P \<Longrightarrow>
    host.keeps_policy th i P (run_within th al budget argv) (\<lambda>r l. Ran argv (Inr r) \<in> set l \<and> P l)"
  by (rule host.keeps_run) (auto intro: harmless_policy)

lemma holds_harmless: "harmless argv \<Longrightarrow> lasts P \<Longrightarrow> holds th i P (run_within th al budget argv)"
  by (rule host.policy_weaken [where Q' = "\<lambda>r l. Ran argv (Inr r) \<in> set l \<and> P l", OF runs_harmless]) auto

lemma holds_set [intro!]: "holds th i P (note_phase j s)" "holds th i P (set_failure j s)"
  unfolding note_phase_def set_failure_def by (auto intro!: host.keeps_updates)

lemmas holds_rules = holds_then holds_harmless host.keeps_if

section \<open>The operations keep the policy\<close>

lemma keeps_resolve: "lasts P \<Longrightarrow> host.keeps_policy th i P (resolve_protocol_image th al d v)
    (\<lambda>img l. ends_with (ri_digest img) (ri_digest_reference img) \<and> P l)"
  unfolding resolve_protocol_image_def run_command_def Let_def
  by (intro host.keeps_then [where Q = "\<lambda>a. P"] holds_harmless)
    (auto simp: harmless_def imagetools_inspect_def ends_with_def split: option.split json.split sum.split
      intro!: host.keeps_raises host.keeps_returns host.keeps_then [where Q = "\<lambda>a. P"] holds_harmless)

lemma holds_present: "lasts P \<Longrightarrow> holds th i P (image_present_locally th al ref)"
  unfolding image_present_locally_def run_command_def by (intro holds_rules holds_returns) (auto simp: harmless_def)

lemma holds_progress: "lasts P \<Longrightarrow> holds th i P (pull_in_progress th al ref)"
  unfolding pull_in_progress_def run_command_def by (intro holds_rules holds_returns) (auto simp: harmless_def)

declare await_until.simps [simp del]

lemma holds_run: "(\<And>l r. P l \<Longrightarrow> host_policy th i l (Ran argv r)) \<Longrightarrow> lasts P \<Longrightarrow> holds th i P (run_within th al b argv)"
  by (rule host.policy_weaken [where Q' = "\<lambda>r l. Ran argv (Inr r) \<in> set l \<and> P l", OF host.keeps_run]) auto

lemma await_until_policy:
  assumes "admitted (host_policy th i) [] (hw_log w)" "await_until th al ref deadline w = (r, w')"
  shows "admitted (host_policy th i) [] (hw_log w') \<and> (\<exists>es. hw_log w' = hw_log w @ es)"
  using assms
proof (induction th al ref deadline w rule: await_until.induct)
  case (1 th al ref deadline w)
  show ?case
  proof (cases "hw_now w < deadline")
    case now: True
    obtain x w1 where p: "pull_in_progress th al ref w = (x, w1)" by fastforce
    note k = host.keeps_policyD [OF holds_progress [OF lasts_rules(1)] "1.prems"(1) TrueI p]
    show ?thesis
    proof (cases "x = Inr True \<and> \<not> th_interrupts th (hw_log w1)")
      case True
      define w2 where "w2 = (log_event (Slept PULL_POLL_INTERVAL_MS) w1)\<lparr>hw_now := hw_now w1 + PULL_POLL_INTERVAL_MS\<rparr>"
      have l2: "hw_log w2 = hw_log w1 @ [Slept PULL_POLL_INTERVAL_MS]" by (simp add: w2_def log_event_def)
      have "admitted (host_policy th i) [] (hw_log w2)" using k(1) host.quiet by (simp add: l2 admitted_snoc)
      moreover have "await_until th al ref deadline w2 = (r, w')"
        using "1.prems"(2) now p True by (subst (asm) await_until.simps) (simp add: w2_def)
      ultimately have "admitted (host_policy th i) [] (hw_log w') \<and> (\<exists>es. hw_log w' = hw_log w2 @ es)"
        using "1.IH" [OF now p [symmetric] conjunct1 [OF True]] True by (simp add: w2_def)
      then show ?thesis using k(2) l2 by auto
    next
      case False
      then have "w' = w1" using "1.prems"(2) now p by (subst (asm) await_until.simps) (auto split: sum.splits if_splits)
      then show ?thesis using k by blast
    qed
  next
    case False
    then have "w' = w" using "1.prems"(2) by (subst (asm) await_until.simps) simp
    then show ?thesis using "1.prems"(1) by simp
  qed
qed

lemma holds_await: "lasts P \<Longrightarrow> holds th i P (await_background_pull th al ref)"
  by (rule host.keeps_holding, rule host.keeps_policyI) (auto simp: await_background_pull_def dest: await_until_policy)

lemma stale_listed: "d \<in> set (stale_ids th digest lines) \<Longrightarrow> \<exists>line \<in> set lines. fst (listed_image line) = d \<and> snd (listed_image line) \<noteq> digest"
  by (auto simp: stale_ids_def) (metis fst_conv snd_conv)

lemma holds_remove_images:
  "lasts P \<Longrightarrow> (\<And>l d. P l \<Longrightarrow> d \<in> set is \<Longrightarrow> seen_stale d l) \<Longrightarrow> holds th i P (remove_images th al is removed)"
proof (induction "is" arbitrary: removed)
  case (Cons d ds)
  have r: "holds th i P (run_within th al b [''docker'', ''rmi'', d])" for b
    using Cons.prems(2) by (intro holds_run Cons.prems(1)) (simp add: host_policy_def launch_policy_def removal_policy_def reboot_policy_def)
  have n: "holds th i P (remove_images th al ds removed')" for removed'
    using Cons by simp
  show ?case unfolding remove_images.simps run_command_def
    by (intro holds_then host.keeps_on_exception r n holds_returns Cons.prems(1))
qed auto

lemma holds_prune:
  assumes P: "lasts P" "\<And>l. P l \<Longrightarrow> authentic (ri_digest_reference img) l" and e: "ends_with (ri_digest img) (ri_digest_reference img)"
  shows "holds th i P (prune_stale_images th al img)"
proof -
  define ref where "ref = ri_digest_reference img"
  define listed where "listed lines l \<longleftrightarrow> P l \<and> (\<forall>line \<in> set lines. \<exists>r. Ran (list_command (before_last (CHR ''@'') ref)) (Inr r) \<in> set l
      \<and> line \<in> set (splitlines (cr_stdout r)))" for lines l
  have l: "lasts (listed lines)" for lines
    using lastsD [OF P(1)] by (auto simp: lasts_def listed_def)
  have a: "host.keeps_policy th i P (run_within th al b (list_command (before_last (CHR ''@'') ref)))
      (\<lambda>r l. Ran (list_command (before_last (CHR ''@'') ref)) (Inr r) \<in> set l \<and> P l)" for b
    by (rule runs_harmless) (simp_all add: harmless_def list_command_def P(1))
  have b: "host.keeps_policy th i P (on_exception
           (and_then (run_command th al (list_command (before_last (CHR ''@'') ref)))
             (\<lambda>r. returns (if outcome_ok r then splitlines (cr_stdout r) else []))) (\<lambda>e. returns [])) listed"
    unfolding run_command_def
    by (intro host.keeps_on_exception host.keeps_then [OF a] host.keeps_returns P(1)) (auto simp: listed_def)
  have c: "holds th i (listed lines) (remove_images th al (stale_ids th (ri_digest img) lines) [])" for lines
  proof (rule holds_remove_images [OF l])
    fix l d assume "listed lines l" "d \<in> set (stale_ids th (ri_digest img) lines)"
    moreover obtain line where "line \<in> set lines" "fst (listed_image line) = d" "snd (listed_image line) \<noteq> ri_digest img"
      using stale_listed calculation(2) by blast
    ultimately show "seen_stale d l" using P(2) e by (auto simp: listed_def seen_stale_def ref_def [symmetric]) blast
  qed
  show ?thesis
    unfolding prune_stale_images_def Let_def ref_def [symmetric] list_command_def [symmetric]
    by (rule host.keeps_then [OF b], rule host.policy_weaken [OF c]) (auto simp: listed_def)
qed

lemma holds_pull:
  assumes P: "lasts P" "\<And>l. P l \<Longrightarrow> authentic (ri_digest_reference img) l" and e: "ends_with (ri_digest img) (ri_digest_reference img)"
  shows "holds th i P (pull_image th al img)"
proof -
  have r: "holds th i P (run_within th al b [''docker'', ''pull'', ri_digest_reference img])" for b
    using P(2) by (intro holds_run P(1)) (simp add: host_policy_def launch_policy_def removal_policy_def reboot_policy_def)
  show ?thesis unfolding pull_image_def
    by (intro holds_then host.keeps_if holds_returns holds_raises holds_present holds_progress holds_await holds_prune r P e)
qed

lemma keeps_obtain:
  assumes P: "lasts P"
  shows "host.keeps_policy th i P (obtain_image th al j d) (\<lambda>img l. authentic (ri_digest_reference img) l \<and> P l)"
proof -
  define Q where "Q (img :: ResolvedImage) l \<longleftrightarrow> ends_with (ri_digest img) (ri_digest_reference img) \<and> P l" for img l
  define R where "R (img :: ResolvedImage) l \<longleftrightarrow> authentic (ri_digest_reference img) l \<and> Q img l" for img l
  have l: "lasts (Q img)" "lasts (R img)" for img
    using P by (simp_all add: Q_def [abs_def] R_def [abs_def])
  have q: "host.keeps_policy th i P (resolve_protocol_image th al d v) Q" for v
    unfolding Q_def by (rule keeps_resolve [OF P])
  have s: "host.keeps_policy th i (Q img) (verify_image_signature th img) (\<lambda>u. R img)" for img
    unfolding R_def authentic_def by (rule host.keeps_signature [OF l(1)])
  have g: "holds th i (R img) (pull_image th al img)" for img
  proof (cases "ends_with (ri_digest img) (ri_digest_reference img)")
    case True
    then show ?thesis using l(2) by (intro holds_pull) (auto simp: R_def)
  next
    case False
    then show ?thesis by (intro host.keeps_policyI) (simp add: R_def Q_def)
  qed
  show ?thesis unfolding obtain_image_def
    by (rule host.keeps_then [OF holds_set(1)], rule host.keeps_then [OF q], rule host.keeps_then [OF holds_set(1)],
        rule host.keeps_then [OF s], rule host.keeps_then [OF holds_set(1)], rule host.keeps_then [OF g], rule host.keeps_returns)
      (simp add: R_def Q_def)
qed

lemma keeps_inspect: "lasts P \<Longrightarrow> host.keeps_policy th i P (inspect_container th al c)
    (\<lambda>r l. (case r of None \<Rightarrow> True | Some ci \<Rightarrow> owned_by (th_instance_id th) j (ci_labels ci) \<longrightarrow> seen_owned th j c l) \<and> P l)"
  unfolding inspect_container_def run_command_def
  apply (rule host.keeps_then [where Q = "\<lambda>r. P"])
   apply (rule holds_harmless; simp add: harmless_def inspect_command_def)
  apply (rule host.keeps_if)
   apply (rule host.keeps_if; auto intro!: host.keeps_returns host.keeps_raises)
  apply (rule host.keeps_then)
   apply (rule runs_harmless; simp add: harmless_def inspect_command_def)
  apply (rule host.keeps_if)
   apply (rule host.keeps_if; auto intro!: host.keeps_returns host.keeps_raises)
  apply (rule host.keeps_returns)
  apply (auto simp: seen_owned_def)
  done

lemma holds_remove_owned: "lasts P \<Longrightarrow> holds th i P (remove_owned th al i cs removed)"
proof (induction cs arbitrary: removed)
  case (Cons c cs)
  have r: "holds th i (\<lambda>l. seen_owned th i c l \<and> P l) (run_within th al b [''docker'', ''rm'', ''-f'', c])" for b
    using Cons.prems by (intro holds_run) (simp_all add: host_policy_def launch_policy_def removal_policy_def reboot_policy_def)
  have r': "host.keeps_policy th i (\<lambda>l. seen_owned th i c l \<and> P l) (run_within th al b [''docker'', ''rm'', ''-f'', c]) (\<lambda>u. P)" for b
    by (rule host.policy_weaken [OF r]) auto
  show ?case unfolding remove_owned.simps
  proof (rule host.keeps_then [OF keeps_inspect [where j = i]], rule Cons.prems)
    fix x
    show "host.keeps_policy th i (\<lambda>l. (case x of None \<Rightarrow> True | Some ci \<Rightarrow> owned_by (th_instance_id th) i (ci_labels ci) \<longrightarrow> seen_owned th i c l) \<and> P l)
        (case x of None \<Rightarrow> remove_owned th al i cs removed
         | Some ci \<Rightarrow> if \<not> owned_by (th_instance_id th) i (ci_labels ci) then remove_owned th al i cs removed
            else and_then (run_command th al [''docker'', ''rm'', ''-f'', c]) (\<lambda>r. remove_owned th al i cs (removed @ [c]))) (\<lambda>a. P)"
      using Cons.IH [OF Cons.prems] host.keeps_then [OF r' Cons.IH [OF Cons.prems]]
      by (cases x) (auto simp: run_command_def)
  qed
qed auto

lemma holds_stop: "lasts P \<Longrightarrow> holds th i P (stop_and_remove_container th al (container_name i))"
  unfolding stop_and_remove_container_def run_command_def
  by (intro holds_then holds_run holds_returns) (simp_all add: host_policy_def launch_policy_def removal_policy_def reboot_policy_def)

lemma holds_volumes: "lasts P \<Longrightarrow> holds th i P (create_data_volume th al n ls sn)"
  "lasts P \<Longrightarrow> holds th i P (remove_volume th al (data_volume_name i))"
  unfolding create_data_volume_def remove_volume_def run_command_def
  by (intro holds_then holds_run host.keeps_if holds_returns holds_raises;
      simp add: host_policy_def launch_policy_def removal_policy_def reboot_policy_def)+

section \<open>Starting and stopping\<close>

definition published_port :: "int \<Rightarrow> string" where
  "published_port remote_port = ''127.0.0.1:'' @ int_str remote_port @ '':8001''"

lemma int_str_port: "int_str 8001 = ''8001''" "int_str TRAINER_UID = ''10001''" "int_str TRAINER_GID = ''10001''"
  by (simp_all add: int_str_def nat_str.simps digit_char_def char_of_def bit_Suc_0_iff TRAINER_UID_def TRAINER_GID_def)

lemma replace_first_append: "old \<notin> set xs \<Longrightarrow> replace_first old new (xs @ old # ys) = Some (xs @ new # ys)"
  by (induction xs) auto

definition run_options_before :: "string \<Rightarrow> (string \<times> string) list \<Rightarrow> int \<Rightarrow> string list" where
  "run_options_before i labels stop_timeout_s =
     [''--detach'', ''--name'', container_name i] @ label_args labels @ [''--restart=no'', ''--stop-timeout='' @ int_str stop_timeout_s, ''--publish'']"

definition run_options_after :: "DeviceType \<Rightarrow> string \<Rightarrow> string option \<Rightarrow> int \<Rightarrow> string list" where
  "run_options_after d data_volume render_gid shm_size_gb =
     [''--user'', ''10001:10001'', ''--cap-drop'', ''ALL'', ''--security-opt'', ''no-new-privileges'', ''--read-only'',
        ''--env=TMPDIR=/var/lib/physicalai-trainer'', ''--shm-size='' @ int_str shm_size_gb @ ''g'',
        ''--tmpfs'', ''/tmp:size=2g,uid=10001,gid=10001'',
        ''--mount'', ''type=volume,src='' @ data_volume @ '',dst=/var/lib/physicalai-trainer'']
     @ device_run_args d render_gid"

lemma build_run_argv_eq:
  "build_run_argv ref d (container_name i) labels v 8001 t g s =
     ''docker'' # ''run'' # run_options_before i labels t @ ''127.0.0.1::8001'' # run_options_after d v g s @ [ref]"
  by (simp add: build_run_argv_def run_options_before_def run_options_after_def int_str_port)

lemma port_not_before: "''127.0.0.1::8001'' \<notin> set (''docker'' # ''run'' # run_options_before i labels t)"
  by (auto simp: run_options_before_def label_args_def container_name_def)

lemma replaced_run_argv:
  "replace_first ''127.0.0.1::8001'' new (build_run_argv ref d (container_name i) labels v 8001 t g s) =
     Some (''docker'' # ''run'' # run_options_before i labels t @ new # run_options_after d v g s @ [ref])"
  using replace_first_append [OF port_not_before, of new i labels t "run_options_after d v g s @ [ref]"]
  by (simp add: build_run_argv_eq)

lemma option_with_value:
  "CHR ''='' \<notin> set a \<Longrightarrow> docker_options ((''--'' @ a @ CHR ''='' # v) # as) = map_option (\<lambda>os. (''--'' @ a, v) # os) (docker_options as)"
  by (subst docker_options.simps(2)) (simp add: starts_with_def takeWhile_append dropWhile_append)

lemma option_flags:
  "docker_options (''--detach'' # as) = map_option (\<lambda>os. (''--detach'', '''') # os) (docker_options as)"
  "docker_options (''--read-only'' # as) = map_option (\<lambda>os. (''--read-only'', '''') # os) (docker_options as)"
  by (subst docker_options.simps(2), simp add: starts_with_def)+

lemma option_then_value:
  "docker_options (''--name'' # v # as) = map_option (\<lambda>os. (''--name'', v) # os) (docker_options as)"
  "docker_options (''--publish'' # v # as) = map_option (\<lambda>os. (''--publish'', v) # os) (docker_options as)"
  "docker_options (''--user'' # v # as) = map_option (\<lambda>os. (''--user'', v) # os) (docker_options as)"
  "docker_options (''--cap-drop'' # v # as) = map_option (\<lambda>os. (''--cap-drop'', v) # os) (docker_options as)"
  "docker_options (''--security-opt'' # v # as) = map_option (\<lambda>os. (''--security-opt'', v) # os) (docker_options as)"
  "docker_options (''--tmpfs'' # v # as) = map_option (\<lambda>os. (''--tmpfs'', v) # os) (docker_options as)"
  "docker_options (''--mount'' # v # as) = map_option (\<lambda>os. (''--mount'', v) # os) (docker_options as)"
  "docker_options (''--gpus'' # v # as) = map_option (\<lambda>os. (''--gpus'', v) # os) (docker_options as)"
  "docker_options (''--device'' # v # as) = map_option (\<lambda>os. (''--device'', v) # os) (docker_options as)"
  "docker_options (''--group-add'' # v # as) = map_option (\<lambda>os. (''--group-add'', v) # os) (docker_options as)"
  by (subst docker_options.simps(2), simp add: starts_with_def)+

lemma option_assigned:
  "docker_options (''--restart=no'' # as) = map_option (\<lambda>os. (''--restart'', ''no'') # os) (docker_options as)"
  "docker_options ((''--stop-timeout='' @ v) # as) = map_option (\<lambda>os. (''--stop-timeout'', v) # os) (docker_options as)"
  "docker_options (''--env=TMPDIR=/var/lib/physicalai-trainer'' # as) = map_option (\<lambda>os. (''--env'', ''TMPDIR=/var/lib/physicalai-trainer'') # os) (docker_options as)"
  "docker_options ((''--shm-size='' @ v) # as) = map_option (\<lambda>os. (''--shm-size'', v) # os) (docker_options as)"
  "docker_options ((''--label='' @ v) # as) = map_option (\<lambda>os. (''--label'', v) # os) (docker_options as)"
  using option_with_value [of "''restart''" "''no''" as] option_with_value [of "''stop-timeout''" v as]
    option_with_value [of "''env''" "''TMPDIR=/var/lib/physicalai-trainer''" as] option_with_value [of "''shm-size''" v as]
    option_with_value [of "''label''" v as] by simp_all

lemmas docker_option_simps = option_flags option_then_value option_assigned

lemma docker_options_labels: "docker_options (label_args labels @ as) = map_option (\<lambda>os. map (\<lambda>(k, v). (''--label'', k @ ''='' @ v)) labels @ os) (docker_options as)"
proof (induction labels)
  case (Cons kv labels)
  obtain k v where kv: "kv = (k, v)" by fastforce
  show ?case using Cons option_assigned(5) [of "k @ ''='' @ v" "label_args labels @ as"]
    by (simp add: label_args_def kv option.map_comp o_def del: docker_options.simps)
qed (simp add: label_args_def option.map_ident)

definition device_options :: "DeviceType \<Rightarrow> string option \<Rightarrow> (string \<times> string) list" where
  "device_options d g = (if d = CUDA then [(''--gpus'', ''all'')] else (''--device'', ''/dev/dri'')
      # (case g of None \<Rightarrow> [] | Some x \<Rightarrow> if x = [] then [] else [(''--group-add'', x)]))"

lemma docker_options_device: "docker_options (device_run_args d g) = Some (device_options d g)"
  by (simp add: device_options_def device_run_args_def docker_option_simps del: docker_options.simps(2) split: option.split)

lemma run_options_read:
  "docker_options (run_options_before i labels t @ new # run_options_after d v g s) =
     Some ([(''--detach'', ''''), (''--name'', container_name i)] @ map (\<lambda>(k, v). (''--label'', k @ ''='' @ v)) labels
        @ [(''--restart'', ''no''), (''--stop-timeout'', int_str t), (''--publish'', new), (''--user'', ''10001:10001''), (''--cap-drop'', ''ALL''),
           (''--security-opt'', ''no-new-privileges''), (''--read-only'', ''''), (''--env'', ''TMPDIR=/var/lib/physicalai-trainer''),
           (''--shm-size'', int_str s @ ''g''), (''--tmpfs'', ''/tmp:size=2g,uid=10001,gid=10001''),
           (''--mount'', ''type=volume,src='' @ v @ '',dst=/var/lib/physicalai-trainer'')] @ device_options d g)"
  using option_assigned(2) [of "int_str t"] option_assigned(4) [of "int_str s @ ''g''"]
  by (simp add: run_options_before_def run_options_after_def docker_option_simps docker_options_labels docker_options_device
      del: docker_options.simps)

definition label_options :: "(string \<times> string) list \<Rightarrow> (string \<times> string) list" where
  "label_options labels = map (\<lambda>(k, v). (''--label'', k @ ''='' @ v)) labels"

lemma other_options:
  "(''--publish'', x) \<notin> set (label_options labels)" "(''--mount'', x) \<notin> set (label_options labels)" "(''--name'', x) \<notin> set (label_options labels)"
  "(''--publish'', x) \<notin> set (device_options d g)" "(''--mount'', x) \<notin> set (device_options d g)" "(''--name'', x) \<notin> set (device_options d g)"
  "fst ` set (label_options labels) \<subseteq> {''--label''}" "fst ` set (device_options d g) \<subseteq> {''--gpus'', ''--device'', ''--group-add''}"
  by (auto simp: label_options_def device_options_def split: option.splits)

lemma confined_run:
  assumes "starts_with ''127.0.0.1:'' new"
  shows "confined i (run_options_before i labels t @ new # run_options_after d (data_volume_name i) g s)"
proof -
  define names where "names = set [''--detach'', ''--name'', ''--label'', ''--restart'', ''--stop-timeout'', ''--publish'', ''--user'', ''--cap-drop'',
              ''--security-opt'', ''--read-only'', ''--env'', ''--shm-size'', ''--tmpfs'', ''--mount'', ''--gpus'', ''--device'', ''--group-add'']"
  have l: "fst ` set (label_options labels) \<subseteq> names"
    by (rule subset_trans [OF other_options(7)]) (simp add: names_def)
  have g: "fst ` set (device_options d g) \<subseteq> names"
    by (rule subset_trans [OF other_options(8)]) (simp add: names_def)
  define os where "os = ([(''--detach'', ''''), (''--name'', container_name i)] @ label_options labels
        @ [(''--restart'', ''no''), (''--stop-timeout'', int_str t), (''--publish'', new), (''--user'', ''10001:10001''), (''--cap-drop'', ''ALL''),
           (''--security-opt'', ''no-new-privileges''), (''--read-only'', ''''), (''--env'', ''TMPDIR=/var/lib/physicalai-trainer''),
           (''--shm-size'', int_str s @ ''g''), (''--tmpfs'', ''/tmp:size=2g,uid=10001,gid=10001''),
           (''--mount'', ''type=volume,src='' @ data_volume_name i @ '',dst=/var/lib/physicalai-trainer'')] @ device_options d g)"
  have n: "fst ` set os \<subseteq> names"
    using l g unfolding os_def set_append image_Un by (simp add: names_def)
  have p: "{v. (''--publish'', v) \<in> set os} = {new}" "{v. (''--name'', v) \<in> set os} = {container_name i}"
    "{v. (''--mount'', v) \<in> set os} = {''type=volume,src='' @ data_volume_name i @ '',dst=/var/lib/physicalai-trainer''}"
    by (simp_all add: os_def other_options)
  have f: "{(''--read-only'', ''''), (''--cap-drop'', ''ALL''), (''--security-opt'', ''no-new-privileges''), (''--user'', ''10001:10001'')} \<subseteq> set os"
    by (simp add: os_def)
  have o': "docker_options (run_options_before i labels t @ new # run_options_after d (data_volume_name i) g s) = Some os"
    by (simp only: run_options_read os_def label_options_def append.simps append_assoc)
  show ?thesis unfolding confined_def o' option.case p using n f assms by (simp add: names_def)
qed

lemma run_policy:
  assumes "authentic ref l" "starts_with ''127.0.0.1:'' new"
  shows "host_policy th i l (Ran (''docker'' # ''run'' # run_options_before i labels t @ new # run_options_after d (data_volume_name i) g s @ [ref]) r)"
proof -
  have "butlast (run_options_before i labels t @ new # run_options_after d (data_volume_name i) g s @ [ref])
      = run_options_before i labels t @ new # run_options_after d (data_volume_name i) g s"
    by (simp add: butlast_append)
  then show ?thesis using confined_run [OF assms(2), of i labels t d g s] assms(1)
    by (simp add: host_policy_def launch_policy_def removal_policy_def reboot_policy_def)
qed

text \<open>The container runs: it was seen running, or the host has started it.\<close>

definition seen_running :: "string \<Rightarrow> trainer_event list \<Rightarrow> bool" where
  "seen_running c l \<longleftrightarrow> (\<exists>r. Ran (inspect_command ''{{.State.Running}}'' c) (Inr r) \<in> set l \<and> outcome_ok r \<and> py_lower (first_line r) = ''true'')"

definition launched :: "trainer_event list \<Rightarrow> bool" where
  "launched l \<longleftrightarrow> (\<exists>argv r. Ran argv (Inr r) \<in> set l \<and> take 2 argv = [''docker'', ''run''] \<and> outcome_ok r \<and> first_line r \<noteq> [])"

definition serving :: "string \<Rightarrow> trainer_event list \<Rightarrow> bool" where
  "serving i l \<longleftrightarrow> seen_running (container_name i) l \<or> launched l"

lemma keeps_inspect_running: "lasts P \<Longrightarrow> host.keeps_policy th i P (inspect_container th al c)
    (\<lambda>r l. (case r of None \<Rightarrow> True | Some ci \<Rightarrow> ci_running ci \<longrightarrow> seen_running c l) \<and> P l)"
  unfolding inspect_container_def run_command_def
  apply (rule host.keeps_then)
   apply (rule runs_harmless; simp add: harmless_def inspect_command_def)
  apply (rule host.keeps_if)
   apply (rule host.keeps_if; auto intro!: host.keeps_returns host.keeps_raises)
  subgoal for running
    apply (rule host.keeps_then [where Q = "\<lambda>r l. Ran (inspect_command ''{{.State.Running}}'' c) (Inr running) \<in> set l \<and> P l"])
     apply (rule holds_harmless; simp add: harmless_def inspect_command_def)
    apply (rule host.keeps_if)
     apply (rule host.keeps_if; auto intro!: host.keeps_returns host.keeps_raises)
    apply (rule host.keeps_returns)
    apply (auto simp: seen_running_def)
    done
  done

lemma keeps_launch:
  assumes P: "lasts P" and a: "\<And>l r. P l \<Longrightarrow> host_policy th i l (Ran argv r)" and d: "take 2 argv = [''docker'', ''run'']"
  shows "host.keeps_policy th i P (launch_trainer th al argv rt) (\<lambda>u. launched)"
proof (rule host.keeps_policyI, intro conjI allI impI)
  fix w r w2 assume k: "admitted (host_policy th i) [] (hw_log w)" "P (hw_log w)" "launch_trainer th al argv rt w = (r, w2)"
  have g: "host.keeps_policy th i (\<lambda>l. Ran argv (Inr x) \<in> set l \<and> P l)
      (if \<not> outcome_ok x \<or> first_line x = [] then raises (TrainerContainerLaunchError (rt_name rt) (output_or_none x)) else returns (first_line x))
      (\<lambda>c. launched)" for x
    by (intro host.keeps_if host.keeps_raises host.keeps_returns) (use d in \<open>auto simp: launched_def\<close>)
  have m: "host.keeps_policy th i P (launch_container th al argv (rt_name rt)) (\<lambda>c. launched)"
    unfolding launch_container_def run_command_def by (rule host.keeps_then [OF host.keeps_run [OF a P] g])
  obtain x w1 where x: "launch_container th al argv (rt_name rt) w = (x, w1)" by fastforce
  note k2 = host.keeps_policyD [OF m k(1,2) x]
  have l: "hw_log w2 = hw_log w1"
    using k(3) x by (auto simp: launch_trainer_def set_failure_def updates_def split: sum.splits if_splits)
  show "admitted (host_policy th i) [] (hw_log w2)" "\<exists>es. hw_log w2 = hw_log w @ es" using k2 l by simp_all
  show "launched (hw_log w2)" if b: "r = Inr b" for b
  proof -
    have "\<exists>c. x = Inr c" using b k(3) x by (auto simp: launch_trainer_def split: sum.splits)
    then obtain c where "x = Inr c" ..
    then show ?thesis using k2(3) l by simp
  qed
qed

lemma keeps_run_image:
  assumes P: "lasts P" and a: "\<And>l. P l \<Longrightarrow> authentic (ri_digest_reference img) l"
  shows "host.keeps_policy th (rt_id rt) P (run_image th al rt port d img) (\<lambda>u. launched)"
proof -
  have g: "holds th (rt_id rt) P (if d = CUDA then returns None else resolve_render_group_gid th al)"
    unfolding resolve_render_group_gid_def run_command_def
    by (intro host.keeps_if holds_returns holds_then holds_harmless P) (simp add: harmless_def)
  have s: "holds th (rt_id rt) P (remove_stale_containers_on_port th al port (rt_id rt))"
    unfolding remove_stale_containers_on_port_def run_command_def
    by (intro holds_then holds_harmless host.keeps_if holds_returns holds_remove_owned P) (simp add: harmless_def)
  have r: "host.keeps_policy th (rt_id rt) P (launch_trainer th al (''docker'' # ''run'' # run_options_before (rt_id rt) labels t
      @ (''127.0.0.1:'' @ int_str port @ '':8001'') # run_options_after d (data_volume_name (rt_id rt)) gid sh @ [ri_digest_reference img]) rt)
      (\<lambda>u. launched)" for labels t gid sh
    by (intro keeps_launch run_policy P a) (simp_all add: starts_with_def)
  show ?thesis unfolding run_image_def Let_def replaced_run_argv option.case
    by (rule host.keeps_then [OF holds_volumes(1) [OF P]], rule host.keeps_then [OF g], rule host.keeps_then [OF holds_set(1)],
        rule host.keeps_then [OF s], rule r)
qed

lemma keeps_start_on_host:
  assumes P: "lasts P"
  shows "host.keeps_policy th (rt_id rt) P (start_on_host th al rt port) (\<lambda>u. serving (rt_id rt))"
proof -
  have o': "host.keeps_policy th (rt_id rt) P (and_then (obtain_image th al (rt_id rt) d) (\<lambda>img. run_image th al rt port d img)) (\<lambda>u. launched)" for d
  proof (rule host.keeps_then [OF keeps_obtain [OF P]])
    fix img :: ResolvedImage
    show "host.keeps_policy th (rt_id rt) (\<lambda>l. authentic (ri_digest_reference img) l \<and> P l) (run_image th al rt port d img) (\<lambda>u. launched)"
      by (rule keeps_run_image) (use P in auto)
  qed
  have d: "host.keeps_policy th (rt_id rt) P (case detect_device cuda xpu of
        None \<Rightarrow> and_then (set_failure (rt_id rt) ''accelerator_unavailable'')
                   (\<lambda>u. raises (HostValueError ''No supported CUDA or XPU accelerator found on SSH trainer''))
      | Some d \<Rightarrow> and_then (obtain_image th al (rt_id rt) d) (\<lambda>img. run_image th al rt port d img)) (\<lambda>u. serving (rt_id rt))" for cuda xpu
    by (cases "detect_device cuda xpu")
      (auto intro!: host.keeps_then [OF holds_set(2)] host.keeps_raises host.policy_weaken [OF o'] simp: serving_def)
  have rest: "host.keeps_policy th (rt_id rt) P (and_then (if c then stop_and_remove_container th al (container_name (rt_id rt)) else returns ()) (\<lambda>u.
               and_then (note_phase (rt_id rt) ''Detecting accelerator'') (\<lambda>u.
               and_then (run_within th al (th_command_timeout_ms th) [''nvidia-smi'', ''-L'']) (\<lambda>cuda.
               and_then (run_within th al (th_command_timeout_ms th) [''clinfo'', ''-l'']) (\<lambda>xpu.
                 case detect_device cuda xpu of
                   None \<Rightarrow> and_then (set_failure (rt_id rt) ''accelerator_unavailable'')
                       (\<lambda>u. raises (HostValueError ''No supported CUDA or XPU accelerator found on SSH trainer''))
                 | Some d \<Rightarrow> and_then (obtain_image th al (rt_id rt) d) (\<lambda>img. run_image th al rt port d img)))))) (\<lambda>u. serving (rt_id rt))" for c
    by (rule host.keeps_then [where Q = "\<lambda>u. P"], (intro host.keeps_if holds_stop holds_returns P),
        rule host.keeps_then [OF holds_set(1)], rule host.keeps_then [OF holds_harmless], simp add: harmless_def, rule P,
        rule host.keeps_then [OF holds_harmless], simp add: harmless_def, rule P, rule d)
  show ?thesis unfolding start_on_host_def Let_def run_command_def
    apply (rule host.keeps_then [OF holds_set(1)], rule host.keeps_then [OF holds_harmless], simp add: harmless_def, rule P)
    apply (rule host.keeps_if, rule host.keeps_then [OF holds_set(2)], rule host.keeps_raises)
    apply (rule host.keeps_then [OF keeps_inspect_running [OF P]])
    apply (rule host.keeps_if, rule host.keeps_returns, simp add: serving_def split: option.splits)
    apply (rule host.policy_weaken [OF rest], simp_all)
    done
qed

lemma keeps_start:
  "host.keeps_policy th (rt_id rt) (\<lambda>l. True) (start_trainer th (rt\<lparr>rt_connection := Ssh c\<rparr>)) (\<lambda>u. serving (rt_id rt))"
proof -
  have l: "lasts (serving i)" for i
    by (auto simp: serving_def seen_running_def launched_def lasts_def)
  show ?thesis
    unfolding start_trainer_def
    using keeps_start_on_host [of "\<lambda>l. True" th "rt\<lparr>rt_connection := Ssh c\<rparr>"]
    by (auto intro!: host.keeps_then [where Q = "\<lambda>u l. True"] host.keeps_raises host.keeps_updates host.keeps_finally host.keeps_transport l
        split: sum.split)
qed

lemma keeps_stop: "holds th (rt_id rt) (\<lambda>l. True) (stop_trainer th rt remove_data)"
  unfolding stop_trainer_def
  by (auto intro!: holds_then host.keeps_updates host.keeps_transport holds_stop holds_volumes host.keeps_if
      simp: clear_launch_state_def split: TrainerConnection.split sum.split)

lemma empty_log: "admitted ok [] (hw_log (w\<lparr>hw_log := []\<rparr>))"
  by simp

lemma policy_kept:
  "admitted (host_policy th (rt_id rt)) [] (hw_log (snd (start_trainer th (rt\<lparr>rt_connection := Ssh c\<rparr>) (w\<lparr>hw_log := []\<rparr>))))"
  "admitted (host_policy th (rt_id rt)) [] (hw_log (snd (stop_trainer th rt remove_data (w\<lparr>hw_log := []\<rparr>))))"
  by (rule host.keeps_policyD(1) [OF keeps_start empty_log TrueI surjective_pairing],
      rule host.keeps_policyD(1) [OF keeps_stop empty_log TrueI surjective_pairing])

lemma admitted_policies:
  "admitted (host_policy th i) past es \<longleftrightarrow> admitted (launch_policy i) past es \<and> admitted (removal_policy th i) past es
     \<and> admitted reboot_policy past es"
  unfolding host_policy_def [abs_def] admitted_both by (rule refl)

text \<open>C7: whatever the host answers and wherever the start ends, an image is pulled or run only by the digest whose
  signature was checked before, in a container without privileges, capabilities, root or a port that other machines
  reach; and a start that returns has a container that runs.\<close>

theorem only_authentic_images_run:
  "let run = start_trainer th (rt\<lparr>rt_connection := Ssh c\<rparr>) (w\<lparr>hw_log := []\<rparr>)
   in admitted (launch_policy (rt_id rt)) [] (hw_log (snd run))
      \<and> (case fst run of Inl e \<Rightarrow> True | Inr u \<Rightarrow> serving (rt_id rt) (hw_log (snd run)))"
proof -
  let ?run = "start_trainer th (rt\<lparr>rt_connection := Ssh c\<rparr>) (w\<lparr>hw_log := []\<rparr>)"
  have "fst ?run = Inr u \<Longrightarrow> serving (rt_id rt) (hw_log (snd ?run))" for u
    by (rule host.keeps_policyD(3) [OF keeps_start empty_log TrueI surjective_pairing])
  then show ?thesis using policy_kept(1) [of th rt c w] by (auto simp: admitted_policies Let_def split: sum.split)
qed

text \<open>C22: starting and stopping a trainer stops and removes only its container and its volume, containers whose
  labels were read and name this installation and this trainer, and images that were listed with another digest than
  the one whose signature was checked.\<close>

theorem only_own_containers_removed:
  "admitted (removal_policy th (rt_id rt)) [] (hw_log (snd (start_trainer th (rt\<lparr>rt_connection := Ssh c\<rparr>) (w\<lparr>hw_log := []\<rparr>))))
   \<and> admitted (removal_policy th (rt_id rt)) [] (hw_log (snd (stop_trainer th rt remove_data (w\<lparr>hw_log := []\<rparr>))))"
  using policy_kept [of th rt] by (simp add: admitted_policies)

section \<open>Setting up the host\<close>

lemma keeps_finally_do:
  assumes m: "holds th i (\<lambda>l. True) m" and f: "holds th i (\<lambda>l. True) f"
  shows "holds th i (\<lambda>l. True) (finally_do m f)"
proof (rule host.keeps_policyI)
  fix w r w2 assume a: "admitted (host_policy th i) [] (hw_log w)" "finally_do m f w = (r, w2)"
  obtain r1 w1 where m1: "m w = (r1, w1)" by fastforce
  obtain r2 where f1: "f w1 = (r2, w2)" using a(2) m1 by (auto simp: finally_do_def split: prod.splits sum.splits)
  note k = host.keeps_policyD [OF m a(1) TrueI m1]
  note k2 = host.keeps_policyD [OF f k(1) TrueI f1]
  show "admitted (host_policy th i) [] (hw_log w2) \<and> (\<exists>es. hw_log w2 = hw_log w @ es) \<and> (\<forall>b. r = Inr b \<longrightarrow> True)"
    using k(2) k2(1,2) by auto
qed

lemma holds_upload: "holds th i P (upload_file th path)" if "lasts P"
  using lastsD [OF that] host.quiet(5)
  by (auto simp: host.keeps_policy_def upload_file_def Let_def log_event_def admitted_snoc split: option.splits)

lemma install_argv_harmless: "harmless (install_argv d b)"
  by (simp add: harmless_def install_argv_def)

lemma holds_install: "holds th i (\<lambda>l. True) (install_on_host th al check_only)"
  unfolding install_on_host_def run_command_def Let_def
  by (intro holds_then holds_harmless host.keeps_if holds_returns keeps_finally_do holds_upload install_argv_harmless lasts_rules)
    (simp_all add: harmless_def)

lemma holds_report [intro!]: "holds th i P (report_failure j reason)" "holds th i P (updates (set_install_phase j phase))"
  unfolding report_failure_def by (auto intro!: host.keeps_updates simp: set_install_failure_def set_install_phase_def)

lemma holds_install_prerequisites: "holds th i (\<lambda>l. True) (install_ssh_prerequisites th rt)"
  unfolding install_ssh_prerequisites_def
  by (auto split: sum.split intro!: holds_then host.keeps_transport holds_install host.keeps_if)

lemma holds_start: "holds th (rt_id rt) (\<lambda>l. True) (start_trainer th (rt\<lparr>rt_connection := Ssh c\<rparr>))"
  by (rule host.policy_weaken [OF keeps_start]) simp_all

lemma holds_start_if_ready: "holds th (rt_id rt) (\<lambda>l. True) (start_if_ready th (rt\<lparr>rt_connection := Ssh c\<rparr>) outcome)"
  unfolding start_if_ready_def by (intro host.keeps_if holds_start holds_report)

lemma holds_run_install: "holds th (rt_id rt) (\<lambda>l. True) (run_install th (rt\<lparr>rt_connection := Ssh c\<rparr>))"
  unfolding run_install_def
  by (intro host.keeps_finally host.keeps_on_exception holds_then holds_install_prerequisites holds_start_if_ready holds_report lasts_rules)
    (simp add: set_install_phase_def)

text \<open>The reboot is asked for where the list of containers was empty.\<close>

lemma reboot_allowed: "seen_idle l \<Longrightarrow> host_policy th i l (Ran [''sudo'', ''-n'', ''reboot''] r)"
  by (simp add: host_policy_def launch_policy_def removal_policy_def reboot_policy_def)

lemma holds_reboot_command:
  "host.keeps_policy th i seen_idle (\<lambda>w. case run_command th al [''sudo'', ''-n'', ''reboot''] w of
             (Inr r, w1) \<Rightarrow>
               if outcome_ok r then (Inr (Some before), w1)
               else and_then (report_failure j ''reboot_failed'') (\<lambda>u. returns None) w1
           | (Inl e, w1) \<Rightarrow>
               (case e of SshExn (SshConnectionError a why) \<Rightarrow> (Inr (Some before), w1) | _ \<Rightarrow> (Inl e, w1))) (\<lambda>a l. True)"
proof (rule host.keeps_policyI)
  let ?m = "run_command th al [''sudo'', ''-n'', ''reboot'']"
  fix w r w2
  assume a: "admitted (host_policy th i) [] (hw_log w)" "seen_idle (hw_log w)" and
    m: "(case ?m w of (Inr r, w1) \<Rightarrow>
               if outcome_ok r then (Inr (Some before), w1)
               else and_then (report_failure j ''reboot_failed'') (\<lambda>u. returns None) w1
           | (Inl e, w1) \<Rightarrow>
               (case e of SshExn (SshConnectionError a why) \<Rightarrow> (Inr (Some before), w1) | _ \<Rightarrow> (Inl e, w1))) = (r, w2)"
  obtain x w1 where x: "?m w = (x, w1)" by fastforce
  have h: "holds th i seen_idle ?m"
    unfolding run_command_def by (rule holds_run [OF reboot_allowed]) simp_all
  note k = host.keeps_policyD [OF h a x]
  have "hw_log w2 = hw_log w1"
    using m x by (auto simp: and_then_def report_failure_def updates_def returns_def set_install_failure_def
        split: sum.splits host_exn.splits ssh_exn.splits if_splits)
  then show "admitted (host_policy th i) [] (hw_log w2) \<and> (\<exists>es. hw_log w2 = hw_log w @ es) \<and> (\<forall>b. r = Inr b \<longrightarrow> True)"
    using k(1,2) by simp
qed

lemma holds_request_reboot: "host.keeps_policy th i (\<lambda>l. True) (request_reboot th al j) (\<lambda>a l. True)"
  unfolding request_reboot_def
proof (rule host.keeps_then)
  show "host.keeps_policy th i (\<lambda>l. True) (run_command th al list_containers) (\<lambda>r l. Ran list_containers (Inr r) \<in> set l \<and> True)"
    unfolding run_command_def by (rule runs_harmless) (simp_all add: harmless_def list_containers_def)
  fix containers
  have b: "host.keeps_policy th i seen_idle (run_command th al read_boot_id) (\<lambda>a. seen_idle)"
    unfolding run_command_def by (rule holds_harmless) (simp_all add: harmless_def read_boot_id_def)
  have n: "host.keeps_policy th i P (and_then (report_failure j why) (\<lambda>u. returns None)) (\<lambda>a l. True)" for P why
    by (rule host.keeps_then [OF holds_report(1)]) (rule host.keeps_returns, simp)
  show "host.keeps_policy th i (\<lambda>l. Ran list_containers (Inr containers) \<in> set l \<and> True)
      (if \<not> outcome_ok containers then and_then (report_failure j ''docker_unavailable'') (\<lambda>u. returns None)
       else if strip_space (cr_stdout containers) \<noteq> [] then and_then (report_failure j ''reboot_blocked_active_containers'') (\<lambda>u. returns None)
       else and_then (run_command th al read_boot_id) (\<lambda>before.
         if \<not> outcome_ok before then raises (HostValueError ''Could not read remote boot ID'')
         else (\<lambda>w. case run_command th al [''sudo'', ''-n'', ''reboot''] w of
             (Inr r, w1) \<Rightarrow>
               if outcome_ok r then (Inr (Some (first_line before)), w1)
               else and_then (report_failure j ''reboot_failed'') (\<lambda>u. returns None) w1
           | (Inl e, w1) \<Rightarrow>
               (case e of SshExn (SshConnectionError a why) \<Rightarrow> (Inr (Some (first_line before)), w1) | _ \<Rightarrow> (Inl e, w1))))) (\<lambda>a l. True)"
  proof (intro host.keeps_if n)
    assume ok: "\<not> \<not> outcome_ok containers" "\<not> strip_space (cr_stdout containers) \<noteq> []"
    show "host.keeps_policy th i (\<lambda>l. Ran list_containers (Inr containers) \<in> set l \<and> True)
       (and_then (run_command th al read_boot_id) (\<lambda>before.
         if \<not> outcome_ok before then raises (HostValueError ''Could not read remote boot ID'')
         else (\<lambda>w. case run_command th al [''sudo'', ''-n'', ''reboot''] w of
             (Inr r, w1) \<Rightarrow>
               if outcome_ok r then (Inr (Some (first_line before)), w1)
               else and_then (report_failure j ''reboot_failed'') (\<lambda>u. returns None) w1
           | (Inl e, w1) \<Rightarrow>
               (case e of SshExn (SshConnectionError a why) \<Rightarrow> (Inr (Some (first_line before)), w1) | _ \<Rightarrow> (Inl e, w1))))) (\<lambda>a l. True)"
      by (rule host.policy_weaken [where P' = seen_idle and Q' = "\<lambda>a l. True", OF host.keeps_then [OF b host.keeps_if]])
        (use ok in \<open>auto simp: seen_idle_def intro!: host.keeps_raises holds_reboot_command\<close>)
  qed
qed

lemma holds_check_rebooted: "holds th i (\<lambda>l. True) (check_rebooted th al j boot_id)"
  unfolding check_rebooted_def run_command_def
  by (intro host.keeps_transport holds_then holds_harmless host.keeps_if holds_returns holds_report holds_install lasts_rules)
    (simp_all add: harmless_def read_boot_id_def)

lemma holds_await_reboot: "holds th i (\<lambda>l. True) (await_reboot n th al j boot_id)"
proof (induction n)
  case 0
  then show ?case by (simp add: host.keeps_policy_def)
next
  case (Suc n)
  show ?case
  proof (rule host.keeps_policyI)
    fix w r w3 assume a: "admitted (host_policy th i) [] (hw_log w)" "await_reboot (Suc n) th al j boot_id w = (r, w3)"
    show "admitted (host_policy th i) [] (hw_log w3) \<and> (\<exists>es. hw_log w3 = hw_log w @ es) \<and> (\<forall>b. r = Inr b \<longrightarrow> True)"
    proof (cases "th_interrupts th (hw_log w)")
      case False
      define w1 where "w1 = (log_event (Slept REBOOT_POLL_MS) w)\<lparr>hw_now := hw_now w + REBOOT_POLL_MS\<rparr>"
      have l1: "hw_log w1 = hw_log w @ [Slept REBOOT_POLL_MS]" by (simp add: w1_def log_event_def)
      then have a1: "admitted (host_policy th i) [] (hw_log w1)" using a(1) host.quiet(2) by (simp add: admitted_snoc)
      obtain x w2 where x: "check_rebooted th al j boot_id w1 = (x, w2)" by fastforce
      note k = host.keeps_policyD [OF holds_check_rebooted a1 TrueI x]
      have "w3 = w2 \<or> await_reboot n th al j boot_id w2 = (r, w3)"
        using a(2) False x by (auto simp: w1_def split: sum.splits option.splits host_exn.splits ssh_exn.splits)
      then show ?thesis using k(1,2) l1 host.keeps_policyD(1,2) [OF Suc.IH k(1) TrueI, of r w3] by auto
    qed (use a in simp)
  qed
qed

lemma holds_run_reboot: "holds th (rt_id rt) (\<lambda>l. True) (run_reboot th (rt\<lparr>rt_connection := Ssh c\<rparr>))"
proof -
  have "holds th (rt_id rt) (\<lambda>l. True) (reboot_workflow th (rt\<lparr>rt_connection := Ssh c\<rparr>))"
    unfolding reboot_workflow_def
    by (auto split: sum.split option.split intro!: holds_then host.keeps_transport holds_request_reboot holds_await_reboot
        host.keeps_if holds_install_prerequisites holds_start_if_ready)
  then show ?thesis unfolding run_reboot_def
    by (intro host.keeps_finally host.keeps_on_exception holds_report lasts_rules) (simp_all add: set_install_phase_def)
qed

lemma setup_policy_kept:
  "admitted (host_policy th (rt_id rt)) [] (hw_log (snd (run_install th (rt\<lparr>rt_connection := Ssh c\<rparr>) (w\<lparr>hw_log := []\<rparr>))))"
  "admitted (host_policy th (rt_id rt)) [] (hw_log (snd (run_reboot th (rt\<lparr>rt_connection := Ssh c\<rparr>) (w\<lparr>hw_log := []\<rparr>))))"
  by (rule host.keeps_policyD(1) [OF holds_run_install empty_log TrueI surjective_pairing],
      rule host.keeps_policyD(1) [OF holds_run_reboot empty_log TrueI surjective_pairing])

text \<open>An installation that is not cancelled reports why the trainer does not run, or has a container that runs.\<close>

lemma install_reports:
  assumes "run_install th (rt\<lparr>rt_connection := Ssh c\<rparr>) w = (r, w')" "admitted (host_policy th (rt_id rt)) [] (hw_log w)"
  shows "case r of Inl e \<Rightarrow> e = SshExn Interrupted
    | Inr u \<Rightarrow> serving (rt_id rt) (hw_log w') \<or> hw_launch_failure w' (rt_id rt) \<noteq> None"
proof -
  let ?rt = "rt\<lparr>rt_connection := Ssh c\<rparr>"
  have s: "host.keeps_policy th (rt_id rt) (\<lambda>l. True) (start_trainer th ?rt) (\<lambda>u. serving (rt_id rt))" by (rule keeps_start)
  obtain x w1 where x: "install_ssh_prerequisites th ?rt w = (x, w1)" by fastforce
  note k = host.keeps_policyD [OF holds_install_prerequisites assms(2) TrueI x]
  obtain y w2 where y: "start_trainer th ?rt w1 = (y, w2)" by fastforce
  note k2 = host.keeps_policyD [OF s k(1) TrueI y]
  show ?thesis
    using assms(1) x y k2(3)
    by (cases x) (auto simp: run_install_def finally_notes_def on_exception_def and_then_def start_if_ready_def report_failure_def updates_def
        set_install_phase_def set_install_failure_def split: sum.splits if_splits)
qed

text \<open>C23: setting up a host, and rebooting it, has root reboot the host only after its containers were listed and there
  were none; whatever is run, stopped or removed on the way is covered by the policies of a start; and an installation
  that is not cancelled ends with a container that runs or a reason why there is none.\<close>

theorem setup_reboots_idle_hosts_only:
  "let installed = run_install th (rt\<lparr>rt_connection := Ssh c\<rparr>) (w\<lparr>hw_log := []\<rparr>);
       rebooted = run_reboot th (rt\<lparr>rt_connection := Ssh c\<rparr>) (w\<lparr>hw_log := []\<rparr>)
   in list_all (\<lambda>l. admitted reboot_policy [] l \<and> admitted (launch_policy (rt_id rt)) [] l \<and> admitted (removal_policy th (rt_id rt)) [] l)
        [hw_log (snd installed), hw_log (snd rebooted)]
      \<and> (case fst installed of Inl e \<Rightarrow> e = SshExn Interrupted
         | Inr u \<Rightarrow> (case hw_launch_failure (snd installed) (rt_id rt) of
              None \<Rightarrow> serving (rt_id rt) (hw_log (snd installed)) | Some reason \<Rightarrow> True))"
  using setup_policy_kept [of th rt c w] install_reports [of th c rt "w\<lparr>hw_log := []\<rparr>", OF surjective_pairing empty_log]
  by (auto simp: admitted_policies Let_def split: sum.splits option.split)

text \<open>
  The reason that a start has found is lost: whatever it was, an installation reports that installing has failed, and
  a reboot that the reboot has.
\<close>

lemma start_reason_overwritten:
  assumes "install_ssh_prerequisites th rt w = (Inr ''ready'', w1)" "start_trainer th rt w1 = (Inl (HostValueError m), w2)"
  shows "hw_launch_failure (snd (run_install th rt w)) (rt_id rt) = Some ''installation_failed''"
  using assms by (simp add: run_install_def finally_notes_def on_exception_def and_then_def start_if_ready_def report_failure_def
      updates_def set_install_phase_def set_install_failure_def install_failure_of_def)

text \<open>However a start ends, the trainer has no launch phase afterwards.\<close>

lemma start_clears_phase:
  assumes "ssh_target (rt\<lparr>rt_connection := Ssh c\<rparr>) = Inr t"
  shows "hw_launch_phase (snd (start_trainer th (rt\<lparr>rt_connection := Ssh c\<rparr>) w)) (rt_id rt) = None"
  using assms by (simp add: start_trainer_def and_then_def updates_def finally_notes_def split: prod.splits)

text \<open>An image that is listed twice, with the digest that was checked and with another, is removed although it is the one to keep.\<close>

lemma current_image_pruned:
  "stale_ids th ''sha256:new'' [''4f1d sha256:new'', ''4f1d sha256:old''] = [''4f1d'']"
  by (simp add: stale_ids_def listed_image_def strip_space_def is_space_def char_code_def)

end
