(* ===== verification/TrainerRegistry.thy ===== *)
theory TrainerRegistry
  imports TrainerHost
begin

text \<open>
  The registered trainers of the studio: \<^verbatim>\<open>services/remote_trainer_service.py\<close>, the tunnels of
  \<^verbatim>\<open>services/remote_trainer_tunnel_manager.py\<close> and \<^verbatim>\<open>services/ssh/tunnel.py\<close>. Saving, changing and deleting
  a trainer run under one lock, so each is one step here. What the network, the database and the hosts answer is an
  argument of the step.
\<close>

section \<open>Tunnels\<close>

datatype registry_exn =
    ResourceNotFoundError string
  | ResourceAlreadyExistsError string string
  | ResourceInUseError string
  | InvalidResourceError string
  | SshFeatureDisabledError
  | AddressInUse
  | OsError string
  | HostFailed host_exn
  | PortSearchGoesOn

definition is_os_error :: "registry_exn \<Rightarrow> bool" where
  "is_os_error e \<longleftrightarrow> e = AddressInUse \<or> (case e of OsError s \<Rightarrow> True | _ \<Rightarrow> False)"

text \<open>
  One attempt to connect: what the connection raises, what a forward from a port raises, 0 asking for any, and the port
  that is given then; a port that is asked for is the one a listener reports.
\<close>

record tunnel_dial =
  td_connect :: "registry_exn option"
  td_forward :: "int \<Rightarrow> registry_exn option"
  td_any_port :: int

definition listen :: "tunnel_dial \<Rightarrow> int \<Rightarrow> registry_exn + int" where
  "listen d p = (case td_forward d p of Some e \<Rightarrow> Inl e | None \<Rightarrow> Inr (if p = 0 then td_any_port d else p))"

record ssh_tunnel =
  tn_remote_port :: int
  tn_transport :: "nat option"
  tn_listener :: "int option"
  tn_local_port :: "int option"
  tn_fixed_port :: bool
  tn_closed :: bool
  tn_watched :: bool

definition new_tunnel :: "int \<Rightarrow> int option \<Rightarrow> ssh_tunnel" where
  "new_tunnel remote_port local_port = \<lparr>tn_remote_port = remote_port, tn_transport = None, tn_listener = None,
     tn_local_port = local_port, tn_fixed_port = (local_port \<noteq> None), tn_closed = False, tn_watched = False\<rparr>"

text \<open>The connections that were opened so far, by number, and those that are open.\<close>

record transports =
  tp_dials :: nat
  tp_open :: "nat set"

definition close_current_connection :: "ssh_tunnel \<Rightarrow> transports \<Rightarrow> ssh_tunnel \<times> transports" where
  "close_current_connection t w = (t\<lparr>tn_listener := None, tn_transport := None\<rparr>, w\<lparr>tp_open := tp_open w - set_option (tn_transport t)\<rparr>)"

definition forward_port :: "tunnel_dial \<Rightarrow> ssh_tunnel \<Rightarrow> registry_exn + int" where
  "forward_port d t =
     (case listen d (case tn_local_port t of None \<Rightarrow> 0 | Some p \<Rightarrow> p) of
        Inr p \<Rightarrow> Inr p
      | Inl e \<Rightarrow> if is_os_error e \<and> tn_local_port t \<noteq> None \<and> \<not> tn_fixed_port t then listen d 0 else Inl e)"

definition connect_and_forward ::
  "(nat \<Rightarrow> tunnel_dial) \<Rightarrow> ssh_tunnel \<Rightarrow> transports \<Rightarrow> (registry_exn + unit) \<times> ssh_tunnel \<times> transports" where
  "connect_and_forward dials t w =
     (case close_current_connection t w of (t1, w1) \<Rightarrow>
        (let n = tp_dials w1; d = dials n; w2 = w1\<lparr>tp_dials := Suc n\<rparr>
         in case td_connect d of
              Some e \<Rightarrow> (Inl e, t1, w2)
            | None \<Rightarrow>
                (let w3 = w2\<lparr>tp_open := insert n (tp_open w2)\<rparr>
                 in case forward_port d t1 of
                      Inl e \<Rightarrow> (Inl e, t1, w3\<lparr>tp_open := tp_open w3 - {n}\<rparr>)
                    | Inr p \<Rightarrow> (Inr (), t1\<lparr>tn_transport := Some n, tn_listener := Some p, tn_local_port := Some p\<rparr>, w3))))"

definition open_tunnel ::
  "(nat \<Rightarrow> tunnel_dial) \<Rightarrow> bool \<Rightarrow> ssh_tunnel \<Rightarrow> transports \<Rightarrow> (registry_exn + unit) \<times> ssh_tunnel \<times> transports" where
  "open_tunnel dials retry_on_failure t w =
     (case connect_and_forward dials t w of
        (Inl e, t1, w1) \<Rightarrow> if retry_on_failure then (Inr (), t1\<lparr>tn_watched := True\<rparr>, w1) else (Inl e, t1, w1)
      | (Inr u, t1, w1) \<Rightarrow> (Inr (), t1\<lparr>tn_watched := True\<rparr>, w1))"

text \<open>
  The watchdog after a drop: attempts until one succeeds, with the pauses between them in seconds. The first argument
  bounds the attempts that are looked at; without a success among them it is still trying (\<open>False\<close>).
\<close>

fun reconnect_with_backoff ::
  "nat \<Rightarrow> (nat \<Rightarrow> tunnel_dial) \<Rightarrow> real \<Rightarrow> real \<Rightarrow> ssh_tunnel \<Rightarrow> transports \<Rightarrow> bool \<times> real list \<times> ssh_tunnel \<times> transports" where
  "reconnect_with_backoff 0 dials backoff_max backoff t w = (False, [], t, w)"
| "reconnect_with_backoff (Suc n) dials backoff_max backoff t w =
     (if tn_closed t then (False, [], t, w)
      else case connect_and_forward dials t w of
        (Inr u, t1, w1) \<Rightarrow> (True, [], t1, w1)
      | (Inl e, t1, w1) \<Rightarrow>
          (case reconnect_with_backoff n dials backoff_max (min (backoff * 2) backoff_max) t1 w1 of
             (reached, sleeps, t2, w2) \<Rightarrow> (reached, min backoff backoff_max # sleeps, t2, w2)))"

definition close_tunnel :: "ssh_tunnel \<Rightarrow> transports \<Rightarrow> ssh_tunnel \<times> transports" where
  "close_tunnel t w = (t\<lparr>tn_closed := True, tn_watched := False, tn_listener := None, tn_transport := None\<rparr>,
     w\<lparr>tp_open := tp_open w - set_option (tn_transport t)\<rparr>)"

section \<open>The registry\<close>

datatype registry_effect =
    LaunchCanceled string
  | LaunchStarted string
  | ContainerStopped string bool
  | LaunchStateCleared string
  | InstallStarted string
  | RebootStarted string

record registry =
  rg_rows :: "RemoteTrainer list"
  rg_tunnels :: "string \<rightharpoonup> ssh_tunnel"
  rg_transports :: transports
  rg_launches :: "string set"
  rg_installs :: "string set"
  rg_effects :: "registry_effect list"

record registry_env =
  ge_dials :: "nat \<Rightarrow> tunnel_dial"
  ge_ssh_active :: bool
  ge_active_job :: "string \<Rightarrow> bool"
  ge_uuid :: "nat \<Rightarrow> string"
  ge_offered_ports :: "nat \<Rightarrow> int list"
  ge_conflict :: "nat \<Rightarrow> bool"
  ge_stop :: "RemoteTrainer \<Rightarrow> bool \<Rightarrow> registry_exn option"
  ge_launch_failure :: "string \<Rightarrow> string option"

definition empty_registry :: registry where
  "empty_registry = \<lparr>rg_rows = [], rg_tunnels = Map.empty, rg_transports = \<lparr>tp_dials = 0, tp_open = {}\<rparr>, rg_launches = {},
     rg_installs = {}, rg_effects = []\<rparr>"

definition rg_effect :: "registry_effect \<Rightarrow> registry \<Rightarrow> registry" where
  "rg_effect e g = g\<lparr>rg_effects := rg_effects g @ [e]\<rparr>"

definition ssh_of :: "TrainerConnection \<Rightarrow> SshConnection option" where
  "ssh_of c = (case c of Ssh s \<Rightarrow> Some s | _ \<Rightarrow> None)"

definition is_ssh :: "RemoteTrainer \<Rightarrow> bool" where
  "is_ssh rt \<longleftrightarrow> ssh_of (rt_connection rt) \<noteq> None"

definition connection_url :: "TrainerConnection \<Rightarrow> string option" where
  "connection_url c =
     (case c of
        Direct u \<Rightarrow> Some u
      | Ssh s \<Rightarrow> map_option (\<lambda>p. ''http://127.0.0.1:'' @ int_str p) (sc_ssh_local_port s)
      | AwsBatch a \<Rightarrow> None)"

subsection \<open>The tunnels of the trainers\<close>

definition close_locked :: "string \<Rightarrow> registry \<Rightarrow> registry" where
  "close_locked i g =
     (case rg_tunnels g i of
        None \<Rightarrow> g
      | Some t \<Rightarrow> g\<lparr>rg_tunnels := (rg_tunnels g)(i := None), rg_transports := snd (close_tunnel t (rg_transports g))\<rparr>)"

definition open_locked :: "registry_env \<Rightarrow> RemoteTrainer \<Rightarrow> bool \<Rightarrow> registry \<Rightarrow> (registry_exn + unit) \<times> registry" where
  "open_locked env rt retry_on_failure g =
     (case rt_connection rt of
        Ssh c \<Rightarrow>
          if sc_ssh_host_alias c = None \<and> sc_ssh_connection c = None then (Inr (), g)
          else (case open_tunnel (ge_dials env) retry_on_failure (new_tunnel (sc_ssh_remote_port c) (sc_ssh_local_port c)) (rg_transports g) of
              (Inl e, t, w) \<Rightarrow> (Inl e, g\<lparr>rg_transports := w\<rparr>)
            | (Inr u, t, w) \<Rightarrow> (Inr (), g\<lparr>rg_transports := w, rg_tunnels := (rg_tunnels g)(rt_id rt \<mapsto> t)\<rparr>))
      | _ \<Rightarrow> (Inr (), g))"

definition sync_tunnel :: "registry_env \<Rightarrow> RemoteTrainer \<Rightarrow> bool \<Rightarrow> registry \<Rightarrow> (registry_exn + unit) \<times> registry" where
  "sync_tunnel env rt retry_on_failure g =
     (let g1 = close_locked (rt_id rt) g
      in if \<not> is_ssh rt then (Inr (), g1)
         else if \<not> ge_ssh_active env then (Inr (), g1)
         else open_locked env rt retry_on_failure g1)"

text \<open>At startup and shutdown: a trainer that cannot be reached keeps no other from its tunnel.\<close>

definition start_all :: "registry_env \<Rightarrow> RemoteTrainer list \<Rightarrow> registry \<Rightarrow> registry" where
  "start_all env rts g = fold (\<lambda>rt g. if is_ssh rt then snd (sync_tunnel env rt True g) else g) rts g"

definition stop_all :: "string list \<Rightarrow> registry \<Rightarrow> registry" where
  "stop_all ids g = fold close_locked ids g"

subsection \<open>Checks\<close>

definition find_trainer :: "string \<Rightarrow> registry \<Rightarrow> RemoteTrainer option" where
  "find_trainer i g = find (\<lambda>rt. rt_id rt = i) (rg_rows g)"

definition same_ssh_container :: "SshConnection \<Rightarrow> SshConnection \<Rightarrow> bool" where
  "same_ssh_container a b \<longleftrightarrow> sc_ssh_remote_port a = sc_ssh_remote_port b \<and> sc_ssh_host_alias a = sc_ssh_host_alias b
     \<and> sc_ssh_connection a = sc_ssh_connection b"

definition clashes :: "RemoteTrainer \<Rightarrow> RemoteTrainer \<Rightarrow> bool" where
  "clashes rt existing \<longleftrightarrow> rt_id existing \<noteq> rt_id rt
     \<and> (case rt_connection rt of
          Ssh c \<Rightarrow> (case rt_connection existing of Ssh other \<Rightarrow> same_ssh_container other c | _ \<Rightarrow> False)
        | c \<Rightarrow> connection_url c \<noteq> None \<and> connection_url (rt_connection existing) = connection_url c)"

definition clash_message :: "RemoteTrainer \<Rightarrow> string" where
  "clash_message rt =
     (case rt_connection rt of
        Ssh c \<Rightarrow> ''Remote port '' @ int_str (sc_ssh_remote_port c) @ '' is already used on this SSH host. ''
          @ ''Choose a different remote port under Advanced settings.''
      | _ \<Rightarrow> ''A trainer with this URL is already configured.'')"

definition ensure_unique_connection :: "RemoteTrainer \<Rightarrow> registry \<Rightarrow> registry_exn + unit" where
  "ensure_unique_connection rt g =
     (if list_ex (clashes rt) (rg_rows g) then Inl (ResourceAlreadyExistsError ''Remote trainer'' (clash_message rt)) else Inr ())"

definition local_port_conflict :: "int option \<Rightarrow> registry_exn" where
  "local_port_conflict port = ResourceAlreadyExistsError ''Local port''
     ((case port of None \<Rightarrow> ''None'' | Some p \<Rightarrow> int_str p) @ '' is already in use on this Studio host. ''
       @ ''Choose another local port under Advanced settings or leave it blank to assign one automatically.'')"

definition url_conflict :: registry_exn where
  "url_conflict = ResourceAlreadyExistsError ''Remote trainer'' ''A trainer with this URL is already configured.''"

definition port_conflict :: "TrainerConnection \<Rightarrow> registry_exn" where
  "port_conflict c = (case c of Ssh s \<Rightarrow> local_port_conflict (sc_ssh_local_port s) | _ \<Rightarrow> url_conflict)"

definition require_ssh_feature_if_tunneled :: "registry_env \<Rightarrow> TrainerConnection \<Rightarrow> registry_exn + unit" where
  "require_ssh_feature_if_tunneled env c = (if ssh_of c \<noteq> None \<and> \<not> ge_ssh_active env then Inl SshFeatureDisabledError else Inr ())"

definition require_no_active_jobs :: "registry_env \<Rightarrow> string \<Rightarrow> registry_exn + unit" where
  "require_no_active_jobs env i = (if ge_active_job env i then Inl (ResourceInUseError i) else Inr ())"

text \<open>The system offers free ports until one is not reserved; where none of those that are looked at is, the search goes on.\<close>

definition assign_local_port :: "registry_env \<Rightarrow> nat \<Rightarrow> TrainerConnection \<Rightarrow> registry \<Rightarrow> registry_exn + TrainerConnection" where
  "assign_local_port env attempt c g =
     (case c of
        Ssh s \<Rightarrow>
          if sc_ssh_local_port s \<noteq> None then Inr c
          else (let reserved = List.map_filter (\<lambda>rt. map_option sc_ssh_local_port (ssh_of (rt_connection rt))) (rg_rows g)
                in case find (\<lambda>p. Some p \<notin> set reserved) (ge_offered_ports env attempt) of
                     None \<Rightarrow> Inl PortSearchGoesOn
                   | Some p \<Rightarrow> Inr (Ssh (s\<lparr>sc_ssh_local_port := Some p\<rparr>)))
      | _ \<Rightarrow> Inr c)"

definition wants_port :: "TrainerConnection \<Rightarrow> bool" where
  "wants_port c \<longleftrightarrow> (case c of Ssh s \<Rightarrow> sc_ssh_local_port s = None | _ \<Rightarrow> False)"

definition validate_connection_update :: "registry_env \<Rightarrow> RemoteTrainer \<Rightarrow> RemoteTrainer \<Rightarrow> registry \<Rightarrow> registry_exn + unit" where
  "validate_connection_update env previous current g =
     (if rt_connection previous = rt_connection current then Inr ()
      else bind_result (require_ssh_feature_if_tunneled env (rt_connection current)) (\<lambda>u.
        bind_result (if is_ssh previous \<or> is_ssh current then require_no_active_jobs env (rt_id previous) else Inr ()) (\<lambda>u.
          ensure_unique_connection current g)))"

definition setup_blocked :: "string set" where
  "setup_blocked = {''reboot_required'', ''relogin_required'', ''reboot_blocked_active_containers'', ''nvidia_driver_unavailable''}"

definition job_submission_allowed :: "registry_env \<Rightarrow> string option \<Rightarrow> registry \<Rightarrow> registry_exn + unit" where
  "job_submission_allowed env trainer g =
     (case trainer of
        None \<Rightarrow> Inr ()
      | Some i \<Rightarrow>
          if i \<in> rg_installs g \<or> (case ge_launch_failure env i of None \<Rightarrow> False | Some f \<Rightarrow> f \<in> setup_blocked) then Inl (ResourceInUseError i)
          else Inr ())"

subsection \<open>Operations\<close>

definition save_row :: "RemoteTrainer \<Rightarrow> registry \<Rightarrow> registry" where
  "save_row rt g = g\<lparr>rg_rows := rg_rows g @ [rt]\<rparr>"

definition update_row :: "RemoteTrainer \<Rightarrow> registry \<Rightarrow> registry" where
  "update_row rt g = g\<lparr>rg_rows := map (\<lambda>r. if rt_id r = rt_id rt then rt else r) (rg_rows g)\<rparr>"

definition delete_row :: "string \<Rightarrow> registry \<Rightarrow> registry" where
  "delete_row i g = g\<lparr>rg_rows := filter (\<lambda>r. rt_id r \<noteq> i) (rg_rows g)\<rparr>"

definition cancel_launch :: "string \<Rightarrow> registry \<Rightarrow> registry" where
  "cancel_launch i g = (if i \<in> rg_launches g then rg_effect (LaunchCanceled i) (g\<lparr>rg_launches := rg_launches g - {i}\<rparr>) else g)"

definition start_in_background :: "RemoteTrainer \<Rightarrow> registry \<Rightarrow> registry" where
  "start_in_background rt g =
     (if is_ssh rt then rg_effect (LaunchStarted (rt_id rt)) (g\<lparr>rg_launches := insert (rt_id rt) (rg_launches g)\<rparr>) else g)"

definition install_remote_trainer :: "registry_env \<Rightarrow> string \<Rightarrow> registry \<Rightarrow> (registry_exn + unit) \<times> registry" where
  "install_remote_trainer env i g =
     (case find_trainer i g of
        None \<Rightarrow> (Inl (ResourceNotFoundError i), g)
      | Some rt \<Rightarrow>
          if \<not> is_ssh rt then (Inl (InvalidResourceError ''Prerequisite installation requires an SSH trainer''), g)
          else case bind_result (require_ssh_feature_if_tunneled env (rt_connection rt)) (\<lambda>u.
                 if i \<in> rg_installs g then Inl (ResourceInUseError i) else require_no_active_jobs env i) of
            Inl e \<Rightarrow> (Inl e, g)
          | Inr u \<Rightarrow> (let g1 = cancel_launch i g
                in (Inr (), rg_effect (InstallStarted i) (g1\<lparr>rg_installs := insert i (rg_installs g1)\<rparr>))))"

definition rebootable :: "string set" where
  "rebootable = {''reboot_required'', ''reboot_blocked_active_containers'', ''nvidia_driver_unavailable''}"

definition reboot_installed_host :: "registry_env \<Rightarrow> string \<Rightarrow> registry \<Rightarrow> (registry_exn + unit) \<times> registry" where
  "reboot_installed_host env i g =
     (case find_trainer i g of
        None \<Rightarrow> (Inl (ResourceNotFoundError i), g)
      | Some rt \<Rightarrow>
          case bind_result (require_ssh_feature_if_tunneled env (rt_connection rt)) (\<lambda>u.
                 if \<not> is_ssh rt \<or> \<not> (case ge_launch_failure env i of None \<Rightarrow> False | Some f \<Rightarrow> f \<in> rebootable) \<or> i \<in> rg_installs g
                 then Inl (InvalidResourceError ''No rebootable host setup state is available'')
                 else require_no_active_jobs env i) of
            Inl e \<Rightarrow> (Inl e, g)
          | Inr u \<Rightarrow> (Inr (), rg_effect (RebootStarted i) (g\<lparr>rg_installs := insert i (rg_installs g)\<rparr>)))"

text \<open>Three attempts; the argument counts those that are left after this one. The database refuses an id it has.\<close>

definition save_refused :: "registry_env \<Rightarrow> nat \<Rightarrow> RemoteTrainer \<Rightarrow> registry \<Rightarrow> bool" where
  "save_refused env attempt rt g \<longleftrightarrow> ge_conflict env attempt \<or> rt_id rt \<in> rt_id ` set (rg_rows g)"

fun create_attempts ::
  "registry_env \<Rightarrow> string \<Rightarrow> TrainerConnection \<Rightarrow> nat \<Rightarrow> registry \<Rightarrow> (registry_exn + RemoteTrainer) \<times> registry" where
  "create_attempts env name c left g =
     (case assign_local_port env (2 - left) c g of
        Inl e \<Rightarrow> (Inl e, g)
      | Inr assigned \<Rightarrow>
          (let rt = \<lparr>rt_id = ge_uuid env (2 - left), rt_name = name, rt_connection = assigned\<rparr>
           in case ensure_unique_connection rt g of
                Inl e \<Rightarrow> (Inl e, g)
              | Inr u \<Rightarrow>
                  if save_refused env (2 - left) rt g then
                    (case ensure_unique_connection rt g of
                       Inl e \<Rightarrow> (Inl e, g)
                     | Inr u \<Rightarrow>
                         (case left of
                            Suc n \<Rightarrow> if wants_port c then create_attempts env name c n g else (Inl (port_conflict assigned), g)
                          | 0 \<Rightarrow> (Inl (port_conflict assigned), g)))
                  else
                    (case sync_tunnel env rt False (save_row rt g) of
                       (Inr u, g1) \<Rightarrow> (Inr rt, g1)
                     | (Inl e, g1) \<Rightarrow>
                         (let g2 = delete_row (rt_id rt) g1
                          in if e = AddressInUse \<and> is_ssh rt then
                               (case left of
                                  Suc n \<Rightarrow> if wants_port c then create_attempts env name c n g2 else (Inl (port_conflict assigned), g2)
                                | 0 \<Rightarrow> (Inl (port_conflict assigned), g2))
                             else (Inl e, g2)))))"

definition create_remote_trainer ::
  "registry_env \<Rightarrow> string \<Rightarrow> TrainerConnection \<Rightarrow> bool \<Rightarrow> registry \<Rightarrow> (registry_exn + RemoteTrainer) \<times> registry" where
  "create_remote_trainer env name c install_prerequisites g =
     (if install_prerequisites \<and> ssh_of c = None
      then (Inl (InvalidResourceError ''Prerequisite installation requires an SSH trainer''), g)
      else case require_ssh_feature_if_tunneled env c of
        Inl e \<Rightarrow> (Inl e, g)
      | Inr u \<Rightarrow>
          bind_state (create_attempts env name c 2 g) (\<lambda>saved g1.
            if install_prerequisites
            then bind_state (install_remote_trainer env (rt_id saved) g1) (\<lambda>u g2. (Inr saved, g2))
            else (Inr saved, start_in_background saved g1)))"

fun update_attempts ::
  "registry_env \<Rightarrow> RemoteTrainer \<Rightarrow> string \<Rightarrow> TrainerConnection \<Rightarrow> nat \<Rightarrow> registry \<Rightarrow> (registry_exn + RemoteTrainer) \<times> registry" where
  "update_attempts env old name c left g =
     (case assign_local_port env (2 - left) c g of
        Inl e \<Rightarrow> (Inl e, g)
      | Inr assigned \<Rightarrow>
          (let rt = old\<lparr>rt_name := name, rt_connection := assigned\<rparr>
           in case validate_connection_update env old rt g of
                Inl e \<Rightarrow> (Inl e, g)
              | Inr u \<Rightarrow>
                  if ge_conflict env (2 - left) then
                    (case ensure_unique_connection rt g of
                       Inl e \<Rightarrow> (Inl e, g)
                     | Inr u \<Rightarrow>
                         (case left of
                            Suc n \<Rightarrow> if wants_port c then update_attempts env old name c n g else (Inl (port_conflict assigned), g)
                          | 0 \<Rightarrow> (Inl (port_conflict assigned), g)))
                  else
                    (case sync_tunnel env rt False (update_row rt g) of
                       (Inr u, g1) \<Rightarrow> (Inr rt, g1)
                     | (Inl e, g1) \<Rightarrow>
                         (let g2 = update_row old g1
                          in if e = AddressInUse \<and> is_ssh rt then
                               (case left of
                                  Suc n \<Rightarrow>
                                    if wants_port c then update_attempts env old name c n g2
                                    else bind_state (sync_tunnel env old False g2) (\<lambda>u g3. (Inl (port_conflict assigned), g3))
                                | 0 \<Rightarrow> bind_state (sync_tunnel env old False g2) (\<lambda>u g3. (Inl (port_conflict assigned), g3)))
                             else (Inl e, g2)))))"

definition stop_container :: "registry_env \<Rightarrow> RemoteTrainer \<Rightarrow> bool \<Rightarrow> registry \<Rightarrow> (registry_exn + unit) \<times> registry" where
  "stop_container env rt remove_data g =
     (if \<not> is_ssh rt then (Inr (), g)
      else case ge_stop env rt remove_data of
        Some e \<Rightarrow> (Inl e, g)
      | None \<Rightarrow> (Inr (), rg_effect (ContainerStopped (rt_id rt) remove_data) g))"

definition stop_replaced_container :: "registry_env \<Rightarrow> RemoteTrainer \<Rightarrow> TrainerConnection \<Rightarrow> registry \<Rightarrow> (registry_exn + unit) \<times> registry" where
  "stop_replaced_container env old current g =
     (case ssh_of (rt_connection old) of
        None \<Rightarrow> (Inr (), g)
      | Some previous \<Rightarrow>
          (case ssh_of current of
             None \<Rightarrow> stop_container env old True g
           | Some now \<Rightarrow>
               (let host_changed = (sc_ssh_host_alias previous \<noteq> sc_ssh_host_alias now \<or> sc_ssh_connection previous \<noteq> sc_ssh_connection now)
                in if host_changed \<or> sc_ssh_remote_port previous \<noteq> sc_ssh_remote_port now then stop_container env old host_changed g
                   else (Inr (), g))))"

definition update_remote_trainer ::
  "registry_env \<Rightarrow> string \<Rightarrow> string option \<Rightarrow> TrainerConnection option \<Rightarrow> registry \<Rightarrow> (registry_exn + RemoteTrainer) \<times> registry" where
  "update_remote_trainer env i new_name new_connection g =
     (case find_trainer i g of
        None \<Rightarrow> (Inl (ResourceNotFoundError i), g)
      | Some old \<Rightarrow>
          if i \<in> rg_installs g then (Inl (ResourceInUseError i), g)
          else bind_state (update_attempts env old (case new_name of None \<Rightarrow> rt_name old | Some n \<Rightarrow> n)
              (case new_connection of None \<Rightarrow> rt_connection old | Some c \<Rightarrow> c) 2 g) (\<lambda>saved g1.
            bind_state (if rt_connection saved \<noteq> rt_connection old \<and> is_ssh old
                then stop_replaced_container env old (rt_connection saved) (cancel_launch i g1) else (Inr (), g1)) (\<lambda>u g2.
              (Inr saved, start_in_background saved g2))))"

definition delete_remote_trainer :: "registry_env \<Rightarrow> string \<Rightarrow> bool \<Rightarrow> registry \<Rightarrow> (registry_exn + unit) \<times> registry" where
  "delete_remote_trainer env i forget_locally g =
     (case find_trainer i g of
        None \<Rightarrow> (Inl (ResourceNotFoundError i), g)
      | Some rt \<Rightarrow>
          if i \<in> rg_installs g then (Inl (ResourceInUseError i), g)
          else case (if is_ssh rt then require_no_active_jobs env i else Inr ()) of
            Inl e \<Rightarrow> (Inl e, g)
          | Inr u \<Rightarrow>
              bind_state (if forget_locally then (Inr (), rg_effect (LaunchStateCleared i) (cancel_launch i g))
                  else stop_container env rt True (cancel_launch i g)) (\<lambda>u g1.
                (Inr (), delete_row i (close_locked i g1))))"

text \<open>An installation or a reboot ends, a launch ends, and the watchdog of a tunnel tries once more.\<close>

definition end_install :: "string \<Rightarrow> registry \<Rightarrow> registry" where
  "end_install i g = g\<lparr>rg_installs := rg_installs g - {i}\<rparr>"

definition end_launch :: "string \<Rightarrow> registry \<Rightarrow> registry" where
  "end_launch i g = g\<lparr>rg_launches := rg_launches g - {i}\<rparr>"

definition watch_tunnel :: "registry_env \<Rightarrow> nat \<Rightarrow> string \<Rightarrow> registry \<Rightarrow> registry" where
  "watch_tunnel env attempts i g =
     (case rg_tunnels g i of
        None \<Rightarrow> g
      | Some t \<Rightarrow>
          (case reconnect_with_backoff attempts (ge_dials env) 15 1 t (rg_transports g) of
             (reached, sleeps, t1, w1) \<Rightarrow> g\<lparr>rg_tunnels := (rg_tunnels g)(i \<mapsto> t1), rg_transports := w1\<rparr>))"

datatype registry_op =
    CreateTrainer string TrainerConnection bool
  | UpdateTrainer string "string option" "TrainerConnection option"
  | DeleteTrainer string bool
  | InstallTrainer string
  | RebootTrainer string
  | InstallEnded string
  | LaunchEnded string
  | TunnelDropped string nat
  | StudioStarts
  | StudioStops

text \<open>What the schemas let through; the HTTP layer answers anything else before it comes here.\<close>

definition port_in_range :: "int \<Rightarrow> bool" where
  "port_in_range p \<longleftrightarrow> 1 \<le> p \<and> p \<le> 65535"

definition valid_connection :: "TrainerConnection \<Rightarrow> bool" where
  "valid_connection c =
     (case c of
        Ssh s \<Rightarrow> exactly_one_host s \<and> port_in_range (sc_ssh_remote_port s)
          \<and> (case sc_ssh_local_port s of None \<Rightarrow> True | Some p \<Rightarrow> port_in_range p)
          \<and> (case sc_ssh_host_alias s of None \<Rightarrow> True | Some a \<Rightarrow> alias_ok a)
          \<and> (case sc_ssh_connection s of None \<Rightarrow> True
              | Some m \<Rightarrow> 1 \<le> length (ms_hostname m) \<and> length (ms_hostname m) \<le> 255 \<and> port_in_range (ms_port m)
                  \<and> (case ms_user m of None \<Rightarrow> True | Some u \<Rightarrow> length u \<le> 255)
                  \<and> (case ms_identity_file m of None \<Rightarrow> True | Some f \<Rightarrow> length f \<le> 4096))
      | _ \<Rightarrow> True)"

definition registry_step :: "registry_env \<times> registry_op \<Rightarrow> registry \<Rightarrow> registry" where
  "registry_step step g =
     (case step of (env, oper) \<Rightarrow>
        (case oper of
           CreateTrainer name c install \<Rightarrow>
             if valid_connection c then snd (create_remote_trainer env name c install g) else g
         | UpdateTrainer i name c \<Rightarrow>
             if c = None \<or> valid_connection (the c) then snd (update_remote_trainer env i name c g) else g
         | DeleteTrainer i forget \<Rightarrow> snd (delete_remote_trainer env i forget g)
         | InstallTrainer i \<Rightarrow> snd (install_remote_trainer env i g)
         | RebootTrainer i \<Rightarrow> snd (reboot_installed_host env i g)
         | InstallEnded i \<Rightarrow> end_install i g
         | LaunchEnded i \<Rightarrow> end_launch i g
         | TunnelDropped i attempts \<Rightarrow> watch_tunnel env attempts i g
         | StudioStarts \<Rightarrow> start_all env (rg_rows g) g
         | StudioStops \<Rightarrow> stop_all (map rt_id (rg_rows g)) g))"

definition registry_after :: "(registry_env \<times> registry_op) list \<Rightarrow> registry" where
  "registry_after steps = fold registry_step steps empty_registry"

section \<open>The health of a trainer\<close>

datatype health = Healthy | Degraded | Unreachable | Starting

text \<open>What a request brings: a document, a status that is an error, or why it failed.\<close>

datatype 'a http_answer = Answer 'a | NotJson | StatusError | RequestTimeout | ConnectFailed

text \<open>The devices of a trainer, each as validated or not; accelerators are kept. The storage is asked for last and may fail.\<close>

definition keep_accelerators :: "DeviceType option list \<Rightarrow> DeviceType list option" where
  "keep_accelerators ds = (if None \<in> set ds then None else Some (filter (\<lambda>d. d \<in> {XPU, CUDA}) (map the ds)))"

definition failed_probe :: "'a http_answer \<Rightarrow> health \<times> string option" where
  "failed_probe a =
     (case a of
        Answer x \<Rightarrow> (Healthy, None)
      | NotJson \<Rightarrow> (Degraded, Some ''invalid_devices_response'')
      | StatusError \<Rightarrow> (Unreachable, Some ''http_error'')
      | RequestTimeout \<Rightarrow> (Unreachable, Some ''timeout'')
      | ConnectFailed \<Rightarrow> (Unreachable, Some ''connection_failed''))"

definition probe_http ::
  "bool http_answer \<Rightarrow> DeviceType option list option http_answer \<Rightarrow> nat http_answer
     \<Rightarrow> (health \<times> string option) \<times> DeviceType list \<times> nat option" where
  "probe_http says_healthy listed storage =
     (case says_healthy of
        Answer False \<Rightarrow> ((Degraded, Some ''unhealthy''), [], None)
      | Answer True \<Rightarrow>
          (case listed of
             Answer None \<Rightarrow> ((Degraded, Some ''invalid_devices_response''), [], None)
           | Answer (Some ds) \<Rightarrow>
               (case keep_accelerators ds of
                  None \<Rightarrow> ((Degraded, Some ''invalid_devices_response''), [], None)
                | Some kept \<Rightarrow> ((Healthy, None), kept, (case storage of Answer n \<Rightarrow> Some n | _ \<Rightarrow> None)))
           | a \<Rightarrow> (failed_probe a, [], None))
      | a \<Rightarrow> (failed_probe a, [], None))"

definition require_managed_accelerator :: "RemoteTrainer \<Rightarrow> health \<times> string option \<Rightarrow> DeviceType list \<Rightarrow> health \<times> string option" where
  "require_managed_accelerator rt st devices =
     (if fst st = Healthy \<and> is_ssh rt \<and> devices = [] then (Degraded, Some ''container_accelerator_unavailable'') else st)"

text \<open>The report: status, reason, devices, and whether the absence of issues is known; the tables of the launches may change.\<close>

definition probe_result ::
  "RemoteTrainer \<Rightarrow> (health \<times> string option) \<times> DeviceType list \<times> nat option \<Rightarrow> host_world
     \<Rightarrow> ((health \<times> string option) \<times> DeviceType list \<times> bool) \<times> host_world" where
  "probe_result rt probed w =
     (case probed of (st, devices, storage) \<Rightarrow>
        (let (status, reason) = require_managed_accelerator rt st devices
         in if status \<noteq> Unreachable then (((status, reason), devices, status \<in> {Healthy, Degraded}), mark_reachable (rt_id rt) w)
            else if is_within_startup_grace_period (rt_id rt) w
            then (((Starting, Some ''Waiting for the trainer container to come online''), devices, False), w)
            else (((status, reason), devices, False), w)))"

definition probe_remote_trainer ::
  "RemoteTrainer \<Rightarrow> (health \<times> string option) \<times> DeviceType list \<times> nat option \<Rightarrow> host_world
     \<Rightarrow> ((health \<times> string option) \<times> DeviceType list \<times> bool) \<times> host_world" where
  "probe_remote_trainer rt probed w =
     (case hw_launch_phase w (rt_id rt) of
        Some phase \<Rightarrow> (((Starting, Some phase), [], False), w)
      | None \<Rightarrow>
          (case hw_launch_failure w (rt_id rt) of
             Some failure \<Rightarrow>
               if failure \<noteq> [] then (((Degraded, Some failure), [], False), w)
               else probe_result rt probed w
           | None \<Rightarrow> probe_result rt probed w))"

end
