(* ===== verification/TrainerRegistryProps.thy ===== *)
theory TrainerRegistryProps
  imports TrainerRegistry
begin

text \<open>
  The invariant of the registered trainers: rows that do not clash, and tunnels that belong to rows, forward their
  ports and hold exactly the connections that are open. Every operation keeps it, however it ends.
\<close>

section \<open>Tunnels and connections\<close>

definition held :: "(string \<rightharpoonup> ssh_tunnel) \<Rightarrow> nat set" where
  "held tns = {n. \<exists>i t. tns i = Some t \<and> tn_transport t = Some n}"

definition one_holder :: "(string \<rightharpoonup> ssh_tunnel) \<Rightarrow> bool" where
  "one_holder tns \<longleftrightarrow> (\<forall>i j t u n. tns i = Some t \<and> tns j = Some u \<and> tn_transport t = Some n \<and> tn_transport u = Some n \<longrightarrow> i = j)"

text \<open>What is open is held by exactly one tunnel, and was opened before.\<close>

definition transports_ok :: "(string \<rightharpoonup> ssh_tunnel) \<Rightarrow> transports \<Rightarrow> bool" where
  "transports_ok tns w \<longleftrightarrow> tp_open w = held tns \<and> one_holder tns \<and> held tns \<subseteq> {..< tp_dials w}"


definition port_kept :: "ssh_tunnel \<Rightarrow> bool" where
  "port_kept t \<longleftrightarrow> tn_fixed_port t \<and> tn_local_port t \<notin> {None, Some 0}"











section \<open>The rows\<close>

definition apart :: "RemoteTrainer \<Rightarrow> RemoteTrainer \<Rightarrow> bool" where
  "apart a b =
     (case (rt_connection a, rt_connection b) of
        (Ssh c, Ssh d) \<Rightarrow> \<not> same_ssh_container c d
      | (Direct u, Direct v) \<Rightarrow> u \<noteq> v
      | _ \<Rightarrow> True)"

definition port_assigned :: "RemoteTrainer \<Rightarrow> bool" where
  "port_assigned rt = (case rt_connection rt of Ssh c \<Rightarrow> sc_ssh_local_port c \<notin> {None, Some 0} | _ \<Rightarrow> True)"

definition trainer_rows_ok :: "RemoteTrainer list \<Rightarrow> bool" where
  "trainer_rows_ok rows \<longleftrightarrow> distinct (map rt_id rows) \<and> (\<forall>a \<in> set rows. \<forall>b \<in> set rows. rt_id a \<noteq> rt_id b \<longrightarrow> apart a b)
     \<and> (\<forall>a \<in> set rows. port_assigned a)"

definition tunnel_fits :: "RemoteTrainer list \<Rightarrow> string \<Rightarrow> ssh_tunnel \<Rightarrow> bool" where
  "tunnel_fits rows i t \<longleftrightarrow> (\<exists>rt c. rt \<in> set rows \<and> rt_id rt = i \<and> rt_connection rt = Ssh c
     \<and> tn_remote_port t = sc_ssh_remote_port c \<and> tn_local_port t = sc_ssh_local_port c \<and> port_kept t)"


definition trainers_ok :: "registry \<Rightarrow> bool" where
  "trainers_ok g \<longleftrightarrow> trainer_rows_ok (rg_rows g) \<and> transports_ok (rg_tunnels g) (rg_transports g)
     \<and> (\<forall>i t. rg_tunnels g i = Some t \<longrightarrow> tunnel_fits (rg_rows g) i t)"


lemma registry_ok_same [simp]:
  "trainers_ok (rg_effect e g) = trainers_ok g" "trainers_ok (g\<lparr>rg_installs := s\<rparr>) = trainers_ok g"
  "trainers_ok (g\<lparr>rg_launches := s\<rparr>) = trainers_ok g" "trainers_ok (cancel_launch i g) = trainers_ok g"
  "trainers_ok (start_in_background rt g) = trainers_ok g" "trainers_ok (end_install i g) = trainers_ok g"
  "trainers_ok (end_launch i g) = trainers_ok g"
  by (simp_all add: trainers_ok_def rg_effect_def cancel_launch_def start_in_background_def end_install_def end_launch_def)











section \<open>The operations\<close>






declare create_attempts.simps [simp del] update_attempts.simps [simp del]




















text \<open>A network that answers, or does not; a host by its alias.\<close>

definition example_env :: "bool \<Rightarrow> registry_env" where
  "example_env reachable = \<lparr>ge_dials = (\<lambda>n. \<lparr>td_connect = (if reachable then None else Some (OsError ''unreachable'')),
       td_forward = (\<lambda>p. None), td_any_port = 50000\<rparr>),
     ge_ssh_active = True, ge_active_job = (\<lambda>i. False), ge_uuid = (\<lambda>n. ''id''), ge_offered_ports = (\<lambda>n. [40001, 40002]),
     ge_conflict = (\<lambda>n. False), ge_stop = (\<lambda>rt d. None), ge_launch_failure = (\<lambda>i. None)\<rparr>"

definition example_ssh :: "string \<Rightarrow> int option \<Rightarrow> TrainerConnection" where
  "example_ssh alias port = Ssh \<lparr>sc_ssh_host_alias = Some alias, sc_ssh_connection = None, sc_ssh_remote_port = 8001, sc_ssh_local_port = port\<rparr>"


lemma alias_ok_examples: "alias_ok ''gpu''" "alias_ok ''box''"
  by (simp_all add: alias_ok_def is_alnum_def is_digit_def char_code_def)

lemmas registry_run = registry_after_def registry_step_def create_remote_trainer_def update_remote_trainer_def create_attempts.simps
  update_attempts.simps require_ssh_feature_if_tunneled_def assign_local_port_def ensure_unique_connection_def save_refused_def sync_tunnel_def
  save_row_def update_row_def delete_row_def close_locked_def open_locked_def open_tunnel_def connect_and_forward_def close_current_connection_def
  forward_port_def listen_def new_tunnel_def start_in_background_def rg_effect_def is_ssh_def ssh_of_def find_trainer_def
  validate_connection_update_def watch_tunnel_def close_tunnel_def clashes_def same_ssh_container_def wants_port_def
  valid_connection_def exactly_one_host_def port_in_range_def alias_ok_examples
  empty_registry_def example_env_def example_ssh_def Let_def bind_state_def numeral_2_eq_2

text \<open>
  A rename reconnects the tunnel although nothing of the connection changes, also while a job trains over it. Where the
  host cannot be reached at that time the rename is taken back, and the trainer is left without a tunnel.
\<close>

lemma failed_rename_closes_tunnel:
  fixes steps defines "steps \<equiv> [(example_env True, CreateTrainer ''lab'' (example_ssh ''gpu'' (Some 9000)) False),
    (example_env False, UpdateTrainer ''id'' (Some ''new'') None)]"
  shows "map rt_name (rg_rows (registry_after steps)) = [''lab'']" "rg_tunnels (registry_after (take 1 steps)) ''id'' \<noteq> None"
    "rg_tunnels (registry_after steps) ''id'' = None"
  unfolding steps_def by (simp_all add: registry_run)

text \<open>Nothing compares local ports: while the tunnel of a trainer is down its port is free, and another trainer gets it.\<close>

lemma local_port_shared:
  fixes steps defines "steps \<equiv> [(example_env True, CreateTrainer ''lab'' (example_ssh ''gpu'' (Some 9000)) False),
    (example_env False, TunnelDropped ''id'' 1),
    ((example_env True)\<lparr>ge_uuid := \<lambda>n. ''other''\<rparr>, CreateTrainer ''home'' (example_ssh ''box'' (Some 9000)) False)]"
  shows "map (connection_url \<circ> rt_connection) (rg_rows (registry_after steps)) = [Some (''http://127.0.0.1:'' @ int_str 9000), Some (''http://127.0.0.1:'' @ int_str 9000)]"
  unfolding steps_def by (simp add: registry_run connection_url_def)

end
