(* ===== verification/Spec2Isabelle.thy ===== *)
theory Spec2Isabelle
  imports TrainingJob TrainerUpload StudioSchedulerProps RuntimeRecordingProps RuntimeSourceProps RuntimeOwner RuntimeLink RuntimeWorker RuntimeCodec
    RemoteBackendProps SshConfigProps CameraClaims DatasetImportProps SetupWorkerRuns ZeroCalibration
    SshTransportProps TrainerHostProps TrainerRegistryProps
begin

text \<open>
  A model of Physical AI Studio, the backend under \<^verbatim>\<open>src/application/backend/src\<close> (paths below are
  relative to it) and the parts of the library \<^verbatim>\<open>src/library/src/physicalai\<close> it rests on. The studio
  collects demonstrations with robots, trains policies on them, here or on a trainer service, and runs
  the policies on the robots. Nine parts are modelled; each state is a record, each operation a
  function on it, an exception is the left summand of a result, and what threads, processes, clients
  and disks do in between is a list of events that a step function runs.

  The training runner. TrainingSpec is the specification of a job (\<^verbatim>\<open>training/job.py\<close>), TrainingJob the
  run itself: fit, checkpoint, publish, distill, export, with \<open>HF_TOKEN\<close> set around it. Training itself,
  exporters and policies are fields of an environment record. Shown: which specifications are
  accepted, what a finished, canceled or failed run leaves on the disk and in the environment, that a
  run with a successful fit returns.

  The trainer service. TrainerStore is the SQLite table (\<^verbatim>\<open>trainer/store.py\<close>), TrainerQueue the queue
  manager and the isolated child process (\<^verbatim>\<open>trainer/queue_worker.py\<close>, \<^verbatim>\<open>trainer/devices.py\<close>),
  ArchiveSafety the validation and extraction of uploads (library \<^verbatim>\<open>data/archive_safety.py\<close>), TrainerApi
  the HTTP handlers and the runner (\<^verbatim>\<open>trainer/api.py\<close>, \<^verbatim>\<open>trainer/runner.py\<close>), over the file system of
  FileSys. TrainerQueueInv and TrainerUpload show: one job per device and at most the configured number,
  statuses that only move forward, a dispatch loop that ends and leaves no usable slot empty, tokens
  that are not persisted, uploads that resume to exactly the archive however they are cut off, extraction
  that never leaves its directory, and what each end of a job removes.

  The studio's jobs. StudioPayload is the payload with its validators (\<^verbatim>\<open>schemas/job.py\<close>), StudioJobs the
  table and the service (\<^verbatim>\<open>repositories/job_repo.py\<close>, \<^verbatim>\<open>services/job_service.py\<close>), StudioScheduler the
  scheduler and the training worker (\<^verbatim>\<open>core/scheduler.py\<close>, \<^verbatim>\<open>workers/training_worker.py\<close>,
  \<^verbatim>\<open>api/job.py\<close>). StudioSchedulerInv and StudioSchedulerProps show: exclusive targets, interrupts that are
  never lost, final states, recovery after a crash, and that every payload accepted here gives a
  specification the runner accepts, which ties this part to the first.

  Training on a trainer service, seen from the studio. RemoteBackend is the backend that submits, uploads,
  waits, downloads and extracts (\<^verbatim>\<open>services/training_backends/remote.py\<close> and
  \<^verbatim>\<open>_training_methods.py\<close> beside it), over what the trainer and the network answer; its progress is computed
  on reals. RemoteBackendProps shows: what a run asks of the trainer fits the way it ends, percentages
  stay percentages, a resumed download extracts exactly the trainer's artifact.

  The robot session. RuntimeContract holds commands, events and queues (\<^verbatim>\<open>runtime/contract.py\<close>);
  RuntimeRecording the recording state, the command worker and the dataset mutation
  (\<^verbatim>\<open>runtime/callbacks/recording.py\<close>, \<^verbatim>\<open>runtime/command_thread.py\<close>, \<^verbatim>\<open>runtime/session.py\<close>); RuntimeSource
  the action source and the model loader (\<^verbatim>\<open>runtime/action_source.py\<close>, \<^verbatim>\<open>runtime/policy_loader.py\<close>);
  RuntimeCodec, RuntimeLink and RuntimeOwner the transport, its client and server, the name lock, the
  child process and attaching to it (\<^verbatim>\<open>runtime/transport\<close>, \<^verbatim>\<open>runtime/hosts\<close>, \<^verbatim>\<open>runtime/owner.py\<close>);
  RuntimeWorker the worker process with its watch over subscribers. The props theories and the ends of
  the others show: a stopped policy does not move the robot, a lost leader ends in hold, each policy is
  disposed of once, no saved episode is lost, commands are sent once and to one generation of a session,
  connecting ends attached to the right rig or holds nothing, an abandoned robot is held.

  Importing a dataset. ImportSchema is the data (\<^verbatim>\<open>schemas/dataset_import_job.py\<close>), DatasetAdapter the format
  adapter with the safe reader, the recording schema, the draft and the commit
  (\<^verbatim>\<open>services/dataset_import/adapters\<close>), DatasetImport the endpoints, the service and the worker
  (\<^verbatim>\<open>api/dataset_import.py\<close>, \<^verbatim>\<open>services/dataset_import/service.py\<close>,
  \<^verbatim>\<open>workers/dataset_import_worker.py\<close>) as events over the job table of StudioJobs and the disk; a worker
  step ends at a transaction of the source. JSON and Parquet decoding are fields of the environment. What the
  worker asks of an adapter is the locale \<open>adapter_contract\<close>, interpreted by the LeRobot adapter.
  DatasetAdapterProps and DatasetImportProps show: a commit stores the dataset and exactly the checked
  entries or leaves nothing, rows only move forward and completed ones name a stored dataset, an import that
  ends leaves no staged archive.

  Setting up robots. Coroutine is an event loop with its tasks, its lock, threads that outlive a cancellation, and
  programs that run from one \<^verbatim>\<open>await\<close> to the next; CoroutineRely what tasks may rely on of each other, with the
  locales \<open>serial_worker\<close>, \<open>rely_guarantee\<close> and \<open>appending\<close>. SetupWorker is the wizard of the SO101 arm
  (\<^verbatim>\<open>workers/robots/so101_setup_worker.py\<close>), ZeroCalibration the zero-pose calibration of plugin robots
  (\<^verbatim>\<open>workers/robots/robot_zero_calibration_worker.py\<close>), both on \<^verbatim>\<open>workers/transport_worker.py\<close>; buses, drivers
  and the client answer by events. The order in which tasks that wait for the lock get it is left open. Shown: calls of
  a bus or driver are made one at a time, a calibration that is written is what was measured, a verdict is about the
  observation just read; SetupWorkerRuns and the end of ZeroCalibration show sessions that go wrong.

  Trainers on hosts of the user. SshTransport is what is run over SSH and what comes back (\<^verbatim>\<open>services/ssh/transport.py\<close>,
  \<^verbatim>\<open>sanitize.py\<close>, \<^verbatim>\<open>host_keys.py\<close> beside it), TrainerHost the container of a trainer (\<^verbatim>\<open>persistent_trainer.py\<close>,
  \<^verbatim>\<open>docker_ops.py\<close>, \<^verbatim>\<open>trainer_image.py\<close>), HostSetup the installation of a host and its reboot
  (\<^verbatim>\<open>host_installer.py\<close>, \<^verbatim>\<open>services/remote_trainer_service.py\<close>), TrainerRegistry the trainers with their tunnels
  (the same service, \<^verbatim>\<open>services/remote_trainer_tunnel_manager.py\<close>, \<^verbatim>\<open>services/ssh/tunnel.py\<close>). An operation on a host
  is a function on a transcript of what was run and answered; the locale \<open>transcript_policy\<close> has the rules for a policy
  over transcripts and is interpreted on the policy of the studio. Shown: output is harmless, arguments arrive as they
  are, an image runs only after its signature was checked and confined, only what belongs to a trainer is removed,
  only an idle host is rebooted, tunnels and rows stay consistent. Connecting, the signature check and the bundled script
  answer from outside; a wait for a host that reboots is the 300 looks of the source.

  The studio's surroundings. SshConfig is the reader and the writer of \<^verbatim>\<open>~/.ssh/config\<close>
  (\<^verbatim>\<open>services/ssh_config_reader.py\<close>, \<^verbatim>\<open>services/ssh_config_writer.py\<close>), character by character, with
  \<open>shlex\<close>, line endings and includes; CameraClaims the pins that keep the settings of a camera while a
  session uses it (\<^verbatim>\<open>services/camera_claims.py\<close>, \<^verbatim>\<open>api/runtime_ws.py\<close>). Shown: reading ends, listing and
  resolving agree, credentials have no influence, a written entry is read back, a failed dial is taken
  back; pins agree and are kept until released.

  Prelude has the shared results, texts, tables and the locales: \<open>step_invariant\<close> and
  \<open>step_relation\<close> for machines that run events, interpreted by each component on its own step, and
  \<open>state_preorder\<close> for calls that may raise; RemoteBackendProps adds \<open>outcome_contract\<close>, for calls whose
  promise depends on how they end. Bounds and fuel: the four attempts of an upload and of a
  download are the source's retry limit; the dispatch loop of the trainer takes as
  fuel one more than the queued jobs, and the reader of the SSH configuration one level of nesting more than there
  are files, which their termination properties show is enough; polls of the studio and of waiting
  loops recurse over the list of answers they get, so a list of answers is a deadline; the jobs of the
  command worker are finite programs whose longest run is within the fuel of \<open>finalize_recording_now\<close>.
  Text is ASCII, so lower-casing and splitting are Python's on ASCII.

  Not modelled: the AWS backend, the dialing of SSH connections, runtime configuration, the LeRobot dataset clients,
  database mappers and migrations, FastAPI routes, settings and logging, the user interface, and in the library the neural networks, Lightning
  training, exporters, gyms and benchmarks, whose content is tensor arithmetic of PyTorch. Lemmas with
  names such as \<open>start_during_save_is_ended\<close>, \<open>late_command_overtakes\<close>, \<open>policy_attached_after_shutdown\<close>,
  \<open>unquoted_value_is_cut\<close>, \<open>failed_reconnect_unpins_session\<close>, \<open>canceled_import_is_finalized\<close>,
  \<open>rehomed_ranges_are_stale\<close>, \<open>current_image_pruned\<close>, \<open>failed_rename_closes_tunnel\<close>, \<open>second_start_drops_driver\<close>,
  \<open>stale_cancellation_overwrites\<close> and \<open>deadline_client_not_latched\<close> show places where the code does not do what its text says.
\<close>

end
